(* ===== verification/Base.thy ===== *)
theory Base
  imports Complex_Main "HOL-Library.AList" "HOL-Library.Char_ord" "HOL-Library.List_Lexorder"
    "HOL-Library.Word" "HOL-Library.Multiset"
begin

section \<open>Prelude: Python values, strings, bytes and results\<close>

text \<open>
  Shared vocabulary of the development.  It fixes how the Python values the engine passes
  around are represented, and collects the generic lemmas the component theories use.

  \<^item> A \<open>str\<close> is the character list of its UTF-8 encoding, so \<open>length\<close> is the encoded
    length.  Case mapping and stripping act on the ASCII characters.
  \<^item> A \<open>bytes\<close> object is a list of 8-bit words; slicing clips at the end as Python does.
  \<^item> A dictionary is an association list in insertion order; assignment keeps the position of
    an existing key and appends a new one (\<open>AList.update\<close>).
  \<^item> An operation that may raise returns \<open>'e + 'a\<close>, the exception on the left.
\<close>

named_theorems exn_defs \<open>constructors of the exception values\<close>
named_theorems guard_simps \<open>facts that split a chain of guards into its passing conditions\<close>

type_synonym byte = "8 word"
type_synonym bytes = "byte list"

subsection \<open>Python values\<close>

text \<open>A float is its repr together with its value when it is finite.\<close>

datatype pyfloat = PyFloat (fl_value: "rat option") (fl_repr: string)

datatype pyval =
    PNone
  | PBool bool
  | PInt int
  | PFloat pyfloat
  | PStr string
  | PBytes bytes
  | PList "pyval list"
  | PDict "(string \<times> pyval) list"

type_synonym dict = "(string \<times> pyval) list"

abbreviation dget :: "dict \<Rightarrow> string \<Rightarrow> pyval option" where
  "dget d k \<equiv> map_of d k"

definition dget_or :: "dict \<Rightarrow> string \<Rightarrow> pyval \<Rightarrow> pyval" where
  "dget_or d k v = (case map_of d k of None \<Rightarrow> v | Some w \<Rightarrow> w)"

abbreviation dset :: "string \<Rightarrow> pyval \<Rightarrow> dict \<Rightarrow> dict" where
  "dset k v d \<equiv> AList.update k v d"

fun opt_str :: "string option \<Rightarrow> pyval" where
  "opt_str None = PNone"
| "opt_str (Some s) = PStr s"

fun opt_int :: "int option \<Rightarrow> pyval" where
  "opt_int None = PNone"
| "opt_int (Some n) = PInt n"

fun truthy :: "pyval \<Rightarrow> bool" where
  "truthy PNone = False"
| "truthy (PBool b) = b"
| "truthy (PInt n) = (n \<noteq> 0)"
| "truthy (PFloat f) = (fl_value f \<noteq> Some 0)"
| "truthy (PStr s) = (s \<noteq> [])"
| "truthy (PBytes b) = (b \<noteq> [])"
| "truthy (PList xs) = (xs \<noteq> [])"
| "truthy (PDict d) = (d \<noteq> [])"

lemma dget_dset: "dget (dset k v d) k' = (if k' = k then Some v else dget d k')"
  by (simp add: update_conv)

subsection \<open>Strings\<close>

definition is_ws :: "char \<Rightarrow> bool" where
  "is_ws c \<longleftrightarrow> of_char c \<in> {9, 10, 11, 12, 13, 28, 29, 30, 31, 32 :: nat}"

definition strip :: "string \<Rightarrow> string" where
  "strip s = rev (dropWhile is_ws (rev (dropWhile is_ws s)))"

definition upper_char :: "char \<Rightarrow> char" where
  "upper_char c = (let n = of_char c :: nat in
     if 97 \<le> n \<and> n \<le> 122 then char_of (n - 32) else c)"

definition lower_char :: "char \<Rightarrow> char" where
  "lower_char c = (let n = of_char c :: nat in
     if 65 \<le> n \<and> n \<le> 90 then char_of (n + 32) else c)"

definition upper :: "string \<Rightarrow> string" where
  "upper s = List.map upper_char s"

definition lower :: "string \<Rightarrow> string" where
  "lower s = List.map lower_char s"

text \<open>Decimal and hexadecimal rendering of the f-strings.\<close>

definition digit_char :: "nat \<Rightarrow> char" where
  "digit_char d = (if d < 10 then char_of (48 + d) else char_of (87 + d))"

fun nat_str :: "nat \<Rightarrow> string" where
  "nat_str n = (if n < 10 then [digit_char n] else nat_str (n div 10) @ [digit_char (n mod 10)])"

declare nat_str.simps [simp del]

definition int_str :: "int \<Rightarrow> string" where
  "int_str i = (if i < 0 then CHR ''-'' # nat_str (nat (- i)) else nat_str (nat i))"

definition hex2 :: "nat \<Rightarrow> string" where
  "hex2 n = [digit_char (n div 16), digit_char (n mod 16)]"

definition hex_bytes :: "bytes \<Rightarrow> string" where
  "hex_bytes bs = concat (List.map (\<lambda>b. hex2 (unat b)) bs)"

fun join_str :: "string \<Rightarrow> string list \<Rightarrow> string" where
  "join_str sep [] = []"
| "join_str sep [x] = x"
| "join_str sep (x # y # ys) = x @ sep @ join_str sep (y # ys)"

fun is_prefix :: "'a list \<Rightarrow> 'a list \<Rightarrow> bool" where
  "is_prefix [] ys = True"
| "is_prefix (x # xs) [] = False"
| "is_prefix (x # xs) (y # ys) = (x = y \<and> is_prefix xs ys)"

lemma is_prefix_iff: "is_prefix p ys \<longleftrightarrow> take (length p) ys = p"
  by (induction p ys rule: is_prefix.induct) auto

text \<open>\<open>needle in haystack\<close>, and the position of the first occurrence at or after \<open>start\<close>
  (\<open>None\<close> for Python's \<open>-1\<close>).\<close>

fun is_infix :: "'a list \<Rightarrow> 'a list \<Rightarrow> bool" where
  "is_infix p [] = (p = [])"
| "is_infix p (y # ys) = (is_prefix p (y # ys) \<or> is_infix p ys)"

fun find_first :: "'a list \<Rightarrow> 'a list \<Rightarrow> nat option" where
  "find_first p [] = (if p = [] then Some 0 else None)"
| "find_first p (y # ys) =
     (if is_prefix p (y # ys) then Some 0 else map_option Suc (find_first p ys))"

definition find_from :: "'a list \<Rightarrow> 'a list \<Rightarrow> nat \<Rightarrow> nat option" where
  "find_from p ys start =
     (if start > length ys then None
      else map_option (\<lambda>i. start + i) (find_first p (drop start ys)))"

lemma find_first_Some:
  "find_first p ys = Some i \<Longrightarrow>
     is_prefix p (drop i ys) \<and> i + length p \<le> length ys \<and> (\<forall>j < i. \<not> is_prefix p (drop j ys))"
proof (induction ys arbitrary: i)
  case Nil
  then show ?case by (auto split: if_splits)
next
  case (Cons y ys)
  show ?case
  proof (cases "is_prefix p (y # ys)")
    case True
    then have "length p \<le> length (y # ys)"
      by (metis is_prefix_iff length_take min.cobounded1)
    with True Cons.prems show ?thesis by simp
  next
    case False
    with Cons.prems obtain k where k: "find_first p ys = Some k" "i = Suc k" by auto
    with Cons.IH have "is_prefix p (drop k ys)" "k + length p \<le> length ys"
      "\<forall>j < k. \<not> is_prefix p (drop j ys)" by auto
    with False k(2) show ?thesis by (auto simp: less_Suc_eq_0_disj)
  qed
qed

lemma find_first_None: "find_first p ys = None \<Longrightarrow> i \<le> length ys \<Longrightarrow> \<not> is_prefix p (drop i ys)"
proof (induction ys arbitrary: i)
  case Nil
  then show ?case by (cases p) (auto split: if_splits)
next
  case (Cons y ys)
  then show ?case by (cases i) (auto split: if_splits)
qed

lemma find_from_Some:
  assumes "find_from p ys s = Some i"
  shows "s \<le> i" "is_prefix p (drop i ys)" "i + length p \<le> length ys"
    "\<And>j. s \<le> j \<Longrightarrow> j < i \<Longrightarrow> \<not> is_prefix p (drop j ys)"
proof -
  from assms obtain k where s: "s \<le> length ys" and k: "find_first p (drop s ys) = Some k"
    and i: "i = s + k" by (auto simp: find_from_def split: if_splits)
  note f = find_first_Some [OF k]
  show "s \<le> i" by (simp add: i)
  show "is_prefix p (drop i ys)" using f by (simp add: i add.commute)
  show "i + length p \<le> length ys" using f s by (auto simp: i)
  show "\<not> is_prefix p (drop j ys)" if "s \<le> j" "j < i" for j
  proof -
    have "j - s < k" using that i by simp
    with f have "\<not> is_prefix p (drop (j - s) (drop s ys))" by blast
    with that show ?thesis by simp
  qed
qed

lemma find_from_None:
  assumes "find_from p ys s = None" "s \<le> i" "i \<le> length ys"
  shows "\<not> is_prefix p (drop i ys)"
proof -
  from assms have "find_first p (drop s ys) = None"
    by (auto simp: find_from_def split: if_splits)
  from find_first_None [OF this, of "i - s"] assms show ?thesis by simp
qed

lemma find_append: "find P (xs @ ys) = (case find P xs of None \<Rightarrow> find P ys | Some x \<Rightarrow> Some x)"
  by (induction xs) auto

subsection \<open>Bytes\<close>

definition slice :: "nat \<Rightarrow> nat \<Rightarrow> 'a list \<Rightarrow> 'a list" where
  "slice lo hi xs = take (hi - lo) (drop lo xs)"

fun le_nat :: "bytes \<Rightarrow> nat" where
  "le_nat [] = 0"
| "le_nat (b # bs) = unat b + 256 * le_nat bs"

definition be_nat :: "bytes \<Rightarrow> nat" where
  "be_nat bs = le_nat (rev bs)"

lemma length_slice [simp]: "length (slice lo hi xs) = min (hi - lo) (length xs - lo)"
  by (simp add: slice_def)

lemma unat_byte_less [simp]: "unat (b :: byte) < 256"
  using unsigned_less [of b] by simp

lemma le_nat_bound: "le_nat bs < 256 ^ length bs"
proof (induction bs)
  case (Cons b bs)
  have "le_nat (b # bs) < 256 + 256 * le_nat bs"
    using unat_byte_less [of b] by simp
  also have "\<dots> = 256 * Suc (le_nat bs)" by simp
  also have "\<dots> \<le> 256 * 256 ^ length bs" using Cons.IH by (intro mult_le_mono2) simp
  finally show ?case by simp
qed simp

subsection \<open>Results\<close>

fun bind_res :: "'e + 'a \<Rightarrow> ('a \<Rightarrow> 'e + 'b) \<Rightarrow> 'e + 'b" where
  "bind_res (Inl e) f = Inl e"
| "bind_res (Inr x) f = f x"

fun map_res :: "('a \<Rightarrow> 'b) \<Rightarrow> 'e + 'a \<Rightarrow> 'e + 'b" where
  "map_res f (Inl e) = Inl e"
| "map_res f (Inr x) = Inr (f x)"

fun traverse :: "('a \<Rightarrow> 'e + 'b) \<Rightarrow> 'a list \<Rightarrow> 'e + 'b list" where
  "traverse f [] = Inr []"
| "traverse f (x # xs) = bind_res (f x) (\<lambda>y. map_res (\<lambda>ys. y # ys) (traverse f xs))"

fun is_ok :: "'e + 'a \<Rightarrow> bool" where
  "is_ok (Inl e) = False"
| "is_ok (Inr x) = True"

lemma bind_res_eq_Inr [simp]: "bind_res m f = Inr y \<longleftrightarrow> (\<exists>x. m = Inr x \<and> f x = Inr y)"
  by (cases m) auto

lemma map_res_eq_Inr [simp]: "map_res f m = Inr y \<longleftrightarrow> (\<exists>x. m = Inr x \<and> y = f x)"
  by (cases m) auto

lemma is_ok_iff: "is_ok m \<longleftrightarrow> (\<exists>x. m = Inr x)"
  by (cases m) auto

lemma is_okE:
  assumes "is_ok m"
  obtains x where "m = Inr x"
  using assms by (auto simp: is_ok_iff)

lemma is_ok_bind: "is_ok (bind_res m f) \<longleftrightarrow> (\<exists>x. m = Inr x \<and> is_ok (f x))"
  by (cases m) auto

lemma bind_res_cong [fundef_cong]:
  "m = m' \<Longrightarrow> (\<And>x. m' = Inr x \<Longrightarrow> f x = g x) \<Longrightarrow> bind_res m f = bind_res m' g"
  by (cases m') auto

lemma traverse_cong [fundef_cong]:
  "xs = ys \<Longrightarrow> (\<And>x. x \<in> set ys \<Longrightarrow> f x = g x) \<Longrightarrow> traverse f xs = traverse g ys"
  by (induction ys arbitrary: xs) auto

lemma map_res_cong [fundef_cong]:
  "m = m' \<Longrightarrow> (\<And>x. m' = Inr x \<Longrightarrow> f x = g x) \<Longrightarrow> map_res f m = map_res g m'"
  by (cases m') auto

lemma size_dict_value [termination_simp]:
  "(k, v) \<in> set d \<Longrightarrow> size v < Suc (size_list (\<lambda>x. Suc (size (snd x))) d)"
  by (induction d) auto

lemma traverse_Inr_length: "traverse f xs = Inr ys \<Longrightarrow> length ys = length xs"
  by (induction xs arbitrary: ys) auto

lemma traverse_Inr_nth: "traverse f xs = Inr ys \<Longrightarrow> i < length xs \<Longrightarrow> f (xs ! i) = Inr (ys ! i)"
proof (induction xs arbitrary: ys i)
  case (Cons x xs)
  then show ?case by (cases i) auto
qed simp

lemma traverse_map_Inr: "(\<And>x. x \<in> set xs \<Longrightarrow> f (g x) = Inr x) \<Longrightarrow> traverse f (List.map g xs) = Inr xs"
  by (induction xs) auto

lemma guard_Inr [guard_simps]: "(if c then Inl e else m) = Inr y \<longleftrightarrow> \<not> c \<and> m = Inr y"
  by simp

subsection \<open>Integers and lists\<close>

text \<open>\<open>math.ceil(a / b)\<close> for the sizes and offsets of an image.\<close>

definition ceil_div :: "int \<Rightarrow> int \<Rightarrow> int" where
  "ceil_div a b = - ((- a) div b)"

lemma ceil_div_mult: "ceil_div a b * b = a + (- a) mod b"
proof -
  have "- a = (- a) div b * b + (- a) mod b" by simp
  then have "- ((- a) div b * b) = a + (- a) mod b" by linarith
  then show ?thesis by (simp add: ceil_div_def)
qed

lemma ceil_div_ge: "0 < b \<Longrightarrow> a \<le> ceil_div a b * b"
  by (simp add: ceil_div_mult)

lemma ceil_div_less: "0 < b \<Longrightarrow> ceil_div a b * b < a + b"
  by (simp add: ceil_div_mult)

lemma ceil_div_nonneg: "0 < b \<Longrightarrow> 0 \<le> a \<Longrightarrow> 0 \<le> ceil_div a b"
  by (simp add: ceil_div_def div_nonpos_pos_le0)

lemma ceil_div_dvd: "0 < b \<Longrightarrow> b dvd a \<Longrightarrow> ceil_div a b * b = a"
  by (simp add: ceil_div_def)

text \<open>\<open>dict.fromkeys\<close> keeps the first occurrence of every element.\<close>

fun dedup_keep :: "'a list \<Rightarrow> 'a list \<Rightarrow> 'a list" where
  "dedup_keep seen [] = []"
| "dedup_keep seen (x # xs) =
     (if x \<in> set seen then dedup_keep seen xs else x # dedup_keep (x # seen) xs)"

end
