(* ===== verification/Errors.thy ===== *)
theory Errors
  imports Base
begin

section \<open>Structured errors\<close>

text \<open>
  The exceptions of the engine (\<open>domain/errors/__init__.py\<close>), of the MCP product layer
  (\<open>apex_mcp/errors.py\<close>) and of the backend, as values.  \<open>apex_error\<close> and
  \<open>mcp_error\<close> are the two base classes; every subclass is the constructor function that its
  \<open>__init__\<close> is.  \<open>exn\<close> is the type of everything an operation can raise;
  \<open>PyExn\<close> holds the class name of a built-in exception.
\<close>

subsection \<open>Core errors\<close>

record apex_error =
  ae_code :: string
  ae_message_key :: string
  ae_developer_message :: "string option"
  ae_target :: "string option"
  ae_retryable :: bool
  ae_details :: dict

record mcp_error =
  me_code :: string
  me_developer_message :: string
  me_target :: "string option"
  me_retryable :: bool
  me_details :: dict

datatype exn =
    ApexExn apex_error
  | McpExn mcp_error
  | PyExn string
  | AuthExn string
  | HttpExn int string

type_synonym 'a res = "exn + 'a"

definition to_api_error :: "apex_error \<Rightarrow> dict" where
  "to_api_error e =
     [(''code'', PStr (ae_code e)),
      (''message_key'', PStr (ae_message_key e)),
      (''developer_message'', opt_str (ae_developer_message e)),
      (''target'', opt_str (ae_target e)),
      (''retryable'', PBool (ae_retryable e)),
      (''details'', PDict (ae_details e))]"

definition apex_base :: "string \<Rightarrow> string \<Rightarrow> bool \<Rightarrow> exn" where
  "apex_base code key retryable =
     ApexExn \<lparr>ae_code = code, ae_message_key = key, ae_developer_message = None,
       ae_target = None, ae_retryable = retryable, ae_details = []\<rparr>"

definition validation_error_with :: "string \<Rightarrow> string option \<Rightarrow> dict \<Rightarrow> exn" where
  "validation_error_with msg target details =
     ApexExn \<lparr>ae_code = ''VALIDATION_ERROR'', ae_message_key = ''error.validation'',
       ae_developer_message = Some msg, ae_target = target, ae_retryable = False,
       ae_details = details\<rparr>"

definition validation_error :: "string \<Rightarrow> string option \<Rightarrow> exn" where
  "validation_error msg target = validation_error_with msg target []"

definition not_found_error :: "string \<Rightarrow> string \<Rightarrow> string option \<Rightarrow> exn" where
  "not_found_error code msg target =
     ApexExn \<lparr>ae_code = code, ae_message_key = ''error.'' @ lower code,
       ae_developer_message = Some msg, ae_target = target, ae_retryable = False,
       ae_details = []\<rparr>"

definition unsupported_capability_error ::
  "string \<Rightarrow> string option \<Rightarrow> string option \<Rightarrow> exn" where
  "unsupported_capability_error msg target cap =
     ApexExn \<lparr>ae_code = ''CAPABILITY_UNAVAILABLE'',
       ae_message_key = ''error.evidence.capability_unavailable'',
       ae_developer_message = Some msg, ae_target = target, ae_retryable = False,
       ae_details = (case cap of None \<Rightarrow> [] | Some c \<Rightarrow> [(''required_capability'', PStr c)])\<rparr>"

definition operation_cancelled_error :: "string \<Rightarrow> exn" where
  "operation_cancelled_error msg =
     ApexExn \<lparr>ae_code = ''OPERATION_CANCELLED'', ae_message_key = ''error.operation_cancelled'',
       ae_developer_message = Some msg, ae_target = None, ae_retryable = True, ae_details = []\<rparr>"

definition state_conflict_error :: "string \<Rightarrow> string option \<Rightarrow> exn" where
  "state_conflict_error msg target =
     ApexExn \<lparr>ae_code = ''STATE_CONFLICT'', ae_message_key = ''error.state_conflict'',
       ae_developer_message = Some msg, ae_target = target, ae_retryable = False,
       ae_details = []\<rparr>"

text \<open>\<open>ContextError\<close> (and its siblings, which only differ in the class) with the code and
  retry flag of the call.\<close>

definition context_error ::
  "string \<Rightarrow> string \<Rightarrow> string option \<Rightarrow> bool \<Rightarrow> dict \<Rightarrow> exn" where
  "context_error code msg target retryable details =
     ApexExn \<lparr>ae_code = code, ae_message_key = ''error.'' @ lower code,
       ae_developer_message = Some msg, ae_target = target, ae_retryable = retryable,
       ae_details = details\<rparr>"

definition context_expired_error :: "string \<Rightarrow> string option \<Rightarrow> exn" where
  "context_expired_error msg target = context_error ''CONTEXT_EXPIRED'' msg target False []"

lemmas apex_exn_defs [exn_defs] =
  apex_base_def validation_error_def validation_error_with_def not_found_error_def
  unsupported_capability_error_def operation_cancelled_error_def state_conflict_error_def
  context_error_def context_expired_error_def

subsection \<open>MCP errors\<close>

definition mcp_exn :: "string \<Rightarrow> string \<Rightarrow> string option \<Rightarrow> dict \<Rightarrow> exn" where
  "mcp_exn code msg target details =
     McpExn \<lparr>me_code = code, me_developer_message = msg, me_target = target,
       me_retryable = False, me_details = details\<rparr>"

definition interface_compatibility_error :: "string \<Rightarrow> dict \<Rightarrow> exn" where
  "interface_compatibility_error msg details =
     mcp_exn ''INTERFACE_VERSION_INCOMPATIBLE'' msg (Some ''engine_interface'') details"

definition descriptor_validation_error :: "string \<Rightarrow> string option \<Rightarrow> exn" where
  "descriptor_validation_error msg target = mcp_exn ''DESCRIPTOR_VALIDATION_FAILED'' msg target []"

definition tool_registration_error :: "string \<Rightarrow> string option \<Rightarrow> exn" where
  "tool_registration_error msg target = mcp_exn ''TOOL_REGISTRATION_DENIED'' msg target []"

definition capability_gate_error :: "string list \<Rightarrow> exn" where
  "capability_gate_error missing =
     mcp_exn ''CAPABILITY_UNAVAILABLE'' ''The tool requires unavailable capabilities.''
       (Some ''required_capabilities'')
       [(''missing_capabilities'', PList (List.map PStr (sort missing)))]"

definition confirmation_required_error :: "string \<Rightarrow> exn" where
  "confirmation_required_error tool =
     mcp_exn ''HUMAN_CONFIRMATION_REQUIRED'' ''A server-verified human confirmation is required.''
       (Some ''confirmation'') [(''tool_name'', PStr tool)]"

definition authenticated_actor_required_error :: "string \<Rightarrow> exn" where
  "authenticated_actor_required_error tool =
     mcp_exn ''MCP_AUTHENTICATED_ACTOR_REQUIRED''
       ''A trusted authenticated actor is required for this human action.''
       (Some ''actor_id'') [(''tool_name'', PStr tool)]"

definition mcp_authorization_denied_error :: "string \<Rightarrow> string list \<Rightarrow> exn" where
  "mcp_authorization_denied_error tool required =
     mcp_exn ''MCP_AUTHORIZATION_DENIED''
       ''The authenticated frontend session is not authorized for this tool.''
       (Some ''authorization'')
       [(''tool_name'', PStr tool), (''required'', PList (List.map PStr required))]"

definition mcp_tenant_scope_violation_error :: "string \<Rightarrow> exn" where
  "mcp_tenant_scope_violation_error tool =
     mcp_exn ''MCP_TENANT_SCOPE_VIOLATION''
       ''The requested case is outside the authenticated frontend session scope.''
       (Some ''case_id'') [(''tool_name'', PStr tool)]"

definition tool_input_validation_error :: "string \<Rightarrow> string option \<Rightarrow> exn" where
  "tool_input_validation_error msg target = mcp_exn ''VALIDATION_ERROR'' msg target []"

definition tool_output_validation_error :: "string \<Rightarrow> string option \<Rightarrow> exn" where
  "tool_output_validation_error msg target = mcp_exn ''MCP_OUTPUT_VALIDATION_FAILED'' msg target []"

definition tool_budget_exceeded_error :: "string \<Rightarrow> exn" where
  "tool_budget_exceeded_error limit =
     mcp_exn ''MCP_BUDGET_EXCEEDED'' ''The MCP safety budget was exceeded.'' (Some limit)
       [(''limit'', PStr limit)]"

definition pagination_loop_error :: exn where
  "pagination_loop_error =
     mcp_exn ''MCP_PAGINATION_LOOP''
       ''The same opaque pagination cursor was reused in one budget window.''
       (Some ''cursor'') []"

definition tool_not_found_error :: "string \<Rightarrow> exn" where
  "tool_not_found_error tool =
     mcp_exn ''TOOL_NOT_FOUND'' ''The requested tool is not registered.'' (Some ''tool_name'')
       [(''tool_name'', PStr tool)]"

lemmas mcp_exn_defs [exn_defs] =
  mcp_exn_def interface_compatibility_error_def descriptor_validation_error_def
  tool_registration_error_def capability_gate_error_def confirmation_required_error_def
  authenticated_actor_required_error_def mcp_authorization_denied_error_def
  mcp_tenant_scope_violation_error_def tool_input_validation_error_def
  tool_output_validation_error_def tool_budget_exceeded_error_def pagination_loop_error_def
  tool_not_found_error_def

end
