(* ===== verification/Evidence.thy ===== *)
theory Evidence
  imports Errors
begin

section \<open>Evidence readers: RAW images and the source-identity guard\<close>

text \<open>
  \<open>adapters/evidence/raw.py\<close> (\<open>RawImageReader\<close>), \<open>adapters/evidence/guarded.py\<close>
  (\<open>GuardedEvidenceReader\<close>), \<open>assert_source_identity\<close> of
  \<open>adapters/evidence/source_identity.py\<close> and the read contract of
  \<open>ports/evidence_reader.py\<close>.

  What the operating system answers is data of the model: a \<open>path_view\<close> is what \<open>Path\<close>
  and \<open>os.open\<close>/\<open>fstat\<close> report for one path, and \<open>rr_pread\<close> is \<open>os.pread\<close> on the
  opened descriptor (\<open>Inl\<close> the text of an \<open>OSError\<close>).  The locale \<open>bounded_reader\<close>
  is the contract of the port: a bounded range read is total and short only at the end of the
  image; both readers are instances of it.
\<close>

definition max_evidence_read_size :: int where
  "max_evidence_read_size = 16 * 1024 * 1024"

datatype evidence_format = DIRECTORY | RAW | DD | IMG | E01 | VHD | VHDX

fun evidence_format_value :: "evidence_format \<Rightarrow> string" where
  "evidence_format_value DIRECTORY = ''DIRECTORY''"
| "evidence_format_value RAW = ''RAW''"
| "evidence_format_value DD = ''DD''"
| "evidence_format_value IMG = ''IMG''"
| "evidence_format_value E01 = ''E01''"
| "evidence_format_value VHD = ''VHD''"
| "evidence_format_value VHDX = ''VHDX''"

subsection \<open>RAW images\<close>

record path_view =
  pv_suffix :: string
  pv_normalized :: string
  pv_symlink :: bool
  pv_exists :: bool
  pv_is_file :: bool
  pv_open_error :: "string option"
  pv_st_size :: int

record raw_reader =
  rr_path :: path_view
  rr_format :: evidence_format
  rr_sector_size :: int
  rr_max_read_size :: int
  rr_fd :: bool
  rr_size :: "int option"
  rr_closed :: bool
  rr_pread :: "nat \<Rightarrow> nat \<Rightarrow> string + bytes"

definition raw_format_for_path :: "path_view \<Rightarrow> evidence_format" where
  "raw_format_for_path p =
     (let s = lower (pv_suffix p) in
      if s = ''.dd'' then DD else if s = ''.img'' then IMG else if s = ''.raw'' then RAW else RAW)"

definition raw_init :: "path_view \<Rightarrow> evidence_format option \<Rightarrow> int \<Rightarrow> int \<Rightarrow>
    (nat \<Rightarrow> nat \<Rightarrow> string + bytes) \<Rightarrow> raw_reader res" where
  "raw_init p fmt sector_size max_read_size pread =
     (if sector_size \<le> 0 then
        Inl (validation_error ''sector_size must be greater than zero.'' (Some ''sector_size''))
      else if max_read_size \<le> 0 then
        Inl (validation_error ''max_read_size must be greater than zero.'' (Some ''max_read_size''))
      else Inr \<lparr>rr_path = p,
             rr_format = (case fmt of None \<Rightarrow> raw_format_for_path p | Some f \<Rightarrow> f),
             rr_sector_size = sector_size, rr_max_read_size = max_read_size, rr_fd = False,
             rr_size = None, rr_closed = True, rr_pread = pread\<rparr>)"

definition raw_normalize_path :: "path_view \<Rightarrow> string res" where
  "raw_normalize_path p =
     (if pv_symlink p then
        Inl (unsupported_capability_error
          ''Symbolic links and reparse points are not followed by evidence readers.''
          (Some ''path'') (Some ''SYMLINK_POLICY''))
      else if \<not> pv_exists p then
        Inl (validation_error ''Evidence path does not exist.'' (Some ''path''))
      else if \<not> pv_is_file p then
        Inl (validation_error ''Evidence path is not a regular file.'' (Some ''path''))
      else Inr (pv_normalized p))"

definition raw_open_readonly :: "raw_reader \<Rightarrow> raw_reader res" where
  "raw_open_readonly r =
     (if \<not> rr_closed r then Inr r
      else bind_res (raw_normalize_path (rr_path r)) (\<lambda>normalized.
        case pv_open_error (rr_path r) of
          Some msg \<Rightarrow>
            Inl (validation_error_with ''Evidence source cannot be opened read-only.''
              (Some ''path'') [(''path'', PStr normalized), (''error'', PStr msg)])
        | None \<Rightarrow>
            (if \<not> pv_is_file (rr_path r) then
               Inl (validation_error ''Evidence path is not a regular file.'' (Some ''path''))
             else Inr (r\<lparr>rr_fd := True, rr_size := Some (pv_st_size (rr_path r)),
                         rr_closed := False\<rparr>))))"

definition raw_ensure_open :: "raw_reader \<Rightarrow> unit res" where
  "raw_ensure_open r =
     (if rr_closed r \<or> \<not> rr_fd r
      then Inl (validation_error ''Evidence reader is closed.'' (Some ''reader''))
      else Inr ())"

text \<open>The \<open>assert self._size is not None\<close> of the property raises \<open>AssertionError\<close>.\<close>

definition raw_size :: "raw_reader \<Rightarrow> int res" where
  "raw_size r = bind_res (raw_ensure_open r) (\<lambda>_.
     case rr_size r of None \<Rightarrow> Inl (PyExn ''AssertionError'') | Some n \<Rightarrow> Inr n)"

definition raw_read_at :: "raw_reader \<Rightarrow> int \<Rightarrow> int \<Rightarrow> bytes res" where
  "raw_read_at r offset n =
     bind_res (raw_ensure_open r) (\<lambda>_.
       if offset < 0 then
         Inl (validation_error ''offset must be non-negative.'' (Some ''offset''))
       else if n < 0 then
         Inl (validation_error ''length must be non-negative.'' (Some ''length''))
       else if n > rr_max_read_size r then
         Inl (validation_error_with ''Requested read length exceeds the evidence reader limit.''
           (Some ''length'') [(''max_read_size'', PInt (rr_max_read_size r))])
       else if n = 0 then Inr []
       else bind_res (raw_size r) (\<lambda>size.
         if offset \<ge> size then Inr []
         else let bounded_length = min n (size - offset) in
           case rr_pread r (nat offset) (nat bounded_length) of
             Inr bs \<Rightarrow> Inr bs
           | Inl msg \<Rightarrow>
               Inl (validation_error_with ''Evidence range read failed.'' (Some ''offset'')
                 [(''offset'', PInt offset), (''length'', PInt bounded_length),
                  (''error'', PStr msg)])))"

definition raw_close :: "raw_reader \<Rightarrow> raw_reader" where
  "raw_close r = (if rr_closed r then r else r\<lparr>rr_fd := False, rr_closed := True\<rparr>)"

text \<open>What a probe reports without opening the file: format, support, sector size, the codes of
  its warnings, and the reason why the file cannot be read.\<close>

definition raw_probe ::
  "path_view \<Rightarrow> evidence_format \<times> bool \<times> int option \<times> string list \<times> string option" where
  "raw_probe p =
     (if pv_symlink p then
        (raw_format_for_path p, False, Some 512, [''SYMLINK_REJECTED''], Some ''SYMLINK_POLICY'')
      else if \<not> pv_exists p \<or> \<not> pv_is_file p then
        (raw_format_for_path p, False, None, [], Some ''NOT_REGULAR_FILE'')
      else (raw_format_for_path p, True, Some 512, [], None))"

subsection \<open>The source-identity guard\<close>

text \<open>
  \<open>capture_source_identity\<close> walks the file system; its outcome at one moment is an argument.
\<close>

definition raw_source_changed :: "string \<Rightarrow> dict \<Rightarrow> exn" where
  "raw_source_changed msg details = context_error ''RAW_SOURCE_CHANGED'' msg None False details"

definition assert_source_identity :: "pyval res \<Rightarrow> pyval \<Rightarrow> unit res" where
  "assert_source_identity captured expected =
     (case expected of
        PDict d \<Rightarrow>
          if dget d ''version'' \<noteq> Some (PInt 1) then
            Inl (raw_source_changed
              ''Image identity is missing; validate legacy single-file evidence with SHA256 or register the source again before reading.''
              [(''reason'', PStr ''SOURCE_IDENTITY_REQUIRED'')])
          else bind_res captured (\<lambda>now.
            if now \<noteq> expected then
              Inl (raw_source_changed
                ''Image source differs from its registered identity; do not reuse its index.'' [])
            else Inr ())
      | _ \<Rightarrow>
          Inl (raw_source_changed
            ''Image identity is missing; validate legacy single-file evidence with SHA256 or register the source again before reading.''
            [(''reason'', PStr ''SOURCE_IDENTITY_REQUIRED'')]))"

definition guarded_read_at ::
  "pyval \<Rightarrow> pyval res \<Rightarrow> pyval res \<Rightarrow> (int \<Rightarrow> int \<Rightarrow> bytes res) \<Rightarrow> int \<Rightarrow> int \<Rightarrow> bytes res" where
  "guarded_read_at identity before after read offset n =
     bind_res (assert_source_identity before identity) (\<lambda>_.
       bind_res (read offset n) (\<lambda>result.
         bind_res (assert_source_identity after identity) (\<lambda>_. Inr result)))"

text \<open>\<open>open_readonly\<close> closes the inner reader again when either check or the opening fails;
  the second component is the inner reader afterwards.\<close>

definition guarded_open_readonly ::
  "pyval \<Rightarrow> pyval res \<Rightarrow> pyval res \<Rightarrow> raw_reader \<Rightarrow> unit res \<times> raw_reader" where
  "guarded_open_readonly identity before after r =
     (case assert_source_identity before identity of
        Inl e \<Rightarrow> (Inl e, r)
      | Inr _ \<Rightarrow>
          (case raw_open_readonly r of
             Inl e \<Rightarrow> (Inl e, raw_close r)
           | Inr r' \<Rightarrow>
               (case assert_source_identity after identity of
                  Inl e \<Rightarrow> (Inl e, raw_close r')
                | Inr _ \<Rightarrow> (Inr (), r'))))"

text \<open>\<open>__exit__\<close> checks the source once more on a clean exit, and always closes.\<close>

definition guarded_exit :: "pyval \<Rightarrow> pyval res \<Rightarrow> bool \<Rightarrow> raw_reader \<Rightarrow> unit res \<times> raw_reader" where
  "guarded_exit identity now failed r =
     (if failed then (Inr (), raw_close r)
      else (assert_source_identity now identity, raw_close r))"

subsection \<open>The reader the parsers use\<close>

record reader =
  rd_id :: string
  rd_version :: string
  rd_size :: int
  rd_sector_size :: int
  rd_read_at :: "int \<Rightarrow> int \<Rightarrow> bytes res"

definition raw_view :: "raw_reader \<Rightarrow> reader" where
  "raw_view r = \<lparr>rd_id = ''apex.raw_image_reader'', rd_version = ''0.1.0'',
     rd_size = (case rr_size r of None \<Rightarrow> 0 | Some n \<Rightarrow> n),
     rd_sector_size = rr_sector_size r, rd_read_at = raw_read_at r\<rparr>"

text \<open>A guarded reader over a source that keeps one observable identity while it is open.\<close>

record guarded_reader =
  gr_inner :: raw_reader
  gr_identity :: pyval
  gr_observed :: "pyval res"

definition guarded_view :: "guarded_reader \<Rightarrow> reader" where
  "guarded_view g = (raw_view (gr_inner g))\<lparr>rd_read_at :=
     guarded_read_at (gr_identity g) (gr_observed g) (gr_observed g) (raw_read_at (gr_inner g))\<rparr>"

locale bounded_reader =
  fixes view :: "'s \<Rightarrow> reader"
    and content :: "'s \<Rightarrow> bytes"
    and ready :: "'s \<Rightarrow> bool"
    and max_read :: "'s \<Rightarrow> int"
  assumes sector_pos: "ready s \<Longrightarrow> 0 < rd_sector_size (view s)"
    and size_content: "ready s \<Longrightarrow> rd_size (view s) = int (length (content s))"
    and read_range: "ready s \<Longrightarrow> 0 \<le> off \<Longrightarrow> 0 \<le> n \<Longrightarrow> n \<le> max_read s \<Longrightarrow>
      rd_read_at (view s) off n = Inr (slice (nat off) (nat (off + n)) (content s))"
    and read_rejects: "ready s \<Longrightarrow> off < 0 \<or> n < 0 \<or> n > max_read s \<Longrightarrow>
      \<exists>e. rd_read_at (view s) off n = Inl e"
begin

lemma read_short_only_at_end:
  assumes "ready s" "0 \<le> off" "0 \<le> n" "n \<le> max_read s"
  shows "\<exists>bs. rd_read_at (view s) off n = Inr bs \<and>
    int (length bs) = max 0 (min n (rd_size (view s) - off))"
  using assms by (auto simp: read_range size_content)

lemma read_ok_iff:
  assumes "ready s"
  shows "is_ok (rd_read_at (view s) off n) \<longleftrightarrow> 0 \<le> off \<and> 0 \<le> n \<and> n \<le> max_read s"
proof
  assume "is_ok (rd_read_at (view s) off n)"
  then have "\<nexists>e. rd_read_at (view s) off n = Inl e" by (auto simp: is_ok_iff)
  with read_rejects [OF assms, of off n] show "0 \<le> off \<and> 0 \<le> n \<and> n \<le> max_read s"
    by (meson not_le)
next
  assume "0 \<le> off \<and> 0 \<le> n \<and> n \<le> max_read s"
  with read_range [OF assms] show "is_ok (rd_read_at (view s) off n)" by (simp add: is_ok_iff)
qed

text \<open>Two adjacent reads are the read of the whole range.\<close>

lemma read_adjacent:
  assumes "ready s" "0 \<le> off" "0 \<le> m" "0 \<le> n" "m + n \<le> max_read s"
    and "rd_read_at (view s) off m = Inr a" and "rd_read_at (view s) (off + m) n = Inr b"
  shows "rd_read_at (view s) off (m + n) = Inr (a @ b)"
proof -
  have a: "a = slice (nat off) (nat (off + m)) (content s)"
    using assms read_range [of s off m] by simp
  have b: "b = slice (nat (off + m)) (nat (off + m + n)) (content s)"
    using assms read_range [of s "off + m" n] by simp
  have r: "rd_read_at (view s) off (m + n) =
      Inr (slice (nat off) (nat (off + (m + n))) (content s))"
    using assms by (intro read_range) auto
  obtain i j k where n: "off = int i" "m = int j" "n = int k"
    using assms(2-4) by (metis zero_le_imp_eq_int)
  have "slice i (i + (j + k)) (content s) = slice i (i + j) (content s) @
      slice (i + j) (i + j + k) (content s)"
    by (simp add: slice_def take_add add.commute)
  with a b r n show ?thesis by (simp add: nat_add_distrib add.assoc)
qed

end

subsection \<open>Both readers keep the contract\<close>

definition raw_content :: "raw_reader \<Rightarrow> bytes" where
  "raw_content r = (case rr_pread r 0 (nat (case rr_size r of None \<Rightarrow> 0 | Some n \<Rightarrow> n)) of
     Inl _ \<Rightarrow> [] | Inr bs \<Rightarrow> bs)"

text \<open>An open reader over a regular file of the recorded size: \<open>pread\<close> answers with the bytes
  of the range that the file has.\<close>

definition raw_ready :: "raw_reader \<Rightarrow> bool" where
  "raw_ready r \<longleftrightarrow> \<not> rr_closed r \<and> rr_fd r \<and> 0 < rr_sector_size r \<and>
     (\<exists>file. rr_size r = Some (int (length file)) \<and>
        (\<forall>off n. rr_pread r off n = Inr (slice off (off + n) file)))"

lemma raw_ready_content:
  assumes "raw_ready r"
  shows "rr_size r = Some (int (length (raw_content r)))"
    and "rr_pread r off n = Inr (slice off (off + n) (raw_content r))"
  using assms by (auto simp: raw_ready_def raw_content_def slice_def)

lemma raw_read_at_range:
  assumes "raw_ready r" "0 \<le> off" "0 \<le> n" "n \<le> rr_max_read_size r"
  shows "raw_read_at r off n = Inr (slice (nat off) (nat (off + n)) (raw_content r))"
proof -
  let ?file = "raw_content r"
  have o: "raw_ensure_open r = Inr ()"
    using assms(1) by (simp add: raw_ready_def raw_ensure_open_def)
  have s: "raw_size r = Inr (int (length ?file))"
    by (simp add: raw_size_def o raw_ready_content [OF assms(1)])
  consider "n = 0" | "n > 0" "off \<ge> int (length ?file)" | "n > 0" "off < int (length ?file)"
    using assms(3) by linarith
  then show ?thesis
  proof cases
    case 1
    then show ?thesis using assms by (simp add: raw_read_at_def o slice_def)
  next
    case 2
    then show ?thesis using assms by (simp add: raw_read_at_def o s slice_def)
  next
    case 3
    let ?k = "min n (int (length ?file) - off)"
    have "slice (nat off) (nat off + nat ?k) ?file = slice (nat off) (nat (off + n)) ?file"
      using 3 assms by (auto simp: slice_def min_def nat_add_distrib nat_diff_distrib)
    then show ?thesis
      using 3 assms
      by (simp add: raw_read_at_def o s Let_def raw_ready_content(2) [OF assms(1)])
  qed
qed

interpretation raw: bounded_reader raw_view raw_content raw_ready rr_max_read_size
proof
  fix r :: raw_reader
  assume "raw_ready r"
  then show "0 < rd_sector_size (raw_view r)"
    by (simp add: raw_view_def raw_ready_def)
next
  fix r :: raw_reader
  assume "raw_ready r"
  then show "rd_size (raw_view r) = int (length (raw_content r))"
    by (simp add: raw_view_def raw_ready_content(1))
next
  fix r :: raw_reader and off n :: int
  assume "raw_ready r" "0 \<le> off" "0 \<le> n" "n \<le> rr_max_read_size r"
  then show "rd_read_at (raw_view r) off n =
      Inr (slice (nat off) (nat (off + n)) (raw_content r))"
    by (simp add: raw_view_def raw_read_at_range)
next
  fix r :: raw_reader and off n :: int
  assume "raw_ready r" "off < 0 \<or> n < 0 \<or> n > rr_max_read_size r"
  then show "\<exists>e. rd_read_at (raw_view r) off n = Inl e"
    by (auto simp: raw_view_def raw_read_at_def raw_ready_def raw_ensure_open_def)
qed

lemma assert_source_identity_ok:
  "assert_source_identity captured expected = Inr u \<longleftrightarrow>
     captured = Inr expected \<and> (\<exists>d. expected = PDict d \<and> dget d ''version'' = Some (PInt 1))"
  by (cases expected) (auto simp: assert_source_identity_def)

definition guarded_ready :: "guarded_reader \<Rightarrow> bool" where
  "guarded_ready g \<longleftrightarrow> raw_ready (gr_inner g) \<and>
     assert_source_identity (gr_observed g) (gr_identity g) = Inr ()"

interpretation guarded: bounded_reader guarded_view "\<lambda>g. raw_content (gr_inner g)" guarded_ready
  "\<lambda>g. rr_max_read_size (gr_inner g)"
proof
  fix g :: guarded_reader
  assume "guarded_ready g"
  then show "0 < rd_sector_size (guarded_view g)"
    using raw.sector_pos [of "gr_inner g"] by (simp add: guarded_view_def guarded_ready_def)
next
  fix g :: guarded_reader
  assume "guarded_ready g"
  then show "rd_size (guarded_view g) = int (length (raw_content (gr_inner g)))"
    using raw.size_content [of "gr_inner g"] by (simp add: guarded_view_def guarded_ready_def)
next
  fix g :: guarded_reader and off n :: int
  assume "guarded_ready g" "0 \<le> off" "0 \<le> n" "n \<le> rr_max_read_size (gr_inner g)"
  then show "rd_read_at (guarded_view g) off n =
      Inr (slice (nat off) (nat (off + n)) (raw_content (gr_inner g)))"
    by (simp add: guarded_view_def guarded_ready_def guarded_read_at_def raw_read_at_range)
next
  fix g :: guarded_reader and off n :: int
  assume *: "guarded_ready g" "off < 0 \<or> n < 0 \<or> n > rr_max_read_size (gr_inner g)"
  then have "\<exists>e. raw_read_at (gr_inner g) off n = Inl e"
    using raw.read_rejects [of "gr_inner g" off n] by (simp add: guarded_ready_def raw_view_def)
  with * show "\<exists>e. rd_read_at (guarded_view g) off n = Inl e"
    by (auto simp: guarded_view_def guarded_ready_def guarded_read_at_def)
qed

end
