(* ===== verification/Codecs.thy ===== *)
theory Codecs
  imports Base
begin

unbundle bit_operations_syntax

section \<open>Byte codecs of the standard library the parsers use\<close>

text \<open>
  \<open>zlib.crc32\<close>, \<open>bytes.decode\<close> for UTF-16LE and Latin-1 with \<open>errors="replace"\<close> (as
  lists of code points), \<open>str.rstrip("\x00")\<close>, the UTF-8 encoding that turns code points into the
  strings of the model, and \<open>str(uuid.UUID(bytes_le=...))\<close>.
\<close>

definition crc32_bit :: "32 word \<Rightarrow> 32 word" where
  "crc32_bit x = (if bit x 0 then drop_bit 1 x XOR 0xEDB88320 else drop_bit 1 x)"

definition crc32_byte :: "32 word \<Rightarrow> byte \<Rightarrow> 32 word" where
  "crc32_byte c b = (crc32_bit ^^ 8) (c XOR ucast b)"

definition crc32 :: "bytes \<Rightarrow> nat" where
  "crc32 bs = unat (NOT (foldl crc32_byte (NOT 0) bs))"

lemma crc32_bound: "crc32 bs < 2 ^ 32"
  unfolding crc32_def using unsigned_less [of "NOT (foldl crc32_byte (NOT 0) bs)"] by simp

fun utf16_points :: "bytes \<Rightarrow> nat list" where
  "utf16_points [] = []"
| "utf16_points [b] = [0xFFFD]"
| "utf16_points (lo # hi # rest) =
     (let u = unat lo + 256 * unat hi in
      if 0xD800 \<le> u \<and> u \<le> 0xDBFF then
        (case rest of
           lo2 # hi2 # rest2 \<Rightarrow>
             (let v = unat lo2 + 256 * unat hi2 in
              if 0xDC00 \<le> v \<and> v \<le> 0xDFFF
              then (0x10000 + (u - 0xD800) * 0x400 + (v - 0xDC00)) # utf16_points rest2
              else 0xFFFD # utf16_points rest)
         | _ \<Rightarrow> [0xFFFD])
      else if 0xDC00 \<le> u \<and> u \<le> 0xDFFF then 0xFFFD # utf16_points rest
      else u # utf16_points rest)"

definition latin1_points :: "bytes \<Rightarrow> nat list" where
  "latin1_points bs = List.map unat bs"

definition rstrip_nul :: "nat list \<Rightarrow> nat list" where
  "rstrip_nul ps = rev (dropWhile (\<lambda>p. p = 0) (rev ps))"

definition utf8_char :: "nat \<Rightarrow> string" where
  "utf8_char p =
     (if p < 0x80 then [char_of p]
      else if p < 0x800 then [char_of (0xC0 + p div 64), char_of (0x80 + p mod 64)]
      else if p < 0x10000 then
        [char_of (0xE0 + p div 4096), char_of (0x80 + p div 64 mod 64), char_of (0x80 + p mod 64)]
      else
        [char_of (0xF0 + p div 262144), char_of (0x80 + p div 4096 mod 64),
         char_of (0x80 + p div 64 mod 64), char_of (0x80 + p mod 64)])"

definition utf8_encode :: "nat list \<Rightarrow> string" where
  "utf8_encode ps = concat (List.map utf8_char ps)"

definition uuid_of_bytes_le :: "bytes \<Rightarrow> string" where
  "uuid_of_bytes_le bs =
     hex_bytes (rev (slice 0 4 bs)) @ ''-'' @ hex_bytes (rev (slice 4 6 bs)) @ ''-'' @
     hex_bytes (rev (slice 6 8 bs)) @ ''-'' @ hex_bytes (slice 8 10 bs) @ ''-'' @
     hex_bytes (slice 10 16 bs)"

lemma length_rstrip_nul: "length (rstrip_nul ps) \<le> length ps"
  by (simp add: rstrip_nul_def) (metis length_dropWhile_le length_rev)

end
