(* ===== verification/Partitions.thy ===== *)
theory Partitions
  imports Evidence Codecs "HOL-Library.Product_Lexorder"
begin

section \<open>Partition tables: MBR, extended chains and GPT\<close>

text \<open>
  \<open>adapters/evidence/partitions.py\<close> (\<open>PartitionParser\<close>) with the \<open>EvidenceVolume\<close> it
  builds (\<open>domain/models/evidence.py\<close>).  The parser reads through a \<open>reader\<close>; a read that
  raises aborts the parse.  \<open>uuid5\<close> over the URL namespace and the wall clock are the two fields
  of the environment \<open>penv\<close>; the clock is read as one value per parse.
\<close>

record penv =
  pe_uuid5 :: "string \<Rightarrow> string"
  pe_now :: int

datatype volume_scheme = MBR | MBR_EXTENDED | GPT | PROTECTIVE_MBR | SUPERFLOPPY | UNPARTITIONED

fun volume_scheme_value :: "volume_scheme \<Rightarrow> string" where
  "volume_scheme_value MBR = ''MBR''"
| "volume_scheme_value MBR_EXTENDED = ''MBR_EXTENDED''"
| "volume_scheme_value GPT = ''GPT''"
| "volume_scheme_value PROTECTIVE_MBR = ''PROTECTIVE_MBR''"
| "volume_scheme_value SUPERFLOPPY = ''SUPERFLOPPY''"
| "volume_scheme_value UNPARTITIONED = ''UNPARTITIONED''"

record pwarning =
  pw_code :: string
  pw_message_key :: string
  pw_developer_message :: string
  pw_details :: dict

record evidence_volume =
  ev_volume_id :: string
  ev_case_id :: string
  ev_evidence_id :: string
  ev_volume_index :: int
  ev_scheme :: string
  ev_partition_type :: string
  ev_start_lba :: int
  ev_end_lba :: int
  ev_byte_offset :: int
  ev_byte_length :: int
  ev_sector_size :: int
  ev_is_allocated :: bool
  ev_raw_locator :: dict
  ev_reader_id :: string
  ev_reader_version :: string
  ev_created_at :: int
  ev_name :: "string option"
  ev_guid :: "string option"
  ev_warnings :: "pwarning list"

subsection \<open>Building one volume\<close>

definition pwarn :: "string \<Rightarrow> string \<Rightarrow> dict \<Rightarrow> pwarning" where
  "pwarn code msg details =
     \<lparr>pw_code = code, pw_message_key = ''warning.partition.'' @ lower code,
      pw_developer_message = msg, pw_details = details\<rparr>"

definition volume_id_of :: "penv \<Rightarrow> string list \<Rightarrow> string" where
  "volume_id_of env parts = pe_uuid5 env (join_str '':'' (''apex-volume-v1'' # parts))"

definition py_bool_str :: "bool \<Rightarrow> string" where
  "py_bool_str b = (if b then ''True'' else ''False'')"

text \<open>The clipping of a declared sector range to the image: start, byte offset, byte length and
  the warnings it adds.\<close>

definition clip_range ::
  "reader \<Rightarrow> int \<Rightarrow> int \<Rightarrow> pwarning list \<Rightarrow> int \<times> int \<times> int \<times> int \<times> pwarning list" where
  "clip_range rd start_lba sector_count warnings =
     (let negative = start_lba < 0 \<or> sector_count < 0;
          w1 = warnings @ (if negative
            then [pwarn ''NEGATIVE_PARTITION_RANGE''
                    ''Partition range contains a negative start or length.'' []] else []);
          start = (if negative then max 0 start_lba else start_lba);
          count = (if negative then max 0 sector_count else sector_count);
          declared_offset = start * rd_sector_size rd;
          declared_length = count * rd_sector_size rd
      in if declared_offset > rd_size rd then
           (start, declared_offset, declared_length, 0, w1 @
             [pwarn ''PARTITION_OFFSET_BEYOND_IMAGE'' ''Partition starts beyond the image boundary.''
               [(''declared_offset'', PInt declared_offset), (''image_size'', PInt (rd_size rd))]])
         else if declared_offset + declared_length > rd_size rd then
           (start, declared_offset, declared_length, max 0 (rd_size rd - declared_offset), w1 @
             [pwarn ''PARTITION_RANGE_TRUNCATED''
               ''Partition range extends beyond the image boundary.''
               [(''declared_offset'', PInt declared_offset),
                (''declared_length'', PInt declared_length), (''image_size'', PInt (rd_size rd))]])
         else (start, declared_offset, declared_length, declared_length, w1))"

definition volume :: "penv \<Rightarrow> reader \<Rightarrow> string \<Rightarrow> string \<Rightarrow> int \<Rightarrow> string \<Rightarrow> string \<Rightarrow> int \<Rightarrow> int \<Rightarrow>
    bool \<Rightarrow> string option \<Rightarrow> string option \<Rightarrow> pwarning list \<Rightarrow> evidence_volume" where
  "volume env rd case_id evidence_id volume_index scheme partition_type start_lba sector_count
     is_allocated nm guid warnings =
   (case clip_range rd start_lba sector_count warnings of
      (start, declared_offset, declared_length, byte_length, warns) \<Rightarrow>
    let effective_sectors =
          (if byte_length \<noteq> 0 then ceil_div byte_length (rd_sector_size rd) else 0);
        end_lba = (if effective_sectors \<noteq> 0 then start + effective_sectors - 1 else start - 1);
        volume_id = volume_id_of env [case_id, evidence_id, scheme, partition_type,
          int_str start, int_str declared_length, (case guid of None \<Rightarrow> '''' | Some g \<Rightarrow> g),
          py_bool_str is_allocated]
    in \<lparr>ev_volume_id = volume_id, ev_case_id = case_id, ev_evidence_id = evidence_id,
        ev_volume_index = volume_index, ev_scheme = scheme, ev_partition_type = partition_type,
        ev_start_lba = start, ev_end_lba = end_lba, ev_byte_offset = declared_offset,
        ev_byte_length = byte_length, ev_sector_size = rd_sector_size rd,
        ev_is_allocated = is_allocated,
        ev_raw_locator =
          [(''locator_type'', PStr ''DISK_IMAGE_BYTE_RANGE''),
           (''evidence_id'', PStr evidence_id), (''volume_id'', PStr volume_id),
           (''byte_offset'', PInt declared_offset), (''byte_length'', PInt byte_length),
           (''declared_byte_offset'', PInt declared_offset),
           (''declared_byte_length'', PInt declared_length),
           (''sector_size'', PInt (rd_sector_size rd)), (''partition_scheme'', PStr scheme),
           (''reader_id'', PStr (rd_id rd)), (''reader_version'', PStr (rd_version rd)),
           (''parser_id'', PStr ''apex.partition_parser''), (''parser_version'', PStr ''0.1.0'')],
        ev_reader_id = rd_id rd, ev_reader_version = rd_version rd, ev_created_at = pe_now env,
        ev_name = nm, ev_guid = guid, ev_warnings = warns\<rparr>)"

definition superfloppy ::
  "penv \<Rightarrow> reader \<Rightarrow> string \<Rightarrow> string \<Rightarrow> pwarning option \<Rightarrow> evidence_volume" where
  "superfloppy env rd case_id evidence_id warning =
     volume env rd case_id evidence_id 0 (volume_scheme_value SUPERFLOPPY) ''UNPARTITIONED'' 0
       (ceil_div (rd_size rd) (rd_sector_size rd)) True (Some ''Unpartitioned Image'') None
       (case warning of None \<Rightarrow> [] | Some w \<Rightarrow> [w])"

definition warning_volume ::
  "penv \<Rightarrow> reader \<Rightarrow> string \<Rightarrow> string \<Rightarrow> int \<Rightarrow> string \<Rightarrow> int \<Rightarrow> pwarning \<Rightarrow> evidence_volume" where
  "warning_volume env rd case_id evidence_id volume_index scheme byte_offset warning =
     volume env rd case_id evidence_id volume_index scheme ''PARSER_WARNING''
       (max 0 (byte_offset div rd_sector_size rd)) 0 False (Some ''Partition Parser Warning'')
       None [warning]"

definition unallocated_gap ::
  "penv \<Rightarrow> reader \<Rightarrow> string \<Rightarrow> string \<Rightarrow> int \<Rightarrow> int \<Rightarrow> int \<Rightarrow> string \<Rightarrow> evidence_volume" where
  "unallocated_gap env rd case_id evidence_id volume_index byte_offset byte_length scheme =
     volume env rd case_id evidence_id volume_index scheme ''UNALLOCATED''
       (byte_offset div rd_sector_size rd) (ceil_div byte_length (rd_sector_size rd)) False
       (Some ''Unallocated Range'') None []"

subsection \<open>Overlaps and unallocated gaps\<close>

text \<open>\<open>_mark_overlaps\<close> walks the volumes in order of (offset, length) and appends to the
  warnings of the volume objects in place; the list itself keeps its order.  Positions stand for
  the objects.\<close>

definition overlap_warning :: pwarning where
  "overlap_warning = pwarn ''PARTITION_OVERLAP''
     ''Partition overlaps a previously parsed partition.'' []"

fun overlap_scan :: "int \<Rightarrow> (nat \<times> evidence_volume) list \<Rightarrow> nat list" where
  "overlap_scan previous_end [] = []"
| "overlap_scan previous_end ((i, v) # rest) =
     (if ev_byte_offset v < previous_end then [i] else []) @
     overlap_scan (max previous_end (ev_byte_offset v + ev_byte_length v)) rest"

definition sorted_volumes :: "evidence_volume list \<Rightarrow> (nat \<times> evidence_volume) list" where
  "sorted_volumes vs =
     sort_key (\<lambda>(i, v). (ev_byte_offset v, ev_byte_length v)) (List.enumerate 0 vs)"

definition mark_overlaps :: "evidence_volume list \<Rightarrow> evidence_volume list" where
  "mark_overlaps vs =
     (let flagged = overlap_scan (- 1) (sorted_volumes vs) in
      List.map (\<lambda>(i, v). if i \<in> set flagged
          then v\<lparr>ev_warnings := ev_warnings v @ [overlap_warning]\<rparr> else v)
        (List.enumerate 0 vs))"

text \<open>The loop of \<open>_with_unallocated_gaps\<close>: cursor, number of gaps so far, volumes left.\<close>

fun gap_loop :: "penv \<Rightarrow> reader \<Rightarrow> string \<Rightarrow> string \<Rightarrow> string \<Rightarrow> int \<Rightarrow> int \<Rightarrow> int \<Rightarrow>
    evidence_volume list \<Rightarrow> evidence_volume list" where
  "gap_loop env rd case_id evidence_id scheme end_limit cursor gaps [] =
     (if cursor < end_limit
      then [unallocated_gap env rd case_id evidence_id (10000 + gaps) cursor
              (end_limit - cursor) scheme]
      else [])"
| "gap_loop env rd case_id evidence_id scheme end_limit cursor gaps (v # vs) =
     (if ev_byte_offset v > cursor
      then [unallocated_gap env rd case_id evidence_id (10000 + gaps) cursor
              (ev_byte_offset v - cursor) scheme]
      else []) @
     v # gap_loop env rd case_id evidence_id scheme end_limit
           (max cursor (ev_byte_offset v + ev_byte_length v))
           (if ev_byte_offset v > cursor then gaps + 1 else gaps) vs"

definition reindex :: "evidence_volume list \<Rightarrow> evidence_volume list" where
  "reindex vs = List.map (\<lambda>(i, v). v\<lparr>ev_volume_index := int i\<rparr>) (List.enumerate 0 vs)"

definition gap_end_limit :: "reader \<Rightarrow> int option \<Rightarrow> int" where
  "gap_end_limit rd gap_end_lba =
     (case gap_end_lba of None \<Rightarrow> rd_size rd
      | Some e \<Rightarrow> min (rd_size rd) ((e + 1) * rd_sector_size rd))"

definition gap_start :: "reader \<Rightarrow> int \<Rightarrow> int option \<Rightarrow> int" where
  "gap_start rd gap_start_lba gap_end_lba =
     min (gap_end_limit rd gap_end_lba) (max 0 (gap_start_lba * rd_sector_size rd))"

definition with_unallocated_gaps :: "penv \<Rightarrow> reader \<Rightarrow> evidence_volume list \<Rightarrow> string \<Rightarrow> string \<Rightarrow>
    int \<Rightarrow> int option \<Rightarrow> string \<Rightarrow> evidence_volume list" where
  "with_unallocated_gaps env rd allocated case_id evidence_id gap_start_lba gap_end_lba scheme =
     (if allocated = [] then []
      else reindex (gap_loop env rd case_id evidence_id scheme (gap_end_limit rd gap_end_lba)
             (gap_start rd gap_start_lba gap_end_lba) 0
             (sort_key (\<lambda>v. (ev_byte_offset v, ev_volume_id v)) allocated)))"

subsection \<open>MBR entries and the extended chain\<close>

record mbr_entry =
  mbr_status :: int
  mbr_type :: int
  mbr_start_lba :: int
  mbr_sector_count :: int

definition mbr_entry_at :: "bytes \<Rightarrow> nat \<Rightarrow> mbr_entry" where
  "mbr_entry_at sector i =
     (let entry = slice (446 + i * 16) (446 + i * 16 + 16) sector in
      \<lparr>mbr_status = int (le_nat (slice 0 1 entry)), mbr_type = int (le_nat (slice 4 5 entry)),
       mbr_start_lba = int (le_nat (slice 8 12 entry)),
       mbr_sector_count = int (le_nat (slice 12 16 entry))\<rparr>)"

definition mbr_entries :: "bytes \<Rightarrow> mbr_entry list" where
  "mbr_entries sector = List.map (mbr_entry_at sector) [0, 1, 2, 3]"

definition is_extended_type :: "int \<Rightarrow> bool" where
  "is_extended_type t \<longleftrightarrow> t \<in> {0x05, 0x0F, 0x85}"

definition upper_hex_digit :: "nat \<Rightarrow> char" where
  "upper_hex_digit d = (if d < 10 then char_of (48 + d) else char_of (55 + d))"

definition type_str :: "int \<Rightarrow> string" where
  "type_str t = ''0x'' @ [upper_hex_digit (nat t div 16), upper_hex_digit (nat t mod 16)]"

definition has_mbr_signature :: "bytes \<Rightarrow> bool" where
  "has_mbr_signature sector \<longleftrightarrow> slice 510 512 sector = [0x55, 0xAA]"

definition max_extended_chain :: nat where
  "max_extended_chain = 128"

record chain_state =
  cs_volumes :: "evidence_volume list"
  cs_visited :: "int list"
  cs_next :: int
  cs_ended :: bool
  cs_limited :: bool

text \<open>The logical partition of one boot record, and whether its link entry goes on.\<close>

definition add_logical :: "penv \<Rightarrow> reader \<Rightarrow> string \<Rightarrow> string \<Rightarrow> int \<Rightarrow> int \<Rightarrow> mbr_entry \<Rightarrow>
    evidence_volume list \<Rightarrow> evidence_volume list" where
  "add_logical env rd case_id evidence_id first_index next_lba logical volumes =
     (if mbr_type logical \<noteq> 0 \<and> mbr_sector_count logical > 0
      then volumes @ [volume env rd case_id evidence_id
             (first_index + int (length volumes)) (volume_scheme_value MBR_EXTENDED)
             (type_str (mbr_type logical)) (next_lba + mbr_start_lba logical)
             (mbr_sector_count logical) True
             (Some (''Logical Partition '' @ nat_str (length volumes + 1))) None []]
      else volumes)"

definition chain_ends :: "mbr_entry \<Rightarrow> bool" where
  "chain_ends link \<longleftrightarrow> \<not> is_extended_type (mbr_type link) \<or> mbr_sector_count link \<le> 0"

definition corrupt_boot_record :: "bytes \<Rightarrow> bool" where
  "corrupt_boot_record ebr \<longleftrightarrow> length ebr < 512 \<or> \<not> has_mbr_signature ebr"

definition corrupt_ebr_volume ::
  "penv \<Rightarrow> reader \<Rightarrow> string \<Rightarrow> string \<Rightarrow> int \<Rightarrow> int \<Rightarrow> nat \<Rightarrow> evidence_volume" where
  "corrupt_ebr_volume env rd case_id evidence_id first_index next_lba n =
     warning_volume env rd case_id evidence_id (first_index + int n)
       (volume_scheme_value MBR_EXTENDED) (next_lba * rd_sector_size rd)
       (pwarn ''CORRUPT_EXTENDED_BOOT_RECORD''
          ''Extended boot record is truncated or lacks the MBR signature.'' [])"

function extended_loop :: "penv \<Rightarrow> reader \<Rightarrow> string \<Rightarrow> string \<Rightarrow> int \<Rightarrow> int \<Rightarrow>
    evidence_volume list \<Rightarrow> int list \<Rightarrow> int \<Rightarrow> chain_state res" where
  "extended_loop env rd case_id evidence_id base_lba first_index volumes visited next =
     (if next \<in> set visited then
        Inr \<lparr>cs_volumes = volumes, cs_visited = visited, cs_next = next, cs_ended = False,
             cs_limited = False\<rparr>
      else if length visited \<ge> max_extended_chain then
        Inr \<lparr>cs_volumes = volumes, cs_visited = visited, cs_next = next, cs_ended = False,
             cs_limited = True\<rparr>
      else
        (case rd_read_at rd (next * rd_sector_size rd) (min (rd_sector_size rd) 512) of
           Inl e \<Rightarrow> Inl e
         | Inr ebr \<Rightarrow>
             if corrupt_boot_record ebr then
               Inr \<lparr>cs_volumes = volumes @ [corrupt_ebr_volume env rd case_id evidence_id
                      first_index next (length volumes)],
                    cs_visited = visited @ [next], cs_next = next, cs_ended = False,
                    cs_limited = False\<rparr>
             else if chain_ends (mbr_entry_at ebr 1) then
               Inr \<lparr>cs_volumes = add_logical env rd case_id evidence_id first_index next
                      (mbr_entry_at ebr 0) volumes,
                    cs_visited = visited @ [next], cs_next = next, cs_ended = True,
                    cs_limited = False\<rparr>
             else extended_loop env rd case_id evidence_id base_lba first_index
                    (add_logical env rd case_id evidence_id first_index next
                      (mbr_entry_at ebr 0) volumes)
                    (visited @ [next]) (base_lba + mbr_start_lba (mbr_entry_at ebr 1))))"
  by pat_completeness auto
termination
  by (relation "measure (\<lambda>(env, rd, c, e, b, f, volumes, visited, next).
        max_extended_chain - length visited)") auto

declare extended_loop.simps [simp del]

definition chain_warning_volume :: "penv \<Rightarrow> reader \<Rightarrow> string \<Rightarrow> string \<Rightarrow> int \<Rightarrow> chain_state \<Rightarrow>
    pwarning \<Rightarrow> evidence_volume" where
  "chain_warning_volume env rd case_id evidence_id first_index s w =
     warning_volume env rd case_id evidence_id (first_index + int (length (cs_volumes s)))
       (volume_scheme_value MBR_EXTENDED) (cs_next s * rd_sector_size rd) w"

definition parse_extended_chain ::
  "penv \<Rightarrow> reader \<Rightarrow> string \<Rightarrow> string \<Rightarrow> int \<Rightarrow> int \<Rightarrow> evidence_volume list res" where
  "parse_extended_chain env rd case_id evidence_id base_lba first_index =
     bind_res (extended_loop env rd case_id evidence_id base_lba first_index [] [] base_lba)
       (\<lambda>s. Inr (cs_volumes s @
          (if cs_limited s then
             [chain_warning_volume env rd case_id evidence_id first_index s
                (pwarn ''EXTENDED_CHAIN_LIMIT_REACHED''
                  ''Extended partition chain exceeded the parser safety limit.'' [])]
           else if \<not> cs_ended s \<and> cs_next s \<in> set (cs_visited s) then
             [chain_warning_volume env rd case_id evidence_id first_index s
                (pwarn ''EXTENDED_CHAIN_CYCLE''
                  ''Extended partition chain references an already visited EBR.'' [])]
           else [])))"

subsection \<open>GPT\<close>

definition le32 :: "bytes \<Rightarrow> nat \<Rightarrow> int" where
  "le32 bs off = int (le_nat (slice off (off + 4) bs))"

definition le64 :: "bytes \<Rightarrow> nat \<Rightarrow> int" where
  "le64 bs off = int (le_nat (slice off (off + 8) bs))"

definition max_gpt_entry_bytes :: int where
  "max_gpt_entry_bytes = 16 * 1024 * 1024"

definition gpt_signature :: bytes where
  "gpt_signature = [0x45, 0x46, 0x49, 0x20, 0x50, 0x41, 0x52, 0x54]"

text \<open>The header CRC is taken over the header with its own CRC field zeroed.\<close>

definition gpt_header_crc :: "bytes \<Rightarrow> int \<Rightarrow> int" where
  "gpt_header_crc header header_size =
     int (crc32 (take (nat header_size) (take 16 header @ [0, 0, 0, 0] @ drop 20 header)))"

definition gpt_name :: "bytes \<Rightarrow> string option" where
  "gpt_name entry =
     (let nm = utf8_encode (rstrip_nul (utf16_points (slice 56 128 entry))) in
      if nm = [] then None else Some nm)"

text \<open>The body of the loop over the entries: the volumes after one entry.\<close>

definition gpt_entry_step :: "penv \<Rightarrow> reader \<Rightarrow> string \<Rightarrow> string \<Rightarrow> pwarning list \<Rightarrow> int \<Rightarrow> int \<Rightarrow>
    nat \<Rightarrow> bytes \<Rightarrow> evidence_volume list \<Rightarrow> evidence_volume list" where
  "gpt_entry_step env rd case_id evidence_id warnings first_usable last_usable index entry volumes =
     (let type_guid = slice 0 16 entry;
          unique_guid = slice 16 32 entry;
          start_lba = le64 entry 32;
          end_lba = le64 entry 40
      in if type_guid = replicate 16 0 then volumes
         else if end_lba < start_lba then
           volumes @ [warning_volume env rd case_id evidence_id (int (length volumes))
             (volume_scheme_value GPT) (start_lba * rd_sector_size rd)
             (pwarn ''GPT_ENTRY_INVALID_RANGE'' ''GPT entry end LBA is before its start LBA.''
               [(''entry_index'', PInt (int index)), (''start_lba'', PInt start_lba),
                (''end_lba'', PInt end_lba)])]
         else
           let v = volume env rd case_id evidence_id (int (length volumes))
                 (volume_scheme_value GPT) (uuid_of_bytes_le type_guid) start_lba
                 (end_lba - start_lba + 1) True (gpt_name entry)
                 (Some (uuid_of_bytes_le unique_guid)) warnings
           in volumes @ [
                if start_lba < first_usable \<or> end_lba > last_usable
                then v\<lparr>ev_warnings := ev_warnings v @
                  [pwarn ''GPT_ENTRY_OUTSIDE_USABLE_RANGE''
                     ''GPT entry is outside the usable LBA range.''
                     [(''entry_index'', PInt (int index)),
                      (''first_usable_lba'', PInt first_usable),
                      (''last_usable_lba'', PInt last_usable)]]\<rparr>
                else v])"

fun gpt_entries_loop :: "penv \<Rightarrow> reader \<Rightarrow> string \<Rightarrow> string \<Rightarrow> pwarning list \<Rightarrow> int \<Rightarrow> int \<Rightarrow>
    nat \<Rightarrow> bytes list \<Rightarrow> evidence_volume list \<Rightarrow> evidence_volume list" where
  "gpt_entries_loop env rd case_id evidence_id warnings first_usable last_usable index [] volumes =
     volumes"
| "gpt_entries_loop env rd case_id evidence_id warnings first_usable last_usable index
     (entry # entries) volumes =
     gpt_entries_loop env rd case_id evidence_id warnings first_usable last_usable (Suc index)
       entries (gpt_entry_step env rd case_id evidence_id warnings first_usable last_usable index
         entry volumes)"

definition gpt_chunks :: "nat \<Rightarrow> nat \<Rightarrow> bytes \<Rightarrow> bytes list" where
  "gpt_chunks entry_number entry_size data =
     List.map (\<lambda>i. slice (i * entry_size) ((i + 1) * entry_size) data) [0..<entry_number]"

definition gpt_entry_warnings :: "int \<Rightarrow> int \<Rightarrow> bytes \<Rightarrow> pwarning list" where
  "gpt_entry_warnings entry_bytes entries_crc data =
     (if int (length data) < entry_bytes
      then [pwarn ''GPT_ENTRY_ARRAY_TRUNCATED''
              ''GPT entry array extends beyond the image boundary.''
              [(''declared_bytes'', PInt entry_bytes),
               (''available_bytes'', PInt (int (length data)))]]
      else let observed = int (crc32 (take (nat entry_bytes) data)) in
        if observed \<noteq> entries_crc
        then [pwarn ''GPT_ENTRY_CRC_MISMATCH'' ''GPT partition entry CRC does not match.''
                [(''expected'', PInt entries_crc), (''observed'', PInt observed)]]
        else [])"

definition parse_gpt :: "penv \<Rightarrow> reader \<Rightarrow> string \<Rightarrow> string \<Rightarrow> evidence_volume list res" where
  "parse_gpt env rd case_id evidence_id =
     bind_res (rd_read_at rd (rd_sector_size rd) (rd_sector_size rd)) (\<lambda>header.
       if length header < 92 \<or> take 8 header \<noteq> gpt_signature then Inr []
       else let header_size = le32 header 12 in
       if header_size < 92 \<or> header_size > int (length header) then Inr []
       else
         let observed_crc = le32 header 16;
             calculated_crc = gpt_header_crc header header_size;
             w1 = (if calculated_crc \<noteq> observed_crc
               then [pwarn ''GPT_HEADER_CRC_MISMATCH''
                 ''GPT header CRC does not match; entries are parsed with reduced confidence.''
                 [(''expected'', PInt observed_crc), (''observed'', PInt calculated_crc)]]
               else []);
             first_usable = le64 header 40;
             last_usable = le64 header 48;
             entry_lba = le64 header 72;
             entry_count = le32 header 80;
             entry_size = le32 header 84;
             entries_crc = le32 header 88;
             entry_bytes = entry_count * entry_size;
             entries_offset = entry_lba * rd_sector_size rd
         in if entry_size < 128 \<or> entry_count = 0 then Inr []
            else if entry_bytes > max_gpt_entry_bytes then
              Inr [warning_volume env rd case_id evidence_id 0 (volume_scheme_value GPT)
                     (entry_lba * rd_sector_size rd)
                     (pwarn ''GPT_ENTRY_ARRAY_TOO_LARGE''
                        ''GPT entry array exceeds the parser safety bound.''
                        [(''entry_count'', PInt entry_count), (''entry_size'', PInt entry_size)])]
            else if entries_offset \<ge> rd_size rd then Inr []
            else bind_res (rd_read_at rd entries_offset (min entry_bytes (rd_size rd - entries_offset)))
              (\<lambda>entries_data.
                 let warnings = w1 @ gpt_entry_warnings entry_bytes entries_crc entries_data;
                     entry_number = min (nat entry_count) (length entries_data div nat entry_size);
                     volumes = gpt_entries_loop env rd case_id evidence_id warnings first_usable
                       last_usable 0 (gpt_chunks entry_number (nat entry_size) entries_data) []
                 in if volumes = [] then Inr []
                    else Inr (with_unallocated_gaps env rd (mark_overlaps volumes) case_id
                           evidence_id first_usable (Some last_usable)
                           (volume_scheme_value GPT))))"

subsection \<open>The parser\<close>

fun mbr_loop :: "penv \<Rightarrow> reader \<Rightarrow> string \<Rightarrow> string \<Rightarrow> mbr_entry list \<Rightarrow> evidence_volume list \<Rightarrow>
    evidence_volume list res" where
  "mbr_loop env rd case_id evidence_id [] allocated = Inr allocated"
| "mbr_loop env rd case_id evidence_id (entry # entries) allocated =
     (let index = int (length allocated) in
      if mbr_type entry = 0 \<or> mbr_sector_count entry = 0 then
        mbr_loop env rd case_id evidence_id entries allocated
      else if is_extended_type (mbr_type entry) then
        bind_res (parse_extended_chain env rd case_id evidence_id (mbr_start_lba entry) index)
          (\<lambda>logical. mbr_loop env rd case_id evidence_id entries (allocated @ logical))
      else
        mbr_loop env rd case_id evidence_id entries (allocated @
          [volume env rd case_id evidence_id index (volume_scheme_value MBR)
             (type_str (mbr_type entry)) (mbr_start_lba entry) (mbr_sector_count entry) True
             (Some (''MBR Partition '' @ nat_str (length allocated + 1))) None []]))"

definition is_protective :: "mbr_entry \<Rightarrow> bool" where
  "is_protective e \<longleftrightarrow> mbr_type e = 0xEE \<and> mbr_sector_count e > 0"

definition protective_volume ::
  "penv \<Rightarrow> reader \<Rightarrow> string \<Rightarrow> string \<Rightarrow> mbr_entry \<Rightarrow> evidence_volume" where
  "protective_volume env rd case_id evidence_id e =
     volume env rd case_id evidence_id 0 (volume_scheme_value PROTECTIVE_MBR) ''0xEE''
       (mbr_start_lba e) (mbr_sector_count e) True (Some ''Protective MBR'') None
       [pwarn ''GPT_HEADER_UNAVAILABLE''
          ''Protective MBR was found but the GPT header could not be parsed.'' []]"

definition parse :: "penv \<Rightarrow> reader \<Rightarrow> string \<Rightarrow> string \<Rightarrow> evidence_volume list res" where
  "parse env rd case_id evidence_id =
     (if rd_size rd \<le> 0 then Inr []
      else bind_res (rd_read_at rd 0 (min (rd_sector_size rd) (rd_size rd))) (\<lambda>boot.
        if length boot < 512 then
          Inr [superfloppy env rd case_id evidence_id
                 (Some (pwarn ''SHORT_BOOT_SECTOR''
                    ''Image is smaller than a standard 512-byte boot sector.'' []))]
        else if \<not> has_mbr_signature boot then
          Inr [superfloppy env rd case_id evidence_id None]
        else
          let entries = mbr_entries boot in
          case filter is_protective entries of
            p # _ \<Rightarrow>
              bind_res (parse_gpt env rd case_id evidence_id) (\<lambda>volumes.
                if volumes \<noteq> [] then Inr volumes
                else Inr (with_unallocated_gaps env rd
                       [protective_volume env rd case_id evidence_id p] case_id evidence_id 0 None
                       (volume_scheme_value UNPARTITIONED)))
          | [] \<Rightarrow>
              bind_res (mbr_loop env rd case_id evidence_id entries []) (\<lambda>allocated.
                if allocated = [] then Inr [superfloppy env rd case_id evidence_id None]
                else Inr (with_unallocated_gaps env rd (mark_overlaps allocated) case_id
                       evidence_id 0 None (volume_scheme_value UNPARTITIONED)))))"

end
