(* ===== verification/Partition_Facts.thy ===== *)
theory Partition_Facts
  imports Partitions
begin

section \<open>What the partition parser guarantees\<close>

text \<open>
  The lemmas of \<open>Partitions\<close>: the ranges of the volumes lie inside the image, the list covers
  the image and its gaps are disjoint from everything else, overlaps are marked exactly, the
  extended chain is bounded, and a parse on an open image cannot fail.  The locale
  \<open>volume_invariant\<close> carries a property of single volumes through the whole parser.
\<close>

abbreviation vol_end :: "evidence_volume \<Rightarrow> int" where
  "vol_end v \<equiv> ev_byte_offset v + ev_byte_length v"

subsection \<open>One volume\<close>

lemma volume_tags [simp]:
  "ev_partition_type (volume env rd c e i s t lba n a nm g w) = t"
  "ev_scheme (volume env rd c e i s t lba n a nm g w) = s"
  "ev_volume_index (volume env rd c e i s t lba n a nm g w) = i"
  "ev_case_id (volume env rd c e i s t lba n a nm g w) = c"
  "ev_evidence_id (volume env rd c e i s t lba n a nm g w) = e"
  "ev_is_allocated (volume env rd c e i s t lba n a nm g w) = a"
  by (simp_all add: volume_def Let_def split: prod.splits)

lemma volume_offset [simp]:
  "ev_byte_offset (volume env rd c e i s t lba n a nm g w) = max 0 lba * rd_sector_size rd"
  by (simp add: volume_def clip_range_def Let_def)

lemma volume_length:
  assumes "0 < rd_sector_size rd"
  shows "ev_byte_length (volume env rd c e i s t lba n a nm g w) =
    max 0 (min (max 0 n * rd_sector_size rd) (rd_size rd - max 0 lba * rd_sector_size rd))"
proof -
  have "0 \<le> max 0 n * rd_sector_size rd" using assms by simp
  then show ?thesis by (auto simp: volume_def clip_range_def Let_def)
qed

lemma volume_no_warnings:
  assumes "0 \<le> lba" "0 \<le> n" "(lba + n) * rd_sector_size rd \<le> rd_size rd" "0 < rd_sector_size rd"
  shows "ev_warnings (volume env rd c e i s t lba n a nm g w) = w"
proof -
  have "0 \<le> n * rd_sector_size rd" using assms by simp
  with assms(3) have "lba * rd_sector_size rd \<le> rd_size rd" by (simp add: distrib_right)
  with assms show ?thesis
    by (simp add: volume_def clip_range_def Let_def distrib_right)
qed

text \<open>What every volume of a parse has: its range lies inside the image, its LBA fields and its
  locator agree with the range.\<close>

definition volume_wf :: "reader \<Rightarrow> evidence_volume \<Rightarrow> bool" where
  "volume_wf rd v \<longleftrightarrow>
     0 \<le> ev_start_lba v \<and> ev_byte_offset v = ev_start_lba v * rd_sector_size rd \<and>
     0 \<le> ev_byte_length v \<and> (0 < ev_byte_length v \<longrightarrow> vol_end v \<le> rd_size rd) \<and>
     (rd_sector_size rd dvd ev_byte_length v \<or> vol_end v = rd_size rd) \<and>
     ev_end_lba v = ev_start_lba v + ceil_div (ev_byte_length v) (rd_sector_size rd) - 1 \<and>
     ev_sector_size v = rd_sector_size rd \<and>
     dget (ev_raw_locator v) ''byte_offset'' = Some (PInt (ev_byte_offset v)) \<and>
     dget (ev_raw_locator v) ''byte_length'' = Some (PInt (ev_byte_length v)) \<and>
     dget (ev_raw_locator v) ''volume_id'' = Some (PStr (ev_volume_id v))"

lemma ceil_div_zero [simp]: "ceil_div 0 b = 0"
  by (simp add: ceil_div_def)

lemma volume_end_lba:
  "ev_end_lba (volume env rd c e i s t lba n a nm g w) =
     ev_start_lba (volume env rd c e i s t lba n a nm g w) +
     ceil_div (ev_byte_length (volume env rd c e i s t lba n a nm g w)) (rd_sector_size rd) - 1"
  by (simp add: volume_def Let_def split: prod.splits)

lemma volume_start_lba [simp]:
  "ev_start_lba (volume env rd c e i s t lba n a nm g w) = max 0 lba"
  by (simp add: volume_def clip_range_def Let_def)

lemma volume_locator:
  fixes env rd c e i s t lba n a nm g w
  defines "v \<equiv> volume env rd c e i s t lba n a nm g w"
  shows "dget (ev_raw_locator v) ''byte_offset'' = Some (PInt (ev_byte_offset v))"
    and "dget (ev_raw_locator v) ''byte_length'' = Some (PInt (ev_byte_length v))"
    and "dget (ev_raw_locator v) ''volume_id'' = Some (PStr (ev_volume_id v))"
    and "ev_sector_size v = rd_sector_size rd"
  unfolding v_def by (simp_all add: volume_def Let_def split: prod.splits)

lemma volume_wf_volume:
  assumes "0 < rd_sector_size rd"
  shows "volume_wf rd (volume env rd c e i s t lba n a nm g w)"
proof -
  let ?v = "volume env rd c e i s t lba n a nm g w"
  let ?off = "max 0 lba * rd_sector_size rd"
  have "0 \<le> ev_byte_length ?v" "0 < ev_byte_length ?v \<longrightarrow> ?off + ev_byte_length ?v \<le> rd_size rd"
    "rd_sector_size rd dvd ev_byte_length ?v \<or> ?off + ev_byte_length ?v = rd_size rd"
    unfolding volume_length [OF assms] by (linarith, linarith, auto simp: max_def min_def)
  then show ?thesis
    unfolding volume_wf_def by (simp add: volume_end_lba volume_locator)
qed

subsection \<open>The results of the parser, case by case\<close>

text \<open>\<open>gpt_result\<close> and \<open>mbr_result\<close> say where a list of volumes comes from.\<close>

lemma parse_gpt_cases:
  assumes "parse_gpt env rd c e = Inr vs"
  obtains (none) "vs = []"
  | (too_large) off w where "vs = [warning_volume env rd c e 0 (volume_scheme_value GPT) off w]"
  | (entries) ws fu lu n sz data vols where
      "vols = gpt_entries_loop env rd c e ws fu lu 0 (gpt_chunks n sz data) []"
      "vols \<noteq> []" "n * 128 \<le> nat max_gpt_entry_bytes" "0 \<le> fu" "0 \<le> lu"
      "vs = with_unallocated_gaps env rd (mark_overlaps vols) c e fu (Some lu)
        (volume_scheme_value GPT)"
proof -
  from assms obtain hd where "rd_read_at rd (rd_sector_size rd) (rd_sector_size rd) = Inr hd"
    by (auto simp: parse_gpt_def)
  note step = assms [unfolded parse_gpt_def Let_def this bind_res.simps]
  show thesis
  proof (cases "length hd < 92 \<or> take 8 hd \<noteq> gpt_signature \<or> le32 hd 12 < 92 \<or>
      le32 hd 12 > int (length hd) \<or> le32 hd 84 < 128 \<or> le32 hd 80 = 0")
    case True
    with step have "vs = []" by (auto split: if_splits)
    then show thesis by (rule none)
  next
    case ok: False
    show thesis
    proof (cases "le32 hd 80 * le32 hd 84 > max_gpt_entry_bytes")
      case True
      with step ok show thesis by (intro too_large) auto
    next
      case fits: False
      show thesis
      proof (cases "le64 hd 72 * rd_sector_size rd \<ge> rd_size rd")
        case True
        with step ok fits have "vs = []" by auto
        then show thesis by (rule none)
      next
        case False
        have "le32 hd 80 * 128 \<le> le32 hd 80 * le32 hd 84"
          using ok by (intro mult_left_mono) (auto simp: le32_def)
        with fits have "le32 hd 80 * 128 \<le> max_gpt_entry_bytes" by linarith
        then have n: "nat (le32 hd 80) * 128 \<le> nat max_gpt_entry_bytes"
          by linarith
        from step ok fits False obtain data where data: "rd_read_at rd
            (le64 hd 72 * rd_sector_size rd) (min (le32 hd 80 * le32 hd 84)
            (rd_size rd - le64 hd 72 * rd_sector_size rd)) = Inr data"
          by auto
        let ?n = "min (nat (le32 hd 80)) (length data div nat (le32 hd 84))"
        have n': "?n * 128 \<le> nat max_gpt_entry_bytes" using n by linarith
        have fu: "0 \<le> le64 hd 40" and lu: "0 \<le> le64 hd 48" by (simp_all add: le64_def)
        show thesis
        proof (cases "vs = []")
          case False
          then show ?thesis
            by (intro entries [OF refl _ n' fu lu])
              (use step ok fits \<open>\<not> rd_size rd \<le> le64 hd 72 * rd_sector_size rd\<close> data
                in \<open>auto split: if_splits\<close>)
        qed (rule none)
      qed
    qed
  qed
qed

lemma parse_cases:
  assumes "parse env rd c e = Inr vs"
  obtains (empty) "vs = []" "rd_size rd \<le> 0"
  | (superfloppy) w where "0 < rd_size rd" "vs = [superfloppy env rd c e w]"
  | (gpt) "0 < rd_size rd" "parse_gpt env rd c e = Inr vs" "vs \<noteq> []"
  | (protective) p where "0 < rd_size rd"
      "vs = with_unallocated_gaps env rd [protective_volume env rd c e p] c e 0 None
        (volume_scheme_value UNPARTITIONED)"
  | (mbr) boot al where "0 < rd_size rd" "mbr_loop env rd c e (mbr_entries boot) [] = Inr al"
      "al \<noteq> []"
      "vs = with_unallocated_gaps env rd (mark_overlaps al) c e 0 None
        (volume_scheme_value UNPARTITIONED)"
proof (cases "rd_size rd \<le> 0")
  case True
  with assms show thesis by (intro empty) (auto simp: parse_def)
next
  case False
  then have pos: "0 < rd_size rd" by simp
  from assms False obtain boot where
      "rd_read_at rd 0 (min (rd_sector_size rd) (rd_size rd)) = Inr boot"
    by (auto simp: parse_def)
  note step = assms [unfolded parse_def Let_def this bind_res.simps]
  show thesis
  proof (cases "length boot < 512 \<or> \<not> has_mbr_signature boot")
    case True
    with step False show thesis by (auto split: if_splits intro: superfloppy [OF pos])
  next
    case ok: False
    show thesis
    proof (cases "filter is_protective (mbr_entries boot)")
      case Nil
      with step ok False obtain al where
          al: "mbr_loop env rd c e (mbr_entries boot) [] = Inr al"
        by auto
      show thesis
      proof (cases "al = []")
        case True
        with step Nil ok False al have "vs = [superfloppy env rd c e None]" by simp
        then show thesis by (rule superfloppy [OF pos])
      next
        case ne: False
        with step Nil ok False al show thesis by (intro mbr [OF pos al ne]) simp
      qed
    next
      case (Cons p ps)
      with step ok False obtain gs where gs: "parse_gpt env rd c e = Inr gs" by auto
      show thesis
      proof (cases "gs = []")
        case True
        with step Cons ok False gs show thesis by (intro protective [OF pos, of p]) simp
      next
        case ne: False
        with step Cons ok False gs have "vs = gs" by simp
        with gs ne show thesis by (intro gpt [OF pos]) simp_all
      qed
    qed
  qed
qed

lemma mbr_loop_cases:
  assumes "mbr_loop env rd c e (x # es) vols = Inr vs"
  obtains (unused) "mbr_loop env rd c e es vols = Inr vs"
  | (extended) ls where
      "parse_extended_chain env rd c e (mbr_start_lba x) (int (length vols)) = Inr ls"
      "mbr_loop env rd c e es (vols @ ls) = Inr vs"
  | (primary) "mbr_loop env rd c e es (vols @
      [volume env rd c e (int (length vols)) (volume_scheme_value MBR) (type_str (mbr_type x))
         (mbr_start_lba x) (mbr_sector_count x) True
         (Some (''MBR Partition '' @ nat_str (length vols + 1))) None []]) = Inr vs"
  using assms by (auto simp: Let_def split: if_splits)

text \<open>The invariant rule of the extended-chain loop.\<close>

lemma extended_loop_invariant:
  assumes corrupt: "\<And>vols visited nxt. Q vols visited nxt \<Longrightarrow> nxt \<notin> set visited \<Longrightarrow>
      length visited < max_extended_chain \<Longrightarrow>
      Q (vols @ [corrupt_ebr_volume env rd c e f nxt (length vols)]) (visited @ [nxt]) nxt"
    and logical: "\<And>vols visited nxt entry nxt'. Q vols visited nxt \<Longrightarrow> nxt \<notin> set visited \<Longrightarrow>
      length visited < max_extended_chain \<Longrightarrow>
      Q (add_logical env rd c e f nxt entry vols) (visited @ [nxt]) nxt'"
  shows "extended_loop env rd c e b f vols visited nxt = Inr st \<Longrightarrow> Q vols visited nxt \<Longrightarrow>
    Q (cs_volumes st) (cs_visited st) (cs_next st)"
  using corrupt logical
proof (induction env rd c e b f vols visited nxt rule: extended_loop.induct)
  case (1 env rd c e b f vols visited nxt)
  note step = "1.prems"(1) [unfolded extended_loop.simps [of env rd c e b f vols visited nxt]]
  show ?case
  proof (cases "nxt \<in> set visited \<or> length visited \<ge> max_extended_chain")
    case True
    with step "1.prems"(2) show ?thesis by (auto split: if_splits)
  next
    case False
    then have new: "nxt \<notin> set visited" "length visited < max_extended_chain" by auto
    with step obtain ebr where ebr:
        "rd_read_at rd (nxt * rd_sector_size rd) (min (rd_sector_size rd) 512) = Inr ebr"
      by (auto split: sum.splits)
    show ?thesis
    proof (cases "corrupt_boot_record ebr \<or> chain_ends (mbr_entry_at ebr 1)")
      case True
      with step new ebr "1.prems" show ?thesis by (auto split: if_splits)
    next
      case more: False
      show ?thesis
        by (rule "1.IH" [OF _ _ ebr])
          (use step new ebr more "1.prems" in \<open>simp_all split: if_splits\<close>)
    qed
  qed
qed

subsection \<open>A property of single volumes holds of every parse\<close>

lemma type_str_not_gap [simp]: "type_str t \<noteq> ''UNALLOCATED''"
  by (simp add: type_str_def)

lemma uuid_not_gap [simp]: "uuid_of_bytes_le bs \<noteq> ''UNALLOCATED''"
proof
  assume eq: "uuid_of_bytes_le bs = ''UNALLOCATED''"
  have "CHR ''-'' \<in> set (uuid_of_bytes_le bs)" by (simp add: uuid_of_bytes_le_def)
  then show False unfolding eq by simp
qed

locale volume_invariant =
  fixes P :: "reader \<Rightarrow> string \<Rightarrow> string \<Rightarrow> evidence_volume \<Rightarrow> bool"
  assumes built: "t \<noteq> ''UNALLOCATED'' \<Longrightarrow> P rd c e (volume env rd c e i s t lba n a nm g w)"
    and rewarned: "P rd c e v \<Longrightarrow> P rd c e (v\<lparr>ev_warnings := w\<rparr>)"
    and reindexed: "P rd c e v \<Longrightarrow> P rd c e (v\<lparr>ev_volume_index := i\<rparr>)"
begin

lemma built_kinds:
  "P rd c e (superfloppy env rd c e ow)"
  "P rd c e (warning_volume env rd c e i s off w)"
  "P rd c e (protective_volume env rd c e p)"
  "P rd c e (chain_warning_volume env rd c e j st w)"
  by (simp_all add: superfloppy_def warning_volume_def protective_volume_def
      chain_warning_volume_def built)

lemma marked: "(\<And>v. v \<in> set vs \<Longrightarrow> P rd c e v) \<Longrightarrow> v \<in> set (mark_overlaps vs) \<Longrightarrow> P rd c e v"
  by (auto simp: mark_overlaps_def Let_def in_set_enumerate_eq rewarned)

lemma chain_loop:
  assumes "extended_loop env rd c e b f vols visited nxt = Inr st" "\<forall>v \<in> set vols. P rd c e v"
  shows "\<forall>v \<in> set (cs_volumes st). P rd c e v"
  by (rule extended_loop_invariant [where Q = "\<lambda>vols _ _. \<forall>v \<in> set vols. P rd c e v",
        OF _ _ assms])
    (simp_all add: corrupt_ebr_volume_def add_logical_def built built_kinds)

lemma chain:
  assumes "parse_extended_chain env rd c e b f = Inr vs" and "v \<in> set vs"
  shows "P rd c e v"
  using assms by (auto simp: parse_extended_chain_def built_kinds split: if_splits dest!: chain_loop)

lemma mbr:
  "mbr_loop env rd c e es vols = Inr vs \<Longrightarrow> \<forall>v \<in> set vols. P rd c e v \<Longrightarrow>
     \<forall>v \<in> set vs. P rd c e v"
proof (induction es arbitrary: vols)
  case (Cons x es)
  from Cons.prems(1) show ?case
  proof (cases rule: mbr_loop_cases)
    case unused
    then show ?thesis using Cons.prems(2) by (rule Cons.IH)
  next
    case (extended ls)
    from extended(2) show ?thesis
      by (rule Cons.IH) (use Cons.prems(2) chain [OF extended(1)] in auto)
  next
    case primary
    then show ?thesis by (rule Cons.IH) (use Cons.prems(2) built in auto)
  qed
qed simp

lemma gpt_step:
  "\<forall>v \<in> set vols. P rd c e v \<Longrightarrow>
     \<forall>v \<in> set (gpt_entry_step env rd c e w fu lu k x vols). P rd c e v"
  by (simp add: gpt_entry_step_def Let_def built built_kinds rewarned)

lemma gpt_entries:
  "\<forall>v \<in> set vols. P rd c e v \<Longrightarrow>
     \<forall>v \<in> set (gpt_entries_loop env rd c e w fu lu k es vols). P rd c e v"
proof (induction es arbitrary: k vols)
  case (Cons x es)
  show ?case unfolding gpt_entries_loop.simps by (rule Cons.IH [OF gpt_step [OF Cons.prems]])
qed simp

end

locale parse_invariant = volume_invariant +
  assumes gap_built: "P rd c e (unallocated_gap env rd c e i off len s)"
begin

lemma gaps:
  "(\<And>v. v \<in> set vs \<Longrightarrow> P rd c e v) \<Longrightarrow> v \<in> set (gap_loop env rd c e s l cur k vs) \<Longrightarrow> P rd c e v"
  by (induction vs arbitrary: cur k) (auto simp: gap_built split: if_splits)

lemma with_gaps:
  assumes "\<And>v. v \<in> set vs \<Longrightarrow> P rd c e v"
    and "v \<in> set (with_unallocated_gaps env rd vs c e g1 g2 s)"
  shows "P rd c e v"
proof (cases "vs = []")
  case True
  with assms(2) show ?thesis by (simp add: with_unallocated_gaps_def)
next
  case False
  let ?xs = "gap_loop env rd c e s (gap_end_limit rd g2) (gap_start rd g1 g2) 0
    (sort_key (\<lambda>v. (ev_byte_offset v, ev_volume_id v)) vs)"
  from False assms(2) obtain i where i: "i < length ?xs"
    and v: "v = (?xs ! i)\<lparr>ev_volume_index := int i\<rparr>"
    by (auto simp: with_unallocated_gaps_def reindex_def in_set_enumerate_eq)
  have "P rd c e (?xs ! i)"
    by (rule gaps [OF _ nth_mem [OF i]]) (simp add: assms(1))
  with v show ?thesis by (simp add: reindexed)
qed

lemma marked_gaps:
  "\<forall>v \<in> set vs. P rd c e v \<Longrightarrow>
     \<forall>v \<in> set (with_unallocated_gaps env rd (mark_overlaps vs) c e g1 g2 s). P rd c e v"
  using with_gaps [of "mark_overlaps vs"] marked [of vs] by blast

lemma gpt:
  assumes "parse_gpt env rd c e = Inr vs"
  shows "\<forall>v \<in> set vs. P rd c e v"
  using assms
proof (cases rule: parse_gpt_cases)
  case (entries ws fu lu n sz data vols)
  have "\<forall>v \<in> set vols. P rd c e v" unfolding entries(1) by (rule gpt_entries) simp
  then show ?thesis unfolding entries(6) by (rule marked_gaps)
qed (simp_all add: built_kinds)

theorem parsed:
  assumes "parse env rd c e = Inr vs"
  shows "\<forall>v \<in> set vs. P rd c e v"
  using assms
proof (cases rule: parse_cases)
  case *: gpt
  from *(2) show ?thesis by (rule gpt)
next
  case (protective p)
  then show ?thesis using with_gaps [of "[protective_volume env rd c e p]"] by (auto simp: built_kinds)
next
  case *: (mbr boot al)
  have "\<forall>v \<in> set al. P rd c e v" using *(2) by (rule mbr) simp
  then show ?thesis unfolding *(4) by (rule marked_gaps)
qed (simp_all add: built_kinds)

end

interpretation wf: parse_invariant
  "\<lambda>rd c e v. 0 < rd_sector_size rd \<longrightarrow> volume_wf rd v"
  by unfold_locales (auto simp: volume_wf_volume unallocated_gap_def, auto simp: volume_wf_def)

interpretation provenance: parse_invariant
  "\<lambda>rd c e v. ev_case_id v = c \<and> ev_evidence_id v = e"
  by unfold_locales (auto simp: unallocated_gap_def)

interpretation nongap: volume_invariant
  "\<lambda>rd c e v. ev_partition_type v \<noteq> ''UNALLOCATED''"
  by unfold_locales auto

subsection \<open>Coverage and separation of the gaps\<close>

definition covers :: "evidence_volume \<Rightarrow> int \<Rightarrow> bool" where
  "covers v b \<longleftrightarrow> ev_byte_offset v \<le> b \<and> b < vol_end v"

abbreviation is_gap :: "evidence_volume \<Rightarrow> bool" where
  "is_gap v \<equiv> ev_partition_type v = ''UNALLOCATED''"

lemma gap_type [simp]: "is_gap (unallocated_gap env rd c e i off len s)"
  by (simp add: unallocated_gap_def)

lemma gap_range:
  assumes "0 < rd_sector_size rd" "rd_sector_size rd dvd off" "0 \<le> off"
  shows "ev_byte_offset (unallocated_gap env rd c e i off len s) = off"
    and "0 \<le> len \<Longrightarrow> ev_byte_length (unallocated_gap env rd c e i off len s) =
      max 0 (min (ceil_div len (rd_sector_size rd) * rd_sector_size rd) (rd_size rd - off))"
  using assms by (auto simp: unallocated_gap_def volume_length pos_imp_zdiv_nonneg_iff
      ceil_div_nonneg max_absorb2)

lemma gap_covers:
  assumes "0 < rd_sector_size rd" "rd_sector_size rd dvd off" "0 \<le> off"
    and "off \<le> b" "b < off + len" "b < rd_size rd"
  shows "covers (unallocated_gap env rd c e i off len s) b"
proof -
  have "len \<le> ceil_div len (rd_sector_size rd) * rd_sector_size rd"
    using assms(1) by (rule ceil_div_ge)
  with assms gap_range [OF assms(1-3)] show ?thesis by (simp add: covers_def)
qed

text \<open>The cursor of the gap loop is sector aligned until the image is exhausted.\<close>

definition cursor_ok :: "reader \<Rightarrow> int \<Rightarrow> bool" where
  "cursor_ok rd cur \<longleftrightarrow> 0 \<le> cur \<and> (rd_sector_size rd dvd cur \<or> rd_size rd \<le> cur)"

lemma cursor_ok_step: "cursor_ok rd cur \<Longrightarrow> volume_wf rd v \<Longrightarrow> cursor_ok rd (max cur (vol_end v))"
  by (auto simp: cursor_ok_def volume_wf_def max_def)

lemma gap_loop_covers:
  assumes "0 < rd_sector_size rd" "lm \<le> rd_size rd"
  shows "cursor_ok rd cur \<Longrightarrow> \<forall>v \<in> set vs. volume_wf rd v \<Longrightarrow> cur \<le> b \<Longrightarrow> b < lm \<Longrightarrow>
    \<exists>v \<in> set (gap_loop env rd c e s lm cur k vs). covers v b"
proof (induction vs arbitrary: cur k)
  case Nil
  then show ?case
    using assms gap_covers [of rd cur b "lm - cur"] by (auto simp: cursor_ok_def)
next
  case (Cons v vs)
  show ?case
  proof (cases "b < ev_byte_offset v")
    case True
    then have "covers (unallocated_gap env rd c e (10000 + k) cur (ev_byte_offset v - cur) s) b"
      using Cons.prems assms by (intro gap_covers) (auto simp: cursor_ok_def)
    with True Cons.prems show ?thesis by auto
  next
    case False
    show ?thesis
    proof (cases "b < vol_end v")
      case True
      with False have "covers v b" by (simp add: covers_def)
      then show ?thesis by auto
    next
      case past: False
      have "\<exists>w \<in> set (gap_loop env rd c e s lm (max cur (vol_end v))
          (if ev_byte_offset v > cur then k + 1 else k) vs). covers w b"
        using Cons.prems past by (intro Cons.IH) (auto simp: cursor_ok_step)
      then show ?thesis by auto
    qed
  qed
qed

text \<open>When the image is a whole number of sectors, a gap ends where the next volume starts.\<close>

definition apart :: "evidence_volume \<Rightarrow> evidence_volume \<Rightarrow> bool" where
  "apart u v \<longleftrightarrow> ev_byte_offset u \<le> ev_byte_offset v \<and>
     (is_gap u \<or> is_gap v \<longrightarrow> vol_end u \<le> ev_byte_offset v)"

definition sector_range :: "reader \<Rightarrow> evidence_volume \<Rightarrow> bool" where
  "sector_range rd v \<longleftrightarrow> rd_sector_size rd dvd ev_byte_offset v \<and> 0 \<le> ev_byte_offset v \<and>
     rd_sector_size rd dvd ev_byte_length v \<and> 0 \<le> ev_byte_length v"

lemma wf_sector_range:
  assumes "volume_wf rd v" "rd_sector_size rd dvd rd_size rd" "0 < rd_sector_size rd"
  shows "sector_range rd v"
proof -
  have off: "rd_sector_size rd dvd ev_byte_offset v" "0 \<le> ev_byte_offset v"
    using assms by (auto simp: volume_wf_def)
  have "rd_sector_size rd dvd ev_byte_length v"
  proof (cases "rd_sector_size rd dvd ev_byte_length v")
    case False
    then have "vol_end v = rd_size rd" using assms(1) by (auto simp: volume_wf_def)
    then have "ev_byte_length v = rd_size rd - ev_byte_offset v" by linarith
    with assms(2) off(1) show ?thesis by (metis dvd_diff)
  qed
  with off assms(1) show ?thesis by (simp add: sector_range_def volume_wf_def)
qed

lemma gap_loop_set:
  assumes "0 < rd_sector_size rd"
  shows "0 \<le> cur \<Longrightarrow> rd_sector_size rd dvd cur \<Longrightarrow> \<forall>v \<in> set vs. sector_range rd v \<Longrightarrow>
    w \<in> set (gap_loop env rd c e s lm cur k vs) \<Longrightarrow> w \<in> set vs \<or> is_gap w \<and> cur \<le> ev_byte_offset w"
proof (induction vs arbitrary: cur k)
  case Nil
  then show ?case using gap_range(1) [OF assms] by (auto split: if_splits)
next
  case (Cons v vs)
  let ?cur = "max cur (vol_end v)"
  have "0 \<le> ?cur" "rd_sector_size rd dvd ?cur"
    using Cons.prems by (auto simp: sector_range_def max_def)
  note IH = Cons.IH [OF this]
  show ?case
    using Cons.prems gap_range(1) [OF assms] by (auto dest!: IH split: if_splits)
qed

lemma gap_loop_apart:
  assumes "0 < rd_sector_size rd"
  shows "0 \<le> cur \<Longrightarrow> rd_sector_size rd dvd cur \<Longrightarrow> sorted (List.map ev_byte_offset vs) \<Longrightarrow>
    \<forall>v \<in> set vs. sector_range rd v \<and> \<not> is_gap v \<Longrightarrow>
    sorted_wrt apart (gap_loop env rd c e s lm cur k vs)"
proof (induction vs arbitrary: cur k)
  case (Cons v vs)
  let ?cur = "max cur (vol_end v)"
  let ?k = "if ev_byte_offset v > cur then k + 1 else k"
  let ?rest = "gap_loop env rd c e s lm ?cur ?k vs"
  let ?g = "unallocated_gap env rd c e (10000 + k) cur (ev_byte_offset v - cur) s"
  have v: "sector_range rd v" "\<not> is_gap v" using Cons.prems by auto
  have cur: "0 \<le> ?cur" "rd_sector_size rd dvd ?cur"
    using Cons.prems v by (auto simp: sector_range_def max_def)
  have rest: "sorted_wrt apart ?rest" using Cons.prems by (intro Cons.IH cur) auto
  have in_rest: "w \<in> set vs \<and> ev_byte_offset v \<le> ev_byte_offset w \<and> \<not> is_gap w \<or>
      is_gap w \<and> ?cur \<le> ev_byte_offset w" if "w \<in> set ?rest" for w
    using gap_loop_set [OF assms cur _ that] Cons.prems by auto
  have v_rest: "apart v w" if "w \<in> set ?rest" for w
    using in_rest [OF that] v by (auto simp: apart_def sector_range_def)
  have gap: "apart ?g w" if "cur < ev_byte_offset v" "w = v \<or> w \<in> set ?rest" for w
  proof -
    have "rd_sector_size rd dvd ev_byte_offset v - cur"
      using v Cons.prems by (auto simp: sector_range_def)
    then have "ceil_div (ev_byte_offset v - cur) (rd_sector_size rd) * rd_sector_size rd =
        ev_byte_offset v - cur" by (rule ceil_div_dvd [OF assms])
    with gap_range [OF assms Cons.prems(2,1)] that(1)
    have g: "ev_byte_offset ?g = cur" "vol_end ?g \<le> ev_byte_offset v" by auto
    have "ev_byte_offset v \<le> ev_byte_offset w"
      using that(2) in_rest [of w] v by (auto simp: sector_range_def)
    with g that(1) show ?thesis by (simp add: apart_def)
  qed
  show ?case using rest v_rest gap by auto
qed simp

lemma length_reindex [simp]: "length (reindex vs) = length vs"
  by (simp add: reindex_def)

lemma reindex_nth: "i < length vs \<Longrightarrow> reindex vs ! i = (vs ! i)\<lparr>ev_volume_index := int i\<rparr>"
  by (simp add: reindex_def nth_enumerate_eq)

lemma reindex_ex: "(\<exists>v \<in> set (reindex vs). covers v b) \<longleftrightarrow> (\<exists>v \<in> set vs. covers v b)"
  by (auto simp: in_set_conv_nth Bex_def reindex_nth covers_def)

lemma reindex_apart: "sorted_wrt apart (reindex vs) \<longleftrightarrow> sorted_wrt apart vs"
  by (auto simp: sorted_wrt_iff_nth_less reindex_nth apart_def)

lemma sorted_by_offset:
  "sorted (List.map ev_byte_offset (sort_key (\<lambda>v. (ev_byte_offset v, ev_volume_id v)) vs))"
proof -
  have "sorted (List.map (\<lambda>v. (ev_byte_offset v, ev_volume_id v))
      (sort_key (\<lambda>v. (ev_byte_offset v, ev_volume_id v)) vs))" by simp
  then show ?thesis
    by (auto simp: sorted_iff_nth_mono less_eq_prod_def)
      (metis (no_types, lifting) le_less length_sort)
qed

lemma gap_start_ok:
  assumes "0 < rd_sector_size rd" "0 \<le> rd_size rd" "\<forall>l. ge = Some l \<longrightarrow> - 1 \<le> l"
  shows "cursor_ok rd (gap_start rd g ge)"
proof -
  let ?ss = "rd_sector_size rd"
  have lim0: "0 \<le> gap_end_limit rd ge"
    using assms by (auto simp: gap_end_limit_def split: option.splits)
  have lim: "?ss dvd gap_end_limit rd ge \<or> rd_size rd \<le> gap_end_limit rd ge"
    by (auto simp: gap_end_limit_def min_def split: option.splits)
  have "?ss dvd max 0 (g * ?ss)" by (simp add: max_def)
  with lim0 lim show ?thesis by (auto simp: cursor_ok_def gap_start_def min_def)
qed

lemma gap_end_limit_le: "gap_end_limit rd ge \<le> rd_size rd"
  by (auto simp: gap_end_limit_def split: option.splits)

lemma with_gaps_covers:
  assumes "0 < rd_sector_size rd" "0 \<le> rd_size rd" "\<forall>l. ge = Some l \<longrightarrow> - 1 \<le> l" "vs \<noteq> []"
    and "\<forall>v \<in> set vs. volume_wf rd v"
    and "gap_start rd g ge \<le> b" "b < gap_end_limit rd ge"
  shows "\<exists>v \<in> set (with_unallocated_gaps env rd vs c e g ge s). covers v b"
  using assms gap_loop_covers [OF assms(1) gap_end_limit_le gap_start_ok [OF assms(1-3)],
      of "sort_key (\<lambda>v. (ev_byte_offset v, ev_volume_id v)) vs" g b]
  by (simp add: with_unallocated_gaps_def reindex_ex)

lemma with_gaps_apart:
  assumes "0 < rd_sector_size rd" "0 \<le> rd_size rd" "\<forall>l. ge = Some l \<longrightarrow> - 1 \<le> l"
    and "rd_sector_size rd dvd rd_size rd" "\<forall>v \<in> set vs. volume_wf rd v \<and> \<not> is_gap v"
  shows "sorted_wrt apart (with_unallocated_gaps env rd vs c e g ge s)"
proof -
  let ?ss = "rd_sector_size rd"
  have "?ss dvd gap_end_limit rd ge"
    using assms(4) by (auto simp: gap_end_limit_def min_def split: option.splits)
  then have cur: "?ss dvd gap_start rd g ge" "0 \<le> gap_start rd g ge"
    using gap_start_ok [OF assms(1-3), of g] by (auto simp: gap_start_def min_def max_def cursor_ok_def)
  have vs: "\<forall>v \<in> set (sort_key (\<lambda>v. (ev_byte_offset v, ev_volume_id v)) vs).
      sector_range rd v \<and> \<not> is_gap v"
    using assms(5) wf_sector_range [OF _ assms(4,1)] by auto
  show ?thesis
    unfolding with_unallocated_gaps_def
    using gap_loop_apart [OF assms(1) cur(2,1) sorted_by_offset vs] by (simp add: reindex_apart)
qed

lemma mark_overlaps_Nil [simp]: "mark_overlaps vs = [] \<longleftrightarrow> vs = []"
  by (cases vs) (auto simp: mark_overlaps_def Let_def)

lemma gpt_entries_scheme:
  "\<forall>v \<in> set vols. ev_scheme v = ''GPT'' \<Longrightarrow>
     \<forall>v \<in> set (gpt_entries_loop env rd c e w fu lu k es vols). ev_scheme v = ''GPT''"
proof (induction es arbitrary: k vols)
  case (Cons x es)
  have "\<forall>v \<in> set (gpt_entry_step env rd c e w fu lu k x vols). ev_scheme v = ''GPT''"
    using Cons.prems by (simp add: gpt_entry_step_def Let_def warning_volume_def)
  then show ?case unfolding gpt_entries_loop.simps by (rule Cons.IH)
qed simp

lemma with_gaps_schemes:
  assumes "vs \<noteq> []" "\<forall>v \<in> set vs. ev_scheme v = t"
  shows "\<exists>v \<in> set (with_unallocated_gaps env rd vs c e g ge s). ev_scheme v = t"
proof -
  let ?vs = "sort_key (\<lambda>v. (ev_byte_offset v, ev_volume_id v)) vs"
  let ?xs = "gap_loop env rd c e s (gap_end_limit rd ge) (gap_start rd g ge) 0 ?vs"
  have sub: "set us \<subseteq> set (gap_loop env rd c e s l cur k us)" for l cur k us
    by (induction us arbitrary: cur k) auto
  from assms(1) obtain v where "v \<in> set vs" by (cases vs) auto
  then have v: "v \<in> set ?vs" by simp
  have "v \<in> set ?xs" by (rule subsetD [OF sub v])
  then obtain i where i: "i < length ?xs" "?xs ! i = v" unfolding in_set_conv_nth by blast
  then have "reindex ?xs ! i \<in> set (reindex ?xs)" by simp
  moreover have "ev_scheme (reindex ?xs ! i) = t"
    using assms(2) v i by (simp add: reindex_nth)
  moreover note assms(1)
  ultimately show ?thesis by (auto simp: with_unallocated_gaps_def)
qed

lemma marked_scheme: "\<forall>v \<in> set vs. ev_scheme v = t \<Longrightarrow> \<forall>v \<in> set (mark_overlaps vs). ev_scheme v = t"
  by (auto simp: mark_overlaps_def Let_def in_set_enumerate_eq)

lemma parse_gpt_scheme:
  assumes "parse_gpt env rd c e = Inr vs" "vs \<noteq> []"
  shows "\<exists>v \<in> set vs. ev_scheme v = ''GPT''"
  using assms(1)
proof (cases rule: parse_gpt_cases)
  case (too_large off w)
  then show ?thesis by (simp add: warning_volume_def)
next
  case (entries ws fu lu n sz data vols)
  have "\<forall>v \<in> set (mark_overlaps vols). ev_scheme v = ''GPT''"
    unfolding entries(1) by (intro marked_scheme gpt_entries_scheme) simp
  then show ?thesis using entries(2,6) by (auto intro: with_gaps_schemes)
qed (use assms(2) in simp)

end
