(* ===== verification/Partition_Properties.thy ===== *)
theory Partition_Properties
  imports Partition_Facts
begin

section \<open>Overlap marking, bounds and totality of the partition parser\<close>

text \<open>
  The remaining lemmas of \<open>PartitionParser\<close> and its properties: every pair of volumes that
  intersect is flagged, the number of volumes is bounded, a parse of an open image of any content
  returns, the volumes lie inside the image, cover it, and the unallocated gaps are apart from
  everything else.
\<close>

subsection \<open>Pairwise relations and permutations\<close>

lemma sorted_wrt_permute:
  assumes "\<And>u v. R u v \<Longrightarrow> R v u"
  shows "mset xs = mset ys \<Longrightarrow> sorted_wrt R xs \<Longrightarrow> sorted_wrt R ys"
proof (induction xs arbitrary: ys)
  case (Cons x xs)
  from Cons.prems(1) have "x \<in> set ys" by (metis list.set_intros(1) mset_eq_setD)
  then obtain a b where ys: "ys = a @ x # b" by (auto dest: split_list)
  with Cons.prems(1) have eq: "mset xs = mset (a @ b)" by simp
  with Cons have "sorted_wrt R (a @ b)" by simp
  moreover have "\<forall>y \<in> set (a @ b). R x y" using Cons.prems(2) mset_eq_setD [OF eq] by auto
  ultimately show ?case unfolding ys using assms by (auto simp: sorted_wrt_append)
qed simp

lemma sorted_wrt_filter_all:
  assumes "\<And>u v. \<not> Q u \<or> \<not> Q v \<Longrightarrow> R u v"
  shows "sorted_wrt R xs \<longleftrightarrow> sorted_wrt R (filter Q xs)"
  using assms by (induction xs) auto

subsection \<open>Overlaps\<close>

definition overlap_flagged :: "evidence_volume \<Rightarrow> bool" where
  "overlap_flagged v \<longleftrightarrow> overlap_warning \<in> set (ev_warnings v)"

definition intersects :: "evidence_volume \<Rightarrow> evidence_volume \<Rightarrow> bool" where
  "intersects u v \<longleftrightarrow> 0 < ev_byte_length u \<and> 0 < ev_byte_length v \<and>
     ev_byte_offset u < vol_end v \<and> ev_byte_offset v < vol_end u"

definition overlap_reported :: "evidence_volume \<Rightarrow> evidence_volume \<Rightarrow> bool" where
  "overlap_reported u v \<longleftrightarrow>
     (\<not> is_gap u \<and> \<not> is_gap v \<and> intersects u v \<longrightarrow> overlap_flagged u \<or> overlap_flagged v)"

lemma overlap_scan_sub: "set (overlap_scan prev xs) \<subseteq> fst ` set xs"
  by (induction prev xs rule: overlap_scan.induct) auto

lemma overlap_scan_mem:
  "distinct (List.map fst xs) \<Longrightarrow> k < length xs \<Longrightarrow>
     fst (xs ! k) \<in> set (overlap_scan prev xs) \<longleftrightarrow>
       ev_byte_offset (snd (xs ! k)) < prev \<or>
       (\<exists>j < k. ev_byte_offset (snd (xs ! k)) < vol_end (snd (xs ! j)))"
proof (induction prev xs arbitrary: k rule: overlap_scan.induct)
  case (2 prev i v rest)
  let ?prev = "max prev (vol_end v)"
  show ?case
  proof (cases k)
    case 0
    have "i \<notin> set (overlap_scan ?prev rest)"
      using overlap_scan_sub [of ?prev rest] "2.prems"(1) by auto
    with 0 show ?thesis by auto
  next
    case (Suc m)
    then have "rest ! m \<in> set rest" using "2.prems" by simp
    then have "fst (rest ! m) \<noteq> i" using "2.prems" by auto
    with Suc "2.IH" [of m] "2.prems" show ?thesis
      by (auto simp: less_Suc_eq_0_disj max_def)
  qed
qed simp

lemma sorted_volumes_facts:
  shows "distinct (List.map fst (sorted_volumes vs))"
    and "mset (sorted_volumes vs) = mset (List.enumerate 0 vs)"
    and "sorted (List.map (\<lambda>(i, v). (ev_byte_offset v, ev_byte_length v)) (sorted_volumes vs))"
    and "length (sorted_volumes vs) = length vs"
proof -
  have "mset (List.map fst (sorted_volumes vs)) = mset (List.map fst (List.enumerate 0 vs))"
    unfolding sorted_volumes_def mset_map by simp
  then have "mset (List.map fst (sorted_volumes vs)) = mset [0..<length vs]" by simp
  then show "distinct (List.map fst (sorted_volumes vs))"
    by (metis distinct_upt mset_eq_imp_distinct_iff)
qed (simp_all add: sorted_volumes_def)

lemma mark_overlaps_nth:
  assumes "i < length vs"
  shows "mark_overlaps vs ! i = (if i \<in> set (overlap_scan (- 1) (sorted_volumes vs))
    then (vs ! i)\<lparr>ev_warnings := ev_warnings (vs ! i) @ [overlap_warning]\<rparr> else vs ! i)"
  using assms by (simp add: mark_overlaps_def Let_def nth_enumerate_eq)

lemma length_mark_overlaps [simp]: "length (mark_overlaps vs) = length vs"
  by (simp add: mark_overlaps_def Let_def)

lemma sorted_volumes_pos:
  assumes "i < length vs"
  obtains k where "k < length vs" "sorted_volumes vs ! k = (i, vs ! i)"
proof -
  have "(i, vs ! i) \<in> set (List.enumerate 0 vs)" using assms by (simp add: in_set_enumerate_eq)
  then have "(i, vs ! i) \<in> set (sorted_volumes vs)"
    by (metis mset_eq_setD sorted_volumes_facts(2))
  then show thesis using that by (metis in_set_conv_nth sorted_volumes_facts(4))
qed

lemma marked_overlap_reported:
  "sorted_wrt overlap_reported (mark_overlaps vs)"
proof -
  have "overlap_reported (mark_overlaps vs ! i) (mark_overlaps vs ! j)"
    if ij: "i < j" "j < length vs" for i j
  proof -
    from ij have i: "i < length vs" by simp
    obtain p q where p: "p < length vs" "sorted_volumes vs ! p = (i, vs ! i)"
      and q: "q < length vs" "sorted_volumes vs ! q = (j, vs ! j)"
      using i ij(2) by (metis sorted_volumes_pos)
    from p q ij have "p \<noteq> q" by auto
    note mem = overlap_scan_mem [OF sorted_volumes_facts(1), unfolded sorted_volumes_facts(4)]
    have "i \<in> set (overlap_scan (- 1) (sorted_volumes vs)) \<or>
        j \<in> set (overlap_scan (- 1) (sorted_volumes vs))" if "intersects (vs ! i) (vs ! j)"
    proof (cases "p < q")
      case True
      then show ?thesis using mem [OF q(1), of "- 1"] p q that by (auto simp: intersects_def)
    next
      case False
      with \<open>p \<noteq> q\<close> have "q < p" by simp
      then show ?thesis using mem [OF p(1), of "- 1"] p q that by (auto simp: intersects_def)
    qed
    then show ?thesis
      using i ij by (auto simp: overlap_reported_def mark_overlaps_nth overlap_flagged_def
          intersects_def)
  qed
  then show ?thesis by (auto simp: sorted_wrt_iff_nth_less)
qed

lemma gap_loop_nongap:
  "\<forall>v \<in> set vs. \<not> is_gap v \<Longrightarrow> filter (\<lambda>v. \<not> is_gap v) (gap_loop env rd c e s l cur k vs) = vs"
  by (induction vs arbitrary: cur k) auto

lemma overlap_reported_reindex:
  "sorted_wrt overlap_reported (reindex vs) \<longleftrightarrow> sorted_wrt overlap_reported vs"
  by (auto simp: sorted_wrt_iff_nth_less reindex_nth overlap_reported_def intersects_def
      overlap_flagged_def)

lemma with_gaps_overlap_reported:
  assumes "\<forall>v \<in> set vs. \<not> is_gap v" "sorted_wrt overlap_reported vs"
  shows "sorted_wrt overlap_reported (with_unallocated_gaps env rd vs c e g ge s)"
proof -
  let ?vs = "sort_key (\<lambda>v. (ev_byte_offset v, ev_volume_id v)) vs"
  have "sorted_wrt overlap_reported ?vs"
    by (rule sorted_wrt_permute [OF _ _ assms(2)])
      (auto simp: overlap_reported_def intersects_def)
  moreover have "filter (\<lambda>v. \<not> is_gap v) (gap_loop env rd c e s l cur k ?vs) = ?vs" for l cur k
    using assms(1) by (intro gap_loop_nongap) simp
  ultimately have "sorted_wrt overlap_reported (gap_loop env rd c e s l cur k ?vs)" for l cur k
    by (subst sorted_wrt_filter_all [where Q = "\<lambda>v. \<not> is_gap v"])
      (auto simp: overlap_reported_def)
  then show ?thesis by (simp add: with_unallocated_gaps_def overlap_reported_reindex)
qed

lemma protective_not_gap [simp]: "\<not> is_gap (protective_volume env rd c e p)"
  by (simp add: protective_volume_def)

lemma marked_not_gap: "\<forall>v \<in> set vs. \<not> is_gap v \<Longrightarrow> \<forall>v \<in> set (mark_overlaps vs). \<not> is_gap v"
  by (auto simp: mark_overlaps_def Let_def in_set_enumerate_eq split: if_splits)

lemma parse_gpt_overlap_reported:
  assumes "parse_gpt env rd c e = Inr vs"
  shows "sorted_wrt overlap_reported vs"
  using assms
proof (cases rule: parse_gpt_cases)
  case (entries ws fu lu n sz data vols)
  have "\<forall>v \<in> set vols. \<not> is_gap v" unfolding entries(1) by (rule nongap.gpt_entries) simp
  then show ?thesis
    unfolding entries(6) by (intro with_gaps_overlap_reported marked_not_gap marked_overlap_reported)
qed auto

lemma parse_overlap_reported:
  assumes "parse env rd c e = Inr vs"
  shows "sorted_wrt overlap_reported vs"
  using assms
proof (cases rule: parse_cases)
  case gpt
  then show ?thesis using parse_gpt_overlap_reported by blast
next
  case (protective p)
  then show ?thesis using with_gaps_overlap_reported [of "[protective_volume env rd c e p]"] by simp
next
  case *: (mbr boot al)
  have "\<forall>v \<in> set al. \<not> is_gap v" by (rule nongap.mbr [OF *(2)]) simp
  then show ?thesis
    unfolding *(4) by (intro with_gaps_overlap_reported marked_not_gap marked_overlap_reported)
qed auto

subsection \<open>Bounds\<close>

lemma extended_loop_bound:
  assumes "extended_loop env rd c e b f [] [] nxt = Inr st"
  shows "distinct (cs_visited st) \<and> length (cs_visited st) \<le> max_extended_chain \<and>
     length (cs_volumes st) \<le> length (cs_visited st)"
  by (rule extended_loop_invariant [where Q = "\<lambda>vols visited _. distinct visited \<and>
        length visited \<le> max_extended_chain \<and> length vols \<le> length visited", OF _ _ assms])
    (auto simp: add_logical_def)

lemma extended_chain_bound:
  assumes "parse_extended_chain env rd c e b f = Inr vs"
  shows "length vs \<le> max_extended_chain + 1"
proof -
  from assms obtain st where st: "extended_loop env rd c e b f [] [] b = Inr st"
    and len: "length vs \<le> length (cs_volumes st) + 1"
    by (auto simp: parse_extended_chain_def split: if_splits)
  from extended_loop_bound [OF st] len show ?thesis by simp
qed

lemma mbr_loop_bound:
  "mbr_loop env rd c e es vols = Inr vs \<Longrightarrow>
     length vs \<le> length vols + length es * (max_extended_chain + 1)"
proof (induction es arbitrary: vols)
  case (Cons x es)
  from Cons.prems show ?case
  proof (cases rule: mbr_loop_cases)
    case unused
    from Cons.IH [OF unused] show ?thesis by simp
  next
    case (extended ls)
    from Cons.IH [OF extended(2)] extended_chain_bound [OF extended(1)] show ?thesis by simp
  next
    case primary
    from Cons.IH [OF primary] show ?thesis by simp
  qed
qed simp

lemma gap_loop_length: "length (gap_loop env rd c e s l cur k vs) \<le> 2 * length vs + 1"
proof (induction vs arbitrary: cur k)
  case (Cons v vs)
  show ?case
    using Cons.IH [of "max cur (vol_end v)" k] Cons.IH [of "max cur (vol_end v)" "k + 1"] by simp
qed simp

lemma with_gaps_length: "length (with_unallocated_gaps env rd vs c e g ge s) \<le> 2 * length vs + 1"
  using gap_loop_length [of env rd c e s _ _ _ "sort_key (\<lambda>v. (ev_byte_offset v, ev_volume_id v)) vs"]
  by (simp add: with_unallocated_gaps_def)

lemma gpt_entry_step_length:
  "length (gpt_entry_step env rd c e w fu lu k x vols) \<le> length vols + 1"
  by (simp add: gpt_entry_step_def Let_def)

lemma gpt_entries_length:
  "length (gpt_entries_loop env rd c e w fu lu k es vols) \<le> length vols + length es"
proof (induction es arbitrary: k vols)
  case (Cons x es)
  show ?case
    using Cons.IH [of "Suc k" "gpt_entry_step env rd c e w fu lu k x vols"]
      gpt_entry_step_length [of env rd c e w fu lu k x vols] by simp
qed simp

lemma parse_gpt_length:
  assumes "parse_gpt env rd c e = Inr vs"
  shows "length vs \<le> 262145"
  using assms
proof (cases rule: parse_gpt_cases)
  case (entries ws fu lu n sz data vols)
  have "length vols \<le> n"
    unfolding entries(1)
    by (rule order.trans [OF gpt_entries_length]) (simp add: gpt_chunks_def)
  moreover have "n \<le> 131072" using entries(3) by (simp add: max_gpt_entry_bytes_def)
  ultimately show ?thesis
    unfolding entries(6) by (intro order.trans [OF with_gaps_length]) simp
qed auto

lemma parse_length:
  assumes "parse env rd c e = Inr vs"
  shows "length vs \<le> 262145"
  using assms
proof (cases rule: parse_cases)
  case gpt
  then show ?thesis using parse_gpt_length by blast
next
  case (protective p)
  have "length vs \<le> 2 * length [protective_volume env rd c e p] + 1"
    unfolding protective(2) by (rule with_gaps_length)
  then show ?thesis by simp
next
  case (mbr boot al)
  have "length al \<le> 516"
    using mbr_loop_bound [OF mbr(2)] by (simp add: mbr_entries_def max_extended_chain_def)
  then show ?thesis unfolding mbr(4) by (intro order.trans [OF with_gaps_length]) simp
qed auto

subsection \<open>Totality\<close>

lemma mbr_entry_nonneg: "0 \<le> mbr_start_lba (mbr_entry_at bs i)"
  by (simp add: mbr_entry_at_def Let_def)

context bounded_reader
begin

lemma extended_loop_total:
  "rd = view s \<Longrightarrow> ready s \<Longrightarrow> 512 \<le> max_read s \<Longrightarrow> 0 \<le> b \<Longrightarrow> 0 \<le> nxt \<Longrightarrow>
     is_ok (extended_loop env rd c e b f vols visited nxt)"
proof (induction env rd c e b f vols visited nxt rule: extended_loop.induct)
  case (1 env rd c e b f vols visited nxt)
  note eq = extended_loop.simps [of env rd c e b f vols visited nxt]
  show ?case
  proof (cases "nxt \<in> set visited \<or> length visited \<ge> max_extended_chain")
    case True
    then show ?thesis unfolding eq by auto
  next
    case False
    have "is_ok (rd_read_at rd (nxt * rd_sector_size rd) (min (rd_sector_size rd) 512))"
      using "1.prems" sector_pos [of s] by (simp add: read_ok_iff)
    then obtain ebr where ebr:
        "rd_read_at rd (nxt * rd_sector_size rd) (min (rd_sector_size rd) 512) = Inr ebr"
      by (auto simp: is_ok_iff)
    have next_lba: "0 \<le> b + mbr_start_lba (mbr_entry_at ebr 1)"
      using "1.prems" mbr_entry_nonneg [of ebr 1] by simp
    from "1.IH" [OF _ _ ebr _ _ "1.prems"(1-4) next_lba] False show ?thesis
      unfolding eq by (auto simp: ebr simp del: One_nat_def)
  qed
qed

lemma extended_chain_total:
  assumes "ready s" "512 \<le> max_read s" "0 \<le> b"
  shows "is_ok (parse_extended_chain env (view s) c e b f)"
  using extended_loop_total [OF refl assms(1,2,3,3)]
  by (auto simp: parse_extended_chain_def is_ok_iff)

lemma mbr_loop_total:
  assumes "ready s" "512 \<le> max_read s"
  shows "\<forall>x \<in> set es. 0 \<le> mbr_start_lba x \<Longrightarrow> is_ok (mbr_loop env (view s) c e es vols)"
proof (induction es arbitrary: vols)
  case (Cons x es)
  then have "0 \<le> mbr_start_lba x" by simp
  from extended_chain_total [OF assms this] obtain ls where
      "parse_extended_chain env (view s) c e (mbr_start_lba x) (int (length vols)) = Inr ls"
    by (rule is_okE)
  with Cons show ?case by (simp add: Let_def)
qed simp

lemma parse_gpt_total:
  assumes "ready s" "max_gpt_entry_bytes \<le> max_read s" "rd_sector_size (view s) \<le> max_read s"
  shows "is_ok (parse_gpt env (view s) c e)"
proof -
  have ss: "0 < rd_sector_size (view s)" using assms(1) by (rule sector_pos)
  have "is_ok (rd_read_at (view s) (rd_sector_size (view s)) (rd_sector_size (view s)))"
    using assms ss by (simp add: read_ok_iff)
  then obtain hd where
      "rd_read_at (view s) (rd_sector_size (view s)) (rd_sector_size (view s)) = Inr hd"
    by (auto simp: is_ok_iff)
  moreover have "is_ok (rd_read_at (view s) (le64 hd 72 * rd_sector_size (view s))
      (min (le32 hd 80 * le32 hd 84) (rd_size (view s) - le64 hd 72 * rd_sector_size (view s))))"
    if "le64 hd 72 * rd_sector_size (view s) < rd_size (view s)"
      "le32 hd 80 * le32 hd 84 \<le> max_gpt_entry_bytes"
  proof -
    have "0 \<le> le32 hd 80 * le32 hd 84" "0 \<le> le64 hd 72 * rd_sector_size (view s)"
      using ss by (simp_all add: le32_def le64_def)
    with that assms show ?thesis by (simp add: read_ok_iff)
  qed
  ultimately show ?thesis
    by (auto simp: parse_gpt_def Let_def is_ok_bind is_ok_iff [of "rd_read_at _ _ _"])
qed

lemma parse_total:
  assumes "ready s" "max_gpt_entry_bytes \<le> max_read s" "rd_sector_size (view s) \<le> max_read s"
  shows "is_ok (parse env (view s) c e)"
proof (cases "rd_size (view s) \<le> 0")
  case False
  have ss: "0 < rd_sector_size (view s)" using assms(1) by (rule sector_pos)
  have "is_ok (rd_read_at (view s) 0 (min (rd_sector_size (view s)) (rd_size (view s))))"
    using assms ss False by (simp add: read_ok_iff)
  then obtain boot where
      "rd_read_at (view s) 0 (min (rd_sector_size (view s)) (rd_size (view s))) = Inr boot"
    by (auto simp: is_ok_iff)
  moreover from parse_gpt_total [OF assms] obtain vs where
      "parse_gpt env (view s) c e = Inr vs" by (rule is_okE)
  moreover have "512 \<le> max_read s" using assms(2) by (simp add: max_gpt_entry_bytes_def)
  then have "is_ok (mbr_loop env (view s) c e (mbr_entries boot) [])"
    by (rule mbr_loop_total [OF assms(1)]) (simp add: mbr_entries_def mbr_entry_nonneg)
  then obtain al where "mbr_loop env (view s) c e (mbr_entries boot) [] = Inr al"
    by (rule is_okE)
  ultimately show ?thesis
    by (simp add: parse_def Let_def False split: list.splits)
qed (simp add: parse_def)

end

subsection \<open>A sample image\<close>

text \<open>A reader over a byte list, and a boot sector with two table entries.  \<open>overlap_disk\<close>
  holds a partition of sectors 1 and 2 and one of sector 2; \<open>ragged_disk\<close> has 1000 bytes, a
  partition at sector 1 and one that starts beyond the end.\<close>

definition disk_reader :: "bytes \<Rightarrow> int \<Rightarrow> reader" where
  "disk_reader disk ss = \<lparr>rd_id = ''r'', rd_version = ''1'', rd_size = int (length disk),
     rd_sector_size = ss, rd_read_at = \<lambda>off n. Inr (slice (nat off) (nat (off + n)) disk)\<rparr>"

definition disk_raw_reader :: "bytes \<Rightarrow> raw_reader" where
  "disk_raw_reader disk =
     \<lparr>rr_path = \<lparr>pv_suffix = ''.dd'', pv_normalized = ''/d.dd'', pv_symlink = False,
        pv_exists = True, pv_is_file = True, pv_open_error = None,
        pv_st_size = int (length disk)\<rparr>,
      rr_format = DD, rr_sector_size = 512, rr_max_read_size = max_evidence_read_size,
      rr_fd = True, rr_size = Some (int (length disk)), rr_closed = False,
      rr_pread = \<lambda>off n. Inr (slice off (off + n) disk)\<rparr>"

lemma disk_raw_ready: "raw_ready (disk_raw_reader disk)"
  unfolding raw_ready_def
  by (intro conjI exI [of _ disk]) (simp_all add: disk_raw_reader_def)

definition table_entry :: "nat \<Rightarrow> nat \<Rightarrow> nat \<Rightarrow> bytes" where
  "table_entry t start n = [0, 0, 0, 0, of_nat t, 0, 0, 0, of_nat start, 0, 0, 0, of_nat n, 0, 0, 0]"

definition boot_sector :: "bytes \<Rightarrow> bytes \<Rightarrow> bytes" where
  "boot_sector e0 e1 = replicate 446 0 @ e0 @ e1 @ replicate 32 0 @ [0x55, 0xAA]"

definition sample_env :: penv where
  "sample_env = \<lparr>pe_uuid5 = (\<lambda>s. s), pe_now = 0\<rparr>"

definition overlap_disk :: bytes where
  "overlap_disk = boot_sector (table_entry 7 1 2) (table_entry 7 2 1) @ replicate 1536 0"

definition ragged_disk :: bytes where
  "ragged_disk = boot_sector (table_entry 7 1 1) (table_entry 7 4 1) @ replicate 488 0"

lemma le_nat_replicate [simp]: "le_nat (replicate n 0) = 0"
  by (induction n) auto

lemmas sample_defs = disk_reader_def overlap_disk_def ragged_disk_def boot_sector_def
  table_entry_def slice_def

lemma overlap_disk_reads:
  "rd_size (disk_reader overlap_disk 512) = 2048" "rd_sector_size (disk_reader overlap_disk 512) = 512"
  "rd_read_at (disk_reader overlap_disk 512) 0 512 =
     Inr (boot_sector (table_entry 7 1 2) (table_entry 7 2 1))"
  by (simp_all add: sample_defs)

lemma ragged_disk_reads:
  "rd_size (disk_reader ragged_disk 512) = 1000" "rd_sector_size (disk_reader ragged_disk 512) = 512"
  "rd_read_at (disk_reader ragged_disk 512) 0 512 =
     Inr (boot_sector (table_entry 7 1 1) (table_entry 7 4 1))"
  by (simp_all add: sample_defs)

lemma boot_sector_entries:
  assumes "length e0 = 16" "length e1 = 16"
  shows "mbr_entries (boot_sector e0 e1) =
    [mbr_entry_at (replicate 446 0 @ e0) 0, mbr_entry_at (replicate 462 0 @ e1) 1,
     \<lparr>mbr_status = 0, mbr_type = 0, mbr_start_lba = 0, mbr_sector_count = 0\<rparr>,
     \<lparr>mbr_status = 0, mbr_type = 0, mbr_start_lba = 0, mbr_sector_count = 0\<rparr>]"
    and "has_mbr_signature (boot_sector e0 e1)" and "length (boot_sector e0 e1) = 512"
  using assms
  by (simp_all add: mbr_entries_def mbr_entry_at_def boot_sector_def has_mbr_signature_def slice_def)

lemma table_entries:
  assumes "t < 256" "start < 256" "n < 256"
  shows "length (table_entry t start n) = 16"
    and "mbr_entry_at (replicate 446 0 @ table_entry t start n) 0 =
      \<lparr>mbr_status = 0, mbr_type = int t, mbr_start_lba = int start, mbr_sector_count = int n\<rparr>"
    and "mbr_entry_at (replicate 462 0 @ table_entry t start n) 1 =
      \<lparr>mbr_status = 0, mbr_type = int t, mbr_start_lba = int start, mbr_sector_count = int n\<rparr>"
  using assms
  by (simp_all add: table_entry_def mbr_entry_at_def slice_def unat_of_nat)

definition volume_row :: "evidence_volume \<Rightarrow> int \<times> int \<times> string \<times> string \<times> string list" where
  "volume_row v = (ev_byte_offset v, ev_byte_length v, ev_scheme v, ev_partition_type v,
     List.map pw_code (ev_warnings v))"

lemma type_str_7: "type_str 7 = ''0x07''"
  by code_simp

lemma two_partitions:
  fixes rd :: reader and e0 e1 :: bytes
  defines "x0 \<equiv> mbr_entry_at (replicate 446 0 @ e0) 0"
    and "x1 \<equiv> mbr_entry_at (replicate 462 0 @ e1) 1"
  assumes "rd_read_at rd 0 512 = Inr (boot_sector e0 e1)" "rd_sector_size rd = 512"
    and "512 \<le> rd_size rd" "length e0 = 16" "length e1 = 16"
    and "mbr_type x0 = 7" "mbr_type x1 = 7" "0 < mbr_sector_count x0" "0 < mbr_sector_count x1"
  shows "parse env rd c e = Inr (with_unallocated_gaps env rd (mark_overlaps
    [volume env rd c e 0 ''MBR'' (type_str 7) (mbr_start_lba x0) (mbr_sector_count x0) True
       (Some (''MBR Partition '' @ nat_str 1)) None [],
     volume env rd c e 1 ''MBR'' (type_str 7) (mbr_start_lba x1) (mbr_sector_count x1) True
       (Some (''MBR Partition '' @ nat_str 2)) None []]) c e 0 None ''UNPARTITIONED'')"
proof -
  have boot: "rd_read_at rd 0 (min (rd_sector_size rd) (rd_size rd)) = Inr (boot_sector e0 e1)"
    using assms by (simp add: min_absorb1)
  note entries = boot_sector_entries [OF assms(6,7), folded x0_def x1_def]
  have "filter is_protective (mbr_entries (boot_sector e0 e1)) = []"
    using assms by (simp add: entries is_protective_def)
  moreover have "mbr_loop env rd c e (mbr_entries (boot_sector e0 e1)) [] = Inr
    [volume env rd c e 0 ''MBR'' (type_str 7) (mbr_start_lba x0) (mbr_sector_count x0) True
       (Some (''MBR Partition '' @ nat_str 1)) None [],
     volume env rd c e 1 ''MBR'' (type_str 7) (mbr_start_lba x1) (mbr_sector_count x1) True
       (Some (''MBR Partition '' @ nat_str 2)) None []]"
    using assms by (simp add: entries is_extended_type_def numeral_2_eq_2)
  ultimately show ?thesis
    using assms by (simp add: parse_def boot entries(2,3) Let_def)
qed

lemma overlap_disk_parse:
  "map_res (List.map volume_row) (parse sample_env (disk_reader overlap_disk 512) ''c'' ''e'') =
     Inr [(0, 512, ''UNPARTITIONED'', ''UNALLOCATED'', []), (512, 1024, ''MBR'', type_str 7, []),
          (1024, 512, ''MBR'', type_str 7, [''PARTITION_OVERLAP'']),
          (1536, 512, ''UNPARTITIONED'', ''UNALLOCATED'', [])]"
proof -
  let ?rd = "disk_reader overlap_disk 512"
  define v where "v = volume sample_env ?rd ''c'' ''e'' 0 ''MBR'' (type_str 7) 1 2 True
    (Some (''MBR Partition '' @ nat_str 1)) None []"
  define w where "w = volume sample_env ?rd ''c'' ''e'' 1 ''MBR'' (type_str 7) 2 1 True
    (Some (''MBR Partition '' @ nat_str 2)) None []"
  have p: "parse sample_env ?rd ''c'' ''e'' = Inr (with_unallocated_gaps sample_env ?rd
      (mark_overlaps [v, w]) ''c'' ''e'' 0 None ''UNPARTITIONED'')"
    unfolding v_def w_def
    using two_partitions [OF overlap_disk_reads(3,2)]
    by (simp add: overlap_disk_reads table_entries del: One_nat_def)
  have v: "ev_byte_offset v = 512" "ev_byte_length v = 1024" "ev_scheme v = ''MBR''"
      "ev_partition_type v = type_str 7" "ev_warnings v = []"
    by (simp_all add: v_def overlap_disk_reads volume_length volume_no_warnings)
  have w: "ev_byte_offset w = 1024" "ev_byte_length w = 512" "ev_scheme w = ''MBR''"
      "ev_partition_type w = type_str 7" "ev_warnings w = []"
    by (simp_all add: w_def overlap_disk_reads volume_length volume_no_warnings)
  have m: "mark_overlaps [v, w] = [v, w\<lparr>ev_warnings := [overlap_warning]\<rparr>]"
    by (simp add: mark_overlaps_def sorted_volumes_def v w)
  show ?thesis
    unfolding p m
    by (simp add: with_unallocated_gaps_def gap_end_limit_def gap_start_def overlap_disk_reads v w
        reindex_def volume_row_def unallocated_gap_def volume_length ceil_div_def
        overlap_warning_def pwarn_def volume_no_warnings)
qed

lemma ragged_disk_parse:
  "map_res (List.map (\<lambda>v. (ev_byte_offset v, ev_byte_length v, ev_partition_type v)))
      (parse sample_env (disk_reader ragged_disk 512) ''c'' ''e'') =
     Inr [(0, 512, ''UNALLOCATED''), (512, 488, type_str 7), (512, 488, ''UNALLOCATED''),
          (2048, 0, type_str 7)]"
proof -
  let ?rd = "disk_reader ragged_disk 512"
  define v where "v = volume sample_env ?rd ''c'' ''e'' 0 ''MBR'' (type_str 7) 1 1 True
    (Some (''MBR Partition '' @ nat_str 1)) None []"
  define w where "w = volume sample_env ?rd ''c'' ''e'' 1 ''MBR'' (type_str 7) 4 1 True
    (Some (''MBR Partition '' @ nat_str 2)) None []"
  have p: "parse sample_env ?rd ''c'' ''e'' = Inr (with_unallocated_gaps sample_env ?rd
      (mark_overlaps [v, w]) ''c'' ''e'' 0 None ''UNPARTITIONED'')"
    unfolding v_def w_def
    using two_partitions [OF ragged_disk_reads(3,2)]
    by (simp add: ragged_disk_reads table_entries del: One_nat_def)
  have v: "ev_byte_offset v = 512" "ev_byte_length v = 488" "ev_partition_type v = type_str 7"
    by (simp_all add: v_def ragged_disk_reads volume_length)
  have w: "ev_byte_offset w = 2048" "ev_byte_length w = 0" "ev_partition_type w = type_str 7"
    by (simp_all add: w_def ragged_disk_reads volume_length)
  have m: "mark_overlaps [v, w] = [v, w]"
    by (simp add: mark_overlaps_def sorted_volumes_def v w)
  show ?thesis
    unfolding p m
    by (simp add: with_unallocated_gaps_def gap_end_limit_def gap_start_def ragged_disk_reads v w
        reindex_def unallocated_gap_def volume_length ceil_div_def)
qed

text \<open>A gap of an image that is not a whole number of sectors can repeat the range of a partition:
  bytes 512 to 999 of \<open>ragged_disk\<close> are listed as allocated and as unallocated.\<close>

lemma ragged_gap_overlaps:
  "\<exists>vs. parse sample_env (disk_reader ragged_disk 512) ''c'' ''e'' = Inr vs \<and>
     \<not> is_gap (vs ! 1) \<and> is_gap (vs ! 2) \<and> intersects (vs ! 1) (vs ! 2)"
proof -
  obtain g v h w where p: "parse sample_env (disk_reader ragged_disk 512) ''c'' ''e'' = Inr [g, v, h, w]"
    and v: "ev_byte_offset v = 512 \<and> ev_byte_length v = 488 \<and> ev_partition_type v = ''0x07''"
    and h: "ev_byte_offset h = 512 \<and> ev_byte_length h = 488 \<and> ev_partition_type h = ''UNALLOCATED''"
    using ragged_disk_parse by (auto simp: map_eq_Cons_conv type_str_7)
  show ?thesis
    by (rule exI [of _ "[g, v, h, w]"]) (simp add: p v h intersects_def)
qed

lemma overlap_disk_volumes:
  obtains g v w h where
    "parse sample_env (disk_reader overlap_disk 512) ''c'' ''e'' = Inr [g, v, w, h]"
    "volume_row g = (0, 512, ''UNPARTITIONED'', ''UNALLOCATED'', [])"
    "volume_row v = (512, 1024, ''MBR'', ''0x07'', [])"
    "volume_row w = (1024, 512, ''MBR'', ''0x07'', [''PARTITION_OVERLAP''])"
    "volume_row h = (1536, 512, ''UNPARTITIONED'', ''UNALLOCATED'', [])"
  using overlap_disk_parse by (auto simp: map_eq_Cons_conv type_str_7)

subsection \<open>Properties\<close>

lemma parse_index_list:
  "vs \<noteq> [] \<Longrightarrow> List.map ev_volume_index (with_unallocated_gaps env rd vs c e g ge s) =
     List.map int [0..<length (with_unallocated_gaps env rd vs c e g ge s)]"
  by (rule nth_equalityI) (auto simp: with_unallocated_gaps_def reindex_nth)

lemma parse_gpt_indices:
  assumes "parse_gpt env rd c e = Inr vs"
  shows "List.map ev_volume_index vs = List.map int [0..<length vs]"
  using assms
proof (cases rule: parse_gpt_cases)
  case (entries ws fu lu n sz data vols)
  then show ?thesis by (simp add: parse_index_list)
qed (simp_all add: warning_volume_def)

lemma parse_apart_mbr:
  assumes "0 < rd_sector_size rd" "rd_sector_size rd dvd rd_size rd" "0 \<le> rd_size rd"
    and "\<forall>v \<in> set vs. volume_wf rd v \<and> \<not> is_gap v" "\<forall>l. ge = Some l \<longrightarrow> - 1 \<le> l"
  shows "sorted_wrt apart (with_unallocated_gaps env rd (mark_overlaps vs) c e g ge s)"
proof -
  have "\<forall>v \<in> set (mark_overlaps vs). volume_wf rd v \<and> \<not> is_gap v"
    using assms(4) wf.marked [of vs rd] assms(1) marked_not_gap [of vs] by blast
  with assms show ?thesis by (intro with_gaps_apart) auto
qed

text \<open>C3: every byte of an image whose table is not GPT lies in at least one of the volumes the
  parser returns, allocated or unallocated.\<close>

theorem parse_covers_image:
  assumes "parse env rd c e = Inr vs" "0 < rd_sector_size rd"
    and "\<forall>v \<in> set vs. ev_scheme v \<noteq> ''GPT''" "0 \<le> b" "b < rd_size rd"
  shows "\<exists>v \<in> set vs. covers v b"
  using assms(1)
proof (cases rule: parse_cases)
  case (superfloppy w)
  have "rd_size rd \<le> ceil_div (rd_size rd) (rd_sector_size rd) * rd_sector_size rd"
    by (rule ceil_div_ge [OF assms(2)])
  then show ?thesis
    using superfloppy assms ceil_div_nonneg [OF assms(2), of "rd_size rd"]
    by (simp add: superfloppy_def covers_def volume_length [OF assms(2)] max_absorb2)
next
  case gpt
  with parse_gpt_scheme assms(3) show ?thesis by blast
next
  case (protective p)
  have "volume_wf rd (protective_volume env rd c e p)"
    using assms(2) by (simp add: protective_volume_def volume_wf_volume)
  then show ?thesis
    unfolding protective(2) using assms
    by (intro with_gaps_covers) (auto simp: gap_start_def gap_end_limit_def)
next
  case *: (mbr boot al)
  have "\<forall>v \<in> set al. 0 < rd_sector_size rd \<longrightarrow> volume_wf rd v" by (rule wf.mbr [OF *(2)]) simp
  then have "\<forall>v \<in> set (mark_overlaps al). volume_wf rd v"
    using assms(2) by (auto dest: wf.marked [rotated])
  then show ?thesis
    unfolding *(4) using assms *(3)
    by (intro with_gaps_covers) (auto simp: gap_start_def gap_end_limit_def)
qed (use assms in simp)

lemma parse_covers_image_witness:
  "\<exists>vs. parse sample_env (disk_reader overlap_disk 512) ''c'' ''e'' = Inr vs \<and>
     (\<exists>v \<in> set vs. covers v 2000)"
proof -
  obtain g v w h where p: "parse sample_env (disk_reader overlap_disk 512) ''c'' ''e'' = Inr [g, v, w, h]"
    and r: "volume_row g = (0, 512, ''UNPARTITIONED'', ''UNALLOCATED'', [])"
    "volume_row v = (512, 1024, ''MBR'', ''0x07'', [])"
    "volume_row w = (1024, 512, ''MBR'', ''0x07'', [''PARTITION_OVERLAP''])"
    "volume_row h = (1536, 512, ''UNPARTITIONED'', ''UNALLOCATED'', [])"
    by (rule overlap_disk_volumes)
  have "\<exists>u \<in> set [g, v, w, h]. covers u 2000"
    by (rule parse_covers_image [OF p])
      (use r in \<open>simp_all add: overlap_disk_reads volume_row_def\<close>)
  with p show ?thesis by blast
qed

text \<open>C4: on an image of whole sectors the volumes come in order of their offset, and an
  unallocated gap ends before the next volume and starts after the ones before it.\<close>

theorem parse_gaps_apart:
  assumes "parse env rd c e = Inr vs" "0 < rd_sector_size rd" "rd_sector_size rd dvd rd_size rd"
  shows "sorted_wrt apart vs"
  using assms(1)
proof (cases rule: parse_cases)
  case *: gpt
  from *(2) show ?thesis
  proof (cases rule: parse_gpt_cases)
    case (entries ws fu lu n sz data vols)
    have "\<forall>v \<in> set vols. 0 < rd_sector_size rd \<longrightarrow> volume_wf rd v"
      "\<forall>v \<in> set vols. \<not> is_gap v"
      unfolding entries(1) by (rule wf.gpt_entries nongap.gpt_entries, simp)+
    then show ?thesis
      unfolding entries(6) using assms *(1) entries(5) by (intro parse_apart_mbr) auto
  qed auto
next
  case (protective p)
  have "volume_wf rd (protective_volume env rd c e p)"
    using assms(2) by (simp add: protective_volume_def volume_wf_volume)
  then show ?thesis
    unfolding protective(2) using assms protective(1) by (intro with_gaps_apart) auto
next
  case *: (mbr boot al)
  have "\<forall>v \<in> set al. 0 < rd_sector_size rd \<longrightarrow> volume_wf rd v" by (rule wf.mbr [OF *(2)]) simp
  moreover have "\<forall>v \<in> set al. \<not> is_gap v" by (rule nongap.mbr [OF *(2)]) simp
  ultimately show ?thesis
    unfolding *(4) using assms *(1) by (intro parse_apart_mbr) auto
qed auto

lemma parse_gaps_apart_witness:
  "\<exists>vs. parse sample_env (disk_reader overlap_disk 512) ''c'' ''e'' = Inr vs \<and> length vs = 4 \<and>
     sorted_wrt apart vs"
proof -
  obtain g v w h where p: "parse sample_env (disk_reader overlap_disk 512) ''c'' ''e'' = Inr [g, v, w, h]"
    by (rule overlap_disk_volumes)
  have "sorted_wrt apart [g, v, w, h]"
    by (rule parse_gaps_apart [OF p]) (simp_all add: overlap_disk_reads)
  with p show ?thesis by (intro exI [of _ "[g, v, w, h]"]) simp
qed

text \<open>C7: every volume of a parse that has a positive length lies inside the image; every volume, an
  empty one included, starts at a non-negative offset, carries the case and evidence it was parsed for,
  and its LBA fields and raw locator agree with its byte range.  (A damaged table can give a volume of
  length zero beyond the end of the image: \<open>ragged_disk\<close>.)\<close>

theorem parse_volumes_wf:
  assumes "parse env rd c e = Inr vs" "0 < rd_sector_size rd" "v \<in> set vs"
  shows "volume_wf rd v \<and> ev_case_id v = c \<and> ev_evidence_id v = e"
  using wf.parsed [OF assms(1)] provenance.parsed [OF assms(1)] assms by blast

lemma parse_volumes_wf_witness:
  "\<exists>v vs. parse sample_env (disk_reader overlap_disk 512) ''c'' ''e'' = Inr (v # vs) \<and>
     volume_wf (disk_reader overlap_disk 512) v"
proof -
  obtain g v w h where p: "parse sample_env (disk_reader overlap_disk 512) ''c'' ''e'' = Inr [g, v, w, h]"
    by (rule overlap_disk_volumes)
  have "volume_wf (disk_reader overlap_disk 512) g \<and> ev_case_id g = ''c'' \<and> ev_evidence_id g = ''e''"
    by (rule parse_volumes_wf [OF p]) (simp_all add: overlap_disk_reads)
  with p show ?thesis by blast
qed

text \<open>C6: of two parsed volumes, neither of them an unallocated gap, whose byte ranges intersect, at
  least one carries the overlap warning.  (Gaps are added after the overlap scan; for them see the
  alignment condition of the gap property and \<open>ragged_gap_overlaps\<close>.)\<close>

theorem parse_overlaps_flagged:
  assumes "parse env rd c e = Inr vs" "i < j" "j < length vs"
    and "\<not> is_gap (vs ! i)" "\<not> is_gap (vs ! j)" "intersects (vs ! i) (vs ! j)"
  shows "overlap_flagged (vs ! i) \<or> overlap_flagged (vs ! j)"
  using parse_overlap_reported [OF assms(1)] assms(2-)
  by (auto simp: sorted_wrt_iff_nth_less overlap_reported_def)

lemma parse_overlaps_flagged_witness:
  "\<exists>vs. parse sample_env (disk_reader overlap_disk 512) ''c'' ''e'' = Inr vs \<and>
     (overlap_flagged (vs ! 1) \<or> overlap_flagged (vs ! 2))"
proof -
  obtain g v w h where p: "parse sample_env (disk_reader overlap_disk 512) ''c'' ''e'' = Inr [g, v, w, h]"
    and r: "volume_row g = (0, 512, ''UNPARTITIONED'', ''UNALLOCATED'', [])"
    "volume_row v = (512, 1024, ''MBR'', ''0x07'', [])"
    "volume_row w = (1024, 512, ''MBR'', ''0x07'', [''PARTITION_OVERLAP''])"
    "volume_row h = (1536, 512, ''UNPARTITIONED'', ''UNALLOCATED'', [])"
    by (rule overlap_disk_volumes)
  have "overlap_flagged ([g, v, w, h] ! 1) \<or> overlap_flagged ([g, v, w, h] ! 2)"
    by (rule parse_overlaps_flagged [OF p])
      (use r in \<open>simp_all add: volume_row_def intersects_def\<close>)
  with p show ?thesis by blast
qed

text \<open>The returned volumes are numbered consecutively from 0, and there are at most 262145 of
  them whatever the image holds.\<close>

lemma parse_numbered_and_bounded:
  assumes "parse env rd c e = Inr vs"
  shows "List.map ev_volume_index vs = List.map int [0..<length vs] \<and> length vs \<le> 262145"
proof
  show "List.map ev_volume_index vs = List.map int [0..<length vs]"
    using assms
    by (cases rule: parse_cases) (auto simp: superfloppy_def parse_index_list dest: parse_gpt_indices)
qed (rule parse_length [OF assms])

text \<open>C5: a parse over an opened RAW image of any content returns a list of volumes; no content
  makes the parser raise or loop.\<close>

theorem raw_parse_total:
  assumes "raw_ready r" "max_gpt_entry_bytes \<le> rr_max_read_size r"
    and "rr_sector_size r \<le> rr_max_read_size r"
  shows "\<exists>vs. parse env (raw_view r) c e = Inr vs"
  using raw.parse_total [OF assms(1,2), of env c e] assms(3)
  by (simp add: is_ok_iff raw_view_def)

lemma raw_parse_total_witness:
  "\<exists>vs. parse sample_env (raw_view (disk_raw_reader [0, 1, 2])) ''c'' ''e'' = Inr vs"
proof -
  have "max_gpt_entry_bytes \<le> rr_max_read_size (disk_raw_reader [0, 1, 2])"
    "rr_sector_size (disk_raw_reader [0, 1, 2]) \<le> rr_max_read_size (disk_raw_reader [0, 1, 2])"
    by (simp_all add: disk_raw_reader_def max_evidence_read_size_def max_gpt_entry_bytes_def)
  then show ?thesis by (rule raw_parse_total [OF disk_raw_ready])
qed

end
