(* ===== verification/Timestamps.thy ===== *)
theory Timestamps
  imports Errors
begin

section \<open>UTC timestamps\<close>

text \<open>
  \<open>_time.py\<close>: a \<open>datetime\<close> is an instant in microseconds since the Unix epoch with the
  presence of its time zone, and \<open>to_json_timestamp\<close> renders an aware one in UTC with
  microseconds and a trailing Z.  \<open>civil_of_days\<close> is the proleptic Gregorian calendar of
  \<open>datetime\<close>: cycles of 400, 100, 4 and 1 years counted from March, so that the leap day
  ends a cycle.  \<open>parse_contract_timestamp\<close> reads the timestamps of the governance contracts
  (\<open>domain/models/ai_governance.py\<close>), a stricter grammar than the one of
  \<open>datetime.fromisoformat\<close>.
\<close>

datatype datetime = Aware (instant: int) | Naive (instant: int)

definition civil_of_days :: "int \<Rightarrow> int \<times> int \<times> int" where
  "civil_of_days days =
     (let z = days + 719468;
          era = z div 146097; doe = z mod 146097;
          n100 = min (doe div 36524) 3; r = doe - 36524 * n100;
          n4 = r div 1461; s = r mod 1461;
          n1 = min (s div 365) 3; doy = s - 365 * n1;
          yoe = 100 * n100 + 4 * n4 + n1;
          mp = (5 * doy + 2) div 153;
          d = doy - (153 * mp + 2) div 5 + 1;
          m = (if mp < 10 then mp + 3 else mp - 9)
      in (yoe + era * 400 + (if m \<le> 2 then 1 else 0), m, d))"

definition pad :: "nat \<Rightarrow> int \<Rightarrow> string" where
  "pad w n = (let s = nat_str (nat n) in replicate (w - length s) (CHR ''0'') @ s)"

definition iso_microseconds :: "int \<Rightarrow> string" where
  "iso_microseconds us =
     (let days = us div 86400000000; t = us mod 86400000000;
          (y, m, d) = civil_of_days days
      in pad 4 y @ ''-'' @ pad 2 m @ ''-'' @ pad 2 d @ ''T'' @ pad 2 (t div 3600000000) @ '':'' @
         pad 2 (t div 60000000 mod 60) @ '':'' @ pad 2 (t div 1000000 mod 60) @ ''.'' @
         pad 6 (t mod 1000000))"

definition to_json_timestamp :: "datetime \<Rightarrow> string res" where
  "to_json_timestamp dt =
     (case dt of Naive _ \<Rightarrow> Inl (PyExn ''ValueError'') | Aware us \<Rightarrow> Inr (iso_microseconds us @ ''Z''))"

subsection \<open>Reading a timestamp\<close>

definition days_of_civil :: "int \<Rightarrow> int \<Rightarrow> int \<Rightarrow> int" where
  "days_of_civil y m d =
     (let y' = (if m \<le> 2 then y - 1 else y);
          era = y' div 400; yoe = y' mod 400;
          mp = (if m \<le> 2 then m + 9 else m - 3);
          doy = (153 * mp + 2) div 5 + d - 1
      in era * 146097 + (365 * yoe + yoe div 4 - yoe div 100 + doy) - 719468)"

definition is_leap :: "int \<Rightarrow> bool" where
  "is_leap y \<longleftrightarrow> y mod 4 = 0 \<and> (y mod 100 \<noteq> 0 \<or> y mod 400 = 0)"

definition days_in_month :: "int \<Rightarrow> int \<Rightarrow> int" where
  "days_in_month y m =
     (if m = 2 then (if is_leap y then 29 else 28) else if m \<in> {4, 6, 9, 11} then 30 else 31)"

definition is_digit :: "char \<Rightarrow> bool" where
  "is_digit c \<longleftrightarrow> (let n = of_char c :: nat in 48 \<le> n \<and> n \<le> 57)"

definition digits_val :: "string \<Rightarrow> int" where
  "digits_val s = fold (\<lambda>c n. 10 * n + (of_char c - 48)) s 0"

text \<open>\<open>matches_template t s\<close>: the characters of \<open>s\<close> are those of \<open>t\<close>, where \<open>0\<close> stands for a
  digit and \<open>T\<close>, \<open>Z\<close> for the letter of either case.\<close>

definition matches_template :: "string \<Rightarrow> string \<Rightarrow> bool" where
  "matches_template t s \<longleftrightarrow> list_all2 (\<lambda>p c.
     if p = CHR ''0'' then is_digit c
     else if p = CHR ''T'' \<or> p = CHR ''Z'' then upper_char c = p
     else if p = CHR ''+'' then c = CHR ''+'' \<or> c = CHR ''-''
     else c = p) t s"

definition zone_shape :: "string \<Rightarrow> bool" where
  "zone_shape z \<longleftrightarrow> matches_template ''Z'' z \<or> matches_template ''+00:00'' z"

definition contract_shape :: "string \<Rightarrow> bool" where
  "contract_shape s \<longleftrightarrow> matches_template ''0000-00-00T00:00:00'' (take 19 s) \<and>
     (let rest = drop 19 s in
      (case rest of
         CHR ''.'' # fs \<Rightarrow> takeWhile is_digit fs \<noteq> [] \<and> zone_shape (dropWhile is_digit fs)
       | _ \<Rightarrow> zone_shape rest))"

definition min_instant :: int where
  "min_instant = days_of_civil 1 1 1 * 86400000000"

definition max_instant :: int where
  "max_instant = (days_of_civil 9999 12 31 + 1) * 86400000000 - 1"

definition valid_instant :: "int \<Rightarrow> bool" where
  "valid_instant us \<longleftrightarrow> min_instant \<le> us \<and> us \<le> max_instant"

definition offset_us :: "string \<Rightarrow> int" where
  "offset_us z = (if length z = 1 then 0 else
     (if hd z = CHR ''-'' then - 1 else 1) *
       (digits_val (take 2 (drop 1 z)) * 60 + digits_val (take 2 (drop 4 z))) * 60000000)"

text \<open>\<open>parse_timestamp\<close> on a text of that shape: \<open>fromisoformat\<close> keeps six fractional digits,
  rejects fields out of range and offsets of a day or more, and \<open>astimezone\<close> overflows outside the
  years 1 to 9999.\<close>

definition parse_timestamp :: "string \<Rightarrow> datetime res" where
  "parse_timestamp s =
     (let y = digits_val (take 4 s); m = digits_val (take 2 (drop 5 s));
          d = digits_val (take 2 (drop 8 s)); hh = digits_val (take 2 (drop 11 s));
          mi = digits_val (take 2 (drop 14 s)); ss = digits_val (take 2 (drop 17 s));
          rest = drop 19 s;
          fs = (if take 1 rest = ''.'' then takeWhile is_digit (drop 1 rest) else []);
          z = (if take 1 rest = ''.'' then dropWhile is_digit (drop 1 rest) else rest);
          frac = digits_val (take 6 (fs @ ''000000''));
          us = days_of_civil y m d * 86400000000 + (hh * 3600 + mi * 60 + ss) * 1000000 + frac
                 - offset_us z
      in if y < 1 \<or> m < 1 \<or> 12 < m \<or> d < 1 \<or> days_in_month y m < d \<or> 23 < hh \<or> 59 < mi \<or> 59 < ss
            \<or> 86400000000 \<le> \<bar>offset_us z\<bar>
         then Inl (PyExn ''ValueError'')
         else if valid_instant us then Inr (Aware us) else Inl (PyExn ''OverflowError''))"

definition parse_contract_timestamp :: "string \<Rightarrow> datetime res" where
  "parse_contract_timestamp s =
     (if \<not> contract_shape s then
        Inl (validation_error ''Expected a timestamp with an explicit timezone.'' None)
      else (case parse_timestamp (upper s) of
          Inl (PyExn n) \<Rightarrow> if n = ''ValueError'' then
              Inl (validation_error ''Expected a valid timestamp.'' None) else Inl (PyExn n)
        | r \<Rightarrow> r))"

subsection \<open>Widths\<close>

text \<open>The seven fields have fixed width for the years 1 to 9999 of \<open>datetime\<close>.\<close>

lemma length_nat_str: "n < 10 ^ k \<Longrightarrow> 0 < k \<Longrightarrow> length (nat_str n) \<le> k"
proof (induction k arbitrary: n)
  case (Suc k)
  show ?case
  proof (cases "n < 10")
    case True
    then show ?thesis by (simp add: nat_str.simps [of n])
  next
    case False
    then have "k \<noteq> 0" using Suc.prems by (cases k) auto
    moreover have "n div 10 < 10 ^ k" using Suc.prems by simp
    ultimately have "length (nat_str (n div 10)) \<le> k" by (intro Suc.IH) auto
    with False show ?thesis by (simp add: nat_str.simps [of n])
  qed
qed simp

lemma length_pad: "0 < w \<Longrightarrow> n < 10 ^ w \<Longrightarrow> length (pad w n) = w"
  using length_nat_str [of "nat n" w]
  by (simp add: pad_def Let_def nat_less_iff)

end
