(* ===== verification/Canonical.thy ===== *)
theory Canonical
  imports Timestamps
begin

section \<open>Canonical JSON\<close>

text \<open>
  \<open>domain/services/canonical.py\<close> with the part of \<open>json.dumps(ensure_ascii=False)\<close> it uses,
  and the JSON round trip of a database column.  Keys are strings in this model; a \<open>bytes\<close>
  value raises \<open>TypeError\<close>.  Sorting by key compares UTF-8 encodings, which is the order of the
  code points.  SHA-256 is an argument.
\<close>

definition json_escape_char :: "char \<Rightarrow> string" where
  "json_escape_char c =
     (let n = of_char c :: nat in
      if n = 34 then [CHR 92, CHR 34]
      else if n = 92 then [CHR 92, CHR 92]
      else if n = 10 then [CHR 92, CHR ''n'']
      else if n = 13 then [CHR 92, CHR ''r'']
      else if n = 9 then [CHR 92, CHR ''t'']
      else if n = 12 then [CHR 92, CHR ''f'']
      else if n = 8 then [CHR 92, CHR ''b'']
      else if n < 32 then [CHR 92, CHR ''u'', CHR ''0'', CHR ''0''] @ hex2 n
      else [c])"

definition json_string :: "string \<Rightarrow> string" where
  "json_string s = CHR 34 # concat (List.map json_escape_char s) @ [CHR 34]"

fun json_render :: "string \<Rightarrow> string \<Rightarrow> pyval \<Rightarrow> string res" where
  "json_render isep ksep PNone = Inr ''null''"
| "json_render isep ksep (PBool b) = Inr (if b then ''true'' else ''false'')"
| "json_render isep ksep (PInt n) = Inr (int_str n)"
| "json_render isep ksep (PFloat f) = Inr (fl_repr f)"
| "json_render isep ksep (PStr s) = Inr (json_string s)"
| "json_render isep ksep (PBytes b) = Inl (PyExn ''TypeError'')"
| "json_render isep ksep (PList xs) =
     map_res (\<lambda>ts. ''['' @ join_str isep ts @ '']'') (traverse (json_render isep ksep) xs)"
| "json_render isep ksep (PDict d) =
     map_res (\<lambda>ts. ''{'' @ join_str isep ts @ ''}'')
       (traverse (\<lambda>(k, v). map_res (\<lambda>t. json_string k @ ksep @ t) (json_render isep ksep v)) d)"

text \<open>\<open>sort_keys=True\<close>, at every depth; \<open>json.loads\<close> of such a text gives the same value.\<close>

fun sort_json :: "pyval \<Rightarrow> pyval" where
  "sort_json (PList xs) = PList (List.map sort_json xs)"
| "sort_json (PDict d) = PDict (sort_key fst (List.map (\<lambda>(k, v). (k, sort_json v)) d))"
| "sort_json v = v"

definition sort_dict :: "dict \<Rightarrow> dict" where
  "sort_dict d = sort_key fst (List.map (\<lambda>(k, v). (k, sort_json v)) d)"

fun without_keys :: "pyval \<Rightarrow> string list \<Rightarrow> pyval" where
  "without_keys (PDict d) keys =
     PDict (List.map (\<lambda>(k, v). (k, without_keys v keys)) (filter (\<lambda>(k, v). k \<notin> set keys) d))"
| "without_keys (PList xs) keys = PList (List.map (\<lambda>x. without_keys x keys) xs)"
| "without_keys v keys = v"

definition canonical_json_bytes :: "pyval \<Rightarrow> string list \<Rightarrow> string res" where
  "canonical_json_bytes v exclude_keys =
     json_render '','' '':'' (sort_json (without_keys v exclude_keys))"

definition canonical_sha256 :: "(string \<Rightarrow> string) \<Rightarrow> pyval \<Rightarrow> string list \<Rightarrow> string res" where
  "canonical_sha256 sha v exclude_keys = map_res sha (canonical_json_bytes v exclude_keys)"

end
