(* ===== verification/Canonical_Facts.thy ===== *)
theory Canonical_Facts
  imports Canonical
begin

section \<open>The canonical text determines the value\<close>

text \<open>
  \<open>json_render\<close> with the separators of the canonical profile is injective, even on prefixes, for
  values without floats: two different values never have the same canonical text.  Sorting is
  idempotent, so storing a value and hashing it again gives the same text.
\<close>

subsection \<open>Numbers\<close>

definition is_digit :: "char \<Rightarrow> bool" where
  "is_digit c \<longleftrightarrow> 48 \<le> (of_char c :: nat) \<and> (of_char c :: nat) \<le> 57"

definition digits_value :: "string \<Rightarrow> nat" where
  "digits_value s = foldl (\<lambda>acc c. 10 * acc + (of_char c - 48)) 0 s"

lemma of_digit_char: "d < 10 \<Longrightarrow> (of_char (digit_char d) :: nat) = 48 + d"
  by (simp add: digit_char_def)

lemma nat_str_digits: "\<forall>c \<in> set (nat_str n). is_digit c"
proof (induction n rule: nat_str.induct)
  case (1 n)
  then show ?case
    by (subst nat_str.simps) (auto simp: is_digit_def of_digit_char)
qed

lemma nat_str_value: "digits_value (nat_str n) = n"
proof (induction n rule: nat_str.induct)
  case (1 n)
  show ?case
  proof (cases "n < 10")
    case True
    then show ?thesis by (simp add: nat_str.simps [of n] digits_value_def of_digit_char)
  next
    case False
    with 1 show ?thesis
      by (simp add: nat_str.simps [of n] digits_value_def of_digit_char)
  qed
qed

lemma nat_str_nonempty: "nat_str n \<noteq> []"
  by (subst nat_str.simps) simp

lemma takeWhile_digits: "\<forall>c \<in> set s. is_digit c \<Longrightarrow> r = [] \<or> \<not> is_digit (hd r) \<Longrightarrow>
    takeWhile is_digit (s @ r) = s \<and> dropWhile is_digit (s @ r) = r"
  by (induction s) (cases r; auto)+

lemma nat_str_prefix:
  assumes "nat_str m @ r = nat_str n @ r'" "r = [] \<or> \<not> is_digit (hd r)" "r' = [] \<or> \<not> is_digit (hd r')"
  shows "m = n \<and> r = r'"
  using takeWhile_digits [OF nat_str_digits assms(2), of m]
    takeWhile_digits [OF nat_str_digits assms(3), of n] assms(1) nat_str_value
  by metis

lemma nat_str_hd: "\<exists>c cs. nat_str n = c # cs \<and> is_digit c"
  using nat_str_nonempty [of n] nat_str_digits [of n] by (cases "nat_str n") auto

lemma int_str_prefix:
  assumes "int_str a @ r = int_str b @ r'" "r = [] \<or> \<not> is_digit (hd r)" "r' = [] \<or> \<not> is_digit (hd r')"
  shows "a = b \<and> r = r'"
proof -
  have minus: "\<not> is_digit (CHR ''-'')" by (simp add: is_digit_def)
  obtain c cs d ds where c: "nat_str (nat a) = c # cs" "is_digit c"
    and d: "nat_str (nat b) = d # ds" "is_digit d"
    using nat_str_hd by blast
  consider "a < 0" "b < 0" | "0 \<le> a" "0 \<le> b" | "a < 0" "0 \<le> b" | "0 \<le> a" "b < 0" by linarith
  then show ?thesis
  proof cases
    case 1
    then show ?thesis using nat_str_prefix [OF _ assms(2,3), of "nat (- a)" "nat (- b)"] assms(1)
      by (auto simp: int_str_def)
  next
    case 2
    then show ?thesis using nat_str_prefix [OF _ assms(2,3), of "nat a" "nat b"] assms(1)
      by (auto simp: int_str_def)
  next
    case 3
    then show ?thesis using assms(1) minus d by (auto simp: int_str_def)
  next
    case 4
    then show ?thesis using assms(1) minus c by (auto simp: int_str_def)
  qed
qed

subsection \<open>Strings\<close>

lemma digit_char_inj: "m < 16 \<Longrightarrow> n < 16 \<Longrightarrow> digit_char m = digit_char n \<Longrightarrow> m = n"
proof -
  assume *: "m < 16" "n < 16" "digit_char m = digit_char n"
  then have "(of_char (digit_char m) :: nat) = of_char (digit_char n)" by simp
  with * show "m = n" by (auto simp: digit_char_def split: if_splits)
qed

lemma hex2_inj:
  assumes "m < 256" "n < 256" "hex2 m = hex2 n"
  shows "m = n"
proof -
  have "m div 16 = n div 16" "m mod 16 = n mod 16"
    using assms by (auto simp: hex2_def intro!: digit_char_inj)
  then show ?thesis by (metis div_mult_mod_eq)
qed

lemma of_char_unique: "(of_char c :: nat) = n \<Longrightarrow> (of_char d :: nat) = n \<Longrightarrow> c = d"
  by (metis of_char_eq_iff)

definition plain_char :: "char \<Rightarrow> bool" where
  "plain_char c \<longleftrightarrow> 32 \<le> (of_char c :: nat) \<and> (of_char c :: nat) \<notin> {34, 92}"

definition escape_tail :: "char \<Rightarrow> string" where
  "escape_tail c = tl (json_escape_char c)"

lemma escape_plain: "plain_char c \<Longrightarrow> json_escape_char c = [c]"
  by (auto simp: plain_char_def json_escape_char_def Let_def)

lemma escape_special: "\<not> plain_char c \<Longrightarrow> json_escape_char c = CHR 92 # escape_tail c"
  by (auto simp: plain_char_def escape_tail_def json_escape_char_def Let_def)

lemma not_plain_iff: "\<not> plain_char c \<longleftrightarrow>
    (of_char c :: nat) = 34 \<or> (of_char c :: nat) = 92 \<or> (of_char c :: nat) < 32"
  by (auto simp: plain_char_def)

lemma escape_tail_simps:
  "(of_char c :: nat) = 34 \<Longrightarrow> escape_tail c = [CHR 34]"
  "(of_char c :: nat) = 92 \<Longrightarrow> escape_tail c = [CHR 92]"
  "(of_char c :: nat) = 10 \<Longrightarrow> escape_tail c = ''n''"
  "(of_char c :: nat) = 13 \<Longrightarrow> escape_tail c = ''r''"
  "(of_char c :: nat) = 9 \<Longrightarrow> escape_tail c = ''t''"
  "(of_char c :: nat) = 12 \<Longrightarrow> escape_tail c = ''f''"
  "(of_char c :: nat) = 8 \<Longrightarrow> escape_tail c = ''b''"
  "(of_char c :: nat) < 32 \<Longrightarrow> (of_char c :: nat) \<notin> {10, 13, 9, 12, 8} \<Longrightarrow>
     escape_tail c = ''u00'' @ hex2 (of_char c)"
  by (simp_all add: escape_tail_def json_escape_char_def)

definition escape_index :: "char \<Rightarrow> nat" where
  "escape_index c = (let n = of_char c :: nat in if n = 34 then 0 else if n = 92 then 1 else
     if n = 10 then 2 else if n = 13 then 3 else if n = 9 then 4 else if n = 12 then 5 else
     if n = 8 then 6 else 7)"

lemma escape_tail_by_index:
  assumes "\<not> plain_char c"
  shows "escape_tail c = (if escape_index c = 7 then ''u00'' @ hex2 (of_char c)
    else [[CHR 34, CHR 92, CHR ''n'', CHR ''r'', CHR ''t'', CHR ''f'', CHR ''b''] ! escape_index c])"
  using assms by (auto simp: not_plain_iff escape_index_def Let_def escape_tail_simps)

lemma escape_index_le: "escape_index c \<le> 7"
  by (simp add: escape_index_def Let_def)

lemma escape_index_inj:
  assumes "escape_index c = escape_index d" "escape_index c < 7"
  shows "c = d"
  using assms by (auto simp: escape_index_def Let_def intro: of_char_unique split: if_splits)

lemma escape_tail_prefix:
  assumes "\<not> plain_char c" "\<not> plain_char d" "escape_tail c @ x = escape_tail d @ y"
  shows "c = d \<and> x = y"
proof -
  let ?L = "[CHR 34, CHR 92, CHR ''n'', CHR ''r'', CHR ''t'', CHR ''f'', CHR ''b'']"
  have dist: "distinct ?L" by simp
  have u: "CHR ''u'' \<notin> set ?L" by simp
  have sub: "k < 7 \<Longrightarrow> ?L ! k \<in> set ?L" for k by (intro nth_mem) simp
  have lt: "k < 7 \<Longrightarrow> k < length ?L" for k by simp
  consider "escape_index c = 7" "escape_index d = 7" | "escape_index c = 7" "escape_index d < 7"
    | "escape_index c < 7" "escape_index d = 7" | "escape_index c < 7" "escape_index d < 7"
    using escape_index_le [of c] escape_index_le [of d] by linarith
  then show ?thesis
  proof cases
    case 1
    then have eq: "hex2 (of_char c) @ x = hex2 (of_char d) @ y"
      using assms by (simp add: escape_tail_by_index)
    have "of_char c < (256 :: nat)" "of_char d < (256 :: nat)" by simp_all
    moreover have "hex2 (of_char c) = hex2 (of_char d)" using eq by (simp add: hex2_def)
    ultimately have "(of_char c :: nat) = of_char d" by (rule hex2_inj)
    then have "c = d" by simp
    with eq show ?thesis by simp
  next
    case 2
    then have "CHR ''u'' = ?L ! escape_index d"
      using assms by (simp add: escape_tail_by_index del: nth_Cons)
    with sub [OF 2(2)] u show ?thesis by metis
  next
    case 3
    then have "CHR ''u'' = ?L ! escape_index c"
      using assms by (simp add: escape_tail_by_index del: nth_Cons)
    with sub [OF 3(1)] u show ?thesis by metis
  next
    case 4
    then have "?L ! escape_index c = ?L ! escape_index d \<and> x = y"
      using assms by (simp add: escape_tail_by_index)
    then show ?thesis
      using nth_eq_iff_index_eq [OF dist lt [OF 4(1)] lt [OF 4(2)]] escape_index_inj 4(1) by blast
  qed
qed

lemma escape_prefix:
  assumes "json_escape_char c @ x = json_escape_char d @ y"
  shows "c = d \<and> x = y"
proof -
  have bs: "\<not> plain_char (CHR 92)" by (simp add: plain_char_def)
  show ?thesis
  proof (cases "plain_char c")
    case c: True
    show ?thesis
    proof (cases "plain_char d")
      case True
      then show ?thesis using assms c by (simp add: escape_plain)
    next
      case False
      then show ?thesis using assms c bs by (auto simp: escape_plain escape_special)
    qed
  next
    case c: False
    show ?thesis
    proof (cases "plain_char d")
      case True
      then show ?thesis using assms c bs by (auto simp: escape_plain escape_special)
    next
      case False
      with assms c have "escape_tail c @ x = escape_tail d @ y" by (simp add: escape_special)
      with c False show ?thesis by (rule escape_tail_prefix)
    qed
  qed
qed

lemma escape_not_quote: "json_escape_char c @ x \<noteq> CHR 34 # y"
proof (cases "plain_char c")
  case True
  then show ?thesis by (auto simp: escape_plain plain_char_def)
qed (simp add: escape_special)

lemma json_string_body_prefix:
  "concat (List.map json_escape_char s) @ CHR 34 # r = concat (List.map json_escape_char t) @ CHR 34 # r' \<Longrightarrow>
     s = t \<and> r = r'"
proof (induction s arbitrary: t)
  case Nil
  then show ?case
  proof (cases t)
    case (Cons d ds)
    with Nil show ?thesis using escape_not_quote [of d] by (auto dest: sym)
  qed simp
next
  case (Cons c s)
  then show ?case
  proof (cases t)
    case Nil
    with Cons.prems show ?thesis using escape_not_quote [of c] by auto
  next
    case t: (Cons d ds)
    from Cons.prems have "json_escape_char c @ (concat (List.map json_escape_char s) @ CHR 34 # r) =
        json_escape_char d @ (concat (List.map json_escape_char ds) @ CHR 34 # r')"
      unfolding t by simp
    from escape_prefix [OF this] have "c = d" and rest: "concat (List.map json_escape_char s) @ CHR 34 # r =
        concat (List.map json_escape_char ds) @ CHR 34 # r'" by blast+
    with Cons.IH [OF rest] show ?thesis unfolding t by simp
  qed
qed

lemma json_string_prefix:
  assumes "json_string s @ r = json_string t @ r'"
  shows "s = t \<and> r = r'"
  by (rule json_string_body_prefix) (use assms in \<open>simp add: json_string_def\<close>)

subsection \<open>Values\<close>

fun no_float :: "pyval \<Rightarrow> bool" where
  "no_float (PFloat f) = False"
| "no_float (PList xs) = (\<forall>x \<in> set xs. no_float x)"
| "no_float (PDict d) = (\<forall>(k, v) \<in> set d. no_float v)"
| "no_float v = True"

definition delim :: "string \<Rightarrow> bool" where
  "delim r \<longleftrightarrow> r = [] \<or> hd r \<in> {CHR '','', CHR '']'', CHR ''}''}"

lemma delim_not_digit: "delim r \<Longrightarrow> r = [] \<or> \<not> is_digit (hd r)"
  by (auto simp: delim_def is_digit_def)

lemma delim_simps [simp]:
  "delim (CHR '','' # r)" "delim (CHR '']'' # r)" "delim (CHR ''}'' # r)" "delim []"
  by (simp_all add: delim_def)

abbreviation canon :: "pyval \<Rightarrow> string res" where
  "canon \<equiv> json_render '','' '':''"

definition item_prefix :: "('a \<Rightarrow> string res) \<Rightarrow> 'a \<Rightarrow> bool" where
  "item_prefix f x \<longleftrightarrow> (\<forall>y s s' r r'. f x = Inr s \<longrightarrow> f y = Inr s' \<longrightarrow> s @ r = s' @ r' \<longrightarrow>
     delim r \<longrightarrow> delim r' \<longrightarrow> x = y \<and> r = r')"

lemma item_prefixD:
  "item_prefix f x \<Longrightarrow> f x = Inr s \<Longrightarrow> f y = Inr s' \<Longrightarrow> s @ r = s' @ r' \<Longrightarrow> delim r \<Longrightarrow> delim r' \<Longrightarrow>
     x = y \<and> r = r'"
  unfolding item_prefix_def by blast

lemma join_str_Cons: "join_str sep (x # xs) = x @ (if xs = [] then [] else sep @ join_str sep xs)"
  by (cases xs) auto

text \<open>A bracketed, comma-separated list of items is determined by its text when every item is.\<close>

lemma join_prefix:
  assumes "cl = CHR '']'' \<or> cl = CHR ''}''"
    and "\<And>x s. f x = Inr s \<Longrightarrow> s \<noteq> [] \<and> hd s \<noteq> cl"
  shows "traverse f xs = Inr ts \<Longrightarrow> traverse f ys = Inr us \<Longrightarrow> \<forall>x \<in> set xs. item_prefix f x \<Longrightarrow>
    join_str '','' ts @ cl # r = join_str '','' us @ cl # r' \<Longrightarrow> xs = ys \<and> r = r'"
proof (induction xs arbitrary: ts ys us)
  case Nil
  show ?case
  proof (cases ys)
    case (Cons y ys')
    with Nil obtain u us' where u: "us = u # us'" "f y = Inr u" by auto
    with assms(2) [of y u] have "u \<noteq> []" "hd u \<noteq> cl" by auto
    with u(1) Nil show ?thesis by (cases u) (auto simp: join_str_Cons)
  qed (use Nil in simp)
next
  case (Cons x xs)
  then obtain t ts' where t: "ts = t # ts'" "f x = Inr t" "traverse f xs = Inr ts'" by auto
  show ?case
  proof (cases ys)
    case Nil
    with Cons.prems have us: "us = []" by simp
    from assms(2) [OF t(2)] have "t \<noteq> []" "hd t \<noteq> cl" by auto
    with us t(1) Cons.prems(4) show ?thesis by (cases t) (auto simp: join_str_Cons)
  next
    case ys: (Cons y ys')
    with Cons.prems obtain u us' where u: "us = u # us'" "f y = Inr u" "traverse f ys' = Inr us'"
      by auto
    let ?rt = "(if ts' = [] then [] else CHR '','' # join_str '','' ts') @ cl # r"
    let ?ru = "(if us' = [] then [] else CHR '','' # join_str '','' us') @ cl # r'"
    have eq: "t @ ?rt = u @ ?ru"
      using Cons.prems(4) unfolding t(1) u(1) join_str_Cons by (auto split: if_splits)
    have "delim ?rt" "delim ?ru" using assms(1) by auto
    with item_prefixD [of f x, OF _ t(2) u(2) eq] Cons.prems(3)
    have "x = y" and rest: "?rt = ?ru" by auto
    have cl: "cl \<noteq> CHR '',''" using assms(1) by auto
    from rest cl have "ts' = [] \<longleftrightarrow> us' = []" by (auto split: if_splits)
    with rest have "join_str '','' ts' @ cl # r = join_str '','' us' @ cl # r'"
      by (auto split: if_splits)
    with Cons.IH [OF t(3) u(3)] Cons.prems(3) \<open>x = y\<close> ys show ?thesis by simp
  qed
qed

text \<open>The first character of a text tells the constructor.\<close>

fun json_kind :: "pyval \<Rightarrow> nat" where
  "json_kind PNone = 0"
| "json_kind (PBool b) = (if b then 1 else 2)"
| "json_kind (PInt n) = 3"
| "json_kind (PFloat f) = 4"
| "json_kind (PStr s) = 5"
| "json_kind (PBytes b) = 6"
| "json_kind (PList xs) = 7"
| "json_kind (PDict d) = 8"

definition char_kind :: "char \<Rightarrow> nat" where
  "char_kind c = (if c = CHR ''n'' then 0 else if c = CHR ''t'' then 1 else if c = CHR ''f'' then 2
     else if c = CHR 34 then 5 else if c = CHR ''['' then 7 else if c = CHR ''{'' then 8
     else if c = CHR ''-'' \<or> is_digit c then 3 else 9)"

lemma int_str_hd: "\<exists>c cs. int_str n = c # cs \<and> (c = CHR ''-'' \<or> is_digit c)"
  using nat_str_hd [of "nat n"] by (auto simp: int_str_def)

lemma digit_kind: "c = CHR ''-'' \<or> is_digit c \<Longrightarrow> char_kind c = 3"
  by (auto simp: char_kind_def is_digit_def)

lemma canon_hd:
  assumes "canon v = Inr s" "no_float v"
  shows "\<exists>c cs. s = c # cs \<and> char_kind c = json_kind v"
proof (cases v)
  case (PInt n)
  then have "s = int_str n" using assms(1) by simp
  with PInt show ?thesis using int_str_hd [of n] digit_kind by auto
next
  case (PList xs)
  with assms(1) obtain ts where "s = ''['' @ join_str '','' ts @ '']''" by auto
  with PList show ?thesis by (simp add: char_kind_def)
next
  case (PDict d)
  with assms(1) obtain ts where "s = ''{'' @ join_str '','' ts @ ''}''" by auto
  with PDict show ?thesis by (simp add: char_kind_def)
next
  case (PStr t)
  with assms(1) have "s = json_string t" by simp
  with PStr show ?thesis by (simp add: json_string_def char_kind_def)
next
  case (PBool b)
  with assms(1) have "s = (if b then ''true'' else ''false'')" by simp
  with PBool show ?thesis by (simp add: char_kind_def)
next
  case PNone
  with assms(1) have "s = ''null''" by simp
  with PNone show ?thesis by (simp add: char_kind_def)
qed (use assms in simp_all)

lemma canon_hd_bracket:
  assumes "canon v = Inr s" "no_float v"
  shows "s \<noteq> [] \<and> hd s \<noteq> CHR '']''"
proof -
  obtain c cs where c: "s = c # cs" "char_kind c = json_kind v" using canon_hd [OF assms] by blast
  have "char_kind (CHR '']'') = 9" by (simp add: char_kind_def is_digit_def)
  moreover have "json_kind v \<noteq> 9" by (cases v) auto
  ultimately show ?thesis using c by auto
qed

definition pair_render :: "string \<times> pyval \<Rightarrow> string res" where
  "pair_render kv = map_res (\<lambda>t. json_string (fst kv) @ '':'' @ t) (canon (snd kv))"

lemma canon_dict:
  "canon (PDict d) = map_res (\<lambda>ts. ''{'' @ join_str '','' ts @ ''}'') (traverse pair_render d)"
proof -
  have "(\<lambda>(k, v). map_res (\<lambda>t. json_string k @ '':'' @ t) (canon v)) = pair_render"
    by (auto simp: pair_render_def)
  then show ?thesis by simp
qed

text \<open>Different values without floats have texts that differ at some position both have.\<close>

definition float_free :: "('a \<Rightarrow> bool) \<Rightarrow> ('a \<Rightarrow> string res) \<Rightarrow> 'a \<Rightarrow> string res" where
  "float_free ok f x = (if ok x then f x else Inl (PyExn ''float''))"

lemma canon_prefix:
  "no_float v \<Longrightarrow> no_float w \<Longrightarrow> canon v = Inr s \<Longrightarrow> canon w = Inr s' \<Longrightarrow> s @ r = s' @ r' \<Longrightarrow>
     delim r \<Longrightarrow> delim r' \<Longrightarrow> v = w \<and> r = r'"
proof (induction v arbitrary: w s s' r r')
  case PNone
  from canon_hd [OF PNone(3,1)] canon_hd [OF PNone(4,2)] PNone have "json_kind w = 0" by auto
  with PNone show ?case by (cases w) (auto split: if_splits)
next
  case (PBool b)
  from canon_hd [OF PBool(3,1)] canon_hd [OF PBool(4,2)] PBool have "json_kind w = json_kind (PBool b)" by auto
  with PBool show ?case by (cases w) (auto split: if_splits)
next
  case (PInt n)
  from canon_hd [OF PInt(3,1)] canon_hd [OF PInt(4,2)] PInt have "json_kind w = 3" by auto
  then obtain m where w: "w = PInt m" by (cases w) (auto split: if_splits)
  with PInt have "int_str n @ r = int_str m @ r'" by simp
  from int_str_prefix [OF this delim_not_digit delim_not_digit] PInt w show ?case by simp
next
  case (PStr t)
  from canon_hd [OF PStr(3,1)] canon_hd [OF PStr(4,2)] PStr have "json_kind w = 5" by auto
  then obtain u where w: "w = PStr u" by (cases w) (auto split: if_splits)
  with PStr have "json_string t @ r = json_string u @ r'" by simp
  from json_string_prefix [OF this] w show ?case by simp
next
  case (PList xs)
  from canon_hd [OF PList(4,2)] canon_hd [OF PList(5,3)] PList have "json_kind w = 7" by auto
  then obtain ys where w: "w = PList ys" by (cases w) (auto split: if_splits)
  let ?f = "float_free no_float canon"
  from PList(4) obtain ts where ts: "traverse canon xs = Inr ts" "s = ''['' @ join_str '','' ts @ '']''"
    by auto
  from PList(5) w obtain us where us: "traverse canon ys = Inr us" "s' = ''['' @ join_str '','' us @ '']''"
    by auto
  have "traverse ?f xs = traverse canon xs" "traverse ?f ys = traverse canon ys"
    using PList(2,3) w by (auto intro!: traverse_cong simp: float_free_def)
  then have f: "traverse ?f xs = Inr ts" "traverse ?f ys = Inr us" using ts us by simp_all
  have hd: "\<And>x s. ?f x = Inr s \<Longrightarrow> s \<noteq> [] \<and> hd s \<noteq> CHR '']''"
    using canon_hd_bracket by (auto simp: float_free_def split: if_splits)
  have item: "\<forall>x \<in> set xs. item_prefix ?f x"
  proof
    fix x assume x: "x \<in> set xs"
    show "item_prefix ?f x"
      unfolding item_prefix_def
    proof (intro allI impI)
      fix y s s' r r'
      assume a: "?f x = Inr s" "?f y = Inr s'" "s @ r = s' @ r'" "delim r" "delim r'"
      then have "no_float x" "canon x = Inr s" "no_float y" "canon y = Inr s'"
        by (auto simp: float_free_def split: if_splits)
      with PList(1) [OF x] a(3-5) show "x = y \<and> r = r'" by blast
    qed
  qed
  have "join_str '','' ts @ CHR '']'' # r = join_str '','' us @ CHR '']'' # r'"
    using PList(6) ts(2) us(2) by simp
  from join_prefix [OF disjI1 [OF refl] hd f item this] w show ?case by simp
next
  case (PDict d)
  from canon_hd [OF PDict(4,2)] canon_hd [OF PDict(5,3)] PDict have "json_kind w = 8" by auto
  then obtain e where w: "w = PDict e" by (cases w) (auto split: if_splits)
  let ?f = "float_free (\<lambda>kv. no_float (snd kv)) pair_render"
  from PDict(4) obtain ts where ts: "traverse pair_render d = Inr ts" "s = ''{'' @ join_str '','' ts @ ''}''"
    unfolding canon_dict by auto
  from PDict(5) w obtain us where us: "traverse pair_render e = Inr us" "s' = ''{'' @ join_str '','' us @ ''}''"
    unfolding w canon_dict by auto
  have "traverse ?f d = traverse pair_render d" "traverse ?f e = traverse pair_render e"
    using PDict(2,3) w by (auto intro!: traverse_cong simp: float_free_def)
  then have f: "traverse ?f d = Inr ts" "traverse ?f e = Inr us" using ts us by simp_all
  have hd: "\<And>x s. ?f x = Inr s \<Longrightarrow> s \<noteq> [] \<and> hd s \<noteq> CHR ''}''"
    by (auto simp: float_free_def pair_render_def json_string_def split: if_splits)
  have item: "\<forall>x \<in> set d. item_prefix ?f x"
  proof
    fix kv assume kv: "kv \<in> set d"
    have snd: "snd kv \<in> Basic_BNFs.snds kv" by (cases kv) (simp add: prod_set_defs)
    note IH = PDict(1) [OF kv snd]
    show "item_prefix ?f kv"
      unfolding item_prefix_def
    proof (intro allI impI)
      fix lw s s' r r'
      assume a: "?f kv = Inr s" "?f lw = Inr s'" "s @ r = s' @ r'" "delim r" "delim r'"
      from a(1) obtain t where t: "no_float (snd kv)" "canon (snd kv) = Inr t"
        "s = json_string (fst kv) @ '':'' @ t"
        by (auto simp: float_free_def pair_render_def split: if_splits)
      from a(2) obtain u where u: "no_float (snd lw)" "canon (snd lw) = Inr u"
        "s' = json_string (fst lw) @ '':'' @ u"
        by (auto simp: float_free_def pair_render_def split: if_splits)
      have "json_string (fst kv) @ ('':'' @ t @ r) = json_string (fst lw) @ ('':'' @ u @ r')"
        using a(3) t(3) u(3) by simp
      from json_string_prefix [OF this] have k: "fst kv = fst lw" and rest: "t @ r = u @ r'" by auto
      from IH [OF t(1) u(1) t(2) u(2) rest a(4,5)] k show "kv = lw \<and> r = r'"
        by (simp add: prod_eq_iff)
    qed
  qed
  have "join_str '','' ts @ CHR ''}'' # r = join_str '','' us @ CHR ''}'' # r'"
    using PDict(6) ts(2) us(2) by simp
  from join_prefix [OF disjI2 [OF refl] hd f item this] w show ?case by simp
qed simp_all

theorem canon_inj:
  assumes "canon v = Inr s" "canon w = Inr s" "no_float v" "no_float w"
  shows "v = w"
  using canon_prefix [OF assms(3,4,1,2), of "[]" "[]"] by simp

subsection \<open>Sorting\<close>

lemma insort_key_map:
  "(\<And>x. fst (f x) = fst x) \<Longrightarrow> insort_key fst (f x) (List.map f xs) = List.map f (insort_key fst x xs)"
  by (induction xs) auto

lemma sort_key_map:
  assumes "\<And>x. fst (f x) = fst x"
  shows "sort_key fst (List.map f xs) = List.map f (sort_key fst xs)"
proof (induction xs)
  case (Cons x xs)
  then show ?case using insort_key_map [of f, OF assms] by simp
qed simp

lemma sort_key_idem: "sort_key f (sort_key f xs) = sort_key f xs"
  by (simp add: sort_key_id_if_sorted)

definition map_values :: "(pyval \<Rightarrow> pyval) \<Rightarrow> dict \<Rightarrow> dict" where
  "map_values f d = List.map (\<lambda>(k, v). (k, f v)) d"

lemma map_values_sort: "sort_key fst (map_values f d) = map_values f (sort_key fst d)"
  unfolding map_values_def by (rule sort_key_map) (simp split: prod.splits)

lemma map_values_cong: "(\<And>k v. (k, v) \<in> set d \<Longrightarrow> f v = g v) \<Longrightarrow> map_values f d = map_values g d"
  by (auto simp: map_values_def)

lemma map_values_map_values: "map_values f (map_values g d) = map_values (\<lambda>v. f (g v)) d"
  by (auto simp: map_values_def)

lemma filter_map_values:
  "filter (\<lambda>(k, v). Q k) (map_values f d) = map_values f (filter (\<lambda>(k, v). Q k) d)"
  by (induction d) (auto simp: map_values_def)

lemma sort_json_dict: "sort_json (PDict d) = PDict (sort_key fst (map_values sort_json d))"
  by (simp add: map_values_def)

lemma without_keys_dict:
  "without_keys (PDict d) ks =
     PDict (map_values (\<lambda>v. without_keys v ks) (filter (\<lambda>(k, v). k \<notin> set ks) d))"
  by (simp add: map_values_def)

lemma sort_json_idem: "sort_json (sort_json v) = sort_json v"
proof (induction v)
  case (PDict d)
  have "map_values (\<lambda>v. sort_json (sort_json v)) (sort_key fst d) =
      map_values sort_json (sort_key fst d)"
    by (rule map_values_cong) (rule PDict, auto)
  then show ?case
    unfolding sort_json_dict map_values_sort map_values_map_values sort_key_idem by simp
qed auto

lemma without_keys_sort: "without_keys (sort_json v) ks = sort_json (without_keys v ks)"
proof (induction v)
  case (PDict d)
  let ?F = "filter (\<lambda>(k, v). k \<notin> set ks)"
  have "map_values (\<lambda>v. without_keys (sort_json v) ks) (?F d) =
      map_values (\<lambda>v. sort_json (without_keys v ks)) (?F d)"
    by (rule map_values_cong) (rule PDict, auto)
  then show ?case
    unfolding sort_json_dict without_keys_dict
    by (simp add: filter_sort filter_map_values map_values_map_values flip: map_values_sort)
qed auto

lemma canonical_json_sort: "canonical_json_bytes (sort_json v) ks = canonical_json_bytes v ks"
  by (simp add: canonical_json_bytes_def without_keys_sort sort_json_idem)

lemma no_float_map_values: "no_float (PDict (map_values f d)) \<longleftrightarrow> (\<forall>(k, v) \<in> set d. no_float (f v))"
  by (auto simp: map_values_def)

lemma no_float_sort: "no_float v \<Longrightarrow> no_float (sort_json v)"
  by (induction v) fastforce+

lemma no_float_without: "no_float v \<Longrightarrow> no_float (without_keys v ks)"
  by (induction v) fastforce+

text \<open>Two values with the same canonical text are equal up to the order of their keys and the
  excluded keys.\<close>

theorem canonical_json_bytes_inj:
  assumes "canonical_json_bytes v ks = Inr s" "canonical_json_bytes w ks = Inr s"
    and "no_float v" "no_float w"
  shows "sort_json (without_keys v ks) = sort_json (without_keys w ks)"
  using canon_inj assms by (simp add: canonical_json_bytes_def no_float_sort no_float_without)

subsection \<open>Values that render\<close>

fun no_bytes :: "pyval \<Rightarrow> bool" where
  "no_bytes (PBytes b) = False"
| "no_bytes (PList xs) = (\<forall>x \<in> set xs. no_bytes x)"
| "no_bytes (PDict d) = (\<forall>(k, v) \<in> set d. no_bytes v)"
| "no_bytes v = True"

lemma traverse_ok: "(\<And>x. x \<in> set xs \<Longrightarrow> \<exists>y. f x = Inr y) \<Longrightarrow> \<exists>ys. traverse f xs = Inr ys"
  by (induction xs) auto

lemma render_ok: "no_bytes v \<Longrightarrow> \<exists>s. json_render a b v = Inr s"
proof (induction v)
  case (PList xs)
  then have "\<exists>ys. traverse (json_render a b) xs = Inr ys" by (intro traverse_ok) auto
  then show ?case by auto
next
  case (PDict d)
  have "\<exists>ys. traverse (\<lambda>(k, v). map_res (\<lambda>t. json_string k @ b @ t) (json_render a b v)) d = Inr ys"
  proof (rule traverse_ok)
    fix x assume x: "x \<in> set d"
    obtain k v where kv: "x = (k, v)" by (cases x)
    have "\<exists>s. json_render a b v = Inr s" using PDict x kv by (auto simp: prod_set_defs)
    then show "\<exists>y. (\<lambda>(k, v). map_res (\<lambda>t. json_string k @ b @ t) (json_render a b v)) x = Inr y"
      unfolding kv by auto
  qed
  then show ?case by auto
qed simp_all

lemma no_bytes_sort: "no_bytes v \<Longrightarrow> no_bytes (sort_json v)"
  by (induction v) fastforce+

lemma no_bytes_without: "no_bytes v \<Longrightarrow> no_bytes (without_keys v ks)"
  by (induction v) fastforce+

lemma canonical_ok: "no_bytes v \<Longrightarrow> \<exists>h. canonical_sha256 sha v ks = Inr h"
  using render_ok [OF no_bytes_sort [OF no_bytes_without [of v ks]], of "'',''" "'':''"]
  by (auto simp: canonical_sha256_def canonical_json_bytes_def)

lemma canonical_sha: "no_bytes v \<Longrightarrow> \<exists>s. canonical_sha256 sha v ks = Inr (sha s)"
  using canonical_ok [of v sha ks] by (auto simp: canonical_sha256_def)

lemma no_bytes_opt [simp]: "no_bytes (opt_str x)" "no_bytes (opt_int n)"
  by (cases x; simp) (cases n; simp)

end
