(* ===== verification/Custody.thy ===== *)
theory Custody
  imports Canonical_Facts
begin

section \<open>The chain-of-custody ledger\<close>

text \<open>
  \<open>application/services/custody_ledger.py\<close> (\<open>CustodyLedger\<close>) over the ports it is given, and
  the SQLite tables behind them (\<open>save_custody_event\<close>, \<open>list_custody_events\<close>,
  \<open>get_custody_event\<close> of \<open>adapters/persistence/sqlite/repository.py\<close>).  The constructor
  arguments of the ledger are the record \<open>custody_ports\<close>; clock readings and the new
  identifier are arguments of the call; SHA-256 and the time-zone database are the environment.

  Events are the JSON documents the code stores.  The ledger reads the fields
  \<open>immutable_revision\<close> as an int and the other fields it inspects as str: a document holding
  another type there raises.
\<close>

datatype custody_event_type =
    ACQUISITION | RECEIVED | TRANSFERRED | STORED | OPENED | MOUNTED | ANALYZED | HASH_VERIFIED
  | COPIED | EXPORTED | RETURNED | RELEASED | ARCHIVED | DISPOSED | CORRECTION

fun custody_event_type_value :: "custody_event_type \<Rightarrow> string" where
  "custody_event_type_value ACQUISITION = ''ACQUISITION''"
| "custody_event_type_value RECEIVED = ''RECEIVED''"
| "custody_event_type_value TRANSFERRED = ''TRANSFERRED''"
| "custody_event_type_value STORED = ''STORED''"
| "custody_event_type_value OPENED = ''OPENED''"
| "custody_event_type_value MOUNTED = ''MOUNTED''"
| "custody_event_type_value ANALYZED = ''ANALYZED''"
| "custody_event_type_value HASH_VERIFIED = ''HASH_VERIFIED''"
| "custody_event_type_value COPIED = ''COPIED''"
| "custody_event_type_value EXPORTED = ''EXPORTED''"
| "custody_event_type_value RETURNED = ''RETURNED''"
| "custody_event_type_value RELEASED = ''RELEASED''"
| "custody_event_type_value ARCHIVED = ''ARCHIVED''"
| "custody_event_type_value DISPOSED = ''DISPOSED''"
| "custody_event_type_value CORRECTION = ''CORRECTION''"

subsection \<open>Fields of a document\<close>

definition req_str :: "dict \<Rightarrow> string \<Rightarrow> string res" where
  "req_str d k = (case dget d k of
     None \<Rightarrow> Inl (PyExn ''KeyError'')
   | Some (PStr s) \<Rightarrow> Inr s
   | Some _ \<Rightarrow> Inl (PyExn ''TypeError''))"

definition req_int :: "dict \<Rightarrow> string \<Rightarrow> int res" where
  "req_int d k = (case dget d k of
     None \<Rightarrow> Inl (PyExn ''KeyError'')
   | Some (PInt n) \<Rightarrow> Inr n
   | Some _ \<Rightarrow> Inl (PyExn ''TypeError''))"

definition req_val :: "dict \<Rightarrow> string \<Rightarrow> pyval res" where
  "req_val d k = (case dget d k of None \<Rightarrow> Inl (PyExn ''KeyError'') | Some v \<Rightarrow> Inr v)"

subsection \<open>The ports and the calls\<close>

record 'r custody_ports =
  cp_evidence_case :: "'r \<Rightarrow> string \<Rightarrow> string option"
  cp_case_timezone :: "'r \<Rightarrow> string \<Rightarrow> string option"
  cp_save :: "'r \<Rightarrow> dict \<Rightarrow> 'r res"
  cp_list :: "'r \<Rightarrow> string \<Rightarrow> dict list"
  cp_get :: "'r \<Rightarrow> string \<Rightarrow> dict option"

record custody_env =
  ce_sha256 :: "string \<Rightarrow> string"
  ce_zone :: "string \<Rightarrow> (datetime \<Rightarrow> string) option"

record custody_request =
  cq_evidence_id :: string
  cq_event_type :: custody_event_type
  cq_actor_name :: string
  cq_action :: string
  cq_actor_id :: "string option"
  cq_actor_role :: "string option"
  cq_organization :: "string option"
  cq_source_location :: "string option"
  cq_destination_location :: "string option"
  cq_reason :: "string option"
  cq_occurred_at_utc :: "datetime option"
  cq_tool_name :: "string option"
  cq_tool_version :: "string option"
  cq_previous_hash :: "(string \<times> string) list option"
  cq_current_hash :: "(string \<times> string) list option"
  cq_notes :: "string option"
  cq_correction_of_event_id :: "string option"

definition str_dict :: "(string \<times> string) list option \<Rightarrow> pyval" where
  "str_dict m = (case m of None \<Rightarrow> PNone | Some d \<Rightarrow> PDict (List.map (\<lambda>(k, v). (k, PStr v)) d))"

definition custody_ledger_version :: string where
  "custody_ledger_version = ''apex-custody-canonical-v1''"

subsection \<open>The correction guard\<close>

definition check_correction ::
  "'r custody_ports \<Rightarrow> 'r \<Rightarrow> string \<Rightarrow> custody_request \<Rightarrow> unit res" where
  "check_correction p r case_id q =
     (if cq_event_type q = CORRECTION then
        (case cq_correction_of_event_id q of
           None \<Rightarrow> Inl (validation_error ''CORRECTION events require correction_of_event_id.''
                    (Some ''correction_of_event_id''))
         | Some target_id \<Rightarrow>
             (case cp_get p r target_id of
                None \<Rightarrow> Inl (not_found_error ''OBJECT_NOT_FOUND''
                         (''Correction target not found: '' @ target_id)
                         (Some ''correction_of_event_id''))
              | Some target \<Rightarrow>
                  (if dget target ''evidence_id'' \<noteq> Some (PStr (cq_evidence_id q)) then
                     Inl (validation_error ''Correction target belongs to a different evidence item.''
                       (Some ''correction_of_event_id''))
                   else if dget target ''case_id'' \<noteq> Some (PStr case_id) then
                     Inl (validation_error ''Correction target belongs to a different case.''
                       (Some ''correction_of_event_id''))
                   else Inr ())))
      else if cq_correction_of_event_id q \<noteq> None then
        Inl (validation_error ''Only CORRECTION events may reference correction_of_event_id.''
          (Some ''correction_of_event_id''))
      else Inr ())"

subsection \<open>Appending an event\<close>

definition event_fields :: "custody_request \<Rightarrow> string \<Rightarrow> string \<Rightarrow> string \<Rightarrow> string \<Rightarrow> string \<Rightarrow> string \<Rightarrow>
    int \<Rightarrow> string option \<Rightarrow> dict" where
  "event_fields q event_id case_id timezone occurred displayed created revision previous =
     [(''schema_version'', PStr ''1.0.0''),
      (''event_id'', PStr event_id),
      (''case_id'', PStr case_id),
      (''evidence_id'', PStr (cq_evidence_id q)),
      (''event_type'', PStr (custody_event_type_value (cq_event_type q))),
      (''actor_id'', opt_str (cq_actor_id q)),
      (''actor_name'', PStr (cq_actor_name q)),
      (''actor_role'', opt_str (cq_actor_role q)),
      (''organization'', opt_str (cq_organization q)),
      (''source_location'', opt_str (cq_source_location q)),
      (''destination_location'', opt_str (cq_destination_location q)),
      (''action'', PStr (cq_action q)),
      (''reason'', opt_str (cq_reason q)),
      (''occurred_at_utc'', PStr occurred),
      (''displayed_at'', PStr displayed),
      (''timezone'', PStr timezone),
      (''tool_name'', opt_str (cq_tool_name q)),
      (''tool_version'', opt_str (cq_tool_version q)),
      (''previous_hash'', str_dict (cq_previous_hash q)),
      (''current_hash'', str_dict (cq_current_hash q)),
      (''notes'', opt_str (cq_notes q)),
      (''created_at'', PStr created),
      (''immutable_revision'', PInt revision),
      (''previous_event_hash'', opt_str previous),
      (''event_hash'', PStr ''''),
      (''ledger_algorithm'', PStr ''SHA256''),
      (''ledger_version'', PStr custody_ledger_version),
      (''approval'', PNone),
      (''correction_of_event_id'', opt_str (cq_correction_of_event_id q))]"

text \<open>\<open>existing[-1]\<close>: the previous event hash and the revision of the new event.\<close>

definition chain_head :: "dict list \<Rightarrow> (string option \<times> int) res" where
  "chain_head existing =
     (if existing = [] then Inr (None, 1)
      else bind_res (req_str (last existing) ''event_hash'') (\<lambda>h.
             map_res (\<lambda>n. (Some h, n + 1)) (req_int (last existing) ''immutable_revision'')))"

definition add_event :: "'r custody_ports \<Rightarrow> custody_env \<Rightarrow> 'r \<Rightarrow> datetime \<Rightarrow> datetime \<Rightarrow> string \<Rightarrow>
    custody_request \<Rightarrow> (dict \<times> 'r) res" where
  "add_event p env r now_occurred now_created new_id q =
     (case cp_evidence_case p r (cq_evidence_id q) of
        None \<Rightarrow> Inl (not_found_error ''EVIDENCE_NOT_FOUND''
                 (''Evidence not found: '' @ cq_evidence_id q) (Some ''evidence_id''))
      | Some case_id \<Rightarrow>
     (case cp_case_timezone p r case_id of
        None \<Rightarrow> Inl (not_found_error ''CASE_NOT_FOUND'' (''Case not found: '' @ case_id) None)
      | Some timezone \<Rightarrow>
     bind_res (check_correction p r case_id q) (\<lambda>_.
     bind_res (chain_head (cp_list p r (cq_evidence_id q))) (\<lambda>(previous, revision).
     let occurred = (case cq_occurred_at_utc q of None \<Rightarrow> now_occurred | Some t \<Rightarrow> t) in
     (case ce_zone env timezone of
        None \<Rightarrow> Inl (PyExn ''ZoneInfoNotFoundError'')
      | Some display \<Rightarrow>
     bind_res (to_json_timestamp occurred) (\<lambda>occurred_text.
     bind_res (to_json_timestamp now_created) (\<lambda>created_text.
     let event_data = event_fields q new_id case_id timezone occurred_text (display occurred)
           created_text revision previous in
     bind_res (canonical_sha256 (ce_sha256 env) (PDict event_data) [''event_hash'']) (\<lambda>h.
     let event = dset ''event_hash'' (PStr h) event_data in
     map_res (\<lambda>r'. (event, r')) (cp_save p r event)))))))))"

definition add_correction :: "'r custody_ports \<Rightarrow> custody_env \<Rightarrow> 'r \<Rightarrow> datetime \<Rightarrow> datetime \<Rightarrow> string \<Rightarrow>
    string \<Rightarrow> string \<Rightarrow> string \<Rightarrow> string \<Rightarrow> string option \<Rightarrow> (dict \<times> 'r) res" where
  "add_correction p env r now_occurred now_created new_id evidence_id target_id actor_name reason notes =
     (if reason = '''' then
        Inl (state_conflict_error ''Correction events require a reason.'' (Some ''reason''))
      else add_event p env r now_occurred now_created new_id
        \<lparr>cq_evidence_id = evidence_id, cq_event_type = CORRECTION, cq_actor_name = actor_name,
         cq_action = ''Correction event appended'', cq_actor_id = None, cq_actor_role = None,
         cq_organization = None, cq_source_location = None, cq_destination_location = None,
         cq_reason = Some reason, cq_occurred_at_utc = None,
         cq_tool_name = Some ''APEX Forensic Core'', cq_tool_version = Some ''0.1.0'',
         cq_previous_hash = None, cq_current_hash = None, cq_notes = notes,
         cq_correction_of_event_id = Some target_id\<rparr>)"

subsection \<open>Verification\<close>

text \<open>\<open>verify_step\<close> is the body of the loop of \<open>verify_chain\<close>: \<open>None\<close> for
  \<open>return False\<close>, else the hash the next event must refer to.\<close>

definition verify_step ::
  "(string \<Rightarrow> string) \<Rightarrow> string option \<Rightarrow> int \<Rightarrow> dict \<Rightarrow> string option res" where
  "verify_step sha previous expected data =
     bind_res (req_val data ''immutable_revision'') (\<lambda>rev.
       if rev \<noteq> PInt expected then Inr None
       else bind_res (req_val data ''previous_event_hash'') (\<lambda>prev.
         if prev \<noteq> opt_str previous then Inr None
         else bind_res (canonical_sha256 sha (PDict data) [''event_hash'']) (\<lambda>h.
           bind_res (req_val data ''event_hash'') (\<lambda>eh.
             if PStr h \<noteq> eh then Inr None else Inr (Some h)))))"

fun verify_loop ::
  "(string \<Rightarrow> string) \<Rightarrow> string option \<Rightarrow> int \<Rightarrow> dict list \<Rightarrow> bool res" where
  "verify_loop sha previous expected [] = Inr True"
| "verify_loop sha previous expected (data # rest) =
     bind_res (verify_step sha previous expected data) (\<lambda>h.
       case h of None \<Rightarrow> Inr False | Some h' \<Rightarrow> verify_loop sha (Some h') (expected + 1) rest)"

definition verify_chain :: "'r custody_ports \<Rightarrow> custody_env \<Rightarrow> 'r \<Rightarrow> string \<Rightarrow> bool res" where
  "verify_chain p env r evidence_id =
     verify_loop (ce_sha256 env) None 1 (cp_list p r evidence_id)"

definition opt_py_str :: "pyval option \<Rightarrow> string" where
  "opt_py_str v = (case v of Some (PStr s) \<Rightarrow> s | _ \<Rightarrow> ''None'')"

definition violation :: "dict \<Rightarrow> string \<Rightarrow> string \<Rightarrow> (string \<times> string) list res" where
  "violation data what offending =
     map_res (\<lambda>i. [(''event_id'', i), (''violation'', what), (''offending_value'', offending)])
       (req_str data ''event_id'')"

definition event_violations ::
  "'r custody_ports \<Rightarrow> 'r \<Rightarrow> string \<Rightarrow> string \<Rightarrow> dict \<Rightarrow> (string \<times> string) list list res" where
  "event_violations p r evidence_id case_id data =
     (case dget data ''correction_of_event_id'' of
        None \<Rightarrow> Inr []
      | Some PNone \<Rightarrow> Inr []
      | Some (PStr ref) \<Rightarrow>
          (case cp_get p r ref of
             None \<Rightarrow> map_res (\<lambda>v. [v]) (violation data ''correction_target_missing'' ref)
           | Some target \<Rightarrow>
               bind_res (if dget target ''evidence_id'' \<noteq> Some (PStr evidence_id)
                 then map_res (\<lambda>v. [v]) (violation data ''correction_target_wrong_evidence''
                        (opt_py_str (dget target ''evidence_id'')))
                 else Inr []) (\<lambda>a.
               map_res (\<lambda>b. a @ b) (if dget target ''case_id'' \<noteq> Some (PStr case_id)
                 then map_res (\<lambda>v. [v]) (violation data ''correction_target_wrong_case''
                        (opt_py_str (dget target ''case_id'')))
                 else Inr [])))
      | Some _ \<Rightarrow> Inl (PyExn ''TypeError''))"

definition find_semantic_violations ::
  "'r custody_ports \<Rightarrow> 'r \<Rightarrow> string \<Rightarrow> (string \<times> string) list list res" where
  "find_semantic_violations p r evidence_id =
     (case cp_evidence_case p r evidence_id of
        None \<Rightarrow> Inr []
      | Some case_id \<Rightarrow>
          map_res concat (traverse (event_violations p r evidence_id case_id)
            (cp_list p r evidence_id)))"

subsection \<open>The SQLite tables\<close>

record custody_row =
  cw_event_id :: string
  cw_evidence_id :: string
  cw_revision :: int
  cw_json :: dict

record custody_db =
  db_evidence :: "string \<Rightarrow> string option"
  db_cases :: "string \<Rightarrow> string option"
  db_events :: "custody_row list"

text \<open>\<open>save_custody_event\<close>: the primary key, the unique pair (evidence, revision) and the
  foreign keys of the table make a conflicting insert raise \<open>IntegrityError\<close>; the document
  column holds the JSON text, read back with its keys sorted.\<close>

definition sqlite_save_custody_event :: "custody_db \<Rightarrow> dict \<Rightarrow> custody_db res" where
  "sqlite_save_custody_event db data =
     bind_res (req_str data ''event_id'') (\<lambda>event_id.
     bind_res (req_str data ''case_id'') (\<lambda>case_id.
     bind_res (req_str data ''evidence_id'') (\<lambda>evidence_id.
     bind_res (req_int data ''immutable_revision'') (\<lambda>revision.
     bind_res (req_str data ''event_hash'') (\<lambda>_.
     bind_res (json_render '', '' '': '' (sort_json (PDict data))) (\<lambda>_.
     if (\<exists>w \<in> set (db_events db). cw_event_id w = event_id \<or>
           (cw_evidence_id w = evidence_id \<and> cw_revision w = revision)) \<or>
        db_evidence db evidence_id = None \<or> db_cases db case_id = None
     then Inl (PyExn ''IntegrityError'')
     else Inr (db\<lparr>db_events := db_events db @
       [\<lparr>cw_event_id = event_id, cw_evidence_id = evidence_id, cw_revision = revision,
         cw_json = sort_dict data\<rparr>]\<rparr>)))))))"

definition sqlite_list_custody_events :: "custody_db \<Rightarrow> string \<Rightarrow> dict list" where
  "sqlite_list_custody_events db evidence_id =
     List.map cw_json (sort_key cw_revision
       (filter (\<lambda>w. cw_evidence_id w = evidence_id) (db_events db)))"

definition sqlite_get_custody_event :: "custody_db \<Rightarrow> string \<Rightarrow> dict option" where
  "sqlite_get_custody_event db event_id =
     map_option cw_json (find (\<lambda>w. cw_event_id w = event_id) (db_events db))"

definition sqlite_custody :: "custody_db custody_ports" where
  "sqlite_custody =
     \<lparr>cp_evidence_case = db_evidence, cp_case_timezone = db_cases,
      cp_save = sqlite_save_custody_event, cp_list = sqlite_list_custody_events,
      cp_get = sqlite_get_custody_event\<rparr>"

end
