(* ===== verification/Custody_Facts.thy ===== *)
theory Custody_Facts
  imports Custody
begin

section \<open>What the ledger guarantees\<close>

text \<open>
  The locale \<open>custody_store\<close> states what the ledger relies on from its repository: a saved event
  is listed last under its evidence and found under its identifier, and nothing else changes.
  Inside it: appending keeps the chain verifiable and free of semantic violations, for a run of
  any length.  The SQLite tables are the instance.
\<close>

subsection \<open>Fields of sorted and filtered documents\<close>

lemma req_simps [simp]:
  "req_str d k = Inr s \<longleftrightarrow> dget d k = Some (PStr s)"
  "req_int d k = Inr n \<longleftrightarrow> dget d k = Some (PInt n)"
  "req_val d k = Inr v \<longleftrightarrow> dget d k = Some v"
  by (auto simp: req_str_def req_int_def req_val_def split: option.splits pyval.splits)

lemma sort_dict_values: "sort_dict d = sort_key fst (map_values sort_json d)"
  by (simp add: sort_dict_def map_values_def)

lemma map_of_map_values: "map_of (map_values f d) k = map_option f (map_of d k)"
  by (induction d) (auto simp: map_values_def)

lemma map_of_sort_key: "distinct (List.map fst d) \<Longrightarrow> map_of (sort_key fst d) k = map_of d k"
proof -
  assume d: "distinct (List.map fst d)"
  have "mset (List.map fst (sort_key fst d)) = mset (List.map fst d)" by (simp only: mset_map mset_sort)
  then have "distinct (List.map fst (sort_key fst d))"
    using d by (metis mset_eq_imp_distinct_iff)
  then have eq: "map_of (sort_key fst d) k = Some v \<longleftrightarrow> map_of d k = Some v" for v
    using d by simp
  then show ?thesis by (metis not_Some_eq)
qed

lemma keys_map_values [simp]: "List.map fst (map_values f d) = List.map fst d"
  by (auto simp: map_values_def)

lemma distinct_sort_dict: "distinct (List.map fst d) \<Longrightarrow> distinct (List.map fst (sort_dict d))"
proof -
  assume d: "distinct (List.map fst d)"
  have "mset (List.map fst (sort_key fst xs)) = mset (List.map fst xs)" for xs :: dict
    by (simp only: mset_map mset_sort)
  from this [of "map_values sort_json d"] have "mset (List.map fst (sort_dict d)) = mset (List.map fst d)"
    by (simp only: sort_dict_values keys_map_values)
  then show ?thesis using d by (metis mset_eq_imp_distinct_iff)
qed

lemma dget_sort_dict:
  "distinct (List.map fst d) \<Longrightarrow> dget (sort_dict d) k = map_option sort_json (dget d k)"
  by (simp add: sort_dict_values map_of_sort_key map_of_map_values)

lemma sort_dict_json: "PDict (sort_dict d) = sort_json (PDict d)"
  by (simp add: sort_dict_def)

lemma canonical_sort_dict:
  "canonical_sha256 sha (PDict (sort_dict d)) ks = canonical_sha256 sha (PDict d) ks"
  by (simp add: canonical_sha256_def sort_dict_json canonical_json_sort del: sort_json.simps)

lemma filter_update: "k \<in> K \<Longrightarrow> k \<in> fst ` set d \<Longrightarrow>
    filter (\<lambda>(x, v). x \<notin> K) (AList.update k v d) = filter (\<lambda>(x, v). x \<notin> K) d"
  by (induction d) auto

lemma canonical_update_excluded:
  assumes "k \<in> set ks" "k \<in> fst ` set d"
  shows "canonical_sha256 sha (PDict (dset k v d)) ks = canonical_sha256 sha (PDict d) ks"
proof -
  have "without_keys (PDict (dset k v d)) ks = without_keys (PDict d) ks"
    using filter_update [of k "set ks" d v] assms by simp
  then show ?thesis by (simp add: canonical_sha256_def canonical_json_bytes_def)
qed

subsection \<open>Verification of a list\<close>

definition link_after :: "string option \<Rightarrow> dict list \<Rightarrow> string option" where
  "link_after previous ds = (if ds = [] then previous
     else (case dget (last ds) ''event_hash'' of Some (PStr h) \<Rightarrow> Some h | _ \<Rightarrow> None))"

lemma verify_step_Some:
  "verify_step sha previous n d = Inr (Some h) \<longleftrightarrow>
     dget d ''immutable_revision'' = Some (PInt n) \<and>
     dget d ''previous_event_hash'' = Some (opt_str previous) \<and>
     dget d ''event_hash'' = Some (PStr h) \<and>
     canonical_sha256 sha (PDict d) [''event_hash''] = Inr h"
  by (auto simp: verify_step_def split: if_splits)

lemma verify_loop_Cons_True:
  "verify_loop sha previous n (d # ds) = Inr True \<longleftrightarrow>
     (\<exists>h. verify_step sha previous n d = Inr (Some h) \<and> verify_loop sha (Some h) (n + 1) ds = Inr True)"
  by (auto split: option.splits)

lemma verify_loop_append:
  "verify_loop sha previous n (ds @ [d]) = Inr True \<longleftrightarrow>
     verify_loop sha previous n ds = Inr True \<and>
     (\<exists>h. verify_step sha (link_after previous ds) (n + int (length ds)) d = Inr (Some h))"
proof (induction ds arbitrary: previous n)
  case Nil
  then show ?case by (simp add: link_after_def verify_loop_Cons_True del: verify_loop.simps(2))
next
  case (Cons a ds)
  have link: "link_after previous (a # ds) = link_after (Some h) ds"
    if "verify_step sha previous n a = Inr (Some h)" for h
    using that by (auto simp: link_after_def verify_step_Some)
  show ?case
    unfolding append_Cons verify_loop_Cons_True Cons.IH
    by (auto simp: link algebra_simps)
qed

lemma verify_loop_head:
  assumes "verify_loop sha None 1 ds = Inr True" "ds \<noteq> []"
  shows "\<exists>h. dget (last ds) ''event_hash'' = Some (PStr h) \<and>
    dget (last ds) ''immutable_revision'' = Some (PInt (int (length ds)))"
proof -
  obtain as d where ds: "ds = as @ [d]" using assms(2) by (metis append_butlast_last_id)
  with assms(1) show ?thesis by (auto simp: verify_loop_append verify_step_Some)
qed

lemma chain_head_verified:
  assumes "verify_loop sha None 1 ds = Inr True"
  shows "chain_head ds = Inr (link_after None ds, int (length ds) + 1)"
proof (cases "ds = []")
  case False
  from verify_loop_head [OF assms False] obtain h where
      "dget (last ds) ''event_hash'' = Some (PStr h)"
      "dget (last ds) ''immutable_revision'' = Some (PInt (int (length ds)))" by blast
  then have "req_str (last ds) ''event_hash'' = Inr h"
    "req_int (last ds) ''immutable_revision'' = Inr (int (length ds))"
    "link_after None ds = Some h" using False by (simp_all add: link_after_def)
  then show ?thesis using False unfolding chain_head_def by simp
qed (simp add: chain_head_def link_after_def)

lemma verified_revisions:
  "verify_loop sha previous n ds = Inr True \<Longrightarrow> d \<in> set ds \<Longrightarrow>
     \<exists>m. dget d ''immutable_revision'' = Some (PInt m) \<and> m < n + int (length ds)"
proof (induction ds arbitrary: previous n)
  case (Cons a ds)
  then obtain h where a: "verify_step sha previous n a = Inr (Some h)"
    and r: "verify_loop sha (Some h) (n + 1) ds = Inr True"
    by (auto simp: verify_loop_Cons_True simp del: verify_loop.simps(2))
  from Cons.prems(2) show ?case
  proof (cases "d = a")
    case True
    with a show ?thesis by (auto simp: verify_step_Some)
  next
    case False
    with Cons.prems(2) Cons.IH [OF r] show ?thesis by fastforce
  qed
qed simp

subsection \<open>The event an append builds\<close>

lemma event_fields_keys:
  "distinct (List.map fst (event_fields q i c tz o1 o2 cr rv prev))"
  by (simp add: event_fields_def)

lemma event_fields_get:
  fixes q i c tz o1 o2 cr rv prev
  defines "d \<equiv> event_fields q i c tz o1 o2 cr rv prev"
  shows "dget d ''event_id'' = Some (PStr i)" "dget d ''case_id'' = Some (PStr c)"
    "dget d ''evidence_id'' = Some (PStr (cq_evidence_id q))"
    "dget d ''immutable_revision'' = Some (PInt rv)"
    "dget d ''previous_event_hash'' = Some (opt_str prev)"
    "dget d ''correction_of_event_id'' = Some (opt_str (cq_correction_of_event_id q))"
    "''event_hash'' \<in> fst ` set d"
  unfolding d_def by (simp_all add: event_fields_def)

lemma sort_opt_str [simp]: "sort_json (opt_str x) = opt_str x"
  by (cases x) auto

lemma float_free_fields [simp]: "no_float (opt_str x)" "no_float (str_dict m)"
  by (cases x; simp) (auto simp: str_dict_def split: option.splits)

lemma event_fields_no_float: "no_float (PDict (event_fields q i c tz o1 o2 cr rv prev))"
  by (simp add: event_fields_def)

lemma no_float_update: "no_float (PDict d) \<Longrightarrow> no_float v \<Longrightarrow> no_float (PDict (dset k v d))"
  by (induction d) auto

definition ledger_event :: "custody_env \<Rightarrow> custody_request \<Rightarrow> string \<Rightarrow> string \<Rightarrow> string option \<Rightarrow>
    int \<Rightarrow> dict \<Rightarrow> bool" where
  "ledger_event env q i c prev rv e \<longleftrightarrow>
     distinct (List.map fst e) \<and> no_float (PDict e) \<and>
     dget e ''event_id'' = Some (PStr i) \<and> dget e ''case_id'' = Some (PStr c) \<and>
     dget e ''evidence_id'' = Some (PStr (cq_evidence_id q)) \<and>
     dget e ''correction_of_event_id'' = Some (opt_str (cq_correction_of_event_id q)) \<and>
     (\<exists>h. verify_step (ce_sha256 env) prev rv e = Inr (Some h))"

lemma add_event_cases:
  assumes "add_event p env r n1 n2 i q = Inr (e, r')"
  obtains c prev rv where
    "cp_evidence_case p r (cq_evidence_id q) = Some c" "check_correction p r c q = Inr ()"
    "chain_head (cp_list p r (cq_evidence_id q)) = Inr (prev, rv)"
    "ledger_event env q i c prev rv e" "cp_save p r e = Inr r'"
proof -
  from assms obtain c tz prev rv o1 o2 cr h where
      c: "cp_evidence_case p r (cq_evidence_id q) = Some c" "check_correction p r c q = Inr ()"
        "chain_head (cp_list p r (cq_evidence_id q)) = Inr (prev, rv)"
    and h: "canonical_sha256 (ce_sha256 env) (PDict (event_fields q i c tz o1 o2 cr rv prev))
        [''event_hash''] = Inr h"
    and e: "e = dset ''event_hash'' (PStr h) (event_fields q i c tz o1 o2 cr rv prev)"
    and s: "cp_save p r e = Inr r'"
    by (auto simp: add_event_def Let_def split: option.splits)
  have "distinct (List.map fst e)"
    unfolding e by (rule distinct_update) (rule event_fields_keys)
  moreover have "verify_step (ce_sha256 env) prev rv e = Inr (Some h)"
    unfolding verify_step_Some e
    by (simp add: update_conv event_fields_get canonical_update_excluded h)
  moreover have "dget e ''event_id'' = Some (PStr i)" "dget e ''case_id'' = Some (PStr c)"
    "dget e ''evidence_id'' = Some (PStr (cq_evidence_id q))"
    "dget e ''correction_of_event_id'' = Some (opt_str (cq_correction_of_event_id q))"
    unfolding e by (simp_all add: update_conv event_fields_get)
  moreover have "no_float (PDict e)"
    unfolding e by (rule no_float_update [OF event_fields_no_float]) simp
  ultimately have "ledger_event env q i c prev rv e" unfolding ledger_event_def by blast
  with c s show thesis by (intro that)
qed

lemma verify_step_sorted:
  "distinct (List.map fst e) \<Longrightarrow> verify_step sha prev n e = Inr (Some h) \<Longrightarrow>
     verify_step sha prev n (sort_dict e) = Inr (Some h)"
  by (simp add: verify_step_Some dget_sort_dict canonical_sort_dict del: map_of_eq_Some_iff)

subsection \<open>The repository contract\<close>

locale custody_store =
  fixes p :: "'r custody_ports" and valid :: "'r \<Rightarrow> bool"
  assumes save_valid: "valid r \<Longrightarrow> distinct (List.map fst d) \<Longrightarrow> cp_save p r d = Inr r' \<Longrightarrow> valid r'"
    and save_evidence: "cp_save p r d = Inr r' \<Longrightarrow> cp_evidence_case p r' = cp_evidence_case p r"
    and save_list: "valid r \<Longrightarrow> cp_save p r d = Inr r' \<Longrightarrow>
      dget d ''evidence_id'' = Some (PStr e) \<Longrightarrow> dget d ''immutable_revision'' = Some (PInt n) \<Longrightarrow>
      (\<forall>x \<in> set (cp_list p r e). \<exists>m. dget x ''immutable_revision'' = Some (PInt m) \<and> m < n) \<Longrightarrow>
      cp_list p r' e = cp_list p r e @ [sort_dict d]"
    and save_other: "valid r \<Longrightarrow> cp_save p r d = Inr r' \<Longrightarrow>
      dget d ''evidence_id'' = Some (PStr e) \<Longrightarrow> e' \<noteq> e \<Longrightarrow> cp_list p r' e' = cp_list p r e'"
    and get_stable: "cp_save p r d = Inr r' \<Longrightarrow> cp_get p r x = Some y \<Longrightarrow> cp_get p r' x = Some y"
begin

lemma add_event_appends:
  assumes "valid r" "verify_chain p env r (cq_evidence_id q) = Inr True"
    and "add_event p env r n1 n2 i q = Inr (ev, r')"
  shows "cp_list p r' (cq_evidence_id q) = cp_list p r (cq_evidence_id q) @ [sort_dict ev]"
    and "verify_chain p env r' (cq_evidence_id q) = Inr True"
    and "e' \<noteq> cq_evidence_id q \<Longrightarrow> cp_list p r' e' = cp_list p r e'"
    and "valid r'"
    and "distinct (List.map fst ev) \<and> no_float (PDict ev)"
proof -
  let ?ds = "cp_list p r (cq_evidence_id q)"
  from assms(3) obtain c prev rv where
      head: "chain_head ?ds = Inr (prev, rv)" and ev: "ledger_event env q i c prev rv ev"
    and save: "cp_save p r ev = Inr r'"
    by (rule add_event_cases)
  have ver: "verify_loop (ce_sha256 env) None 1 ?ds = Inr True"
    using assms(2) by (simp add: verify_chain_def)
  from chain_head_verified [OF ver] head
  have prev: "prev = link_after None ?ds" and rv: "rv = int (length ?ds) + 1" by auto
  from ev obtain h where d: "distinct (List.map fst ev)"
    and eid: "dget ev ''evidence_id'' = Some (PStr (cq_evidence_id q))"
    and step: "verify_step (ce_sha256 env) prev rv ev = Inr (Some h)"
    unfolding ledger_event_def by blast
  have rev_ev: "dget ev ''immutable_revision'' = Some (PInt rv)"
    using step unfolding verify_step_Some by blast
  have "\<forall>x \<in> set ?ds. \<exists>m. dget x ''immutable_revision'' = Some (PInt m) \<and> m < rv"
    using verified_revisions [OF ver] rv by fastforce
  from save_list [OF assms(1) save eid rev_ev this]
  show list: "cp_list p r' (cq_evidence_id q) = ?ds @ [sort_dict ev]" .
  have "verify_step (ce_sha256 env) (link_after None ?ds) (1 + int (length ?ds)) (sort_dict ev) =
      Inr (Some h)"
    using verify_step_sorted [OF d step] prev rv by (simp add: add.commute)
  with ver show "verify_chain p env r' (cq_evidence_id q) = Inr True"
    unfolding verify_chain_def list verify_loop_append by blast
  show "valid r'" by (rule save_valid [OF assms(1) d save])
  show "distinct (List.map fst ev) \<and> no_float (PDict ev)"
    using ev unfolding ledger_event_def by blast
  show "e' \<noteq> cq_evidence_id q \<Longrightarrow> cp_list p r' e' = cp_list p r e'"
    by (rule save_other [OF assms(1) save eid])
qed

lemma add_event_verified:
  assumes "valid r" "\<forall>e. verify_chain p env r e = Inr True"
    and "add_event p env r n1 n2 i q = Inr (ev, r')"
  shows "verify_chain p env r' e = Inr True"
proof (cases "e = cq_evidence_id q")
  case True
  then show ?thesis using add_event_appends(2) [OF assms(1) _ assms(3)] assms(2) by blast
next
  case False
  with add_event_appends(3) [OF assms(1) _ assms(3)] assms(2) show ?thesis
    by (simp add: verify_chain_def)
qed

lemma event_violations_stable:
  assumes "cp_save p r d = Inr r'" "event_violations p r e c x = Inr []"
  shows "event_violations p r' e c x = Inr []"
proof (cases "dget x ''correction_of_event_id''")
  case (Some v)
  show ?thesis
  proof (cases v)
    case (PStr ref)
    with Some assms(2) obtain t where t: "cp_get p r ref = Some t"
      by (auto simp: event_violations_def split: option.splits)
    with get_stable [OF assms(1) t] Some PStr assms(2) show ?thesis
      by (simp add: event_violations_def)
  qed (use Some assms(2) in \<open>auto simp: event_violations_def\<close>)
qed (use assms(2) in \<open>simp add: event_violations_def\<close>)

lemma check_correction_no_violation:
  assumes "check_correction p r c q = Inr ()" "cp_save p r d = Inr r'"
    and "dget x ''correction_of_event_id'' = Some (opt_str (cq_correction_of_event_id q))"
  shows "event_violations p r' (cq_evidence_id q) c x = Inr []"
proof (cases "cq_correction_of_event_id q")
  case (Some ref)
  with assms(1) obtain t where t: "cp_get p r ref = Some t"
      "dget t ''evidence_id'' = Some (PStr (cq_evidence_id q))" "dget t ''case_id'' = Some (PStr c)"
    by (auto simp: check_correction_def split: if_splits option.splits)
  with get_stable [OF assms(2) t(1)] Some assms(3) show ?thesis
    by (simp add: event_violations_def)
qed (use assms(3) in \<open>simp add: event_violations_def\<close>)

lemma violations_empty_iff:
  "find_semantic_violations p r e = Inr [] \<longleftrightarrow>
     (\<forall>c. cp_evidence_case p r e = Some c \<longrightarrow>
        (\<forall>x \<in> set (cp_list p r e). event_violations p r e c x = Inr []))"
proof -
  have "(\<exists>vs. traverse f xs = Inr vs \<and> (\<forall>v \<in> set vs. v = [])) \<longleftrightarrow> (\<forall>x \<in> set xs. f x = Inr [])"
    for f :: "dict \<Rightarrow> (string \<times> string) list list res" and xs
    by (induction xs) auto
  then show ?thesis by (auto simp: find_semantic_violations_def split: option.splits)
qed

lemma add_event_no_violations:
  assumes "valid r" "\<forall>e. verify_chain p env r e = Inr True"
    and "\<forall>e. find_semantic_violations p r e = Inr []"
    and "add_event p env r n1 n2 i q = Inr (ev, r')"
  shows "find_semantic_violations p r' e = Inr []"
  unfolding violations_empty_iff
proof (intro allI impI ballI)
  fix c x
  assume c: "cp_evidence_case p r' e = Some c" and x: "x \<in> set (cp_list p r' e)"
  from assms(4) obtain c0 prev rv where
      c0: "cp_evidence_case p r (cq_evidence_id q) = Some c0"
    and chk: "check_correction p r c0 q = Inr ()"
    and ev: "ledger_event env q i c0 prev rv ev" and save: "cp_save p r ev = Inr r'"
    by (rule add_event_cases)
  have cr: "cp_evidence_case p r e = Some c" using c save_evidence [OF save] by simp
  have old: "event_violations p r' e c y = Inr []" if "y \<in> set (cp_list p r e)" for y
    using assms(3) cr that by (intro event_violations_stable [OF save]) (auto simp: violations_empty_iff)
  note app = add_event_appends [OF assms(1) _ assms(4)]
  show "event_violations p r' e c x = Inr []"
  proof (cases "e = cq_evidence_id q")
    case False
    with x app(3) assms(2) old show ?thesis by auto
  next
    case True
    with x app(1) assms(2) consider "x \<in> set (cp_list p r e)" | "x = sort_dict ev" by auto
    then show ?thesis
    proof cases
      case 2
      from ev have "dget ev ''correction_of_event_id'' = Some (opt_str (cq_correction_of_event_id q))"
        "distinct (List.map fst ev)" unfolding ledger_event_def by blast+
      then have "dget x ''correction_of_event_id'' = Some (opt_str (cq_correction_of_event_id q))"
        unfolding 2 by (simp add: dget_sort_dict del: map_of_eq_Some_iff)
      from check_correction_no_violation [OF chk save this] True c0 cr show ?thesis by simp
    qed (rule old)
  qed
qed

end

subsection \<open>The SQLite tables keep the contract\<close>

definition custody_db_valid :: "custody_db \<Rightarrow> bool" where
  "custody_db_valid db \<longleftrightarrow> (\<forall>w \<in> set (db_events db).
     dget (cw_json w) ''immutable_revision'' = Some (PInt (cw_revision w)))"

lemma insort_key_append_last:
  "f x \<le> f (y :: 'b) \<Longrightarrow> insort_key f x (xs @ [y]) = insort_key f x xs @ [y]"
  for f :: "'b \<Rightarrow> int"
  by (induction xs) auto

lemma sort_key_append_last:
  "(\<forall>x \<in> set xs. f x < f y) \<Longrightarrow> sort_key f (xs @ [y]) = sort_key f xs @ [y]"
  for f :: "'b \<Rightarrow> int"
  by (induction xs) (auto simp: insort_key_append_last)

lemma sqlite_save_cases:
  assumes "sqlite_save_custody_event db d = Inr db'"
  obtains i e n where "dget d ''event_id'' = Some (PStr i)" "dget d ''evidence_id'' = Some (PStr e)"
    "dget d ''immutable_revision'' = Some (PInt n)"
    "\<forall>w \<in> set (db_events db). cw_event_id w \<noteq> i"
    "db' = db\<lparr>db_events := db_events db @ [\<lparr>cw_event_id = i, cw_evidence_id = e, cw_revision = n,
        cw_json = sort_dict d\<rparr>]\<rparr>"
  using assms by (auto simp: sqlite_save_custody_event_def split: if_splits)

interpretation sqlite_store: custody_store sqlite_custody custody_db_valid
proof
  fix db db' :: custody_db and d :: dict
  assume *: "custody_db_valid db" "distinct (List.map fst d)" "cp_save sqlite_custody db d = Inr db'"
  then have "sqlite_save_custody_event db d = Inr db'" by (simp add: sqlite_custody_def)
  then show "custody_db_valid db'"
    using *(1,2) by (auto simp: custody_db_valid_def dget_sort_dict elim!: sqlite_save_cases
      simp del: map_of_eq_Some_iff)
next
  fix db db' :: custody_db and d :: dict
  assume "cp_save sqlite_custody db d = Inr db'"
  then have "sqlite_save_custody_event db d = Inr db'" by (simp add: sqlite_custody_def)
  then show "cp_evidence_case sqlite_custody db' = cp_evidence_case sqlite_custody db"
    by (auto simp: sqlite_custody_def elim!: sqlite_save_cases)
next
  fix db db' :: custody_db and d :: dict and e n
  assume *: "custody_db_valid db" "cp_save sqlite_custody db d = Inr db'"
    "dget d ''evidence_id'' = Some (PStr e)" "dget d ''immutable_revision'' = Some (PInt n)"
    "\<forall>x \<in> set (cp_list sqlite_custody db e).
       \<exists>m. dget x ''immutable_revision'' = Some (PInt m) \<and> m < n"
  then have "sqlite_save_custody_event db d = Inr db'" by (simp add: sqlite_custody_def)
  then obtain i where db': "db' = db\<lparr>db_events := db_events db @ [\<lparr>cw_event_id = i,
      cw_evidence_id = e, cw_revision = n, cw_json = sort_dict d\<rparr>]\<rparr>"
    using *(3,4) by (auto elim!: sqlite_save_cases)
  let ?ws = "filter (\<lambda>w. cw_evidence_id w = e) (db_events db)"
  have "\<forall>w \<in> set ?ws. cw_revision w < n"
    using *(1,5) by (auto simp: custody_db_valid_def sqlite_custody_def sqlite_list_custody_events_def)
  then show "cp_list sqlite_custody db' e = cp_list sqlite_custody db e @ [sort_dict d]"
    by (simp add: sqlite_custody_def sqlite_list_custody_events_def db' sort_key_append_last)
next
  fix db db' :: custody_db and d :: dict and e e'
  assume *: "cp_save sqlite_custody db d = Inr db'" "dget d ''evidence_id'' = Some (PStr e)" "e' \<noteq> e"
  then have "sqlite_save_custody_event db d = Inr db'" by (simp add: sqlite_custody_def)
  then show "cp_list sqlite_custody db' e' = cp_list sqlite_custody db e'"
    using *(2,3) by (auto simp: sqlite_custody_def sqlite_list_custody_events_def
      elim!: sqlite_save_cases)
next
  fix db db' :: custody_db and d y :: dict and x
  assume *: "cp_save sqlite_custody db d = Inr db'" "cp_get sqlite_custody db x = Some y"
  then have "sqlite_save_custody_event db d = Inr db'" by (simp add: sqlite_custody_def)
  then show "cp_get sqlite_custody db' x = Some y"
    using *(2) by (auto simp: sqlite_custody_def sqlite_get_custody_event_def find_append
      elim!: sqlite_save_cases split: option.splits)
qed

end
