(* ===== verification/Custody_Properties.thy ===== *)
theory Custody_Properties
  imports Custody_Facts
begin

section \<open>Runs of the ledger and tamper evidence\<close>

text \<open>
  \<open>ledger_run\<close> is any sequence of successful appends on the SQLite tables, with arbitrary
  clocks, identifiers and requests.  The properties: every chain of a run verifies and has no
  semantic violation, stored events are never changed, two verified chains that end in the same
  hash are the same chain, and an append with a fresh identifier succeeds.
\<close>

inductive ledger_run :: "custody_env \<Rightarrow> custody_db \<Rightarrow> custody_db \<Rightarrow> bool" for env db where
  run_start: "ledger_run env db db"
| run_append: "ledger_run env db db' \<Longrightarrow>
    add_event sqlite_custody env db' now1 now2 new_id q = Inr (ev, db'') \<Longrightarrow>
    ledger_run env db db''"

inductive_cases ledger_runE: "ledger_run env db db'"

definition ledger_ok :: "custody_env \<Rightarrow> custody_db \<Rightarrow> bool" where
  "ledger_ok env db \<longleftrightarrow> custody_db_valid db \<and>
     (\<forall>e. verify_chain sqlite_custody env db e = Inr True) \<and>
     (\<forall>e. find_semantic_violations sqlite_custody db e = Inr [])"

lemma ledger_ok_step:
  assumes "ledger_ok env db" "add_event sqlite_custody env db n1 n2 i q = Inr (ev, db')"
  shows "ledger_ok env db'"
proof -
  from assms(1) have v: "custody_db_valid db" "\<forall>e. verify_chain sqlite_custody env db e = Inr True"
    "\<forall>e. find_semantic_violations sqlite_custody db e = Inr []"
    unfolding ledger_ok_def by blast+
  have "verify_chain sqlite_custody env db (cq_evidence_id q) = Inr True" using v(2) by blast
  from sqlite_store.add_event_appends(4) [OF v(1) this assms(2)]
    sqlite_store.add_event_verified [OF v(1,2) assms(2)]
    sqlite_store.add_event_no_violations [OF v assms(2)]
  show ?thesis unfolding ledger_ok_def by blast
qed

lemma ledger_ok_run: "ledger_run env db db' \<Longrightarrow> ledger_ok env db \<Longrightarrow> ledger_ok env db'"
  by (induction rule: ledger_run.induct) (auto intro: ledger_ok_step)

lemma ledger_ok_empty: "db_events db = [] \<Longrightarrow> ledger_ok env db"
  by (auto simp: ledger_ok_def custody_db_valid_def verify_chain_def sqlite_custody_def
      sqlite_list_custody_events_def find_semantic_violations_def split: option.splits)

subsection \<open>The event renders\<close>

lemma no_bytes_fields [simp]: "no_bytes (str_dict m)"
  by (auto simp: str_dict_def split: option.splits)

lemma event_fields_plain: "no_bytes (PDict (event_fields q i c tz o1 o2 cr rv prev))"
  by (simp add: event_fields_def)

lemma no_bytes_update: "no_bytes (PDict d) \<Longrightarrow> no_bytes v \<Longrightarrow> no_bytes (PDict (dset k v d))"
  by (induction d) auto

subsection \<open>Tamper evidence\<close>

definition event_body :: "dict \<Rightarrow> pyval" where
  "event_body d = sort_json (without_keys (PDict d) [''event_hash''])"

definition event_text :: "dict \<Rightarrow> string res" where
  "event_text d = canonical_json_bytes (PDict d) [''event_hash'']"

lemma map_of_filter_keys: "k \<notin> K \<Longrightarrow> map_of (filter (\<lambda>(x, v). x \<notin> K) d) k = map_of d k"
  by (induction d) auto

lemma distinct_filter_keys:
  "distinct (List.map fst d) \<Longrightarrow> distinct (List.map fst (filter P d))"
  by (induction d) auto

lemma event_body_previous:
  assumes "distinct (List.map fst d)" "dget d ''previous_event_hash'' = Some (opt_str prev)"
    and "distinct (List.map fst e)" "dget e ''previous_event_hash'' = Some (opt_str prev')"
    and "event_body d = event_body e"
  shows "prev = prev'"
proof -
  have get: "\<exists>b. event_body x = PDict b \<and> dget b ''previous_event_hash'' = Some (opt_str p)"
    if "distinct (List.map fst x)" "dget x ''previous_event_hash'' = Some (opt_str p)" for x p
  proof -
    let ?f = "filter (\<lambda>(k, v). k \<notin> set [''event_hash'']) x"
    let ?b = "sort_key fst (map_values sort_json (map_values (\<lambda>v. without_keys v [''event_hash'']) ?f))"
    have "event_body x = PDict ?b"
      unfolding event_body_def without_keys_dict sort_json_dict ..
    moreover have "distinct (List.map fst ?f)" using that(1) by (rule distinct_filter_keys)
    then have "dget ?b ''previous_event_hash'' = Some (opt_str p)"
      using that(2) map_of_filter_keys [of "''previous_event_hash''" "set [''event_hash'']" x]
      by (cases p) (simp_all add: map_of_sort_key map_of_map_values del: map_of_eq_Some_iff)
    ultimately show ?thesis by blast
  qed
  from get [OF assms(1,2)] get [OF assms(3,4)] assms(5) have "opt_str prev = opt_str prev'" by auto
  then show ?thesis by (cases prev; cases prev') auto
qed

lemma verified_hash_text:
  assumes "verify_step sha prev n d = Inr (Some h)"
  obtains s where "event_text d = Inr s" "h = sha s"
  using assms by (auto simp: verify_step_Some canonical_sha256_def event_text_def)

lemma same_hash_same_body:
  assumes "verify_step sha p1 n d = Inr (Some h)" "verify_step sha p2 n e = Inr (Some h)"
    and "inj_on sha {s. event_text d = Inr s \<or> event_text e = Inr s}"
    and "no_float (PDict d)" "no_float (PDict e)"
  shows "event_body d = event_body e"
proof -
  obtain s t where s: "event_text d = Inr s" "h = sha s" and t: "event_text e = Inr t" "h = sha t"
    using verified_hash_text assms(1,2) by metis
  with assms(3) have "s = t" by (auto dest: inj_onD)
  with s(1) t(1) show ?thesis
    unfolding event_body_def event_text_def
    by (intro canonical_json_bytes_inj [OF _ _ assms(4,5)]) simp_all
qed

lemma chains_agree:
  "verify_loop sha None 1 ds = Inr True \<Longrightarrow> verify_loop sha None 1 es = Inr True \<Longrightarrow>
     length ds = length es \<Longrightarrow> link_after None ds = link_after None es \<Longrightarrow>
     inj_on sha {s. \<exists>d \<in> set ds \<union> set es. event_text d = Inr s} \<Longrightarrow>
     \<forall>d \<in> set ds \<union> set es. no_float (PDict d) \<and> distinct (List.map fst d) \<Longrightarrow>
     List.map event_body ds = List.map event_body es"
proof (induction ds arbitrary: es rule: rev_induct)
  case (snoc d ds)
  then obtain es' e where es: "es = es' @ [e]" by (metis append_butlast_last_id length_0_conv snoc_eq_iff_butlast)
  have len: "length ds = length es'" using snoc.prems(3) es by simp
  obtain h where h: "verify_step sha (link_after None ds) (1 + int (length ds)) d = Inr (Some h)"
    and ds: "verify_loop sha None 1 ds = Inr True"
    using snoc.prems(1) by (auto simp: verify_loop_append)
  obtain h' where h': "verify_step sha (link_after None es') (1 + int (length es')) e = Inr (Some h')"
    and es': "verify_loop sha None 1 es' = Inr True"
    using snoc.prems(2) es by (auto simp: verify_loop_append)
  have "h = h'" using snoc.prems(4) h h' es by (simp add: link_after_def verify_step_Some)
  have sub: "inj_on sha {s. event_text d = Inr s \<or> event_text e = Inr s}"
    by (rule inj_on_subset [OF snoc.prems(5)]) (auto simp: es)
  have body: "event_body d = event_body e"
    using same_hash_same_body [OF h _ sub] h' \<open>h = h'\<close> len snoc.prems(6) es by simp
  have "link_after None ds = link_after None es'"
    using h h' body snoc.prems(6) es
    by (intro event_body_previous [of d _ e]) (auto simp: verify_step_Some)
  moreover have "inj_on sha {s. \<exists>d \<in> set ds \<union> set es'. event_text d = Inr s}"
    by (rule inj_on_subset [OF snoc.prems(5)]) (auto simp: es)
  ultimately have "List.map event_body ds = List.map event_body es'"
    using snoc.IH [OF ds es' len] snoc.prems(6) es by auto
  with body show ?case by (simp add: es)
qed simp

subsection \<open>Histories only grow\<close>

lemma custody_run_extends:
  "ledger_run env db db' \<Longrightarrow> ledger_ok env db \<Longrightarrow>
     \<exists>tail. sqlite_list_custody_events db' e = sqlite_list_custody_events db e @ tail"
proof (induction rule: ledger_run.induct)
  case (run_append db' now1 now2 new_id q ev db'')
  have ok: "custody_db_valid db'" "verify_chain sqlite_custody env db' (cq_evidence_id q) = Inr True"
    using ledger_ok_run [OF run_append.hyps(1) run_append.prems] by (auto simp: ledger_ok_def)
  note app = sqlite_store.add_event_appends [OF ok run_append.hyps(2)]
  have "\<exists>t. sqlite_list_custody_events db'' e = sqlite_list_custody_events db' e @ t"
    using app(1) app(3) [of e] by (cases "e = cq_evidence_id q") (auto simp: sqlite_custody_def)
  with run_append.IH [OF run_append.prems] show ?case by auto
qed simp

subsection \<open>Appends succeed\<close>

lemma sqlite_save_ok:
  assumes "dget d ''event_id'' = Some (PStr i)" "dget d ''case_id'' = Some (PStr c)"
    and "dget d ''evidence_id'' = Some (PStr e)" "dget d ''immutable_revision'' = Some (PInt n)"
    and "dget d ''event_hash'' = Some (PStr h)" "no_bytes (PDict d)"
    and "db_evidence db e \<noteq> None" "db_cases db c \<noteq> None"
    and "\<forall>w \<in> set (db_events db). cw_event_id w \<noteq> i"
    and "\<forall>w \<in> set (db_events db). cw_evidence_id w = e \<longrightarrow> cw_revision w < n"
  shows "\<exists>db'. sqlite_save_custody_event db d = Inr db'"
proof -
  obtain s where s: "json_render '', '' '': '' (sort_json (PDict d)) = Inr s"
    using render_ok [OF no_bytes_sort [OF assms(6)], of "'', ''" "'': ''"] by blast
  have "req_str d ''event_id'' = Inr i" "req_str d ''case_id'' = Inr c"
    "req_str d ''evidence_id'' = Inr e" "req_int d ''immutable_revision'' = Inr n"
    "req_str d ''event_hash'' = Inr h"
    using assms(1-5) by simp_all
  moreover have "\<not> ((\<exists>w \<in> set (db_events db). cw_event_id w = i \<or>
      (cw_evidence_id w = e \<and> cw_revision w = n)) \<or> db_evidence db e = None \<or> db_cases db c = None)"
    using assms(7-10) by auto
  ultimately show ?thesis unfolding sqlite_save_custody_event_def by (simp add: s del: sort_json.simps)
qed

lemma append_ok:
  assumes "custody_db_valid db" "verify_chain sqlite_custody env db (cq_evidence_id q) = Inr True"
    and "db_evidence db (cq_evidence_id q) = Some c" "db_cases db c = Some tz"
    and "check_correction sqlite_custody db c q = Inr ()" "ce_zone env tz = Some display"
    and "cq_occurred_at_utc q = None" "n1 = Aware t1" "n2 = Aware t2"
    and "\<forall>w \<in> set (db_events db). cw_event_id w \<noteq> i"
  shows "\<exists>ev db'. add_event sqlite_custody env db n1 n2 i q = Inr (ev, db')"
proof -
  let ?ds = "sqlite_list_custody_events db (cq_evidence_id q)"
  let ?rv = "int (length ?ds) + 1"
  have ver: "verify_loop (ce_sha256 env) None 1 ?ds = Inr True"
    using assms(2) by (simp add: verify_chain_def sqlite_custody_def)
  let ?f = "event_fields q i c tz (iso_microseconds t1 @ ''Z'') (display n1)
    (iso_microseconds t2 @ ''Z'') ?rv (link_after None ?ds)"
  obtain h where h: "canonical_sha256 (ce_sha256 env) (PDict ?f) [''event_hash''] = Inr h"
    using canonical_ok [OF event_fields_plain] by blast
  let ?ev = "dset ''event_hash'' (PStr h) ?f"
  have "\<forall>w \<in> set (db_events db). cw_evidence_id w = cq_evidence_id q \<longrightarrow> cw_revision w < ?rv"
  proof (intro ballI impI)
    fix w assume w: "w \<in> set (db_events db)" "cw_evidence_id w = cq_evidence_id q"
    then have "cw_json w \<in> set ?ds" by (auto simp: sqlite_list_custody_events_def)
    from verified_revisions [OF ver this] assms(1) w show "cw_revision w < ?rv"
      by (auto simp: custody_db_valid_def)
  qed
  moreover have "no_bytes (PDict ?ev)" by (rule no_bytes_update [OF event_fields_plain]) simp
  ultimately have "\<exists>db'. sqlite_save_custody_event db ?ev = Inr db'"
    using assms(3,4,10)
    by (intro sqlite_save_ok [where i = i and c = c and e = "cq_evidence_id q" and n = ?rv and h = h])
      (simp_all add: update_conv event_fields_get del: no_bytes.simps)
  then obtain db' where "sqlite_save_custody_event db ?ev = Inr db'" by blast
  then show ?thesis
    using assms(3-9) chain_head_verified [OF ver] h
    by (simp add: add_event_def sqlite_custody_def Let_def to_json_timestamp_def)
qed

subsection \<open>A sample ledger\<close>

definition sample_custody_env :: custody_env where
  "sample_custody_env = \<lparr>ce_sha256 = (\<lambda>s. s), ce_zone = (\<lambda>tz. Some (\<lambda>dt. ''2024-01-01''))\<rparr>"

definition sample_custody_db :: custody_db where
  "sample_custody_db = \<lparr>db_evidence = [''E1'' \<mapsto> ''C1''], db_cases = [''C1'' \<mapsto> ''UTC''], db_events = []\<rparr>"

definition sample_custody_request :: custody_request where
  "sample_custody_request =
     \<lparr>cq_evidence_id = ''E1'', cq_event_type = ACQUISITION, cq_actor_name = ''kim'',
      cq_action = ''acquired'', cq_actor_id = None, cq_actor_role = None, cq_organization = None,
      cq_source_location = None, cq_destination_location = None, cq_reason = None,
      cq_occurred_at_utc = None, cq_tool_name = None, cq_tool_version = None,
      cq_previous_hash = None, cq_current_hash = Some [(''algorithm'', ''SHA256'')],
      cq_notes = None, cq_correction_of_event_id = None\<rparr>"

lemma sample_custody_start:
  "custody_db_valid sample_custody_db" "ledger_ok sample_custody_env sample_custody_db"
  "verify_chain sqlite_custody sample_custody_env sample_custody_db e = Inr True"
  "db_events sample_custody_db = []"
  "db_evidence sample_custody_db (cq_evidence_id sample_custody_request) = Some ''C1''"
  "db_cases sample_custody_db ''C1'' = Some ''UTC''"
  "check_correction sqlite_custody sample_custody_db ''C1'' sample_custody_request = Inr ()"
  "cq_occurred_at_utc sample_custody_request = None"
proof -
  show ok: "ledger_ok sample_custody_env sample_custody_db"
    by (rule ledger_ok_empty) (simp add: sample_custody_db_def)
  then show "custody_db_valid sample_custody_db"
    "verify_chain sqlite_custody sample_custody_env sample_custody_db e = Inr True"
    by (auto simp: ledger_ok_def)
qed (simp_all add: sample_custody_db_def sample_custody_request_def check_correction_def)

lemma sample_custody_append:
  obtains ev db' where "add_event sqlite_custody sample_custody_env sample_custody_db (Aware 0)
    (Aware 0) ''e1'' sample_custody_request = Inr (ev, db')"
proof -
  have "\<exists>ev db'. add_event sqlite_custody sample_custody_env sample_custody_db (Aware 0) (Aware 0)
      ''e1'' sample_custody_request = Inr (ev, db')"
    by (rule append_ok [OF sample_custody_start(1,3,5,6,7) _ sample_custody_start(8) refl refl])
      (simp_all add: sample_custody_start(4) sample_custody_env_def)
  then show thesis using that by blast
qed

lemma sample_custody_same:
  assumes "add_event sqlite_custody sample_custody_env sample_custody_db (Aware 0) (Aware 0) ''e1''
    sample_custody_request = Inr (ev, db)"
  shows "db_evidence db (cq_evidence_id sample_custody_request) = Some ''C1''" "db_cases db ''C1'' = Some ''UTC''"
    "\<forall>w \<in> set (db_events db). cw_event_id w \<noteq> ''e2''"
proof -
  from assms obtain c prev rv where ev: "ledger_event sample_custody_env sample_custody_request ''e1'' c prev rv ev"
    and "cp_save sqlite_custody sample_custody_db ev = Inr db" by (rule add_event_cases)
  then have "sqlite_save_custody_event sample_custody_db ev = Inr db" by (simp add: sqlite_custody_def)
  then obtain i e n where i: "dget ev ''event_id'' = Some (PStr i)" and db: "db = sample_custody_db\<lparr>db_events :=
      db_events sample_custody_db @ [\<lparr>cw_event_id = i, cw_evidence_id = e, cw_revision = n, cw_json = sort_dict ev\<rparr>]\<rparr>"
    by (rule sqlite_save_cases)
  have "i = ''e1''" using i ev by (auto simp: ledger_event_def)
  with db show "db_evidence db (cq_evidence_id sample_custody_request) = Some ''C1''" "db_cases db ''C1'' = Some ''UTC''"
    "\<forall>w \<in> set (db_events db). cw_event_id w \<noteq> ''e2''"
    using sample_custody_start(4-6) by simp_all
qed

subsection \<open>Properties\<close>

text \<open>Appending to a chain that verifies adds exactly the new event at its end, and the chain
  verifies again.\<close>

lemma custody_append_verified:
  assumes "custody_db_valid db" "verify_chain sqlite_custody env db (cq_evidence_id q) = Inr True"
    and "add_event sqlite_custody env db n1 n2 i q = Inr (ev, db')"
  shows "sqlite_list_custody_events db' (cq_evidence_id q) =
      sqlite_list_custody_events db (cq_evidence_id q) @ [sort_dict ev] \<and>
    verify_chain sqlite_custody env db' (cq_evidence_id q) = Inr True"
  using sqlite_store.add_event_appends(1,2) [OF assms] by (simp add: sqlite_custody_def)

text \<open>C1: after any run of appends from empty tables, every chain verifies and has no semantic
  violation.\<close>

theorem custody_run_sound:
  assumes "db_events db = []" "ledger_run env db db'"
  shows "verify_chain sqlite_custody env db' e = Inr True \<and>
    find_semantic_violations sqlite_custody db' e = Inr []"
  using ledger_ok_run [OF assms(2) ledger_ok_empty [OF assms(1)]] unfolding ledger_ok_def by blast

lemma custody_run_sound_witness:
  "\<exists>db'. db' \<noteq> sample_custody_db \<and> ledger_run sample_custody_env sample_custody_db db' \<and>
     verify_chain sqlite_custody sample_custody_env db' ''E1'' = Inr True"
proof -
  obtain ev db' where a: "add_event sqlite_custody sample_custody_env sample_custody_db (Aware 0)
    (Aware 0) ''e1'' sample_custody_request = Inr (ev, db')" by (rule sample_custody_append)
  have run: "ledger_run sample_custody_env sample_custody_db db'"
    by (rule run_append [OF run_start a])
  from sqlite_store.add_event_appends(1) [OF sample_custody_start(1,3) a]
  have "cp_list sqlite_custody db' ''E1'' \<noteq> cp_list sqlite_custody sample_custody_db ''E1''"
    by (simp add: sample_custody_request_def)
  then have "db' \<noteq> sample_custody_db" by auto
  with run custody_run_sound [OF sample_custody_start(4) run, of "''E1''"] show ?thesis by blast
qed

text \<open>C8: from a valid ledger whose chains verify, no run changes, removes or reorders an event that is
  already stored.\<close>

theorem custody_history_kept:
  assumes "ledger_ok env db" "ledger_run env db db'"
  shows "\<exists>tail. sqlite_list_custody_events db' e = sqlite_list_custody_events db e @ tail"
  by (rule custody_run_extends [OF assms(2,1)])

lemma custody_history_kept_witness:
  "\<exists>db db'. sqlite_list_custody_events db ''E1'' \<noteq> [] \<and>
     sqlite_list_custody_events db' ''E1'' \<noteq> sqlite_list_custody_events db ''E1'' \<and>
     (\<exists>tail. sqlite_list_custody_events db' ''E1'' = sqlite_list_custody_events db ''E1'' @ tail)"
proof -
  obtain ev db where a: "add_event sqlite_custody sample_custody_env sample_custody_db (Aware 0)
    (Aware 0) ''e1'' sample_custody_request = Inr (ev, db)" by (rule sample_custody_append)
  have first: "sqlite_list_custody_events db ''E1'' = [sort_dict ev]"
    using sqlite_store.add_event_appends(1) [OF sample_custody_start(1,3) a]
    by (simp add: sample_custody_request_def sqlite_custody_def sample_custody_db_def sqlite_list_custody_events_def)
  have ok: "ledger_ok sample_custody_env db"
    by (rule ledger_ok_run [OF run_append [OF run_start a] sample_custody_start(2)])
  then have valid: "custody_db_valid db" "\<And>e. verify_chain sqlite_custody sample_custody_env db e = Inr True"
    by (auto simp: ledger_ok_def)
  note tables = sample_custody_same [OF a]
  have "\<exists>ev' db'. add_event sqlite_custody sample_custody_env db (Aware 0) (Aware 0) ''e2''
      sample_custody_request = Inr (ev', db')"
    by (rule append_ok [OF valid(1) valid(2) tables(1,2) _ _ sample_custody_start(8) refl refl tables(3)])
      (simp_all add: sample_custody_env_def sample_custody_request_def check_correction_def)
  then obtain ev2 db2 where a2: "add_event sqlite_custody sample_custody_env db (Aware 0) (Aware 0)
      ''e2'' sample_custody_request = Inr (ev2, db2)" by blast
  have "sqlite_list_custody_events db2 ''E1'' = sqlite_list_custody_events db ''E1'' @ [sort_dict ev2]"
    using sqlite_store.add_event_appends(1) [OF valid a2] by (simp add: sample_custody_request_def sqlite_custody_def)
  then show ?thesis
    using first custody_history_kept [OF ok run_append [OF run_start a2], of "''E1''"]
    by (intro exI [of _ db] exI [of _ db2]) simp
qed

text \<open>C2: tamper evidence.  Two stored chains of events without floats and with distinct keys that both
  verify, have the same length and end in the same event hash hold the same events, apart from the
  order of keys and the hash field, unless SHA-256 collides on two of their canonical texts.\<close>

theorem custody_tamper_evident:
  assumes "verify_chain sqlite_custody env db e = Inr True"
    and "verify_chain sqlite_custody env db' e' = Inr True"
    and "length (sqlite_list_custody_events db e) = length (sqlite_list_custody_events db' e')"
    and "link_after None (sqlite_list_custody_events db e) =
      link_after None (sqlite_list_custody_events db' e')"
    and "inj_on (ce_sha256 env) {s. \<exists>d \<in> set (sqlite_list_custody_events db e) \<union>
      set (sqlite_list_custody_events db' e'). event_text d = Inr s}"
    and "\<forall>d \<in> set (sqlite_list_custody_events db e) \<union> set (sqlite_list_custody_events db' e').
      no_float (PDict d) \<and> distinct (List.map fst d)"
  shows "List.map event_body (sqlite_list_custody_events db e) =
    List.map event_body (sqlite_list_custody_events db' e')"
  using assms unfolding verify_chain_def sqlite_custody_def
  by (intro chains_agree [where sha = "ce_sha256 env"]) simp_all

lemma custody_tamper_evident_witness:
  "\<exists>db. sqlite_list_custody_events db ''E1'' \<noteq> [] \<and>
     List.map event_body (sqlite_list_custody_events db ''E1'') =
     List.map event_body (sqlite_list_custody_events db ''E1'')"
proof -
  obtain ev db where a: "add_event sqlite_custody sample_custody_env sample_custody_db (Aware 0)
    (Aware 0) ''e1'' sample_custody_request = Inr (ev, db)" by (rule sample_custody_append)
  note app = sqlite_store.add_event_appends [OF sample_custody_start(1,3) a]
  have v: "verify_chain sqlite_custody sample_custody_env db ''E1'' = Inr True"
    using app(2) by (simp add: sample_custody_request_def)
  have l: "sqlite_list_custody_events db ''E1'' = [sort_dict ev]"
    using app(1) by (simp add: sample_custody_request_def sqlite_custody_def sample_custody_db_def
        sqlite_list_custody_events_def)
  have "no_float (PDict (sort_dict ev))" "distinct (List.map fst (sort_dict ev))"
    using app(5) no_float_sort [of "PDict ev"] distinct_sort_dict
    by (auto simp: sort_dict_json simp del: sort_json.simps no_float.simps)
  then have "List.map event_body (sqlite_list_custody_events db ''E1'') =
      List.map event_body (sqlite_list_custody_events db ''E1'')"
    by (intro custody_tamper_evident [OF v v refl refl])
      (simp_all add: l sample_custody_env_def del: no_float.simps)
  with l show ?thesis by (intro exI [of _ db]) simp
qed

text \<open>An appended event refers to a corrected event exactly when it is a CORRECTION, and then
  the target exists under the same evidence and case.\<close>

lemma custody_correction_guard:
  assumes "add_event sqlite_custody env db n1 n2 i q = Inr (ev, db')"
  shows "(cq_correction_of_event_id q \<noteq> None) = (cq_event_type q = CORRECTION) \<and>
    (cq_event_type q = CORRECTION \<longrightarrow> (\<exists>t target. cq_correction_of_event_id q = Some t \<and>
       sqlite_get_custody_event db t = Some target \<and>
       dget target ''evidence_id'' = Some (PStr (cq_evidence_id q)) \<and>
       dget target ''case_id'' = dget ev ''case_id''))"
proof -
  from assms obtain c prev rv where "check_correction sqlite_custody db c q = Inr ()"
    "ledger_event env q i c prev rv ev" by (rule add_event_cases)
  then show ?thesis
    by (auto simp: check_correction_def ledger_event_def sqlite_custody_def
        split: if_splits option.splits)
qed

text \<open>An append whose evidence and case are registered, whose correction guard passes, whose
  time zone exists and whose identifier is fresh succeeds.\<close>

lemma custody_append_succeeds:
  assumes "custody_db_valid db" "verify_chain sqlite_custody env db (cq_evidence_id q) = Inr True"
    and "db_evidence db (cq_evidence_id q) = Some c" "db_cases db c = Some tz"
    and "check_correction sqlite_custody db c q = Inr ()" "ce_zone env tz = Some display"
    and "cq_occurred_at_utc q = None" "n1 = Aware t1" "n2 = Aware t2"
    and "\<forall>w \<in> set (db_events db). cw_event_id w \<noteq> i"
  shows "\<exists>ev db'. add_event sqlite_custody env db n1 n2 i q = Inr (ev, db')"
  by (rule append_ok [OF assms])

end
