(* ===== verification/Enums.thy ===== *)
theory Enums
  imports Errors
begin

section \<open>String enums\<close>

text \<open>
  The \<open>StrEnum\<close> classes of \<open>domain/enums/__init__.py\<close> that AI governance uses, each as a
  datatype with its value function and its members in declaration order.  \<open>enum_of\<close> is the call
  of the class on a string, \<open>None\<close> for its \<open>ValueError\<close>.  The locale \<open>str_enum\<close> is what
  a client of such a class relies on: every member is listed once and the values differ.
\<close>

definition enum_of :: "'a list \<Rightarrow> ('a \<Rightarrow> string) \<Rightarrow> string \<Rightarrow> 'a option" where
  "enum_of members value s = find (\<lambda>x. value x = s) members"

locale str_enum =
  fixes members :: "'a list" and val :: "'a \<Rightarrow> string"
  assumes listed: "x \<in> set members"
    and distinct_values: "distinct (List.map val members)"
begin

lemma val_inj: "val x = val y \<longleftrightarrow> x = y"
  using distinct_values listed [of x] listed [of y] by (auto simp: distinct_map dest: inj_onD)

lemma of_val: "enum_of members val (val x) = Some x"
proof -
  have "find (\<lambda>y. val y = val x) members \<noteq> None" using listed [of x] by (auto simp: find_None_iff)
  then obtain y where y: "find (\<lambda>y. val y = val x) members = Some y" by blast
  then have "val y = val x" by (auto simp: find_Some_iff)
  with y show ?thesis by (simp add: enum_of_def val_inj)
qed

lemma of_Some: "enum_of members val s = Some x \<longleftrightarrow> s = val x"
proof
  assume "enum_of members val s = Some x"
  then show "s = val x" by (auto simp: enum_of_def find_Some_iff)
qed (simp add: of_val)

lemma traverse_of_val:
  "traverse (\<lambda>s. case enum_of members val s of None \<Rightarrow> Inl e | Some x \<Rightarrow> Inr x) (List.map val xs) = Inr xs"
  by (induction xs) (simp_all add: of_val)

end

datatype data_classification =
    PUBLIC | INTERNAL | SENSITIVE | SECRET

fun data_classification_value :: "data_classification \<Rightarrow> string" where
  "data_classification_value data_classification.PUBLIC = ''PUBLIC''"
| "data_classification_value data_classification.INTERNAL = ''INTERNAL''"
| "data_classification_value data_classification.SENSITIVE = ''SENSITIVE''"
| "data_classification_value data_classification.SECRET = ''SECRET''"

definition data_classification_members :: "data_classification list" where
  "data_classification_members =
     [data_classification.PUBLIC, data_classification.INTERNAL,
      data_classification.SENSITIVE, data_classification.SECRET]"

interpretation data_classification_enum: str_enum data_classification_members data_classification_value
proof
  show "x \<in> set data_classification_members" for x by (cases x) (simp_all add: data_classification_members_def)
qed (simp add: data_classification_members_def)

datatype ai_destination_category =
    LOCAL | EXTERNAL

fun ai_destination_category_value :: "ai_destination_category \<Rightarrow> string" where
  "ai_destination_category_value ai_destination_category.LOCAL = ''LOCAL''"
| "ai_destination_category_value ai_destination_category.EXTERNAL = ''EXTERNAL''"

definition ai_destination_category_members :: "ai_destination_category list" where
  "ai_destination_category_members =
     [ai_destination_category.LOCAL, ai_destination_category.EXTERNAL]"

interpretation ai_destination_category_enum: str_enum ai_destination_category_members ai_destination_category_value
proof
  show "x \<in> set ai_destination_category_members" for x by (cases x) (simp_all add: ai_destination_category_members_def)
qed (simp add: ai_destination_category_members_def)

datatype ai_secret_handling =
    DENY | REDACT | ALLOW

fun ai_secret_handling_value :: "ai_secret_handling \<Rightarrow> string" where
  "ai_secret_handling_value ai_secret_handling.DENY = ''DENY''"
| "ai_secret_handling_value ai_secret_handling.REDACT = ''REDACT''"
| "ai_secret_handling_value ai_secret_handling.ALLOW = ''ALLOW''"

definition ai_secret_handling_members :: "ai_secret_handling list" where
  "ai_secret_handling_members =
     [ai_secret_handling.DENY, ai_secret_handling.REDACT, ai_secret_handling.ALLOW]"

interpretation ai_secret_handling_enum: str_enum ai_secret_handling_members ai_secret_handling_value
proof
  show "x \<in> set ai_secret_handling_members" for x by (cases x) (simp_all add: ai_secret_handling_members_def)
qed (simp add: ai_secret_handling_members_def)

datatype ai_data_form =
    RAW | STRUCTURED | REDACTED | SAFE_PROJECTION

fun ai_data_form_value :: "ai_data_form \<Rightarrow> string" where
  "ai_data_form_value ai_data_form.RAW = ''RAW''"
| "ai_data_form_value ai_data_form.STRUCTURED = ''STRUCTURED''"
| "ai_data_form_value ai_data_form.REDACTED = ''REDACTED''"
| "ai_data_form_value ai_data_form.SAFE_PROJECTION = ''SAFE_PROJECTION''"

definition ai_data_form_members :: "ai_data_form list" where
  "ai_data_form_members =
     [ai_data_form.RAW, ai_data_form.STRUCTURED, ai_data_form.REDACTED,
      ai_data_form.SAFE_PROJECTION]"

interpretation ai_data_form_enum: str_enum ai_data_form_members ai_data_form_value
proof
  show "x \<in> set ai_data_form_members" for x by (cases x) (simp_all add: ai_data_form_members_def)
qed (simp add: ai_data_form_members_def)

datatype ai_data_source_type =
    ARTIFACT | CONTEXT_SNAPSHOT | AI_ASSISTANCE_REQUEST

fun ai_data_source_type_value :: "ai_data_source_type \<Rightarrow> string" where
  "ai_data_source_type_value ai_data_source_type.ARTIFACT = ''ARTIFACT''"
| "ai_data_source_type_value ai_data_source_type.CONTEXT_SNAPSHOT = ''CONTEXT_SNAPSHOT''"
| "ai_data_source_type_value ai_data_source_type.AI_ASSISTANCE_REQUEST = ''AI_ASSISTANCE_REQUEST''"

definition ai_data_source_type_members :: "ai_data_source_type list" where
  "ai_data_source_type_members =
     [ai_data_source_type.ARTIFACT, ai_data_source_type.CONTEXT_SNAPSHOT,
      ai_data_source_type.AI_ASSISTANCE_REQUEST]"

interpretation ai_data_source_type_enum: str_enum ai_data_source_type_members ai_data_source_type_value
proof
  show "x \<in> set ai_data_source_type_members" for x by (cases x) (simp_all add: ai_data_source_type_members_def)
qed (simp add: ai_data_source_type_members_def)

datatype ai_egress_decision =
    ALLOW | DENY | ALLOW_WITH_REDACTION | ALLOW_PROJECTION_ONLY

fun ai_egress_decision_value :: "ai_egress_decision \<Rightarrow> string" where
  "ai_egress_decision_value ai_egress_decision.ALLOW = ''ALLOW''"
| "ai_egress_decision_value ai_egress_decision.DENY = ''DENY''"
| "ai_egress_decision_value ai_egress_decision.ALLOW_WITH_REDACTION = ''ALLOW_WITH_REDACTION''"
| "ai_egress_decision_value ai_egress_decision.ALLOW_PROJECTION_ONLY = ''ALLOW_PROJECTION_ONLY''"

definition ai_egress_decision_members :: "ai_egress_decision list" where
  "ai_egress_decision_members =
     [ai_egress_decision.ALLOW, ai_egress_decision.DENY,
      ai_egress_decision.ALLOW_WITH_REDACTION, ai_egress_decision.ALLOW_PROJECTION_ONLY]"

interpretation ai_egress_decision_enum: str_enum ai_egress_decision_members ai_egress_decision_value
proof
  show "x \<in> set ai_egress_decision_members" for x by (cases x) (simp_all add: ai_egress_decision_members_def)
qed (simp add: ai_egress_decision_members_def)

datatype ai_egress_reason =
    POLICY_MISSING | CASE_MISMATCH | AI_DISABLED | LOCAL_ONLY | EXTERNAL_DENIED
  | CLASSIFICATION_DENIED | SECRET_DENIED | REDACTION_INCOMPLETE | RAW_DENIED
  | PROJECTION_REQUIRED | REDACTION_REQUIRED | POLICY_SATISFIED

fun ai_egress_reason_value :: "ai_egress_reason \<Rightarrow> string" where
  "ai_egress_reason_value ai_egress_reason.POLICY_MISSING = ''POLICY_MISSING''"
| "ai_egress_reason_value ai_egress_reason.CASE_MISMATCH = ''CASE_MISMATCH''"
| "ai_egress_reason_value ai_egress_reason.AI_DISABLED = ''AI_DISABLED''"
| "ai_egress_reason_value ai_egress_reason.LOCAL_ONLY = ''LOCAL_ONLY''"
| "ai_egress_reason_value ai_egress_reason.EXTERNAL_DENIED = ''EXTERNAL_DENIED''"
| "ai_egress_reason_value ai_egress_reason.CLASSIFICATION_DENIED = ''CLASSIFICATION_DENIED''"
| "ai_egress_reason_value ai_egress_reason.SECRET_DENIED = ''SECRET_DENIED''"
| "ai_egress_reason_value ai_egress_reason.REDACTION_INCOMPLETE = ''REDACTION_INCOMPLETE''"
| "ai_egress_reason_value ai_egress_reason.RAW_DENIED = ''RAW_DENIED''"
| "ai_egress_reason_value ai_egress_reason.PROJECTION_REQUIRED = ''PROJECTION_REQUIRED''"
| "ai_egress_reason_value ai_egress_reason.REDACTION_REQUIRED = ''REDACTION_REQUIRED''"
| "ai_egress_reason_value ai_egress_reason.POLICY_SATISFIED = ''POLICY_SATISFIED''"

definition ai_egress_reason_members :: "ai_egress_reason list" where
  "ai_egress_reason_members =
     [ai_egress_reason.POLICY_MISSING, ai_egress_reason.CASE_MISMATCH,
      ai_egress_reason.AI_DISABLED, ai_egress_reason.LOCAL_ONLY,
      ai_egress_reason.EXTERNAL_DENIED, ai_egress_reason.CLASSIFICATION_DENIED,
      ai_egress_reason.SECRET_DENIED, ai_egress_reason.REDACTION_INCOMPLETE,
      ai_egress_reason.RAW_DENIED, ai_egress_reason.PROJECTION_REQUIRED,
      ai_egress_reason.REDACTION_REQUIRED, ai_egress_reason.POLICY_SATISFIED]"

interpretation ai_egress_reason_enum: str_enum ai_egress_reason_members ai_egress_reason_value
proof
  show "x \<in> set ai_egress_reason_members" for x by (cases x) (simp_all add: ai_egress_reason_members_def)
qed (simp add: ai_egress_reason_members_def)

datatype artifact_type =
    REGISTRY_KEY | REGISTRY_VALUE | REGISTRY_AUTORUN | REGISTRY_USB_DEVICE
  | REGISTRY_TIMEZONE | REGISTRY_USERASSIST | EVENT_LOG_RECORD | PREFETCH_EXECUTION
  | MEDIA_IMAGE | MEDIA_VIDEO | MEDIA_AUDIO | BROWSER_PROFILE | BROWSER_VISIT
  | BROWSER_SEARCH | BROWSER_DOWNLOAD | BROWSER_COOKIE | BROWSER_CREDENTIAL
  | BROWSER_CACHE_ENTRY | BROWSER_DELETED_SQLITE_ROW | BROWSER_PRIVATE_MODE_CANDIDATE
  | COMMUNICATION_PROFILE | COMMUNICATION_ACCOUNT | COMMUNICATION_CONVERSATION
  | COMMUNICATION_MESSAGE | COMMUNICATION_ATTACHMENT | COMMUNICATION_UNSUPPORTED_STORE
  | UNKNOWN_WINDOWS_ARTIFACT

fun artifact_type_value :: "artifact_type \<Rightarrow> string" where
  "artifact_type_value artifact_type.REGISTRY_KEY = ''REGISTRY_KEY''"
| "artifact_type_value artifact_type.REGISTRY_VALUE = ''REGISTRY_VALUE''"
| "artifact_type_value artifact_type.REGISTRY_AUTORUN = ''REGISTRY_AUTORUN''"
| "artifact_type_value artifact_type.REGISTRY_USB_DEVICE = ''REGISTRY_USB_DEVICE''"
| "artifact_type_value artifact_type.REGISTRY_TIMEZONE = ''REGISTRY_TIMEZONE''"
| "artifact_type_value artifact_type.REGISTRY_USERASSIST = ''REGISTRY_USERASSIST''"
| "artifact_type_value artifact_type.EVENT_LOG_RECORD = ''EVENT_LOG_RECORD''"
| "artifact_type_value artifact_type.PREFETCH_EXECUTION = ''PREFETCH_EXECUTION''"
| "artifact_type_value artifact_type.MEDIA_IMAGE = ''MEDIA_IMAGE''"
| "artifact_type_value artifact_type.MEDIA_VIDEO = ''MEDIA_VIDEO''"
| "artifact_type_value artifact_type.MEDIA_AUDIO = ''MEDIA_AUDIO''"
| "artifact_type_value artifact_type.BROWSER_PROFILE = ''BROWSER_PROFILE''"
| "artifact_type_value artifact_type.BROWSER_VISIT = ''BROWSER_VISIT''"
| "artifact_type_value artifact_type.BROWSER_SEARCH = ''BROWSER_SEARCH''"
| "artifact_type_value artifact_type.BROWSER_DOWNLOAD = ''BROWSER_DOWNLOAD''"
| "artifact_type_value artifact_type.BROWSER_COOKIE = ''BROWSER_COOKIE''"
| "artifact_type_value artifact_type.BROWSER_CREDENTIAL = ''BROWSER_CREDENTIAL''"
| "artifact_type_value artifact_type.BROWSER_CACHE_ENTRY = ''BROWSER_CACHE_ENTRY''"
| "artifact_type_value artifact_type.BROWSER_DELETED_SQLITE_ROW = ''BROWSER_DELETED_SQLITE_ROW''"
| "artifact_type_value artifact_type.BROWSER_PRIVATE_MODE_CANDIDATE = ''BROWSER_PRIVATE_MODE_CANDIDATE''"
| "artifact_type_value artifact_type.COMMUNICATION_PROFILE = ''COMMUNICATION_PROFILE''"
| "artifact_type_value artifact_type.COMMUNICATION_ACCOUNT = ''COMMUNICATION_ACCOUNT''"
| "artifact_type_value artifact_type.COMMUNICATION_CONVERSATION = ''COMMUNICATION_CONVERSATION''"
| "artifact_type_value artifact_type.COMMUNICATION_MESSAGE = ''COMMUNICATION_MESSAGE''"
| "artifact_type_value artifact_type.COMMUNICATION_ATTACHMENT = ''COMMUNICATION_ATTACHMENT''"
| "artifact_type_value artifact_type.COMMUNICATION_UNSUPPORTED_STORE = ''COMMUNICATION_UNSUPPORTED_STORE''"
| "artifact_type_value artifact_type.UNKNOWN_WINDOWS_ARTIFACT = ''UNKNOWN_WINDOWS_ARTIFACT''"

definition artifact_type_members :: "artifact_type list" where
  "artifact_type_members =
     [artifact_type.REGISTRY_KEY, artifact_type.REGISTRY_VALUE,
      artifact_type.REGISTRY_AUTORUN, artifact_type.REGISTRY_USB_DEVICE,
      artifact_type.REGISTRY_TIMEZONE, artifact_type.REGISTRY_USERASSIST,
      artifact_type.EVENT_LOG_RECORD, artifact_type.PREFETCH_EXECUTION,
      artifact_type.MEDIA_IMAGE, artifact_type.MEDIA_VIDEO, artifact_type.MEDIA_AUDIO,
      artifact_type.BROWSER_PROFILE, artifact_type.BROWSER_VISIT,
      artifact_type.BROWSER_SEARCH, artifact_type.BROWSER_DOWNLOAD,
      artifact_type.BROWSER_COOKIE, artifact_type.BROWSER_CREDENTIAL,
      artifact_type.BROWSER_CACHE_ENTRY, artifact_type.BROWSER_DELETED_SQLITE_ROW,
      artifact_type.BROWSER_PRIVATE_MODE_CANDIDATE, artifact_type.COMMUNICATION_PROFILE,
      artifact_type.COMMUNICATION_ACCOUNT, artifact_type.COMMUNICATION_CONVERSATION,
      artifact_type.COMMUNICATION_MESSAGE, artifact_type.COMMUNICATION_ATTACHMENT,
      artifact_type.COMMUNICATION_UNSUPPORTED_STORE, artifact_type.UNKNOWN_WINDOWS_ARTIFACT]"

interpretation artifact_type_enum: str_enum artifact_type_members artifact_type_value
proof
  show "x \<in> set artifact_type_members" for x by (cases x) (simp_all add: artifact_type_members_def)
qed (simp add: artifact_type_members_def)

datatype artifact_parse_status =
    SUCCESS | PARTIAL | UNSUPPORTED | CORRUPT | FAILED

fun artifact_parse_status_value :: "artifact_parse_status \<Rightarrow> string" where
  "artifact_parse_status_value artifact_parse_status.SUCCESS = ''SUCCESS''"
| "artifact_parse_status_value artifact_parse_status.PARTIAL = ''PARTIAL''"
| "artifact_parse_status_value artifact_parse_status.UNSUPPORTED = ''UNSUPPORTED''"
| "artifact_parse_status_value artifact_parse_status.CORRUPT = ''CORRUPT''"
| "artifact_parse_status_value artifact_parse_status.FAILED = ''FAILED''"

definition artifact_parse_status_members :: "artifact_parse_status list" where
  "artifact_parse_status_members =
     [artifact_parse_status.SUCCESS, artifact_parse_status.PARTIAL,
      artifact_parse_status.UNSUPPORTED, artifact_parse_status.CORRUPT,
      artifact_parse_status.FAILED]"

interpretation artifact_parse_status_enum: str_enum artifact_parse_status_members artifact_parse_status_value
proof
  show "x \<in> set artifact_parse_status_members" for x by (cases x) (simp_all add: artifact_parse_status_members_def)
qed (simp add: artifact_parse_status_members_def)

datatype ai_assistance_purpose =
    KEYWORD_RECOMMENDATION | SCOPE_SUMMARY | REPORT_INPUT | INVESTIGATION_ASSISTANCE | OTHER

fun ai_assistance_purpose_value :: "ai_assistance_purpose \<Rightarrow> string" where
  "ai_assistance_purpose_value ai_assistance_purpose.KEYWORD_RECOMMENDATION = ''KEYWORD_RECOMMENDATION''"
| "ai_assistance_purpose_value ai_assistance_purpose.SCOPE_SUMMARY = ''SCOPE_SUMMARY''"
| "ai_assistance_purpose_value ai_assistance_purpose.REPORT_INPUT = ''REPORT_INPUT''"
| "ai_assistance_purpose_value ai_assistance_purpose.INVESTIGATION_ASSISTANCE = ''INVESTIGATION_ASSISTANCE''"
| "ai_assistance_purpose_value ai_assistance_purpose.OTHER = ''OTHER''"

definition ai_assistance_purpose_members :: "ai_assistance_purpose list" where
  "ai_assistance_purpose_members =
     [ai_assistance_purpose.KEYWORD_RECOMMENDATION, ai_assistance_purpose.SCOPE_SUMMARY,
      ai_assistance_purpose.REPORT_INPUT, ai_assistance_purpose.INVESTIGATION_ASSISTANCE,
      ai_assistance_purpose.OTHER]"

interpretation ai_assistance_purpose_enum: str_enum ai_assistance_purpose_members ai_assistance_purpose_value
proof
  show "x \<in> set ai_assistance_purpose_members" for x by (cases x) (simp_all add: ai_assistance_purpose_members_def)
qed (simp add: ai_assistance_purpose_members_def)

subsection \<open>Classifications are ordered\<close>

text \<open>The declaration order is the order of sensitivity.\<close>

fun classification_rank :: "data_classification \<Rightarrow> nat" where
  "classification_rank data_classification.PUBLIC = 0"
| "classification_rank data_classification.INTERNAL = 1"
| "classification_rank data_classification.SENSITIVE = 2"
| "classification_rank data_classification.SECRET = 3"

lemma classification_rank_inj: "classification_rank a = classification_rank b \<longleftrightarrow> a = b"
  by (cases a; cases b) auto

instantiation data_classification :: linorder
begin

definition less_eq_data_classification :: "data_classification \<Rightarrow> data_classification \<Rightarrow> bool" where
  "less_eq_data_classification a b \<longleftrightarrow> classification_rank a \<le> classification_rank b"

definition less_data_classification :: "data_classification \<Rightarrow> data_classification \<Rightarrow> bool" where
  "less_data_classification a b \<longleftrightarrow> classification_rank a < classification_rank b"

instance
  by standard (auto simp: less_eq_data_classification_def less_data_classification_def
      classification_rank_inj)

end

lemma SECRET_top [simp]: "c \<le> data_classification.SECRET"
  by (cases c) (simp_all add: less_eq_data_classification_def)

end
