(* ===== verification/Governance.thy ===== *)
theory Governance
  imports Enums Canonical
begin

section \<open>AI data governance: policies, egress metadata and decisions\<close>

text \<open>
  The contracts of \<open>domain/models/ai_governance.py\<close> and the evaluation of
  \<open>domain/services/ai_egress.py\<close>.  A frozen dataclass is a record with the function that its
  constructor and \<open>__post_init__\<close> are; the checks that only reject a wrong Python type hold by
  typing.  SHA-256 is an argument.
\<close>

abbreviation invalid :: "string \<Rightarrow> string \<Rightarrow> exn" where
  "invalid msg target \<equiv> validation_error msg (Some target)"

abbreviation invalid_contract :: "string \<Rightarrow> exn" where
  "invalid_contract msg \<equiv> validation_error msg None"

subsection \<open>Scalar checks\<close>

definition hex_digit_lower :: "char \<Rightarrow> bool" where
  "hex_digit_lower c \<longleftrightarrow> (let n = of_char c :: nat in (48 \<le> n \<and> n \<le> 57) \<or> (97 \<le> n \<and> n \<le> 102))"

text \<open>\<open>str(UUID(value)) == value.lower()\<close>: 8-4-4-4-12 hexadecimal digits of either case.\<close>

definition is_uuid :: "string \<Rightarrow> bool" where
  "is_uuid s \<longleftrightarrow> length s = 36 \<and>
     (\<forall>i < 36. if i \<in> {8, 13, 18, 23} then s ! i = CHR ''-'' else hex_digit_lower (lower_char (s ! i)))"

definition check_uuid :: "string \<Rightarrow> string \<Rightarrow> unit res" where
  "check_uuid v target =
     (if is_uuid v then Inr () else Inl (invalid ''Expected a UUID identifier.'' target))"

definition is_digest :: "string \<Rightarrow> bool" where
  "is_digest s \<longleftrightarrow> length s = 64 \<and> list_all hex_digit_lower s"

definition check_digest :: "string \<Rightarrow> string \<Rightarrow> unit res" where
  "check_digest v target =
     (if is_digest v then Inr () else Inl (invalid ''Expected a SHA-256 fingerprint.'' target))"

definition check_positive :: "int \<Rightarrow> string \<Rightarrow> unit res" where
  "check_positive n target =
     (if n < 1 then Inl (invalid ''Expected a positive integer.'' target) else Inr ())"

definition check_keys :: "dict \<Rightarrow> string list \<Rightarrow> unit res" where
  "check_keys data expected =
     (if fst ` set data = set expected then Inr ()
      else Inl (invalid_contract ''Contract fields are missing or unsupported.''))"

subsection \<open>Case policies\<close>

record case_ai_policy =
  cap_policy_id :: string
  cap_case_id :: string
  cap_revision :: int
  cap_created_at :: datetime
  cap_ai_enabled :: bool
  cap_external_allowed :: bool
  cap_local_only :: bool
  cap_allowed_classifications :: "data_classification list"
  cap_secret_handling :: ai_secret_handling
  cap_raw_allowed :: bool
  cap_redaction_required :: bool
  cap_projection_required :: bool

definition is_aware :: "datetime \<Rightarrow> bool" where
  "is_aware t \<longleftrightarrow> (case t of Aware _ \<Rightarrow> True | Naive _ \<Rightarrow> False)"

definition make_case_ai_policy :: "case_ai_policy \<Rightarrow> case_ai_policy res" where
  "make_case_ai_policy p =
     bind_res (check_uuid (cap_policy_id p) ''policy_id'') (\<lambda>_.
     bind_res (check_uuid (cap_case_id p) ''case_id'') (\<lambda>_.
     bind_res (check_positive (cap_revision p) ''revision'') (\<lambda>_.
     if \<not> is_aware (cap_created_at p) then
       Inl (invalid ''Policy time must have a timezone.'' ''created_at'')
     else if \<not> distinct (cap_allowed_classifications p) then
       Inl (invalid ''Duplicate classification.'' ''allowed_classifications'')
     else Inr (p\<lparr>cap_allowed_classifications :=
       filter (\<lambda>c. c \<in> set (cap_allowed_classifications p)) data_classification_members\<rparr>))))"

definition policy_schema_dict :: "case_ai_policy \<Rightarrow> dict res" where
  "policy_schema_dict p =
     bind_res (to_json_timestamp (cap_created_at p)) (\<lambda>created. Inr
       [(''schema_version'', PStr ''1.0.0''), (''policy_id'', PStr (cap_policy_id p)),
        (''case_id'', PStr (cap_case_id p)), (''revision'', PInt (cap_revision p)),
        (''created_at'', PStr created), (''ai_enabled'', PBool (cap_ai_enabled p)),
        (''external_allowed'', PBool (cap_external_allowed p)),
        (''local_only'', PBool (cap_local_only p)),
        (''allowed_classifications'', PList (List.map (\<lambda>c. PStr (data_classification_value c))
           (cap_allowed_classifications p))),
        (''secret_handling'', PStr (ai_secret_handling_value (cap_secret_handling p))),
        (''raw_allowed'', PBool (cap_raw_allowed p)),
        (''redaction_required'', PBool (cap_redaction_required p)),
        (''projection_required'', PBool (cap_projection_required p))])"

definition policy_fingerprint :: "(string \<Rightarrow> string) \<Rightarrow> case_ai_policy \<Rightarrow> string res" where
  "policy_fingerprint sha p =
     bind_res (policy_schema_dict p) (\<lambda>d. canonical_sha256 sha (PDict d) [])"

subsection \<open>References and egress metadata\<close>

record ai_data_reference =
  adr_case_id :: string
  adr_source_id :: string
  adr_source_type :: ai_data_source_type
  adr_source_fingerprint :: string

definition make_ai_data_reference :: "ai_data_reference \<Rightarrow> ai_data_reference res" where
  "make_ai_data_reference r =
     bind_res (check_uuid (adr_case_id r) ''case_id'') (\<lambda>_.
     bind_res (check_uuid (adr_source_id r) ''source_id'') (\<lambda>_.
     bind_res (check_digest (adr_source_fingerprint r) ''source_fingerprint'') (\<lambda>_. Inr r)))"

definition reference_schema_dict :: "ai_data_reference \<Rightarrow> dict" where
  "reference_schema_dict r =
     [(''case_id'', PStr (adr_case_id r)), (''source_id'', PStr (adr_source_id r)),
      (''source_type'', PStr (ai_data_source_type_value (adr_source_type r))),
      (''source_fingerprint'', PStr (adr_source_fingerprint r))]"

text \<open>Reading fields back: a value of another type fails the check that the constructor makes.\<close>

definition field_str :: "dict \<Rightarrow> string \<Rightarrow> exn \<Rightarrow> string res" where
  "field_str d k e = (case dget d k of Some (PStr s) \<Rightarrow> Inr s | _ \<Rightarrow> Inl e)"

definition field_bool :: "dict \<Rightarrow> string \<Rightarrow> bool res" where
  "field_bool d k =
     (case dget d k of Some (PBool b) \<Rightarrow> Inr b | _ \<Rightarrow> Inl (invalid ''Expected a boolean.'' k))"

definition field_enum :: "'a list \<Rightarrow> ('a \<Rightarrow> string) \<Rightarrow> dict \<Rightarrow> string \<Rightarrow> exn \<Rightarrow> 'a res" where
  "field_enum members val d k e =
     (case dget d k of
        Some (PStr s) \<Rightarrow> (case enum_of members val s of None \<Rightarrow> Inl e | Some x \<Rightarrow> Inr x)
      | _ \<Rightarrow> Inl e)"

definition field_enum_list :: "'a list \<Rightarrow> ('a \<Rightarrow> string) \<Rightarrow> dict \<Rightarrow> string \<Rightarrow> exn \<Rightarrow> 'a list res" where
  "field_enum_list members val d k e =
     (case dget d k of
        Some (PList vs) \<Rightarrow> traverse (\<lambda>v. case v of
            PStr s \<Rightarrow> (case enum_of members val s of None \<Rightarrow> Inl e | Some x \<Rightarrow> Inr x)
          | _ \<Rightarrow> Inl e) vs
      | _ \<Rightarrow> Inl e)"

definition field_dict :: "dict \<Rightarrow> string \<Rightarrow> exn \<Rightarrow> dict res" where
  "field_dict d k e = (case dget d k of Some (PDict x) \<Rightarrow> Inr x | _ \<Rightarrow> Inl e)"

definition field_opt_str :: "dict \<Rightarrow> string \<Rightarrow> exn \<Rightarrow> string option res" where
  "field_opt_str d k e = (case dget d k of
     Some PNone \<Rightarrow> Inr None | Some (PStr s) \<Rightarrow> Inr (Some s) | _ \<Rightarrow> Inl e)"

definition field_opt_int :: "dict \<Rightarrow> string \<Rightarrow> exn \<Rightarrow> int option res" where
  "field_opt_int d k e = (case dget d k of
     Some PNone \<Rightarrow> Inr None | Some (PInt n) \<Rightarrow> Inr (Some n) | _ \<Rightarrow> Inl e)"

definition reference_from_schema :: "dict \<Rightarrow> ai_data_reference res" where
  "reference_from_schema d =
     bind_res (check_keys d [''case_id'', ''source_id'', ''source_type'', ''source_fingerprint'']) (\<lambda>_.
     bind_res (field_enum ai_data_source_type_members ai_data_source_type_value d ''source_type''
       (invalid_contract ''Invalid AI data reference.'')) (\<lambda>t.
     bind_res (field_str d ''case_id'' (invalid ''Expected a UUID identifier.'' ''case_id'')) (\<lambda>c.
     bind_res (field_str d ''source_id'' (invalid ''Expected a UUID identifier.'' ''source_id'')) (\<lambda>s.
     bind_res (field_str d ''source_fingerprint''
       (invalid ''Expected a SHA-256 fingerprint.'' ''source_fingerprint'')) (\<lambda>f.
     make_ai_data_reference \<lparr>adr_case_id = c, adr_source_id = s, adr_source_type = t,
       adr_source_fingerprint = f\<rparr>)))))"

record ai_egress_data =
  aed_source :: ai_data_reference
  aed_classification :: data_classification
  aed_contains_secrets :: bool
  aed_data_form :: ai_data_form
  aed_content_fingerprint :: "string option"

definition make_ai_egress_data :: "ai_egress_data \<Rightarrow> ai_egress_data res" where
  "make_ai_egress_data d =
     (let d' = (if aed_contains_secrets d
        then d\<lparr>aed_classification := data_classification.SECRET\<rparr> else d) in
      bind_res (case aed_content_fingerprint d of None \<Rightarrow> Inr ()
        | Some f \<Rightarrow> check_digest f ''content_fingerprint'') (\<lambda>_.
      if aed_data_form d \<noteq> ai_data_form.RAW \<and> aed_content_fingerprint d = None then
        Inl (invalid_contract ''Derived representations require a content fingerprint.'')
      else Inr d'))"

definition redaction_applied :: "ai_egress_data \<Rightarrow> bool" where
  "redaction_applied d \<longleftrightarrow>
     aed_data_form d \<in> {ai_data_form.REDACTED, ai_data_form.SAFE_PROJECTION}"

definition projection_applied :: "ai_egress_data \<Rightarrow> bool" where
  "projection_applied d \<longleftrightarrow> aed_data_form d = ai_data_form.SAFE_PROJECTION"

definition egress_data_schema_dict :: "ai_egress_data \<Rightarrow> dict" where
  "egress_data_schema_dict d =
     [(''source'', PDict (reference_schema_dict (aed_source d))),
      (''classification'', PStr (data_classification_value (aed_classification d))),
      (''contains_secrets'', PBool (aed_contains_secrets d)),
      (''data_form'', PStr (ai_data_form_value (aed_data_form d))),
      (''content_fingerprint'', opt_str (aed_content_fingerprint d))]"

definition egress_data_from_schema :: "dict \<Rightarrow> ai_egress_data res" where
  "egress_data_from_schema d =
     (let e = invalid_contract ''Invalid egress data contract.'' in
      bind_res (check_keys d [''source'', ''classification'', ''contains_secrets'', ''data_form'',
        ''content_fingerprint'']) (\<lambda>_.
      bind_res (field_dict d ''source'' e) (\<lambda>sd.
      bind_res (reference_from_schema sd) (\<lambda>src.
      bind_res (field_enum data_classification_members data_classification_value d
        ''classification'' e) (\<lambda>c.
      bind_res (field_enum ai_data_form_members ai_data_form_value d ''data_form'' e) (\<lambda>f.
      bind_res (field_bool d ''contains_secrets'') (\<lambda>s.
      bind_res (field_opt_str d ''content_fingerprint''
        (invalid ''Expected a SHA-256 fingerprint.'' ''content_fingerprint'')) (\<lambda>cf.
      make_ai_egress_data \<lparr>aed_source = src, aed_classification = c, aed_contains_secrets = s,
        aed_data_form = f, aed_content_fingerprint = cf\<rparr>))))))))"

subsection \<open>Decisions\<close>

record ai_egress_result =
  aer_data :: ai_egress_data
  aer_destination :: ai_destination_category
  aer_decision :: ai_egress_decision
  aer_reason_codes :: "ai_egress_reason list"
  aer_required_transformations :: "ai_data_form list"
  aer_policy_id :: "string option"
  aer_policy_revision :: "int option"
  aer_policy_fingerprint :: "string option"

fun expected_transformations :: "ai_egress_decision \<Rightarrow> ai_data_form list" where
  "expected_transformations ai_egress_decision.ALLOW = []"
| "expected_transformations ai_egress_decision.DENY = []"
| "expected_transformations ai_egress_decision.ALLOW_WITH_REDACTION = [ai_data_form.REDACTED]"
| "expected_transformations ai_egress_decision.ALLOW_PROJECTION_ONLY =
     [ai_data_form.SAFE_PROJECTION]"

definition make_ai_egress_result :: "ai_egress_result \<Rightarrow> ai_egress_result res" where
  "make_ai_egress_result r =
     (if aer_reason_codes r = [] then
        Inl (invalid_contract ''Decision requires immutable reason codes.'')
      else if \<exists>f \<in> set (aer_required_transformations r).
                f \<notin> {ai_data_form.REDACTED, ai_data_form.SAFE_PROJECTION} then
        Inl (invalid_contract ''Unsupported required transformation.'')
      else if aer_required_transformations r \<noteq> expected_transformations (aer_decision r) then
        Inl (invalid_contract ''Decision and required transformations disagree.'')
      else if \<not> distinct (aer_reason_codes r) then
        Inl (invalid_contract ''Duplicate egress reason codes.'')
      else if aer_decision r = ai_egress_decision.ALLOW \<and>
              aer_reason_codes r \<noteq> [ai_egress_reason.POLICY_SATISFIED] then
        Inl (invalid_contract ''An allow decision must satisfy the policy.'')
      else (case aer_policy_id r of
          None \<Rightarrow>
            if aer_decision r \<noteq> ai_egress_decision.DENY then
              Inl (invalid_contract ''A missing policy must deny egress.'')
            else if aer_policy_revision r \<noteq> None \<or> aer_policy_fingerprint r \<noteq> None then
              Inl (invalid_contract ''Incomplete policy reference.'')
            else Inr r
        | Some pid \<Rightarrow>
            bind_res (check_uuid pid ''policy_id'') (\<lambda>_.
            bind_res (case aer_policy_revision r of
                None \<Rightarrow> Inl (invalid ''Expected a positive integer.'' ''policy_revision'')
              | Some n \<Rightarrow> check_positive n ''policy_revision'') (\<lambda>_.
            bind_res (case aer_policy_fingerprint r of
                None \<Rightarrow> Inl (invalid ''Expected a SHA-256 fingerprint.'' ''policy_fingerprint'')
              | Some f \<Rightarrow> check_digest f ''policy_fingerprint'') (\<lambda>_. Inr r)))))"

definition reason_words :: "ai_egress_reason \<Rightarrow> string" where
  "reason_words r =
     (let s = List.map (\<lambda>c. if c = CHR ''_'' then CHR '' '' else c) (ai_egress_reason_value r) in
      (case s of [] \<Rightarrow> [] | c # cs \<Rightarrow> upper_char c # lower cs))"

definition result_reason :: "ai_egress_result \<Rightarrow> string" where
  "result_reason r = join_str ''; '' (List.map reason_words (aer_reason_codes r))"

definition result_schema_dict :: "ai_egress_result \<Rightarrow> dict" where
  "result_schema_dict r =
     [(''schema_version'', PStr ''1.0.0''), (''data'', PDict (egress_data_schema_dict (aer_data r))),
      (''destination'', PStr (ai_destination_category_value (aer_destination r))),
      (''decision'', PStr (ai_egress_decision_value (aer_decision r))),
      (''reason'', PStr (result_reason r)),
      (''reason_codes'', PList (List.map (\<lambda>x. PStr (ai_egress_reason_value x)) (aer_reason_codes r))),
      (''required_transformations'', PList (List.map (\<lambda>x. PStr (ai_data_form_value x))
         (aer_required_transformations r))),
      (''policy_id'', opt_str (aer_policy_id r)),
      (''policy_revision'', opt_int (aer_policy_revision r)),
      (''policy_fingerprint'', opt_str (aer_policy_fingerprint r))]"

definition result_from_schema :: "dict \<Rightarrow> ai_egress_result res" where
  "result_from_schema d =
     (let e = invalid_contract ''Invalid egress decision contract.'' in
      bind_res (check_keys d [''schema_version'', ''data'', ''destination'', ''decision'', ''reason'',
        ''reason_codes'', ''required_transformations'', ''policy_id'', ''policy_revision'',
        ''policy_fingerprint'']) (\<lambda>_.
      if dget d ''schema_version'' \<noteq> Some (PStr ''1.0.0'') then
        Inl (invalid_contract ''Unsupported governance schema version.'')
      else
      bind_res (field_dict d ''data'' e) (\<lambda>dd.
      bind_res (egress_data_from_schema dd) (\<lambda>data.
      bind_res (field_enum ai_destination_category_members ai_destination_category_value d
        ''destination'' e) (\<lambda>dest.
      bind_res (field_enum ai_egress_decision_members ai_egress_decision_value d
        ''decision'' e) (\<lambda>dec.
      bind_res (field_enum_list ai_egress_reason_members ai_egress_reason_value d
        ''reason_codes'' e) (\<lambda>codes.
      bind_res (field_enum_list ai_data_form_members ai_data_form_value d
        ''required_transformations'' e) (\<lambda>forms.
      bind_res (field_opt_str d ''policy_id'' (invalid ''Expected a UUID identifier.'' ''policy_id'')) (\<lambda>pid.
      bind_res (field_opt_int d ''policy_revision''
        (invalid ''Expected a positive integer.'' ''policy_revision'')) (\<lambda>prev.
      bind_res (field_opt_str d ''policy_fingerprint''
        (invalid ''Expected a SHA-256 fingerprint.'' ''policy_fingerprint'')) (\<lambda>pf.
      bind_res (make_ai_egress_result \<lparr>aer_data = data, aer_destination = dest, aer_decision = dec,
        aer_reason_codes = codes, aer_required_transformations = forms, aer_policy_id = pid,
        aer_policy_revision = prev, aer_policy_fingerprint = pf\<rparr>) (\<lambda>r.
      if dget d ''reason'' \<noteq> Some (PStr (result_reason r)) then
        Inl (invalid_contract ''Decision reason does not match its codes.'')
      else Inr r))))))))))))"

subsection \<open>Evaluation\<close>

definition egress_denied ::
  "case_ai_policy \<Rightarrow> ai_egress_data \<Rightarrow> ai_destination_category \<Rightarrow> ai_egress_reason list" where
  "egress_denied p d dest =
     (if cap_case_id p \<noteq> adr_case_id (aed_source d) then [ai_egress_reason.CASE_MISMATCH] else []) @
     (if \<not> cap_ai_enabled p then [ai_egress_reason.AI_DISABLED] else []) @
     (if dest = ai_destination_category.EXTERNAL then
        (if cap_local_only p then [ai_egress_reason.LOCAL_ONLY] else []) @
        (if \<not> cap_external_allowed p then [ai_egress_reason.EXTERNAL_DENIED] else [])
      else []) @
     (if aed_classification d \<notin> set (cap_allowed_classifications p)
      then [ai_egress_reason.CLASSIFICATION_DENIED] else []) @
     (if aed_contains_secrets d then
        (if cap_secret_handling p = ai_secret_handling.DENY
         then [ai_egress_reason.SECRET_DENIED] else []) @
        (if redaction_applied d then [ai_egress_reason.REDACTION_INCOMPLETE] else [])
      else [])"

definition needs_projection :: "case_ai_policy \<Rightarrow> ai_egress_data \<Rightarrow> bool" where
  "needs_projection p d \<longleftrightarrow> cap_projection_required p \<and> \<not> projection_applied d"

definition raw_refused :: "case_ai_policy \<Rightarrow> ai_egress_data \<Rightarrow> bool" where
  "raw_refused p d \<longleftrightarrow> aed_data_form d = ai_data_form.RAW \<and> \<not> cap_raw_allowed p"

definition needs_redaction :: "case_ai_policy \<Rightarrow> ai_egress_data \<Rightarrow> bool" where
  "needs_redaction p d \<longleftrightarrow> \<not> redaction_applied d \<and>
     (cap_redaction_required p \<or>
      (aed_contains_secrets d \<and> cap_secret_handling p = ai_secret_handling.REDACT))"

definition evaluate_ai_egress :: "(string \<Rightarrow> string) \<Rightarrow> case_ai_policy option \<Rightarrow> ai_egress_data \<Rightarrow>
    ai_destination_category \<Rightarrow> ai_egress_result res" where
  "evaluate_ai_egress sha policy d dest =
     (let (denied, required, transformations) =
        (case policy of
           None \<Rightarrow> ([ai_egress_reason.POLICY_MISSING], [], [])
         | Some p \<Rightarrow>
             (let t1 = (if needs_projection p d then [ai_data_form.SAFE_PROJECTION] else []);
                  den = egress_denied p d dest @
                    (if raw_refused p d \<and> t1 = [] then [ai_egress_reason.RAW_DENIED] else []);
                  req = (if needs_projection p d then [ai_egress_reason.PROJECTION_REQUIRED] else []) @
                    (if raw_refused p d \<and> t1 \<noteq> [] then [ai_egress_reason.RAW_DENIED] else []) @
                    (if needs_redaction p d then [ai_egress_reason.REDACTION_REQUIRED] else []);
                  t2 = (if needs_redaction p d \<and> t1 = [] then [ai_data_form.REDACTED] else t1)
              in (den, req, t2)));
          (decision, reasons, forms) =
            (if denied \<noteq> [] then (ai_egress_decision.DENY, denied, [])
             else if ai_data_form.SAFE_PROJECTION \<in> set transformations then
               (ai_egress_decision.ALLOW_PROJECTION_ONLY, required, transformations)
             else if transformations \<noteq> [] then
               (ai_egress_decision.ALLOW_WITH_REDACTION, required, transformations)
             else (ai_egress_decision.ALLOW, [ai_egress_reason.POLICY_SATISFIED], transformations))
      in bind_res (case policy of None \<Rightarrow> Inr None
           | Some p \<Rightarrow> map_res Some (policy_fingerprint sha p)) (\<lambda>fp.
         make_ai_egress_result
           \<lparr>aer_data = d, aer_destination = dest, aer_decision = decision,
            aer_reason_codes = reasons, aer_required_transformations = forms,
            aer_policy_id = map_option cap_policy_id policy,
            aer_policy_revision = map_option cap_revision policy,
            aer_policy_fingerprint = fp\<rparr>))"

end
