(* ===== verification/Projection.thy ===== *)
theory Projection
  imports Governance
begin

section \<open>Redaction and safe projections\<close>

text \<open>
  The field-name redactor of \<open>domain/models/secret.py\<close>, the projection contract of
  \<open>domain/models/ai_governance.py\<close> and \<open>domain/services/ai_projection.py\<close>.  A projection source
  is the record \<open>ai_source\<close>: its kind and identifiers, the document its \<open>to_schema_dict\<close>
  gives, and the attributes the projection reads besides it.  Case folding acts on ASCII.
\<close>

subsection \<open>Redaction by field name\<close>

definition sensitive_field_names :: "string list" where
  "sensitive_field_names =
     [''api_key'', ''apikey'', ''authorization'', ''cookie'', ''db_iv_hex'',
      ''db_key_hex'', ''key'', ''masterkey_hex'', ''nt_hash_hex'', ''password'',
      ''plaintext'', ''plaintext_b64'', ''pragma_key'', ''secret'', ''token'',
      ''user_nonce'']"

definition safe_indicator_field_names :: "string list" where
  "safe_indicator_field_names =
     [''key_material_status'', ''password_plaintext_emitted'', ''password_value_present'',
      ''primary_password_emitted'', ''primary_password_required'',
      ''primary_password_supplied'', ''raw_key_material_emitted'',
      ''secret_fields_emitted'', ''secret_value_emitted'', ''secret_values_emitted'']"

definition sensitive_key_markers :: "string list" where
  "sensitive_key_markers =
     [''api_key'', ''apikey'', ''authorization'', ''cookie_value'', ''key_material'',
      ''key_value'', ''password'', ''private_key'', ''raw_key'', ''secret_material'',
      ''secret_value'', ''token'']"

definition is_sensitive_field_name :: "string \<Rightarrow> bool" where
  "is_sensitive_field_name lowered \<longleftrightarrow>
     (if lowered \<in> set safe_indicator_field_names then False
      else lowered \<in> set sensitive_field_names \<or>
        list_ex (\<lambda>marker. is_infix marker lowered) sensitive_key_markers)"

definition redacted_marker :: pyval where
  "redacted_marker = PStr ''<redacted>''"

fun redact_value :: "pyval \<Rightarrow> pyval" where
  "redact_value (PDict d) = PDict (List.map (\<lambda>(k, v).
     (k, if is_sensitive_field_name (lower k) then redacted_marker else redact_value v)) d)"
| "redact_value (PList xs) = PList (List.map redact_value xs)"
| "redact_value v = v"

definition redact_secret_fields :: "dict \<Rightarrow> dict" where
  "redact_secret_fields d = List.map (\<lambda>(k, v).
     (k, if is_sensitive_field_name (lower k) then redacted_marker else redact_value v)) d"

subsection \<open>The projection contract\<close>

fun projection_fields :: "ai_data_source_type \<Rightarrow> string list" where
  "projection_fields ai_data_source_type.ARTIFACT =
     [''artifact_type'', ''parse_status'', ''confidence'', ''is_partial'']"
| "projection_fields ai_data_source_type.CONTEXT_SNAPSHOT =
     [''search_index_revision'', ''timeline_revision'', ''is_partial'', ''is_stale'',
      ''resource_count'']"
| "projection_fields ai_data_source_type.AI_ASSISTANCE_REQUEST =
     [''purpose'', ''is_partial'', ''is_stale'', ''resource_count'', ''max_keyword_candidates'',
      ''max_summary_length'']"

definition enum_text :: "'a list \<Rightarrow> ('a \<Rightarrow> string) \<Rightarrow> pyval \<Rightarrow> bool" where
  "enum_text members val v = (case v of PStr s \<Rightarrow> enum_of members val s \<noteq> None | _ \<Rightarrow> False)"

definition enum_field :: "string \<Rightarrow> (pyval \<Rightarrow> bool) option" where
  "enum_field n =
     (if n = ''artifact_type'' then Some (enum_text artifact_type_members artifact_type_value)
      else if n = ''parse_status'' then
        Some (enum_text artifact_parse_status_members artifact_parse_status_value)
      else if n = ''purpose'' then
        Some (enum_text ai_assistance_purpose_members ai_assistance_purpose_value)
      else None)"

definition is_confidence :: "pyval \<Rightarrow> bool" where
  "is_confidence v = (case v of
     PInt n \<Rightarrow> 0 \<le> n \<and> n \<le> 1
   | PFloat f \<Rightarrow> (case fl_value f of None \<Rightarrow> False | Some q \<Rightarrow> 0 \<le> q \<and> q \<le> 1)
   | _ \<Rightarrow> False)"

definition is_count :: "pyval \<Rightarrow> bool" where
  "is_count v = (case v of PInt n \<Rightarrow> 0 \<le> n \<and> n \<le> 2 ^ 63 - 1 | _ \<Rightarrow> False)"

definition is_bool :: "pyval \<Rightarrow> bool" where
  "is_bool v = (case v of PBool _ \<Rightarrow> True | _ \<Rightarrow> False)"

definition check_projection_field :: "string \<times> pyval \<Rightarrow> unit res" where
  "check_projection_field nv = (case nv of (n, v) \<Rightarrow>
     (case enum_field n of
        Some ok \<Rightarrow> if ok v then Inr () else Inl (invalid ''Invalid structural enum field.'' n)
      | None \<Rightarrow>
          if n \<in> {''is_partial'', ''is_stale''} then
            (if is_bool v then Inr () else Inl (invalid ''Expected a boolean.'' n))
          else if n = ''confidence'' then
            (if is_confidence v then Inr () else Inl (invalid ''Invalid confidence field.'' n))
          else if n \<in> {''timeline_revision'', ''search_index_revision''} \<and> v = PNone then Inr ()
          else if is_count v then Inr ()
          else Inl (invalid ''Invalid numeric projection field.'' n)))"

definition validate_projection_fields ::
  "ai_data_source_type \<Rightarrow> (string \<times> pyval) list \<Rightarrow> unit res" where
  "validate_projection_fields t values =
     (if values = [] then Inl (invalid_contract ''Projection requires immutable field pairs.'')
      else if \<not> distinct (List.map fst values) \<or>
              \<not> fst ` set values \<subseteq> set (projection_fields t) then
        Inl (invalid_contract ''Projection contains duplicate or unsupported fields.'')
      else map_res (\<lambda>_. ()) (traverse check_projection_field values))"

record safe_ai_projection =
  sap_source :: ai_data_reference
  sap_classification :: data_classification
  sap_selected_fields :: "(string \<times> pyval) list"
  sap_projection_version :: string

definition make_safe_ai_projection :: "safe_ai_projection \<Rightarrow> safe_ai_projection res" where
  "make_safe_ai_projection p =
     (if sap_projection_version p \<noteq> ''safe-ai-projection-v1'' then
        Inl (invalid_contract ''Unsupported projection version.'')
      else bind_res (validate_projection_fields (adr_source_type (sap_source p))
             (sap_selected_fields p)) (\<lambda>_.
        Inr (p\<lparr>sap_selected_fields := sort_key fst (sap_selected_fields p)\<rparr>)))"

definition projection_fingerprint :: "(string \<Rightarrow> string) \<Rightarrow> safe_ai_projection \<Rightarrow> string res" where
  "projection_fingerprint sha p = canonical_sha256 sha (PDict
     [(''source'', PDict (reference_schema_dict (sap_source p))),
      (''classification'', PStr (data_classification_value (sap_classification p))),
      (''fields'', PDict (sap_selected_fields p)),
      (''projection_version'', PStr (sap_projection_version p))]) []"

definition projection_egress_data ::
  "(string \<Rightarrow> string) \<Rightarrow> safe_ai_projection \<Rightarrow> ai_egress_data res" where
  "projection_egress_data sha p =
     bind_res (projection_fingerprint sha p) (\<lambda>f.
       make_ai_egress_data \<lparr>aed_source = sap_source p, aed_classification = sap_classification p,
         aed_contains_secrets = False, aed_data_form = ai_data_form.SAFE_PROJECTION,
         aed_content_fingerprint = Some f\<rparr>)"

definition projection_schema_dict :: "(string \<Rightarrow> string) \<Rightarrow> safe_ai_projection \<Rightarrow> dict res" where
  "projection_schema_dict sha p =
     bind_res (projection_fingerprint sha p) (\<lambda>f. Inr
       [(''schema_version'', PStr ''1.0.0''),
        (''source'', PDict (reference_schema_dict (sap_source p))),
        (''classification'', PStr (data_classification_value (sap_classification p))),
        (''fields'', PDict (sap_selected_fields p)),
        (''redaction_applied'', PBool True), (''projection_applied'', PBool True),
        (''content_fingerprint'', PStr f),
        (''projection_version'', PStr (sap_projection_version p))])"

definition projection_from_schema :: "(string \<Rightarrow> string) \<Rightarrow> dict \<Rightarrow> safe_ai_projection res" where
  "projection_from_schema sha d =
     (let e = invalid_contract ''Invalid safe projection contract.'' in
      bind_res (check_keys d [''schema_version'', ''source'', ''classification'', ''fields'',
        ''redaction_applied'', ''projection_applied'', ''content_fingerprint'',
        ''projection_version'']) (\<lambda>_.
      if dget d ''schema_version'' \<noteq> Some (PStr ''1.0.0'') \<or>
         dget d ''redaction_applied'' \<noteq> Some (PBool True) \<or>
         dget d ''projection_applied'' \<noteq> Some (PBool True) then Inl e
      else
      bind_res (field_dict d ''source'' e) (\<lambda>sd.
      bind_res (reference_from_schema sd) (\<lambda>src.
      bind_res (field_enum data_classification_members data_classification_value d
        ''classification'' e) (\<lambda>c.
      bind_res (field_dict d ''fields'' e) (\<lambda>fs.
      bind_res (field_str d ''projection_version''
        (invalid_contract ''Unsupported projection version.'')) (\<lambda>v.
      bind_res (make_safe_ai_projection \<lparr>sap_source = src, sap_classification = c,
        sap_selected_fields = fs, sap_projection_version = v\<rparr>) (\<lambda>p.
      bind_res (projection_fingerprint sha p) (\<lambda>f.
      if dget d ''content_fingerprint'' \<noteq> Some (PStr f) then
        Inl (invalid_contract ''Projection fingerprint mismatch.'')
      else Inr p)))))))))"

subsection \<open>Building a projection\<close>

record ai_source =
  as_type :: ai_data_source_type
  as_id :: string
  as_case_id :: string
  as_schema :: dict
  as_artifact_type :: artifact_type
  as_partial_state :: dict
  as_stale_state :: dict
  as_resource_ids :: "(string \<times> string list) list"

definition ai_data_reference_of :: "(string \<Rightarrow> string) \<Rightarrow> ai_source \<Rightarrow> ai_data_reference res" where
  "ai_data_reference_of sha s =
     bind_res (canonical_sha256 sha (PDict (as_schema s)) []) (\<lambda>f.
       make_ai_data_reference \<lparr>adr_case_id = as_case_id s, adr_source_id = as_id s,
         adr_source_type = as_type s, adr_source_fingerprint = f\<rparr>)"

definition source_has_secret_fields :: "(string \<Rightarrow> string) \<Rightarrow> ai_source \<Rightarrow> bool res" where
  "source_has_secret_fields sha s =
     (if as_type s = ai_data_source_type.ARTIFACT \<and>
         as_artifact_type s \<in> {artifact_type.BROWSER_COOKIE, artifact_type.BROWSER_CREDENTIAL}
      then Inr True
      else bind_res (canonical_sha256 sha (PDict (as_schema s)) []) (\<lambda>a.
        bind_res (canonical_sha256 sha (PDict (redact_secret_fields (as_schema s))) []) (\<lambda>b.
          Inr (a \<noteq> b))))"

definition projection_values :: "ai_source \<Rightarrow> dict" where
  "projection_values s =
     (let redacted = redact_secret_fields (as_schema s) in
      if as_type s = ai_data_source_type.CONTEXT_SNAPSHOT then
        dset ''resource_count'' (PInt (sum_list (List.map (\<lambda>(_, ids). int (length ids)) (as_resource_ids s))))
          (dset ''is_stale'' (dget_or (as_stale_state s) ''is_stale'' (PBool True))
            (dset ''is_partial'' (dget_or (as_partial_state s) ''is_partial'' (PBool True)) redacted))
      else redacted)"

definition select_field :: "dict \<Rightarrow> string \<Rightarrow> (string \<times> pyval) res" where
  "select_field d n = (case dget d n of None \<Rightarrow> Inl (PyExn ''KeyError'') | Some v \<Rightarrow> Inr (n, v))"

definition build_safe_ai_projection :: "(string \<Rightarrow> string) \<Rightarrow> ai_source \<Rightarrow> data_classification \<Rightarrow>
    bool \<Rightarrow> string list option \<Rightarrow> safe_ai_projection res" where
  "build_safe_ai_projection sha s classification contains_secrets selected_fields =
     bind_res (ai_data_reference_of sha s) (\<lambda>reference.
     bind_res (if contains_secrets then Inr True else source_has_secret_fields sha s) (\<lambda>secret.
     let names = (case selected_fields of
           None \<Rightarrow> sort (projection_fields (adr_source_type reference)) | Some ns \<Rightarrow> ns) in
     if \<not> distinct names \<or> \<not> set names \<subseteq> set (projection_fields (adr_source_type reference)) then
       Inl (invalid_contract ''Unsupported or duplicate projection field selection.'')
     else bind_res (traverse (select_field (projection_values s)) names) (\<lambda>fields.
       make_safe_ai_projection
         \<lparr>sap_source = reference,
          sap_classification = (if secret then data_classification.SECRET else classification),
          sap_selected_fields = fields,
          sap_projection_version = ''safe-ai-projection-v1''\<rparr>)))"

end
