(* ===== verification/Governance_Service.thy ===== *)
theory Governance_Service
  imports Projection "HOL-Library.Product_Lexorder"
begin

section \<open>Policy lifecycle and audited egress assessment\<close>

text \<open>
  \<open>application/services/ai_governance.py\<close> over its repository ports, the audit record of
  \<open>domain/models/ai_governance.py\<close>, and the two governance tables of
  \<open>adapters/persistence/sqlite/repository.py\<close>.  A table row keeps the columns as the document
  that the repository rebuilds from them when it reads the row.  The identifier and the time a
  service draws from its ports are arguments of the operation.
\<close>

subsection \<open>Reading policies and audit records\<close>

definition field_int :: "dict \<Rightarrow> string \<Rightarrow> exn \<Rightarrow> int res" where
  "field_int d k e = (case dget d k of Some (PInt n) \<Rightarrow> Inr n | _ \<Rightarrow> Inl e)"

definition field_timestamp :: "dict \<Rightarrow> string \<Rightarrow> datetime res" where
  "field_timestamp d k = (case dget d k of Some (PStr s) \<Rightarrow> parse_contract_timestamp s
     | _ \<Rightarrow> Inl (invalid_contract ''Expected a timestamp with an explicit timezone.''))"

definition policy_from_schema :: "dict \<Rightarrow> case_ai_policy res" where
  "policy_from_schema d =
     (let e = invalid_contract ''Invalid policy contract.'' in
      bind_res (check_keys d [''schema_version'', ''policy_id'', ''case_id'', ''revision'', ''created_at'',
        ''ai_enabled'', ''external_allowed'', ''local_only'', ''allowed_classifications'',
        ''secret_handling'', ''raw_allowed'', ''redaction_required'', ''projection_required'']) (\<lambda>_.
      if dget d ''schema_version'' \<noteq> Some (PStr ''1.0.0'') then
        Inl (invalid_contract ''Unsupported governance schema version.'')
      else
      bind_res (field_timestamp d ''created_at'') (\<lambda>t.
      bind_res (field_enum_list data_classification_members data_classification_value d
        ''allowed_classifications'' e) (\<lambda>cs.
      bind_res (field_enum ai_secret_handling_members ai_secret_handling_value d
        ''secret_handling'' e) (\<lambda>h.
      bind_res (field_str d ''policy_id'' (invalid ''Expected a UUID identifier.'' ''policy_id'')) (\<lambda>pid.
      bind_res (check_uuid pid ''policy_id'') (\<lambda>_.
      bind_res (field_str d ''case_id'' (invalid ''Expected a UUID identifier.'' ''case_id'')) (\<lambda>cid.
      bind_res (check_uuid cid ''case_id'') (\<lambda>_.
      bind_res (field_int d ''revision'' (invalid ''Expected a positive integer.'' ''revision'')) (\<lambda>n.
      bind_res (check_positive n ''revision'') (\<lambda>_.
      bind_res (field_bool d ''ai_enabled'') (\<lambda>b1.
      bind_res (field_bool d ''external_allowed'') (\<lambda>b2.
      bind_res (field_bool d ''local_only'') (\<lambda>b3.
      bind_res (field_bool d ''raw_allowed'') (\<lambda>b4.
      bind_res (field_bool d ''redaction_required'') (\<lambda>b5.
      bind_res (field_bool d ''projection_required'') (\<lambda>b6.
      make_case_ai_policy
        \<lparr>cap_policy_id = pid, cap_case_id = cid, cap_revision = n, cap_created_at = t,
         cap_ai_enabled = b1, cap_external_allowed = b2, cap_local_only = b3,
         cap_allowed_classifications = cs, cap_secret_handling = h, cap_raw_allowed = b4,
         cap_redaction_required = b5, cap_projection_required = b6\<rparr>)))))))))))))))))"

record ai_egress_audit =
  aea_audit_id :: string
  aea_result :: ai_egress_result
  aea_created_at :: datetime

definition make_ai_egress_audit :: "ai_egress_audit \<Rightarrow> ai_egress_audit res" where
  "make_ai_egress_audit a =
     bind_res (check_uuid (aea_audit_id a) ''audit_id'') (\<lambda>_.
     if \<not> is_aware (aea_created_at a) then
       Inl (invalid_contract ''Audit time must have a timezone.'') else Inr a)"

definition audit_schema_dict :: "ai_egress_audit \<Rightarrow> dict res" where
  "audit_schema_dict a =
     bind_res (to_json_timestamp (aea_created_at a)) (\<lambda>created. Inr
       [(''schema_version'', PStr ''1.0.0''), (''audit_id'', PStr (aea_audit_id a)),
        (''result'', PDict (result_schema_dict (aea_result a))),
        (''redaction_applied'', PBool (redaction_applied (aer_data (aea_result a)))),
        (''projection_applied'', PBool (projection_applied (aer_data (aea_result a)))),
        (''created_at'', PStr created)])"

definition audit_from_schema :: "dict \<Rightarrow> ai_egress_audit res" where
  "audit_from_schema d =
     bind_res (check_keys d [''schema_version'', ''audit_id'', ''result'', ''redaction_applied'',
       ''projection_applied'', ''created_at'']) (\<lambda>_.
     bind_res (field_dict d ''result'' (PyExn ''TypeError'')) (\<lambda>rd.
     bind_res (result_from_schema rd) (\<lambda>r.
     bind_res (field_timestamp d ''created_at'') (\<lambda>t.
     bind_res (field_str d ''audit_id'' (invalid ''Expected a UUID identifier.'' ''audit_id'')) (\<lambda>i.
     bind_res (make_ai_egress_audit \<lparr>aea_audit_id = i, aea_result = r, aea_created_at = t\<rparr>) (\<lambda>a.
     if dget d ''schema_version'' \<noteq> Some (PStr ''1.0.0'') \<or>
        dget d ''redaction_applied'' \<noteq> Some (PBool (redaction_applied (aer_data r))) \<or>
        dget d ''projection_applied'' \<noteq> Some (PBool (projection_applied (aer_data r)))
     then Inl (invalid_contract ''Audit metadata is inconsistent with its decision.'')
     else Inr a))))))"

subsection \<open>The ports\<close>

record 'r gov_ports =
  gp_has_case :: "'r \<Rightarrow> string \<Rightarrow> bool"
  gp_source :: "'r \<Rightarrow> ai_data_source_type \<Rightarrow> string \<Rightarrow> ai_source option"
  gp_save_policy :: "'r \<Rightarrow> case_ai_policy \<Rightarrow> int \<Rightarrow> 'r res"
  gp_get_policy :: "'r \<Rightarrow> string \<Rightarrow> case_ai_policy option res"
  gp_append_audit :: "'r \<Rightarrow> ai_egress_audit \<Rightarrow> 'r res"

definition require_case :: "'r gov_ports \<Rightarrow> 'r \<Rightarrow> string \<Rightarrow> unit res" where
  "require_case p r case_id =
     (if gp_has_case p r case_id then Inr ()
      else Inl (not_found_error ''CASE_NOT_FOUND'' ''Case does not exist.'' (Some ''case_id'')))"

subsection \<open>Policies\<close>

record policy_settings =
  ps_ai_enabled :: bool
  ps_external_allowed :: bool
  ps_local_only :: bool
  ps_allowed_classifications :: "data_classification list"
  ps_secret_handling :: ai_secret_handling
  ps_raw_allowed :: bool
  ps_redaction_required :: bool
  ps_projection_required :: bool

definition default_settings :: policy_settings where
  "default_settings =
     \<lparr>ps_ai_enabled = False, ps_external_allowed = False, ps_local_only = True,
      ps_allowed_classifications = [data_classification.PUBLIC, data_classification.INTERNAL],
      ps_secret_handling = ai_secret_handling.DENY, ps_raw_allowed = False,
      ps_redaction_required = True, ps_projection_required = True\<rparr>"

definition get_policy :: "'r gov_ports \<Rightarrow> 'r \<Rightarrow> string \<Rightarrow> case_ai_policy option res" where
  "get_policy p r case_id = bind_res (require_case p r case_id) (\<lambda>_. gp_get_policy p r case_id)"

definition configure :: "'r gov_ports \<Rightarrow> 'r \<Rightarrow> string \<Rightarrow> int \<Rightarrow> policy_settings \<Rightarrow> string \<Rightarrow> datetime \<Rightarrow>
    ('r \<times> case_ai_policy) res" where
  "configure p r case_id expected_revision s new_id now =
     bind_res (require_case p r case_id) (\<lambda>_.
     if expected_revision < 0 then
       Inl (validation_error ''Expected a nonnegative policy revision.'' None)
     else
     bind_res (make_case_ai_policy
       \<lparr>cap_policy_id = new_id, cap_case_id = case_id, cap_revision = expected_revision + 1,
        cap_created_at = now, cap_ai_enabled = ps_ai_enabled s,
        cap_external_allowed = ps_external_allowed s, cap_local_only = ps_local_only s,
        cap_allowed_classifications = ps_allowed_classifications s,
        cap_secret_handling = ps_secret_handling s, cap_raw_allowed = ps_raw_allowed s,
        cap_redaction_required = ps_redaction_required s,
        cap_projection_required = ps_projection_required s\<rparr>) (\<lambda>policy.
     map_res (\<lambda>r'. (r', policy)) (gp_save_policy p r policy expected_revision)))"

subsection \<open>Projections and assessments\<close>

definition get_source ::
  "'r gov_ports \<Rightarrow> 'r \<Rightarrow> string \<Rightarrow> string \<Rightarrow> ai_data_source_type \<Rightarrow> ai_source res" where
  "get_source p r case_id source_id source_type =
     bind_res (require_case p r case_id) (\<lambda>_.
     (case gp_source p r source_type source_id of
        None \<Rightarrow> Inl (not_found_error ''AI_SOURCE_NOT_FOUND'' ''AI data source does not exist.'' None)
      | Some s \<Rightarrow>
          if as_case_id s \<noteq> case_id then
            Inl (validation_error ''AI source belongs to another case.'' (Some ''source_id''))
          else Inr s))"

definition create_projection :: "'r gov_ports \<Rightarrow> (string \<Rightarrow> string) \<Rightarrow> 'r \<Rightarrow> string \<Rightarrow> string \<Rightarrow>
    ai_data_source_type \<Rightarrow> data_classification \<Rightarrow> bool \<Rightarrow> string list option \<Rightarrow>
    safe_ai_projection res" where
  "create_projection p sha r case_id source_id source_type classification contains_secrets selected =
     bind_res (get_source p r case_id source_id source_type) (\<lambda>s.
       build_safe_ai_projection sha s classification contains_secrets selected)"

definition assess :: "'r gov_ports \<Rightarrow> (string \<Rightarrow> string) \<Rightarrow> 'r \<Rightarrow> ai_egress_data \<Rightarrow>
    ai_destination_category \<Rightarrow> string \<Rightarrow> datetime \<Rightarrow> ('r \<times> ai_egress_audit) res" where
  "assess p sha r data destination new_id now =
     (let reference = aed_source data in
      bind_res (get_source p r (adr_case_id reference) (adr_source_id reference)
        (adr_source_type reference)) (\<lambda>s.
      bind_res (ai_data_reference_of sha s) (\<lambda>current.
      if current \<noteq> reference then
        Inl (state_conflict_error ''AI data source changed; rebuild the assessment.'' None)
      else
      bind_res (source_has_secret_fields sha s) (\<lambda>secret.
      bind_res (if secret then make_ai_egress_data (data\<lparr>aed_classification := data_classification.SECRET,
             aed_contains_secrets := aed_contains_secrets data \<or> \<not> redaction_applied data\<rparr>)
           else Inr data) (\<lambda>data.
      bind_res (gp_get_policy p r (adr_case_id reference)) (\<lambda>policy.
      bind_res (evaluate_ai_egress sha policy data destination) (\<lambda>result.
      bind_res (make_ai_egress_audit
        \<lparr>aea_audit_id = new_id, aea_result = result, aea_created_at = now\<rparr>) (\<lambda>a.
      map_res (\<lambda>r'. (r', a)) (gp_append_audit p r a)))))))))"

definition evaluate :: "'r gov_ports \<Rightarrow> (string \<Rightarrow> string) \<Rightarrow> 'r \<Rightarrow> ai_egress_data \<Rightarrow>
    ai_destination_category \<Rightarrow> string \<Rightarrow> datetime \<Rightarrow> ('r \<times> ai_egress_audit) res" where
  "evaluate p sha r data destination new_id now =
     (if projection_applied data then
        Inl (validation_error ''Use evaluate_projection to verify a safe projection.'' None)
      else assess p sha r data destination new_id now)"

text \<open>Equality of projections is the equality of the dataclass: numbers compare by value.\<close>

fun number_of :: "pyval \<Rightarrow> rat option" where
  "number_of (PBool b) = Some (if b then 1 else 0)"
| "number_of (PInt n) = Some (of_int n)"
| "number_of (PFloat f) = fl_value f"
| "number_of v = None"

definition field_eq :: "string \<times> pyval \<Rightarrow> string \<times> pyval \<Rightarrow> bool" where
  "field_eq a b \<longleftrightarrow> fst a = fst b \<and>
     (case (number_of (snd a), number_of (snd b)) of
        (Some x, Some y) \<Rightarrow> x = y | _ \<Rightarrow> snd a = snd b)"

definition projection_eq :: "safe_ai_projection \<Rightarrow> safe_ai_projection \<Rightarrow> bool" where
  "projection_eq a b \<longleftrightarrow> sap_source a = sap_source b \<and> sap_classification a = sap_classification b \<and>
     list_all2 field_eq (sap_selected_fields a) (sap_selected_fields b) \<and>
     sap_projection_version a = sap_projection_version b"

definition evaluate_projection :: "'r gov_ports \<Rightarrow> (string \<Rightarrow> string) \<Rightarrow> 'r \<Rightarrow> safe_ai_projection \<Rightarrow>
    ai_destination_category \<Rightarrow> string \<Rightarrow> datetime \<Rightarrow> ('r \<times> ai_egress_audit) res" where
  "evaluate_projection p sha r projection destination new_id now =
     (let reference = sap_source projection in
      bind_res (create_projection p sha r (adr_case_id reference) (adr_source_id reference)
        (adr_source_type reference) (sap_classification projection) False
        (Some (List.map fst (sap_selected_fields projection)))) (\<lambda>rebuilt.
      if \<not> projection_eq rebuilt projection then
        Inl (state_conflict_error ''Projection no longer matches its source; rebuild it.'' None)
      else bind_res (projection_egress_data sha projection) (\<lambda>data.
        assess p sha r data destination new_id now)))"

subsection \<open>The SQLite tables\<close>

record policy_row =
  pw_policy_id :: string
  pw_case_id :: string
  pw_revision :: int
  pw_doc :: dict
  pw_fingerprint :: string

record audit_row =
  aw_audit_id :: string
  aw_case_id :: string
  aw_source_id :: string
  aw_created_at :: string
  aw_doc :: dict

record gov_db =
  gd_cases :: "string \<Rightarrow> bool"
  gd_sources :: "ai_data_source_type \<Rightarrow> string \<Rightarrow> ai_source option"
  gd_policies :: "policy_row list"
  gd_audits :: "audit_row list"

definition case_rows :: "gov_db \<Rightarrow> string \<Rightarrow> policy_row list" where
  "case_rows db case_id = filter (\<lambda>w. pw_case_id w = case_id) (gd_policies db)"

text \<open>\<open>MAX(revision)\<close> of a case, 0 without rows, and the row of \<open>ORDER BY revision DESC LIMIT 1\<close>.\<close>

definition max_revision :: "gov_db \<Rightarrow> string \<Rightarrow> int" where
  "max_revision db case_id =
     (case List.map pw_revision (case_rows db case_id) of [] \<Rightarrow> 0 | n # ns \<Rightarrow> fold max ns n)"

definition latest_row :: "gov_db \<Rightarrow> string \<Rightarrow> policy_row option" where
  "latest_row db case_id =
     (case rev (sort_key pw_revision (case_rows db case_id)) of [] \<Rightarrow> None | w # _ \<Rightarrow> Some w)"

definition sqlite_save_policy ::
  "(string \<Rightarrow> string) \<Rightarrow> gov_db \<Rightarrow> case_ai_policy \<Rightarrow> int \<Rightarrow> gov_db res" where
  "sqlite_save_policy sha db policy expected_revision =
     (if expected_revision < 0 \<or> cap_revision policy \<noteq> expected_revision + 1 then
        Inl (validation_error ''Invalid expected policy revision.'' None)
      else
      bind_res (policy_schema_dict policy) (\<lambda>data.
      bind_res (policy_fingerprint sha policy) (\<lambda>fp.
      if max_revision db (cap_case_id policy) \<noteq> expected_revision then
        Inl (state_conflict_error ''Case AI policy revision changed.'' None)
      else if (\<exists>w \<in> set (gd_policies db). pw_policy_id w = cap_policy_id policy \<or>
                (pw_case_id w = cap_case_id policy \<and> pw_revision w = cap_revision policy)) \<or>
              \<not> gd_cases db (cap_case_id policy) \<or> cap_revision policy \<le> 0
      then Inl (PyExn ''IntegrityError'')
      else Inr (db\<lparr>gd_policies := gd_policies db @
        [\<lparr>pw_policy_id = cap_policy_id policy, pw_case_id = cap_case_id policy,
          pw_revision = cap_revision policy, pw_doc = data, pw_fingerprint = fp\<rparr>]\<rparr>))))"

definition sqlite_get_policy ::
  "(string \<Rightarrow> string) \<Rightarrow> gov_db \<Rightarrow> string \<Rightarrow> case_ai_policy option res" where
  "sqlite_get_policy sha db case_id =
     (case latest_row db case_id of
        None \<Rightarrow> Inr None
      | Some w \<Rightarrow>
          bind_res (policy_from_schema (pw_doc w)) (\<lambda>policy.
          bind_res (policy_fingerprint sha policy) (\<lambda>fp.
          if fp \<noteq> pw_fingerprint w then
            Inl (validation_error ''Stored case AI policy fingerprint mismatch.'' None)
          else Inr (Some policy))))"

text \<open>The statement inserts when the newest policy of the case is still the one of the result; then the
  primary key, the trigger on the source, the composite foreign key of the policy and the
  CHECK constraints of the table apply.\<close>

definition audit_allowed :: "gov_db \<Rightarrow> ai_egress_audit \<Rightarrow> bool" where
  "audit_allowed db a \<longleftrightarrow>
     (let r = aea_result a; d = aer_data r; src = aed_source d in
      (\<forall>w \<in> set (gd_audits db). aw_audit_id w \<noteq> aea_audit_id a) \<and>
      gd_cases db (adr_case_id src) \<and>
      (case gd_sources db (adr_source_type src) (adr_source_id src) of
         None \<Rightarrow> False | Some s \<Rightarrow> as_case_id s = adr_case_id src) \<and>
      (case (aer_policy_id r, aer_policy_revision r, aer_policy_fingerprint r) of
         (Some i, Some n, Some f) \<Rightarrow> (\<exists>w \<in> set (gd_policies db). pw_case_id w = adr_case_id src \<and>
            pw_policy_id w = i \<and> pw_revision w = n \<and> pw_fingerprint w = f)
       | (None, None, None) \<Rightarrow> aer_decision r = ai_egress_decision.DENY
       | _ \<Rightarrow> False) \<and>
      (aed_contains_secrets d \<longrightarrow> aed_classification d = data_classification.SECRET) \<and>
      (aed_data_form d = ai_data_form.RAW \<or> aed_content_fingerprint d \<noteq> None))"

definition sqlite_append_audit :: "gov_db \<Rightarrow> ai_egress_audit \<Rightarrow> gov_db res" where
  "sqlite_append_audit db a =
     (let r = aea_result a; src = aed_source (aer_data r) in
      bind_res (to_json_timestamp (aea_created_at a)) (\<lambda>created.
      bind_res (audit_schema_dict a) (\<lambda>doc.
      if map_option pw_policy_id (latest_row db (adr_case_id src)) \<noteq> aer_policy_id r then
        Inl (state_conflict_error ''Case AI policy changed; evaluate egress again.'' None)
      else if \<not> audit_allowed db a then Inl (PyExn ''IntegrityError'')
      else Inr (db\<lparr>gd_audits := gd_audits db @
        [\<lparr>aw_audit_id = aea_audit_id a, aw_case_id = adr_case_id src,
          aw_source_id = adr_source_id src, aw_created_at = created, aw_doc = doc\<rparr>]\<rparr>))))"

definition sqlite_list_audits ::
  "gov_db \<Rightarrow> string \<Rightarrow> string option \<Rightarrow> ai_egress_audit list res" where
  "sqlite_list_audits db case_id source_id =
     traverse (\<lambda>w. audit_from_schema (aw_doc w))
       (sort_key (\<lambda>w. (aw_created_at w, aw_audit_id w))
         (filter (\<lambda>w. aw_case_id w = case_id \<and>
            (source_id = None \<or> source_id = Some (aw_source_id w))) (gd_audits db)))"

definition sqlite_gov :: "(string \<Rightarrow> string) \<Rightarrow> gov_db gov_ports" where
  "sqlite_gov sha =
     \<lparr>gp_has_case = gd_cases, gp_source = gd_sources, gp_save_policy = sqlite_save_policy sha,
      gp_get_policy = sqlite_get_policy sha, gp_append_audit = sqlite_append_audit\<rparr>"

end
