(* ===== verification/Governance_Properties.thy ===== *)
theory Governance_Properties
  imports Governance Canonical_Facts
begin

section \<open>What the egress evaluation guarantees\<close>

text \<open>
  The evaluation never fails and its result always satisfies the checks of \<open>AiEgressResult\<close>; it
  allows exactly when the policy is satisfied; a requirement for a transformation is met by that
  transformation in one step; decisions survive the round trip through their schema document.
\<close>

subsection \<open>Checks\<close>

lemma check_simps [simp]:
  "check_uuid v t = Inr u \<longleftrightarrow> is_uuid v"
  "check_digest v t = Inr u \<longleftrightarrow> is_digest v"
  "check_positive n t = Inr u \<longleftrightarrow> 1 \<le> n"
  by (auto simp: check_uuid_def check_digest_def check_positive_def)

definition policy_ok :: "case_ai_policy \<Rightarrow> bool" where
  "policy_ok p \<longleftrightarrow> is_uuid (cap_policy_id p) \<and> is_uuid (cap_case_id p) \<and> 1 \<le> cap_revision p \<and>
     is_aware (cap_created_at p) \<and>
     cap_allowed_classifications p =
       filter (\<lambda>c. c \<in> set (cap_allowed_classifications p)) data_classification_members"

lemma make_policy_ok: "make_case_ai_policy p = Inr q \<Longrightarrow> policy_ok q"
  by (auto simp: make_case_ai_policy_def policy_ok_def data_classification_enum.listed
      split: if_splits)

lemma make_policy_id: "policy_ok p \<Longrightarrow> make_case_ai_policy p = Inr p"
proof -
  assume ok: "policy_ok p"
  have "distinct (filter (\<lambda>c. c \<in> S) data_classification_members)" for S
    by (simp add: data_classification_members_def)
  then have "distinct (cap_allowed_classifications p)" using ok unfolding policy_ok_def by metis
  moreover have "p\<lparr>cap_allowed_classifications := cap_allowed_classifications p\<rparr> = p" by simp
  ultimately show ?thesis
    using ok unfolding policy_ok_def make_case_ai_policy_def by simp
qed

definition data_ok :: "ai_egress_data \<Rightarrow> bool" where
  "data_ok d \<longleftrightarrow> make_ai_data_reference (aed_source d) = Inr (aed_source d) \<and>
     make_ai_egress_data d = Inr d"

lemma data_ok_secret:
  assumes "data_ok d" "aed_contains_secrets d"
  shows "aed_classification d = data_classification.SECRET"
proof -
  have "make_ai_egress_data d = Inr d" using assms(1) by (simp add: data_ok_def)
  then have "d\<lparr>aed_classification := data_classification.SECRET\<rparr> = d"
    using assms(2) by (auto simp: make_ai_egress_data_def Let_def split: if_splits)
  then show ?thesis by (metis ai_egress_data.select_convs(2) ai_egress_data.surjective
    ai_egress_data.update_convs(2))
qed

lemma policy_fingerprint_sha:
  assumes "is_aware (cap_created_at p)"
  shows "\<exists>s. policy_fingerprint sha p = Inr (sha s)"
proof -
  obtain t where t: "cap_created_at p = Aware t"
    using assms by (cases "cap_created_at p") (auto simp: is_aware_def)
  then obtain d where d: "policy_schema_dict p = Inr d" and "no_bytes (PDict d)"
    by (auto simp: policy_schema_dict_def to_json_timestamp_def)
  then show ?thesis using canonical_sha [of "PDict d" sha "[]"] by (simp add: policy_fingerprint_def)
qed

subsection \<open>The evaluation\<close>

lemma distinct_denied: "distinct (egress_denied p d dest)"
  by (auto simp: egress_denied_def)

lemma denied_reasons: "r \<in> set (egress_denied p d dest) \<Longrightarrow>
    r \<notin> {ai_egress_reason.RAW_DENIED, ai_egress_reason.POLICY_MISSING}"
  by (auto simp: egress_denied_def split: if_splits)

text \<open>The four outcomes for an existing policy.\<close>

definition denies :: "case_ai_policy \<Rightarrow> ai_egress_data \<Rightarrow> ai_destination_category \<Rightarrow> bool" where
  "denies p d dest \<longleftrightarrow> egress_denied p d dest \<noteq> [] \<or> raw_refused p d \<and> \<not> needs_projection p d"

definition outcome :: "case_ai_policy \<Rightarrow> ai_egress_data \<Rightarrow> ai_destination_category \<Rightarrow> ai_egress_decision" where
  "outcome p d dest =
     (if denies p d dest then ai_egress_decision.DENY
      else if needs_projection p d then ai_egress_decision.ALLOW_PROJECTION_ONLY
      else if needs_redaction p d then ai_egress_decision.ALLOW_WITH_REDACTION
      else ai_egress_decision.ALLOW)"

definition outcome_reasons ::
  "case_ai_policy \<Rightarrow> ai_egress_data \<Rightarrow> ai_destination_category \<Rightarrow> ai_egress_reason list" where
  "outcome_reasons p d dest =
     (if denies p d dest then egress_denied p d dest @
        (if raw_refused p d \<and> \<not> needs_projection p d then [ai_egress_reason.RAW_DENIED] else [])
      else if needs_projection p d then
        [ai_egress_reason.PROJECTION_REQUIRED] @
        (if raw_refused p d then [ai_egress_reason.RAW_DENIED] else []) @
        (if needs_redaction p d then [ai_egress_reason.REDACTION_REQUIRED] else [])
      else if needs_redaction p d then [ai_egress_reason.REDACTION_REQUIRED]
      else [ai_egress_reason.POLICY_SATISFIED])"

lemma evaluate_eq:
  "evaluate_ai_egress sha (Some p) d dest = bind_res (policy_fingerprint sha p) (\<lambda>fp.
     make_ai_egress_result
       \<lparr>aer_data = d, aer_destination = dest, aer_decision = outcome p d dest,
        aer_reason_codes = outcome_reasons p d dest,
        aer_required_transformations = expected_transformations (outcome p d dest),
        aer_policy_id = Some (cap_policy_id p), aer_policy_revision = Some (cap_revision p),
        aer_policy_fingerprint = Some fp\<rparr>)"
  by (cases "policy_fingerprint sha p")
    (auto simp: evaluate_ai_egress_def Let_def denies_def outcome_def outcome_reasons_def)

lemma outcome_reasons_wf: "outcome_reasons p d dest \<noteq> []" "distinct (outcome_reasons p d dest)"
  using distinct_denied [of p d dest] denied_reasons [of _ p d dest]
  by (auto simp: outcome_reasons_def denies_def)

lemma outcome_allow_reasons: "outcome p d dest = ai_egress_decision.ALLOW \<Longrightarrow>
    outcome_reasons p d dest = [ai_egress_reason.POLICY_SATISFIED]"
  by (auto simp: outcome_def outcome_reasons_def split: if_splits)

lemma expected_supported: "f \<in> set (expected_transformations oc) \<Longrightarrow>
    f \<in> {ai_data_form.REDACTED, ai_data_form.SAFE_PROJECTION}"
  by (cases oc) auto

definition result_of :: "case_ai_policy \<Rightarrow> ai_egress_data \<Rightarrow> ai_destination_category \<Rightarrow> string \<Rightarrow>
    ai_egress_result" where
  "result_of p d dest fp =
     \<lparr>aer_data = d, aer_destination = dest, aer_decision = outcome p d dest,
      aer_reason_codes = outcome_reasons p d dest,
      aer_required_transformations = expected_transformations (outcome p d dest),
      aer_policy_id = Some (cap_policy_id p), aer_policy_revision = Some (cap_revision p),
      aer_policy_fingerprint = Some fp\<rparr>"

lemma make_result_of:
  assumes "policy_ok p" "is_digest fp"
  shows "make_ai_egress_result (result_of p d dest fp) = Inr (result_of p d dest fp)"
proof -
  have "\<not> (\<exists>f \<in> set (expected_transformations (outcome p d dest)).
      f \<notin> {ai_data_form.REDACTED, ai_data_form.SAFE_PROJECTION})"
    using expected_supported by blast
  then show ?thesis
    using assms outcome_reasons_wf [of p d dest] outcome_allow_reasons [of p d dest]
    by (simp add: make_ai_egress_result_def result_of_def policy_ok_def check_uuid_def
        check_positive_def check_digest_def)
qed

lemma evaluate_result:
  assumes "policy_ok p" "\<And>s. is_digest (sha s)"
  obtains fp where "evaluate_ai_egress sha (Some p) d dest = Inr (result_of p d dest fp)"
    "is_digest fp" "policy_fingerprint sha p = Inr fp"
proof -
  obtain s where "policy_fingerprint sha p = Inr (sha s)"
    using assms(1) policy_fingerprint_sha by (auto simp: policy_ok_def)
  then show thesis
    using make_result_of [OF assms(1) assms(2) [of s]] assms(2) [of s]
    by (intro that [of "sha s"]) (simp_all add: evaluate_eq result_of_def)
qed

lemma evaluate_none:
  "evaluate_ai_egress sha None d dest = Inr
     \<lparr>aer_data = d, aer_destination = dest, aer_decision = ai_egress_decision.DENY,
      aer_reason_codes = [ai_egress_reason.POLICY_MISSING], aer_required_transformations = [],
      aer_policy_id = None, aer_policy_revision = None, aer_policy_fingerprint = None\<rparr>"
  by (simp add: evaluate_ai_egress_def make_ai_egress_result_def)

lemma make_result_id: "make_ai_egress_result r = Inr r' \<Longrightarrow> r' = r"
  by (auto simp: make_ai_egress_result_def split: if_splits option.splits)

lemma evaluate_some:
  assumes "evaluate_ai_egress sha (Some p) d dest = Inr r"
  shows "\<exists>fp. r = result_of p d dest fp"
  using assms by (auto simp: evaluate_eq result_of_def dest!: make_result_id)

text \<open>When egress is allowed.\<close>

lemma allow_iff:
  assumes "evaluate_ai_egress sha policy d dest = Inr r"
  shows "aer_decision r = ai_egress_decision.ALLOW \<longleftrightarrow>
    (\<exists>p. policy = Some p \<and> cap_case_id p = adr_case_id (aed_source d) \<and> cap_ai_enabled p \<and>
       (dest = ai_destination_category.EXTERNAL \<longrightarrow> cap_external_allowed p \<and> \<not> cap_local_only p) \<and>
       aed_classification d \<in> set (cap_allowed_classifications p) \<and>
       (aed_contains_secrets d \<longrightarrow> cap_secret_handling p = ai_secret_handling.ALLOW \<and>
          aed_data_form d \<in> {ai_data_form.RAW, ai_data_form.STRUCTURED}) \<and>
       (cap_projection_required p \<longrightarrow> aed_data_form d = ai_data_form.SAFE_PROJECTION) \<and>
       (aed_data_form d = ai_data_form.RAW \<longrightarrow> cap_raw_allowed p) \<and>
       (cap_redaction_required p \<longrightarrow>
          aed_data_form d \<in> {ai_data_form.REDACTED, ai_data_form.SAFE_PROJECTION}))"
proof (cases policy)
  case None
  with assms show ?thesis by (auto simp: evaluate_none)
next
  case (Some p)
  with assms have "evaluate_ai_egress sha (Some p) d dest = Inr r" by simp
  from evaluate_some [OF this] have dec: "aer_decision r = outcome p d dest"
    by (auto simp: result_of_def)
  have form: "aed_data_form d \<in> {ai_data_form.RAW, ai_data_form.STRUCTURED} \<longleftrightarrow> \<not> redaction_applied d"
    by (cases "aed_data_form d") (auto simp: redaction_applied_def)
  have allow: "outcome p d dest = ai_egress_decision.ALLOW \<longleftrightarrow> egress_denied p d dest = [] \<and>
      \<not> raw_refused p d \<and> \<not> needs_projection p d \<and> \<not> needs_redaction p d"
    by (auto simp: outcome_def denies_def)
  have denied: "egress_denied p d dest = [] \<longleftrightarrow>
      cap_case_id p = adr_case_id (aed_source d) \<and> cap_ai_enabled p \<and>
      (dest = ai_destination_category.EXTERNAL \<longrightarrow> cap_external_allowed p \<and> \<not> cap_local_only p) \<and>
      aed_classification d \<in> set (cap_allowed_classifications p) \<and>
      (aed_contains_secrets d \<longrightarrow> cap_secret_handling p \<noteq> ai_secret_handling.DENY \<and>
        \<not> redaction_applied d)"
    by (auto simp: egress_denied_def)
  have handling: "h \<noteq> ai_secret_handling.DENY \<and> h \<noteq> ai_secret_handling.REDACT \<longleftrightarrow>
      h = ai_secret_handling.ALLOW" for h by (cases h) auto
  show ?thesis
    unfolding dec allow denied form Some
    using handling [of "cap_secret_handling p"]
    by (auto simp: raw_refused_def needs_projection_def needs_redaction_def projection_applied_def
        redaction_applied_def)
qed

subsection \<open>Round trips\<close>

lemma field_enum_value:
  assumes "dget d k = Some (PStr (val x))" "enum_of members val (val x) = Some x"
  shows "field_enum members val d k e = Inr x"
  using assms by (simp add: field_enum_def)

lemma field_enum_list_values:
  assumes "dget d k = Some (PList (List.map (\<lambda>x. PStr (val x)) xs))"
    and "\<And>x. enum_of members val (val x) = Some x"
  shows "field_enum_list members val d k e = Inr xs"
proof -
  have "traverse (\<lambda>v. case v of PStr s \<Rightarrow> (case enum_of members val s of None \<Rightarrow> Inl e | Some x \<Rightarrow> Inr x)
      | _ \<Rightarrow> Inl e) (List.map (\<lambda>x. PStr (val x)) xs) = Inr xs"
    by (rule traverse_map_Inr) (simp add: assms(2))
  with assms(1) show ?thesis by (simp add: field_enum_list_def)
qed

lemma field_opt:
  "dget d k = Some (opt_str x) \<Longrightarrow> field_opt_str d k e = Inr x"
  "dget d k = Some (opt_int n) \<Longrightarrow> field_opt_int d k e = Inr n"
  by (cases x; simp add: field_opt_str_def) (cases n; simp add: field_opt_int_def)

lemma record_eta:
  "\<lparr>adr_case_id = adr_case_id r, adr_source_id = adr_source_id r,
    adr_source_type = adr_source_type r, adr_source_fingerprint = adr_source_fingerprint r\<rparr> = r"
  "\<lparr>aed_source = aed_source d, aed_classification = aed_classification d,
    aed_contains_secrets = aed_contains_secrets d, aed_data_form = aed_data_form d,
    aed_content_fingerprint = aed_content_fingerprint d\<rparr> = d"
  "\<lparr>aer_data = aer_data x, aer_destination = aer_destination x, aer_decision = aer_decision x,
    aer_reason_codes = aer_reason_codes x,
    aer_required_transformations = aer_required_transformations x,
    aer_policy_id = aer_policy_id x, aer_policy_revision = aer_policy_revision x,
    aer_policy_fingerprint = aer_policy_fingerprint x\<rparr> = x"
  by (cases r, simp) (cases d, simp, cases x, simp)

lemma reference_roundtrip:
  assumes "make_ai_data_reference r = Inr r"
  shows "reference_from_schema (reference_schema_dict r) = Inr r"
proof -
  have "check_keys (reference_schema_dict r) [''case_id'', ''source_id'', ''source_type'',
      ''source_fingerprint''] = Inr ()"
    by (simp add: check_keys_def reference_schema_dict_def)
  moreover have "field_enum ai_data_source_type_members ai_data_source_type_value
      (reference_schema_dict r) ''source_type'' e = Inr (adr_source_type r)" for e
    by (rule field_enum_value) (simp_all add: reference_schema_dict_def ai_data_source_type_enum.of_val)
  ultimately show ?thesis
    using assms by (simp add: reference_from_schema_def field_str_def record_eta)
      (simp add: reference_schema_dict_def record_eta)
qed

lemma egress_data_roundtrip:
  assumes "data_ok d"
  shows "egress_data_from_schema (egress_data_schema_dict d) = Inr d"
proof -
  let ?s = "egress_data_schema_dict d"
  have keys: "check_keys ?s [''source'', ''classification'', ''contains_secrets'', ''data_form'',
      ''content_fingerprint''] = Inr ()"
    by (simp add: check_keys_def egress_data_schema_dict_def)
  have c: "field_enum data_classification_members data_classification_value ?s ''classification'' e =
      Inr (aed_classification d)" for e
    by (rule field_enum_value) (simp_all add: egress_data_schema_dict_def data_classification_enum.of_val)
  have f: "field_enum ai_data_form_members ai_data_form_value ?s ''data_form'' e =
      Inr (aed_data_form d)" for e
    by (rule field_enum_value) (simp_all add: egress_data_schema_dict_def ai_data_form_enum.of_val)
  have o: "field_opt_str ?s ''content_fingerprint'' e = Inr (aed_content_fingerprint d)" for e
    by (rule field_opt) (simp add: egress_data_schema_dict_def)
  have r: "field_dict ?s ''source'' e = Inr (reference_schema_dict (aed_source d))" for e
    by (simp add: field_dict_def egress_data_schema_dict_def)
  have b: "field_bool ?s ''contains_secrets'' = Inr (aed_contains_secrets d)"
    by (simp add: field_bool_def egress_data_schema_dict_def)
  have "make_ai_data_reference (aed_source d) = Inr (aed_source d)" "make_ai_egress_data d = Inr d"
    using assms by (simp_all add: data_ok_def)
  then show ?thesis
    by (simp add: egress_data_from_schema_def Let_def keys c f o r b reference_roundtrip record_eta)
qed

lemma result_roundtrip:
  assumes "make_ai_egress_result r = Inr r" "data_ok (aer_data r)"
  shows "result_from_schema (result_schema_dict r) = Inr r"
proof -
  let ?s = "result_schema_dict r"
  have keys: "check_keys ?s [''schema_version'', ''data'', ''destination'', ''decision'', ''reason'',
        ''reason_codes'', ''required_transformations'', ''policy_id'', ''policy_revision'',
        ''policy_fingerprint''] = Inr ()"
    by (simp add: check_keys_def result_schema_dict_def)
  have ver: "dget ?s ''schema_version'' = Some (PStr ''1.0.0'')"
    and reason: "dget ?s ''reason'' = Some (PStr (result_reason r))"
    and dd: "field_dict ?s ''data'' e = Inr (egress_data_schema_dict (aer_data r))" for e
    by (simp_all add: result_schema_dict_def field_dict_def)
  have dest: "field_enum ai_destination_category_members ai_destination_category_value ?s
      ''destination'' e = Inr (aer_destination r)" for e
    by (rule field_enum_value) (simp_all add: result_schema_dict_def ai_destination_category_enum.of_val)
  have dec: "field_enum ai_egress_decision_members ai_egress_decision_value ?s ''decision'' e =
      Inr (aer_decision r)" for e
    by (rule field_enum_value) (simp_all add: result_schema_dict_def ai_egress_decision_enum.of_val)
  have codes: "field_enum_list ai_egress_reason_members ai_egress_reason_value ?s ''reason_codes'' e =
      Inr (aer_reason_codes r)" for e
    by (rule field_enum_list_values) (simp_all add: result_schema_dict_def ai_egress_reason_enum.of_val)
  have forms: "field_enum_list ai_data_form_members ai_data_form_value ?s
      ''required_transformations'' e = Inr (aer_required_transformations r)" for e
    by (rule field_enum_list_values) (simp_all add: result_schema_dict_def ai_data_form_enum.of_val)
  have opts: "field_opt_str ?s ''policy_id'' e = Inr (aer_policy_id r)"
    "field_opt_int ?s ''policy_revision'' e = Inr (aer_policy_revision r)"
    "field_opt_str ?s ''policy_fingerprint'' e = Inr (aer_policy_fingerprint r)" for e
    by (rule field_opt, simp add: result_schema_dict_def)+
  show ?thesis
    by (simp add: result_from_schema_def Let_def keys ver reason dd dest dec codes forms opts
        egress_data_roundtrip [OF assms(2)] assms(1) record_eta)
qed

subsection \<open>A sample policy\<close>

definition sample_uuid :: string where
  "sample_uuid = ''00000000-0000-4000-8000-000000000000''"

definition sample_digest :: string where
  "sample_digest = replicate 64 (CHR ''a'')"

definition sample_policy :: case_ai_policy where
  "sample_policy = \<lparr>cap_policy_id = sample_uuid, cap_case_id = sample_uuid, cap_revision = 1,
     cap_created_at = Aware 0, cap_ai_enabled = True, cap_external_allowed = True,
     cap_local_only = False,
     cap_allowed_classifications = [data_classification.PUBLIC, data_classification.SECRET],
     cap_secret_handling = ai_secret_handling.REDACT, cap_raw_allowed = True,
     cap_redaction_required = True, cap_projection_required = False\<rparr>"

definition sample_reference :: ai_data_reference where
  "sample_reference = \<lparr>adr_case_id = sample_uuid, adr_source_id = sample_uuid,
     adr_source_type = ai_data_source_type.ARTIFACT, adr_source_fingerprint = sample_digest\<rparr>"

definition sample_raw :: ai_egress_data where
  "sample_raw = \<lparr>aed_source = sample_reference, aed_classification = data_classification.SECRET,
     aed_contains_secrets = True, aed_data_form = ai_data_form.RAW,
     aed_content_fingerprint = None\<rparr>"

lemma sample_uuid_ok: "is_uuid sample_uuid"
  by code_simp

lemma sample_digest_ok: "is_digest sample_digest"
  by code_simp

lemma sample_policy_ok: "policy_ok sample_policy"
  by (simp add: policy_ok_def sample_policy_def sample_uuid_ok is_aware_def
      data_classification_members_def)

lemma sample_raw_ok: "data_ok sample_raw"
  by (simp add: data_ok_def sample_raw_def sample_reference_def make_ai_data_reference_def
      make_ai_egress_data_def sample_uuid_ok sample_digest_ok check_uuid_def check_digest_def)

subsection \<open>Properties\<close>

text \<open>Whatever the metadata, the evaluation under a valid policy, or none, returns a result, and
  the result passes every check of its own constructor.\<close>

lemma egress_total:
  assumes "\<And>p. policy = Some p \<Longrightarrow> policy_ok p" "\<And>s. is_digest (sha s)"
  shows "\<exists>r. evaluate_ai_egress sha policy d dest = Inr r \<and> make_ai_egress_result r = Inr r"
proof (cases policy)
  case None
  then show ?thesis by (simp add: evaluate_none make_ai_egress_result_def)
next
  case (Some p)
  then obtain fp where "evaluate_ai_egress sha (Some p) d dest = Inr (result_of p d dest fp)"
    "is_digest fp" using evaluate_result [of p sha] assms by blast
  with make_result_of [of p fp] assms(1) [OF Some] Some show ?thesis by blast
qed

text \<open>C9: egress is allowed exactly when a policy of the same case exists that enables AI, admits the
  destination and the classification, admits the secrets the data carries, and whose projection,
  raw-data and redaction demands the data already meets.\<close>

theorem egress_allow_iff:
  assumes "evaluate_ai_egress sha policy d dest = Inr r"
  shows "aer_decision r = ai_egress_decision.ALLOW \<longleftrightarrow>
    (\<exists>p. policy = Some p \<and> cap_case_id p = adr_case_id (aed_source d) \<and> cap_ai_enabled p \<and>
       (dest = ai_destination_category.EXTERNAL \<longrightarrow> cap_external_allowed p \<and> \<not> cap_local_only p) \<and>
       aed_classification d \<in> set (cap_allowed_classifications p) \<and>
       (aed_contains_secrets d \<longrightarrow> cap_secret_handling p = ai_secret_handling.ALLOW \<and>
          aed_data_form d \<in> {ai_data_form.RAW, ai_data_form.STRUCTURED}) \<and>
       (cap_projection_required p \<longrightarrow> aed_data_form d = ai_data_form.SAFE_PROJECTION) \<and>
       (aed_data_form d = ai_data_form.RAW \<longrightarrow> cap_raw_allowed p) \<and>
       (cap_redaction_required p \<longrightarrow>
          aed_data_form d \<in> {ai_data_form.REDACTED, ai_data_form.SAFE_PROJECTION}))"
  by (rule allow_iff [OF assms])

lemma egress_allow_iff_witness:
  "\<exists>r. evaluate_ai_egress (\<lambda>s. sample_digest) (Some sample_policy) sample_raw
     ai_destination_category.LOCAL = Inr r \<and> aer_decision r \<noteq> ai_egress_decision.ALLOW"
proof -
  obtain fp where e: "evaluate_ai_egress (\<lambda>s. sample_digest) (Some sample_policy) sample_raw
      ai_destination_category.LOCAL =
      Inr (result_of sample_policy sample_raw ai_destination_category.LOCAL fp)"
    using evaluate_result [OF sample_policy_ok, of "\<lambda>s. sample_digest"] sample_digest_ok by blast
  from egress_allow_iff [OF e] have "aer_decision (result_of sample_policy sample_raw
      ai_destination_category.LOCAL fp) \<noteq> ai_egress_decision.ALLOW"
    by (simp add: sample_policy_def sample_raw_def)
  with e show ?thesis by blast
qed

text \<open>One transformation is enough.  When the decision demands a redacted or projected form, that
  form of the data, without secrets and under the original classification, is allowed for the same
  policy and destination.\<close>

lemma egress_transformation_suffices:
  assumes "evaluate_ai_egress sha (Some p) d dest = Inr r"
    and "aer_required_transformations r = [form]"
    and "evaluate_ai_egress sha (Some p)
      (d\<lparr>aed_contains_secrets := False, aed_data_form := form, aed_content_fingerprint := Some f\<rparr>)
      dest = Inr r'"
  shows "aer_decision r' = ai_egress_decision.ALLOW"
proof -
  let ?d = "d\<lparr>aed_contains_secrets := False, aed_data_form := form, aed_content_fingerprint := Some f\<rparr>"
  from evaluate_some [OF assms(1)] assms(2)
  have t: "expected_transformations (outcome p d dest) = [form]" by (auto simp: result_of_def)
  then have den: "\<not> denies p d dest" by (auto simp: outcome_def split: if_splits)
  then have nodeny: "egress_denied p d dest = []" by (simp add: denies_def)
  have form: "form = (if needs_projection p d then ai_data_form.SAFE_PROJECTION else ai_data_form.REDACTED)"
    using t den by (auto simp: outcome_def split: if_splits)
  have "egress_denied p ?d dest = []"
    using nodeny by (auto simp: egress_denied_def split: if_splits)
  moreover have "\<not> raw_refused p ?d" "\<not> needs_redaction p ?d"
    using form by (auto simp: raw_refused_def needs_redaction_def redaction_applied_def)
  moreover have "needs_projection p d \<or> needs_redaction p d"
    using t den by (auto simp: outcome_def split: if_splits)
  then have "\<not> needs_projection p ?d"
    using form by (auto simp: needs_projection_def needs_redaction_def projection_applied_def
        redaction_applied_def)
  ultimately have "outcome p ?d dest = ai_egress_decision.ALLOW"
    by (simp add: outcome_def denies_def)
  with evaluate_some [OF assms(3)] show ?thesis by (auto simp: result_of_def)
qed

text \<open>C10: a decision document reads back as the decision it was written from.\<close>

theorem egress_result_roundtrip:
  assumes "make_ai_egress_result r = Inr r" "data_ok (aer_data r)"
  shows "result_from_schema (result_schema_dict r) = Inr r"
  by (rule result_roundtrip [OF assms])

lemma egress_result_roundtrip_witness:
  "result_from_schema (result_schema_dict (result_of sample_policy sample_raw
     ai_destination_category.LOCAL sample_digest)) =
   Inr (result_of sample_policy sample_raw ai_destination_category.LOCAL sample_digest)"
  by (rule egress_result_roundtrip [OF make_result_of [OF sample_policy_ok sample_digest_ok]])
    (simp add: result_of_def sample_raw_ok)

end
