(* ===== verification/Timestamp_Facts.thy ===== *)
theory Timestamp_Facts
  imports Timestamps
begin

section \<open>Reading back a rendered timestamp\<close>

text \<open>
  The calendar conversions are inverse to each other, the fields of a rendered timestamp stand at
  fixed positions, and so the text that \<open>to_json_timestamp\<close> writes is read back as the same
  instant by \<open>_parse_contract_timestamp\<close>.
\<close>

subsection \<open>The calendar\<close>

lemma n100_bounds:
  fixes doe :: int
  assumes "0 \<le> doe" "doe < 146097" "c = min (doe div 36524) 3" "r = doe - 36524 * c"
  shows "0 \<le> c" "c \<le> 3" "0 \<le> r" "r \<le> 36524" "r = 36524 \<Longrightarrow> c = 3"
  using assms by (auto simp: min_def split: if_splits)

lemma n1_bounds:
  fixes s :: int
  assumes "0 \<le> s" "s < 1461" "a = min (s div 365) 3" "doy = s - 365 * a"
  shows "0 \<le> a" "a \<le> 3" "0 \<le> doy" "doy \<le> 365" "doy = 365 \<Longrightarrow> s = 1460 \<and> a = 3"
  using assms by (auto simp: min_def split: if_splits)

lemma civil_obtain:
  obtains era c q a doy mp where
    "civil_of_days n = (let m = (if mp < 10 then mp + 3 else mp - 9) in
       (100 * c + 4 * q + a + era * 400 + (if m \<le> 2 then 1 else 0), m, doy - (153 * mp + 2) div 5 + 1))"
    "0 \<le> c" "c \<le> 3" "0 \<le> q" "q \<le> 24" "0 \<le> a" "a \<le> 3" "0 \<le> doy" "doy \<le> 365"
    "mp = (5 * doy + 2) div 153"
    "n + 719468 = era * 146097 + 36524 * c + 1461 * q + 365 * a + doy"
    "doy = 365 \<Longrightarrow> a = 3 \<and> (q = 24 \<longrightarrow> c = 3)"
proof -
  define z where "z = n + 719468"
  define era where "era = z div 146097"
  define doe where "doe = z mod 146097"
  define c where "c = min (doe div 36524) 3"
  define r where "r = doe - 36524 * c"
  define q where "q = r div 1461"
  define s where "s = r mod 1461"
  define a where "a = min (s div 365) 3"
  define doy where "doy = s - 365 * a"
  have doe: "0 \<le> doe" "doe < 146097" by (simp_all add: doe_def)
  note cb = n100_bounds [OF doe c_def r_def]
  have s: "0 \<le> s" "s < 1461" by (simp_all add: s_def)
  note ab = n1_bounds [OF s a_def doy_def]
  have q: "0 \<le> q" "q \<le> 24" using cb by (auto simp: q_def)
  have rs: "r = 1461 * q + s" by (simp add: q_def s_def)
  have z: "z = era * 146097 + doe" by (simp add: era_def doe_def)
  show ?thesis
  proof (rule that [of "(5 * doy + 2) div 153" c q a era doy])
    show "civil_of_days n = (let m = (if (5 * doy + 2) div 153 < 10 then (5 * doy + 2) div 153 + 3
          else (5 * doy + 2) div 153 - 9) in
        (100 * c + 4 * q + a + era * 400 + (if m \<le> 2 then 1 else 0), m,
         doy - (153 * ((5 * doy + 2) div 153) + 2) div 5 + 1))"
      unfolding civil_of_days_def Let_def z_def [symmetric] era_def [symmetric] doe_def [symmetric]
        c_def [symmetric] r_def [symmetric] q_def [symmetric] s_def [symmetric] a_def [symmetric]
        doy_def [symmetric] by simp
    show "n + 719468 = era * 146097 + 36524 * c + 1461 * q + 365 * a + doy"
      using z rs by (simp add: z_def [symmetric] r_def doy_def)
    show "a = 3 \<and> (q = 24 \<longrightarrow> c = 3)" if "doy = 365"
      using ab(5) [OF that] rs cb by auto
  qed (use cb ab q in auto)
qed

lemma mp_bounds:
  fixes doy :: int
  assumes "0 \<le> doy" "doy \<le> 365" "mp = (5 * doy + 2) div 153"
  shows "0 \<le> mp" "mp \<le> 11" "(153 * mp + 2) div 5 \<le> doy"
    "doy < (153 * (mp + 1) + 2) div 5"
proof -
  have r: "153 * mp \<le> 5 * doy + 2" "5 * doy + 2 < 153 * mp + 153"
    using assms(3) by simp_all
  show "0 \<le> mp" "mp \<le> 11" using r assms(1,2) by linarith+
  show "(153 * mp + 2) div 5 \<le> doy" using r by linarith
  have "5 * (doy + 1) \<le> 153 * (mp + 1) + 2" using r by simp
  then have "5 * (doy + 1) div 5 \<le> (153 * (mp + 1) + 2) div 5" by (intro zdiv_mono1) simp_all
  then show "doy < (153 * (mp + 1) + 2) div 5" by simp
qed

lemma days_of_civil_of_days: "civil_of_days n = (y, m, d) \<Longrightarrow> days_of_civil y m d = n"
proof -
  assume eq: "civil_of_days n = (y, m, d)"
  obtain era c q a doy mp where
    civ: "civil_of_days n = (let m = (if mp < 10 then mp + 3 else mp - 9) in
       (100 * c + 4 * q + a + era * 400 + (if m \<le> 2 then 1 else 0), m, doy - (153 * mp + 2) div 5 + 1))"
    and b: "0 \<le> c" "c \<le> 3" "0 \<le> q" "q \<le> 24" "0 \<le> a" "a \<le> 3" "0 \<le> doy" "doy \<le> 365"
    and mp: "mp = (5 * doy + 2) div 153"
    and n: "n + 719468 = era * 146097 + 36524 * c + 1461 * q + 365 * a + doy"
    by (rule civil_obtain)
  note mb = mp_bounds [OF b(7,8) mp]
  from civ eq have m: "m = (if mp < 10 then mp + 3 else mp - 9)"
    and y: "y = 100 * c + 4 * q + a + era * 400 + (if m \<le> 2 then 1 else 0)"
    and d: "d = doy - (153 * mp + 2) div 5 + 1" by (auto simp: Let_def)
  have m2: "m \<le> 2 \<longleftrightarrow> \<not> mp < 10" using m mb by auto
  have mp': "(if m \<le> 2 then m + 9 else m - 3) = mp" using m m2 by auto
  let ?yoe = "100 * c + 4 * q + a"
  have y': "(if m \<le> 2 then y - 1 else y) = ?yoe + era * 400" using y by auto
  have yoe: "0 \<le> ?yoe" "?yoe < 400" using b by auto
  have dv: "(?yoe + era * 400) div 400 = era" "(?yoe + era * 400) mod 400 = ?yoe" using yoe by auto
  have div4: "?yoe div 4 = 25 * c + q" using b by linarith
  have div100: "?yoe div 100 = c" using b by linarith
  show ?thesis
    unfolding days_of_civil_def Let_def mp' y' dv div4 div100 d using n by simp
qed

lemma month_lengths:
  assumes "0 \<le> mp" "mp \<le> (11::int)" "(153 * mp + 2) div 5 \<le> doy" "doy < (153 * (mp + 1) + 2) div 5"
    "m = (if mp < 10 then mp + 3 else mp - 9)" "doy < 365 \<or> is_leap y" "doy \<le> 365"
  shows "doy - (153 * mp + 2) div 5 + 1 \<le> days_in_month y m"
proof -
  have "mp = 0 \<or> mp = 1 \<or> mp = 2 \<or> mp = 3 \<or> mp = 4 \<or> mp = 5 \<or> mp = 6 \<or> mp = 7 \<or> mp = 8 \<or>
      mp = 9 \<or> mp = 10 \<or> mp = 11" using assms(1,2) by presburger
  then show ?thesis using assms(3-) by (elim disjE) (auto simp: days_in_month_def)
qed

lemma civil_of_days_valid:
  assumes eq: "civil_of_days n = (y, m, d)"
  shows "1 \<le> m" "m \<le> 12" "1 \<le> d" "d \<le> days_in_month y m"
proof -
  obtain era c q a doy mp where
    civ: "civil_of_days n = (let m = (if mp < 10 then mp + 3 else mp - 9) in
       (100 * c + 4 * q + a + era * 400 + (if m \<le> 2 then 1 else 0), m, doy - (153 * mp + 2) div 5 + 1))"
    and b: "0 \<le> c" "c \<le> 3" "0 \<le> q" "q \<le> 24" "0 \<le> a" "a \<le> 3" "0 \<le> doy" "doy \<le> 365"
    and mp: "mp = (5 * doy + 2) div 153"
    and leap: "doy = 365 \<Longrightarrow> a = 3 \<and> (q = 24 \<longrightarrow> c = 3)"
    by (rule civil_obtain) blast
  note mb = mp_bounds [OF b(7,8) mp]
  from civ eq have m: "m = (if mp < 10 then mp + 3 else mp - 9)"
    and y: "y = 100 * c + 4 * q + a + era * 400 + (if m \<le> 2 then 1 else 0)"
    and d: "d = doy - (153 * mp + 2) div 5 + 1" by (auto simp: Let_def)
  show "1 \<le> m" "m \<le> 12" "1 \<le> d" using m d mb by auto
  have "is_leap y" if "doy = 365"
  proof -
    have "mp = 11" using that mp by simp
    then have y4: "y = 100 * c + 4 * (q + 1) + era * 400" using y m leap [OF that] by auto
    have y400: "q = 24 \<Longrightarrow> y = 400 * (era + 1)" using y4 leap [OF that] by simp
    have "y = 4 * (25 * c + q + 1 + 100 * era)" using y4 by simp
    then have "y mod 4 = 0" by simp
    moreover have "y mod 100 \<noteq> 0 \<or> y mod 400 = 0"
    proof (cases "q = 24")
      case True
      then show ?thesis using y400 by simp
    next
      case False
      then have "0 < 4 * (q + 1)" "4 * (q + 1) < 100" using b by auto
      moreover have "y = 4 * (q + 1) + (c + 4 * era) * 100" using y4 by simp
      ultimately have "y mod 100 = 4 * (q + 1)"
        by (metis mod_mult_self1 mod_pos_pos_trivial less_imp_le)
      with b show ?thesis by simp
    qed
    ultimately show ?thesis by (simp add: is_leap_def)
  qed
  then have "doy < 365 \<or> is_leap y" using b by fastforce
  from month_lengths [OF mb m this b(8)] show "d \<le> days_in_month y m" by (simp add: d)
qed

subsection \<open>Digits\<close>

lemma digit_char_of: "d < 10 \<Longrightarrow> of_char (digit_char d) = 48 + d"
  by (simp add: digit_char_def)

lemma of_digit_int:
  assumes "d < 10"
  shows "(of_char (digit_char d) :: int) = 48 + int d"
proof -
  have "int (of_char (digit_char d)) = int (48 + d)" by (simp only: digit_char_of [OF assms])
  then show ?thesis by (simp only: of_nat_of_char of_nat_add of_nat_numeral)
qed

lemma is_digit_digit_char: "d < 10 \<Longrightarrow> is_digit (digit_char d)"
  by (simp add: is_digit_def digit_char_of Let_def)

lemma digits_val_append: "digits_val (s @ [c]) = 10 * digits_val s + (of_char c - 48)"
  by (simp add: digits_val_def)

lemma digits_val_nat_str: "digits_val (nat_str n) = int n"
proof (induction n rule: nat_str.induct)
  case (1 n)
  show ?case
  proof (cases "n < 10")
    case True
    then show ?thesis by (simp add: nat_str.simps [of n] digits_val_def of_digit_int)
  next
    case False
    then have "digits_val (nat_str (n div 10)) = int (n div 10)" using 1 by simp
    with False show ?thesis
      by (simp add: nat_str.simps [of n] digits_val_append of_digit_int zmod_int zdiv_int)
  qed
qed

lemma digits_nat_str: "list_all is_digit (nat_str n)"
proof (induction n rule: nat_str.induct)
  case (1 n)
  then show ?case
    by (cases "n < 10") (simp_all add: nat_str.simps [of n] is_digit_digit_char)
qed

lemma digits_val_zeros: "digits_val (replicate k (CHR ''0'') @ s) = digits_val s"
proof -
  have "fold (\<lambda>c n. 10 * n + (of_char c - 48)) (replicate k (CHR ''0'')) 0 = (0 :: int)"
    by (induction k) simp_all
  then show ?thesis by (simp add: digits_val_def)
qed

lemma digits_val_pad: "0 \<le> n \<Longrightarrow> digits_val (pad w n) = n"
  by (simp add: pad_def Let_def digits_val_zeros digits_val_nat_str)

lemma digits_pad: "list_all is_digit (pad w n)"
  using digits_nat_str [of "nat n"] by (auto simp: pad_def Let_def list_all_iff is_digit_def)

subsection \<open>The rendered fields\<close>

lemma civil_split: obtains y m d where "civil_of_days n = (y, m, d)"
  by (cases "civil_of_days n") auto

lemma civil_year_bounds:
  assumes eq: "civil_of_days n = (y, m, d)"
    and n: "days_of_civil 1 1 1 \<le> n" "n \<le> days_of_civil 9999 12 31"
  shows "1 \<le> y" "y \<le> 9999"
proof -
  obtain era c q a doy mp where
    civ: "civil_of_days n = (let m = (if mp < 10 then mp + 3 else mp - 9) in
       (100 * c + 4 * q + a + era * 400 + (if m \<le> 2 then 1 else 0), m, doy - (153 * mp + 2) div 5 + 1))"
    and b: "0 \<le> c" "c \<le> 3" "0 \<le> q" "q \<le> 24" "0 \<le> a" "a \<le> 3" "0 \<le> doy" "doy \<le> 365"
    and mp: "mp = (5 * doy + 2) div 153"
    and z: "n + 719468 = era * 146097 + 36524 * c + 1461 * q + 365 * a + doy"
    by (rule civil_obtain)
  from civ eq have m: "m = (if mp < 10 then mp + 3 else mp - 9)"
    and y: "y = 100 * c + 4 * q + a + era * 400 + (if m \<le> 2 then 1 else 0)" by (auto simp: Let_def)
  have lo: "306 \<le> era * 146097 + 36524 * c + 1461 * q + 365 * a + doy"
    and hi: "era * 146097 + 36524 * c + 1461 * q + 365 * a + doy \<le> 3652364"
    using n by (simp_all add: z [symmetric] days_of_civil_def)
  have m2: "m \<le> 2" if "306 \<le> doy"
  proof -
    have "10 \<le> mp" using that mp by linarith
    with mp_bounds [OF b(7,8) mp] show ?thesis by (simp add: m)
  qed
  have m3: "\<not> m \<le> 2" if "doy \<le> 305"
  proof -
    have "mp < 10" "0 \<le> mp" using that b mp by simp_all
    then show ?thesis by (simp add: m)
  qed
  have era: "0 \<le> era" "era \<le> 24" using lo hi b by linarith+
  show "1 \<le> y"
  proof (cases "era = 0 \<and> c = 0 \<and> q = 0 \<and> a = 0")
    case True
    then show ?thesis using m2 lo y by simp
  next
    case False
    then have "1 \<le> era \<or> 1 \<le> c \<or> 1 \<le> q \<or> 1 \<le> a" using b era by linarith
    then have "1 \<le> 100 * c + 4 * q + a + era * 400" using b era by linarith
    then show ?thesis using y by simp
  qed
  show "y \<le> 9999"
  proof (cases "era = 24 \<and> c = 3 \<and> q = 24 \<and> a = 3")
    case True
    then show ?thesis using m3 hi y by simp
  next
    case False
    then have "era \<le> 23 \<or> c \<le> 2 \<or> q \<le> 23 \<or> a \<le> 2" using b era by linarith
    then have "100 * c + 4 * q + a + era * 400 \<le> 9998" using b era by linarith
    then show ?thesis using y by simp
  qed
qed

lemma matches_append:
  "length t = length s \<Longrightarrow> matches_template (t @ t') (s @ s') \<longleftrightarrow> matches_template t s \<and> matches_template t' s'"
  by (simp add: matches_template_def list_all2_append)

lemma matches_digits: "list_all is_digit s \<Longrightarrow> length s = k \<Longrightarrow> matches_template (replicate k (CHR ''0'')) s"
  by (auto simp: matches_template_def list_all2_conv_all_nth list_all_length)

lemma length_pad': "0 \<le> n \<Longrightarrow> n < 10 ^ w \<Longrightarrow> 0 < w \<Longrightarrow> length (pad w n) = w"
  using length_pad [of w n] by simp

definition stamp :: "int \<Rightarrow> int \<Rightarrow> int \<Rightarrow> int \<Rightarrow> int \<Rightarrow> int \<Rightarrow> int \<Rightarrow> string" where
  "stamp y m d hh mi ss us =
     pad 4 y @ ''-'' @ pad 2 m @ ''-'' @ pad 2 d @ ''T'' @ pad 2 hh @ '':'' @ pad 2 mi @ '':'' @
     pad 2 ss @ ''.'' @ pad 6 us @ ''Z''"

lemma upper_digits: "list_all is_digit s \<Longrightarrow> upper s = s"
proof (induction s)
  case (Cons c s)
  then have "upper_char c = c" by (auto simp: upper_char_def is_digit_def Let_def)
  with Cons show ?case by (simp add: upper_def)
qed (simp add: upper_def)

lemma upper_append: "upper (s @ t) = upper s @ upper t"
  by (simp add: upper_def)

lemma takeWhile_digits_then: "list_all is_digit s \<Longrightarrow> \<not> is_digit c \<Longrightarrow>
    takeWhile is_digit (s @ c # t) = s \<and> dropWhile is_digit (s @ c # t) = c # t"
  by (induction s) auto

definition stamp_ok :: "int \<Rightarrow> int \<Rightarrow> int \<Rightarrow> int \<Rightarrow> int \<Rightarrow> int \<Rightarrow> int \<Rightarrow> bool" where
  "stamp_ok y m d hh mi ss us \<longleftrightarrow> 0 \<le> y \<and> y < 10000 \<and> 0 \<le> m \<and> m < 100 \<and> 0 \<le> d \<and> d < 100 \<and>
     0 \<le> hh \<and> hh < 100 \<and> 0 \<le> mi \<and> mi < 100 \<and> 0 \<le> ss \<and> ss < 100 \<and> 0 \<le> us \<and> us < 1000000"

lemma stamp_lengths:
  assumes "stamp_ok y m d hh mi ss us"
  shows "length (pad 4 y) = 4" "length (pad 2 m) = 2" "length (pad 2 d) = 2"
    "length (pad 2 hh) = 2" "length (pad 2 mi) = 2" "length (pad 2 ss) = 2" "length (pad 6 us) = 6"
  using assms by (simp_all add: stamp_ok_def length_pad')

lemma upper_stamp: "upper (stamp y m d hh mi ss us) = stamp y m d hh mi ss us"
  unfolding stamp_def upper_append upper_digits [OF digits_pad]
  by (simp add: upper_def upper_char_def)

lemma stamp_head: "stamp_ok y m d hh mi ss us \<Longrightarrow> take 19 (stamp y m d hh mi ss us) =
    pad 4 y @ ''-'' @ pad 2 m @ ''-'' @ pad 2 d @ ''T'' @ pad 2 hh @ '':'' @ pad 2 mi @ '':'' @ pad 2 ss"
  by (simp add: stamp_def stamp_lengths)

lemma stamp_rest: "stamp_ok y m d hh mi ss us \<Longrightarrow>
    drop 19 (stamp y m d hh mi ss us) = CHR ''.'' # pad 6 us @ ''Z''"
  by (simp add: stamp_def stamp_lengths)

lemma stamp_fields:
  assumes "stamp_ok y m d hh mi ss us"
  shows "take 4 (stamp y m d hh mi ss us) = pad 4 y"
  "take 2 (drop 5 (stamp y m d hh mi ss us)) = pad 2 m"
  "take 2 (drop 8 (stamp y m d hh mi ss us)) = pad 2 d"
  "take 2 (drop 11 (stamp y m d hh mi ss us)) = pad 2 hh"
  "take 2 (drop 14 (stamp y m d hh mi ss us)) = pad 2 mi"
  "take 2 (drop 17 (stamp y m d hh mi ss us)) = pad 2 ss"
  by (simp_all add: stamp_def stamp_lengths [OF assms])

lemma stamp_fraction:
  "takeWhile is_digit (pad 6 us @ ''Z'') = pad 6 us" "dropWhile is_digit (pad 6 us @ ''Z'') = ''Z''"
  using takeWhile_digits_then [OF digits_pad, of "CHR ''Z''" 6 us "[]"] by (simp_all add: is_digit_def)

definition zeros :: "nat \<Rightarrow> string" where
  "zeros k = replicate k (CHR ''0'')"

lemma matches_zeros: "length s = k \<Longrightarrow> list_all is_digit s \<Longrightarrow>
    matches_template (zeros k @ t) (s @ s') \<longleftrightarrow> matches_template t s'"
  using matches_append [of "zeros k" s t s'] by (simp add: zeros_def matches_digits)

lemma matches_zeros_end: "length s = k \<Longrightarrow> list_all is_digit s \<Longrightarrow> matches_template (zeros k) s"
  by (simp add: zeros_def matches_digits)

lemma matches_char: "c \<in> {CHR ''-'', CHR '':'', CHR ''T''} \<Longrightarrow>
    matches_template (c # t) (c # s) \<longleftrightarrow> matches_template t s"
  by (auto simp: matches_template_def upper_char_def)

lemma stamp_template: "''0000-00-00T00:00:00'' =
    zeros 4 @ CHR ''-'' # zeros 2 @ CHR ''-'' # zeros 2 @ CHR ''T'' # zeros 2 @ CHR '':'' # zeros 2 @
    CHR '':'' # zeros 2 @ []"
  by (simp add: zeros_def numeral_eq_Suc)

lemma stamp_shape:
  assumes "stamp_ok y m d hh mi ss us"
  shows "contract_shape (stamp y m d hh mi ss us)"
proof -
  note l = stamp_lengths [OF assms]
  have e: "take 19 (stamp y m d hh mi ss us) = pad 4 y @ CHR ''-'' # pad 2 m @ CHR ''-'' # pad 2 d @
      CHR ''T'' # pad 2 hh @ CHR '':'' # pad 2 mi @ CHR '':'' # pad 2 ss @ []"
    by (simp add: stamp_head [OF assms])
  have h: "matches_template ''0000-00-00T00:00:00'' (take 19 (stamp y m d hh mi ss us))"
    unfolding e stamp_template matches_zeros [OF l(1) digits_pad] matches_zeros [OF l(2) digits_pad]
      matches_zeros [OF l(3) digits_pad] matches_zeros [OF l(4) digits_pad]
      matches_zeros [OF l(5) digits_pad] matches_zeros [OF l(6) digits_pad]
    by (simp add: matches_char matches_zeros matches_zeros_end l digits_pad)
  have "pad 6 us \<noteq> []" using l(7) by force
  with h show ?thesis
    by (simp add: contract_shape_def stamp_rest [OF assms] stamp_fraction zone_shape_def
        matches_template_def upper_char_def)
qed

lemma parse_stamp:
  assumes ok: "stamp_ok y m d hh mi ss us"
    and r: "1 \<le> y" "1 \<le> m" "m \<le> 12" "1 \<le> d" "d \<le> days_in_month y m" "hh \<le> 23" "mi \<le> 59" "ss \<le> 59"
    and n: "n = days_of_civil y m d * 86400000000 + (hh * 3600 + mi * 60 + ss) * 1000000 + us"
    and v: "valid_instant n"
  shows "parse_timestamp (stamp y m d hh mi ss us) = Inr (Aware n)"
proof -
  have vals: "digits_val (pad 4 y) = y" "digits_val (pad 2 m) = m" "digits_val (pad 2 d) = d"
      "digits_val (pad 2 hh) = hh" "digits_val (pad 2 mi) = mi" "digits_val (pad 2 ss) = ss"
      "digits_val (pad 6 us) = us"
    using ok by (simp_all add: stamp_ok_def digits_val_pad)
  have "offset_us ''Z'' = 0" by (simp add: offset_us_def)
  then show ?thesis
    unfolding parse_timestamp_def Let_def stamp_fields [OF ok] stamp_rest [OF ok] vals
    using r v n by (simp add: stamp_fraction stamp_lengths [OF ok] vals)
qed

lemma iso_stamp: "iso_microseconds us @ ''Z'' =
    (case civil_of_days (us div 86400000000) of (y, m, d) \<Rightarrow>
       let t = us mod 86400000000 in
       stamp y m d (t div 3600000000) (t div 60000000 mod 60) (t div 1000000 mod 60) (t mod 1000000))"
  by (simp add: iso_microseconds_def stamp_def Let_def split: prod.splits)

lemma time_of_day:
  fixes t :: int
  assumes "0 \<le> t" "t < 86400000000"
  shows "0 \<le> t div 3600000000" "t div 3600000000 \<le> 23"
    "t = ((t div 3600000000) * 3600 + (t div 60000000 mod 60) * 60 + t div 1000000 mod 60) * 1000000
       + t mod 1000000"
proof -
  show "0 \<le> t div 3600000000" "t div 3600000000 \<le> 23" using assms by simp_all
  have h: "t div (60000000 * 60) = t div 60000000 div 60" by (rule zdiv_zmult2_eq) simp
  have m: "t div (1000000 * 60) = t div 1000000 div 60" by (rule zdiv_zmult2_eq) simp
  define s where "s = t div 1000000"
  define mm where "mm = t div 60000000"
  have t: "t = s * 1000000 + t mod 1000000" by (simp add: s_def)
  have s: "s = mm * 60 + s mod 60" using m by (simp add: s_def mm_def)
  have mm: "mm = t div 3600000000 * 60 + mm mod 60" using h by (simp add: mm_def)
  have "s * 1000000 = (t div 3600000000 * 3600 + mm mod 60 * 60 + s mod 60) * 1000000"
    using s mm by simp
  with t show "t = ((t div 3600000000) * 3600 + (t div 60000000 mod 60) * 60 +
      t div 1000000 mod 60) * 1000000 + t mod 1000000" unfolding s_def mm_def by linarith
qed

lemma parse_render:
  assumes v: "valid_instant us"
  shows "parse_contract_timestamp (iso_microseconds us @ ''Z'') = Inr (Aware us)"
proof -
  let ?n = "us div 86400000000" and ?t = "us mod 86400000000"
  obtain y m d where civ: "civil_of_days ?n = (y, m, d)" by (rule civil_split)
  have n: "days_of_civil 1 1 1 \<le> ?n" "?n \<le> days_of_civil 9999 12 31"
    using v by (simp_all add: valid_instant_def min_instant_def max_instant_def) linarith+
  note yb = civil_year_bounds [OF civ n] and cv = civil_of_days_valid [OF civ]
  have t: "0 \<le> ?t" "?t < 86400000000" by simp_all
  note td = time_of_day [OF t]
  have dim: "days_in_month y m \<le> 31" by (simp add: days_in_month_def)
  let ?hh = "?t div 3600000000" and ?mi = "?t div 60000000 mod 60" and ?ss = "?t div 1000000 mod 60"
    and ?us = "?t mod 1000000"
  have ok: "stamp_ok y m d ?hh ?mi ?ss ?us"
    using yb cv dim td(1,2) unfolding stamp_ok_def by (intro conjI) simp_all
  have us: "us = days_of_civil y m d * 86400000000 + (?hh * 3600 + ?mi * 60 + ?ss) * 1000000 + ?us"
    unfolding days_of_civil_of_days [OF civ] using td(3) div_mult_mod_eq [of us 86400000000] by linarith
  have sixty: "?mi \<le> 59" "?ss \<le> 59"
    using pos_mod_bound [of 60 "?t div 60000000"] pos_mod_bound [of 60 "?t div 1000000"] by linarith+
  have "parse_timestamp (stamp y m d ?hh ?mi ?ss ?us) = Inr (Aware us)"
    by (rule parse_stamp [OF ok yb(1) cv td(2) sixty us v])
  then show ?thesis
    using stamp_shape [OF ok]
    by (simp add: parse_contract_timestamp_def iso_stamp civ Let_def upper_stamp)
qed

subsection \<open>Properties\<close>

text \<open>C16: an aware time of the years 1 to 9999 is rendered, and the governance contracts read the
  rendered text back as the same instant.\<close>

theorem timestamp_roundtrip:
  assumes "valid_instant us"
  shows "\<exists>s. to_json_timestamp (Aware us) = Inr s \<and> parse_contract_timestamp s = Inr (Aware us)"
  using parse_render [OF assms] by (simp add: to_json_timestamp_def)

lemma timestamp_roundtrip_witness:
  "\<exists>s. to_json_timestamp (Aware 951782400000001) = Inr s \<and>
     parse_contract_timestamp s = Inr (Aware 951782400000001)"
  by (rule timestamp_roundtrip)
    (simp add: valid_instant_def min_instant_def max_instant_def days_of_civil_def)

end
