(* ===== verification/Governance_Store.thy ===== *)
theory Governance_Store
  imports Governance_Service Governance_Properties Timestamp_Facts
begin

section \<open>The policy history behind the governance repository\<close>

text \<open>
  The abstract state of the repository is the history of policies of every case, oldest first.
  The locale \<open>gov_store\<close> states what the services rely on: a save succeeds exactly against the
  current length of the history and appends to it, a read gives its last element, and an audit
  leaves it alone.  Inside it, runs of the services only extend histories and a revision is granted
  once.  The SQLite tables are the instance.
\<close>

subsection \<open>Steps of the services\<close>

definition readable_time :: "datetime \<Rightarrow> bool" where
  "readable_time t \<longleftrightarrow> (case t of Aware us \<Rightarrow> valid_instant us | Naive us \<Rightarrow> valid_instant us)"

inductive gov_step :: "'r gov_ports \<Rightarrow> (string \<Rightarrow> string) \<Rightarrow> 'r \<Rightarrow> 'r \<Rightarrow> bool"
  for P :: "'r gov_ports" and sha :: "string \<Rightarrow> string" where
  configured: "configure P r c k s i now = Inr (r', p) \<Longrightarrow> readable_time now \<Longrightarrow> gov_step P sha r r'"
| evaluated: "evaluate P sha r d dest i now = Inr (r', a) \<Longrightarrow> data_ok d \<Longrightarrow> readable_time now \<Longrightarrow>
    gov_step P sha r r'"
| projected: "evaluate_projection P sha r j dest i now = Inr (r', a) \<Longrightarrow>
    make_ai_data_reference (sap_source j) = Inr (sap_source j) \<Longrightarrow> readable_time now \<Longrightarrow>
    gov_step P sha r r'"

inductive gov_run :: "'r gov_ports \<Rightarrow> (string \<Rightarrow> string) \<Rightarrow> 'r \<Rightarrow> 'r \<Rightarrow> bool"
  for P :: "'r gov_ports" and sha :: "string \<Rightarrow> string" where
  none: "gov_run P sha r r"
| more: "gov_run P sha r r' \<Longrightarrow> gov_step P sha r' r'' \<Longrightarrow> gov_run P sha r r''"

subsection \<open>What an assessment does\<close>

lemma assess_cases:
  assumes "assess P sha r d dest i now = Inr (r', a)"
  obtains s secret d' pol res where
    "get_source P r (adr_case_id (aed_source d)) (adr_source_id (aed_source d))
       (adr_source_type (aed_source d)) = Inr s"
    "ai_data_reference_of sha s = Inr (aed_source d)"
    "source_has_secret_fields sha s = Inr secret"
    "(if secret then make_ai_egress_data (d\<lparr>aed_classification := data_classification.SECRET,
        aed_contains_secrets := aed_contains_secrets d \<or> \<not> redaction_applied d\<rparr>) else Inr d) = Inr d'"
    "gp_get_policy P r (adr_case_id (aed_source d)) = Inr pol"
    "evaluate_ai_egress sha pol d' dest = Inr res"
    "make_ai_egress_audit a = Inr a"
    "a = \<lparr>aea_audit_id = i, aea_result = res, aea_created_at = now\<rparr>"
    "gp_append_audit P r a = Inr r'"
proof -
  from assms obtain s cur where 1: "get_source P r (adr_case_id (aed_source d))
      (adr_source_id (aed_source d)) (adr_source_type (aed_source d)) = Inr s"
    "ai_data_reference_of sha s = Inr cur" "cur = aed_source d"
    by (auto simp: assess_def Let_def split: if_splits)
  from assms obtain secret where 2: "source_has_secret_fields sha s = Inr secret"
    using 1 by (auto simp: assess_def Let_def)
  let ?up = "if secret then make_ai_egress_data (d\<lparr>aed_classification := data_classification.SECRET,
        aed_contains_secrets := aed_contains_secrets d \<or> \<not> redaction_applied d\<rparr>) else Inr d"
  have "bind_res ?up (\<lambda>data. bind_res (gp_get_policy P r (adr_case_id (aed_source d))) (\<lambda>policy.
      bind_res (evaluate_ai_egress sha policy data dest) (\<lambda>result.
      bind_res (make_ai_egress_audit \<lparr>aea_audit_id = i, aea_result = result, aea_created_at = now\<rparr>)
      (\<lambda>a. map_res (\<lambda>r'. (r', a)) (gp_append_audit P r a))))) = Inr (r', a)"
    using assms 1 2 by (simp add: assess_def Let_def del: bind_res_eq_Inr)
  then obtain d' pol res a' where 3: "?up = Inr d'"
    "gp_get_policy P r (adr_case_id (aed_source d)) = Inr pol"
    "evaluate_ai_egress sha pol d' dest = Inr res"
    "make_ai_egress_audit \<lparr>aea_audit_id = i, aea_result = res, aea_created_at = now\<rparr> = Inr a'"
    "gp_append_audit P r a' = Inr r'" "a = a'"
    unfolding bind_res_eq_Inr map_res_eq_Inr by blast
  have "a' = \<lparr>aea_audit_id = i, aea_result = res, aea_created_at = now\<rparr>"
    using 3(4) by (auto simp: make_ai_egress_audit_def split: if_splits)
  with 1 2 3 show thesis by (intro that [of s secret d' pol res]) simp_all
qed

lemma evaluate_wf:
  assumes "evaluate_ai_egress sha pol d dest = Inr res"
  shows "make_ai_egress_result res = Inr res" "aer_data res = d" "aer_destination res = dest"
proof -
  have "make_ai_egress_result res = Inr res \<and> aer_data res = d \<and> aer_destination res = dest"
  proof (cases pol)
    case None
    with assms show ?thesis by (auto simp: evaluate_none make_ai_egress_result_def)
  next
    case (Some p)
    then obtain fp where "make_ai_egress_result (result_of p d dest fp) = Inr res"
      using assms by (auto simp: evaluate_eq result_of_def)
    from make_result_id [OF this] this show ?thesis by (simp add: result_of_def)
  qed
  then show "make_ai_egress_result res = Inr res" "aer_data res = d" "aer_destination res = dest"
    by simp_all
qed

lemma configure_cases:
  assumes "configure P r c k s i now = Inr (r', p)"
  shows "gp_has_case P r c" "0 \<le> k" "policy_ok p" "cap_case_id p = c" "cap_revision p = k + 1"
    "cap_policy_id p = i" "cap_created_at p = now" "gp_save_policy P r p k = Inr r'"
proof -
  note c = assms [unfolded configure_def require_case_def]
  show "gp_has_case P r c" "0 \<le> k" "gp_save_policy P r p k = Inr r'" using c by (auto split: if_splits)
  from c obtain q where q: "make_case_ai_policy q = Inr p" "cap_case_id q = c" "cap_revision q = k + 1"
    "cap_policy_id q = i" "cap_created_at q = now"
    by (auto split: if_splits)
  then show "policy_ok p" by (auto dest: make_policy_ok)
  show "cap_case_id p = c" "cap_revision p = k + 1" "cap_policy_id p = i" "cap_created_at p = now"
    using q by (auto simp: make_case_ai_policy_def split: if_splits)
qed

lemma evaluate_assess: "evaluate P sha r d dest i now = Inr x \<Longrightarrow>
    \<not> projection_applied d \<and> assess P sha r d dest i now = Inr x"
  by (simp add: evaluate_def split: if_splits)

lemma evaluate_projection_cases:
  assumes "evaluate_projection P sha r j dest i now = Inr x"
  obtains s b d where
    "get_source P r (adr_case_id (sap_source j)) (adr_source_id (sap_source j))
       (adr_source_type (sap_source j)) = Inr s"
    "build_safe_ai_projection sha s (sap_classification j) False
       (Some (List.map fst (sap_selected_fields j))) = Inr b"
    "projection_eq b j" "projection_egress_data sha j = Inr d"
    "assess P sha r d dest i now = Inr x"
  using assms by (auto simp: evaluate_projection_def create_projection_def Let_def split: if_splits)

text \<open>What is assessed is well-formed when the request is.\<close>

lemma make_data_id:
  assumes "make_ai_egress_data d = Inr d'" shows "make_ai_egress_data d' = Inr d'"
  using assms by (auto simp: make_ai_egress_data_def Let_def split: if_splits option.splits)

lemma make_data_source: "make_ai_egress_data d = Inr d' \<Longrightarrow> aed_source d' = aed_source d"
  by (auto simp: make_ai_egress_data_def Let_def split: if_splits option.splits)

lemma assessed_ok:
  assumes "data_ok d" "(if secret then make_ai_egress_data (d\<lparr>aed_classification := c,
      aed_contains_secrets := b\<rparr>) else Inr d) = Inr d'"
  shows "data_ok d'" "aed_source d' = aed_source d"
  using assms by (auto simp: data_ok_def dest: make_data_id make_data_source split: if_splits)

lemma projection_data_ok:
  assumes "make_ai_data_reference (sap_source j) = Inr (sap_source j)"
    "projection_egress_data sha j = Inr d"
  shows "data_ok d"
  using assms by (auto simp: projection_egress_data_def data_ok_def dest: make_data_id make_data_source)

subsection \<open>The contract of the repository\<close>

definition revision_conflict :: exn where
  "revision_conflict = state_conflict_error ''Case AI policy revision changed.'' None"

locale gov_store =
  fixes P :: "'r gov_ports" and inv :: "'r \<Rightarrow> bool" and hist :: "'r \<Rightarrow> string \<Rightarrow> case_ai_policy list"
  assumes save_ok: "inv r \<Longrightarrow> policy_ok p \<Longrightarrow> readable_time (cap_created_at p) \<Longrightarrow>
      gp_save_policy P r p k = Inr r' \<Longrightarrow>
      inv r' \<and> k = int (length (hist r (cap_case_id p))) \<and>
      hist r' = (hist r)(cap_case_id p := hist r (cap_case_id p) @ [p])"
    and save_stale: "inv r \<Longrightarrow> policy_ok p \<Longrightarrow> 0 \<le> k \<Longrightarrow> cap_revision p = k + 1 \<Longrightarrow>
      k \<noteq> int (length (hist r (cap_case_id p))) \<Longrightarrow> gp_save_policy P r p k = Inl revision_conflict"
    and get_last: "inv r \<Longrightarrow>
      gp_get_policy P r c = Inr (if hist r c = [] then None else Some (last (hist r c)))"
    and append_keeps: "inv r \<Longrightarrow> data_ok (aer_data (aea_result a)) \<Longrightarrow>
      make_ai_egress_audit a = Inr a \<Longrightarrow> make_ai_egress_result (aea_result a) = Inr (aea_result a) \<Longrightarrow>
      readable_time (aea_created_at a) \<Longrightarrow> gp_append_audit P r a = Inr r' \<Longrightarrow>
      inv r' \<and> hist r' = hist r"
begin

lemma configure_appends:
  assumes "inv r" "configure P r c k s i now = Inr (r', p)" "readable_time now"
  shows "inv r'" "k = int (length (hist r c))" "hist r' = (hist r)(c := hist r c @ [p])"
  using save_ok [OF assms(1) configure_cases(3) [OF assms(2)] _ configure_cases(8) [OF assms(2)]]
    configure_cases [OF assms(2)] assms(3) by simp_all

lemma assess_keeps:
  assumes "inv r" "assess P sha r d dest i now = Inr (r', a)" "data_ok d" "readable_time now"
  shows "inv r' \<and> hist r' = hist r"
  using assms(2)
proof (rule assess_cases)
  fix s secret d' pol res
  assume a: "(if secret then make_ai_egress_data (d\<lparr>aed_classification := data_classification.SECRET,
        aed_contains_secrets := aed_contains_secrets d \<or> \<not> redaction_applied d\<rparr>) else Inr d) = Inr d'"
    "evaluate_ai_egress sha pol d' dest = Inr res" "make_ai_egress_audit a = Inr a"
    "a = \<lparr>aea_audit_id = i, aea_result = res, aea_created_at = now\<rparr>" "gp_append_audit P r a = Inr r'"
  note evaluate_wf [OF a(2)]
  moreover have "data_ok d'" by (rule assessed_ok [OF assms(3) a(1)])
  ultimately show ?thesis using append_keeps [OF assms(1) _ a(3) _ _ a(5)] assms(4) a(4) by simp
qed

lemma step_extends:
  assumes "gov_step P sha r r'" "inv r"
  shows "inv r' \<and> (hist r' = hist r \<or> (\<exists>c p. hist r' = (hist r)(c := hist r c @ [p]) \<and>
    cap_revision p = int (length (hist r c)) + 1))"
  using assms(1)
proof cases
  case (configured c k s i now p)
  note configure_appends [OF assms(2) configured] configure_cases(5) [OF configured(1)]
  then show ?thesis by auto
next
  case (evaluated d dest i now a)
  with assess_keeps [OF assms(2) conjunct2 [OF evaluate_assess [OF evaluated(1)]]] show ?thesis by simp
next
  case (projected j dest i now a)
  from projected(1) obtain d where "projection_egress_data sha j = Inr d"
    "assess P sha r d dest i now = Inr (r', a)" by (rule evaluate_projection_cases)
  with projected assess_keeps [OF assms(2)] projection_data_ok show ?thesis by blast
qed

lemma run_extends:
  assumes "gov_run P sha r r'" "inv r"
  shows "inv r' \<and> (\<exists>more. hist r' c = hist r c @ more)"
  using assms
proof (induction rule: gov_run.induct)
  case (none r)
  then show ?case by simp
next
  case (more r r' r'')
  then obtain ms where ms: "inv r'" "hist r' c = hist r c @ ms" by blast
  from step_extends [OF more.hyps(2) ms(1)] have "inv r''" "\<exists>l. hist r'' c = hist r' c @ l"
    by (auto simp: fun_upd_def)
  with ms show ?case by auto
qed

definition numbered :: "'r \<Rightarrow> bool" where
  "numbered r \<longleftrightarrow> (\<forall>c. List.map cap_revision (hist r c) = [1..int (length (hist r c))])"

lemma run_numbered:
  assumes "gov_run P sha r r'" "inv r" "numbered r"
  shows "numbered r'"
  using assms
proof (induction rule: gov_run.induct)
  case (none r)
  then show ?case by simp
next
  case (more r r' r'')
  have "inv r'" using run_extends [OF more.hyps(1) more.prems(1)] by blast
  from step_extends [OF more.hyps(2) this] more.IH [OF more.prems] show ?case
    by (auto simp: numbered_def upto_rec2 add.commute)
qed

lemma revision_granted_once:
  assumes "inv r" "configure P r c k s i now = Inr (r1, p)" "readable_time now"
    and "gov_run P sha r1 r2" "gp_has_case P r2 c"
    and "is_uuid i'" "is_aware now'" "distinct (ps_allowed_classifications s')"
  shows "configure P r2 c k s' i' now' = Inl revision_conflict"
proof -
  note app = configure_appends [OF assms(1-3)] and cc = configure_cases [OF assms(2)]
  from run_extends [OF assms(4) app(1), of c] obtain more where
    r2: "inv r2" "hist r2 c = hist r1 c @ more" by blast
  then have len: "k \<noteq> int (length (hist r2 c))" using app by simp
  have c: "is_uuid c" using cc(3,4) by (auto simp: policy_ok_def)
  define q where "q = \<lparr>cap_policy_id = i', cap_case_id = c, cap_revision = k + 1,
    cap_created_at = now', cap_ai_enabled = ps_ai_enabled s',
    cap_external_allowed = ps_external_allowed s', cap_local_only = ps_local_only s',
    cap_allowed_classifications = ps_allowed_classifications s',
    cap_secret_handling = ps_secret_handling s', cap_raw_allowed = ps_raw_allowed s',
    cap_redaction_required = ps_redaction_required s',
    cap_projection_required = ps_projection_required s'\<rparr>"
  obtain q' where q': "make_case_ai_policy q = Inr q'"
    using assms(6-8) c cc(2) by (simp add: make_case_ai_policy_def q_def)
  then have "cap_case_id q' = c" "cap_revision q' = k + 1"
    by (auto simp: make_case_ai_policy_def q_def split: if_splits)
  then have "gp_save_policy P r2 q' k = Inl revision_conflict"
    using save_stale [OF r2(1) make_policy_ok [OF q']] cc(2) len by simp
  then show ?thesis
    using assms(5) cc(2) q' by (simp add: configure_def require_case_def q_def)
qed

end

subsection \<open>The tables as an instance\<close>

lemma policy_roundtrip:
  assumes ok: "policy_ok p" "readable_time (cap_created_at p)" and d: "policy_schema_dict p = Inr d"
  shows "policy_from_schema d = Inr p"
proof -
  obtain us where us: "cap_created_at p = Aware us" "valid_instant us"
    using ok by (cases "cap_created_at p") (auto simp: policy_ok_def is_aware_def readable_time_def)
  with d have d': "d =
       [(''schema_version'', PStr ''1.0.0''), (''policy_id'', PStr (cap_policy_id p)),
        (''case_id'', PStr (cap_case_id p)), (''revision'', PInt (cap_revision p)),
        (''created_at'', PStr (iso_microseconds us @ ''Z'')), (''ai_enabled'', PBool (cap_ai_enabled p)),
        (''external_allowed'', PBool (cap_external_allowed p)),
        (''local_only'', PBool (cap_local_only p)),
        (''allowed_classifications'', PList (List.map (\<lambda>c. PStr (data_classification_value c))
           (cap_allowed_classifications p))),
        (''secret_handling'', PStr (ai_secret_handling_value (cap_secret_handling p))),
        (''raw_allowed'', PBool (cap_raw_allowed p)),
        (''redaction_required'', PBool (cap_redaction_required p)),
        (''projection_required'', PBool (cap_projection_required p))]"
    by (simp add: policy_schema_dict_def to_json_timestamp_def)
  have keys: "check_keys d [''schema_version'', ''policy_id'', ''case_id'', ''revision'', ''created_at'',
        ''ai_enabled'', ''external_allowed'', ''local_only'', ''allowed_classifications'',
        ''secret_handling'', ''raw_allowed'', ''redaction_required'', ''projection_required''] = Inr ()"
    by (simp add: check_keys_def d' insert_commute)
  have cs: "field_enum_list data_classification_members data_classification_value d
      ''allowed_classifications'' e = Inr (cap_allowed_classifications p)" for e
    by (rule field_enum_list_values) (simp_all add: d' data_classification_enum.of_val)
  have h: "field_enum ai_secret_handling_members ai_secret_handling_value d ''secret_handling'' e =
      Inr (cap_secret_handling p)" for e
    by (rule field_enum_value) (simp_all add: d' ai_secret_handling_enum.of_val)
  have ver: "dget d ''schema_version'' = Some (PStr ''1.0.0'')" by (simp add: d')
  have strs: "field_str d ''policy_id'' e = Inr (cap_policy_id p)" "field_str d ''case_id'' e = Inr (cap_case_id p)"
    "field_int d ''revision'' e = Inr (cap_revision p)" for e
    by (simp_all add: field_str_def field_int_def d')
  have bools: "field_bool d ''ai_enabled'' = Inr (cap_ai_enabled p)"
    "field_bool d ''external_allowed'' = Inr (cap_external_allowed p)"
    "field_bool d ''local_only'' = Inr (cap_local_only p)"
    "field_bool d ''raw_allowed'' = Inr (cap_raw_allowed p)"
    "field_bool d ''redaction_required'' = Inr (cap_redaction_required p)"
    "field_bool d ''projection_required'' = Inr (cap_projection_required p)"
    by (simp_all add: field_bool_def d')
  have t: "field_timestamp d ''created_at'' = Inr (cap_created_at p)"
    by (simp add: field_timestamp_def d' parse_render us)
  have eta: "\<lparr>cap_policy_id = cap_policy_id p, cap_case_id = cap_case_id p,
      cap_revision = cap_revision p, cap_created_at = cap_created_at p,
      cap_ai_enabled = cap_ai_enabled p, cap_external_allowed = cap_external_allowed p,
      cap_local_only = cap_local_only p,
      cap_allowed_classifications = cap_allowed_classifications p,
      cap_secret_handling = cap_secret_handling p, cap_raw_allowed = cap_raw_allowed p,
      cap_redaction_required = cap_redaction_required p,
      cap_projection_required = cap_projection_required p\<rparr> = p" by (cases p) simp
  have chk: "check_uuid (cap_policy_id p) x = Inr ()" "check_uuid (cap_case_id p) x = Inr ()"
    "check_positive (cap_revision p) x = Inr ()" for x using ok by (simp_all add: policy_ok_def)
  show ?thesis
    unfolding policy_from_schema_def Let_def keys cs h strs bools t chk bind_res.simps ver eta
    using make_policy_id [OF ok(1)] by simp
qed

definition row_ok :: "(string \<Rightarrow> string) \<Rightarrow> policy_row \<Rightarrow> bool" where
  "row_ok sha w \<longleftrightarrow> (\<exists>p. policy_ok p \<and> readable_time (cap_created_at p) \<and>
     cap_policy_id p = pw_policy_id w \<and> cap_case_id p = pw_case_id w \<and> cap_revision p = pw_revision w \<and>
     policy_schema_dict p = Inr (pw_doc w) \<and> policy_fingerprint sha p = Inr (pw_fingerprint w))"

fun row_policy :: "policy_row \<Rightarrow> case_ai_policy option" where
  "row_policy w = (case policy_from_schema (pw_doc w) of Inr p \<Rightarrow> Some p | Inl _ \<Rightarrow> None)"

definition policy_history :: "gov_db \<Rightarrow> string \<Rightarrow> case_ai_policy list" where
  "policy_history db c = List.map_filter row_policy (case_rows db c)"

definition audit_ok :: "ai_egress_audit \<Rightarrow> bool" where
  "audit_ok a \<longleftrightarrow> make_ai_egress_audit a = Inr a \<and> readable_time (aea_created_at a) \<and>
     make_ai_egress_result (aea_result a) = Inr (aea_result a) \<and> data_ok (aer_data (aea_result a))"

definition policy_cited :: "gov_db \<Rightarrow> ai_egress_audit \<Rightarrow> bool" where
  "policy_cited db a \<longleftrightarrow> (let r = aea_result a in
     (case (aer_policy_id r, aer_policy_revision r, aer_policy_fingerprint r) of
        (Some i, Some n, Some f) \<Rightarrow> (\<exists>w \<in> set (gd_policies db).
           pw_case_id w = adr_case_id (aed_source (aer_data r)) \<and>
           pw_policy_id w = i \<and> pw_revision w = n \<and> pw_fingerprint w = f)
      | (None, None, None) \<Rightarrow> aer_decision r = ai_egress_decision.DENY
      | _ \<Rightarrow> False))"

definition audit_row_ok :: "gov_db \<Rightarrow> audit_row \<Rightarrow> bool" where
  "audit_row_ok db w \<longleftrightarrow> (\<exists>a. audit_ok a \<and> policy_cited db a \<and>
     audit_schema_dict a = Inr (aw_doc w) \<and> aw_audit_id w = aea_audit_id a \<and>
     aw_case_id w = adr_case_id (aed_source (aer_data (aea_result a))))"

definition gov_inv :: "(string \<Rightarrow> string) \<Rightarrow> gov_db \<Rightarrow> bool" where
  "gov_inv sha db \<longleftrightarrow> list_all (row_ok sha) (gd_policies db) \<and>
     (\<forall>c. List.map pw_revision (case_rows db c) = [1..int (length (case_rows db c))]) \<and>
     list_all (audit_row_ok db) (gd_audits db)"

lemma max_revision_inv: "gov_inv sha db \<Longrightarrow> max_revision db c = int (length (case_rows db c))"
proof -
  assume "gov_inv sha db"
  then have revs: "List.map pw_revision (case_rows db c) = [1..int (length (case_rows db c))]"
    by (simp add: gov_inv_def)
  show ?thesis
  proof (cases "List.map pw_revision (case_rows db c)")
    case Nil
    then show ?thesis by (simp add: max_revision_def)
  next
    case (Cons n ns)
    then have "max_revision db c = Max (set (n # ns))"
      by (simp only: max_revision_def list.case Max.set_eq_fold)
    also have "set (n # ns) = {1..int (length (case_rows db c))}"
      using revs by (simp only: Cons [symmetric] set_upto)
    also have "Max \<dots> = int (length (case_rows db c))" 
      using Cons by (intro Max_eqI) (auto simp: Suc_le_eq)
    finally show ?thesis .
  qed
qed

lemma latest_row_inv: "gov_inv sha db \<Longrightarrow>
    latest_row db c = (if case_rows db c = [] then None else Some (last (case_rows db c)))"
proof -
  assume "gov_inv sha db"
  then have "List.map pw_revision (case_rows db c) = [1..int (length (case_rows db c))]"
    by (simp add: gov_inv_def)
  then have "sorted (List.map pw_revision (case_rows db c))" by simp
  then have "sort_key pw_revision (case_rows db c) = case_rows db c"
    by (simp add: sorted_sort_id sort_key_id_if_sorted)
  then show ?thesis
    by (simp add: latest_row_def last_rev [symmetric] split: list.split)
qed

lemma row_policy_ok:
  assumes "row_ok sha w"
  obtains p where "row_policy w = Some p" "policy_from_schema (pw_doc w) = Inr p" "policy_ok p"
    "policy_fingerprint sha p = Inr (pw_fingerprint w)" "cap_case_id p = pw_case_id w"
    "cap_revision p = pw_revision w" "cap_policy_id p = pw_policy_id w"
  using assms policy_roundtrip by (fastforce simp: row_ok_def)

lemma map_filter_all: "(\<And>x. x \<in> set xs \<Longrightarrow> f x \<noteq> None) \<Longrightarrow> List.map_filter f xs = List.map (\<lambda>x. the (f x)) xs"
  by (induction xs) (auto simp: map_filter_def)

lemma history_rows: "gov_inv sha db \<Longrightarrow>
    policy_history db c = List.map (\<lambda>w. the (row_policy w)) (case_rows db c)"
proof -
  assume "gov_inv sha db"
  then have "row_ok sha w" if "w \<in> set (case_rows db c)" for w
    using that by (auto simp: gov_inv_def case_rows_def list_all_iff)
  then have "row_policy w \<noteq> None" if "w \<in> set (case_rows db c)" for w
    using that by (metis row_policy_ok option.distinct(1))
  then show ?thesis unfolding policy_history_def by (rule map_filter_all)
qed

lemma save_policy_cases:
  assumes "sqlite_save_policy sha db p k = Inr db'"
  obtains d fp where "policy_schema_dict p = Inr d" "policy_fingerprint sha p = Inr fp"
    "cap_revision p = k + 1" "max_revision db (cap_case_id p) = k"
    "db' = db\<lparr>gd_policies := gd_policies db @
        [\<lparr>pw_policy_id = cap_policy_id p, pw_case_id = cap_case_id p,
          pw_revision = cap_revision p, pw_doc = d, pw_fingerprint = fp\<rparr>]\<rparr>"
  using assms by (auto simp: sqlite_save_policy_def split: if_splits)

lemma audit_row_mono: "audit_row_ok db w \<Longrightarrow> set (gd_policies db) \<subseteq> set (gd_policies db') \<Longrightarrow> audit_row_ok db' w"
  by (fastforce simp: audit_row_ok_def policy_cited_def Let_def split: option.splits)

lemma sqlite_save_inv:
  assumes inv: "gov_inv sha db" and p: "policy_ok p" "readable_time (cap_created_at p)"
    and save: "sqlite_save_policy sha db p k = Inr db'"
  shows "gov_inv sha db'" "k = int (length (policy_history db (cap_case_id p)))"
    "policy_history db' = (policy_history db)(cap_case_id p := policy_history db (cap_case_id p) @ [p])"
proof -
  from save obtain d fp where d: "policy_schema_dict p = Inr d" "policy_fingerprint sha p = Inr fp"
    "cap_revision p = k + 1" "max_revision db (cap_case_id p) = k"
    "db' = db\<lparr>gd_policies := gd_policies db @
        [\<lparr>pw_policy_id = cap_policy_id p, pw_case_id = cap_case_id p,
          pw_revision = cap_revision p, pw_doc = d, pw_fingerprint = fp\<rparr>]\<rparr>"
    by (rule save_policy_cases)
  let ?w = "\<lparr>pw_policy_id = cap_policy_id p, pw_case_id = cap_case_id p,
    pw_revision = cap_revision p, pw_doc = d, pw_fingerprint = fp\<rparr>"
  have rows: "case_rows db' c = case_rows db c @ (if c = cap_case_id p then [?w] else [])" for c
    by (simp add: case_rows_def d(5))
  have k: "k = int (length (case_rows db (cap_case_id p)))"
    using d(4) by (simp add: max_revision_inv [OF inv])
  have w: "row_ok sha ?w" using p d by (auto simp: row_ok_def)
  show inv': "gov_inv sha db'"
    unfolding gov_inv_def
  proof (intro conjI allI)
    show "list_all (row_ok sha) (gd_policies db')" using inv w by (simp add: gov_inv_def d(5))
    show "list_all (audit_row_ok db') (gd_audits db')"
      using inv audit_row_mono [of db _ db'] by (auto simp: gov_inv_def d(5) list_all_iff)
    fix c
    have "List.map pw_revision (case_rows db c) = [1..int (length (case_rows db c))]"
      using inv by (simp add: gov_inv_def)
    then show "List.map pw_revision (case_rows db' c) = [1..int (length (case_rows db' c))]"
      using d(3) k by (simp add: rows upto_rec2 add.commute)
  qed
  show "k = int (length (policy_history db (cap_case_id p)))"
    using k by (simp add: history_rows [OF inv])
  have "row_policy ?w = Some p" using policy_roundtrip [OF p d(1)] by simp
  then show "policy_history db' = (policy_history db)(cap_case_id p := policy_history db (cap_case_id p) @ [p])"
    by (auto simp: fun_eq_iff policy_history_def rows map_filter_def)
qed

lemma sqlite_get_last:
  assumes inv: "gov_inv sha db"
  shows "sqlite_get_policy sha db c =
    Inr (if policy_history db c = [] then None else Some (last (policy_history db c)))"
proof (cases "case_rows db c = []")
  case True
  then show ?thesis by (simp add: sqlite_get_policy_def latest_row_inv [OF inv] history_rows [OF inv])
next
  case False
  then have "last (case_rows db c) \<in> set (gd_policies db)"
    using last_in_set [OF False] by (auto simp: case_rows_def)
  then have "row_ok sha (last (case_rows db c))" using inv by (simp add: gov_inv_def list_all_iff)
  then obtain p where "row_policy (last (case_rows db c)) = Some p"
    "policy_from_schema (pw_doc (last (case_rows db c))) = Inr p"
    "policy_fingerprint sha p = Inr (pw_fingerprint (last (case_rows db c)))"
    by (rule row_policy_ok)
  with False show ?thesis
    by (simp add: sqlite_get_policy_def latest_row_inv [OF inv] history_rows [OF inv] last_map)
qed

lemma sqlite_append_cases:
  assumes "sqlite_append_audit db a = Inr db'"
  obtains t d where "to_json_timestamp (aea_created_at a) = Inr t" "audit_schema_dict a = Inr d"
    "map_option pw_policy_id (latest_row db (adr_case_id (aed_source (aer_data (aea_result a))))) =
       aer_policy_id (aea_result a)"
    "audit_allowed db a"
    "db' = db\<lparr>gd_audits := gd_audits db @ [\<lparr>aw_audit_id = aea_audit_id a,
       aw_case_id = adr_case_id (aed_source (aer_data (aea_result a))),
       aw_source_id = adr_source_id (aed_source (aer_data (aea_result a))), aw_created_at = t,
       aw_doc = d\<rparr>]\<rparr>"
  using assms by (auto simp: sqlite_append_audit_def Let_def split: if_splits)

lemma audit_allowed_cited: "audit_allowed db a \<Longrightarrow> policy_cited db a"
  by (simp add: audit_allowed_def policy_cited_def Let_def)

lemma sqlite_append_inv:
  assumes inv: "gov_inv sha db" and a: "audit_ok a" and app: "sqlite_append_audit db a = Inr db'"
  shows "gov_inv sha db' \<and> policy_history db' = policy_history db"
  using app
proof (rule sqlite_append_cases)
  fix t d
  assume d: "audit_schema_dict a = Inr d" "audit_allowed db a"
    and db': "db' = db\<lparr>gd_audits := gd_audits db @ [\<lparr>aw_audit_id = aea_audit_id a,
       aw_case_id = adr_case_id (aed_source (aer_data (aea_result a))),
       aw_source_id = adr_source_id (aed_source (aer_data (aea_result a))), aw_created_at = t,
       aw_doc = d\<rparr>]\<rparr>"
  have rows: "case_rows db' = case_rows db" by (simp add: case_rows_def db' fun_eq_iff)
  have pol: "gd_policies db' = gd_policies db" by (simp add: db')
  then have "policy_cited db' = policy_cited db" unfolding policy_cited_def fun_eq_iff pol by blast
  then have same: "audit_row_ok db' = audit_row_ok db"
    by (intro ext) (simp add: audit_row_ok_def)
  from d a have "audit_row_ok db \<lparr>aw_audit_id = aea_audit_id a,
       aw_case_id = adr_case_id (aed_source (aer_data (aea_result a))),
       aw_source_id = adr_source_id (aed_source (aer_data (aea_result a))), aw_created_at = t,
       aw_doc = d\<rparr>" by (auto simp: audit_row_ok_def audit_allowed_cited)
  then have "gov_inv sha db'" using inv by (simp add: gov_inv_def rows same) (simp add: db')
  then show ?thesis by (simp add: policy_history_def rows fun_eq_iff)
qed

interpretation sqlite_store: gov_store "sqlite_gov sha" "gov_inv sha" policy_history
proof
  fix r :: gov_db and p k r'
  assume "gov_inv sha r" "policy_ok p" "readable_time (cap_created_at p)"
    "gp_save_policy (sqlite_gov sha) r p k = Inr r'"
  then show "gov_inv sha r' \<and> k = int (length (policy_history r (cap_case_id p))) \<and>
      policy_history r' = (policy_history r)(cap_case_id p := policy_history r (cap_case_id p) @ [p])"
    using sqlite_save_inv by (simp add: sqlite_gov_def)
next
  fix r :: gov_db and p k
  assume a: "gov_inv sha r" "policy_ok p" "0 \<le> k" "cap_revision p = k + 1"
    "k \<noteq> int (length (policy_history r (cap_case_id p)))"
  then obtain us where "cap_created_at p = Aware us"
    by (cases "cap_created_at p") (auto simp: policy_ok_def is_aware_def)
  then have "is_ok (policy_schema_dict p)" by (simp add: policy_schema_dict_def to_json_timestamp_def)
  moreover have "is_ok (policy_fingerprint sha p)"
    using policy_fingerprint_sha [of p sha] a(2) by (auto simp: policy_ok_def)
  ultimately show "gp_save_policy (sqlite_gov sha) r p k = Inl revision_conflict"
    using a by (auto simp: sqlite_gov_def sqlite_save_policy_def revision_conflict_def is_ok_iff
        max_revision_inv history_rows)
next
  fix r :: gov_db and c
  assume "gov_inv sha r"
  then show "gp_get_policy (sqlite_gov sha) r c =
      Inr (if policy_history r c = [] then None else Some (last (policy_history r c)))"
    by (simp add: sqlite_gov_def sqlite_get_last)
next
  fix r :: gov_db and a r'
  assume "gov_inv sha r" "data_ok (aer_data (aea_result a))" "make_ai_egress_audit a = Inr a"
    "make_ai_egress_result (aea_result a) = Inr (aea_result a)" "readable_time (aea_created_at a)"
    "gp_append_audit (sqlite_gov sha) r a = Inr r'"
  then show "gov_inv sha r' \<and> policy_history r' = policy_history r"
    using sqlite_append_inv by (simp add: sqlite_gov_def audit_ok_def)
qed

end
