(* ===== verification/Governance_Service_Properties.thy ===== *)
theory Governance_Service_Properties
  imports Governance_Store
begin

section \<open>Properties of the governance services\<close>

text \<open>
  From empty policy and audit tables: every case has a numbered history of policies that the
  repository reads back, a revision is granted once, an assessment is recorded against the newest
  policy and the unchanged source, and the recorded assessments are read back as they were made.
\<close>

subsection \<open>Successful configuration\<close>

definition no_governance :: "gov_db \<Rightarrow> bool" where
  "no_governance db \<longleftrightarrow> gd_policies db = [] \<and> gd_audits db = []"

lemma empty_inv: "no_governance db \<Longrightarrow> gov_inv sha db"
  by (simp add: no_governance_def gov_inv_def case_rows_def)

lemma empty_numbered: "no_governance db \<Longrightarrow> sqlite_store.numbered db"
  by (simp add: no_governance_def sqlite_store.numbered_def policy_history_def case_rows_def map_filter_def)

lemma reachable_inv:
  assumes "gov_run (sqlite_gov sha) sha db0 db" "no_governance db0"
  shows "gov_inv sha db" "sqlite_store.numbered db"
  using sqlite_store.run_extends [OF assms(1) empty_inv [OF assms(2)]]
    sqlite_store.run_numbered [OF assms(1) empty_inv [OF assms(2)] empty_numbered [OF assms(2)]]
  by simp_all

definition request_ok :: "string \<Rightarrow> policy_settings \<Rightarrow> string \<Rightarrow> datetime \<Rightarrow> bool" where
  "request_ok c s i now \<longleftrightarrow> is_uuid c \<and> is_uuid i \<and> is_aware now \<and> readable_time now \<and>
     distinct (ps_allowed_classifications s)"

lemma configure_succeeds:
  assumes inv: "gov_inv sha db" and c: "gd_cases db c" and req: "request_ok c s i now"
    and fresh: "\<forall>w \<in> set (gd_policies db). pw_policy_id w \<noteq> i"
    and k: "k = int (length (policy_history db c))"
  obtains db' p where "configure (sqlite_gov sha) db c k s i now = Inr (db', p)"
proof -
  define q where "q = \<lparr>cap_policy_id = i, cap_case_id = c, cap_revision = k + 1,
    cap_created_at = now, cap_ai_enabled = ps_ai_enabled s,
    cap_external_allowed = ps_external_allowed s, cap_local_only = ps_local_only s,
    cap_allowed_classifications = ps_allowed_classifications s,
    cap_secret_handling = ps_secret_handling s, cap_raw_allowed = ps_raw_allowed s,
    cap_redaction_required = ps_redaction_required s,
    cap_projection_required = ps_projection_required s\<rparr>"
  have k0: "0 \<le> k" using k by simp
  obtain p where p: "make_case_ai_policy q = Inr p"
    using req k0 by (simp add: make_case_ai_policy_def q_def request_ok_def)
  then have pc: "cap_case_id p = c" "cap_revision p = k + 1" "cap_policy_id p = i" "cap_created_at p = now"
    by (auto simp: make_case_ai_policy_def q_def split: if_splits)
  have "is_ok (policy_schema_dict p)" using req pc(4)
    by (cases now) (auto simp: policy_schema_dict_def to_json_timestamp_def request_ok_def is_aware_def)
  then obtain d where d: "policy_schema_dict p = Inr d" by (rule is_okE)
  obtain fp where fp: "policy_fingerprint sha p = Inr fp"
    using policy_fingerprint_sha [of p sha] make_policy_ok [OF p] by (auto simp: policy_ok_def)
  have rows: "k = int (length (case_rows db c))" using k by (simp add: history_rows [OF inv])
  have "List.map pw_revision (case_rows db c) = [1..k]" using inv rows by (simp add: gov_inv_def)
  then have "pw_revision ` set (case_rows db c) = {1..k}" by (metis list.set_map set_upto)
  then have rev: "pw_revision w \<noteq> k + 1" if "w \<in> set (gd_policies db)" "pw_case_id w = c" for w
    using that by (force simp: case_rows_def)
  have "\<exists>db'. gp_save_policy (sqlite_gov sha) db p k = Inr db'"
    using k0 pc d fp rows rev fresh c
    by (auto simp: sqlite_gov_def sqlite_save_policy_def max_revision_inv [OF inv])
  then show thesis
    using c k0 p that
    by (auto simp: configure_def require_case_def q_def sqlite_gov_def)
qed

subsection \<open>Audit records\<close>

lemma audit_roundtrip:
  assumes ok: "audit_ok a" and d: "audit_schema_dict a = Inr d"
  shows "audit_from_schema d = Inr a"
proof -
  obtain us where us: "aea_created_at a = Aware us" "valid_instant us"
    using ok by (cases "aea_created_at a")
      (auto simp: audit_ok_def make_ai_egress_audit_def is_aware_def readable_time_def split: if_splits)
  then have d': "d = [(''schema_version'', PStr ''1.0.0''), (''audit_id'', PStr (aea_audit_id a)),
        (''result'', PDict (result_schema_dict (aea_result a))),
        (''redaction_applied'', PBool (redaction_applied (aer_data (aea_result a)))),
        (''projection_applied'', PBool (projection_applied (aer_data (aea_result a)))),
        (''created_at'', PStr (iso_microseconds us @ ''Z''))]"
    using d by (simp add: audit_schema_dict_def to_json_timestamp_def)
  have keys: "check_keys d [''schema_version'', ''audit_id'', ''result'', ''redaction_applied'',
       ''projection_applied'', ''created_at''] = Inr ()"
    by (simp add: check_keys_def d')
  have r: "result_from_schema (result_schema_dict (aea_result a)) = Inr (aea_result a)"
    using ok by (simp add: audit_ok_def result_roundtrip)
  have fields: "field_dict d ''result'' e = Inr (result_schema_dict (aea_result a))"
    "field_str d ''audit_id'' e = Inr (aea_audit_id a)"
    "field_timestamp d ''created_at'' = Inr (aea_created_at a)" for e
    using us by (simp_all add: field_dict_def field_str_def field_timestamp_def d' parse_render)
  have flags: "dget d ''schema_version'' = Some (PStr ''1.0.0'')"
    "dget d ''redaction_applied'' = Some (PBool (redaction_applied (aer_data (aea_result a))))"
    "dget d ''projection_applied'' = Some (PBool (projection_applied (aer_data (aea_result a))))"
    by (simp_all add: d')
  have eta: "\<lparr>aea_audit_id = aea_audit_id a, aea_result = aea_result a, aea_created_at = aea_created_at a\<rparr> = a"
    by (cases a) simp
  have "make_ai_egress_audit a = Inr a" using ok by (simp add: audit_ok_def)
  then show ?thesis
    unfolding audit_from_schema_def keys fields bind_res.simps r flags eta by simp
qed

lemma traverse_all_ok: "(\<And>x. x \<in> set xs \<Longrightarrow> \<exists>y. f x = Inr y \<and> Q x y) \<Longrightarrow>
    \<exists>ys. traverse f xs = Inr ys \<and> list_all2 Q xs ys"
proof (induction xs)
  case (Cons x xs)
  obtain y where "f x = Inr y" "Q x y" using Cons.prems [of x] by auto
  moreover obtain ys where "traverse f xs = Inr ys" "list_all2 Q xs ys"
    using Cons.IH Cons.prems by auto
  ultimately show ?case by simp
qed simp

lemma list_all2_member: "list_all2 Q xs ys \<Longrightarrow> x \<in> set xs \<Longrightarrow> \<exists>y \<in> set ys. Q x y"
  by (induction rule: list_all2_induct) auto

lemma list_audits_inv:
  assumes "gov_inv sha db"
  obtains as where "sqlite_list_audits db c src = Inr as" "\<forall>a \<in> set as. audit_ok a \<and> policy_cited db a"
    "\<forall>w \<in> set (gd_audits db). aw_case_id w = c \<and> (src = None \<or> src = Some (aw_source_id w)) \<longrightarrow>
       (\<exists>a \<in> set as. audit_from_schema (aw_doc w) = Inr a)"
proof -
  let ?ws = "sort_key (\<lambda>w. (aw_created_at w, aw_audit_id w))
         (filter (\<lambda>w. aw_case_id w = c \<and> (src = None \<or> src = Some (aw_source_id w))) (gd_audits db))"
  let ?Q = "\<lambda>w a. audit_ok a \<and> policy_cited db a \<and> audit_from_schema (aw_doc w) = Inr a"
  have "\<exists>a. audit_from_schema (aw_doc w) = Inr a \<and> ?Q w a" if "w \<in> set ?ws" for w
  proof -
    have "audit_row_ok db w" using that assms by (simp add: gov_inv_def list_all_iff)
    then obtain a where "audit_ok a" "policy_cited db a" "audit_schema_dict a = Inr (aw_doc w)"
      by (auto simp: audit_row_ok_def)
    with audit_roundtrip show ?thesis by blast
  qed
  from traverse_all_ok [of ?ws "\<lambda>w. audit_from_schema (aw_doc w)" ?Q, OF this] obtain as where
    as: "traverse (\<lambda>w. audit_from_schema (aw_doc w)) ?ws = Inr as" "list_all2 ?Q ?ws as" by blast
  show thesis
  proof (rule that [of as])
    show "sqlite_list_audits db c src = Inr as" using as(1) by (simp add: sqlite_list_audits_def)
    show "\<forall>a \<in> set as. audit_ok a \<and> policy_cited db a"
      using as(2) by (auto simp: list_all2_conv_all_nth in_set_conv_nth)
    show "\<forall>w \<in> set (gd_audits db). aw_case_id w = c \<and> (src = None \<or> src = Some (aw_source_id w)) \<longrightarrow>
       (\<exists>a \<in> set as. audit_from_schema (aw_doc w) = Inr a)"
    proof (intro ballI impI)
      fix w assume "w \<in> set (gd_audits db)" "aw_case_id w = c \<and> (src = None \<or> src = Some (aw_source_id w))"
      then have "w \<in> set ?ws" by simp
      from list_all2_member [OF as(2) this] show "\<exists>a \<in> set as. audit_from_schema (aw_doc w) = Inr a"
        by blast
    qed
  qed
qed

subsection \<open>What an assessment guarantees\<close>

lemma sqlite_get_source: "get_source (sqlite_gov sha) db c i t = Inr s \<longleftrightarrow>
    gd_cases db c \<and> gd_sources db t i = Some s \<and> as_case_id s = c"
  by (auto simp: get_source_def require_case_def sqlite_gov_def split: option.splits if_splits)

lemma replaced_classification:
  assumes "make_ai_egress_data (d\<lparr>aed_classification := data_classification.SECRET,
      aed_contains_secrets := b\<rparr>) = Inr d'"
  shows "aed_classification d' = data_classification.SECRET" "aed_contains_secrets d' = b"
    "aed_data_form d' = aed_data_form d"
  using assms by (auto simp: make_ai_egress_data_def Let_def split: if_splits option.splits)

lemma assess_sound:
  assumes inv: "gov_inv sha db" and a: "assess (sqlite_gov sha) sha db d dest i now = Inr (db', a)"
    and d: "data_ok d"
  obtains s d' where "gd_sources db (adr_source_type (aed_source d)) (adr_source_id (aed_source d)) = Some s"
    "as_case_id s = adr_case_id (aed_source d)" "ai_data_reference_of sha s = Inr (aed_source d)"
    "aer_data (aea_result a) = d'" "aed_data_form d' = aed_data_form d" "aed_source d' = aed_source d"
    "source_has_secret_fields sha s = Inr True \<Longrightarrow> aed_classification d' = data_classification.SECRET \<and>
       (aed_contains_secrets d' \<longleftrightarrow> aed_contains_secrets d \<or> \<not> redaction_applied d)"
    "source_has_secret_fields sha s = Inr False \<Longrightarrow> d' = d"
    "evaluate_ai_egress sha (if policy_history db (adr_case_id (aed_source d)) = [] then None
        else Some (last (policy_history db (adr_case_id (aed_source d))))) d' dest = Inr (aea_result a)"
  using a
proof (rule assess_cases)
  fix s secret d' pol res
  assume h: "get_source (sqlite_gov sha) db (adr_case_id (aed_source d)) (adr_source_id (aed_source d))
      (adr_source_type (aed_source d)) = Inr s"
    "ai_data_reference_of sha s = Inr (aed_source d)" "source_has_secret_fields sha s = Inr secret"
    "(if secret then make_ai_egress_data (d\<lparr>aed_classification := data_classification.SECRET,
        aed_contains_secrets := aed_contains_secrets d \<or> \<not> redaction_applied d\<rparr>) else Inr d) = Inr d'"
    "gp_get_policy (sqlite_gov sha) db (adr_case_id (aed_source d)) = Inr pol"
    "evaluate_ai_egress sha pol d' dest = Inr res"
    "a = \<lparr>aea_audit_id = i, aea_result = res, aea_created_at = now\<rparr>"
  have pol: "pol = (if policy_history db (adr_case_id (aed_source d)) = [] then None
      else Some (last (policy_history db (adr_case_id (aed_source d)))))"
    using h(5) sqlite_store.get_last [OF inv] by simp
  show thesis
  proof (rule that [of s d'])
    show "gd_sources db (adr_source_type (aed_source d)) (adr_source_id (aed_source d)) = Some s"
      "as_case_id s = adr_case_id (aed_source d)" using h(1) by (simp_all add: sqlite_get_source)
    show "aer_data (aea_result a) = d'" using evaluate_wf [OF h(6)] h(7) by simp
    show "aed_source d' = aed_source d" by (rule assessed_ok [OF d h(4)])
    show "aed_data_form d' = aed_data_form d"
      using h(4) replaced_classification(3) by (cases secret) auto
    show "aed_classification d' = data_classification.SECRET \<and>
       (aed_contains_secrets d' \<longleftrightarrow> aed_contains_secrets d \<or> \<not> redaction_applied d)"
      if "source_has_secret_fields sha s = Inr True"
      using that h(3,4) replaced_classification(1,2) by auto
    show "d' = d" if "source_has_secret_fields sha s = Inr False" using that h(3,4) by simp
  qed (use h pol in simp_all)
qed

lemma redaction_forms: "\<not> redaction_applied d \<longleftrightarrow>
    aed_data_form d \<in> {ai_data_form.RAW, ai_data_form.STRUCTURED}"
  by (cases "aed_data_form d") (auto simp: redaction_applied_def)

lemma built_projection:
  assumes "build_safe_ai_projection sha s c False (Some names) = Inr b"
  obtains reference secret fields where "ai_data_reference_of sha s = Inr reference"
    "source_has_secret_fields sha s = Inr secret"
    "traverse (select_field (projection_values s)) names = Inr fields"
    "set names \<subseteq> set (projection_fields (adr_source_type reference))"
    "b = \<lparr>sap_source = reference,
      sap_classification = (if secret then data_classification.SECRET else c),
      sap_selected_fields = sort_key fst fields, sap_projection_version = ''safe-ai-projection-v1''\<rparr>"
    "validate_projection_fields (adr_source_type reference) fields = Inr ()"
  using assms
  by (auto simp: build_safe_ai_projection_def make_safe_ai_projection_def Let_def split: if_splits)

lemma traverse_member: "traverse f xs = Inr ys \<Longrightarrow> y \<in> set ys \<Longrightarrow> \<exists>x \<in> set xs. f x = Inr y"
  by (induction xs arbitrary: ys) auto

lemma traverse_ok_all: "traverse f xs = Inr ys \<Longrightarrow> x \<in> set xs \<Longrightarrow> \<exists>y. f x = Inr y"
  by (induction xs arbitrary: ys) auto

lemma list_all2_member': "list_all2 Q xs ys \<Longrightarrow> y \<in> set ys \<Longrightarrow> \<exists>x \<in> set xs. Q x y"
  by (induction rule: list_all2_induct) auto

lemma history_ok:
  assumes "gov_inv sha db" "p \<in> set (policy_history db c)"
  shows "policy_ok p"
proof -
  from assms obtain w where w: "w \<in> set (case_rows db c)" "p = the (row_policy w)"
    by (auto simp: history_rows)
  then have "row_ok sha w" using assms(1) by (auto simp: gov_inv_def case_rows_def list_all_iff)
  with w(2) show ?thesis by (metis row_policy_ok option.sel)
qed

lemma last_history_row:
  assumes inv: "gov_inv sha db" and "policy_history db c \<noteq> []"
  obtains w where "w \<in> set (gd_policies db)" "pw_case_id w = c" "latest_row db c = Some w"
    "pw_policy_id w = cap_policy_id (last (policy_history db c))"
    "pw_revision w = cap_revision (last (policy_history db c))"
    "policy_fingerprint sha (last (policy_history db c)) = Inr (pw_fingerprint w)"
proof -
  from assms have ne: "case_rows db c \<noteq> []" by (auto simp: history_rows)
  let ?w = "last (case_rows db c)"
  have w: "?w \<in> set (gd_policies db)" "pw_case_id ?w = c"
    using last_in_set [OF ne] by (auto simp: case_rows_def)
  then have "row_ok sha ?w" using inv by (simp add: gov_inv_def list_all_iff)
  then obtain p where p: "row_policy ?w = Some p" "policy_fingerprint sha p = Inr (pw_fingerprint ?w)"
    "cap_revision p = pw_revision ?w" "cap_policy_id p = pw_policy_id ?w" by (rule row_policy_ok)
  have "last (policy_history db c) = p" using p(1) ne by (simp add: history_rows [OF inv] last_map)
  with w p ne show thesis by (intro that [of ?w]) (simp_all add: latest_row_inv [OF inv])
qed

lemma replaced_data:
  assumes "data_ok d"
  obtains d' where "(if secret then make_ai_egress_data (d\<lparr>aed_classification := data_classification.SECRET,
        aed_contains_secrets := b\<rparr>) else Inr d) = Inr d'"
  using assms
  by (cases secret) (auto simp: data_ok_def make_ai_egress_data_def Let_def split: option.splits if_splits)

lemma audit_allowed_iff:
  "audit_allowed db a \<longleftrightarrow> (let r = aea_result a; d = aer_data r; src = aed_source d in
     (\<forall>w \<in> set (gd_audits db). aw_audit_id w \<noteq> aea_audit_id a) \<and> gd_cases db (adr_case_id src) \<and>
     (case gd_sources db (adr_source_type src) (adr_source_id src) of
        None \<Rightarrow> False | Some s \<Rightarrow> as_case_id s = adr_case_id src) \<and> policy_cited db a \<and>
     (aed_contains_secrets d \<longrightarrow> aed_classification d = data_classification.SECRET) \<and>
     (aed_data_form d = ai_data_form.RAW \<or> aed_content_fingerprint d \<noteq> None))"
  by (simp only: audit_allowed_def policy_cited_def Let_def)

lemma assess_succeeds:
  assumes inv: "gov_inv sha db" and d: "data_ok d" and digest: "\<And>x. is_digest (sha x)"
    and src: "gd_cases db (adr_case_id (aed_source d))"
      "gd_sources db (adr_source_type (aed_source d)) (adr_source_id (aed_source d)) = Some s"
      "as_case_id s = adr_case_id (aed_source d)" "ai_data_reference_of sha s = Inr (aed_source d)"
      "source_has_secret_fields sha s = Inr secret"
    and fresh: "is_uuid i" "\<forall>w \<in> set (gd_audits db). aw_audit_id w \<noteq> i" and now: "is_aware now"
  obtains db' a where "assess (sqlite_gov sha) sha db d dest i now = Inr (db', a)"
proof -
  let ?c = "adr_case_id (aed_source d)" and ?P = "sqlite_gov sha"
  obtain d' where d': "(if secret then make_ai_egress_data (d\<lparr>aed_classification := data_classification.SECRET,
      aed_contains_secrets := aed_contains_secrets d \<or> \<not> redaction_applied d\<rparr>) else Inr d) = Inr d'"
    by (rule replaced_data [OF d])
  note ok' = assessed_ok [OF d d']
  define pol where "pol = (if policy_history db ?c = [] then None else Some (last (policy_history db ?c)))"
  have pol: "gp_get_policy ?P db ?c = Inr pol" using sqlite_store.get_last [OF inv] by (simp add: pol_def)
  obtain res where res: "evaluate_ai_egress sha pol d' dest = Inr res" "aer_data res = d'"
    "map_option pw_policy_id (latest_row db ?c) = aer_policy_id res"
    "policy_cited db \<lparr>aea_audit_id = i, aea_result = res, aea_created_at = now\<rparr>"
  proof (cases "policy_history db ?c = []")
    case True
    then have "latest_row db ?c = None" by (simp add: history_rows [OF inv] latest_row_inv [OF inv])
    moreover have "pol = None" using True by (simp add: pol_def)
    ultimately show thesis by (intro that [OF evaluate_none [folded \<open>pol = None\<close>]])
      (simp_all add: policy_cited_def)
  next
    case False
    then obtain w where w: "w \<in> set (gd_policies db)" "pw_case_id w = ?c" "latest_row db ?c = Some w"
      "pw_policy_id w = cap_policy_id (last (policy_history db ?c))"
      "pw_revision w = cap_revision (last (policy_history db ?c))"
      "policy_fingerprint sha (last (policy_history db ?c)) = Inr (pw_fingerprint w)"
      by (rule last_history_row [OF inv])
    have "policy_ok (last (policy_history db ?c))" by (rule history_ok [OF inv last_in_set [OF False]])
    then obtain fp where "evaluate_ai_egress sha pol d' dest =
        Inr (result_of (last (policy_history db ?c)) d' dest fp)"
      "policy_fingerprint sha (last (policy_history db ?c)) = Inr fp"
      using evaluate_result digest False by (metis pol_def)
    note ev = this
    show thesis by (rule that [OF ev(1)]) 
      (use w ev(2) ok'(2) in \<open>auto simp: result_of_def policy_cited_def\<close>)
  qed
  obtain us where us: "now = Aware us" using now by (cases now) (auto simp: is_aware_def)
  define a where "a = \<lparr>aea_audit_id = i, aea_result = res, aea_created_at = now\<rparr>"
  have mk: "make_ai_egress_audit a = Inr a" using fresh now by (simp add: make_ai_egress_audit_def a_def)
  have "aed_data_form d' = ai_data_form.RAW \<or> aed_content_fingerprint d' \<noteq> None"
    using ok'(1) by (auto simp: data_ok_def make_ai_egress_data_def Let_def split: if_splits)
  moreover have "aed_contains_secrets d' \<longrightarrow> aed_classification d' = data_classification.SECRET"
    using data_ok_secret [OF ok'(1)] by simp
  ultimately have "audit_allowed db a"
    using res(2) res(4) [folded a_def] ok'(2) src fresh by (simp add: audit_allowed_iff) (simp add: a_def)
  then have "is_ok (sqlite_append_audit db a)"
    using res(2,3) ok'(2) us
    by (simp add: sqlite_append_audit_def Let_def a_def audit_schema_dict_def to_json_timestamp_def)
  then obtain db' where "gp_append_audit ?P db a = Inr db'" by (auto simp: sqlite_gov_def is_ok_iff)
  then have "assess ?P sha db d dest i now = Inr (db', a)"
    using src d' pol res(1) mk sqlite_get_source [of sha db ?c]
    unfolding assess_def Let_def by (simp add: a_def)
  then show thesis by (rule that)
qed

subsection \<open>A sample case\<close>

text \<open>One case with one browser cookie artifact, whose category marks it as a secret source.\<close>

abbreviation sample_sha :: "string \<Rightarrow> string" where
  "sample_sha \<equiv> \<lambda>_. sample_digest"

definition sample_source :: ai_source where
  "sample_source = \<lparr>as_type = ai_data_source_type.ARTIFACT, as_id = sample_uuid,
     as_case_id = sample_uuid,
     as_schema = [(''artifact_type'', PStr ''BROWSER_COOKIE''), (''is_partial'', PBool False)],
     as_artifact_type = artifact_type.BROWSER_COOKIE, as_partial_state = [], as_stale_state = [],
     as_resource_ids = []\<rparr>"

definition sample_db :: gov_db where
  "sample_db = \<lparr>gd_cases = (\<lambda>c. c = sample_uuid),
     gd_sources = (\<lambda>t i. if t = ai_data_source_type.ARTIFACT \<and> i = sample_uuid then Some sample_source
       else None), gd_policies = [], gd_audits = []\<rparr>"

definition open_settings :: policy_settings where
  "open_settings = default_settings\<lparr>ps_ai_enabled := True,
     ps_allowed_classifications := [data_classification.SECRET],
     ps_secret_handling := ai_secret_handling.ALLOW, ps_raw_allowed := True,
     ps_redaction_required := False, ps_projection_required := False\<rparr>"

abbreviation sample_now :: datetime where
  "sample_now \<equiv> Aware 0"

lemma sample_empty: "no_governance sample_db" "gd_cases sample_db sample_uuid"
  by (simp_all add: no_governance_def sample_db_def)

lemma sample_now_ok: "readable_time sample_now" "is_aware sample_now"
  by (simp_all add: readable_time_def is_aware_def valid_instant_def min_instant_def max_instant_def
      days_of_civil_def)

lemma sample_requests: "request_ok sample_uuid default_settings sample_uuid sample_now"
  "request_ok sample_uuid open_settings sample_uuid sample_now"
  by (simp_all add: request_ok_def sample_uuid_ok sample_now_ok default_settings_def open_settings_def)

lemma sample_history: "policy_history sample_db c = []"
  by (simp add: policy_history_def case_rows_def sample_db_def map_filter_def)

lemma sample_configured:
  assumes "request_ok sample_uuid s sample_uuid sample_now"
  obtains db p where "configure (sqlite_gov sample_sha) sample_db sample_uuid 0 s sample_uuid sample_now =
    Inr (db, p)"
  by (rule configure_succeeds [OF empty_inv [OF sample_empty(1)] sample_empty(2) assms, of 0])
    (auto simp: sample_history, simp add: sample_db_def)

lemma sample_source_facts: "source_has_secret_fields sample_sha sample_source = Inr True"
  "ai_data_reference_of sample_sha sample_source = Inr sample_reference"
proof -
  show "source_has_secret_fields sample_sha sample_source = Inr True"
    by (simp add: source_has_secret_fields_def sample_source_def)
  have "no_bytes (PDict (as_schema sample_source))" by (simp add: sample_source_def)
  from canonical_sha [OF this, of sample_sha "[]"]
  show "ai_data_reference_of sample_sha sample_source = Inr sample_reference"
    by (auto simp: ai_data_reference_of_def sample_source_def make_ai_data_reference_def
        sample_uuid_ok sample_digest_ok sample_reference_def check_uuid_def check_digest_def)
qed

lemma sample_config_step:
  assumes "configure (sqlite_gov sample_sha) sample_db sample_uuid 0 s sample_uuid sample_now = Inr (db, p)"
  shows "gov_run (sqlite_gov sample_sha) sample_sha sample_db db"
    "gd_cases db = gd_cases sample_db" "gd_sources db = gd_sources sample_db" "gd_audits db = []"
    "policy_history db sample_uuid = [p]"
proof -
  show "gov_run (sqlite_gov sample_sha) sample_sha sample_db db"
    by (rule gov_run.more [OF gov_run.none gov_step.configured [OF assms sample_now_ok(1)]])
  note app = sqlite_store.configure_appends [OF empty_inv [OF sample_empty(1)] assms sample_now_ok(1)]
  then show "policy_history db sample_uuid = [p]" by (simp add: sample_history)
  from configure_cases(8) [OF assms] have "sqlite_save_policy sample_sha sample_db p 0 = Inr db"
    by (simp add: sqlite_gov_def)
  then show "gd_cases db = gd_cases sample_db" "gd_sources db = gd_sources sample_db" "gd_audits db = []"
    by (auto elim!: save_policy_cases simp: sample_db_def)
qed

subsection \<open>Properties\<close>

text \<open>C11: from empty tables, after any run of the services, configuring an existing case either extends
  the history that reads give back by exactly the new policy, when the caller expects the current
  number of revisions, or fails with a state conflict and changes nothing.\<close>

theorem configure_refines_history:
  assumes "gov_run (sqlite_gov sha) sha db0 db" "no_governance db0"
    and "gd_cases db c" "request_ok c s i now" "\<forall>w \<in> set (gd_policies db). pw_policy_id w \<noteq> i" "0 \<le> k"
  shows "if k = int (length (policy_history db c))
    then \<exists>db' p. configure (sqlite_gov sha) db c k s i now = Inr (db', p) \<and>
      policy_history db' = (policy_history db)(c := policy_history db c @ [p]) \<and>
      sqlite_get_policy sha db' c = Inr (Some p)
    else configure (sqlite_gov sha) db c k s i now = Inl revision_conflict"
proof (cases "k = int (length (policy_history db c))")
  case True
  note inv = reachable_inv(1) [OF assms(1,2)]
  obtain db' p where ok: "configure (sqlite_gov sha) db c k s i now = Inr (db', p)"
    by (rule configure_succeeds [OF inv assms(3-5) True])
  have now: "readable_time now" using assms(4) by (simp add: request_ok_def)
  note app = sqlite_store.configure_appends [OF inv ok now]
  with sqlite_get_last [OF app(1), of c] ok True show ?thesis by auto
next
  case False
  note inv = reachable_inv(1) [OF assms(1,2)]
  define q where "q = \<lparr>cap_policy_id = i, cap_case_id = c, cap_revision = k + 1,
    cap_created_at = now, cap_ai_enabled = ps_ai_enabled s,
    cap_external_allowed = ps_external_allowed s, cap_local_only = ps_local_only s,
    cap_allowed_classifications = ps_allowed_classifications s,
    cap_secret_handling = ps_secret_handling s, cap_raw_allowed = ps_raw_allowed s,
    cap_redaction_required = ps_redaction_required s,
    cap_projection_required = ps_projection_required s\<rparr>"
  obtain p where p: "make_case_ai_policy q = Inr p"
    using assms(4,6) by (simp add: make_case_ai_policy_def q_def request_ok_def)
  then have "cap_case_id p = c" "cap_revision p = k + 1"
    by (auto simp: make_case_ai_policy_def q_def split: if_splits)
  then have "gp_save_policy (sqlite_gov sha) db p k = Inl revision_conflict"
    using sqlite_store.save_stale [OF inv make_policy_ok [OF p] assms(6)] False by simp
  with False p assms(3,6) show ?thesis
    by (simp add: configure_def require_case_def q_def sqlite_gov_def)
qed

lemma configure_refines_history_witness:
  "(if 0 = int (length (policy_history sample_db sample_uuid))
    then \<exists>db' p. configure (sqlite_gov sample_sha) sample_db sample_uuid 0 default_settings sample_uuid
        sample_now = Inr (db', p) \<and>
      policy_history db' = (policy_history sample_db)(sample_uuid := policy_history sample_db sample_uuid @ [p]) \<and>
      sqlite_get_policy sample_sha db' sample_uuid = Inr (Some p)
    else configure (sqlite_gov sample_sha) sample_db sample_uuid 0 default_settings sample_uuid sample_now =
      Inl revision_conflict)"
  by (rule configure_refines_history [OF gov_run.none sample_empty sample_requests(1)])
    (simp_all add: sample_db_def)

text \<open>The revisions of a case are numbered from 1 without gaps after any run, and the policy read is
  the one of the highest revision.\<close>

lemma policy_revisions_numbered:
  assumes "gov_run (sqlite_gov sha) sha db0 db" "no_governance db0"
  shows "List.map cap_revision (policy_history db c) = [1..int (length (policy_history db c))] \<and>
    sqlite_get_policy sha db c =
      Inr (if policy_history db c = [] then None else Some (last (policy_history db c)))"
  using reachable_inv [OF assms] sqlite_get_last by (auto simp: sqlite_store.numbered_def)

text \<open>Two writers cannot both be granted the same revision of a policy: once a configuration that
  expected revision \<open>k\<close> succeeded, every later one that expects \<open>k\<close> fails.\<close>

lemma policy_revision_granted_once:
  assumes "gov_run (sqlite_gov sha) sha db0 db" "no_governance db0"
    and "configure (sqlite_gov sha) db c k s i now = Inr (db1, p)" "readable_time now"
    and "gov_run (sqlite_gov sha) sha db1 db2" "gd_cases db2 c" "request_ok c s' i' now'"
  shows "configure (sqlite_gov sha) db2 c k s' i' now' = Inl revision_conflict"
  by (rule sqlite_store.revision_granted_once [OF reachable_inv(1) [OF assms(1,2)] assms(3-5)])
    (use assms(6,7) in \<open>simp_all add: sqlite_gov_def request_ok_def\<close>)

text \<open>C12: an assessment that allows raw or structured data refers to a stored source of the same case
  that is unchanged since the caller described it, and to the newest policy of the case; when the
  source carries secret fields the policy allows secrets and the class SECRET, whatever the caller
  claimed.\<close>

theorem assessment_respects_source:
  assumes "gov_run (sqlite_gov sha) sha db0 db" "no_governance db0" "data_ok d"
    and "evaluate (sqlite_gov sha) sha db d dest i now = Inr (db', a)"
    and "aer_decision (aea_result a) = ai_egress_decision.ALLOW" "\<not> redaction_applied d"
  shows "\<exists>s p. gd_sources db (adr_source_type (aed_source d)) (adr_source_id (aed_source d)) = Some s \<and>
    as_case_id s = adr_case_id (aed_source d) \<and> ai_data_reference_of sha s = Inr (aed_source d) \<and>
    sqlite_get_policy sha db (adr_case_id (aed_source d)) = Inr (Some p) \<and>
    aer_policy_id (aea_result a) = Some (cap_policy_id p) \<and> cap_ai_enabled p \<and>
    (source_has_secret_fields sha s = Inr True \<longrightarrow>
       data_classification.SECRET \<in> set (cap_allowed_classifications p) \<and>
       cap_secret_handling p = ai_secret_handling.ALLOW)"
proof -
  note inv = reachable_inv(1) [OF assms(1,2)]
  have assess: "assess (sqlite_gov sha) sha db d dest i now = Inr (db', a)"
    using evaluate_assess [OF assms(4)] by simp
  from assess_sound [OF inv assess assms(3)] obtain s d' where
    s: "gd_sources db (adr_source_type (aed_source d)) (adr_source_id (aed_source d)) = Some s"
      "as_case_id s = adr_case_id (aed_source d)" "ai_data_reference_of sha s = Inr (aed_source d)"
    and d': "source_has_secret_fields sha s = Inr True \<Longrightarrow>
       aed_classification d' = data_classification.SECRET \<and>
       (aed_contains_secrets d' \<longleftrightarrow> aed_contains_secrets d \<or> \<not> redaction_applied d)"
    and ev: "evaluate_ai_egress sha (if policy_history db (adr_case_id (aed_source d)) = [] then None
        else Some (last (policy_history db (adr_case_id (aed_source d))))) d' dest = Inr (aea_result a)"
    by blast
  from allow_iff [OF ev] assms(5) obtain p where
    p: "(if policy_history db (adr_case_id (aed_source d)) = [] then None
        else Some (last (policy_history db (adr_case_id (aed_source d))))) = Some p"
      "cap_ai_enabled p" "aed_classification d' \<in> set (cap_allowed_classifications p)"
      "aed_contains_secrets d' \<Longrightarrow> cap_secret_handling p = ai_secret_handling.ALLOW" by blast
  have "aer_policy_id (aea_result a) = Some (cap_policy_id p)"
    using evaluate_some [OF ev [unfolded p(1)]] by (auto simp: result_of_def)
  moreover have "sqlite_get_policy sha db (adr_case_id (aed_source d)) = Inr (Some p)"
    using sqlite_get_last [OF inv] p(1) by simp
  ultimately show ?thesis using s p d' assms(6) by auto
qed

lemma assessment_respects_source_witness:
  "\<exists>db db' a s p. evaluate (sqlite_gov sample_sha) sample_sha db sample_raw ai_destination_category.LOCAL
      sample_uuid sample_now = Inr (db', a) \<and>
    gd_sources db ai_data_source_type.ARTIFACT sample_uuid = Some s \<and>
    sqlite_get_policy sample_sha db sample_uuid = Inr (Some p) \<and>
    aer_policy_id (aea_result a) = Some (cap_policy_id p) \<and>
    data_classification.SECRET \<in> set (cap_allowed_classifications p)"
proof -
  obtain db p where c: "configure (sqlite_gov sample_sha) sample_db sample_uuid 0 open_settings sample_uuid
    sample_now = Inr (db, p)" by (rule sample_configured [OF sample_requests(2)])
  note step = sample_config_step [OF c]
  have inv: "gov_inv sample_sha db" by (rule reachable_inv(1) [OF step(1) sample_empty(1)])
  have ref: "aed_source sample_raw = sample_reference" "adr_case_id sample_reference = sample_uuid"
    "adr_source_id sample_reference = sample_uuid" "adr_source_type sample_reference = ai_data_source_type.ARTIFACT"
    by (simp_all add: sample_raw_def sample_reference_def)
  have src: "gd_sources db ai_data_source_type.ARTIFACT sample_uuid = Some sample_source"
    "as_case_id sample_source = sample_uuid" "gd_cases db sample_uuid"
    using step sample_empty(2) by (simp_all add: sample_db_def sample_source_def)
  obtain db' a where as: "assess (sqlite_gov sample_sha) sample_sha db sample_raw
      ai_destination_category.LOCAL sample_uuid sample_now = Inr (db', a)"
    by (rule assess_succeeds [OF inv sample_raw_ok, of sample_source True sample_uuid sample_now])
      (use src ref step sample_source_facts sample_digest_ok sample_uuid_ok sample_now_ok in simp_all)
  have form: "aed_data_form sample_raw = ai_data_form.RAW" "aed_contains_secrets sample_raw"
    "aed_classification sample_raw = data_classification.SECRET" by (simp_all add: sample_raw_def)
  then have raw: "\<not> redaction_applied sample_raw" "\<not> projection_applied sample_raw"
    by (simp_all add: redaction_applied_def projection_applied_def)
  have p: "cap_case_id p = sample_uuid" "cap_ai_enabled p" "cap_allowed_classifications p =
      [data_classification.SECRET]" "cap_secret_handling p = ai_secret_handling.ALLOW" "cap_raw_allowed p"
      "\<not> cap_redaction_required p" "\<not> cap_projection_required p"
    using c by (auto simp: configure_def make_case_ai_policy_def open_settings_def default_settings_def
        data_classification_members_def split: if_splits)
  from assess_sound [OF inv as sample_raw_ok] obtain d' where
    d': "aed_data_form d' = ai_data_form.RAW" "aed_source d' = sample_reference"
      "aed_classification d' = data_classification.SECRET"
    and ev: "evaluate_ai_egress sample_sha (Some p) d' ai_destination_category.LOCAL = Inr (aea_result a)"
    using src ref form step(5) sample_source_facts by auto
  have allow: "aer_decision (aea_result a) = ai_egress_decision.ALLOW"
    using allow_iff [OF ev] p d' ref by simp
  have e: "evaluate (sqlite_gov sample_sha) sample_sha db sample_raw ai_destination_category.LOCAL
      sample_uuid sample_now = Inr (db', a)" using as raw by (simp add: evaluate_def)
  from assessment_respects_source [OF step(1) sample_empty(1) sample_raw_ok e allow raw(1)]
  show ?thesis using e src ref sample_source_facts by auto
qed



text \<open>A projection is assessed only if it is the one the stored source gives now: it refers to the
  unchanged source, each of its fields is an allowed structural field with the value of the redacted
  source document, and a source with secret fields is assessed under the class SECRET.\<close>

lemma projection_matches_source:
  assumes "gov_run (sqlite_gov sha) sha db0 db" "no_governance db0"
    and "make_ai_data_reference (sap_source j) = Inr (sap_source j)"
    and "evaluate_projection (sqlite_gov sha) sha db j dest i now = Inr (db', a)"
  shows "\<exists>s. gd_sources db (adr_source_type (sap_source j)) (adr_source_id (sap_source j)) = Some s \<and>
    ai_data_reference_of sha s = Inr (sap_source j) \<and>
    (\<forall>(n, v) \<in> set (sap_selected_fields j). n \<in> set (projection_fields (adr_source_type (sap_source j))) \<and>
       (\<exists>u. dget (projection_values s) n = Some u \<and> field_eq (n, u) (n, v))) \<and>
    (source_has_secret_fields sha s = Inr True \<longrightarrow>
       sap_classification j = data_classification.SECRET) \<and>
    aed_data_form (aer_data (aea_result a)) = ai_data_form.SAFE_PROJECTION"
proof -
  note inv = reachable_inv(1) [OF assms(1,2)]
  from assms(4) obtain s b d where s: "get_source (sqlite_gov sha) db (adr_case_id (sap_source j))
      (adr_source_id (sap_source j)) (adr_source_type (sap_source j)) = Inr s"
    and b: "build_safe_ai_projection sha s (sap_classification j) False
       (Some (List.map fst (sap_selected_fields j))) = Inr b"
    and eq: "projection_eq b j" and d: "projection_egress_data sha j = Inr d"
    and as: "assess (sqlite_gov sha) sha db d dest i now = Inr (db', a)"
    by (rule evaluate_projection_cases)
  from b obtain reference secret fields where r: "ai_data_reference_of sha s = Inr reference"
    "source_has_secret_fields sha s = Inr secret"
    "traverse (select_field (projection_values s)) (List.map fst (sap_selected_fields j)) = Inr fields"
    "set (List.map fst (sap_selected_fields j)) \<subseteq> set (projection_fields (adr_source_type reference))"
    "b = \<lparr>sap_source = reference,
      sap_classification = (if secret then data_classification.SECRET else sap_classification j),
      sap_selected_fields = sort_key fst fields, sap_projection_version = ''safe-ai-projection-v1''\<rparr>"
    by (rule built_projection) blast
  have ref: "reference = sap_source j" and cls: "secret \<Longrightarrow> sap_classification j = data_classification.SECRET"
    and all2: "list_all2 field_eq (sort_key fst fields) (sap_selected_fields j)"
    using eq r(5) by (simp_all add: projection_eq_def)
  have "n \<in> set (projection_fields (adr_source_type (sap_source j))) \<and>
      (\<exists>u. dget (projection_values s) n = Some u \<and> field_eq (n, u) (n, v))"
    if "(n, v) \<in> set (sap_selected_fields j)" for n v
  proof -
    from list_all2_member' [OF all2 that] obtain x where x: "x \<in> set fields" "field_eq x (n, v)" by auto
    from traverse_member [OF r(3) x(1)] obtain m where "select_field (projection_values s) m = Inr x" by blast
    then have "dget (projection_values s) (fst x) = Some (snd x)"
      by (auto simp: select_field_def split: option.splits)
    moreover have "fst x = n" "x = (n, snd x)" using x(2) by (auto simp: field_eq_def prod_eq_iff)
    moreover have "n \<in> fst ` set (sap_selected_fields j)" using that by force
    ultimately show ?thesis using x(2) r(4) ref by (metis set_map subsetD)
  qed
  moreover have "aed_data_form d = ai_data_form.SAFE_PROJECTION"
    using d by (auto simp: projection_egress_data_def make_ai_egress_data_def Let_def
        split: if_splits option.splits)
  then have "aed_data_form (aer_data (aea_result a)) = ai_data_form.SAFE_PROJECTION"
    using assess_sound [OF inv as projection_data_ok [OF assms(3) d]] by metis
  ultimately show ?thesis
    using s r ref cls by (auto simp: sqlite_get_source)
qed


definition sample_projection :: safe_ai_projection where
  "sample_projection = \<lparr>sap_source = sample_reference,
     sap_classification = data_classification.SECRET,
     sap_selected_fields = [(''is_partial'', PBool False)],
     sap_projection_version = ''safe-ai-projection-v1''\<rparr>"

lemma sample_reference_ok: "make_ai_data_reference sample_reference = Inr sample_reference"
  by (simp add: make_ai_data_reference_def sample_reference_def check_uuid_def check_digest_def
      sample_uuid_ok sample_digest_ok)

lemma sample_projection_built: "build_safe_ai_projection sample_sha sample_source
    data_classification.SECRET False (Some [''is_partial'']) = Inr sample_projection"
proof -
  have plain: "\<not> is_sensitive_field_name (lower ''artifact_type'')"
    "\<not> is_sensitive_field_name (lower ''is_partial'')" by code_simp+
  have vals: "projection_values sample_source = as_schema sample_source"
    by (simp add: projection_values_def redact_secret_fields_def sample_source_def plain Let_def)
  show ?thesis
    by (simp add: build_safe_ai_projection_def sample_source_facts vals)
      (simp add: sample_reference_def select_field_def sample_source_def make_safe_ai_projection_def
        validate_projection_fields_def check_projection_field_def enum_field_def is_bool_def
        sample_projection_def)
qed

end
