(* ===== verification/Projection_Properties.thy ===== *)
theory Projection_Properties
  imports Governance_Service_Properties
begin

section \<open>What redaction and projection reveal\<close>

text \<open>
  \<open>public_eq\<close> relates two documents that differ only below keys the redactor treats as sensitive.
  Redaction maps related documents to the same document, so neither it nor a projection built from
  it depends on a secret.  A projection also survives the round trip through its schema document.
\<close>

subsection \<open>Public equality\<close>

definition sensitive_key :: "string \<Rightarrow> bool" where
  "sensitive_key k \<longleftrightarrow> is_sensitive_field_name (lower k)"

inductive public_eq :: "pyval \<Rightarrow> pyval \<Rightarrow> bool" where
  same: "public_eq v v"
| lists: "list_all2 public_eq xs ys \<Longrightarrow> public_eq (PList xs) (PList ys)"
| dicts: "list_all2 (\<lambda>x y. fst x = fst y \<and> (sensitive_key (fst x) \<or> public_eq (snd x) (snd y))) d e \<Longrightarrow>
    public_eq (PDict d) (PDict e)"
monos list_all2_mono

lemma redact_field_eq: "redact_secret_fields d = List.map (\<lambda>x.
    (fst x, if sensitive_key (fst x) then redacted_marker else redact_value (snd x))) d"
  by (simp add: redact_secret_fields_def sensitive_key_def case_prod_unfold)

lemma redact_dict: "redact_value (PDict d) = PDict (redact_secret_fields d)"
  by (simp add: redact_secret_fields_def)

lemma map_list_all2: "list_all2 Q xs ys \<Longrightarrow> (\<And>x y. Q x y \<Longrightarrow> f x = f y) \<Longrightarrow> List.map f xs = List.map f ys"
  by (induction rule: list_all2_induct) auto

lemma public_eq_redact: "public_eq v w \<Longrightarrow> redact_value v = redact_value w"
proof (induction rule: public_eq.induct)
  case (lists xs ys)
  then show ?case by (auto intro: map_list_all2)
next
  case (dicts d e)
  then have "redact_secret_fields d = redact_secret_fields e"
    unfolding redact_field_eq by (rule map_list_all2) auto
  then show ?case by (simp only: redact_dict)
qed simp

fun secret_free :: "pyval \<Rightarrow> bool" where
  "secret_free (PDict d) = (\<forall>(k, v) \<in> set d. if sensitive_key k then v = redacted_marker else secret_free v)"
| "secret_free (PList xs) = (\<forall>v \<in> set xs. secret_free v)"
| "secret_free v = True"

lemma redact_secret_free: "secret_free (redact_value v)"
  by (induction v rule: redact_value.induct) (auto simp: sensitive_key_def)

lemma secret_free_redact: "secret_free v \<Longrightarrow> redact_value v = v"
proof (induction v rule: redact_value.induct)
  case (1 d)
  then show ?case
    by (auto simp: sensitive_key_def redacted_marker_def intro!: map_idI split: if_splits)
next
  case (2 xs)
  then show ?case by (auto intro!: map_idI)
qed simp_all

text \<open>C15: the redactor removes every value below a sensitive key at any depth and is idempotent, and its
  result is the same for two documents that differ only in such values.\<close>

theorem redaction_hides_secrets:
  "secret_free (redact_value v) \<and> redact_value (redact_value v) = redact_value v \<and>
   (public_eq v w \<longrightarrow> redact_value v = redact_value w)"
  using redact_secret_free secret_free_redact public_eq_redact by blast

lemma redaction_hides_secrets_witness:
  "redact_value (PDict [(''user'', PStr ''u''), (''Password'', PStr ''a'')]) =
   redact_value (PDict [(''user'', PStr ''u''), (''Password'', PStr ''b'')])"
proof -
  have "sensitive_key ''Password''" unfolding sensitive_key_def by code_simp
  then have "public_eq (PDict [(''user'', PStr ''u''), (''Password'', PStr ''a'')])
      (PDict [(''user'', PStr ''u''), (''Password'', PStr ''b'')])"
    by (auto intro!: public_eq.dicts public_eq.same)
  then show ?thesis
    using redaction_hides_secrets [of "PDict [(''user'', PStr ''u''), (''Password'', PStr ''a'')]"
      "PDict [(''user'', PStr ''u''), (''Password'', PStr ''b'')]"] by blast
qed

subsection \<open>Projections\<close>

lemma projection_values_public:
  assumes "public_eq (PDict (as_schema s)) (PDict (as_schema s'))" "as_type s' = as_type s"
    "as_partial_state s' = as_partial_state s" "as_stale_state s' = as_stale_state s"
    "as_resource_ids s' = as_resource_ids s"
  shows "projection_values s' = projection_values s"
proof -
  have "redact_secret_fields (as_schema s) = redact_secret_fields (as_schema s')"
    using public_eq_redact [OF assms(1)] by (simp add: redact_dict del: redact_value.simps)
  with assms show ?thesis by (simp add: projection_values_def Let_def)
qed

definition selected_names :: "ai_source \<Rightarrow> string list option \<Rightarrow> string list" where
  "selected_names s sel = (case sel of None \<Rightarrow> sort (projection_fields (as_type s)) | Some ns \<Rightarrow> ns)"

lemma reference_type: "ai_data_reference_of sha s = Inr r \<Longrightarrow> adr_source_type r = as_type s"
  by (auto simp: ai_data_reference_of_def make_ai_data_reference_def)

lemma build_cases:
  assumes "build_safe_ai_projection sha s c b sel = Inr p"
  obtains r secret fields where "ai_data_reference_of sha s = Inr r" "adr_source_type r = as_type s"
    "(if b then Inr True else source_has_secret_fields sha s) = Inr secret"
    "traverse (select_field (projection_values s)) (selected_names s sel) = Inr fields"
    "validate_projection_fields (as_type s) fields = Inr ()"
    "p = \<lparr>sap_source = r, sap_classification = (if secret then data_classification.SECRET else c),
       sap_selected_fields = sort_key fst fields, sap_projection_version = ''safe-ai-projection-v1''\<rparr>"
proof -
  from assms obtain r secret where r: "ai_data_reference_of sha s = Inr r"
    "(if b then Inr True else source_has_secret_fields sha s) = Inr secret"
    unfolding build_safe_ai_projection_def bind_res_eq_Inr by blast
  note t = reference_type [OF r(1)]
  have "bind_res (traverse (select_field (projection_values s)) (selected_names s sel)) (\<lambda>fields.
       make_safe_ai_projection
         \<lparr>sap_source = r, sap_classification = (if secret then data_classification.SECRET else c),
          sap_selected_fields = fields, sap_projection_version = ''safe-ai-projection-v1''\<rparr>) = Inr p"
    using assms r t
    by (cases sel)
      (simp_all add: build_safe_ai_projection_def selected_names_def Let_def del: bind_res_eq_Inr split: if_splits)
  then obtain fields where f: "traverse (select_field (projection_values s)) (selected_names s sel) = Inr fields"
    and p: "make_safe_ai_projection \<lparr>sap_source = r,
      sap_classification = (if secret then data_classification.SECRET else c),
      sap_selected_fields = fields, sap_projection_version = ''safe-ai-projection-v1''\<rparr> = Inr p"
    unfolding bind_res_eq_Inr by blast
  from p t have "validate_projection_fields (as_type s) fields = Inr ()"
    "p = \<lparr>sap_source = r, sap_classification = (if secret then data_classification.SECRET else c),
       sap_selected_fields = sort_key fst fields, sap_projection_version = ''safe-ai-projection-v1''\<rparr>"
    by (auto simp: make_safe_ai_projection_def simp del: if_split)
  with r t f show thesis by (intro that)
qed

text \<open>C14: a projection never lowers the classification of its source, carries only structural fields of
  the allowlist of the source type, and takes no value from below a sensitive key: two sources that
  differ only there have projections with the same fields.\<close>

theorem projection_leaks_nothing:
  assumes "build_safe_ai_projection sha s c b sel = Inr p"
    and "build_safe_ai_projection sha s' c' b' sel = Inr p'"
    and "public_eq (PDict (as_schema s)) (PDict (as_schema s'))" "as_type s' = as_type s"
    "as_partial_state s' = as_partial_state s" "as_stale_state s' = as_stale_state s"
    "as_resource_ids s' = as_resource_ids s"
  shows "sap_selected_fields p' = sap_selected_fields p \<and> c \<le> sap_classification p \<and>
    (b \<longrightarrow> sap_classification p = data_classification.SECRET) \<and>
    fst ` set (sap_selected_fields p) \<subseteq> set (projection_fields (as_type s))"
  using assms(1)
proof (rule build_cases)
  fix r secret fields
  assume r: "(if b then Inr True else source_has_secret_fields sha s) = Inr secret"
    "traverse (select_field (projection_values s)) (selected_names s sel) = Inr fields"
    "validate_projection_fields (as_type s) fields = Inr ()"
    and p: "p = \<lparr>sap_source = r, sap_classification = (if secret then data_classification.SECRET else c),
       sap_selected_fields = sort_key fst fields, sap_projection_version = ''safe-ai-projection-v1''\<rparr>"
  from assms(2) obtain fields' where f': "traverse (select_field (projection_values s'))
      (selected_names s' sel) = Inr fields'" "sap_selected_fields p' = sort_key fst fields'"
    by (rule build_cases) simp
  have "projection_values s' = projection_values s" by (rule projection_values_public [OF assms(3-7)])
  moreover have "selected_names s' sel = selected_names s sel" using assms(4) by (cases sel) (simp_all add: selected_names_def)
  ultimately have "sap_selected_fields p' = sap_selected_fields p" using f' r p by simp
  moreover have "fst ` set fields \<subseteq> set (projection_fields (as_type s))"
    using r(3) by (auto simp: validate_projection_fields_def split: if_splits)
  moreover have "c \<le> sap_classification p" using p by (cases c) (auto simp: less_eq_data_classification_def)
  ultimately show ?thesis using p r(1) by (auto split: if_splits)
qed

definition token_source :: "string \<Rightarrow> ai_source" where
  "token_source v = sample_source\<lparr>as_schema := as_schema sample_source @ [(''token'', PStr v)]\<rparr>"

lemma token_projection:
  "build_safe_ai_projection sample_sha (token_source v) data_classification.PUBLIC True
     (Some [''is_partial'']) = Inr sample_projection"
proof -
  have "no_bytes (PDict (as_schema (token_source v)))" by (simp add: token_source_def sample_source_def)
  from canonical_sha [OF this, of sample_sha "[]"]
  have ref: "ai_data_reference_of sample_sha (token_source v) = Inr sample_reference"
    by (auto simp: ai_data_reference_of_def token_source_def sample_source_def make_ai_data_reference_def
        sample_uuid_ok sample_digest_ok sample_reference_def check_uuid_def check_digest_def)
  have plain: "\<not> is_sensitive_field_name (lower ''artifact_type'')"
    "\<not> is_sensitive_field_name (lower ''is_partial'')" "is_sensitive_field_name (lower ''token'')"
    by code_simp+
  have vals: "projection_values (token_source v) = as_schema sample_source @ [(''token'', redacted_marker)]"
    by (simp add: projection_values_def redact_secret_fields_def token_source_def sample_source_def plain Let_def)
  show ?thesis
    by (simp add: build_safe_ai_projection_def ref vals)
      (simp add: sample_reference_def select_field_def sample_source_def make_safe_ai_projection_def
        validate_projection_fields_def check_projection_field_def enum_field_def is_bool_def
        sample_projection_def)
qed

lemma projection_leaks_nothing_witness:
  "build_safe_ai_projection sample_sha (token_source ''a'') data_classification.PUBLIC True
     (Some [''is_partial'']) = Inr sample_projection \<and>
   data_classification.PUBLIC \<le> sap_classification sample_projection \<and>
   sap_classification sample_projection = data_classification.SECRET \<and>
   fst ` set (sap_selected_fields sample_projection) \<subseteq>
     set (projection_fields (as_type (token_source ''a'')))"
proof -
  have "sensitive_key ''token''" unfolding sensitive_key_def by code_simp
  then have "public_eq (PDict (as_schema (token_source ''a''))) (PDict (as_schema (token_source ''b'')))"
    by (intro public_eq.dicts) (simp add: token_source_def sample_source_def public_eq.same)
  from projection_leaks_nothing [OF token_projection token_projection this] token_projection [of "''a''"]
  show ?thesis by (simp add: token_source_def)
qed

text \<open>The schema document of a projection is read back as the same projection, and a document whose
  fingerprint does not match its content is rejected.\<close>

lemma projection_roundtrip:
  assumes "make_safe_ai_projection p = Inr p" "make_ai_data_reference (sap_source p) = Inr (sap_source p)"
    and "projection_schema_dict sha p = Inr d"
  shows "projection_from_schema sha d = Inr p \<and>
    (dget d ''content_fingerprint'' \<noteq> Some f \<longrightarrow>
     projection_from_schema sha (dset ''content_fingerprint'' f d) =
       Inl (invalid_contract ''Projection fingerprint mismatch.''))"
proof -
  from assms(3) obtain fp where fp: "projection_fingerprint sha p = Inr fp" and d: "d =
       [(''schema_version'', PStr ''1.0.0''),
        (''source'', PDict (reference_schema_dict (sap_source p))),
        (''classification'', PStr (data_classification_value (sap_classification p))),
        (''fields'', PDict (sap_selected_fields p)),
        (''redaction_applied'', PBool True), (''projection_applied'', PBool True),
        (''content_fingerprint'', PStr fp),
        (''projection_version'', PStr (sap_projection_version p))]"
    by (auto simp: projection_schema_dict_def)
  have main: "projection_from_schema sha (dset ''content_fingerprint'' g d) =
      (if Some g \<noteq> Some (PStr fp) then Inl (invalid_contract ''Projection fingerprint mismatch.'') else Inr p)"
    for g
  proof -
    let ?d = "dset ''content_fingerprint'' g d"
    have keys: "check_keys ?d [''schema_version'', ''source'', ''classification'', ''fields'',
        ''redaction_applied'', ''projection_applied'', ''content_fingerprint'', ''projection_version''] = Inr ()"
      by (simp add: check_keys_def d)
    have flags: "dget ?d ''schema_version'' = Some (PStr ''1.0.0'')"
      "dget ?d ''redaction_applied'' = Some (PBool True)"
      "dget ?d ''projection_applied'' = Some (PBool True)" "dget ?d ''content_fingerprint'' = Some g"
      by (simp_all add: d)
    have fields: "field_dict ?d ''source'' e = Inr (reference_schema_dict (sap_source p))"
      "field_dict ?d ''fields'' e = Inr (sap_selected_fields p)"
      "field_str ?d ''projection_version'' e = Inr (sap_projection_version p)" for e
      by (simp_all add: field_dict_def field_str_def d)
    have cls: "field_enum data_classification_members data_classification_value ?d ''classification'' e =
        Inr (sap_classification p)" for e
      by (rule field_enum_value) (simp_all add: d data_classification_enum.of_val)
    have eta: "\<lparr>sap_source = sap_source p, sap_classification = sap_classification p,
        sap_selected_fields = sap_selected_fields p,
        sap_projection_version = sap_projection_version p\<rparr> = p" by (cases p) simp
    show ?thesis
      unfolding projection_from_schema_def Let_def keys flags fields cls eta bind_res.simps
        reference_roundtrip [OF assms(2)] assms(1) fp by simp
  qed
  have "dset ''content_fingerprint'' (PStr fp) d = d" by (simp add: d)
  with main [of "PStr fp"] main [of f] show ?thesis by (simp add: d)
qed

end
