(* ===== verification/Mcp_Context.thy ===== *)
theory Mcp_Context
  imports Canonical
begin

section \<open>The context bridge, redaction and error envelopes\<close>

text \<open>
  \<open>apex_mcp/context_bridge.py\<close>, \<open>redaction.py\<close> and \<open>error_mapper.py\<close>: what the gateway lets into
  the Core as arguments, and what it lets out.  The regular expressions are written out as
  matchers.  Letter case, word boundaries and white space are those of ASCII: a character outside
  it is neither a letter nor a space here.
\<close>

subsection \<open>The text of a value\<close>

text \<open>\<open>str\<close> and \<open>repr\<close>; a \<open>repr\<close> keeps characters outside ASCII.\<close>

definition repr_char :: "char \<Rightarrow> bool \<Rightarrow> char \<Rightarrow> string" where
  "repr_char quote ascii c =
     (let n = of_char c :: nat in
      if c = quote \<or> n = 92 then [CHR 92, c]
      else if n = 9 then [CHR 92, CHR ''t'']
      else if n = 10 then [CHR 92, CHR ''n'']
      else if n = 13 then [CHR 92, CHR ''r'']
      else if n < 32 \<or> n = 127 \<or> ascii \<and> 127 < n then [CHR 92, CHR ''x''] @ hex2 n
      else [c])"

definition repr_text :: "bool \<Rightarrow> string \<Rightarrow> string" where
  "repr_text ascii s =
     (let quote = (if CHR 39 \<in> set s \<and> CHR 34 \<notin> set s then CHR 34 else CHR 39)
      in quote # concat (List.map (repr_char quote ascii) s) @ [quote])"

fun py_repr :: "pyval \<Rightarrow> string" where
  "py_repr PNone = ''None''"
| "py_repr (PBool b) = (if b then ''True'' else ''False'')"
| "py_repr (PInt n) = int_str n"
| "py_repr (PFloat f) = fl_repr f"
| "py_repr (PStr s) = repr_text False s"
| "py_repr (PBytes b) = CHR ''b'' # repr_text True (List.map (\<lambda>w. char_of (unat w)) b)"
| "py_repr (PList xs) = ''['' @ join_str '', '' (List.map py_repr xs) @ '']''"
| "py_repr (PDict d) =
     ''{'' @ join_str '', '' (List.map (\<lambda>(k, v). repr_text False k @ '': '' @ py_repr v) d) @ ''}''"

fun py_str :: "pyval \<Rightarrow> string" where
  "py_str (PStr s) = s"
| "py_str v = py_repr v"

subsection \<open>Keys\<close>

text \<open>An alternative of the key patterns is its list of words, which one \<open>-\<close> or \<open>_\<close> may separate.\<close>

fun match_words :: "string list \<Rightarrow> string \<Rightarrow> bool" where
  "match_words [] s = True"
| "match_words [w] s = is_prefix w s"
| "match_words (w # v # ws) s = (is_prefix w s \<and>
     (match_words (v # ws) (drop (length w) s) \<or>
      (case drop (length w) s of
         [] \<Rightarrow> False
       | c # r \<Rightarrow> (c = CHR ''-'' \<or> c = CHR ''_'') \<and> match_words (v # ws) r)))"

fun search_words :: "string list \<Rightarrow> string \<Rightarrow> bool" where
  "search_words ws [] = match_words ws []"
| "search_words ws (c # s) = (match_words ws (c # s) \<or> search_words ws s)"

definition forbidden_key_words :: "string list list" where
  "forbidden_key_words =
     [[''api'', ''key''], [''authorization''], [''credential''], [''password''], [''secret''],
      [''access'', ''token''], [''refresh'', ''token''], [''prompt''], [''chain'', ''of'', ''thought''],
      [''reasoning'', ''trace''], [''raw'', ''response''], [''raw'', ''body''], [''raw'', ''blob''],
      [''attachment'', ''bytes''], [''base64'']]"

definition forbidden_key :: "string \<Rightarrow> bool" where
  "forbidden_key k \<longleftrightarrow> list_ex (\<lambda>ws. search_words ws (lower k)) forbidden_key_words"

definition sensitive_key_words :: "string list list" where
  "sensitive_key_words =
     [[''api'', ''key''], [''authorization''], [''credential''], [''password''], [''secret''],
      [''access'', ''token''], [''refresh'', ''token''], [''prompt''], [''chain'', ''of'', ''thought''],
      [''reasoning'', ''trace''], [''raw'', ''response''], [''raw'', ''body''], [''raw'', ''blob''],
      [''attachment'', ''bytes''], [''base64'']]"

definition sensitive_key :: "string \<Rightarrow> bool" where
  "sensitive_key k \<longleftrightarrow> list_ex (\<lambda>ws. search_words ws (lower k)) sensitive_key_words"

lemma sensitive_iff_forbidden: "sensitive_key k = forbidden_key k"
  by (simp add: sensitive_key_def forbidden_key_def sensitive_key_words_def forbidden_key_words_def)

subsection \<open>Actors\<close>

text \<open>\<open>$\<close> matches at the end and before a line feed that ends the text.\<close>

definition machine_actor :: "string \<Rightarrow> bool" where
  "machine_actor a \<longleftrightarrow>
     list_ex (\<lambda>p. is_prefix p (lower a) \<and>
         (let r = drop (length p) a in
          r = [] \<or> r = [CHR 10] \<or> hd r = CHR ''-'' \<or> hd r = CHR ''_'' \<or> hd r = CHR '':''))
       [''ai'', ''llm'', ''model'', ''bot'', ''system'', ''mcp-ai'', ''external-ai'']"

definition is_authenticated_actor :: "string option \<Rightarrow> bool" where
  "is_authenticated_actor actor_id =
     (case actor_id of
        None \<Rightarrow> False
      | Some a \<Rightarrow> lower a \<notin> {'''', ''anonymous'', ''unauthenticated''} \<and> \<not> machine_actor a)"

definition trusted_actor_fields :: "(string \<times> string) list" where
  "trusted_actor_fields =
     [(''ai.keyword-recommendation.review'', ''actor_id''),
      (''ai.scope-summary.review'', ''actor_id''),
      (''ai.keyword-recommendation.promote'', ''actor_id''),
      (''report.create'', ''created_by''),
      (''report.version.create'', ''created_by''),
      (''report.review.submit'', ''actor_id''),
      (''report.review.comment'', ''actor_id''),
      (''report.review.request-changes'', ''actor_id''),
      (''report.review.accept-section'', ''actor_id''),
      (''report.review.reject-section'', ''actor_id''),
      (''report.review.complete'', ''actor_id''),
      (''report.review.reopen'', ''actor_id''),
      (''report.approve'', ''approver_id''),
      (''report.reject'', ''approver_id''),
      (''report.approval.revoke'', ''actor_id''),
      (''report.custody-snapshot.create'', ''captured_by''),
      (''report.render-package.create'', ''created_by''),
      (''report.export.prepare'', ''created_by''),
      (''report.archive'', ''actor_id'')]"

definition authenticated_human_tool :: "string \<Rightarrow> bool" where
  "authenticated_human_tool tool \<longleftrightarrow> tool \<in> fst ` set trusted_actor_fields \<or>
     tool = ''apex.view.raw_read'' \<or> tool = ''ai.promotion.preview''"

subsection \<open>The bridge\<close>

definition max_argument_bytes :: int where
  "max_argument_bytes = 64 * 1024"

definition max_argument_depth :: nat where
  "max_argument_depth = 8"

fun arg_depth :: "pyval \<Rightarrow> nat \<Rightarrow> nat" where
  "arg_depth (PDict d) level =
     (if d = [] then level + 1 else fold max (List.map (\<lambda>(k, v). arg_depth v (level + 1)) d) 0)"
| "arg_depth (PList xs) level =
     (if xs = [] then level + 1 else fold max (List.map (\<lambda>x. arg_depth x (level + 1)) xs) 0)"
| "arg_depth v level = level + 1"

fun reject_forbidden :: "pyval \<Rightarrow> unit res" where
  "reject_forbidden (PDict d) = map_res (\<lambda>_. ()) (traverse (\<lambda>(k, v).
     if forbidden_key k then
       Inl (tool_input_validation_error ''MCP arguments cannot contain secrets, prompts, or raw blobs.''
         (Some k))
     else reject_forbidden v) d)"
| "reject_forbidden (PList xs) = map_res (\<lambda>_. ()) (traverse reject_forbidden xs)"
| "reject_forbidden (PBytes b) =
     Inl (tool_input_validation_error ''MCP arguments cannot contain binary payloads.''
       (Some ''arguments''))"
| "reject_forbidden v = Inr ()"

definition validate_budget :: "dict \<Rightarrow> unit res" where
  "validate_budget payload =
     (if max_argument_depth < arg_depth (PDict payload) 0 then
        Inl (tool_input_validation_error ''MCP arguments exceed the maximum JSON depth.''
          (Some ''arguments''))
      else bind_res (json_render '','' '':'' (sort_json (PDict payload))) (\<lambda>body.
        if max_argument_bytes < int (length body) then
          Inl (tool_input_validation_error ''MCP arguments exceed the maximum serialized size.''
            (Some ''arguments''))
        else Inr ()))"

record trusted_call =
  tc_actor_id :: "string option"
  tc_session_id :: "string option"
  tc_grant_id :: "string option"
  tc_fingerprint :: "string option"

definition or_empty :: "string option \<Rightarrow> string" where
  "or_empty a = (case a of None \<Rightarrow> '''' | Some s \<Rightarrow> s)"

definition trusted_payload :: "string \<Rightarrow> dict \<Rightarrow> trusted_call \<Rightarrow> dict" where
  "trusted_payload tool_name arguments t =
     (let p1 = (if tool_name = ''apex.context.snapshot'' then dset ''purpose'' (PStr ''MCP_REQUEST'') arguments
            else arguments);
          p2 = (case map_of trusted_actor_fields tool_name of
              None \<Rightarrow> p1 | Some f \<Rightarrow> dset f (PStr (or_empty (tc_actor_id t))) p1);
          p3 = (if tool_name = ''report.ai-draft.ingest'' then dset ''created_by'' (PStr ''mcp-ai-layer'') p2
            else p2)
      in if tool_name = ''ai.keyword-recommendation.promote'' then
           dset ''confirmation_metadata'' (PDict
             [(''grant_id'', opt_str (tc_grant_id t)), (''actor_id'', opt_str (tc_actor_id t)),
              (''session_id'', opt_str (tc_session_id t)),
              (''request_fingerprint'', opt_str (tc_fingerprint t))]) p3
         else p3)"

definition prepare :: "string \<Rightarrow> dict \<Rightarrow> trusted_call \<Rightarrow> dict res" where
  "prepare tool_name arguments t =
     bind_res (reject_forbidden (PDict arguments)) (\<lambda>_.
       if authenticated_human_tool tool_name \<and>
          \<not> is_authenticated_actor (Some (or_empty (tc_actor_id t))) then
         Inl (authenticated_actor_required_error tool_name)
       else
         let payload = trusted_payload tool_name arguments t
         in bind_res (validate_budget payload) (\<lambda>_. Inr payload))"

subsection \<open>Redaction\<close>

definition is_alnum :: "char \<Rightarrow> bool" where
  "is_alnum c \<longleftrightarrow> (let n = of_char (lower_char c) :: nat in 48 \<le> n \<and> n \<le> 57 \<or> 97 \<le> n \<and> n \<le> 122)"

definition is_word_char :: "char \<Rightarrow> bool" where
  "is_word_char c \<longleftrightarrow> is_alnum c \<or> c = CHR ''_''"

definition redacted :: string where
  "redacted = ''<redacted>''"

text \<open>A matcher gets the character before the position and the rest of the text, and returns the
  length of its match.  Both patterns start at a word boundary with a letter, and the key pattern
  ends at one, so it gives back trailing hyphens.\<close>

definition at_boundary :: "char option \<Rightarrow> bool" where
  "at_boundary prev = (case prev of None \<Rightarrow> True | Some c \<Rightarrow> \<not> is_word_char c)"

definition bearer_char :: "char \<Rightarrow> bool" where
  "bearer_char c \<longleftrightarrow> is_alnum c \<or> c \<in> set ''._~+/=-''"

definition match_bearer :: "char option \<Rightarrow> string \<Rightarrow> nat option" where
  "match_bearer prev s =
     (let r = drop 6 s; gap = takeWhile is_ws r; tok = takeWhile bearer_char (dropWhile is_ws r)
      in if at_boundary prev \<and> is_prefix ''bearer'' (lower s) \<and> gap \<noteq> [] \<and> tok \<noteq> []
         then Some (6 + length gap + length tok) else None)"

definition key_char :: "char \<Rightarrow> bool" where
  "key_char c \<longleftrightarrow> is_alnum c \<or> c = CHR ''_'' \<or> c = CHR ''-''"

definition key_body :: "string \<Rightarrow> string" where
  "key_body s = rev (dropWhile (\<lambda>c. c = CHR ''-'') (rev (takeWhile key_char (drop 3 s))))"

definition match_openai_key :: "char option \<Rightarrow> string \<Rightarrow> nat option" where
  "match_openai_key prev s =
     (if at_boundary prev \<and> is_prefix ''sk-'' s \<and> 8 \<le> length (key_body s)
      then Some (3 + length (key_body s)) else None)"

text \<open>\<open>re.sub\<close>: leftmost matches, left to right; \<open>skip\<close> characters of the current match are left.\<close>

fun sub_text :: "(char option \<Rightarrow> string \<Rightarrow> nat option) \<Rightarrow> char option \<Rightarrow> nat \<Rightarrow> string \<Rightarrow> string" where
  "sub_text m prev skip [] = []"
| "sub_text m prev skip (c # s) =
     (if 0 < skip then sub_text m (Some c) (skip - 1) s
      else (case m prev (c # s) of
          None \<Rightarrow> c # sub_text m (Some c) 0 s
        | Some n \<Rightarrow> redacted @ sub_text m (Some c) (n - 1) s))"

definition redact_text :: "string \<Rightarrow> string" where
  "redact_text s = sub_text match_openai_key None 0 (sub_text match_bearer None 0 s)"

fun redact :: "pyval \<Rightarrow> pyval" where
  "redact (PDict d) =
     PDict (List.map (\<lambda>(k, v). (k, if sensitive_key k then PStr redacted else redact v)) d)"
| "redact (PList xs) = PList (List.map redact xs)"
| "redact (PBytes b) = PStr redacted"
| "redact (PStr s) = PStr (redact_text s)"
| "redact v = v"

definition redact_dict :: "dict \<Rightarrow> dict" where
  "redact_dict d = List.map (\<lambda>(k, v). (k, if sensitive_key k then PStr redacted else redact v)) d"

subsection \<open>Error envelopes\<close>

definition exn_type_name :: "exn \<Rightarrow> string" where
  "exn_type_name e = (case e of
     ApexExn _ \<Rightarrow> ''ApexError'' | McpExn _ \<Rightarrow> ''McpFoundationError'' | PyExn n \<Rightarrow> n
   | AuthExn _ \<Rightarrow> ''AuthError'' | HttpExn _ _ \<Rightarrow> ''HTTPException'')"

definition exn_api_error :: "exn \<Rightarrow> dict" where
  "exn_api_error error = (case error of
     ApexExn e \<Rightarrow> to_api_error e
   | McpExn e \<Rightarrow>
       [(''code'', PStr (me_code e)), (''message_key'', PStr (''error.mcp.'' @ lower (me_code e))),
        (''developer_message'', PStr (me_developer_message e)), (''target'', opt_str (me_target e)),
        (''retryable'', PBool (me_retryable e)), (''details'', PDict (me_details e))]
   | _ \<Rightarrow>
       [(''code'', PStr ''MCP_INTERNAL_ERROR''), (''message_key'', PStr ''error.mcp.internal''),
        (''developer_message'', PStr ''The MCP adapter failed unexpectedly.''), (''target'', PNone),
        (''retryable'', PBool False),
        (''details'', PDict [(''error_type'', PStr (exn_type_name error))])])"

definition map_exception :: "exn \<Rightarrow> string \<Rightarrow> string option \<Rightarrow> dict" where
  "map_exception error request_id correlation_id = redact_dict
     [(''schema_version'', PStr ''1.0.0''), (''interface_version'', PStr ''1.0.0''),
      (''request_id'', PStr request_id), (''correlation_id'', opt_str correlation_id),
      (''status'', PStr ''ERROR''), (''data'', PNone), (''warnings'', PList []),
      (''errors'', PList [PDict (exn_api_error error)])]"

end
