(* ===== verification/Mcp_Confirmation.thy ===== *)
theory Mcp_Confirmation
  imports Timestamps
begin

section \<open>Human confirmation grants\<close>

text \<open>
  \<open>apex_mcp/confirmation.py\<close> and the table behind \<open>apex_backend/auth/db_confirmation.py\<close>: grants
  issued by a trusted backend, consumed by an exactly matching request.  A provider's \<open>authorize\<close>
  returns its answer and the state it leaves.  A naive expiry is read as UTC; the current time is
  an argument in microseconds.  The locale \<open>confirmation_store\<close> is what the gate relies on from a
  provider: an approval consumes one remaining use of a matching, unexpired grant, a refusal
  changes nothing.  Both stores are instances.
\<close>

record confirmation_request =
  cr_grant_id :: string
  cr_actor_id :: string
  cr_session_id :: string
  cr_case_id :: string
  cr_tool_name :: string
  cr_fingerprint :: string
  cr_target_ids :: "string list"

record confirmation_grant =
  cg_grant_id :: string
  cg_actor_id :: string
  cg_session_id :: string
  cg_case_id :: string
  cg_tool_name :: string
  cg_fingerprint :: string
  cg_target_ids :: "string list"
  cg_expires_at :: datetime
  cg_max_uses :: int

definition grant_matches :: "confirmation_grant \<Rightarrow> confirmation_request \<Rightarrow> bool" where
  "grant_matches g q \<longleftrightarrow> cg_actor_id g = cr_actor_id q \<and> cg_session_id g = cr_session_id q \<and>
     cg_case_id g = cr_case_id q \<and> cg_tool_name g = cr_tool_name q \<and>
     cg_fingerprint g = cr_fingerprint q \<and> cg_target_ids g = cr_target_ids q"

subsection \<open>The providers\<close>

definition deny_all_authorize :: "unit \<Rightarrow> confirmation_request \<Rightarrow> int \<Rightarrow> bool \<times> unit" where
  "deny_all_authorize s q now = (False, s)"

record memory_grants =
  mg_grants :: "string \<Rightarrow> confirmation_grant option"
  mg_uses :: "string \<Rightarrow> int option"

definition memory_provider :: "confirmation_grant list \<Rightarrow> memory_grants" where
  "memory_provider gs = \<lparr>mg_grants = map_of (rev (List.map (\<lambda>g. (cg_grant_id g, g)) gs)),
     mg_uses = Map.empty\<rparr>"

definition memory_issue :: "memory_grants \<Rightarrow> confirmation_grant \<Rightarrow> memory_grants res" where
  "memory_issue s g =
     (if cg_max_uses g < 1 then Inl (PyExn ''ValueError'')
      else Inr (s\<lparr>mg_grants := (mg_grants s)(cg_grant_id g \<mapsto> g),
        mg_uses := (mg_uses s)(cg_grant_id g := None)\<rparr>))"

definition uses_of :: "memory_grants \<Rightarrow> string \<Rightarrow> int" where
  "uses_of s i = (case mg_uses s i of None \<Rightarrow> 0 | Some n \<Rightarrow> n)"

definition memory_authorize ::
  "memory_grants \<Rightarrow> confirmation_request \<Rightarrow> int \<Rightarrow> bool \<times> memory_grants" where
  "memory_authorize s q now =
     (case mg_grants s (cr_grant_id q) of
        None \<Rightarrow> (False, s)
      | Some g \<Rightarrow>
          if \<not> grant_matches g q then (False, s)
          else if instant (cg_expires_at g) \<le> now then (False, s)
          else if cg_max_uses g \<le> uses_of s (cg_grant_id g) then (False, s)
          else (True, s\<lparr>mg_uses := (mg_uses s)(cg_grant_id g \<mapsto> uses_of s (cg_grant_id g) + 1)\<rparr>))"

text \<open>The table: grants by primary key with the count of uses.  \<open>db_check\<close> is what \<open>authorize\<close> reads
  before its atomic update, \<open>db_consume\<close> the update with the count of rows it changed.\<close>

type_synonym grant_table = "string \<Rightarrow> (confirmation_grant \<times> int) option"

definition db_check :: "grant_table \<Rightarrow> confirmation_request \<Rightarrow> int \<Rightarrow> bool" where
  "db_check t q now =
     (case t (cr_grant_id q) of
        None \<Rightarrow> False
      | Some (g, uses) \<Rightarrow>
          if instant (cg_expires_at g) \<le> now then False
          else if cg_max_uses g \<le> uses then False
          else grant_matches g q)"

definition db_consume :: "grant_table \<Rightarrow> confirmation_request \<Rightarrow> bool \<times> grant_table" where
  "db_consume t q =
     (case t (cr_grant_id q) of
        None \<Rightarrow> (False, t)
      | Some (g, uses) \<Rightarrow>
          if uses < cg_max_uses g then (True, t(cr_grant_id q \<mapsto> (g, uses + 1))) else (False, t))"

definition db_authorize :: "grant_table \<Rightarrow> confirmation_request \<Rightarrow> int \<Rightarrow> bool \<times> grant_table" where
  "db_authorize t q now = (if db_check t q now then db_consume t q else (False, t))"

text \<open>The grants a query of \<open>confirmation_for\<close> returns, in the order of the table scan \<open>ids\<close>.\<close>

definition db_confirmation_for :: "grant_table \<Rightarrow> string list \<Rightarrow> string \<Rightarrow> string \<Rightarrow> string \<Rightarrow> string \<Rightarrow>
    string \<Rightarrow> string list \<Rightarrow> int \<Rightarrow> confirmation_request option" where
  "db_confirmation_for t ids actor_id session_id case_id tool_name fingerprint target_ids now =
     (let q = (\<lambda>i. \<lparr>cr_grant_id = i, cr_actor_id = actor_id, cr_session_id = session_id,
        cr_case_id = case_id, cr_tool_name = tool_name, cr_fingerprint = fingerprint,
        cr_target_ids = target_ids\<rparr>) in
      map_option q (find (\<lambda>i. case t i of
          None \<Rightarrow> False
        | Some (g, uses) \<Rightarrow> cg_actor_id g = actor_id \<and> cg_session_id g = session_id \<and>
            cg_case_id g = case_id \<and> cg_tool_name g = tool_name \<and> cg_fingerprint g = fingerprint \<and>
            now < instant (cg_expires_at g) \<and> uses < cg_max_uses g \<and> cg_target_ids g = target_ids) ids))"

subsection \<open>The gate\<close>

record gate_expectation =
  ge_actor_id :: string
  ge_session_id :: string
  ge_fingerprint :: string
  ge_case_id :: string
  ge_target_ids :: "string list"

definition request_expected :: "string \<Rightarrow> gate_expectation \<Rightarrow> confirmation_request \<Rightarrow> bool" where
  "request_expected tool_name x q \<longleftrightarrow> cr_tool_name q = tool_name \<and> cr_actor_id q = ge_actor_id x \<and>
     cr_session_id q = ge_session_id x \<and> cr_case_id q = ge_case_id x \<and>
     cr_fingerprint q = ge_fingerprint x \<and> cr_target_ids q = ge_target_ids x"

definition gate_require :: "('s \<Rightarrow> confirmation_request \<Rightarrow> int \<Rightarrow> bool \<times> 's) \<Rightarrow> 's \<Rightarrow> bool \<Rightarrow> string \<Rightarrow>
    confirmation_request option \<Rightarrow> gate_expectation \<Rightarrow> int \<Rightarrow> 's \<times> bool res" where
  "gate_require authorize s requires_confirmation tool_name request x now =
     (if \<not> requires_confirmation then (s, Inr False)
      else (case request of
          None \<Rightarrow> (s, Inl (confirmation_required_error tool_name))
        | Some q \<Rightarrow>
            if \<not> request_expected tool_name x q then (s, Inl (confirmation_required_error tool_name))
            else (case authorize s q now of
                (True, s') \<Rightarrow> (s', Inr True)
              | (False, s') \<Rightarrow> (s', Inl (confirmation_required_error tool_name)))))"

subsection \<open>The contract\<close>

fun authorize_run :: "('s \<Rightarrow> confirmation_request \<Rightarrow> int \<Rightarrow> bool \<times> 's) \<Rightarrow> 's \<Rightarrow>
    (confirmation_request \<times> int) list \<Rightarrow> (confirmation_request \<times> bool) list \<times> 's" where
  "authorize_run authorize s [] = ([], s)"
| "authorize_run authorize s ((q, now) # qs) =
     (let (ok, s') = authorize s q now; (rest, s'') = authorize_run authorize s' qs
      in ((q, ok) # rest, s''))"

definition approvals :: "string \<Rightarrow> (confirmation_request \<times> bool) list \<Rightarrow> nat" where
  "approvals i rs = length (filter (\<lambda>(q, ok). ok \<and> cr_grant_id q = i) rs)"

locale confirmation_store =
  fixes authorize :: "'s \<Rightarrow> confirmation_request \<Rightarrow> int \<Rightarrow> bool \<times> 's"
    and grants :: "'s \<Rightarrow> string \<Rightarrow> confirmation_grant option"
    and remaining :: "'s \<Rightarrow> string \<Rightarrow> nat"
    and inv :: "'s \<Rightarrow> bool"
  assumes approved: "inv s \<Longrightarrow> authorize s q now = (True, s') \<Longrightarrow>
      inv s' \<and> grants s' = grants s \<and>
      (\<exists>g. grants s (cr_grant_id q) = Some g \<and> grant_matches g q \<and> now < instant (cg_expires_at g)) \<and>
      remaining s (cr_grant_id q) = Suc (remaining s' (cr_grant_id q)) \<and>
      (\<forall>i. i \<noteq> cr_grant_id q \<longrightarrow> remaining s' i = remaining s i)"
    and refused: "inv s \<Longrightarrow> authorize s q now = (False, s') \<Longrightarrow> s' = s"
begin

lemma run_bound:
  "inv s \<Longrightarrow> authorize_run authorize s qs = (rs, s') \<Longrightarrow>
    inv s' \<and> grants s' = grants s \<and> approvals i rs + remaining s' i = remaining s i \<and>
    (\<forall>(q, ok) \<in> set rs. ok \<longrightarrow> (\<exists>g. grants s (cr_grant_id q) = Some g \<and> grant_matches g q))"
proof (induction qs arbitrary: s rs)
  case Nil
  then show ?case by (simp add: approvals_def)
next
  case (Cons a qs)
  obtain q now where a: "a = (q, now)" by (cases a)
  obtain ok s1 where s1: "authorize s q now = (ok, s1)" by (cases "authorize s q now")
  obtain rest where rest: "authorize_run authorize s1 qs = (rest, s')" "rs = (q, ok) # rest"
    using Cons.prems(2) a s1 by (auto split: prod.splits)
  have "inv s1"
    using Cons.prems(1) s1 approved [OF Cons.prems(1), of q now s1] refused [OF Cons.prems(1), of q now s1]
    by (cases ok) simp_all
  note ih = Cons.IH [OF this rest(1)]
  show ?case
  proof (cases ok)
    case True
    then have a: "authorize s q now = (True, s1)" using s1 by simp
    note ap = approved [OF Cons.prems(1) a]
    show ?thesis
      using ih ap rest(2) True by (cases "cr_grant_id q = i") (auto simp: approvals_def)
  next
    case False
    then have "s1 = s" using refused Cons.prems(1) s1 by simp
    with ih rest(2) False show ?thesis by (auto simp: approvals_def)
  qed
qed

text \<open>A confirmed call consumed one use of a grant for exactly this call; a refused one consumed none.\<close>

lemma gate_consumes:
  assumes "inv s" "gate_require authorize s True tool request x now = (s', r)"
  shows "case r of
      Inr b \<Rightarrow> b \<and> (\<exists>q g. request = Some q \<and> request_expected tool x q \<and>
        grants s (cr_grant_id q) = Some g \<and> grant_matches g q \<and> now < instant (cg_expires_at g) \<and>
        remaining s (cr_grant_id q) = Suc (remaining s' (cr_grant_id q)))
    | Inl e \<Rightarrow> s' = s \<and> e = confirmation_required_error tool"
proof (cases request)
  case None
  with assms(2) show ?thesis by (auto simp: gate_require_def)
next
  case (Some q)
  show ?thesis
  proof (cases "request_expected tool x q")
    case False
    with assms(2) Some show ?thesis by (auto simp: gate_require_def)
  next
    case True
    obtain ok s1 where s1: "authorize s q now = (ok, s1)" by (cases "authorize s q now")
    show ?thesis
    proof (cases ok)
      case granted: True
      then have a: "authorize s q now = (True, s1)" using s1 by simp
      then have "r = Inr True" "s' = s1" using assms(2) Some True by (auto simp: gate_require_def)
      with approved [OF assms(1) a] Some True show ?thesis by auto
    next
      case bad: False
      then have a: "authorize s q now = (False, s1)" using s1 by simp
      then have "r = Inl (confirmation_required_error tool)" "s' = s1"
        using assms(2) Some True by (auto simp: gate_require_def)
      with refused [OF assms(1) a] show ?thesis by simp
    qed
  qed
qed

end

subsection \<open>The instances\<close>

definition memory_remaining :: "memory_grants \<Rightarrow> string \<Rightarrow> nat" where
  "memory_remaining s i = (case mg_grants s i of None \<Rightarrow> 0 | Some g \<Rightarrow> nat (cg_max_uses g - uses_of s i))"

definition memory_inv :: "memory_grants \<Rightarrow> bool" where
  "memory_inv s \<longleftrightarrow> (\<forall>i g. mg_grants s i = Some g \<longrightarrow> cg_grant_id g = i)"

interpretation memory_store: confirmation_store memory_authorize mg_grants memory_remaining memory_inv
proof
  fix s :: memory_grants and q now s'
  assume inv: "memory_inv s" and ok: "memory_authorize s q now = (True, s')"
  then obtain g where g: "mg_grants s (cr_grant_id q) = Some g" "grant_matches g q"
    "now < instant (cg_expires_at g)" "uses_of s (cr_grant_id q) < cg_max_uses g"
    "s' = s\<lparr>mg_uses := (mg_uses s)(cr_grant_id q \<mapsto> uses_of s (cr_grant_id q) + 1)\<rparr>"
    by (auto simp: memory_authorize_def memory_inv_def split: option.splits if_splits)
  have uses: "uses_of s' i = (if i = cr_grant_id q then uses_of s i + 1 else uses_of s i)" for i
    by (simp add: uses_of_def g(5))
  show "memory_inv s' \<and> mg_grants s' = mg_grants s \<and>
      (\<exists>g. mg_grants s (cr_grant_id q) = Some g \<and> grant_matches g q \<and> now < instant (cg_expires_at g)) \<and>
      memory_remaining s (cr_grant_id q) = Suc (memory_remaining s' (cr_grant_id q)) \<and>
      (\<forall>i. i \<noteq> cr_grant_id q \<longrightarrow> memory_remaining s' i = memory_remaining s i)"
    using inv g uses
    by (auto simp: memory_inv_def memory_remaining_def Suc_nat_eq_nat_zadd1 split: option.splits)
next
  fix s :: memory_grants and q now s'
  assume "memory_authorize s q now = (False, s')"
  then show "s' = s" by (auto simp: memory_authorize_def split: option.splits if_splits)
qed

definition db_grants :: "grant_table \<Rightarrow> string \<Rightarrow> confirmation_grant option" where
  "db_grants t i = map_option fst (t i)"

definition db_remaining :: "grant_table \<Rightarrow> string \<Rightarrow> nat" where
  "db_remaining t i = (case t i of None \<Rightarrow> 0 | Some (g, uses) \<Rightarrow> nat (cg_max_uses g - uses))"

interpretation db_store: confirmation_store db_authorize db_grants db_remaining "\<lambda>t. True"
proof
  fix t :: grant_table and q now t'
  assume "db_authorize t q now = (True, t')"
  then obtain g uses where g: "t (cr_grant_id q) = Some (g, uses)" "grant_matches g q"
    "now < instant (cg_expires_at g)" "uses < cg_max_uses g" "t' = t(cr_grant_id q \<mapsto> (g, uses + 1))"
    by (auto simp: db_authorize_def db_check_def db_consume_def split: option.splits if_splits)
  then show "True \<and> db_grants t' = db_grants t \<and>
      (\<exists>g. db_grants t (cr_grant_id q) = Some g \<and> grant_matches g q \<and> now < instant (cg_expires_at g)) \<and>
      db_remaining t (cr_grant_id q) = Suc (db_remaining t' (cr_grant_id q)) \<and>
      (\<forall>i. i \<noteq> cr_grant_id q \<longrightarrow> db_remaining t' i = db_remaining t i)"
    by (auto simp: db_grants_def db_remaining_def fun_eq_iff Suc_nat_eq_nat_zadd1)
next
  fix t :: grant_table and q now t'
  assume "db_authorize t q now = (False, t')"
  then show "t' = t"
    by (auto simp: db_authorize_def db_check_def db_consume_def split: option.splits if_splits)
qed

interpretation deny_store: confirmation_store deny_all_authorize "\<lambda>s i. None" "\<lambda>s i. 0" "\<lambda>s. True"
  by unfold_locales (simp_all add: deny_all_authorize_def)

subsection \<open>Concurrent requests on the table\<close>

text \<open>Requests to the table run concurrently: each first reads (\<open>db_check\<close>), and later updates
  (\<open>db_consume\<close>), while others do the same in between.  A schedule interleaves these atomic steps;
  \<open>ready\<close> holds the requests whose check has passed.\<close>

datatype grant_step = Check nat confirmation_request int | Consume nat

record grant_world =
  gw_table :: grant_table
  gw_ready :: "nat \<Rightarrow> confirmation_request option"
  gw_approved :: "confirmation_request list"

fun grant_step_of :: "grant_step \<Rightarrow> grant_world \<Rightarrow> grant_world" where
  "grant_step_of (Check n q now) w =
     (if db_check (gw_table w) q now then w\<lparr>gw_ready := (gw_ready w)(n \<mapsto> q)\<rparr> else w)"
| "grant_step_of (Consume n) w =
     (case gw_ready w n of
        None \<Rightarrow> w
      | Some q \<Rightarrow> (case db_consume (gw_table w) q of
            (ok, t) \<Rightarrow> w\<lparr>gw_table := t, gw_ready := (gw_ready w)(n := None),
              gw_approved := (if ok then q # gw_approved w else gw_approved w)\<rparr>))"

lemma consume_grants: "db_consume t q = (ok, t') \<Longrightarrow> db_grants t' = db_grants t"
  by (rule ext) (auto simp: db_consume_def db_grants_def split: option.splits if_splits)

lemma consume_remaining: "db_consume t q = (ok, t') \<Longrightarrow>
    db_remaining t i = db_remaining t' i + (if ok \<and> cr_grant_id q = i then 1 else 0)"
  by (auto simp: db_consume_def db_remaining_def Suc_nat_eq_nat_zadd1 split: option.splits if_splits)

definition world_inv :: "grant_world \<Rightarrow> grant_world \<Rightarrow> bool" where
  "world_inv w0 w \<longleftrightarrow> db_grants (gw_table w) = db_grants (gw_table w0) \<and>
     (\<forall>i. length (filter (\<lambda>q. cr_grant_id q = i) (gw_approved w)) + db_remaining (gw_table w) i =
       db_remaining (gw_table w0) i) \<and>
     (\<forall>q \<in> set (gw_approved w) \<union> ran (gw_ready w).
       \<exists>g. db_grants (gw_table w0) (cr_grant_id q) = Some g \<and> grant_matches g q)"

lemma check_matches: "db_check t q now \<Longrightarrow> \<exists>g. db_grants t (cr_grant_id q) = Some g \<and> grant_matches g q"
  by (auto simp: db_check_def db_grants_def split: option.splits if_splits)

lemma world_step: "world_inv w0 w \<Longrightarrow> world_inv w0 (grant_step_of s w)"
proof (cases s)
  case (Check n q now)
  assume "world_inv w0 w"
  with Check check_matches [of "gw_table w" q now] show ?thesis
    by (auto simp: world_inv_def ran_def)
next
  case (Consume n)
  assume inv: "world_inv w0 w"
  show ?thesis
  proof (cases "gw_ready w n")
    case None
    with Consume inv show ?thesis by simp
  next
    case (Some q)
    then have q: "q \<in> ran (gw_ready w)" by (auto simp: ran_def)
    obtain ok t where t: "db_consume (gw_table w) q = (ok, t)" by (cases "db_consume (gw_table w) q")
    have sub: "ran ((gw_ready w)(n := None)) \<subseteq> ran (gw_ready w)" by (auto simp: ran_def)
    let ?app = "if ok then q # gw_approved w else gw_approved w"
    have "length (filter (\<lambda>q. cr_grant_id q = i) ?app) + db_remaining t i = db_remaining (gw_table w0) i" for i
    proof -
      have "length (filter (\<lambda>q. cr_grant_id q = i) (gw_approved w)) + db_remaining (gw_table w) i =
          db_remaining (gw_table w0) i"
        using inv unfolding world_inv_def by blast
      then show ?thesis using consume_remaining [OF t, of i] by (cases ok; cases "cr_grant_id q = i") simp_all
    qed
    moreover have "\<forall>p \<in> set ?app \<union> ran ((gw_ready w)(n := None)).
        \<exists>g. db_grants (gw_table w0) (cr_grant_id p) = Some g \<and> grant_matches g p"
      using inv q sub by (cases ok) (auto simp: world_inv_def)
    moreover have "db_grants t = db_grants (gw_table w0)"
      using inv consume_grants [OF t] by (simp add: world_inv_def)
    ultimately show ?thesis using Some t Consume by (simp add: world_inv_def)
  qed
qed

lemma world_run: "world_inv w0 w \<Longrightarrow> world_inv w0 (fold grant_step_of steps w)"
  by (induction steps arbitrary: w) (auto simp: world_step)

subsection \<open>Properties\<close>

text \<open>C20: However requests to the grant table interleave (each first reads, and later updates by one
  atomic statement), the calls approved under a grant never number more than the uses the grant had
  left, the grants themselves never change, and every approved request carries the actor, session,
  case, tool, arguments fingerprint and targets of its grant.\<close>

theorem concurrent_grants_bounded:
  assumes "w = fold grant_step_of steps \<lparr>gw_table = t, gw_ready = Map.empty, gw_approved = []\<rparr>"
  shows "length (filter (\<lambda>q. cr_grant_id q = i) (gw_approved w)) \<le>
      (case t i of None \<Rightarrow> 0 | Some (g, uses) \<Rightarrow> nat (cg_max_uses g - uses)) \<and>
    db_grants (gw_table w) = db_grants t \<and>
    (\<forall>q \<in> set (gw_approved w). \<exists>g. db_grants t (cr_grant_id q) = Some g \<and> grant_matches g q)"
proof -
  let ?w0 = "\<lparr>gw_table = t, gw_ready = Map.empty, gw_approved = []\<rparr>"
  have "world_inv ?w0 ?w0" by (simp add: world_inv_def)
  then have inv: "world_inv ?w0 w" unfolding assms by (rule world_run)
  then have "length (filter (\<lambda>q. cr_grant_id q = i) (gw_approved w)) + db_remaining (gw_table w) i =
      db_remaining t i" by (simp add: world_inv_def)
  then have "length (filter (\<lambda>q. cr_grant_id q = i) (gw_approved w)) \<le> db_remaining t i" by simp
  moreover have "db_grants (gw_table w) = db_grants t"
    "\<forall>q \<in> set (gw_approved w). \<exists>g. db_grants t (cr_grant_id q) = Some g \<and> grant_matches g q"
    using inv by (auto simp: world_inv_def)
  ultimately show ?thesis by (simp add: db_remaining_def)
qed

definition sample_grant :: confirmation_grant where
  "sample_grant = \<lparr>cg_grant_id = ''g1'', cg_actor_id = ''ana'', cg_session_id = ''s1'', cg_case_id = ''c1'',
     cg_tool_name = ''apex.case.archive'', cg_fingerprint = ''ff'', cg_target_ids = [''c1''],
     cg_expires_at = Aware 1900000000000000,
     cg_max_uses = 1\<rparr>"

definition sample_request :: confirmation_request where
  "sample_request = \<lparr>cr_grant_id = ''g1'', cr_actor_id = ''ana'', cr_session_id = ''s1'', cr_case_id = ''c1'',
     cr_tool_name = ''apex.case.archive'', cr_fingerprint = ''ff'', cr_target_ids = [''c1'']\<rparr>"

lemma concurrent_grants_bounded_witness:
  "length (filter (\<lambda>q. cr_grant_id q = ''g1'') (gw_approved (fold grant_step_of
      [Check 1 sample_request 0, Check 2 sample_request 0, Consume 1, Consume 2]
      \<lparr>gw_table = [''g1'' \<mapsto> (sample_grant, 0)], gw_ready = Map.empty, gw_approved = []\<rparr>))) \<le> 1"
  using concurrent_grants_bounded [OF refl, of "''g1''"
      "[Check 1 sample_request 0, Check 2 sample_request 0, Consume 1, Consume 2]"
      "[''g1'' \<mapsto> (sample_grant, 0)]"]
  by (simp add: sample_grant_def)

text \<open>In any sequence of authorizations the in-memory provider and the table approve, a grant with
  \<open>max_uses\<close> uses never confirms more than that many calls; every call confirmed matches its grant
  exactly, and a provider without grants confirms nothing.\<close>

lemma grant_uses_bounded:
  assumes "memory_authorize_run = authorize_run memory_authorize s qs"
    and "\<forall>i g. mg_grants s i = Some g \<longrightarrow> cg_grant_id g = i \<and> 0 \<le> uses_of s i"
    and "mg_grants s i = Some g" "t i = Some (g, uses)" "0 \<le> uses" "0 \<le> cg_max_uses g"
  shows "int (approvals i (fst memory_authorize_run)) \<le> cg_max_uses g \<and>
    int (approvals i (fst (authorize_run db_authorize t qs))) \<le> cg_max_uses g \<and>
    approvals i (fst (authorize_run deny_all_authorize () qs)) = 0 \<and>
    (\<forall>(q, granted) \<in> set (fst memory_authorize_run). granted \<longrightarrow>
      (\<exists>g. mg_grants s (cr_grant_id q) = Some g \<and> grant_matches g q))"
proof -
  have inv: "memory_inv s" using assms(2) by (simp add: memory_inv_def)
  obtain rs s' where r: "authorize_run memory_authorize s qs = (rs, s')"
    by (cases "authorize_run memory_authorize s qs")
  obtain rd t' where d: "authorize_run db_authorize t qs = (rd, t')"
    by (cases "authorize_run db_authorize t qs")
  obtain rn u where n: "authorize_run deny_all_authorize () qs = (rn, u)"
    by (cases "authorize_run deny_all_authorize () qs")
  have m: "approvals i rs + memory_remaining s' i = memory_remaining s i"
    "\<forall>(q, granted) \<in> set rs. granted \<longrightarrow> (\<exists>g. mg_grants s (cr_grant_id q) = Some g \<and> grant_matches g q)"
    using memory_store.run_bound [OF inv r, of i] by blast+
  have db: "approvals i rd + db_remaining t' i = db_remaining t i"
    using db_store.run_bound [OF TrueI d, of i] by blast
  have dn: "approvals i rn = 0" using deny_store.run_bound [OF TrueI n, of i] by simp
  have "memory_remaining s i = nat (cg_max_uses g - uses_of s i)" "0 \<le> uses_of s i"
    using assms(2,3) by (simp_all add: memory_remaining_def)
  then have "int (approvals i rs) \<le> cg_max_uses g" using m(1) assms(6) by linarith
  moreover have "int (approvals i rd) \<le> cg_max_uses g"
    using db assms(4-6) by (simp add: db_remaining_def)
  ultimately show ?thesis using m(2) dn r d n assms(1) by simp
qed

end
