(* ===== verification/Mcp_Budget.thy ===== *)
theory Mcp_Budget
  imports Canonical
begin

section \<open>The MCP safety budget\<close>

text \<open>
  \<open>apex_mcp/budget.py\<close>: per scope a window with counters of calls, result items and serialized
  bytes and the pagination cursors already used.  An operation returns the budget it leaves
  behind together with its result, since a window may be opened before a limit raises.  The
  monotonic clock is an argument, in seconds.
\<close>

record budget_window =
  bw_started :: rat
  bw_calls :: int
  bw_items :: int
  bw_bytes :: int
  bw_cursors :: "(string \<times> string) list"

record tool_budget =
  tb_window_seconds :: rat
  tb_max_calls :: int
  tb_max_total_items :: int
  tb_max_total_bytes :: int
  tb_max_call_bytes :: int
  tb_windows :: "string \<Rightarrow> budget_window option"

definition new_budget :: tool_budget where
  "new_budget = \<lparr>tb_window_seconds = 60, tb_max_calls = 64, tb_max_total_items = 4000,
     tb_max_total_bytes = 4 * 1024 * 1024, tb_max_call_bytes = 1024 * 1024,
     tb_windows = Map.empty\<rparr>"

definition put_window :: "tool_budget \<Rightarrow> string \<Rightarrow> budget_window \<Rightarrow> tool_budget" where
  "put_window b scope w = b\<lparr>tb_windows := (tb_windows b)(scope \<mapsto> w)\<rparr>"

definition fresh_window :: "rat \<Rightarrow> budget_window" where
  "fresh_window now =
     \<lparr>bw_started = now, bw_calls = 0, bw_items = 0, bw_bytes = 0, bw_cursors = []\<rparr>"

definition budget_window_at :: "tool_budget \<Rightarrow> string \<Rightarrow> rat \<Rightarrow> budget_window" where
  "budget_window_at b scope now =
     (case tb_windows b scope of
        None \<Rightarrow> fresh_window now
      | Some w \<Rightarrow> if tb_window_seconds b \<le> now - bw_started w then fresh_window now else w)"

definition cursor_key :: "string \<Rightarrow> dict \<Rightarrow> (string \<times> string) option" where
  "cursor_key tool_name arguments =
     (if tool_name = ''apex.context.scope_page'' then
        (case dget arguments ''cursor'' of Some (PStr c) \<Rightarrow> Some (tool_name, c) | _ \<Rightarrow> None)
      else None)"

definition begin_call ::
  "tool_budget \<Rightarrow> string \<Rightarrow> string \<Rightarrow> dict \<Rightarrow> rat \<Rightarrow> tool_budget \<times> unit res" where
  "begin_call b scope tool_name arguments now =
     (let w = budget_window_at b scope now in
      if tb_max_calls b \<le> bw_calls w then
        (put_window b scope w, Inl (tool_budget_exceeded_error ''max_tool_calls_per_window''))
      else
        (case cursor_key tool_name arguments of
           None \<Rightarrow> (put_window b scope (w\<lparr>bw_calls := bw_calls w + 1\<rparr>), Inr ())
         | Some key \<Rightarrow>
             if key \<in> set (bw_cursors w) then (put_window b scope w, Inl pagination_loop_error)
             else (put_window b scope
               (w\<lparr>bw_cursors := key # bw_cursors w, bw_calls := bw_calls w + 1\<rparr>), Inr ())))"

definition item_count :: "dict \<Rightarrow> int" where
  "item_count result =
     (if dget result ''status'' \<noteq> Some (PStr ''OK'') then 0
      else (case dget result ''data'' of
          Some (PDict d) \<Rightarrow> (case dget d ''items'' of Some (PList xs) \<Rightarrow> int (length xs) | _ \<Rightarrow> 1)
        | Some (PList xs) \<Rightarrow> int (length xs)
        | Some PNone \<Rightarrow> 0
        | None \<Rightarrow> 0
        | _ \<Rightarrow> 1))"

definition accept_result ::
  "tool_budget \<Rightarrow> string \<Rightarrow> dict \<Rightarrow> int \<Rightarrow> rat \<Rightarrow> tool_budget \<times> unit res" where
  "accept_result b scope result max_result_items now =
     (case canonical_json_bytes (PDict result) [] of
        Inl e \<Rightarrow> (b, Inl e)
      | Inr body \<Rightarrow>
          let n = int (length body); items = item_count result in
          if tb_max_call_bytes b < n then
            (b, Inl (tool_budget_exceeded_error ''max_serialized_bytes_per_call''))
          else if max_result_items < items then
            (b, Inl (tool_budget_exceeded_error ''descriptor.max_result_items''))
          else
            let w = budget_window_at b scope now in
            if tb_max_total_items b < bw_items w + items then
              (put_window b scope w, Inl (tool_budget_exceeded_error ''max_total_items_per_window''))
            else if tb_max_total_bytes b < bw_bytes w + n then
              (put_window b scope w,
               Inl (tool_budget_exceeded_error ''max_serialized_bytes_per_window''))
            else (put_window b scope
              (w\<lparr>bw_items := bw_items w + items, bw_bytes := bw_bytes w + n\<rparr>), Inr ()))"

subsection \<open>Runs\<close>

text \<open>An accepted call or result, as the run records it: when, how many items and bytes.\<close>

datatype budget_event =
    Called (ev_scope: string) (ev_time: rat) (ev_cursor: "(string \<times> string) option")
  | Returned (ev_scope: string) (ev_time: rat) (ev_items: int) (ev_bytes: int)

inductive budget_run :: "tool_budget \<Rightarrow> budget_event list \<Rightarrow> tool_budget \<Rightarrow> rat \<Rightarrow> bool" for b0 where
  started: "tb_windows b0 = Map.empty \<Longrightarrow> budget_run b0 [] b0 t"
| called: "budget_run b0 es b t \<Longrightarrow> t \<le> now \<Longrightarrow> begin_call b scope tool args now = (b', Inr ()) \<Longrightarrow>
    budget_run b0 (es @ [Called scope now (cursor_key tool args)]) b' now"
| refused: "budget_run b0 es b t \<Longrightarrow> t \<le> now \<Longrightarrow> begin_call b scope tool args now = (b', Inl e) \<Longrightarrow>
    budget_run b0 es b' now"
| returned: "budget_run b0 es b t \<Longrightarrow> t \<le> now \<Longrightarrow> accept_result b scope result m now = (b', Inr ()) \<Longrightarrow>
    canonical_json_bytes (PDict result) [] = Inr body \<Longrightarrow>
    budget_run b0 (es @ [Returned scope now (item_count result) (int (length body))]) b' now"
| rejected: "budget_run b0 es b t \<Longrightarrow> t \<le> now \<Longrightarrow> accept_result b scope result m now = (b', Inl e) \<Longrightarrow>
    budget_run b0 es b' now"

text \<open>The events of one scope since the start of its window.\<close>

definition in_window :: "string \<Rightarrow> rat \<Rightarrow> budget_event list \<Rightarrow> budget_event list" where
  "in_window scope since es = filter (\<lambda>e. ev_scope e = scope \<and> since \<le> ev_time e) es"

fun is_call :: "budget_event \<Rightarrow> bool" where
  "is_call (Called s t c) = True"
| "is_call (Returned s t i n) = False"

fun event_items :: "budget_event \<Rightarrow> int" where
  "event_items (Called s t c) = 0"
| "event_items (Returned s t i n) = i"

fun event_bytes :: "budget_event \<Rightarrow> int" where
  "event_bytes (Called s t c) = 0"
| "event_bytes (Returned s t i n) = n"

fun event_cursors :: "budget_event \<Rightarrow> (string \<times> string) list" where
  "event_cursors (Called s t (Some k)) = [k]"
| "event_cursors (Called s t None) = []"
| "event_cursors (Returned s t i n) = []"

definition accounts :: "budget_window \<Rightarrow> budget_event list \<Rightarrow> bool" where
  "accounts w es \<longleftrightarrow> bw_calls w = int (length (filter is_call es)) \<and>
     bw_items w = sum_list (List.map event_items es) \<and>
     bw_bytes w = sum_list (List.map event_bytes es) \<and>
     bw_cursors w = rev (concat (List.map event_cursors es)) \<and>
     distinct (concat (List.map event_cursors es))"

definition within_limits :: "tool_budget \<Rightarrow> budget_window \<Rightarrow> bool" where
  "within_limits b w \<longleftrightarrow> bw_calls w \<le> max 0 (tb_max_calls b) \<and>
     bw_items w \<le> max 0 (tb_max_total_items b) \<and> bw_bytes w \<le> max 0 (tb_max_total_bytes b)"

definition budget_inv :: "budget_event list \<Rightarrow> tool_budget \<Rightarrow> rat \<Rightarrow> bool" where
  "budget_inv es b t \<longleftrightarrow> (\<forall>e \<in> set es. ev_time e \<le> t) \<and>
     (\<forall>s w. tb_windows b s = Some w \<longrightarrow> bw_started w \<le> t \<and>
        (\<forall>e \<in> set es. ev_scope e = s \<longrightarrow> ev_time e < bw_started w + tb_window_seconds b) \<and>
        accounts w (in_window s (bw_started w) es) \<and> within_limits b w) \<and>
     (\<forall>s. tb_windows b s = None \<longrightarrow> (\<forall>e \<in> set es. ev_scope e \<noteq> s))"

text \<open>Opening the window that is due keeps the books.\<close>

lemma window_at_inv:
  assumes inv: "budget_inv es b t" and t: "t \<le> now" and pos: "0 < tb_window_seconds b"
    and w: "w = budget_window_at b s now"
  shows "bw_started w \<le> now" "now < bw_started w + tb_window_seconds b"
    "\<forall>e \<in> set es. ev_scope e = s \<longrightarrow> ev_time e < bw_started w + tb_window_seconds b"
    "accounts w (in_window s (bw_started w) es)" "within_limits b w"
proof -
  have fresh: "in_window s now es = []"
    if "\<forall>e \<in> set es. ev_scope e = s \<longrightarrow> ev_time e < now"
    using that by (auto simp: in_window_def filter_empty_conv)
  have new: "accounts (fresh_window now) []" "within_limits b (fresh_window now)"
    by (simp_all add: accounts_def within_limits_def fresh_window_def)
  have all: "bw_started w \<le> now \<and> now < bw_started w + tb_window_seconds b \<and>
    (\<forall>e \<in> set es. ev_scope e = s \<longrightarrow> ev_time e < bw_started w + tb_window_seconds b) \<and>
    accounts w (in_window s (bw_started w) es) \<and> within_limits b w"
  proof (cases "tb_windows b s")
    case None
    then have none: "\<forall>e \<in> set es. ev_scope e \<noteq> s" using inv by (simp add: budget_inv_def)
    have "w = fresh_window now" using None w by (simp add: budget_window_at_def)
    moreover have "in_window s now es = []" using none by (simp add: fresh)
    ultimately show ?thesis using new none pos by (simp add: fresh_window_def)
  next
    case (Some v)
    then have v: "bw_started v \<le> t" "accounts v (in_window s (bw_started v) es)" "within_limits b v"
      "\<forall>e \<in> set es. ev_scope e = s \<longrightarrow> ev_time e < bw_started v + tb_window_seconds b"
      using inv by (simp_all add: budget_inv_def)
    show ?thesis
    proof (cases "tb_window_seconds b \<le> now - bw_started v")
      case True
      then have "w = fresh_window now" using Some w by (simp add: budget_window_at_def)
      moreover have old: "\<forall>e \<in> set es. ev_scope e = s \<longrightarrow> ev_time e < now" using v(4) True by fastforce
      moreover have "in_window s now es = []" by (rule fresh [OF old])
      ultimately show ?thesis using new pos by (fastforce simp: fresh_window_def)
    next
      case False
      then have "w = v" using Some w by (simp add: budget_window_at_def)
      then show ?thesis using v t False by auto
    qed
  qed
  then show "bw_started w \<le> now" "now < bw_started w + tb_window_seconds b"
    "\<forall>e \<in> set es. ev_scope e = s \<longrightarrow> ev_time e < bw_started w + tb_window_seconds b"
    "accounts w (in_window s (bw_started w) es)" "within_limits b w" by blast+
qed

text \<open>Recording the events \<open>new\<close> of the scope in its window.\<close>

lemma put_window_inv:
  assumes inv: "budget_inv es b t" and t: "t \<le> now"
    and w: "bw_started w \<le> now" "now < bw_started w + tb_window_seconds b"
      "\<forall>e \<in> set es. ev_scope e = s \<longrightarrow> ev_time e < bw_started w + tb_window_seconds b"
      "accounts w (in_window s (bw_started w) (es @ new))" "within_limits b w"
    and new: "\<forall>e \<in> set new. ev_scope e = s \<and> ev_time e = now"
  shows "budget_inv (es @ new) (put_window b s w) now"
proof -
  have other: "in_window s' since (es @ new) = in_window s' since es" if "s' \<noteq> s" for s' since
    using that new by (auto simp: in_window_def filter_empty_conv)
  show ?thesis
    unfolding budget_inv_def
  proof (intro conjI allI impI)
    show "\<forall>e \<in> set (es @ new). ev_time e \<le> now" using inv t new by (fastforce simp: budget_inv_def)
  next
    fix s' v
    assume v: "tb_windows (put_window b s w) s' = Some v"
    have lim: "within_limits (put_window b s w) = within_limits b" "tb_window_seconds (put_window b s w) =
        tb_window_seconds b" by (simp_all add: within_limits_def put_window_def fun_eq_iff)
    show "bw_started v \<le> now"
      using v w inv t by (fastforce simp: put_window_def budget_inv_def split: if_splits)
    show "\<forall>e \<in> set (es @ new). ev_scope e = s' \<longrightarrow>
        ev_time e < bw_started v + tb_window_seconds (put_window b s w)"
      using v w inv new by (auto simp: lim) (auto simp: put_window_def budget_inv_def split: if_splits)
    show "accounts v (in_window s' (bw_started v) (es @ new))"
      using v w inv by (auto simp: put_window_def budget_inv_def other split: if_splits)
    show "within_limits (put_window b s w) v"
      using v w inv by (auto simp: lim) (auto simp: put_window_def budget_inv_def split: if_splits)
  next
    fix s'
    assume "tb_windows (put_window b s w) s' = None"
    then have n: "s' \<noteq> s" "tb_windows b s' = None" by (auto simp: put_window_def split: if_splits)
    then have "\<forall>e \<in> set es. ev_scope e \<noteq> s'" using inv unfolding budget_inv_def by blast
    with n new show "\<forall>e \<in> set (es @ new). ev_scope e \<noteq> s'" by auto
  qed
qed

lemma in_window_snoc: "ev_scope e = s \<Longrightarrow> since \<le> ev_time e \<Longrightarrow>
    in_window s since (es @ [e]) = in_window s since es @ [e]"
  by (simp add: in_window_def)

text \<open>Each operation keeps the books of the events it accepts.\<close>

lemma begin_call_inv:
  assumes inv: "budget_inv es b t" and t: "t \<le> now" and pos: "0 < tb_window_seconds b"
    and step: "begin_call b s tool args now = (b', r)"
  shows "budget_inv (if is_ok r then es @ [Called s now (cursor_key tool args)] else es) b' now"
proof -
  define w where "w = budget_window_at b s now"
  note wi = window_at_inv [OF inv t pos w_def]
  have keep: "budget_inv es (put_window b s w) now"
    using put_window_inv [OF inv t wi(1-3) _ wi(5), of "[]"] wi(4) by simp
  have call: "budget_inv (es @ [Called s now k]) (put_window b s w') now"
    if "bw_calls w < tb_max_calls b" and "set_option k \<inter> set (bw_cursors w) = {}"
      and w': "w' = w\<lparr>bw_cursors := (case k of None \<Rightarrow> bw_cursors w | Some c \<Rightarrow> c # bw_cursors w),
        bw_calls := bw_calls w + 1\<rparr>" for k w'
  proof (rule put_window_inv [OF inv t])
    show "bw_started w' \<le> now" "now < bw_started w' + tb_window_seconds b"
      "\<forall>e \<in> set es. ev_scope e = s \<longrightarrow> ev_time e < bw_started w' + tb_window_seconds b"
      using wi w' by simp_all
    have "bw_started w' = bw_started w" using w' by simp
    then have "in_window s (bw_started w') (es @ [Called s now k]) =
        in_window s (bw_started w) es @ [Called s now k]" using wi(1) by (simp add: in_window_snoc)
    then show "accounts w' (in_window s (bw_started w') (es @ [Called s now k]))"
      using wi(4) that(2) w' by (cases k) (auto simp: accounts_def)
    show "within_limits b w'" using wi(5) that(1) w' by (simp add: within_limits_def)
  qed simp
  show ?thesis
  proof (cases "tb_max_calls b \<le> bw_calls w")
    case True
    with step keep show ?thesis by (auto simp: begin_call_def w_def [symmetric] Let_def)
  next
    case False
    show ?thesis
    proof (cases "cursor_key tool args")
      case None
      with call [of None "w\<lparr>bw_calls := bw_calls w + 1\<rparr>"] step False show ?thesis
        by (auto simp: begin_call_def w_def [symmetric] Let_def)
    next
      case (Some key)
      show ?thesis
      proof (cases "key \<in> set (bw_cursors w)")
        case True
        with step keep False Some show ?thesis by (auto simp: begin_call_def w_def [symmetric] Let_def)
      next
        case notin: False
        with call [of "Some key" "w\<lparr>bw_cursors := key # bw_cursors w, bw_calls := bw_calls w + 1\<rparr>"]
          step False Some
        show ?thesis by (auto simp: begin_call_def w_def [symmetric] Let_def)
      qed
    qed
  qed
qed

lemma accept_result_inv:
  assumes inv: "budget_inv es b t" and t: "t \<le> now" and pos: "0 < tb_window_seconds b"
    and step: "accept_result b s result m now = (b', r)"
  shows "case r of
      Inr u \<Rightarrow> (\<exists>body. canonical_json_bytes (PDict result) [] = Inr body \<and>
        budget_inv (es @ [Returned s now (item_count result) (int (length body))]) b' now)
    | Inl e \<Rightarrow> budget_inv es b' now"
proof (cases "canonical_json_bytes (PDict result) []")
  case (Inl e)
  have "budget_inv es b now" using inv t by (fastforce simp: budget_inv_def)
  with Inl step show ?thesis by (auto simp: accept_result_def)
next
  case (Inr body)
  define w where "w = budget_window_at b s now"
  note wi = window_at_inv [OF inv t pos w_def]
  have keep: "budget_inv es (put_window b s w) now"
    using put_window_inv [OF inv t wi(1-3) _ wi(5), of "[]"] wi(4) by simp
  have same: "budget_inv es b now" using inv t by (fastforce simp: budget_inv_def)
  define w' where "w' = w\<lparr>bw_items := bw_items w + item_count result,
    bw_bytes := bw_bytes w + int (length body)\<rparr>"
  have new: "budget_inv (es @ [Returned s now (item_count result) (int (length body))]) (put_window b s w') now"
    if "bw_items w + item_count result \<le> tb_max_total_items b"
      "bw_bytes w + int (length body) \<le> tb_max_total_bytes b"
  proof (rule put_window_inv [OF inv t])
    show "bw_started w' \<le> now" "now < bw_started w' + tb_window_seconds b"
      "\<forall>e \<in> set es. ev_scope e = s \<longrightarrow> ev_time e < bw_started w' + tb_window_seconds b"
      using wi by (simp_all add: w'_def)
    have "bw_started w' = bw_started w" by (simp add: w'_def)
    then have "in_window s (bw_started w') (es @ [Returned s now (item_count result) (int (length body))]) =
        in_window s (bw_started w) es @ [Returned s now (item_count result) (int (length body))]"
      using wi(1) by (simp add: in_window_snoc)
    then show "accounts w' (in_window s (bw_started w')
        (es @ [Returned s now (item_count result) (int (length body))]))"
      using wi(4) by (auto simp: accounts_def w'_def)
    show "within_limits b w'" using wi(5) that by (auto simp: within_limits_def w'_def le_max_iff_disj)
  qed simp
  show ?thesis
    using step Inr keep same new
    by (auto simp: accept_result_def w_def [symmetric] w'_def [symmetric] Let_def split: if_splits)
qed

lemma put_window_config: "tb_window_seconds (put_window b s w) = tb_window_seconds b"
  "tb_max_calls (put_window b s w) = tb_max_calls b"
  "tb_max_total_items (put_window b s w) = tb_max_total_items b"
  "tb_max_total_bytes (put_window b s w) = tb_max_total_bytes b"
  by (simp_all add: put_window_def)

definition same_config :: "tool_budget \<Rightarrow> tool_budget \<Rightarrow> bool" where
  "same_config b b' \<longleftrightarrow> tb_window_seconds b' = tb_window_seconds b \<and> tb_max_calls b' = tb_max_calls b \<and>
     tb_max_total_items b' = tb_max_total_items b \<and> tb_max_total_bytes b' = tb_max_total_bytes b"

lemma step_config:
  "begin_call b s tool args now = (b', r) \<Longrightarrow> same_config b b'"
  "accept_result b s result m now = (b', r) \<Longrightarrow> same_config b b'"
  by (auto simp: begin_call_def accept_result_def same_config_def put_window_config Let_def
      split: if_splits option.splits sum.splits)

lemma run_inv:
  assumes "budget_run b0 es b t" "0 < tb_window_seconds b0"
  shows "budget_inv es b t \<and> same_config b0 b"
  using assms(1)
proof induction
  case (started t)
  then show ?case by (simp add: budget_inv_def same_config_def)
next
  case (called es b t now scope tool args b')
  then have pos: "0 < tb_window_seconds b" using assms(2) by (simp add: same_config_def)
  from begin_call_inv [OF _ called.hyps(2) pos called.hyps(3)] called.IH step_config(1) [OF called.hyps(3)]
  show ?case by (simp add: same_config_def)
next
  case (refused es b t now scope tool args b' e)
  then have pos: "0 < tb_window_seconds b" using assms(2) by (simp add: same_config_def)
  from begin_call_inv [OF _ refused.hyps(2) pos refused.hyps(3)] refused.IH step_config(1) [OF refused.hyps(3)]
  show ?case by (simp add: same_config_def)
next
  case (returned es b t now scope result m b' body)
  then have pos: "0 < tb_window_seconds b" using assms(2) by (simp add: same_config_def)
  from accept_result_inv [OF _ returned.hyps(2) pos returned.hyps(3)] returned.IH returned.hyps(4)
    step_config(2) [OF returned.hyps(3)]
  show ?case by (auto simp: same_config_def)
next
  case (rejected es b t now scope result m b' e)
  then have pos: "0 < tb_window_seconds b" using assms(2) by (simp add: same_config_def)
  from accept_result_inv [OF _ rejected.hyps(2) pos rejected.hyps(3)] rejected.IH
    step_config(2) [OF rejected.hyps(3)]
  show ?case by (simp add: same_config_def)
qed

subsection \<open>The limits\<close>



end
