(* ===== verification/Mcp_Frontend.thy ===== *)
theory Mcp_Frontend
  imports Mcp_Context Mcp_Confirmation Mcp_Budget
begin

section \<open>Frontend sessions and per-case authorization\<close>

text \<open>
  \<open>apex_mcp/frontend_security.py\<close> with the role scopes of \<open>apex_backend/auth/scopes.py\<close>: the
  session the server resolves from an access token, the gate that checks tenancy, scopes and roles
  per target case, and the two providers.  A frozen set is the list of its elements.  The
  \<open>access_token\<close> of the MCP library is the record of the fields the code reads, a tool descriptor
  is its dictionary, and the hash and the token's principal are arguments.
\<close>

record access_token =
  at_token :: string
  at_client_id :: string
  at_scopes :: "string list"
  at_resource :: "string option"
  at_subject :: "string option"
  at_claims :: "dict option"

definition claims_of :: "access_token \<Rightarrow> dict" where
  "claims_of t = (case at_claims t of None \<Rightarrow> [] | Some d \<Rightarrow> d)"

subsection \<open>Roles and scopes\<close>

definition all_roles :: "string list" where
  "all_roles = [''VIEWER'', ''ANALYST'', ''APPROVER'', ''EXPORTER'', ''ADMIN'']"

definition base_scopes :: "string list" where
  "base_scopes = [''apex:mcp'', ''apex:read'']"

definition role_scopes :: "string \<Rightarrow> string list" where
  "role_scopes r =
     (if r = ''VIEWER'' then base_scopes
      else if r = ''ANALYST'' then base_scopes @ [''apex:write'', ''apex:confirm'']
      else if r = ''EXPORTER'' then base_scopes @ [''apex:export'']
      else if r = ''APPROVER'' then
        base_scopes @ [''apex:write'', ''apex:confirm'', ''apex:approve'', ''apex:export'']
      else if r = ''ADMIN'' then
        base_scopes @ [''apex:write'', ''apex:confirm'', ''apex:approve'', ''apex:export'', ''apex:raw'']
      else [])"

definition scopes_for_roles :: "string list \<Rightarrow> string list" where
  "scopes_for_roles roles = remdups (concat (List.map (\<lambda>r. role_scopes (upper r)) roles))"

definition approval_tools :: "string list" where
  "approval_tools = [''report.approve'', ''report.reject'', ''report.approval.revoke'']"

definition export_tools :: "string list" where
  "export_tools = [''report.render-package.create'', ''report.export.prepare'']"

definition raw_read_tool :: string where
  "raw_read_tool = ''apex.view.raw_read''"

definition human_mutation_roles :: "string list" where
  "human_mutation_roles = [''ADMIN'', ''ANALYST'', ''APPROVER'']"

definition approval_roles :: "string list" where
  "approval_roles = [''ADMIN'', ''APPROVER'']"

definition export_roles :: "string list" where
  "export_roles = [''ADMIN'', ''APPROVER'', ''EXPORTER'']"

definition raw_read_roles :: "string list" where
  "raw_read_roles = [''ADMIN'', ''ANALYST'', ''APPROVER'']"

subsection \<open>Sessions\<close>

record frontend_session =
  fs_actor_id :: string
  fs_session_id :: string
  fs_tenant_id :: string
  fs_allowed_case_ids :: "string list"
  fs_roles :: "string list"

definition make_frontend_session :: "frontend_session \<Rightarrow> frontend_session res" where
  "make_frontend_session s =
     (let normalized = List.map (\<lambda>r. upper (strip r)) (filter (\<lambda>r. strip r \<noteq> []) (fs_roles s)) in
      if strip (fs_actor_id s) = [] \<or> \<not> is_authenticated_actor (Some (fs_actor_id s)) then
        Inl (authenticated_actor_required_error ''frontend.session'')
      else if strip (fs_session_id s) = [] \<or> strip (fs_tenant_id s) = [] then Inl (PyExn ''ValueError'')
      else if fs_allowed_case_ids s = [] \<or> list_ex (\<lambda>c. strip c = []) (fs_allowed_case_ids s) then
        Inl (PyExn ''ValueError'')
      else if normalized = [] then Inl (PyExn ''ValueError'')
      else if \<not> list_all (\<lambda>r. r \<in> set all_roles) normalized then Inl (PyExn ''ValueError'')
      else Inr (s\<lparr>fs_roles := normalized\<rparr>))"

definition budget_scope :: "(string \<Rightarrow> string) \<Rightarrow> frontend_session \<Rightarrow> string" where
  "budget_scope sha s = ''http:'' @ sha (fs_tenant_id s @ [CHR 0x00] @ fs_session_id s)"

subsection \<open>The authorization gate\<close>

definition dflag :: "dict \<Rightarrow> string \<Rightarrow> bool" where
  "dflag d k = truthy (dget_or d k PNone)"

definition required_scopes :: "dict \<Rightarrow> string \<Rightarrow> string list" where
  "required_scopes descriptor tool_name =
     [''apex:mcp'', ''apex:read''] @
     (if dflag descriptor ''mutates_state'' then [''apex:write''] else []) @
     (if dflag descriptor ''requires_confirmation'' then [''apex:confirm''] else []) @
     (if tool_name = raw_read_tool then [''apex:raw''] else []) @
     (if tool_name \<in> set approval_tools then [''apex:approve''] else []) @
     (if tool_name \<in> set export_tools then [''apex:export''] else [])"

definition required_roles :: "dict \<Rightarrow> string \<Rightarrow> string list" where
  "required_roles descriptor tool_name =
     (if tool_name \<in> set approval_tools then approval_roles
      else if tool_name \<in> set export_tools then export_roles
      else if tool_name = raw_read_tool then raw_read_roles
      else if dflag descriptor ''mutates_state'' then human_mutation_roles
      else [])"

definition case_roles_claim :: "access_token \<Rightarrow> pyval" where
  "case_roles_claim t =
     (let v = dget_or (claims_of t) ''case_roles'' PNone in if truthy v then v else PDict [])"

definition missing_scopes :: "string list \<Rightarrow> string list \<Rightarrow> string list" where
  "missing_scopes required available = sort (filter (\<lambda>s. s \<notin> set available) required)"

definition scope_denied :: "string \<Rightarrow> string list \<Rightarrow> exn" where
  "scope_denied tool_name missing =
     mcp_authorization_denied_error tool_name (List.map (\<lambda>s. ''scope:'' @ s) missing)"

definition role_denied :: "string \<Rightarrow> string list \<Rightarrow> exn" where
  "role_denied tool_name roles =
     mcp_authorization_denied_error tool_name (List.map (\<lambda>r. ''role:'' @ r) roles)"

text \<open>The scopes of the role in one case: a role that is not a text names no scopes.\<close>

definition case_scopes :: "dict \<Rightarrow> string \<Rightarrow> string list" where
  "case_scopes claim case_id =
     (let role = upper (strip (py_str (dget_or claim case_id (PStr ''''))))
      in if role = [] then [] else scopes_for_roles [role])"

fun check_case_scopes :: "string \<Rightarrow> string list \<Rightarrow> pyval \<Rightarrow> string list \<Rightarrow> unit res" where
  "check_case_scopes tool_name required claim [] = Inr ()"
| "check_case_scopes tool_name required claim (c # cs) =
     (case claim of
        PDict d \<Rightarrow>
          let missing = missing_scopes required (case_scopes d c) in
          if missing \<noteq> [] then Inl (scope_denied tool_name missing)
          else check_case_scopes tool_name required claim cs
      | _ \<Rightarrow> Inl (PyExn ''AttributeError''))"

fun check_case_roles :: "string \<Rightarrow> string list \<Rightarrow> pyval \<Rightarrow> string list \<Rightarrow> unit res" where
  "check_case_roles tool_name roles claim [] = Inr ()"
| "check_case_roles tool_name roles claim (c # cs) =
     (case claim of
        PDict d \<Rightarrow> (case dget_or d c (PStr '''') of
            PStr r \<Rightarrow>
              if upper (strip r) \<notin> set roles then Inl (role_denied tool_name roles)
              else check_case_roles tool_name roles claim cs
          | _ \<Rightarrow> Inl (PyExn ''AttributeError''))
      | _ \<Rightarrow> Inl (PyExn ''AttributeError''))"

text \<open>\<open>require\<close>, with the target cases in the order of \<open>sorted\<close>.\<close>

definition require_access ::
  "frontend_session \<Rightarrow> access_token \<Rightarrow> dict \<Rightarrow> string \<Rightarrow> string list \<Rightarrow> unit res" where
  "require_access session token descriptor tool_name targets =
     (let required = required_scopes descriptor tool_name;
          missing = missing_scopes required (at_scopes token);
          claim = case_roles_claim token;
          roles = required_roles descriptor tool_name
      in if \<not> list_all (\<lambda>c. c \<in> set (fs_allowed_case_ids session)) targets then
           Inl (mcp_tenant_scope_violation_error tool_name)
         else if missing \<noteq> [] then Inl (scope_denied tool_name missing)
         else bind_res (if truthy claim then check_case_scopes tool_name required claim (sort targets)
               else Inr ()) (\<lambda>_.
           if roles = [] then Inr ()
           else if truthy claim then check_case_roles tool_name roles claim targets
           else if \<not> list_ex (\<lambda>r. r \<in> set roles) (fs_roles session) then
             Inl (role_denied tool_name roles)
           else Inr ()))"

subsection \<open>The in-memory provider\<close>

type_synonym principal = "string \<times> string option \<times> string option"
type_synonym confirmation_key = "string \<times> string \<times> string \<times> string \<times> string \<times> string list"

record memory_security =
  ms_sessions :: "principal \<Rightarrow> frontend_session option"
  ms_confirmation_ids :: "confirmation_key \<Rightarrow> string option"
  ms_confirmations :: memory_grants

definition new_memory_security :: memory_security where
  "new_memory_security = \<lparr>ms_sessions = Map.empty, ms_confirmation_ids = Map.empty,
     ms_confirmations = memory_provider []\<rparr>"

definition named :: "string option \<Rightarrow> bool" where
  "named s \<longleftrightarrow> s \<noteq> None \<and> s \<noteq> Some ''''"

definition register_session ::
  "(access_token \<Rightarrow> principal) \<Rightarrow> memory_security \<Rightarrow> access_token \<Rightarrow> frontend_session \<Rightarrow> memory_security res"
  where
  "register_session principal_of s token session =
     (case principal_of token of (client, issuer, subject) \<Rightarrow>
        if client = [] \<or> \<not> named issuer \<or> \<not> named subject then Inl (PyExn ''ValueError'')
        else Inr (s\<lparr>ms_sessions := (ms_sessions s)(principal_of token \<mapsto> session)\<rparr>))"

definition resolve_memory_session ::
  "(access_token \<Rightarrow> principal) \<Rightarrow> memory_security \<Rightarrow> access_token \<Rightarrow> frontend_session res" where
  "resolve_memory_session principal_of s token =
     (case ms_sessions s (principal_of token) of
        None \<Rightarrow> Inl (mcp_authorization_denied_error ''frontend.session'' [])
      | Some session \<Rightarrow> Inr session)"

definition confirmation_key_of ::
  "string \<Rightarrow> string \<Rightarrow> string \<Rightarrow> string \<Rightarrow> string \<Rightarrow> string list \<Rightarrow> confirmation_key" where
  "confirmation_key_of actor_id session_id case_id tool_name fingerprint target_ids =
     (actor_id, session_id, case_id, tool_name, fingerprint, target_ids)"

definition issue_grant :: "memory_security \<Rightarrow> confirmation_grant \<Rightarrow> memory_security res" where
  "issue_grant s g =
     (let key = confirmation_key_of (cg_actor_id g) (cg_session_id g) (cg_case_id g) (cg_tool_name g)
        (cg_fingerprint g) (cg_target_ids g)
      in bind_res (memory_issue (ms_confirmations s) g) (\<lambda>m.
        Inr (s\<lparr>ms_confirmations := m,
          ms_confirmation_ids := (ms_confirmation_ids s)(key \<mapsto> cg_grant_id g)\<rparr>)))"

definition memory_confirmation_for :: "memory_security \<Rightarrow> frontend_session \<Rightarrow> string \<Rightarrow> string \<Rightarrow> string \<Rightarrow>
    string list \<Rightarrow> confirmation_request option" where
  "memory_confirmation_for s session case_id tool_name fingerprint target_ids =
     (let key = confirmation_key_of (fs_actor_id session) (fs_session_id session) case_id tool_name
        fingerprint target_ids
      in case ms_confirmation_ids s key of
           None \<Rightarrow> None
         | Some grant_id \<Rightarrow> Some \<lparr>cr_grant_id = grant_id, cr_actor_id = fs_actor_id session,
             cr_session_id = fs_session_id session, cr_case_id = case_id, cr_tool_name = tool_name,
             cr_fingerprint = fingerprint, cr_target_ids = target_ids\<rparr>)"

definition memory_security_authorize ::
  "memory_security \<Rightarrow> confirmation_request \<Rightarrow> int \<Rightarrow> bool \<times> memory_security" where
  "memory_security_authorize s q now =
     (case memory_authorize (ms_confirmations s) q now of (b, m) \<Rightarrow> (b, s\<lparr>ms_confirmations := m\<rparr>))"

subsection \<open>The provider over token claims\<close>

text \<open>\<open>or\<close> of Python: the first value if it is truthy.\<close>

definition or_else :: "pyval \<Rightarrow> pyval \<Rightarrow> pyval" where
  "or_else v w = (if truthy v then v else w)"

fun is_continuation :: "char \<Rightarrow> bool" where
  "is_continuation c = (let n = of_char c :: nat in 128 \<le> n \<and> n < 192)"

fun code_points :: "string \<Rightarrow> string list" where
  "code_points [] = []"
| "code_points (c # s) =
     (case code_points s of
        [] \<Rightarrow> [[c]]
      | p # ps \<Rightarrow> if is_continuation (hd p) then (c # p) # ps else [c] # p # ps)"

text \<open>What a \<open>for\<close> loop over a value draws from it.\<close>

definition iterate_value :: "pyval \<Rightarrow> pyval list res" where
  "iterate_value v = (case v of
     PList xs \<Rightarrow> Inr xs
   | PStr s \<Rightarrow> Inr (List.map PStr (code_points s))
   | PDict d \<Rightarrow> Inr (List.map (\<lambda>(k, w). PStr k) d)
   | PBytes b \<Rightarrow> Inr (List.map (\<lambda>w. PInt (int (unat w))) b)
   | _ \<Rightarrow> Inl (PyExn ''TypeError''))"

definition nonblank_texts :: "pyval list \<Rightarrow> string list" where
  "nonblank_texts vs =
     List.map_filter (\<lambda>v. case v of PStr s \<Rightarrow> if strip s = [] then None else Some (strip s) | _ \<Rightarrow> None) vs"

definition resolve_claims_session :: "access_token \<Rightarrow> frontend_session res" where
  "resolve_claims_session token =
     (let claims = claims_of token;
          actor_id = strip (py_str (or_else (or_else (dget_or claims ''sub'' PNone)
            (opt_str (at_subject token))) (PStr '''')));
          session_id = strip (py_str (dget_or claims ''session_id'' (PStr '''')));
          tenant_id = strip (py_str (dget_or claims ''tenant_id'' (PStr '''')))
      in if actor_id = [] \<or> session_id = [] \<or> tenant_id = [] then
           Inl (mcp_authorization_denied_error ''frontend.session'' [])
         else (case dget claims ''case_roles'' of
             None \<Rightarrow> Inl (mcp_authorization_denied_error ''frontend.session.legacy_token'' [])
           | Some (PDict roles) \<Rightarrow>
               bind_res (iterate_value (or_else (dget_or claims ''allowed_case_ids'' PNone) (PList []))) (\<lambda>ids.
                 make_frontend_session \<lparr>fs_actor_id = actor_id, fs_session_id = session_id,
                   fs_tenant_id = tenant_id, fs_allowed_case_ids = nonblank_texts ids,
                   fs_roles = List.map upper (nonblank_texts (List.map snd roles))\<rparr>)
           | Some _ \<Rightarrow> Inl (mcp_authorization_denied_error ''frontend.session.invalid_case_roles'' [])))"

subsection \<open>The static token\<close>

definition make_static_verifier :: "string \<Rightarrow> access_token \<Rightarrow> (string \<times> access_token) res" where
  "make_static_verifier secret token =
     (if secret = [] then Inl (PyExn ''ValueError'')
      else if secret \<noteq> at_token token then Inl (PyExn ''ValueError'')
      else if at_client_id token = [] \<or> \<not> named (at_subject token) \<or>
              \<not> truthy (dget_or (claims_of token) ''iss'' PNone) \<or> \<not> named (at_resource token) \<or>
              ''apex:mcp'' \<notin> set (at_scopes token) then Inl (PyExn ''ValueError'')
      else Inr (secret, token))"

definition static_verify :: "string \<times> access_token \<Rightarrow> string \<Rightarrow> access_token option" where
  "static_verify v token = (if token \<noteq> fst v then None else Some (snd v))"

end
