(* ===== verification/Mcp_Gateway.thy ===== *)
theory Mcp_Gateway
  imports Mcp_Frontend
begin

section \<open>The tool registry and the engine adapter\<close>

text \<open>
  \<open>apex_mcp/schema_catalog.py\<close>, \<open>capability_gate.py\<close>, \<open>interface_guard.py\<close>,
  \<open>engine_adapter.py\<close>, \<open>telemetry.py\<close> and \<open>tool_registry.py\<close>: registration of tools and the
  whole handler of one call.  JSON Schema validation, the Core interface behind the adapter and
  \<open>datetime.fromisoformat\<close> are arguments; the Core has a state of the type \<open>'c\<close> that its reads
  and mutations may change.  Identifiers and clock readings of a call are its \<open>call_env\<close>.
\<close>

subsection \<open>State with errors\<close>

text \<open>A step returns the state it leaves, also when it raises.\<close>

fun and_then :: "'s \<times> 'a res \<Rightarrow> ('s \<Rightarrow> 'a \<Rightarrow> 's \<times> 'b res) \<Rightarrow> 's \<times> 'b res" where
  "and_then (s, Inl e) f = (s, Inl e)"
| "and_then (s, Inr x) f = f s x"

lemma and_then_Inr [simp]: "and_then m f = (s', Inr y) \<longleftrightarrow> (\<exists>s x. m = (s, Inr x) \<and> f s x = (s', Inr y))"
  by (cases m; cases "snd m") auto

definition dict_key :: "dict \<Rightarrow> string \<Rightarrow> pyval res" where
  "dict_key d k = (case dget d k of None \<Rightarrow> Inl (PyExn ''KeyError'') | Some v \<Rightarrow> Inr v)"

subsection \<open>The schema catalog\<close>

record catalog =
  ct_schemas :: "string \<Rightarrow> dict option"
  ct_check :: "dict \<Rightarrow> unit res"
  ct_first_error :: "dict \<Rightarrow> pyval \<Rightarrow> (string \<times> string option) option"

definition valid_schema_name :: "string \<Rightarrow> bool" where
  "valid_schema_name n \<longleftrightarrow> CHR ''/'' \<notin> set n \<and> is_prefix (rev ''.schema.json'') (rev n)"

definition catalog_schema :: "catalog \<Rightarrow> string \<Rightarrow> dict res" where
  "catalog_schema ct n =
     (if \<not> valid_schema_name n then
        Inl (descriptor_validation_error ''Schema references must be catalog file names.''
          (Some ''schema_ref''))
      else (case ct_schemas ct n of
          None \<Rightarrow> Inl (descriptor_validation_error
            ''A referenced schema is not present in the canonical catalog.'' (Some n))
        | Some s \<Rightarrow> Inr s))"

definition validate_with :: "catalog \<Rightarrow> dict \<Rightarrow> pyval \<Rightarrow> unit res" where
  "validate_with ct schema instance =
     (case ct_first_error ct schema instance of
        None \<Rightarrow> Inr ()
      | Some (msg, target) \<Rightarrow>
          Inl (tool_input_validation_error (''JSON Schema validation failed: '' @ msg) target))"

definition catalog_validate :: "catalog \<Rightarrow> string \<Rightarrow> pyval \<Rightarrow> unit res" where
  "catalog_validate ct n instance = bind_res (catalog_schema ct n) (\<lambda>s. validate_with ct s instance)"

definition validate_inline :: "catalog \<Rightarrow> dict \<Rightarrow> pyval \<Rightarrow> unit res" where
  "validate_inline ct schema instance = bind_res (ct_check ct schema) (\<lambda>_. validate_with ct schema instance)"

subsection \<open>Capabilities\<close>

record capability_gate =
  cap_available :: "string list"
  cap_unavailable :: "string list"

definition list_texts :: "pyval \<Rightarrow> string list res" where
  "list_texts v = map_res (List.map py_str) (iterate_value v)"

definition new_capability_gate :: "dict \<Rightarrow> capability_gate res" where
  "new_capability_gate interface =
     bind_res (list_texts (dget_or interface ''capabilities'' (PList []))) (\<lambda>a.
     bind_res (list_texts (dget_or interface ''unavailable_capabilities'' (PList []))) (\<lambda>u.
       Inr \<lparr>cap_available = a, cap_unavailable = u\<rparr>))"

definition missing_capabilities :: "capability_gate \<Rightarrow> dict \<Rightarrow> string list res" where
  "missing_capabilities g descriptor =
     bind_res (list_texts (dget_or descriptor ''required_capabilities'' (PList []))) (\<lambda>required.
       Inr (sort (remdups (filter (\<lambda>c. c \<notin> set (cap_available g) \<or> c \<in> set (cap_unavailable g)) required))))"

definition require_capabilities :: "capability_gate \<Rightarrow> dict \<Rightarrow> unit res" where
  "require_capabilities g descriptor =
     bind_res (missing_capabilities g descriptor) (\<lambda>missing.
       if missing \<noteq> [] then Inl (capability_gate_error missing) else Inr ())"

subsection \<open>The engine adapter\<close>

record 'c core =
  co_interface :: dict
  co_tools :: "dict list"
  co_read :: "'c \<Rightarrow> string \<Rightarrow> dict \<Rightarrow> string option \<Rightarrow> string option \<Rightarrow> 'c \<times> dict res"
  co_mutate :: "'c \<Rightarrow> string \<Rightarrow> dict \<Rightarrow> string option \<Rightarrow> string option \<Rightarrow> 'c \<times> dict res"
  co_iso :: "string \<Rightarrow> datetime option"

record 'c adapter =
  ad_core :: 'c
  ad_owns :: bool
  ad_closed :: bool

definition ensure_open :: "'c adapter \<Rightarrow> unit res" where
  "ensure_open a = (if ad_closed a then Inl (PyExn ''RuntimeError'') else Inr ())"

definition close_adapter :: "('c \<Rightarrow> 'c) \<Rightarrow> 'c adapter \<Rightarrow> 'c adapter" where
  "close_adapter close_services a =
     (if ad_closed a then a
      else (let a' = a\<lparr>ad_closed := True\<rparr> in
        if ad_owns a then a'\<lparr>ad_core := close_services (ad_core a)\<rparr> else a'))"

definition list_tool_descriptors :: "'c core \<Rightarrow> 'c adapter \<Rightarrow> dict list res" where
  "list_tool_descriptors co a = bind_res (ensure_open a) (\<lambda>_. Inr (co_tools co))"

definition adapter_read :: "'c core \<Rightarrow> 'c adapter \<Rightarrow> string \<Rightarrow> dict \<Rightarrow> string option \<Rightarrow> string option \<Rightarrow>
    'c adapter \<times> dict res" where
  "adapter_read co a tool payload rid cid =
     (case co_read co (ad_core a) tool payload rid cid of (c, r) \<Rightarrow> (a\<lparr>ad_core := c\<rparr>, r))"

definition adapter_mutate :: "'c core \<Rightarrow> 'c adapter \<Rightarrow> string \<Rightarrow> dict \<Rightarrow> string option \<Rightarrow> string option \<Rightarrow>
    'c adapter \<times> dict res" where
  "adapter_mutate co a tool payload rid cid =
     (case co_mutate co (ad_core a) tool payload rid cid of (c, r) \<Rightarrow> (a\<lparr>ad_core := c\<rparr>, r))"

fun find_descriptor :: "dict list \<Rightarrow> string \<Rightarrow> dict res" where
  "find_descriptor [] tool_name = Inl (tool_not_found_error tool_name)"
| "find_descriptor (d # ds) tool_name =
     bind_res (dict_key d ''tool_name'') (\<lambda>n.
       if n = PStr tool_name then Inr d else find_descriptor ds tool_name)"

definition descriptor_of :: "'c core \<Rightarrow> 'c adapter \<Rightarrow> string \<Rightarrow> dict res" where
  "descriptor_of co a tool_name =
     bind_res (list_tool_descriptors co a) (\<lambda>ds. find_descriptor ds tool_name)"

text \<open>\<open>replace("Z", "+00:00")\<close>, and the live-context check.\<close>

definition zulu :: "string \<Rightarrow> string" where
  "zulu s = concat (List.map (\<lambda>c. if c = CHR ''Z'' then ''+00:00'' else [c]) s)"

definition require_live_context :: "'c core \<Rightarrow> pyval \<Rightarrow> int \<Rightarrow> unit res" where
  "require_live_context co data now =
     (case data of
        PDict d \<Rightarrow> (case dget d ''expires_at'' of
            Some (PStr s) \<Rightarrow> (case co_iso co (zulu s) of
                None \<Rightarrow> Inr ()
              | Some t \<Rightarrow> if instant t \<le> now then
                    Inl (context_expired_error ''Expired GUI session contexts cannot be used by MCP.''
                      (Some ''session_context_id''))
                  else Inr ())
          | _ \<Rightarrow> Inr ())
      | _ \<Rightarrow> Inr ())"

definition context_tools :: "string list" where
  "context_tools = [''apex.context.get'', ''apex.context.snapshot'']"

definition context_payload :: "dict \<Rightarrow> dict" where
  "context_payload payload = [(''session_context_id'', dget_or payload ''session_context_id'' PNone)]"

text \<open>\<open>invoke\<close>; the \<open>Some\<close> of the context check is the early return.\<close>

definition check_context :: "'c core \<Rightarrow> 'c adapter \<Rightarrow> string \<Rightarrow> dict \<Rightarrow> string option \<Rightarrow> string option \<Rightarrow>
    int \<Rightarrow> 'c adapter \<times> dict option res" where
  "check_context co a tool_name payload rid cid now =
     (if tool_name \<notin> set context_tools then (a, Inr None)
      else and_then (adapter_read co a ''apex.context.get'' (context_payload payload) rid cid) (\<lambda>a' result.
        if dget result ''status'' \<noteq> Some (PStr ''OK'') then (a', Inr (Some result))
        else and_then (a', require_live_context co (dget_or result ''data'' PNone) now) (\<lambda>a' _.
          (a', Inr (if tool_name = ''apex.context.get'' then Some result else None)))))"

definition invoke :: "'c core \<Rightarrow> 'c adapter \<Rightarrow> string \<Rightarrow> dict \<Rightarrow> string option \<Rightarrow> string option \<Rightarrow> bool \<Rightarrow>
    int \<Rightarrow> 'c adapter \<times> dict res" where
  "invoke co a tool_name payload rid cid granted now =
     and_then (a, descriptor_of co a tool_name) (\<lambda>a descriptor.
     and_then (a, dict_key descriptor ''requires_confirmation'') (\<lambda>a needs.
       if truthy needs \<and> \<not> granted then (a, Inl (confirmation_required_error tool_name))
       else and_then (check_context co a tool_name payload rid cid now) (\<lambda>a early.
         (case early of
            Some result \<Rightarrow> (a, Inr result)
          | None \<Rightarrow> and_then (a, dict_key descriptor ''mutates_state'') (\<lambda>a m.
              if truthy m then adapter_mutate co a tool_name payload rid cid
              else adapter_read co a tool_name payload rid cid)))))"

fun case_ids :: "pyval \<Rightarrow> string list" where
  "case_ids (PDict d) =
     (case dget d ''case_id'' of Some (PStr c) \<Rightarrow> if c = [] then [] else [c] | _ \<Rightarrow> []) @
     concat (List.map (\<lambda>(k, v). case_ids v) d)"
| "case_ids (PList xs) = concat (List.map case_ids xs)"
| "case_ids v = []"

definition case_lookups :: "(string \<times> string \<times> string list) list" where
  "case_lookups =
     [(''apex.context.get'', ''apex.context.get'', [''session_context_id'']),
      (''apex.context.snapshot'', ''apex.context.get'', [''session_context_id'']),
      (''apex.context.snapshot_show'', ''apex.context.snapshot_show'', [''context_snapshot_id'']),
      (''apex.context.scope_page'', ''apex.context.snapshot_show'', [''context_snapshot_id'']),
      (''ai.request.get'', ''ai.request.get'', [''assistance_request_id'']),
      (''ai.request.execute'', ''ai.request.get'', [''assistance_request_id'']),
      (''ai.keyword-batch.get'', ''ai.keyword-batch.get'', [''recommendation_batch_id'']),
      (''ai.keyword-recommendation.get'', ''ai.keyword-recommendation.get'', [''recommendation_id'']),
      (''ai.scope-summary.get'', ''ai.scope-summary.get'', [''scope_summary_id''])]"

definition target_case_ids ::
  "'c core \<Rightarrow> 'c adapter \<Rightarrow> string \<Rightarrow> dict \<Rightarrow> 'c adapter \<times> string list res" where
  "target_case_ids co a tool_name payload =
     and_then (a, ensure_open a) (\<lambda>a _.
       (case dget payload ''case_id'' of
          Some (PStr (x # xs)) \<Rightarrow> (a, Inr [x # xs])
        | _ \<Rightarrow> (case map_of case_lookups tool_name of
              None \<Rightarrow> (a, Inr [])
            | Some (lookup_tool, names) \<Rightarrow>
                and_then (adapter_read co a lookup_tool
                    (List.map_filter (\<lambda>n. map_option (Pair n) (dget payload n)) names) None None) (\<lambda>a result.
                  if dget result ''status'' \<noteq> Some (PStr ''OK'') then (a, Inr [])
                  else (a, Inr (remdups (case_ids (dget_or result ''data'' PNone))))))))"

definition require_frontend_context ::
  "'c core \<Rightarrow> 'c adapter \<Rightarrow> string \<Rightarrow> dict \<Rightarrow> string \<Rightarrow> string \<Rightarrow> 'c adapter \<times> unit res" where
  "require_frontend_context co a tool_name payload actor_id session_id =
     (if tool_name \<notin> set context_tools then (a, Inr ())
      else and_then (adapter_read co a ''apex.context.get'' (context_payload payload) None None) (\<lambda>a result.
        if dget result ''status'' \<noteq> Some (PStr ''OK'') then (a, Inr ())
        else (case dget_or result ''data'' PNone of
            PDict d \<Rightarrow>
              if dget d ''session_id'' \<noteq> Some (PStr session_id) \<or> dget d ''actor_id'' \<noteq> Some (PStr actor_id)
              then (a, Inl (mcp_authorization_denied_error tool_name []))
              else (a, Inr ())
          | _ \<Rightarrow> (a, Inl (mcp_authorization_denied_error tool_name [])))))"

subsection \<open>Startup checks\<close>

definition interface_mismatches :: "dict \<Rightarrow> dict res" where
  "interface_mismatches interface =
     bind_res (iterate_value (dget_or interface ''capabilities'' (PList []))) (\<lambda>caps.
       Inr (List.map_filter id
         [if dget interface ''interface_name'' \<noteq> Some (PStr ''apex.engine.public'')
            then Some (''interface_name'', dget_or interface ''interface_name'' PNone) else None,
          if dget interface ''interface_version'' \<noteq> Some (PStr ''1.0.0'')
            then Some (''interface_version'', dget_or interface ''interface_version'' PNone) else None,
          if dget interface ''schema_version'' \<noteq> Some (PStr ''1.0.0'')
            then Some (''schema_version'', dget_or interface ''schema_version'' PNone) else None,
          if PStr ''MCP_ADAPTER_DESCRIPTOR'' \<notin> set caps
            then Some (''missing_capabilities'', PList [PStr ''MCP_ADAPTER_DESCRIPTOR'']) else None]))"

fun check_descriptors :: "catalog \<Rightarrow> dict \<Rightarrow> string list \<Rightarrow> dict list \<Rightarrow> unit res" where
  "check_descriptors ct interface seen [] = Inr ()"
| "check_descriptors ct interface seen (d # ds) =
     bind_res (catalog_validate ct ''engine-tool-descriptor.schema.json'' (PDict d)) (\<lambda>_.
     bind_res (map_res py_str (dict_key d ''tool_name'')) (\<lambda>name.
       if name \<in> set seen then
         Inl (descriptor_validation_error ''Duplicate Engine Tool Descriptor.'' (Some name))
       else
         bind_res (dict_key d ''tool_version'') (\<lambda>tv.
         bind_res (dict_key interface ''interface_version'') (\<lambda>iv.
           if tv \<noteq> iv then
             Inl (descriptor_validation_error ''Tool and interface versions do not match.'' (Some name))
           else
             bind_res (map_res py_str (dict_key d ''input_schema_ref'')) (\<lambda>i.
             bind_res (catalog_schema ct i) (\<lambda>_.
             bind_res (map_res py_str (dict_key d ''output_schema_ref'')) (\<lambda>out.
             bind_res (catalog_schema ct out) (\<lambda>_.
               check_descriptors ct interface (name # seen) ds))))))))"

definition validate_interface :: "catalog \<Rightarrow> 'c core \<Rightarrow> 'c adapter \<Rightarrow> (dict \<times> dict list) res" where
  "validate_interface ct co a =
     bind_res (ensure_open a) (\<lambda>_.
     let interface = co_interface co in
     bind_res (catalog_validate ct ''engine-interface.schema.json'' (PDict interface)) (\<lambda>_.
     bind_res (interface_mismatches interface) (\<lambda>mismatches.
       if mismatches \<noteq> [] then
         Inl (interface_compatibility_error
           ''The Core public interface is not compatible with this MCP adapter.'' mismatches)
       else
         bind_res (list_tool_descriptors co a) (\<lambda>ds.
         bind_res (check_descriptors ct interface [] ds) (\<lambda>_. Inr (interface, ds))))))"

subsection \<open>Registration\<close>

record tool_binding =
  bi_tool_name :: string
  bi_operation :: string
  bi_input_schema :: dict
  bi_output_schema_ref :: "string option"
  bi_output_data_schema :: "dict option"

record registered_tool =
  rt_descriptor :: dict
  rt_binding :: tool_binding

record registry =
  rg_allowed_tools :: "string list"
  rg_descriptors :: "string \<Rightarrow> dict option"
  rg_catalog :: catalog
  rg_capabilities :: capability_gate
  rg_registered :: "string \<Rightarrow> registered_tool option"

text \<open>The registry's dictionary of descriptors by the text of their names.\<close>

definition descriptor_table :: "dict list \<Rightarrow> (string \<Rightarrow> dict option) res" where
  "descriptor_table ds =
     map_res (\<lambda>ns. map_of (rev (zip ns ds)))
       (traverse (\<lambda>d. map_res py_str (dict_key d ''tool_name'')) ds)"

definition register_tool :: "registry \<Rightarrow> tool_binding \<Rightarrow> registry res" where
  "register_tool rg b =
     (let n = bi_tool_name b; refuse = (\<lambda>msg. Inl (tool_registration_error msg (Some n))) in
      if n \<notin> set (rg_allowed_tools rg) then refuse ''The Tool is outside the active phase allowlist.''
      else (case rg_descriptors rg n of
          None \<Rightarrow> refuse ''No Engine Tool Descriptor exists for the Tool.''
        | Some descriptor \<Rightarrow>
            if rg_registered rg n \<noteq> None then refuse ''Duplicate Tool binding.''
            else if bi_operation b \<noteq> n then
              refuse ''M0 bindings must invoke the canonical Descriptor Tool name.''
            else if dget (bi_input_schema b) ''type'' \<noteq> Some (PStr ''object'') then
              refuse ''MCP input schemas must have an object root.''
            else
              bind_res (ct_check (rg_catalog rg) (bi_input_schema b)) (\<lambda>_.
              if bi_output_schema_ref b \<noteq> None \<and> bi_output_data_schema b \<noteq> None then
                refuse ''A Tool binding cannot declare two invocation output schemas.''
              else
                bind_res (case bi_output_schema_ref b of None \<Rightarrow> Inr ()
                  | Some r \<Rightarrow> map_res (\<lambda>_. ()) (catalog_schema (rg_catalog rg) r)) (\<lambda>_.
                bind_res (case bi_output_data_schema b of None \<Rightarrow> Inr ()
                  | Some s \<Rightarrow> ct_check (rg_catalog rg) s) (\<lambda>_.
                bind_res (require_capabilities (rg_capabilities rg) descriptor) (\<lambda>_.
                  Inr (rg\<lparr>rg_registered := (rg_registered rg)(n \<mapsto>
                    \<lparr>rt_descriptor = descriptor, rt_binding = b\<rparr>)\<rparr>))))))) "

fun register_all :: "registry \<Rightarrow> tool_binding list \<Rightarrow> registry res" where
  "register_all rg [] = Inr rg"
| "register_all rg (b # bs) = bind_res (register_tool rg b) (\<lambda>rg'. register_all rg' bs)"

subsection \<open>One call\<close>

record 's frontend_provider =
  fp_resolve :: "'s \<Rightarrow> access_token \<Rightarrow> frontend_session res"
  fp_confirmation_for :: "'s \<Rightarrow> frontend_session \<Rightarrow> string \<Rightarrow> string \<Rightarrow> string \<Rightarrow> string list \<Rightarrow>
    int \<Rightarrow> confirmation_request option"

record ('c, 's) gateway =
  gy_registry :: registry
  gy_core :: "'c core"
  gy_authorize :: "'s \<Rightarrow> confirmation_request \<Rightarrow> int \<Rightarrow> bool \<times> 's"
  gy_frontend :: "'s frontend_provider option"
  gy_sha :: "string \<Rightarrow> string"

record ('c, 's) gateway_state =
  gs_adapter :: "'c adapter"
  gs_budget :: tool_budget
  gs_grants :: 's

record call_env =
  en_request_id :: string
  en_correlation_id :: string
  en_clock_begin :: rat
  en_clock_accept :: rat
  en_duration_ms :: int
  en_now_grant :: int
  en_now_context :: int

record caller =
  ca_actor_id :: "string option"
  ca_session_id :: "string option"
  ca_budget_scope :: string
  ca_confirmation :: "confirmation_request option"

text \<open>\<open>json.dumps(default=str)\<close> renders a bytes object by its text.\<close>

fun json_default :: "pyval \<Rightarrow> pyval" where
  "json_default (PList xs) = PList (List.map json_default xs)"
| "json_default (PDict d) = PDict (List.map (\<lambda>(k, v). (k, json_default v)) d)"
| "json_default (PBytes b) = PStr (py_str (PBytes b))"
| "json_default v = v"

definition request_fingerprint :: "(string \<Rightarrow> string) \<Rightarrow> dict \<Rightarrow> string res" where
  "request_fingerprint sha payload =
     map_res sha (json_render '','' '':'' (sort_json (json_default (PDict payload))))"

definition target_id_fields :: "string list" where
  "target_id_fields =
     [''resource_id'', ''context_snapshot_id'', ''report_id'', ''report_version_id'',
      ''left_report_version_id'', ''right_report_version_id'', ''section_id'', ''custody_snapshot_id'',
      ''expected_custody_snapshot_id'', ''expected_approval_id'', ''package_id'',
      ''export_manifest_id'', ''recommendation_id'', ''scope_summary_id'', ''keyword_set_id'',
      ''target_id'']"

definition add_target :: "dict \<Rightarrow> string list \<Rightarrow> string \<Rightarrow> string list" where
  "add_target arguments acc field =
     (case dget arguments field of
        Some (PStr v) \<Rightarrow> if v \<noteq> [] \<and> v \<notin> set acc then acc @ [v] else acc
      | _ \<Rightarrow> acc)"

definition target_ids :: "dict \<Rightarrow> string list" where
  "target_ids arguments = foldl (add_target arguments) [] target_id_fields"

definition case_argument :: "dict \<Rightarrow> string" where
  "case_argument arguments = py_str (dget_or arguments ''case_id'' (PStr ''''))"

text \<open>The part of the handler that a verified token adds: session, authorization and tenancy, the
  binding of live contexts, and the confirmation the backend holds for this very call.\<close>

definition frontend_stage :: "('c, 's) gateway \<Rightarrow> call_env \<Rightarrow> ('c, 's) gateway_state \<Rightarrow> registered_tool \<Rightarrow>
    string \<Rightarrow> dict \<Rightarrow> string \<Rightarrow> access_token \<Rightarrow> caller \<Rightarrow> ('c, 's) gateway_state \<times> caller res" where
  "frontend_stage gy en st rt tool_name arguments fp token ca =
     (case gy_frontend gy of
        None \<Rightarrow> (st, Inl (mcp_authorization_denied_error tool_name []))
      | Some provider \<Rightarrow>
          and_then (st, fp_resolve provider (gs_grants st) token) (\<lambda>st session.
          case target_case_ids (gy_core gy) (gs_adapter st) tool_name arguments of (a1, r1) \<Rightarrow>
          and_then (st\<lparr>gs_adapter := a1\<rparr>, r1) (\<lambda>st targets.
          and_then (st, require_access session token (rt_descriptor rt) tool_name targets) (\<lambda>st _.
          case require_frontend_context (gy_core gy) (gs_adapter st) tool_name arguments
              (fs_actor_id session) (fs_session_id session) of (a2, r2) \<Rightarrow>
          and_then (st\<lparr>gs_adapter := a2\<rparr>, r2) (\<lambda>st _.
          and_then (st, dict_key (rt_descriptor rt) ''requires_confirmation'') (\<lambda>st needs.
            (st, Inr \<lparr>ca_actor_id = Some (fs_actor_id session), ca_session_id = Some (fs_session_id session),
              ca_budget_scope = budget_scope (gy_sha gy) session,
              ca_confirmation = (if truthy needs then
                  fp_confirmation_for provider (gs_grants st) session (case_argument arguments) tool_name fp
                    (target_ids arguments) (en_now_grant en)
                else ca_confirmation ca)\<rparr>)))))))"

definition admit_stage :: "('c, 's) gateway \<Rightarrow> call_env \<Rightarrow> ('c, 's) gateway_state \<Rightarrow> string \<Rightarrow> dict \<Rightarrow>
    string \<Rightarrow> access_token option \<Rightarrow> caller \<Rightarrow> ('c, 's) gateway_state \<times> (registered_tool \<times> caller) res" where
  "admit_stage gy en st tool_name arguments fp token ca =
     (case rg_registered (gy_registry gy) tool_name of
        None \<Rightarrow> (st, Inl (tool_not_found_error tool_name))
      | Some rt \<Rightarrow>
          and_then (st, validate_inline (rg_catalog (gy_registry gy)) (bi_input_schema (rt_binding rt))
            (PDict arguments)) (\<lambda>st _.
          and_then (st, require_capabilities (rg_capabilities (gy_registry gy)) (rt_descriptor rt)) (\<lambda>st _.
            (case token of
               None \<Rightarrow> (st, Inr (rt, ca))
             | Some t \<Rightarrow> and_then (frontend_stage gy en st rt tool_name arguments fp t ca) (\<lambda>st ca'.
                 (st, Inr (rt, ca')))))))"

definition budget_stage :: "call_env \<Rightarrow> ('c, 's) gateway_state \<Rightarrow> string \<Rightarrow> dict \<Rightarrow> caller \<Rightarrow>
    ('c, 's) gateway_state \<times> unit res" where
  "budget_stage en st tool_name arguments ca =
     (case begin_call (gs_budget st) (ca_budget_scope ca) tool_name arguments (en_clock_begin en) of
        (b, r) \<Rightarrow> (st\<lparr>gs_budget := b\<rparr>, r))"

text \<open>What the telemetry event says of the confirmation: actor, session and decision.\<close>

type_synonym decision = "string option \<times> string option \<times> string option"

definition confirm_stage :: "('c, 's) gateway \<Rightarrow> call_env \<Rightarrow> ('c, 's) gateway_state \<Rightarrow> registered_tool \<Rightarrow>
    string \<Rightarrow> dict \<Rightarrow> string \<Rightarrow> caller \<Rightarrow> ('c, 's) gateway_state \<times> decision \<times> bool res" where
  "confirm_stage gy en st rt tool_name arguments fp ca =
     (case dict_key (rt_descriptor rt) ''requires_confirmation'' of
        Inl e \<Rightarrow> (st, (None, None, None), Inl e)
      | Inr needs \<Rightarrow>
          if \<not> truthy needs then (st, (None, None, None), Inr False)
          else if ca_confirmation ca \<noteq> None \<and> ca_actor_id ca \<noteq> None \<and> \<not> is_authenticated_actor (ca_actor_id ca)
          then (st, (ca_actor_id ca, ca_session_id ca, Some ''DENIED''),
                Inl (authenticated_actor_required_error tool_name))
          else (case gate_require (gy_authorize gy) (gs_grants st)
              (dflag (rt_descriptor rt) ''requires_confirmation'')
              (py_str (dget_or (rt_descriptor rt) ''tool_name'' (PStr ''unknown''))) (ca_confirmation ca)
              \<lparr>ge_actor_id = or_empty (ca_actor_id ca), ge_session_id = or_empty (ca_session_id ca),
               ge_fingerprint = fp, ge_case_id = case_argument arguments,
               ge_target_ids = target_ids arguments\<rparr> (en_now_grant en) of
              (g, Inl e) \<Rightarrow> (st\<lparr>gs_grants := g\<rparr>, (ca_actor_id ca, ca_session_id ca, Some ''DENIED''), Inl e)
            | (g, Inr b) \<Rightarrow>
                (st\<lparr>gs_grants := g\<rparr>, (ca_actor_id ca, ca_session_id ca, Some ''APPROVED''), Inr b)))"

definition trusted_of :: "caller \<Rightarrow> string \<Rightarrow> bool \<Rightarrow> trusted_call" where
  "trusted_of ca fp granted =
     \<lparr>tc_actor_id = ca_actor_id ca, tc_session_id = ca_session_id ca,
      tc_grant_id = (if granted then map_option cr_grant_id (ca_confirmation ca) else None),
      tc_fingerprint = (if granted then Some fp else None)\<rparr>"

definition validate_output :: "catalog \<Rightarrow> registered_tool \<Rightarrow> dict \<Rightarrow> unit res" where
  "validate_output ct rt result =
     (if dget result ''status'' \<noteq> Some (PStr ''OK'') then Inr ()
      else (case (case bi_output_schema_ref (rt_binding rt) of
            Some r \<Rightarrow> catalog_validate ct r (dget_or result ''data'' PNone)
          | None \<Rightarrow> (case bi_output_data_schema (rt_binding rt) of
              Some s \<Rightarrow> validate_inline ct s (dget_or result ''data'' PNone)
            | None \<Rightarrow> Inr ())) of
          Inl (McpExn e) \<Rightarrow>
            if me_code e = ''VALIDATION_ERROR'' then
              Inl (tool_output_validation_error
                ''Core output does not match the MCP invocation output contract.'' (me_target e))
            else Inl (McpExn e)
        | r \<Rightarrow> r))"

definition int_of_value :: "pyval \<Rightarrow> int res" where
  "int_of_value v = (case v of
     PInt n \<Rightarrow> Inr n
   | PBool b \<Rightarrow> Inr (if b then 1 else 0)
   | PFloat f \<Rightarrow> (case fl_value f of
        Some q \<Rightarrow> Inr (if 0 \<le> q then \<lfloor>q\<rfloor> else \<lceil>q\<rceil>) | None \<Rightarrow> Inl (PyExn ''ValueError''))
   | PStr s \<Rightarrow> Inl (PyExn ''ValueError'')
   | _ \<Rightarrow> Inl (PyExn ''TypeError''))"

text \<open>The code of the first error of a result that is one.\<close>

definition result_error_code :: "dict \<Rightarrow> string option res" where
  "result_error_code result =
     (let errors = dget_or result ''errors'' PNone in
      if dget result ''status'' \<noteq> Some (PStr ''ERROR'') \<or> \<not> truthy errors then Inr None
      else (case errors of
          PList (PDict e # es) \<Rightarrow> Inr (Some (py_str (dget_or e ''code'' PNone)))
        | PList _ \<Rightarrow> Inl (PyExn ''AttributeError'')
        | PStr _ \<Rightarrow> Inl (PyExn ''AttributeError'')
        | PBytes _ \<Rightarrow> Inl (PyExn ''AttributeError'')
        | PDict _ \<Rightarrow> Inl (PyExn ''KeyError'')
        | _ \<Rightarrow> Inl (PyExn ''TypeError'')))"

definition finish_stage :: "('c, 's) gateway \<Rightarrow> call_env \<Rightarrow> ('c, 's) gateway_state \<Rightarrow> registered_tool \<Rightarrow>
    caller \<Rightarrow> dict \<Rightarrow> ('c, 's) gateway_state \<times> (dict \<times> string option) res" where
  "finish_stage gy en st rt ca core_result =
     (let result = redact_dict core_result; ct = rg_catalog (gy_registry gy) in
      and_then (st, catalog_validate ct ''api-response.schema.json'' (PDict result)) (\<lambda>st _.
      and_then (st, validate_output ct rt result) (\<lambda>st _.
      and_then (st, bind_res (dict_key (rt_descriptor rt) ''max_result_items'') int_of_value) (\<lambda>st m.
      case accept_result (gs_budget st) (ca_budget_scope ca) result m (en_clock_accept en) of (b, r) \<Rightarrow>
      and_then (st\<lparr>gs_budget := b\<rparr>, r) (\<lambda>st _.
      and_then (st, result_error_code result) (\<lambda>st code. (st, Inr (result, code))))))))"

text \<open>The body of the \<open>try\<close> of \<open>call_tool\<close>.\<close>

definition run_tool :: "('c, 's) gateway \<Rightarrow> call_env \<Rightarrow> ('c, 's) gateway_state \<Rightarrow> string \<Rightarrow> dict \<Rightarrow> string \<Rightarrow>
    access_token option \<Rightarrow> caller \<Rightarrow> ('c, 's) gateway_state \<times> decision \<times> (dict \<times> string option) res" where
  "run_tool gy en st tool_name arguments fp token ca =
     (case admit_stage gy en st tool_name arguments fp token ca of
        (st, Inl e) \<Rightarrow> (st, (None, None, None), Inl e)
      | (st, Inr (rt, ca)) \<Rightarrow> (case budget_stage en st tool_name arguments ca of
          (st, Inl e) \<Rightarrow> (st, (None, None, None), Inl e)
        | (st, Inr _) \<Rightarrow> (case confirm_stage gy en st rt tool_name arguments fp ca of
            (st, dec, Inl e) \<Rightarrow> (st, dec, Inl e)
          | (st, dec, Inr granted) \<Rightarrow>
              (case prepare tool_name arguments (trusted_of ca fp granted) of
                 Inl e \<Rightarrow> (st, dec, Inl e)
               | Inr payload \<Rightarrow> (case invoke (gy_core gy) (gs_adapter st) (bi_operation (rt_binding rt)) payload
                     (Some (en_request_id en)) (Some (en_correlation_id en)) granted (en_now_context en) of
                   (a, Inl e) \<Rightarrow> (st\<lparr>gs_adapter := a\<rparr>, dec, Inl e)
                 | (a, Inr result) \<Rightarrow>
                     (case finish_stage gy en (st\<lparr>gs_adapter := a\<rparr>) rt ca result of
                        (st, r) \<Rightarrow> (st, dec, r)))))))"

record telemetry_event =
  te_tool_name :: string
  te_correlation_id :: string
  te_request_fingerprint :: string
  te_status :: string
  te_duration_ms :: int
  te_error_code :: "string option"
  te_confirmation_actor_id :: "string option"
  te_confirmation_session_id :: "string option"
  te_confirmation_decision :: "string option"

record tool_result =
  tr_text :: string
  tr_structured :: dict
  tr_is_error :: bool

definition telemetry :: "call_env \<Rightarrow> string \<Rightarrow> string \<Rightarrow> decision \<Rightarrow> string option \<Rightarrow> telemetry_event" where
  "telemetry en tool_name fp dec code = (case dec of (actor, session, d) \<Rightarrow>
     \<lparr>te_tool_name = tool_name, te_correlation_id = en_correlation_id en, te_request_fingerprint = fp,
      te_status = (if code \<noteq> None \<and> code \<noteq> Some '''' then ''ERROR'' else ''OK''),
      te_duration_ms = max 0 (en_duration_ms en), te_error_code = code,
      te_confirmation_actor_id = actor, te_confirmation_session_id = session,
      te_confirmation_decision = d\<rparr>)"

definition tool_result_of :: "dict \<Rightarrow> bool \<Rightarrow> tool_result res" where
  "tool_result_of result is_error =
     bind_res (json_render '', '' '': '' (sort_json (PDict result))) (\<lambda>t.
       Inr \<lparr>tr_text = t, tr_structured = result, tr_is_error = is_error\<rparr>)"

text \<open>\<open>call_tool\<close>: the state, the event the sink gets, and the result or what it raises.  An
  envelope that fails its own schema is raised after the event, without an error code in it.\<close>

definition call_tool :: "('c, 's) gateway \<Rightarrow> call_env \<Rightarrow> ('c, 's) gateway_state \<Rightarrow> string \<Rightarrow> dict \<Rightarrow>
    access_token option \<Rightarrow> caller \<Rightarrow> ('c, 's) gateway_state \<times> telemetry_event option \<times> tool_result res" where
  "call_tool gy en st tool_name arguments token ca =
     (case request_fingerprint (gy_sha gy) arguments of
        Inl e \<Rightarrow> (st, None, Inl e)
      | Inr fp \<Rightarrow> (case run_tool gy en st tool_name arguments fp token ca of
          (st', dec, Inr (result, code)) \<Rightarrow>
            (st', Some (telemetry en tool_name fp dec code),
             tool_result_of result (dget result ''status'' = Some (PStr ''ERROR'')))
        | (st', dec, Inl e) \<Rightarrow>
            let result = map_exception e (en_request_id en) (Some (en_correlation_id en)) in
            (case catalog_validate (rg_catalog (gy_registry gy)) ''api-response.schema.json'' (PDict result) of
               Inl e' \<Rightarrow> (st', Some (telemetry en tool_name fp dec None), Inl e')
             | Inr _ \<Rightarrow>
                 let code = (case dget result ''errors'' of
                     Some (PList (PDict d # ds)) \<Rightarrow> Some (py_str (dget_or d ''code'' PNone)) | _ \<Rightarrow> None) in
                 (st', Some (telemetry en tool_name fp dec code), tool_result_of result True))))"

end
