(* ===== verification/Mcp_Redaction_Facts.thy ===== *)
theory Mcp_Redaction_Facts
  imports Mcp_Context Canonical_Facts
begin

section \<open>What redaction leaves\<close>

text \<open>
  No bearer credential and no API key is left in a redacted text, no byte string and no value under
  a sensitive key in a redacted document.  The locale \<open>redaction_pass\<close> is what the argument needs of
  a pass: a matcher whose matches are replaced and a matcher to be absent afterwards.
\<close>

fun no_match :: "(char option \<Rightarrow> string \<Rightarrow> nat option) \<Rightarrow> char option \<Rightarrow> string \<Rightarrow> bool" where
  "no_match m prev [] = True"
| "no_match m prev (c # s) = (m prev (c # s) = None \<and> no_match m (Some c) s)"

text \<open>\<open>clear m m' prev s\<close>: wherever \<open>m\<close> does not match, \<open>m'\<close> does not either.\<close>

fun clear :: "(char option \<Rightarrow> string \<Rightarrow> nat option) \<Rightarrow> (char option \<Rightarrow> string \<Rightarrow> nat option) \<Rightarrow>
    char option \<Rightarrow> string \<Rightarrow> bool" where
  "clear m m' prev [] = True"
| "clear m m' prev (c # s) = ((m prev (c # s) = None \<longrightarrow> m' prev (c # s) = None) \<and> clear m m' (Some c) s)"

lemma clear_self: "clear m m prev s"
  by (induction s arbitrary: prev) auto

lemma clear_no_match: "no_match m' prev s \<Longrightarrow> clear m m' prev s"
  by (induction s arbitrary: prev) auto

lemma clear_drop: "clear m m' prev s \<Longrightarrow> 0 < n \<Longrightarrow> n \<le> length s \<Longrightarrow> clear m m' (Some (s ! (n - 1))) (drop n s)"
proof (induction s arbitrary: prev n)
  case (Cons c s)
  then show ?case by (cases "n = 1") (auto simp: nth_Cons' gr0_conv_Suc)
qed simp

lemma sub_skip: "k \<le> length s \<Longrightarrow>
    sub_text m prev k s = sub_text m (if k = 0 then prev else Some (s ! (k - 1))) 0 (drop k s)"
proof (induction k arbitrary: s prev)
  case (Suc k)
  then obtain c r where "s = c # r" by (cases s) auto
  with Suc show ?case by (cases k) auto
qed simp

text \<open>\<open>agrees t s\<close>: \<open>t\<close> is \<open>s\<close>, or follows it up to an opening angle bracket of its own.\<close>

definition agrees :: "string \<Rightarrow> string \<Rightarrow> bool" where
  "agrees t s \<longleftrightarrow> t = s \<or> (\<exists>j r. j \<le> length s \<and> t = take j s @ CHR ''<'' # r)"

lemma agrees_Cons: "agrees t s \<Longrightarrow> agrees (c # t) (c # s)"
  unfolding agrees_def
proof (elim disjE exE conjE)
  fix j r assume "j \<le> length s" "t = take j s @ CHR ''<'' # r"
  then have "Suc j \<le> length (c # s)" "c # t = take (Suc j) (c # s) @ CHR ''<'' # r" by simp_all
  then show "c # t = c # s \<or> (\<exists>j r. j \<le> length (c # s) \<and> c # t = take j (c # s) @ CHR ''<'' # r)"
    by blast
qed simp

lemma sub_agrees: "agrees (sub_text m prev 0 s) s"
proof (induction s arbitrary: prev)
  case (Cons c s)
  show ?case
  proof (cases "m prev (c # s)")
    case None
    with Cons.IH show ?thesis by (simp add: agrees_Cons)
  next
    case (Some n)
    then have "sub_text m prev 0 (c # s) = take 0 (c # s) @ CHR ''<'' #
        (''redacted>'' @ sub_text m (Some c) (n - 1) s)" by (simp add: redacted_def)
    then show ?thesis unfolding agrees_def by blast
  qed
qed (simp add: agrees_def)

locale redaction_pass =
  fixes m m' :: "char option \<Rightarrow> string \<Rightarrow> nat option"
    and starts :: "char \<Rightarrow> bool"
  assumes start: "m' prev (c # s) \<noteq> None \<Longrightarrow> starts c"
    and marker: "c \<in> set redacted \<Longrightarrow> \<not> starts c"
    and local: "m' prev t \<noteq> None \<Longrightarrow> agrees t s \<Longrightarrow> m' prev s \<noteq> None"
    and match: "m prev s = Some n \<Longrightarrow> 0 < n \<and> n \<le> length s \<and> (drop n s \<noteq> [] \<longrightarrow> \<not> starts (hd (drop n s)) \<and>
      m prev' (drop n s) = None)"
begin

lemma head_none: "\<not> starts c \<Longrightarrow> m' prev (c # s) = None"
  using start by blast

lemma no_match_append:
  "(\<forall>c \<in> set t. \<not> starts c) \<Longrightarrow> t \<noteq> [] \<Longrightarrow> no_match m' prev (t @ s) = no_match m' (Some (last t)) s"
proof (induction t arbitrary: prev)
  case (Cons c t)
  have "m' prev (c # t @ s) = None" using Cons.prems(1) by (intro head_none) simp
  with Cons show ?case by (cases t) auto
qed simp

lemma pass_clears: "clear m m' prev s \<Longrightarrow> no_match m' prev (sub_text m prev 0 s)"
proof (induction "length s" arbitrary: s prev rule: less_induct)
  case less
  show ?case
  proof (cases s)
    case (Cons c r)
    show ?thesis
    proof (cases "m prev s")
      case None
      let ?out = "sub_text m (Some c) 0 r"
      have "no_match m' (Some c) ?out" using less.hyps [of r "Some c"] less.prems Cons by simp
      moreover have "m' prev s = None" using less.prems None Cons by simp
      then have "m' prev (c # ?out) = None"
        using local [of prev "c # ?out" s] agrees_Cons [OF sub_agrees] Cons by blast
      ultimately show ?thesis using None Cons by simp
    next
      case (Some n)
      note n = match [OF Some]
      let ?rest = "drop n s" and ?p = "Some (s ! (n - 1))"
      have "sub_text m prev 0 s = redacted @ sub_text m (Some c) (n - 1) r" using Some Cons by simp
      also have "sub_text m (Some c) (n - 1) r = sub_text m ?p 0 ?rest"
        using n [of None] Cons by (subst sub_skip) (auto simp: nth_Cons' gr0_conv_Suc)
      finally have out: "sub_text m prev 0 s = redacted @ sub_text m ?p 0 ?rest" .
      have "no_match m' (Some (last redacted)) (sub_text m ?p 0 ?rest)"
      proof (cases ?rest)
        case rest: (Cons d u)
        then have d: "\<not> starts d" "m ?p (d # u) = None" using n [of ?p] by simp_all
        have "clear m m' ?p ?rest" using clear_drop less.prems n [of None] by blast
        then have "clear m m' (Some d) u" using rest by simp
        moreover have "length u < length s"
          using rest length_drop [of n s] n [of None] by simp
        ultimately have "no_match m' (Some d) (sub_text m (Some d) 0 u)" by (intro less.hyps)
        then show ?thesis using rest d head_none by simp
      qed simp
      moreover have "redacted \<noteq> []" by (simp add: redacted_def)
      ultimately show ?thesis unfolding out using no_match_append marker by blast
    qed
  qed simp
qed

end

subsection \<open>The two patterns\<close>

lemma agrees_append:
  "agrees (u @ t) s \<Longrightarrow> CHR ''<'' \<notin> set u \<Longrightarrow> \<exists>s'. s = u @ s' \<and> agrees t s'"
proof (induction u arbitrary: s)
  case (Cons c u)
  have "\<exists>s1. s = c # s1 \<and> agrees (u @ t) s1"
    using Cons.prems(1) unfolding agrees_def
  proof (elim disjE exE conjE)
    fix j r assume j: "j \<le> length s" "(c # u) @ t = take j s @ CHR ''<'' # r"
    obtain i d s1 where s: "j = Suc i" "s = d # s1"
      using j Cons.prems(2) by (cases j; cases s) auto
    then have "c = d" "i \<le> length s1" "u @ t = take i s1 @ CHR ''<'' # r" using j by auto
    with s(2) show "\<exists>s1. s = c # s1 \<and>
        (u @ t = s1 \<or> (\<exists>j r. j \<le> length s1 \<and> u @ t = take j s1 @ CHR ''<'' # r))" by blast
  qed auto
  then obtain s1 where s1: "s = c # s1" "agrees (u @ t) s1" by blast
  from Cons.IH [OF s1(2)] Cons.prems(2) s1(1) show ?case by auto
qed simp

definition bearer_start :: "char \<Rightarrow> bool" where
  "bearer_start c \<longleftrightarrow> lower_char c = CHR ''b''"

definition key_start :: "char \<Rightarrow> bool" where
  "key_start c \<longleftrightarrow> c = CHR ''s''"

lemma lower_b: "lower_char c = CHR ''b'' \<Longrightarrow> c = CHR ''b'' \<or> c = CHR ''B''"
proof -
  assume l: "lower_char c = CHR ''b''"
  define n where "n = (of_char c :: nat)"
  have "n < 256" by (simp add: n_def)
  show ?thesis
  proof (cases "65 \<le> n \<and> n \<le> 90")
    case True
    then have "(of_char (char_of (n + 32) :: char) :: nat) = of_char (CHR ''b'')"
      using l by (simp add: lower_char_def n_def Let_def)
    then have "n = 66" using True by simp
    then have "c = char_of (66 :: nat)" by (metis n_def char_of_char)
    also have "\<dots> = CHR ''B''" by code_simp
    finally show ?thesis ..
  next
    case False
    then have "lower_char c = c" by (auto simp: lower_char_def n_def Let_def)
    then show ?thesis using l by simp
  qed
qed

text \<open>What a match is made of.\<close>

lemma match_bearer_iff:
  "match_bearer prev s = Some n \<longleftrightarrow> at_boundary prev \<and>
     (\<exists>h g k r. s = h @ g @ k @ r \<and> length h = 6 \<and> lower h = ''bearer'' \<and> g \<noteq> [] \<and> k \<noteq> [] \<and>
        (\<forall>c \<in> set g. is_ws c) \<and> (\<forall>c \<in> set k. bearer_char c) \<and> \<not> is_ws (hd k) \<and>
        (r \<noteq> [] \<longrightarrow> \<not> bearer_char (hd r)) \<and> n = length h + length g + length k)"
  (is "?L \<longleftrightarrow> _ \<and> ?R")
proof
  assume ?L
  then have b: "at_boundary prev" "is_prefix ''bearer'' (lower s)"
    and g: "takeWhile is_ws (drop 6 s) \<noteq> []"
      "takeWhile bearer_char (dropWhile is_ws (drop 6 s)) \<noteq> []"
    and n: "n = 6 + length (takeWhile is_ws (drop 6 s)) +
        length (takeWhile bearer_char (dropWhile is_ws (drop 6 s)))"
    by (auto simp: match_bearer_def Let_def split: if_splits)
  let ?d = "dropWhile is_ws (drop 6 s)"
  have low: "lower (take 6 s) = ''bearer''"
    using b(2) by (simp add: is_prefix_iff lower_def take_map eval_nat_numeral)
  have "length (take 6 s) = length (lower (take 6 s))" by (simp add: lower_def)
  with low have len: "length (take 6 s) = 6" "lower (take 6 s) = ''bearer''" by simp_all
  have s: "s = take 6 s @ takeWhile is_ws (drop 6 s) @ takeWhile bearer_char ?d @ dropWhile bearer_char ?d"
    by simp
  have h: "\<not> is_ws (hd (takeWhile bearer_char ?d))"
    using g(2) hd_dropWhile [of is_ws "drop 6 s"] by (cases ?d) (auto split: if_splits)
  have "?R"
    by (rule exI [of _ "take 6 s"], rule exI [of _ "takeWhile is_ws (drop 6 s)"],
        rule exI [of _ "takeWhile bearer_char ?d"], rule exI [of _ "dropWhile bearer_char ?d"])
      (use s len g h n in \<open>auto dest: set_takeWhileD simp: hd_dropWhile\<close>)
  with b(1) show "at_boundary prev \<and> ?R" ..
next
  assume "at_boundary prev \<and> ?R"
  then obtain h g k r where b: "at_boundary prev" and s: "s = h @ g @ k @ r"
    and h: "length h = 6" "lower h = ''bearer''" and ne: "g \<noteq> []" "k \<noteq> []"
    and g: "\<forall>c \<in> set g. is_ws c" and k: "\<forall>c \<in> set k. bearer_char c" "\<not> is_ws (hd k)"
    and r: "r \<noteq> [] \<longrightarrow> \<not> bearer_char (hd r)" and n: "n = length h + length g + length k" by blast
  have "drop 6 s = g @ k @ r" using s h(1) by simp
  moreover have "takeWhile is_ws (g @ k @ r) = g" "dropWhile is_ws (g @ k @ r) = k @ r"
    using g k(2) ne(2) by (cases k; simp)+
  moreover have "takeWhile bearer_char (k @ r) = k" using k(1) r by (cases r) auto
  moreover have "take 6 (lower s) = ''bearer''" using s h by (simp add: lower_def)
  then have "is_prefix ''bearer'' (lower s)" by (simp add: is_prefix_iff eval_nat_numeral)
  ultimately show ?L using b ne n h(1) by (simp add: match_bearer_def Let_def)
qed


lemma lower_angle: "lower h = ''bearer'' \<Longrightarrow> CHR ''<'' \<notin> set h"
proof
  assume "lower h = ''bearer''" "CHR ''<'' \<in> set h"
  then have "lower_char (CHR ''<'') \<in> set ''bearer''" by (metis lower_def imageI list.set_map)
  moreover have "lower_char (CHR ''<'') = CHR ''<''" by code_simp
  ultimately show False by simp
qed

lemma class_angle: "\<not> is_ws (CHR ''<'')" "\<not> bearer_char (CHR ''<'')" "\<not> key_char (CHR ''<'')"
  by code_simp+

lemma bearer_of_start: "bearer_start c \<Longrightarrow> bearer_char c"
  using lower_b [of c] by (auto simp: bearer_start_def bearer_char_def is_alnum_def)

lemma bearer_head: "match_bearer prev (c # s) \<noteq> None \<Longrightarrow> bearer_start c"
proof -
  assume "match_bearer prev (c # s) \<noteq> None"
  then obtain n where "match_bearer prev (c # s) = Some n" by blast
  then obtain h r where h: "c # s = h @ r" "length h = 6" "lower h = ''bearer''"
    unfolding match_bearer_iff by blast
  then obtain h' where "h = c # h'" by (cases h) auto
  with h(3) show ?thesis by (simp add: bearer_start_def lower_def)
qed

lemma bearer_local:
  assumes "match_bearer prev t \<noteq> None" "agrees t s"
  shows "match_bearer prev s \<noteq> None"
proof -
  from assms(1) obtain n where "match_bearer prev t = Some n" by blast
  then obtain h g k r where b: "at_boundary prev" and t: "t = h @ g @ k @ r"
    and h: "length h = 6" "lower h = ''bearer''" and ne: "g \<noteq> []" "k \<noteq> []"
    and g: "\<forall>c \<in> set g. is_ws c" and k: "\<forall>c \<in> set k. bearer_char c" "\<not> is_ws (hd k)"
    unfolding match_bearer_iff by blast
  have "CHR ''<'' \<notin> set (h @ g @ k)"
    using lower_angle [OF h(2)] g k(1) class_angle by auto
  moreover have "agrees ((h @ g @ k) @ r) s" using assms(2) t by simp
  ultimately obtain r' where s: "s = (h @ g @ k) @ r'" using agrees_append by blast
  let ?k = "k @ takeWhile bearer_char r'" and ?r = "dropWhile bearer_char r'"
  have "s = h @ g @ ?k @ ?r" using s by simp
  moreover have "\<forall>c \<in> set ?k. bearer_char c" using k(1) by (auto dest: set_takeWhileD)
  moreover have "\<not> is_ws (hd ?k)" "?k \<noteq> []" using k(2) ne(2) by (cases k; simp)+
  moreover have "?r \<noteq> [] \<longrightarrow> \<not> bearer_char (hd ?r)" by (simp add: hd_dropWhile)
  ultimately have "match_bearer prev s = Some (length h + length g + length ?k)"
    unfolding match_bearer_iff using b h ne(1) g by blast
  then show ?thesis by simp
qed

lemma bearer_match:
  assumes "match_bearer prev s = Some n"
  shows "0 < n \<and> n \<le> length s \<and>
    (drop n s \<noteq> [] \<longrightarrow> \<not> bearer_start (hd (drop n s)) \<and> match_bearer prev' (drop n s) = None)"
proof -
  from assms obtain h g k r where m: "s = h @ g @ k @ r" and h: "length h = 6"
    and r: "r \<noteq> [] \<longrightarrow> \<not> bearer_char (hd r)" and n': "n = length h + length g + length k"
    unfolding match_bearer_iff by blast
  have s: "s = (h @ g @ k) @ r" and n: "n = length (h @ g @ k)" using m n' by simp_all
  have rest: "drop n s = r" using s n by simp
  have none: "match_bearer prev' (c # u) = None" if "\<not> bearer_char c" for c u
    using bearer_head bearer_of_start that by blast
  have "r \<noteq> [] \<longrightarrow> \<not> bearer_start (hd r) \<and> match_bearer prev' r = None"
    using r bearer_of_start none by (cases r) auto
  with rest s n h show ?thesis by auto
qed

subsection \<open>Keys\<close>

lemma key_head: "match_openai_key prev (c # s) \<noteq> None \<Longrightarrow> key_start c"
  by (auto simp: match_openai_key_def key_start_def split: if_splits)

text \<open>The body is the run of key characters without its trailing hyphens.\<close>

lemma key_parts: "\<exists>dashes r. drop 3 s = key_body s @ dashes @ r \<and> set dashes \<subseteq> {CHR ''-''} \<and>
    (\<forall>c \<in> set (key_body s). key_char c) \<and> (r \<noteq> [] \<longrightarrow> \<not> key_char (hd r))"
proof -
  let ?run = "takeWhile key_char (drop 3 s)" and ?P = "\<lambda>c. c = CHR ''-''"
  have "rev ?run = takeWhile ?P (rev ?run) @ dropWhile ?P (rev ?run)" by simp
  then have "?run = rev (dropWhile ?P (rev ?run)) @ rev (takeWhile ?P (rev ?run))"
    by (metis rev_append rev_rev_ident)
  then have run: "?run = key_body s @ rev (takeWhile ?P (rev ?run))" by (simp add: key_body_def)
  moreover have "drop 3 s = ?run @ dropWhile key_char (drop 3 s)" by simp
  ultimately have "drop 3 s = key_body s @ rev (takeWhile ?P (rev ?run)) @ dropWhile key_char (drop 3 s)"
    by (metis append.assoc)
  moreover have "set (rev (takeWhile ?P (rev ?run))) \<subseteq> {CHR ''-''}" by (auto dest: set_takeWhileD)
  moreover have "\<forall>c \<in> set (key_body s). key_char c"
  proof
    fix c assume "c \<in> set (key_body s)"
    then have "c \<in> set ?run" using run by (metis Un_iff set_append)
    then show "key_char c" by (auto dest: set_takeWhileD)
  qed
  ultimately show ?thesis by (metis hd_dropWhile)
qed

lemma key_match:
  assumes "match_openai_key prev s = Some n"
  shows "0 < n \<and> n \<le> length s \<and> (drop n s \<noteq> [] \<longrightarrow>
    \<not> bearer_start (hd (drop n s)) \<and> \<not> key_start (hd (drop n s)) \<and> match_openai_key prev' (drop n s) = None)"
proof -
  have n: "n = 3 + length (key_body s)" using assms by (auto simp: match_openai_key_def split: if_splits)
  obtain dashes r where p: "drop 3 s = key_body s @ dashes @ r" "set dashes \<subseteq> {CHR ''-''}"
    "r \<noteq> [] \<longrightarrow> \<not> key_char (hd r)" using key_parts by blast
  have rest: "drop n s = dashes @ r" using p(1) n by (metis append_eq_conv_conj drop_drop add.commute)
  have len: "n \<le> length s"
  proof -
    have "8 \<le> length (key_body s)" using assms by (auto simp: match_openai_key_def split: if_splits)
    moreover have "length (key_body s) \<le> length (drop 3 s)" using p(1) by simp
    ultimately show ?thesis using n by simp
  qed
  have "\<not> bearer_start (hd (dashes @ r)) \<and> \<not> key_start (hd (dashes @ r))" if "dashes @ r \<noteq> []"
  proof (cases dashes)
    case Nil
    then have "\<not> key_char (hd r)" using p(3) that by simp
    then show ?thesis using Nil lower_b [of "hd r"]
      by (auto simp: bearer_start_def key_start_def key_char_def is_alnum_def lower_char_def)
  next
    case (Cons d ds)
    then have "d = CHR ''-''" using p(2) by simp
    moreover have "\<not> bearer_start (CHR ''-'')" by (simp add: bearer_start_def lower_char_def)
    ultimately show ?thesis using Cons by (simp add: key_start_def)
  qed
  moreover have "match_openai_key prev' (c # u) = None" if "\<not> key_start c" for c u
    using key_head that by blast
  ultimately show ?thesis using rest len n by (cases "dashes @ r") auto
qed

lemma stripped_longer: "length (dropWhile P (rev a)) \<le> length (dropWhile P (rev (a @ b)))"
proof -
  have "rev (a @ b) = rev b @ rev a" by simp
  moreover have "length (dropWhile P ys) \<le> length (dropWhile P (xs @ ys))" for xs ys
    by (induction xs) (simp_all add: length_dropWhile_le le_trans [OF length_dropWhile_le])
  ultimately show ?thesis by metis
qed

lemma key_local:
  assumes "match_openai_key prev t \<noteq> None" "agrees t s"
  shows "match_openai_key prev s \<noteq> None"
proof -
  let ?run = "takeWhile key_char (drop 3 t)"
  have b: "at_boundary prev" "is_prefix ''sk-'' t" "8 \<le> length (key_body t)"
    using assms(1) by (auto simp: match_openai_key_def split: if_splits)
  then have t: "t = (''sk-'' @ ?run) @ dropWhile key_char (drop 3 t)"
    by (metis append.assoc append_take_drop_id is_prefix_iff list.size(3,4) numeral_3_eq_3 One_nat_def
        add_0_right plus_1_eq_Suc add_Suc_right takeWhile_dropWhile_id)
  have "CHR ''<'' \<notin> set ?run" using class_angle(3) by (auto dest: set_takeWhileD)
  then have "CHR ''<'' \<notin> set (''sk-'' @ ?run)" by simp
  with agrees_append t assms(2) obtain s' where s: "s = (''sk-'' @ ?run) @ s'" by metis
  have "takeWhile key_char (drop 3 s) = ?run @ takeWhile key_char s'"
    using s by (simp add: takeWhile_append) (metis set_takeWhileD)
  then have "length (key_body t) \<le> length (key_body s)"
    by (simp add: key_body_def stripped_longer del: rev_append)
  moreover have "is_prefix ''sk-'' s" using s by simp
  ultimately show ?thesis using b by (simp add: match_openai_key_def)
qed


lemma marker_heads: "c \<in> set redacted \<Longrightarrow> \<not> bearer_start c \<and> \<not> key_start c"
  by (auto simp: redacted_def bearer_start_def key_start_def lower_char_def)

subsection \<open>The passes\<close>

interpretation bearer_pass: redaction_pass match_bearer match_bearer bearer_start
  using bearer_head marker_heads bearer_local bearer_match by unfold_locales blast+

interpretation key_pass: redaction_pass match_openai_key match_openai_key key_start
  using key_head marker_heads key_local key_match by unfold_locales blast+

interpretation mixed_pass: redaction_pass match_openai_key match_bearer bearer_start
  using bearer_head marker_heads bearer_local key_match by unfold_locales blast+

lemma redact_text_clean:
  "no_match match_bearer None (redact_text s) \<and> no_match match_openai_key None (redact_text s)"
proof -
  have "no_match match_bearer None (sub_text match_bearer None 0 s)"
    by (rule bearer_pass.pass_clears [OF clear_self])
  then have "no_match match_bearer None (redact_text s)"
    unfolding redact_text_def by (rule mixed_pass.pass_clears [OF clear_no_match])
  moreover have "no_match match_openai_key None (redact_text s)"
    unfolding redact_text_def by (rule key_pass.pass_clears [OF clear_self])
  ultimately show ?thesis ..
qed

text \<open>A text without a match at any position is left as it is.\<close>

lemma sub_unchanged: "no_match m prev s \<Longrightarrow> sub_text m prev 0 s = s"
  by (induction s arbitrary: prev) auto

lemma redact_text_idem: "redact_text (redact_text s) = redact_text s"
  using redact_text_clean [of s] by (simp add: redact_text_def [of "redact_text s"] sub_unchanged)

subsection \<open>Documents\<close>

text \<open>What a document may hold after redaction.\<close>

fun safe_value :: "pyval \<Rightarrow> bool" where
  "safe_value (PDict d) = (\<forall>(k, v) \<in> set d. if sensitive_key k then v = PStr redacted else safe_value v)"
| "safe_value (PList xs) = (\<forall>x \<in> set xs. safe_value x)"
| "safe_value (PBytes b) = False"
| "safe_value (PStr s) = (no_match match_bearer None s \<and> no_match match_openai_key None s)"
| "safe_value v = True"

lemma marker_clean: "no_match match_bearer None redacted" "no_match match_openai_key None redacted"
  by code_simp+

lemma redact_safe: "safe_value (redact v)"
  by (induction v) (auto simp: redact_text_clean marker_clean prod_set_defs)

lemma redact_dict_eq: "PDict (redact_dict d) = redact (PDict d)"
  by (simp add: redact_dict_def)

lemma safe_no_bytes: "safe_value v \<Longrightarrow> no_bytes v"
proof (induction v)
  case (PDict d)
  have "no_bytes v" if kv: "(k, v) \<in> set d" for k v
  proof (cases "sensitive_key k")
    case True
    then have "v = PStr redacted" using PDict.prems kv by auto
    then show ?thesis by simp
  next
    case False
    then have "safe_value v" using PDict.prems kv by fastforce
    then show ?thesis using PDict.IH kv by (auto simp: prod_set_defs)
  qed
  then show ?case by auto
qed auto

lemma redact_unchanged: "safe_value v \<Longrightarrow> redact v = v"
proof (induction v)
  case (PDict d)
  have "(if sensitive_key k then PStr redacted else redact v) = v" if kv: "(k, v) \<in> set d" for k v
  proof (cases "sensitive_key k")
    case True
    then show ?thesis using PDict.prems kv by auto
  next
    case False
    then have "safe_value v" using PDict.prems kv by fastforce
    then show ?thesis using PDict.IH kv False by (auto simp: prod_set_defs)
  qed
  then show ?case by (auto intro!: map_idI)
next
  case (PList xs)
  then show ?case by (auto intro: map_idI)
qed (auto simp: redact_text_def sub_unchanged)

lemma redact_idem: "redact (redact v) = redact v"
  by (rule redact_unchanged [OF redact_safe])

end
