(* ===== verification/Mcp_Frontend_Properties.thy ===== *)
theory Mcp_Frontend_Properties
  imports Mcp_Frontend
begin

section \<open>What frontend authorization guarantees\<close>

text \<open>
  The decision of the gate as a condition on the target cases, the roles that can pass it, its
  independence of roles in other cases, the round trip of a confirmation through the in-memory
  provider, and the separation of the sessions' safety budgets.
\<close>

lemma missing_none: "missing_scopes required available = [] \<longleftrightarrow> set required \<subseteq> set available"
  by (auto simp: missing_scopes_def filter_empty_conv simp flip: set_empty)

lemma check_case_scopes_iff:
  "check_case_scopes tool required (PDict d) cs = Inr () \<longleftrightarrow>
     (\<forall>c \<in> set cs. set required \<subseteq> set (case_scopes d c))"
  by (induction cs) (simp_all add: Let_def missing_none)

lemma check_case_roles_iff:
  "check_case_roles tool roles (PDict d) cs = Inr () \<longleftrightarrow>
     (\<forall>c \<in> set cs. \<exists>r. dget_or d c (PStr '''') = PStr r \<and> upper (strip r) \<in> set roles)"
  by (induction cs) (auto split: pyval.splits)

lemma case_roles_claim_cases: "truthy (case_roles_claim t) \<longleftrightarrow> truthy (dget_or (claims_of t) ''case_roles'' PNone)"
  by (simp add: case_roles_claim_def Let_def)

text \<open>What one target case must grant.\<close>

definition case_grants :: "dict \<Rightarrow> string \<Rightarrow> string list \<Rightarrow> string list \<Rightarrow> bool" where
  "case_grants claim c required roles \<longleftrightarrow> set required \<subseteq> set (case_scopes claim c) \<and>
     (roles \<noteq> [] \<longrightarrow> (\<exists>r. dget_or claim c (PStr '''') = PStr r \<and> upper (strip r) \<in> set roles))"

lemma require_access_dict:
  assumes "case_roles_claim t = PDict claim" "claim \<noteq> []"
  shows "require_access s t d tool targets = Inr () \<longleftrightarrow>
    set targets \<subseteq> set (fs_allowed_case_ids s) \<and> set (required_scopes d tool) \<subseteq> set (at_scopes t) \<and>
    (\<forall>c \<in> set targets. case_grants claim c (required_scopes d tool) (required_roles d tool))"
proof -
  have t: "truthy (case_roles_claim t)" using assms by simp
  show ?thesis
    unfolding require_access_def Let_def guard_simps bind_res_eq_Inr
    by (auto simp: t assms(1) check_case_scopes_iff check_case_roles_iff missing_none case_grants_def
        list_all_iff assms(2))
qed

lemma require_access_empty:
  assumes "case_roles_claim t = PDict []"
  shows "require_access s t d tool targets = Inr () \<longleftrightarrow>
    set targets \<subseteq> set (fs_allowed_case_ids s) \<and> set (required_scopes d tool) \<subseteq> set (at_scopes t) \<and>
    (required_roles d tool \<noteq> [] \<longrightarrow> set (fs_roles s) \<inter> set (required_roles d tool) \<noteq> {})"
  unfolding require_access_def Let_def guard_simps bind_res_eq_Inr
  by (auto simp: assms missing_none list_all_iff list_ex_iff)


definition sample_token :: access_token where
  "sample_token = \<lparr>at_token = ''t'', at_client_id = ''c'',
     at_scopes = [''apex:mcp'', ''apex:read'', ''apex:write''], at_resource = None,
     at_subject = Some ''ana'',
     at_claims = Some [(''case_roles'', PDict [(''c1'', PStr ''ANALYST''), (''c2'', PStr ''VIEWER'')])]\<rparr>"

definition sample_session :: frontend_session where
  "sample_session = \<lparr>fs_actor_id = ''ana'', fs_session_id = ''s1'', fs_tenant_id = ''t1'',
     fs_allowed_case_ids = [''c1'', ''c2''], fs_roles = [''ANALYST'', ''VIEWER'']\<rparr>"

lemma sample_claim: "case_roles_claim sample_token =
    PDict [(''c1'', PStr ''ANALYST''), (''c2'', PStr ''VIEWER'')]"
  by (simp add: case_roles_claim_def sample_token_def claims_of_def dget_or_def)

lemma sample_scopes:
  "required_scopes [(''mutates_state'', PBool True)] ''t'' = [''apex:mcp'', ''apex:read'', ''apex:write'']"
  "required_roles [(''mutates_state'', PBool True)] ''t'' = human_mutation_roles"
  by (simp_all add: required_scopes_def required_roles_def dflag_def dget_or_def approval_tools_def
      export_tools_def raw_read_tool_def)

lemma sample_case_scopes:
  "case_scopes [(''c1'', PStr ''ANALYST''), (''c2'', PStr ''VIEWER'')] ''c1'' =
     [''apex:mcp'', ''apex:read'', ''apex:write'', ''apex:confirm'']"
  "case_scopes [(''c1'', PStr ''ANALYST''), (''c2'', PStr ''VIEWER'')] ''c2'' = [''apex:mcp'', ''apex:read'']"
  by code_simp+


subsection \<open>Roles\<close>

lemma scopes_single: "set (scopes_for_roles [r]) = set (role_scopes (upper r))"
  by (simp add: scopes_for_roles_def)

lemma upper_char_idem: "upper_char (upper_char c) = upper_char c"
proof -
  have "\<And>n :: nat. 97 \<le> n \<Longrightarrow> n \<le> 122 \<Longrightarrow> of_char (char_of (n - 32) :: char) = n - 32" by simp
  then show ?thesis by (auto simp: upper_char_def Let_def)
qed

lemma upper_idem [simp]: "upper (upper s) = upper s"
  by (simp add: upper_def upper_char_idem)

text \<open>The scopes each role holds, read backwards.\<close>

lemma role_of_scope:
  "''apex:read'' \<in> set (role_scopes r) \<Longrightarrow> r \<in> set all_roles"
  "''apex:write'' \<in> set (role_scopes r) \<Longrightarrow> r \<in> {''ANALYST'', ''APPROVER'', ''ADMIN''}"
  "''apex:confirm'' \<in> set (role_scopes r) \<Longrightarrow> r \<in> {''ANALYST'', ''APPROVER'', ''ADMIN''}"
  "''apex:approve'' \<in> set (role_scopes r) \<Longrightarrow> r \<in> {''APPROVER'', ''ADMIN''}"
  "''apex:export'' \<in> set (role_scopes r) \<Longrightarrow> r \<in> {''EXPORTER'', ''APPROVER'', ''ADMIN''}"
  "''apex:raw'' \<in> set (role_scopes r) \<Longrightarrow> r = ''ADMIN''"
  by (auto simp: role_scopes_def base_scopes_def all_roles_def split: if_splits)

lemma admitted_roles_some:
  assumes "require_access s t d tool targets = Inr ()"
    and "case_roles_claim t = PDict claim" "claim \<noteq> []" "c \<in> set targets"
  shows "\<exists>v. dget claim c = Some v"
proof (cases "dget claim c")
  case None
  have sub: "set (required_scopes d tool) \<subseteq> set (case_scopes claim c)"
    using require_access_dict [OF assms(2,3)] assms(1,4) by (auto simp: case_grants_def)
  have "case_scopes claim c = []"
    using None by (simp add: case_scopes_def dget_or_def strip_def upper_def)
  with sub show ?thesis by (simp add: required_scopes_def)
qed simp

text \<open>A call admitted with case roles has a role of its own in every target case.  That role is
  one of the five; it may change state or use a confirmation only as analyst, approver or
  administrator, approve only as approver or administrator, run a state-changing export tool only as
  approver or administrator (so never as exporter alone), and read raw bytes only as administrator.\<close>

lemma admitted_roles:
  assumes "require_access s t d tool targets = Inr ()"
    and "case_roles_claim t = PDict claim" "claim \<noteq> []" "c \<in> set targets"
  shows "\<exists>v. dget claim c = Some v \<and> (\<forall>r. v = PStr r \<longrightarrow>
    upper (strip r) \<in> set all_roles \<and>
    (dflag d ''mutates_state'' \<or> dflag d ''requires_confirmation'' \<longrightarrow>
       upper (strip r) \<in> {''ANALYST'', ''APPROVER'', ''ADMIN''}) \<and>
    (tool \<in> set approval_tools \<longrightarrow> upper (strip r) \<in> {''APPROVER'', ''ADMIN''}) \<and>
    (tool \<in> set export_tools \<and> dflag d ''mutates_state'' \<longrightarrow> upper (strip r) \<in> {''APPROVER'', ''ADMIN''}) \<and>
    (tool = raw_read_tool \<longrightarrow> upper (strip r) = ''ADMIN''))"
proof -
  have sub: "set (required_scopes d tool) \<subseteq> set (case_scopes claim c)"
    using require_access_dict [OF assms(2,3)] assms(1,4) by (auto simp: case_grants_def)
  obtain v where v: "dget claim c = Some v" using admitted_roles_some [OF assms] by blast
  have scopes: "set (required_scopes d tool) \<subseteq> set (role_scopes (upper (strip r)))" if "v = PStr r" for r
  proof -
    have "case_scopes claim c = (if upper (strip r) = [] then [] else scopes_for_roles [upper (strip r)])"
      using v that by (simp add: case_scopes_def dget_or_def Let_def)
    moreover have "role_scopes [] = []" by (simp add: role_scopes_def)
    ultimately show ?thesis using sub by (auto simp: scopes_single split: if_splits)
  qed
  have "upper (strip r) \<in> set all_roles \<and>
    (dflag d ''mutates_state'' \<or> dflag d ''requires_confirmation'' \<longrightarrow>
       upper (strip r) \<in> {''ANALYST'', ''APPROVER'', ''ADMIN''}) \<and>
    (tool \<in> set approval_tools \<longrightarrow> upper (strip r) \<in> {''APPROVER'', ''ADMIN''}) \<and>
    (tool \<in> set export_tools \<and> dflag d ''mutates_state'' \<longrightarrow> upper (strip r) \<in> {''APPROVER'', ''ADMIN''}) \<and>
    (tool = raw_read_tool \<longrightarrow> upper (strip r) = ''ADMIN'')" if "v = PStr r" for r
  proof -
    define R where "R = upper (strip r)"
    note sc = scopes [OF that, folded R_def]
    have 1: "R \<in> set all_roles" using sc by (intro role_of_scope(1)) (auto simp: required_scopes_def)
    have 2: "dflag d ''mutates_state'' \<Longrightarrow> R \<in> {''ANALYST'', ''APPROVER'', ''ADMIN''}"
      using sc by (intro role_of_scope(2)) (auto simp: required_scopes_def)
    have 3: "dflag d ''requires_confirmation'' \<Longrightarrow> R \<in> {''ANALYST'', ''APPROVER'', ''ADMIN''}"
      using sc by (intro role_of_scope(3)) (auto simp: required_scopes_def)
    have 4: "tool \<in> set approval_tools \<Longrightarrow> R \<in> {''APPROVER'', ''ADMIN''}"
      using sc by (intro role_of_scope(4)) (auto simp: required_scopes_def)
    have 5: "tool \<in> set export_tools \<Longrightarrow> R \<in> {''EXPORTER'', ''APPROVER'', ''ADMIN''}"
      using sc by (intro role_of_scope(5)) (auto simp: required_scopes_def)
    have 6: "tool = raw_read_tool \<Longrightarrow> R = ''ADMIN''"
      using sc by (intro role_of_scope(6)) (auto simp: required_scopes_def)
    show ?thesis unfolding R_def [symmetric] using 1 2 3 4 5 6 by blast
  qed
  with v show ?thesis by blast
qed

text \<open>C22: The gate's whole answer to a call under a token with non-empty case roles, errors included,
  depends on the roles of the target cases alone: two such tokens with the same scopes, under sessions
  with the same allowed cases, whose case roles agree on the targets get the same answer, whatever
  roles the actor has in other cases or in the session.  (A token without case roles is judged by the
  roles of its session.)\<close>

theorem no_cross_case_privilege:
  assumes "case_roles_claim t = PDict claim" "claim \<noteq> []"
    and "case_roles_claim t' = PDict claim'" "claim' \<noteq> []"
    and "\<forall>c \<in> set targets. dget claim c = dget claim' c" "at_scopes t = at_scopes t'"
    and "fs_allowed_case_ids s = fs_allowed_case_ids s'"
  shows "require_access s t d tool targets = require_access s' t' d tool targets"
proof -
  have agree: "dget_or claim c v = dget_or claim' c v" if "c \<in> set targets" for c v
    using assms(5) that by (simp add: dget_or_def)
  have "check_case_scopes tool req (PDict claim) cs = check_case_scopes tool req (PDict claim') cs"
    if "set cs \<subseteq> set targets" for req cs
    using that by (induction cs) (simp_all add: case_scopes_def agree Let_def)
  then have 1: "check_case_scopes tool req (PDict claim) (sort targets) =
      check_case_scopes tool req (PDict claim') (sort targets)" for req by simp
  have "check_case_roles tool roles (PDict claim) cs = check_case_roles tool roles (PDict claim') cs"
    if "set cs \<subseteq> set targets" for roles cs
    using that by (induction cs) (simp_all add: agree split: pyval.split)
  then have 2: "check_case_roles tool roles (PDict claim) targets =
      check_case_roles tool roles (PDict claim') targets" for roles by simp
  show ?thesis
    unfolding require_access_def Let_def assms(1,3,6,7) by (simp add: 1 2 assms(2,4))
qed

lemma no_cross_case_privilege_witness:
  "require_access sample_session sample_token [] ''t'' [''c1''] =
   require_access (sample_session\<lparr>fs_roles := [''ADMIN'']\<rparr>)
     (sample_token\<lparr>at_claims := Some [(''case_roles'', PDict [(''c1'', PStr ''ANALYST''), (''c9'', PStr ''ADMIN'')])]\<rparr>)
     [] ''t'' [''c1'']"
  by (rule no_cross_case_privilege [OF sample_claim, where claim' = "[(''c1'', PStr ''ANALYST''), (''c9'', PStr ''ADMIN'')]"])
    (simp_all add: case_roles_claim_def sample_token_def claims_of_def dget_or_def sample_session_def)

subsection \<open>Confirmations\<close>

text \<open>A grant issued to the in-memory provider is found again by a call of the same actor,
  session, case, tool, arguments and targets, and confirms it once before it expires, whatever uses a
  previous grant of that name had spent; it confirms no call that differs in any of these.\<close>

lemma issued_grant_confirms:
  assumes "issue_grant s g = Inr s'"
    and "fs_actor_id session = cg_actor_id g" "fs_session_id session = cg_session_id g"
    and "now < instant (cg_expires_at g)"
  shows "\<exists>q s''. memory_confirmation_for s' session (cg_case_id g) (cg_tool_name g) (cg_fingerprint g)
        (cg_target_ids g) = Some q \<and> cr_grant_id q = cg_grant_id g \<and>
      memory_security_authorize s' q now = (True, s'') \<and>
      int (memory_remaining (ms_confirmations s'') (cg_grant_id g)) = cg_max_uses g - 1 \<and>
      (\<forall>q'. cr_grant_id q' = cg_grant_id g \<and> \<not> grant_matches g q' \<longrightarrow>
         memory_security_authorize s' q' now = (False, s'))"
proof -
  have one: "1 \<le> cg_max_uses g" and s': "s' = s\<lparr>ms_confirmations := (ms_confirmations s)
      \<lparr>mg_grants := (mg_grants (ms_confirmations s))(cg_grant_id g \<mapsto> g),
        mg_uses := (mg_uses (ms_confirmations s))(cg_grant_id g := None)\<rparr>,
      ms_confirmation_ids := (ms_confirmation_ids s)(confirmation_key_of (cg_actor_id g)
        (cg_session_id g) (cg_case_id g) (cg_tool_name g) (cg_fingerprint g) (cg_target_ids g)
        \<mapsto> cg_grant_id g)\<rparr>"
    using assms(1) by (auto simp: issue_grant_def memory_issue_def Let_def split: if_splits)
  let ?q = "\<lparr>cr_grant_id = cg_grant_id g, cr_actor_id = cg_actor_id g, cr_session_id = cg_session_id g,
    cr_case_id = cg_case_id g, cr_tool_name = cg_tool_name g, cr_fingerprint = cg_fingerprint g,
    cr_target_ids = cg_target_ids g\<rparr>"
  have q: "memory_confirmation_for s' session (cg_case_id g) (cg_tool_name g) (cg_fingerprint g)
      (cg_target_ids g) = Some ?q"
    by (simp add: memory_confirmation_for_def s' assms(2,3) Let_def)
  have "grant_matches g ?q" by (simp add: grant_matches_def)
  then obtain m where m: "memory_authorize (ms_confirmations s') ?q now = (True, m)"
    "m = (ms_confirmations s')\<lparr>mg_uses := (mg_uses (ms_confirmations s'))(cg_grant_id g \<mapsto> 1)\<rparr>"
    using assms(4) one by (simp add: memory_authorize_def s' uses_of_def)
  then have auth: "memory_security_authorize s' ?q now = (True, s'\<lparr>ms_confirmations := m\<rparr>)"
    by (simp add: memory_security_authorize_def)
  have left: "int (memory_remaining m (cg_grant_id g)) = cg_max_uses g - 1"
    using one by (simp add: memory_remaining_def m(2) s' uses_of_def)
  have "memory_security_authorize s' q' now = (False, s')"
    if "cr_grant_id q' = cg_grant_id g" "\<not> grant_matches g q'" for q'
    using that by (simp add: memory_security_authorize_def memory_authorize_def s')
  with q auth left show ?thesis by auto
qed

subsection \<open>Budgets\<close>

lemma begin_call_other: "begin_call b scope tool args now = (b', r) \<Longrightarrow> scope' \<noteq> scope \<Longrightarrow>
    tb_windows b' scope' = tb_windows b scope'"
  by (auto simp: begin_call_def Let_def put_window_def split: if_splits option.splits)

lemma accept_result_other: "accept_result b scope res m now = (b', r) \<Longrightarrow> scope' \<noteq> scope \<Longrightarrow>
    tb_windows b' scope' = tb_windows b scope'"
  by (auto simp: accept_result_def Let_def put_window_def split: if_splits sum.splits)

lemma nul_separated:
  "a @ [x] @ b = a' @ [x] @ b' \<Longrightarrow> x \<notin> set a \<Longrightarrow> x \<notin> set a' \<Longrightarrow> a = a' \<and> b = b'"
proof (induction a arbitrary: a')
  case Nil
  then show ?case by (cases a') auto
next
  case (Cons y a)
  then show ?case by (cases a') auto
qed

text \<open>Sessions of different tenants or session identifiers have separate safety budgets: a call or
  a result of one, accepted or refused, leaves the window of the other as it was, unless SHA-256
  collides on the two scopes.\<close>

lemma budgets_are_separate:
  assumes "(fs_tenant_id s, fs_session_id s) \<noteq> (fs_tenant_id s', fs_session_id s')"
    and "CHR 0x00 \<notin> set (fs_tenant_id s)" "CHR 0x00 \<notin> set (fs_tenant_id s')"
    and "sha (fs_tenant_id s @ [CHR 0x00] @ fs_session_id s) =
         sha (fs_tenant_id s' @ [CHR 0x00] @ fs_session_id s') \<longrightarrow>
         fs_tenant_id s @ [CHR 0x00] @ fs_session_id s = fs_tenant_id s' @ [CHR 0x00] @ fs_session_id s'"
    and "begin_call b (budget_scope sha s) tool args now = (b1, r1)"
    and "accept_result b1 (budget_scope sha s) res m now' = (b2, r2)"
  shows "tb_windows b1 (budget_scope sha s') = tb_windows b (budget_scope sha s') \<and>
    tb_windows b2 (budget_scope sha s') = tb_windows b (budget_scope sha s')"
proof -
  have "budget_scope sha s' \<noteq> budget_scope sha s"
    using assms(1-4) nul_separated [of "fs_tenant_id s" "CHR 0x00" "fs_session_id s" "fs_tenant_id s'" "fs_session_id s'"]
    by (auto simp: budget_scope_def)
  then show ?thesis
    using begin_call_other [OF assms(5)] accept_result_other [OF assms(6)] by simp
qed

end
