(* ===== verification/Mcp_Gateway_Facts.thy ===== *)
theory Mcp_Gateway_Facts
  imports Mcp_Gateway Mcp_Redaction_Facts Mcp_Frontend_Properties
begin

section \<open>The stages of a call\<close>

text \<open>
  What each stage of the handler changes in the state.  The locale \<open>quiet_core\<close> is the contract
  of the Core interface the guarantees rest on: its reads leave as it is what \<open>view\<close> shows of its state.
\<close>

lemma and_thenE:
  assumes "and_then m f = (s', r)"
  obtains (err) e where "m = (s', Inl e)" "r = Inl e"
  | (cont) s x where "m = (s, Inr x)" "f s x = (s', r)"
proof (cases "snd m")
  case (Inl e)
  then have "m = (fst m, Inl e)" by (simp add: prod_eq_iff)
  with assms err show ?thesis by (cases m) auto
next
  case (Inr x)
  then have "m = (fst m, Inr x)" by (simp add: prod_eq_iff)
  with assms cont show ?thesis by (cases m) auto
qed

text \<open>Adapters, and states of the gateway, that differ at most in what the Core's reads may change.\<close>

definition same_view :: "('c \<Rightarrow> 'v) \<Rightarrow> 'c adapter \<Rightarrow> 'c adapter \<Rightarrow> bool" where
  "same_view view a b \<longleftrightarrow> view (ad_core b) = view (ad_core a) \<and> ad_owns b = ad_owns a \<and> ad_closed b = ad_closed a"

definition same_state :: "('c \<Rightarrow> 'v) \<Rightarrow> ('c, 's) gateway_state \<Rightarrow> ('c, 's) gateway_state \<Rightarrow> bool" where
  "same_state view st st' \<longleftrightarrow> same_view view (gs_adapter st) (gs_adapter st') \<and>
     gs_budget st' = gs_budget st \<and> gs_grants st' = gs_grants st"

lemma same_view_refl [simp]: "same_view view a a"
  by (simp add: same_view_def)

lemma same_view_trans [trans]: "same_view view a b \<Longrightarrow> same_view view b c \<Longrightarrow> same_view view a c"
  by (simp add: same_view_def)

lemma same_state_refl [simp]: "same_state view st st"
  by (simp add: same_state_def)

lemma same_state_adapter: "same_state view st (st\<lparr>gs_adapter := a\<rparr>) \<longleftrightarrow> same_view view (gs_adapter st) a"
  by (simp add: same_state_def)

lemma same_state_trans: "same_state view s t \<Longrightarrow> same_state view t u \<Longrightarrow> same_state view s u"
  using same_view_trans by (auto simp: same_state_def)

lemma descriptor_of_same: "same_view view a b \<Longrightarrow> descriptor_of co b tool = descriptor_of co a tool"
  by (simp add: same_view_def descriptor_of_def list_tool_descriptors_def ensure_open_def)

locale quiet_core =
  fixes co :: "'c core" and view :: "'c \<Rightarrow> 'v"
  assumes read_quiet: "co_read co c tool payload rid cid = (c', r) \<Longrightarrow> view c' = view c"
begin

lemma adapter_read_same: "adapter_read co a tool payload rid cid = (a', r) \<Longrightarrow> same_view view a a'"
  using read_quiet by (auto simp: adapter_read_def same_view_def split: prod.splits)

lemma targets_same: "target_case_ids co a tool payload = (a', r) \<Longrightarrow> same_view view a a'"
  unfolding target_case_ids_def
  by (auto elim!: and_thenE dest!: adapter_read_same split: option.splits pyval.splits list.splits if_splits
      prod.splits)

lemma context_same: "require_frontend_context co a tool payload x y = (a', r) \<Longrightarrow> same_view view a a'"
  unfolding require_frontend_context_def
  by (auto elim!: and_thenE dest!: adapter_read_same split: option.splits pyval.splits if_splits)

lemma check_context_same: "check_context co a tool payload rid cid now = (a', r) \<Longrightarrow> same_view view a a'"
  unfolding check_context_def
  by (auto elim!: and_thenE dest!: adapter_read_same split: if_splits)

text \<open>Only the mutation of a descriptor that mutates changes what the reads keep.\<close>

lemma invoke_changes:
  assumes inv: "invoke co a tool payload rid cid granted now = (a', r)"
    and change: "view (ad_core a') \<noteq> view (ad_core a)"
  shows "\<exists>d a1. same_view view a a1 \<and> descriptor_of co a tool = Inr d \<and> dflag d ''mutates_state'' \<and>
    (dflag d ''requires_confirmation'' \<longrightarrow> granted) \<and>
    adapter_mutate co a1 tool payload rid cid = (a', r)"
proof -
  obtain d where d: "descriptor_of co a tool = Inr d"
    using inv change unfolding invoke_def by (auto elim!: and_thenE)
  obtain needs where needs: "dget d ''requires_confirmation'' = Some needs"
    using inv change d unfolding invoke_def by (auto simp: dict_key_def split: option.splits)
  have g: "truthy needs \<longrightarrow> granted"
    using inv change d needs unfolding invoke_def by (auto simp: dict_key_def split: if_splits)
  obtain a1 r1 where c: "check_context co a tool payload rid cid now = (a1, r1)"
    by (cases "check_context co a tool payload rid cid now")
  have a1: "same_view view a a1" by (rule check_context_same [OF c])
  have i: "and_then (a1, r1) (\<lambda>a early.
      (case early of
         Some result \<Rightarrow> (a, Inr result)
       | None \<Rightarrow> and_then (a, dict_key d ''mutates_state'') (\<lambda>a m.
           if truthy m then adapter_mutate co a tool payload rid cid
           else adapter_read co a tool payload rid cid))) = (a', r)"
    using inv g unfolding invoke_def d
    by (cases "truthy needs"; cases granted) (simp_all add: c dict_key_def needs)
  have moved: "view (ad_core a') \<noteq> view (ad_core a1)" using change a1 by (simp add: same_view_def)
  from i moved obtain m where m: "dget d ''mutates_state'' = Some m"
    "(if truthy m then adapter_mutate co a1 tool payload rid cid
      else adapter_read co a1 tool payload rid cid) = (a', r)"
    by (auto elim!: and_thenE simp: dict_key_def split: option.splits)
  have "truthy m" using m(2) moved adapter_read_same [of a1 tool payload rid cid a' r]
    by (auto simp: same_view_def split: if_splits)
  with m d needs g a1 show ?thesis by (auto simp: dflag_def dget_or_def)
qed

end

lemma confirm_stage_granted:
  assumes "confirm_stage gy en st rt tool args fp ca = (st', dec, Inr granted)"
  shows "gs_adapter st' = gs_adapter st \<and> gs_budget st' = gs_budget st \<and>
    (granted \<longrightarrow> (\<exists>q. ca_confirmation ca = Some q \<and>
       request_expected (py_str (dget_or (rt_descriptor rt) ''tool_name'' (PStr ''unknown'')))
         \<lparr>ge_actor_id = or_empty (ca_actor_id ca), ge_session_id = or_empty (ca_session_id ca),
          ge_fingerprint = fp, ge_case_id = case_argument args, ge_target_ids = target_ids args\<rparr> q \<and>
       gy_authorize gy (gs_grants st) q (en_now_grant en) = (True, gs_grants st') \<and>
       (ca_actor_id ca \<noteq> None \<longrightarrow> is_authenticated_actor (ca_actor_id ca))))"
  using assms
  by (auto simp: confirm_stage_def gate_require_def Let_def
      split: sum.splits if_splits prod.splits option.splits bool.splits)

lemma budget_stage_same: "budget_stage en st tool args ca = (st', r) \<Longrightarrow>
    gs_adapter st' = gs_adapter st \<and> gs_grants st' = gs_grants st"
  by (auto simp: budget_stage_def split: prod.splits)

lemma finish_stage_same: "finish_stage gy en st rt ca result = (st', r) \<Longrightarrow>
    gs_adapter st' = gs_adapter st \<and> gs_grants st' = gs_grants st"
  unfolding finish_stage_def Let_def
  by (auto elim!: and_thenE split: prod.splits)

lemma finish_stage_result: "finish_stage gy en st rt ca result = (st', Inr (res, code)) \<Longrightarrow>
    res = redact_dict result"
  unfolding finish_stage_def Let_def by (auto simp: case_prod_beta)

text \<open>What the frontend stage establishes when it lets a call through.\<close>

lemma frontend_stage_same:
  assumes "quiet_core (gy_core gy) view" "frontend_stage gy en st rt tool args fp t ca = (st', r)"
  shows "same_state view st st'"
proof (cases "gy_frontend gy")
  case None
  with assms(2) show ?thesis by (simp add: frontend_stage_def)
next
  case (Some provider)
  obtain a1 r1 where t: "target_case_ids (gy_core gy) (gs_adapter st) tool args = (a1, r1)"
    by (cases "target_case_ids (gy_core gy) (gs_adapter st) tool args")
  note v1 = quiet_core.targets_same [OF assms(1) t]
  have v2: "same_view view (gs_adapter st) a2"
    if "require_frontend_context (gy_core gy) a1 tool args x y = (a2, r2)" for a2 r2 x y
    using same_view_trans [OF v1 quiet_core.context_same [OF assms(1) that]] .
  show ?thesis
    using assms(2) Some t v1 unfolding frontend_stage_def
    by (auto elim!: and_thenE split: prod.splits dest!: v2 simp: same_state_adapter)
qed

lemma frontend_stage_ok:
  assumes "frontend_stage gy en st rt tool args fp t ca = (st', Inr ca')"
  shows "\<exists>provider session targets. gy_frontend gy = Some provider \<and>
    fp_resolve provider (gs_grants st) t = Inr session \<and>
    snd (target_case_ids (gy_core gy) (gs_adapter st) tool args) = Inr targets \<and>
    require_access session t (rt_descriptor rt) tool targets = Inr () \<and>
    ca_actor_id ca' = Some (fs_actor_id session) \<and> ca_session_id ca' = Some (fs_session_id session) \<and>
    ca_budget_scope ca' = budget_scope (gy_sha gy) session"
proof -
  obtain provider where p: "gy_frontend gy = Some provider"
    using assms by (auto simp: frontend_stage_def split: option.splits)
  obtain session where se: "fp_resolve provider (gs_grants st) t = Inr session"
    using assms p by (auto simp: frontend_stage_def)
  obtain a1 r1 where t: "target_case_ids (gy_core gy) (gs_adapter st) tool args = (a1, r1)"
    by (cases "target_case_ids (gy_core gy) (gs_adapter st) tool args")
  obtain a2 r2 where c: "require_frontend_context (gy_core gy) a1 tool args
      (fs_actor_id session) (fs_session_id session) = (a2, r2)"
    by (cases "require_frontend_context (gy_core gy) a1 tool args (fs_actor_id session)
      (fs_session_id session)")
  show ?thesis
    using assms p se t c by (auto simp: frontend_stage_def)
qed

lemma admit_stage_ok:
  assumes "admit_stage gy en st tool args fp token ca = (st', Inr (rt, ca'))"
  shows "rg_registered (gy_registry gy) tool = Some rt \<and>
    validate_inline (rg_catalog (gy_registry gy)) (bi_input_schema (rt_binding rt)) (PDict args) = Inr () \<and>
    require_capabilities (rg_capabilities (gy_registry gy)) (rt_descriptor rt) = Inr () \<and>
    (case token of None \<Rightarrow> ca' = ca
     | Some t \<Rightarrow> frontend_stage gy en st rt tool args fp t ca = (st', Inr ca'))"
  using assms by (auto simp: admit_stage_def split: option.splits)

lemma admit_stage_same:
  assumes "quiet_core (gy_core gy) view" "admit_stage gy en st tool args fp token ca = (st', r)"
  shows "same_state view st st'"
  using assms(2) unfolding admit_stage_def
  by (auto elim!: and_thenE dest!: frontend_stage_same [OF assms(1)] split: option.splits)

text \<open>Where every stage passes, the Core is left as the invocation leaves it.\<close>

lemma call_tool_adapter:
  assumes "request_fingerprint (gy_sha gy) args = Inr fp"
    and "admit_stage gy en st tool args fp token ca = (st1, Inr (rt, ca1))"
    and "budget_stage en st1 tool args ca1 = (st2, Inr ())"
    and "confirm_stage gy en st2 rt tool args fp ca1 = (st3, dec, Inr granted)"
    and "prepare tool args (trusted_of ca1 fp granted) = Inr payload"
    and "invoke (gy_core gy) (gs_adapter st3) (bi_operation (rt_binding rt)) payload
      (Some (en_request_id en)) (Some (en_correlation_id en)) granted (en_now_context en) = (a, ri)"
  shows "gs_adapter (fst (call_tool gy en st tool args token ca)) = a"
proof -
  obtain st4 dec4 r4 where run: "run_tool gy en st tool args fp token ca = (st4, dec4, r4)"
    by (cases "run_tool gy en st tool args fp token ca")
  have "gs_adapter st4 = a"
  proof (cases ri)
    case (Inl e)
    then show ?thesis using run assms by (auto simp: run_tool_def)
  next
    case (Inr result)
    obtain st5 r5 where fin: "finish_stage gy en (st3\<lparr>gs_adapter := a\<rparr>) rt ca1 result = (st5, r5)"
      by (cases "finish_stage gy en (st3\<lparr>gs_adapter := a\<rparr>) rt ca1 result")
    then have "gs_adapter st5 = a" using finish_stage_same [OF fin] by simp
    then show ?thesis using run assms Inr fin by (auto simp: run_tool_def)
  qed
  then show ?thesis using assms(1) run by (auto simp: call_tool_def Let_def split: sum.splits)
qed

end
