(* ===== verification/Mcp_Gateway_Properties.thy ===== *)
theory Mcp_Gateway_Properties
  imports Mcp_Gateway_Facts
begin

section \<open>What the gateway guarantees\<close>

text \<open>
  The guarantees of one call of the gateway from end to end, of the bridge it passes the arguments
  through, and of the registry behind it, with a small gateway on which they are exercised.
\<close>

subsection \<open>The bridge\<close>

text \<open>A document without a forbidden key and without byte strings, at any depth.\<close>

fun permitted :: "pyval \<Rightarrow> bool" where
  "permitted (PDict d) = (\<forall>(k, v) \<in> set d. \<not> forbidden_key k \<and> permitted v)"
| "permitted (PList xs) = (\<forall>x \<in> set xs. permitted x)"
| "permitted (PBytes b) = False"
| "permitted v = True"

lemma traverse_iff: "(\<exists>ys. traverse f xs = Inr ys) \<longleftrightarrow> (\<forall>x \<in> set xs. \<exists>y. f x = Inr y)"
  by (induction xs) (auto simp: Let_def)

lemma reject_forbidden_iff: "reject_forbidden v = Inr () \<longleftrightarrow> permitted v"
proof (induction v)
  case (PDict d)
  have "(\<exists>y. (if forbidden_key k then
        Inl (tool_input_validation_error ''MCP arguments cannot contain secrets, prompts, or raw blobs.'' (Some k))
      else reject_forbidden v) = Inr y) \<longleftrightarrow> \<not> forbidden_key k \<and> permitted v" if "(k, v) \<in> set d" for k v
    using PDict that by (auto simp: prod_set_defs)
  then show ?case by (auto simp: traverse_iff split_beta)
next
  case (PList xs)
  then show ?case by (auto simp: traverse_iff)
qed simp_all

text \<open>The fields the bridge fills itself.\<close>

definition bridge_fields :: "string list" where
  "bridge_fields = [''purpose'', ''actor_id'', ''created_by'', ''approver_id'', ''captured_by'',
     ''confirmation_metadata'']"

lemma trusted_fields_known: "map_of trusted_actor_fields tool = Some f \<Longrightarrow>
    f \<in> set bridge_fields - {''purpose'', ''confirmation_metadata''} \<and> tool \<noteq> ''report.ai-draft.ingest'' \<and>
    tool \<noteq> ''apex.context.snapshot'' \<and> authenticated_human_tool tool"
proof -
  assume "map_of trusted_actor_fields tool = Some f"
  then have "(tool, f) \<in> set trusted_actor_fields" by (rule map_of_SomeD)
  then show ?thesis
    unfolding authenticated_human_tool_def
    by (auto simp: trusted_actor_fields_def bridge_fields_def)
qed

lemma prepared_actor:
  assumes "prepare tool args t = Inr payload" "map_of trusted_actor_fields tool = Some f"
  shows "\<exists>actor. tc_actor_id t = Some actor \<and> dget payload f = Some (PStr actor) \<and>
    is_authenticated_actor (Some actor)"
proof -
  note known = trusted_fields_known [OF assms(2)]
  have ok: "payload = trusted_payload tool args t" "is_authenticated_actor (Some (or_empty (tc_actor_id t)))"
    using assms(1) known unfolding prepare_def Let_def bind_res_eq_Inr by (auto split: if_splits)
  then obtain actor where a: "tc_actor_id t = Some actor"
    by (cases "tc_actor_id t") (simp_all add: or_empty_def is_authenticated_actor_def lower_def)
  have "f \<noteq> ''confirmation_metadata''" using known by blast
  then have "dget payload f = Some (PStr actor)"
    using assms(2) a known by (simp add: ok(1) trusted_payload_def Let_def dget_dset or_empty_def)
  with a ok(2) show ?thesis by (simp add: or_empty_def)
qed

text \<open>C23: Arguments that pass the bridge carry no forbidden key and no byte string at any depth, are
  at most 8 levels deep and at most 64 KiB of JSON.  The payload the Core gets differs from them only
  in the fields the bridge fills; where the tool has an actor field, it holds the server's own actor,
  who is authenticated and not a machine, whatever the caller had put there.\<close>

theorem bridge_payload:
  assumes "prepare tool args t = Inr payload"
  shows "permitted (PDict args) \<and> arg_depth (PDict payload) 0 \<le> 8 \<and>
    (\<exists>body. json_render '','' '':'' (sort_json (PDict payload)) = Inr body \<and> length body \<le> 65536) \<and>
    (\<forall>k. k \<notin> set bridge_fields \<longrightarrow> dget payload k = dget args k) \<and>
    (\<forall>f. map_of trusted_actor_fields tool = Some f \<longrightarrow>
       (\<exists>actor. tc_actor_id t = Some actor \<and> dget payload f = Some (PStr actor) \<and>
          is_authenticated_actor (Some actor)))"
proof -
  have ok: "permitted (PDict args)" "payload = trusted_payload tool args t"
    "validate_budget payload = Inr ()"
    using assms unfolding prepare_def Let_def bind_res_eq_Inr reject_forbidden_iff [symmetric]
    by (auto simp del: reject_forbidden.simps split: if_splits)
  have depth: "arg_depth (PDict payload) 0 \<le> 8"
    using ok(3) unfolding validate_budget_def max_argument_depth_def by (simp del: arg_depth.simps split: if_splits)
  have body: "\<exists>body. json_render '','' '':'' (sort_json (PDict payload)) = Inr body \<and> length body \<le> 65536"
    using ok(3) unfolding validate_budget_def max_argument_bytes_def
    by (auto simp del: arg_depth.simps json_render.simps sort_json.simps split: if_splits)
  have keep: "dget payload k = dget args k" if "k \<notin> set bridge_fields" for k
  proof (cases "map_of trusted_actor_fields tool")
    case None
    then show ?thesis using that
      by (simp add: ok(2) trusted_payload_def Let_def dget_dset bridge_fields_def)
  next
    case (Some f)
    then have "f \<in> set bridge_fields" using trusted_fields_known by blast
    then have "k \<noteq> f" using that by blast
    then show ?thesis using that Some
      by (simp add: ok(2) trusted_payload_def Let_def dget_dset bridge_fields_def)
  qed
  note actor = prepared_actor [OF assms]
  show ?thesis using ok(1) depth body keep actor by blast
qed

definition sample_trusted :: trusted_call where
  "sample_trusted = \<lparr>tc_actor_id = Some ''ana'', tc_session_id = Some ''s1'', tc_grant_id = None,
     tc_fingerprint = None\<rparr>"

lemma sample_prepare:
  "prepare ''report.create'' [(''created_by'', PStr ''eve''), (''case_id'', PStr ''c1'')] sample_trusted =
     Inr [(''created_by'', PStr ''ana''), (''case_id'', PStr ''c1'')]"
  by code_simp

lemma bridge_payload_witness:
  "prepare ''report.create'' [(''created_by'', PStr ''eve''), (''case_id'', PStr ''c1'')] sample_trusted =
     Inr [(''created_by'', PStr ''ana''), (''case_id'', PStr ''c1'')] \<and>
   arg_depth (PDict [(''created_by'', PStr ''ana''), (''case_id'', PStr ''c1'')]) 0 \<le> 8"
  using bridge_payload [OF sample_prepare] sample_prepare by blast

subsection \<open>The registry\<close>

definition registry_inv :: "registry \<Rightarrow> bool" where
  "registry_inv rg \<longleftrightarrow> (\<forall>n rt. rg_registered rg n = Some rt \<longrightarrow>
     n \<in> set (rg_allowed_tools rg) \<and> rg_descriptors rg n = Some (rt_descriptor rt) \<and>
     bi_tool_name (rt_binding rt) = n \<and> bi_operation (rt_binding rt) = n \<and>
     dget (bi_input_schema (rt_binding rt)) ''type'' = Some (PStr ''object'') \<and>
     require_capabilities (rg_capabilities rg) (rt_descriptor rt) = Inr ())"

lemma register_tool_ok:
  assumes "register_tool rg b = Inr rg'"
  shows "\<exists>d. rg_descriptors rg (bi_tool_name b) = Some d \<and> bi_tool_name b \<in> set (rg_allowed_tools rg) \<and>
    rg_registered rg (bi_tool_name b) = None \<and> bi_operation b = bi_tool_name b \<and>
    dget (bi_input_schema b) ''type'' = Some (PStr ''object'') \<and>
    require_capabilities (rg_capabilities rg) d = Inr () \<and>
    rg' = rg\<lparr>rg_registered := (rg_registered rg)(bi_tool_name b \<mapsto> \<lparr>rt_descriptor = d, rt_binding = b\<rparr>)\<rparr>"
  using assms unfolding register_tool_def Let_def
  by (auto split: if_splits option.splits)

lemma register_tool_inv: "registry_inv rg \<Longrightarrow> register_tool rg b = Inr rg' \<Longrightarrow>
    registry_inv rg' \<and> rg_registered rg \<subseteq>\<^sub>m rg_registered rg' \<and> rg_allowed_tools rg' = rg_allowed_tools rg"
proof -
  assume inv: "registry_inv rg" and "register_tool rg b = Inr rg'"
  then obtain d where d: "rg_descriptors rg (bi_tool_name b) = Some d"
    "bi_tool_name b \<in> set (rg_allowed_tools rg)" "rg_registered rg (bi_tool_name b) = None"
    "bi_operation b = bi_tool_name b" "dget (bi_input_schema b) ''type'' = Some (PStr ''object'')"
    "require_capabilities (rg_capabilities rg) d = Inr ()"
    "rg' = rg\<lparr>rg_registered := (rg_registered rg)(bi_tool_name b \<mapsto> \<lparr>rt_descriptor = d, rt_binding = b\<rparr>)\<rparr>"
    using register_tool_ok [of rg b rg'] by blast
  have "registry_inv rg'"
    unfolding registry_inv_def
  proof (intro allI impI)
    fix n rt assume n: "rg_registered rg' n = Some rt"
    show "n \<in> set (rg_allowed_tools rg') \<and> rg_descriptors rg' n = Some (rt_descriptor rt) \<and>
      bi_tool_name (rt_binding rt) = n \<and> bi_operation (rt_binding rt) = n \<and>
      dget (bi_input_schema (rt_binding rt)) ''type'' = Some (PStr ''object'') \<and>
      require_capabilities (rg_capabilities rg') (rt_descriptor rt) = Inr ()"
    proof (cases "n = bi_tool_name b")
      case True
      with n d(7) have "rt = \<lparr>rt_descriptor = d, rt_binding = b\<rparr>" by simp
      with True d show ?thesis by simp
    next
      case False
      with n d(7) have "rg_registered rg n = Some rt" by simp
      with inv have "n \<in> set (rg_allowed_tools rg) \<and> rg_descriptors rg n = Some (rt_descriptor rt) \<and>
        bi_tool_name (rt_binding rt) = n \<and> bi_operation (rt_binding rt) = n \<and>
        dget (bi_input_schema (rt_binding rt)) ''type'' = Some (PStr ''object'') \<and>
        require_capabilities (rg_capabilities rg) (rt_descriptor rt) = Inr ()"
        unfolding registry_inv_def by blast
      with d(7) show ?thesis by simp
    qed
  qed
  with d show ?thesis by (auto simp: map_le_def)
qed

text \<open>However bindings are registered, every registered tool is in the allowlist, is the tool of
  its descriptor and its binding, invokes the operation of its own name, takes an object as input and
  needs no capability the Core lacks; and a registration never replaces an earlier one.\<close>

lemma registry_sound:
  assumes "register_all rg bs = Inr rg'" "rg_registered rg = Map.empty"
  shows "registry_inv rg' \<and> (\<forall>b \<in> set bs. \<exists>d. rg_registered rg' (bi_tool_name b) =
      Some \<lparr>rt_descriptor = d, rt_binding = b\<rparr>)"
proof -
  have "registry_inv rg' \<and> rg_registered rg \<subseteq>\<^sub>m rg_registered rg' \<and>
      (\<forall>b \<in> set bs. \<exists>d. rg_registered rg' (bi_tool_name b) = Some \<lparr>rt_descriptor = d, rt_binding = b\<rparr>)"
    if "registry_inv rg" "register_all rg bs = Inr rg'" for rg
    using that
  proof (induction bs arbitrary: rg)
    case (Cons b bs)
    then obtain rg1 where rg1: "register_tool rg b = Inr rg1" "register_all rg1 bs = Inr rg'" by auto
    note inv = register_tool_inv [OF Cons.prems(1) rg1(1)]
    note ih = Cons.IH [OF conjunct1 [OF inv] rg1(2)]
    obtain d where "rg_registered rg1 (bi_tool_name b) = Some \<lparr>rt_descriptor = d, rt_binding = b\<rparr>"
      using register_tool_ok [OF rg1(1)] by auto
    then have "rg_registered rg' (bi_tool_name b) = Some \<lparr>rt_descriptor = d, rt_binding = b\<rparr>"
      using ih by (auto simp: map_le_def dom_def)
    with ih inv show ?case by (auto intro: map_le_trans)
  qed simp
  moreover have "registry_inv rg" using assms(2) by (simp add: registry_inv_def)
  ultimately show ?thesis using assms(1) by blast
qed


definition sample_catalog :: catalog where
  "sample_catalog = \<lparr>ct_schemas = (\<lambda>n. Some []), ct_check = (\<lambda>s. Inr ()),
     ct_first_error = (\<lambda>s v. None)\<rparr>"

definition sample_descriptor :: dict where
  "sample_descriptor = [(''tool_name'', PStr ''t''), (''mutates_state'', PBool True),
     (''requires_confirmation'', PBool True), (''max_result_items'', PInt 10)]"

definition sample_binding :: tool_binding where
  "sample_binding = \<lparr>bi_tool_name = ''t'', bi_operation = ''t'',
     bi_input_schema = [(''type'', PStr ''object'')], bi_output_schema_ref = None,
     bi_output_data_schema = None\<rparr>"

definition empty_registry :: registry where
  "empty_registry = \<lparr>rg_allowed_tools = [''t''], rg_descriptors = [''t'' \<mapsto> sample_descriptor],
     rg_catalog = sample_catalog, rg_capabilities = \<lparr>cap_available = [], cap_unavailable = []\<rparr>,
     rg_registered = Map.empty\<rparr>"

definition sample_registry :: registry where
  "sample_registry = empty_registry\<lparr>rg_registered :=
     [''t'' \<mapsto> \<lparr>rt_descriptor = sample_descriptor, rt_binding = sample_binding\<rparr>]\<rparr>"

lemma sample_capable: "require_capabilities \<lparr>cap_available = [], cap_unavailable = []\<rparr> sample_descriptor = Inr ()"
  by code_simp

lemma sample_register: "register_all empty_registry [sample_binding] = Inr sample_registry"
  using sample_capable
  by (simp add: register_tool_def Let_def empty_registry_def sample_registry_def sample_binding_def
      sample_catalog_def)

subsection \<open>Calls that change the Core\<close>

text \<open>What authorizes a call: its tool, arguments and capabilities; the session and the target cases
  of a token; the budget; and, where the tool needs one, a confirmation of this very call.\<close>

definition token_admits :: "('c, 's) gateway \<Rightarrow> ('c, 's) gateway_state \<Rightarrow> registered_tool \<Rightarrow> string \<Rightarrow>
    dict \<Rightarrow> access_token \<Rightarrow> caller \<Rightarrow> bool" where
  "token_admits gy st rt tool args t ca \<longleftrightarrow> (\<exists>provider session targets.
     gy_frontend gy = Some provider \<and> fp_resolve provider (gs_grants st) t = Inr session \<and>
     snd (target_case_ids (gy_core gy) (gs_adapter st) tool args) = Inr targets \<and>
     require_access session t (rt_descriptor rt) tool targets = Inr () \<and>
     ca_actor_id ca = Some (fs_actor_id session) \<and> ca_session_id ca = Some (fs_session_id session) \<and>
     ca_budget_scope ca = budget_scope (gy_sha gy) session)"

definition confirmed :: "('c, 's) gateway \<Rightarrow> call_env \<Rightarrow> ('c, 's) gateway_state \<Rightarrow> registered_tool \<Rightarrow>
    dict \<Rightarrow> string \<Rightarrow> caller \<Rightarrow> 's \<Rightarrow> bool" where
  "confirmed gy en st rt args fp ca grants' \<longleftrightarrow> (\<exists>q. ca_confirmation ca = Some q \<and>
     request_expected (py_str (dget_or (rt_descriptor rt) ''tool_name'' (PStr ''unknown'')))
       \<lparr>ge_actor_id = or_empty (ca_actor_id ca), ge_session_id = or_empty (ca_session_id ca),
        ge_fingerprint = fp, ge_case_id = case_argument args, ge_target_ids = target_ids args\<rparr> q \<and>
     gy_authorize gy (gs_grants st) q (en_now_grant en) = (True, grants') \<and>
     (ca_actor_id ca \<noteq> None \<longrightarrow> is_authenticated_actor (ca_actor_id ca)))"

definition core_call_justified :: "('c \<Rightarrow> 'v) \<Rightarrow> ('c, 's) gateway \<Rightarrow> call_env \<Rightarrow> ('c, 's) gateway_state \<Rightarrow> string \<Rightarrow>
    dict \<Rightarrow> string \<Rightarrow> access_token option \<Rightarrow> caller \<Rightarrow> ('c, 's) gateway_state \<Rightarrow> bool" where
  "core_call_justified view gy en st tool args fp token ca st' \<longleftrightarrow> (\<exists>rt ca' b granted payload d c.
     rg_registered (gy_registry gy) tool = Some rt \<and>
     validate_inline (rg_catalog (gy_registry gy)) (bi_input_schema (rt_binding rt)) (PDict args) = Inr () \<and>
     require_capabilities (rg_capabilities (gy_registry gy)) (rt_descriptor rt) = Inr () \<and>
     (case token of None \<Rightarrow> ca' = ca | Some t \<Rightarrow> token_admits gy st rt tool args t ca') \<and>
     begin_call (gs_budget st) (ca_budget_scope ca') tool args (en_clock_begin en) = (b, Inr ()) \<and>
     prepare tool args (trusted_of ca' fp granted) = Inr payload \<and>
     descriptor_of (gy_core gy) (gs_adapter st) (bi_operation (rt_binding rt)) = Inr d \<and>
     dflag d ''mutates_state'' \<and>
     (dflag d ''requires_confirmation'' \<longrightarrow> granted) \<and>
     (granted \<longrightarrow> confirmed gy en st rt args fp ca' (gs_grants st')) \<and>
     view c = view (ad_core (gs_adapter st)) \<and>
     ad_core (gs_adapter st') = fst (co_mutate (gy_core gy) c
       (bi_operation (rt_binding rt)) payload (Some (en_request_id en)) (Some (en_correlation_id en))))"

lemma adapter_mutate_core: "adapter_mutate co a tool payload rid cid = (a', r) \<Longrightarrow>
    ad_core a' = fst (co_mutate co (ad_core a) tool payload rid cid)"
  by (auto simp: adapter_mutate_def split: prod.splits)

lemma run_tool_core:
  assumes quiet: "quiet_core (gy_core gy) view"
    and run: "run_tool gy en st tool args fp token ca = (st', dec, r)"
    and change: "view (ad_core (gs_adapter st')) \<noteq> view (ad_core (gs_adapter st))"
  shows "core_call_justified view gy en st tool args fp token ca st'"
proof -
  obtain st1 r1 where admit: "admit_stage gy en st tool args fp token ca = (st1, r1)"
    by (cases "admit_stage gy en st tool args fp token ca")
  have st1: "same_view view (gs_adapter st) (gs_adapter st1)" "gs_budget st1 = gs_budget st"
      "gs_grants st1 = gs_grants st"
    using admit_stage_same [OF quiet admit] by (simp_all add: same_state_def)
  obtain rt ca' where r1: "r1 = Inr (rt, ca')"
    using run change admit st1 by (cases r1) (auto simp: run_tool_def same_view_def)
  note adm = admit_stage_ok [OF admit [unfolded r1]]
  obtain st2 r2 where budget: "budget_stage en st1 tool args ca' = (st2, r2)"
    by (cases "budget_stage en st1 tool args ca'")
  have st2: "gs_adapter st2 = gs_adapter st1" "gs_grants st2 = gs_grants st"
    using budget_stage_same [OF budget] st1(3) by simp_all
  have r2: "r2 = Inr ()"
    using run change admit st1 r1 budget st2 by (cases r2) (auto simp: run_tool_def same_view_def)
  obtain st3 dec3 r3 where confirm: "confirm_stage gy en st2 rt tool args fp ca' = (st3, dec3, r3)"
    by (cases "confirm_stage gy en st2 rt tool args fp ca'")
  have st3: "gs_adapter st3 = gs_adapter st1"
    using confirm st2(1) by (auto simp: confirm_stage_def split: sum.splits if_splits prod.splits)
  obtain granted where r3: "r3 = Inr granted"
    using run change admit st1 r1 budget r2 confirm st3
    by (cases r3) (auto simp: run_tool_def same_view_def)
  obtain payload where prep: "prepare tool args (trusted_of ca' fp granted) = Inr payload"
    using run change admit st1 r1 budget r2 confirm st3 r3
    by (cases "prepare tool args (trusted_of ca' fp granted)") (auto simp: run_tool_def same_view_def)
  obtain a ri where inv: "invoke (gy_core gy) (gs_adapter st1) (bi_operation (rt_binding rt)) payload
      (Some (en_request_id en)) (Some (en_correlation_id en)) granted (en_now_context en) = (a, ri)"
    by (cases "invoke (gy_core gy) (gs_adapter st1) (bi_operation (rt_binding rt)) payload
      (Some (en_request_id en)) (Some (en_correlation_id en)) granted (en_now_context en)")
  have end_state: "gs_adapter st' = a \<and> gs_grants st' = gs_grants st3"
  proof (cases ri)
    case (Inl e)
    then show ?thesis
      using run admit r1 budget r2 confirm r3 prep inv st3 by (auto simp: run_tool_def)
  next
    case (Inr result)
    obtain st5 r5 where fin: "finish_stage gy en (st3\<lparr>gs_adapter := a\<rparr>) rt ca' result = (st5, r5)"
      by (cases "finish_stage gy en (st3\<lparr>gs_adapter := a\<rparr>) rt ca' result")
    have "st' = st5"
      using run admit r1 budget r2 confirm r3 prep inv st3 Inr fin by (auto simp: run_tool_def)
    with finish_stage_same [OF fin] show ?thesis by simp
  qed
  have "view (ad_core a) \<noteq> view (ad_core (gs_adapter st1))"
    using end_state change st1(1) by (simp add: same_view_def)
  from quiet_core.invoke_changes [OF quiet inv this] obtain d a1 where
    a1: "same_view view (gs_adapter st1) a1"
    and d: "descriptor_of (gy_core gy) (gs_adapter st1) (bi_operation (rt_binding rt)) = Inr d"
      "dflag d ''mutates_state''" "dflag d ''requires_confirmation'' \<longrightarrow> granted"
      "adapter_mutate (gy_core gy) a1 (bi_operation (rt_binding rt)) payload
        (Some (en_request_id en)) (Some (en_correlation_id en)) = (a, ri)"
    by blast
  have core: "view (ad_core a1) = view (ad_core (gs_adapter st))"
    "ad_core (gs_adapter st') = fst (co_mutate (gy_core gy) (ad_core a1)
      (bi_operation (rt_binding rt)) payload (Some (en_request_id en)) (Some (en_correlation_id en)))"
    using st1(1) a1 adapter_mutate_core [OF d(4)] end_state by (simp_all add: same_view_def)
  have tok: "case token of None \<Rightarrow> ca' = ca | Some t \<Rightarrow> token_admits gy st rt tool args t ca'"
    using adm by (auto simp: token_admits_def split: option.splits dest!: frontend_stage_ok)
  have conf: "granted \<longrightarrow> confirmed gy en st rt args fp ca' (gs_grants st')"
    using confirm_stage_granted [OF confirm [unfolded r3]] end_state st2 unfolding confirmed_def by auto
  obtain b where bc: "begin_call (gs_budget st) (ca_budget_scope ca') tool args (en_clock_begin en) = (b, Inr ())"
    using budget r2 st1(2) by (auto simp: budget_stage_def split: prod.splits)
  show ?thesis
    unfolding core_call_justified_def
    using adm tok bc prep d(1) [unfolded descriptor_of_same [OF st1(1)]] d(2,3) conf core by blast
qed

lemma call_tool_core:
  assumes "quiet_core (gy_core gy) view"
    and "call_tool gy en st tool args token ca = (st', event, r)"
    and "view (ad_core (gs_adapter st')) \<noteq> view (ad_core (gs_adapter st))"
  shows "\<exists>fp. request_fingerprint (gy_sha gy) args = Inr fp \<and>
    core_call_justified view gy en st tool args fp token ca st'"
proof -
  obtain fp where fp: "request_fingerprint (gy_sha gy) args = Inr fp"
    using assms(2,3) by (auto simp: call_tool_def split: sum.splits)
  obtain st1 dec r1 where run: "run_tool gy en st tool args fp token ca = (st1, dec, r1)"
    by (cases "run_tool gy en st tool args fp token ca")
  have "st1 = st'"
    using assms(2) fp run by (auto simp: call_tool_def Let_def split: sum.splits prod.splits)
  then show ?thesis using fp run_tool_core [OF assms(1) run] assms(3) by simp
qed

text \<open>C17: If a call changes what \<open>view\<close> shows of the Core, then its tool is registered with valid
  arguments and available capabilities; where the call carries a token, the token resolved to a session
  whose cases, scopes and roles admit the call; the budget accepted it; the Core's own descriptor marks
  the tool as mutating; a confirmation, where that descriptor asks for one, was consumed for exactly
  this actor, session, case, tool, arguments and targets; and the change is the one mutation of that
  tool on the payload the bridge prepared.  A call without a token, which only the local transport
  makes, is asked for no session.  This rests on the Core's reads not changing what \<open>view\<close> shows.\<close>

theorem core_changes_are_justified:
  assumes "\<forall>c tool payload rid cid. view (fst (co_read (gy_core gy) c tool payload rid cid)) = view c"
    and "call_tool gy en st tool args token ca = (st', event, r)"
    and "view (ad_core (gs_adapter st')) \<noteq> view (ad_core (gs_adapter st))"
  shows "\<exists>fp. request_fingerprint (gy_sha gy) args = Inr fp \<and>
    core_call_justified view gy en st tool args fp token ca st'"
proof -
  have "quiet_core (gy_core gy) view"
    by unfold_locales (use assms(1) in \<open>metis fst_conv\<close>)
  then show ?thesis using assms(2,3) by (rule call_tool_core)
qed


definition sample_core :: "int core" where
  "sample_core = \<lparr>co_interface = [], co_tools = [sample_descriptor],
     co_read = (\<lambda>c tool payload rid cid. (c, Inr [(''status'', PStr ''OK'')])),
     co_mutate = (\<lambda>c tool payload rid cid. (c + 1, Inr [(''status'', PStr ''OK''), (''data'', PStr ''bearer abc'')])),
     co_iso = (\<lambda>s. None)\<rparr>"

definition sample_request :: "frontend_session \<Rightarrow> string \<Rightarrow> string \<Rightarrow> string \<Rightarrow> string list \<Rightarrow> confirmation_request" where
  "sample_request x c tool f ts = \<lparr>cr_grant_id = ''g'', cr_actor_id = fs_actor_id x,
     cr_session_id = fs_session_id x, cr_case_id = c, cr_tool_name = tool, cr_fingerprint = f,
     cr_target_ids = ts\<rparr>"

definition sample_gateway :: "(int, unit) gateway" where
  "sample_gateway = \<lparr>gy_registry = sample_registry, gy_core = sample_core, gy_authorize = (\<lambda>s q now. (True, s)),
     gy_frontend = Some \<lparr>fp_resolve = (\<lambda>s t. Inr sample_session),
       fp_confirmation_for = (\<lambda>s x c tool f ts now. Some (sample_request x c tool f ts))\<rparr>,
     gy_sha = id\<rparr>"

definition sample_state :: "(int, unit) gateway_state" where
  "sample_state = \<lparr>gs_adapter = \<lparr>ad_core = 0, ad_owns = False, ad_closed = False\<rparr>,
     gs_budget = new_budget, gs_grants = ()\<rparr>"

definition sample_env :: call_env where
  "sample_env = \<lparr>en_request_id = ''r1'', en_correlation_id = ''k1'', en_clock_begin = 0, en_clock_accept = 0,
     en_duration_ms = 0, en_now_grant = 0, en_now_context = 0\<rparr>"

definition sample_caller :: caller where
  "sample_caller = \<lparr>ca_actor_id = None, ca_session_id = None, ca_budget_scope = ''direct'',
     ca_confirmation = None\<rparr>"

definition confirming_token :: access_token where
  "confirming_token = sample_token\<lparr>at_scopes := [''apex:mcp'', ''apex:read'', ''apex:write'', ''apex:confirm'']\<rparr>"

definition sample_arguments :: dict where
  "sample_arguments = [(''case_id'', PStr ''c1'')]"

definition sample_print :: string where
  "sample_print = (case request_fingerprint id sample_arguments of Inr f \<Rightarrow> f | Inl e \<Rightarrow> [])"

definition admitted_caller :: caller where
  "admitted_caller = \<lparr>ca_actor_id = Some ''ana'', ca_session_id = Some ''s1'',
     ca_budget_scope = budget_scope id sample_session,
     ca_confirmation = Some (sample_request sample_session ''c1'' ''t'' sample_print [])\<rparr>"

lemma sample_evaluations:
  "request_fingerprint id sample_arguments = Inr sample_print"
  "require_access sample_session confirming_token sample_descriptor ''t'' [''c1''] = Inr ()"
  "case_argument sample_arguments = ''c1''" "target_ids sample_arguments = []"
  "is_authenticated_actor (Some ''ana'')"
  "prepare ''t'' sample_arguments (trusted_of admitted_caller sample_print True) = Inr sample_arguments"
  by code_simp+

lemma sample_budget: "\<exists>b. begin_call new_budget (budget_scope id sample_session) ''t'' sample_arguments 0 = (b, Inr ())"
  by (rule exI [of _ "fst (begin_call new_budget (budget_scope id sample_session) ''t'' sample_arguments 0)"])
    (simp add: prod_eq_iff, code_simp)

text \<open>A call under a token, with a confirmation, that changes the Core.\<close>

lemma sample_call: "gs_adapter (fst (call_tool sample_gateway sample_env sample_state ''t'' sample_arguments
    (Some confirming_token) sample_caller)) = \<lparr>ad_core = 1, ad_owns = False, ad_closed = False\<rparr>"
proof -
  let ?rt = "\<lparr>rt_descriptor = sample_descriptor, rt_binding = sample_binding\<rparr>"
  have needs: "dget sample_descriptor ''requires_confirmation'' = Some (PBool True)"
    "dget sample_descriptor ''mutates_state'' = Some (PBool True)"
    "dget sample_descriptor ''tool_name'' = Some (PStr ''t'')"
    by (simp_all add: sample_descriptor_def)
  have targets: "target_case_ids sample_core \<lparr>ad_core = 0, ad_owns = False, ad_closed = False\<rparr> ''t'' sample_arguments =
      (\<lparr>ad_core = 0, ad_owns = False, ad_closed = False\<rparr>, Inr [''c1''])"
    by (simp add: target_case_ids_def sample_arguments_def ensure_open_def)
  have admit: "admit_stage sample_gateway sample_env sample_state ''t'' sample_arguments sample_print
      (Some confirming_token) sample_caller = (sample_state, Inr (?rt, admitted_caller))"
    using sample_capable sample_evaluations(2-4) targets needs
    by (simp add: admit_stage_def frontend_stage_def sample_gateway_def sample_state_def sample_registry_def
        empty_registry_def sample_catalog_def validate_inline_def validate_with_def
        require_frontend_context_def context_tools_def dict_key_def admitted_caller_def sample_session_def)
  obtain b where b: "begin_call new_budget (budget_scope id sample_session) ''t'' sample_arguments 0 = (b, Inr ())"
    using sample_budget by blast
  have budget: "budget_stage sample_env sample_state ''t'' sample_arguments admitted_caller =
      (sample_state\<lparr>gs_budget := b\<rparr>, Inr ())"
    using b by (simp add: budget_stage_def sample_state_def sample_env_def admitted_caller_def)
  have confirm: "\<exists>dec. confirm_stage sample_gateway sample_env (sample_state\<lparr>gs_budget := b\<rparr>) ?rt ''t''
      sample_arguments sample_print admitted_caller = (sample_state\<lparr>gs_budget := b\<rparr>, dec, Inr True)"
    using needs sample_evaluations(3-5)
    by (simp add: confirm_stage_def gate_require_def request_expected_def sample_request_def dict_key_def
        dflag_def dget_or_def admitted_caller_def sample_session_def sample_gateway_def or_empty_def)
  have run: "\<exists>ri. invoke (gy_core sample_gateway) (gs_adapter (sample_state\<lparr>gs_budget := b\<rparr>))
      (bi_operation (rt_binding ?rt)) sample_arguments (Some (en_request_id sample_env))
      (Some (en_correlation_id sample_env)) True (en_now_context sample_env) =
      (\<lparr>ad_core = 1, ad_owns = False, ad_closed = False\<rparr>, ri)"
    using needs
    by (simp add: invoke_def sample_gateway_def sample_core_def sample_state_def sample_binding_def
        descriptor_of_def list_tool_descriptors_def ensure_open_def dict_key_def check_context_def
        context_tools_def adapter_mutate_def)
  from confirm run show ?thesis
    using call_tool_adapter [OF _ admit budget _ sample_evaluations(6)] sample_evaluations(1)
    by (auto simp: sample_gateway_def)
qed

lemma core_changes_are_justified_witness:
  "\<exists>fp rt ca' grants'. core_call_justified id sample_gateway sample_env sample_state ''t'' sample_arguments fp
     (Some confirming_token) sample_caller
     (fst (call_tool sample_gateway sample_env sample_state ''t'' sample_arguments (Some confirming_token) sample_caller)) \<and>
   token_admits sample_gateway sample_state rt ''t'' sample_arguments confirming_token ca' \<and>
   confirmed sample_gateway sample_env sample_state rt sample_arguments fp ca' grants'"
proof -
  have quiet: "\<forall>c tool payload rid cid. id (fst (co_read (gy_core sample_gateway) c tool payload rid cid)) = id c"
    by (simp add: sample_gateway_def sample_core_def)
  obtain st' event r where call: "call_tool sample_gateway sample_env sample_state ''t'' sample_arguments
      (Some confirming_token) sample_caller = (st', event, r)"
    by (cases "call_tool sample_gateway sample_env sample_state ''t'' sample_arguments (Some confirming_token) sample_caller")
  have "id (ad_core (gs_adapter st')) \<noteq> id (ad_core (gs_adapter sample_state))"
    using sample_call call by (simp add: sample_state_def)
  from core_changes_are_justified [OF quiet call this] obtain fp where
    fp: "core_call_justified id sample_gateway sample_env sample_state ''t'' sample_arguments fp
      (Some confirming_token) sample_caller st'" by blast
  moreover have "dflag d ''requires_confirmation''"
    if "descriptor_of (gy_core sample_gateway) (gs_adapter sample_state) n = Inr d" for n d
    using that by (auto simp: descriptor_of_def list_tool_descriptors_def sample_gateway_def sample_core_def
        ensure_open_def dict_key_def sample_descriptor_def dflag_def dget_or_def split: if_splits)
  ultimately show ?thesis unfolding call fst_conv core_call_justified_def by fastforce
qed


subsection \<open>Tenancy\<close>

text \<open>C19: A call under a token that names a case outside the session's cases changes nothing at all:
  no Core operation runs, read or write, no budget and no confirmation is spent, and the answer, if
  there is one, is an error.\<close>

theorem foreign_case_has_no_effect:
  assumes "gy_frontend gy = Some provider" "fp_resolve provider (gs_grants st) t = Inr session"
    and "dget args ''case_id'' = Some (PStr c)" "c \<noteq> []" "c \<notin> set (fs_allowed_case_ids session)"
    and "call_tool gy en st tool args (Some t) ca = (st', event, r)"
  shows "st' = st \<and> (\<forall>x. r = Inr x \<longrightarrow> tr_is_error x)"
proof -
  have targets: "target_case_ids (gy_core gy) (gs_adapter st) tool args =
      (gs_adapter st, bind_res (ensure_open (gs_adapter st)) (\<lambda>_. Inr [c]))"
    using assms(3,4) by (cases c) (auto simp: target_case_ids_def ensure_open_def)
  have deny: "require_access session t d tool [c] = Inl (mcp_tenant_scope_violation_error tool)" for d
    using assms(5) by (simp add: require_access_def Let_def)
  have front: "\<exists>e. frontend_stage gy en st rt tool args fp t ca = (st, Inl e)" for rt fp
    using targets deny
    by (auto simp: frontend_stage_def assms(1,2) ensure_open_def split: if_splits)
  have admit: "\<exists>e. admit_stage gy en st tool args fp (Some t) ca = (st, Inl e)" for fp
  proof (cases "rg_registered (gy_registry gy) tool")
    case None
    then show ?thesis by (simp add: admit_stage_def)
  next
    case (Some rt)
    obtain e where e: "frontend_stage gy en st rt tool args fp t ca = (st, Inl e)" using front by blast
    show ?thesis
      by (cases "validate_inline (rg_catalog (gy_registry gy)) (bi_input_schema (rt_binding rt)) (PDict args)";
          cases "require_capabilities (rg_capabilities (gy_registry gy)) (rt_descriptor rt)")
        (simp_all add: admit_stage_def Some e)
  qed
  show ?thesis
  proof (cases "request_fingerprint (gy_sha gy) args")
    case (Inl e)
    with assms(6) show ?thesis by (auto simp: call_tool_def)
  next
    case (Inr fp)
    obtain e where "run_tool gy en st tool args fp (Some t) ca = (st, (None, None, None), Inl e)"
      using admit [of fp] by (auto simp: run_tool_def)
    with assms(6) Inr show ?thesis
      by (auto simp: call_tool_def Let_def tool_result_of_def split: sum.splits)
  qed
qed

lemma foreign_case_has_no_effect_witness:
  "fst (call_tool sample_gateway sample_env sample_state ''t'' [(''case_id'', PStr ''c9'')]
     (Some sample_token) sample_caller) = sample_state"
proof -
  obtain st' event r where call: "call_tool sample_gateway sample_env sample_state ''t''
      [(''case_id'', PStr ''c9'')] (Some sample_token) sample_caller = (st', event, r)"
    by (cases "call_tool sample_gateway sample_env sample_state ''t'' [(''case_id'', PStr ''c9'')]
      (Some sample_token) sample_caller")
  have "st' = sample_state"
    using foreign_case_has_no_effect [OF _ _ _ _ _ call] 
    by (simp add: sample_gateway_def sample_session_def)
  with call show ?thesis by simp
qed

subsection \<open>Answers\<close>

lemma json_default_no_bytes: "no_bytes (json_default v)"
  by (induction v) (auto simp: prod_set_defs)

lemma map_exception_status: "dget (map_exception e rid cid) ''status'' = Some (PStr ''ERROR'')"
proof -
  have k: "\<not> sensitive_key ''schema_version''" "\<not> sensitive_key ''interface_version''"
    "\<not> sensitive_key ''request_id''" "\<not> sensitive_key ''correlation_id''" "\<not> sensitive_key ''status''"
    by code_simp+
  have "redact_text ''ERROR'' = ''ERROR''" by code_simp
  with k show ?thesis by (simp add: map_exception_def redact_dict_def)
qed

lemma run_tool_redacts:
  assumes "run_tool gy en st tool args fp token ca = (st', dec, Inr (res, code))"
  shows "\<exists>d. res = redact_dict d"
proof -
  obtain st1 rt ca1 where 1: "admit_stage gy en st tool args fp token ca = (st1, Inr (rt, ca1))"
    using assms by (auto simp: run_tool_def split: prod.splits sum.splits)
  obtain st2 where 2: "budget_stage en st1 tool args ca1 = (st2, Inr ())"
    using assms 1 by (auto simp: run_tool_def split: prod.splits sum.splits)
  obtain st3 dec3 granted where 3: "confirm_stage gy en st2 rt tool args fp ca1 = (st3, dec3, Inr granted)"
    using assms 1 2 by (auto simp: run_tool_def split: prod.splits sum.splits)
  obtain payload where 4: "prepare tool args (trusted_of ca1 fp granted) = Inr payload"
    using assms 1 2 3 by (auto simp: run_tool_def split: prod.splits sum.splits)
  obtain a result where 5: "invoke (gy_core gy) (gs_adapter st3) (bi_operation (rt_binding rt)) payload
      (Some (en_request_id en)) (Some (en_correlation_id en)) granted (en_now_context en) = (a, Inr result)"
    using assms 1 2 3 4 by (auto simp: run_tool_def split: prod.splits sum.splits)
  have "finish_stage gy en (st3\<lparr>gs_adapter := a\<rparr>) rt ca1 result = (st', Inr (res, code))"
    using assms 1 2 3 4 5 by (auto simp: run_tool_def split: prod.splits)
  then show ?thesis using finish_stage_result by blast
qed

lemma tool_result_safe:
  "\<exists>x. tool_result_of (redact_dict d) b = Inr x \<and> tr_structured x = redact_dict d \<and> tr_is_error x = b \<and>
     safe_value (PDict (redact_dict d))"
proof -
  have safe: "safe_value (PDict (redact_dict d))" unfolding redact_dict_eq by (rule redact_safe)
  then obtain t where "json_render '', '' '': '' (sort_json (PDict (redact_dict d))) = Inr t"
    using render_ok [OF no_bytes_sort [OF safe_no_bytes]] by blast
  with safe show ?thesis
    by (simp add: tool_result_of_def del: sort_json.simps json_render.simps safe_value.simps)
qed


end
