(* ===== verification/Auth.thy ===== *)
theory Auth
  imports Mcp_Frontend
begin

section \<open>Login, refresh and token verification\<close>

text \<open>
  \<open>apex_backend/auth/service.py\<close>, \<open>jwt_utils.py\<close>, \<open>jwt_verifier.py\<close> and
  \<open>confirmation_router.py\<close> over the tables of \<open>apex_backend/models.py\<close>.  JWT encoding and decoding
  (python-jose), password hashing (passlib) and the reading of a JWK (cryptography) are arguments.
  An operation returns the tables it leaves.  Fresh identifiers and the readings of the clock, in
  microseconds, are the fields of \<open>auth_env\<close>.
\<close>

subsection \<open>Tables\<close>

record user =
  ur_id :: string
  ur_email :: string
  ur_hashed_password :: string
  ur_tenant_id :: string
  ur_is_active :: bool

record case_tenancy =
  cy_actor_id :: string
  cy_case_id :: string
  cy_role :: string

record user_session =
  us_actor_id :: string
  us_tenant_id :: string
  us_created_at :: datetime
  us_expires_at :: datetime
  us_revoked_at :: "datetime option"
  us_refresh_jti :: "string option"

record auth_db =
  db_users :: "user list"
  db_tenancies :: "case_tenancy list"
  db_sessions :: "string \<Rightarrow> user_session option"
  db_confirmations :: grant_table

definition session_active :: "user_session \<Rightarrow> bool" where
  "session_active s \<longleftrightarrow> us_revoked_at s = None"

definition put_session :: "string \<Rightarrow> user_session \<Rightarrow> auth_db \<Rightarrow> auth_db" where
  "put_session sid s db = db\<lparr>db_sessions := (db_sessions db)(sid \<mapsto> s)\<rparr>"

definition one_or_none :: "'a list \<Rightarrow> 'a option res" where
  "one_or_none xs = (case xs of
     [] \<Rightarrow> Inr None | [x] \<Rightarrow> Inr (Some x) | _ \<Rightarrow> Inl (PyExn ''MultipleResultsFound''))"

definition fetch_user :: "auth_db \<Rightarrow> string \<Rightarrow> string \<Rightarrow> user option res" where
  "fetch_user db email tenant_id =
     one_or_none (filter (\<lambda>u. ur_email u = email \<and> ur_tenant_id u = tenant_id) (db_users db))"

definition user_by_id :: "auth_db \<Rightarrow> string \<Rightarrow> user option res" where
  "user_by_id db i = one_or_none (filter (\<lambda>u. ur_id u = i) (db_users db))"

definition tenancies_of :: "auth_db \<Rightarrow> string \<Rightarrow> case_tenancy list" where
  "tenancies_of db actor_id = filter (\<lambda>c. cy_actor_id c = actor_id) (db_tenancies db)"

subsection \<open>Tokens\<close>

datatype jwt_failure = Jwt_Error string | Conversion_Error

record jose =
  jo_encode :: "string \<Rightarrow> string \<Rightarrow> dict \<Rightarrow> string"
  jo_decode :: "string \<Rightarrow> string \<Rightarrow> string \<Rightarrow> string \<Rightarrow> int \<Rightarrow> jwt_failure + dict"
  jo_header :: "string \<Rightarrow> pyval option"

record jwt_config =
  jc_issuer :: string
  jc_audience :: string
  jc_access_ttl :: int
  jc_refresh_ttl :: int

definition numeric_date :: "int \<Rightarrow> pyval" where
  "numeric_date us = PInt (us div 1000000)"

definition texts :: "string list \<Rightarrow> pyval" where
  "texts xs = PList (List.map PStr xs)"

definition access_claims :: "jwt_config \<Rightarrow> string \<Rightarrow> string \<Rightarrow> string \<Rightarrow> string list \<Rightarrow> string list \<Rightarrow>
    string list \<Rightarrow> dict option \<Rightarrow> string \<Rightarrow> int \<Rightarrow> dict" where
  "access_claims cfg actor_id session_id tenant_id allowed_case_ids roles scopes case_roles jti now =
     [(''iss'', PStr (jc_issuer cfg)), (''aud'', PStr (jc_audience cfg)), (''sub'', PStr actor_id),
      (''jti'', PStr jti), (''iat'', numeric_date now),
      (''exp'', numeric_date (now + jc_access_ttl cfg * 1000000)),
      (''session_id'', PStr session_id), (''tenant_id'', PStr tenant_id),
      (''allowed_case_ids'', texts allowed_case_ids), (''roles'', texts roles),
      (''scopes'', texts scopes), (''token_type'', PStr ''access'')] @
     (case case_roles of None \<Rightarrow> [] | Some d \<Rightarrow> [(''case_roles'', PDict d)])"

definition refresh_claims :: "jwt_config \<Rightarrow> string \<Rightarrow> string \<Rightarrow> string \<Rightarrow> int \<Rightarrow> dict" where
  "refresh_claims cfg actor_id session_id jti now =
     [(''iss'', PStr (jc_issuer cfg)), (''aud'', PStr (jc_audience cfg)), (''sub'', PStr actor_id),
      (''jti'', PStr jti), (''iat'', numeric_date now),
      (''exp'', numeric_date (now + jc_refresh_ttl cfg * 1000000)),
      (''session_id'', PStr session_id), (''token_type'', PStr ''refresh'')]"

definition nonblank_text :: "pyval option \<Rightarrow> bool" where
  "nonblank_text v = (case v of Some (PStr s) \<Rightarrow> strip s \<noteq> [] | _ \<Rightarrow> False)"

definition text_list :: "pyval option \<Rightarrow> bool" where
  "text_list v = (case v of Some (PList xs) \<Rightarrow> list_all (\<lambda>x. nonblank_text (Some x)) xs | _ \<Rightarrow> False)"

definition is_plain_int :: "pyval option \<Rightarrow> bool" where
  "is_plain_int v = (case v of Some (PInt n) \<Rightarrow> True | _ \<Rightarrow> False)"

definition first_bad :: "('a \<Rightarrow> bool) \<Rightarrow> 'a list \<Rightarrow> 'a option" where
  "first_bad ok xs = find (\<lambda>x. \<not> ok x) xs"

definition bad_claim :: "string \<Rightarrow> string" where
  "bad_claim field = ''Invalid '' @ field @ '' claim.''"

definition validate_token_claims :: "dict \<Rightarrow> string \<Rightarrow> string + unit" where
  "validate_token_claims claims token_type =
     (if dget claims ''token_type'' \<noteq> Some (PStr token_type) then Inl ''Unexpected token type.''
      else (case first_bad (\<lambda>f. nonblank_text (dget claims f)) [''sub'', ''session_id'', ''jti''] of
        Some f \<Rightarrow> Inl (bad_claim f)
      | None \<Rightarrow> (case first_bad (\<lambda>f. is_plain_int (dget claims f)) [''iat'', ''exp''] of
          Some f \<Rightarrow> Inl (bad_claim f)
        | None \<Rightarrow>
            if token_type \<noteq> ''access'' then Inr ()
            else if \<not> nonblank_text (dget claims ''tenant_id'') then Inl (bad_claim ''tenant_id'')
            else (case first_bad (\<lambda>f. text_list (dget claims f)) [''scopes'', ''roles'', ''allowed_case_ids''] of
                Some f \<Rightarrow> Inl (bad_claim f)
              | None \<Rightarrow> (case dget claims ''case_roles'' of
                  None \<Rightarrow> Inr ()
                | Some (PDict d) \<Rightarrow>
                    if list_all (\<lambda>(c, r). strip c \<noteq> [] \<and> nonblank_text (Some r)) d then Inr ()
                    else Inl (bad_claim ''case_roles'')
                | Some _ \<Rightarrow> Inl (bad_claim ''case_roles''))))))"

definition decode_refresh_token ::
  "jose \<Rightarrow> jwt_config \<Rightarrow> string \<Rightarrow> string \<Rightarrow> int \<Rightarrow> string + dict" where
  "decode_refresh_token jo cfg pem token now =
     (case jo_decode jo token pem (jc_audience cfg) (jc_issuer cfg) now of
        Inl (Jwt_Error m) \<Rightarrow> Inl m
      | Inl Conversion_Error \<Rightarrow> Inl ''Invalid refresh token claims.''
      | Inr claims \<Rightarrow> (case validate_token_claims claims ''refresh'' of
            Inl m \<Rightarrow> Inl m | Inr _ \<Rightarrow> Inr claims))"

subsection \<open>The service\<close>

record auth_service =
  as_private_key :: string
  as_public_key :: string
  as_kid :: string
  as_jose :: jose
  as_config :: jwt_config
  as_verify :: "string \<Rightarrow> string \<Rightarrow> bool"

record auth_env =
  ev_session_id :: string
  ev_refresh_jti :: string
  ev_access_jti :: string
  ev_now_decode :: int
  ev_now_created :: int
  ev_now_expiry :: int
  ev_now_access :: int
  ev_now_refresh :: int

definition role_map :: "case_tenancy list \<Rightarrow> dict" where
  "role_map ts = fold (\<lambda>t d. dset (cy_case_id t) (PStr (cy_role t)) d) ts []"

definition issue_tokens :: "auth_service \<Rightarrow> auth_env \<Rightarrow> string \<Rightarrow> string \<Rightarrow> string \<Rightarrow> case_tenancy list \<Rightarrow>
    string \<Rightarrow> string \<times> string" where
  "issue_tokens sv en actor_id session_id tenant_id tenancies jti =
     (let roles = remdups (List.map cy_role tenancies);
          access = access_claims (as_config sv) actor_id session_id tenant_id
            (List.map cy_case_id tenancies) roles (sort (scopes_for_roles roles))
            (Some (role_map tenancies)) (ev_access_jti en) (ev_now_access en);
          refresh = refresh_claims (as_config sv) actor_id session_id jti (ev_now_refresh en)
      in (jo_encode (as_jose sv) (as_private_key sv) (as_kid sv) access,
          jo_encode (as_jose sv) (as_private_key sv) (as_kid sv) refresh))"

definition login :: "auth_service \<Rightarrow> auth_env \<Rightarrow> auth_db \<Rightarrow> string \<Rightarrow> string \<Rightarrow> string \<Rightarrow>
    auth_db \<times> (string \<times> string) res" where
  "login sv en db email password tenant_id =
     (case fetch_user db email tenant_id of
        Inl e \<Rightarrow> (db, Inl e)
      | Inr None \<Rightarrow> (db, Inl (AuthExn ''Invalid credentials.''))
      | Inr (Some u) \<Rightarrow>
          if \<not> as_verify sv password (ur_hashed_password u) then
            (db, Inl (AuthExn ''Invalid credentials.''))
          else if \<not> ur_is_active u then (db, Inl (AuthExn ''Account inactive.''))
          else if db_sessions db (ev_session_id en) \<noteq> None then (db, Inl (PyExn ''IntegrityError''))
          else
            (put_session (ev_session_id en)
               \<lparr>us_actor_id = ur_id u, us_tenant_id = tenant_id, us_created_at = Aware (ev_now_created en),
                us_expires_at = Aware (ev_now_expiry en + jc_refresh_ttl (as_config sv) * 1000000),
                us_revoked_at = None, us_refresh_jti = Some (ev_refresh_jti en)\<rparr> db,
             Inr (issue_tokens sv en (ur_id u) (ev_session_id en) tenant_id (tenancies_of db (ur_id u))
               (ev_refresh_jti en))))"

text \<open>The atomic rotation, and what follows when it changes no row.\<close>

definition rotate :: "string \<Rightarrow> string \<Rightarrow> string \<Rightarrow> auth_db \<Rightarrow> bool \<times> auth_db" where
  "rotate sid old new db =
     (case db_sessions db sid of
        None \<Rightarrow> (False, db)
      | Some s \<Rightarrow>
          if us_refresh_jti s = Some old \<and> us_revoked_at s = None then
            (True, put_session sid (s\<lparr>us_refresh_jti := Some new\<rparr>) db)
          else (False, db))"

definition refuse_rotation :: "string \<Rightarrow> int \<Rightarrow> auth_db \<Rightarrow> auth_db \<times> string" where
  "refuse_rotation sid now db =
     (case db_sessions db sid of
        None \<Rightarrow> (db, ''Session revoked or not found.'')
      | Some s \<Rightarrow>
          if \<not> session_active s then (db, ''Session revoked or not found.'')
          else if us_refresh_jti s = None then (db, ''Session requires re-login after server upgrade.'')
          else (put_session sid (s\<lparr>us_revoked_at := Some (Aware now)\<rparr>) db,
                ''Refresh token reuse detected. Session revoked.''))"

text \<open>The checks after a rotation; they end in the session to issue tokens for.\<close>

definition check_session :: "auth_db \<Rightarrow> string \<Rightarrow> string \<Rightarrow> int \<Rightarrow> user_session res" where
  "check_session db sid actor_id now =
     (case db_sessions db sid of
        None \<Rightarrow> Inl (AuthExn ''Session not found after rotation.'')
      | Some s \<Rightarrow>
          if instant (us_expires_at s) \<le> now then Inl (AuthExn ''Session expired.'')
          else if us_actor_id s \<noteq> actor_id then Inl (AuthExn ''Session actor mismatch.'')
          else bind_res (user_by_id db actor_id) (\<lambda>u. (case u of
              None \<Rightarrow> Inl (AuthExn ''Account inactive or deleted.'')
            | Some u \<Rightarrow>
                if \<not> ur_is_active u then Inl (AuthExn ''Account inactive or deleted.'')
                else if ur_tenant_id u \<noteq> us_tenant_id s then
                  Inl (AuthExn ''Tenant mismatch between user and session.'')
                else Inr s)))"

definition text_claim :: "dict \<Rightarrow> string \<Rightarrow> string" where
  "text_claim claims f = (case dget claims f of Some (PStr s) \<Rightarrow> s | _ \<Rightarrow> '''')"

definition refresh :: "auth_service \<Rightarrow> auth_env \<Rightarrow> auth_db \<Rightarrow> string \<Rightarrow> auth_db \<times> (string \<times> string) res" where
  "refresh sv en db token =
     (case decode_refresh_token (as_jose sv) (as_config sv) (as_public_key sv) token (ev_now_decode en) of
        Inl m \<Rightarrow> (db, Inl (AuthExn (''Invalid refresh token: '' @ m)))
      | Inr claims \<Rightarrow>
          let sid = text_claim claims ''session_id''; actor_id = text_claim claims ''sub'' in
          (case rotate sid (text_claim claims ''jti'') (ev_refresh_jti en) db of
             (False, db') \<Rightarrow> (case refuse_rotation sid (ev_now_created en) db' of
                (db'', m) \<Rightarrow> (db'', Inl (AuthExn m)))
           | (True, db') \<Rightarrow> (db', map_res (\<lambda>s.
               issue_tokens sv en actor_id sid (us_tenant_id s) (tenancies_of db' actor_id)
                 (ev_refresh_jti en)) (check_session db' sid actor_id (ev_now_expiry en)))))"

definition revoke :: "int \<Rightarrow> user_session \<Rightarrow> user_session" where
  "revoke now s = (if session_active s then s\<lparr>us_revoked_at := Some (Aware now)\<rparr> else s)"

definition deactivate_user :: "string \<Rightarrow> int \<Rightarrow> auth_db \<Rightarrow> auth_db" where
  "deactivate_user actor_id now db =
     db\<lparr>db_sessions := (\<lambda>sid. map_option (\<lambda>s. if us_actor_id s = actor_id then revoke now s else s)
          (db_sessions db sid)),
        db_users := List.map (\<lambda>u. if ur_id u = actor_id then u\<lparr>ur_is_active := False\<rparr> else u) (db_users db)\<rparr>"

definition logout :: "string \<Rightarrow> int \<Rightarrow> auth_db \<Rightarrow> auth_db" where
  "logout sid now db =
     (case db_sessions db sid of
        None \<Rightarrow> db
      | Some s \<Rightarrow> if session_active s then put_session sid (revoke now s) db else db)"

subsection \<open>Verification\<close>

definition kid_max_len :: nat where
  "kid_max_len = 128"

definition unknown_kid_cooldown :: rat where
  "unknown_kid_cooldown = 10"

record jwt_verifier =
  jv_cache_ttl :: rat
  jv_keys :: "(string \<times> string) list"
  jv_fetched_at :: rat
  jv_unknown_kid_fetched_at :: rat

text \<open>What one fetch gets: the decoded body unless it fails, and the clock afterwards.\<close>

record jwks_source =
  jk_body :: "pyval option"
  jk_pem :: "dict \<Rightarrow> string option"
  jk_clock :: rat

definition add_jwk :: "(dict \<Rightarrow> string option) \<Rightarrow> pyval \<Rightarrow> (string \<times> string) list \<Rightarrow> (string \<times> string) list" where
  "add_jwk pem jwk keys =
     (case jwk of
        PDict d \<Rightarrow> (case dget d ''kid'' of
            Some (PStr kid) \<Rightarrow>
              if kid = [] \<or> kid_max_len < length (code_points kid) then keys
              else (case pem d of None \<Rightarrow> keys | Some p \<Rightarrow> AList.update kid p keys)
          | _ \<Rightarrow> keys)
      | _ \<Rightarrow> keys)"

definition fetch_jwks :: "jwks_source \<Rightarrow> jwt_verifier \<Rightarrow> jwt_verifier" where
  "fetch_jwks src v =
     (case jk_body src of
        Some (PDict d) \<Rightarrow> (case dget d ''keys'' of
            Some (PList ks) \<Rightarrow>
              v\<lparr>jv_keys := fold (add_jwk (jk_pem src)) ks [], jv_fetched_at := jk_clock src\<rparr>
          | _ \<Rightarrow> v)
      | _ \<Rightarrow> v)"

definition resolve_key :: "jwks_source \<Rightarrow> jwt_verifier \<Rightarrow> string option \<Rightarrow> rat \<Rightarrow> jwt_verifier \<times> string option"
  where
  "resolve_key src v kid now =
     (let stale = jv_cache_ttl v < now - jv_fetched_at v;
          unknown = (case kid of None \<Rightarrow> False | Some k \<Rightarrow> map_of (jv_keys v) k = None);
          elapsed = unknown_kid_cooldown < now - jv_unknown_kid_fetched_at v;
          v' = (if stale \<or> unknown \<and> elapsed then
                  (let w = fetch_jwks src v in if unknown then w\<lparr>jv_unknown_kid_fetched_at := now\<rparr> else w)
                else v)
      in (v', case kid of
           Some k \<Rightarrow> map_of (jv_keys v') k
         | None \<Rightarrow> (case jv_keys v' of [] \<Rightarrow> None | (k, p) # ks \<Rightarrow> Some p)))"

definition header_kid :: "pyval option \<Rightarrow> string option option" where
  "header_kid header =
     (case header of
        Some (PDict h) \<Rightarrow>
          if dget h ''alg'' \<noteq> Some (PStr ''RS256'') then None
          else (case dget_or h ''kid'' PNone of
              PNone \<Rightarrow> Some None
            | PStr k \<Rightarrow> if kid_max_len < length (code_points k) then None else Some (Some k)
            | _ \<Rightarrow> None)
      | _ \<Rightarrow> None)"

definition token_of_claims :: "string \<Rightarrow> dict \<Rightarrow> access_token" where
  "token_of_claims token claims =
     \<lparr>at_token = token, at_client_id = py_str (dget_or claims ''iss'' (PStr '''')),
      at_scopes = (case dget claims ''scopes'' of Some (PList xs) \<Rightarrow> List.map py_str xs | _ \<Rightarrow> []),
      at_resource = (case dget claims ''aud'' of Some (PStr s) \<Rightarrow> Some s | _ \<Rightarrow> None),
      at_subject = (case dget claims ''sub'' of Some (PStr s) \<Rightarrow> Some s | _ \<Rightarrow> None),
      at_claims = Some claims\<rparr>"

definition verify_token :: "jose \<Rightarrow> string \<Rightarrow> string \<Rightarrow> jwks_source \<Rightarrow> jwt_verifier \<Rightarrow> string \<Rightarrow> rat \<Rightarrow> int \<Rightarrow>
    jwt_verifier \<times> access_token option" where
  "verify_token jo issuer audience src v token clock now =
     (case header_kid (jo_header jo token) of
        None \<Rightarrow> (v, None)
      | Some kid \<Rightarrow> (case resolve_key src v kid clock of
          (v', None) \<Rightarrow> (v', None)
        | (v', Some pem) \<Rightarrow> (case jo_decode jo token pem audience issuer now of
            Inl _ \<Rightarrow> (v', None)
          | Inr claims \<Rightarrow> (case validate_token_claims claims ''access'' of
              Inl _ \<Rightarrow> (v', None)
            | Inr _ \<Rightarrow> (v', Some (token_of_claims token claims))))))"

subsection \<open>Issuing a confirmation\<close>

record confirmation_body =
  cb_case_id :: string
  cb_tool_name :: string
  cb_fingerprint :: string
  cb_target_ids :: "string list"

definition confirmation_roles :: "string \<Rightarrow> string list" where
  "confirmation_roles tool =
     (if tool \<in> set approval_tools then approval_roles
      else if tool \<in> set export_tools then export_roles
      else if tool = raw_read_tool then raw_read_roles
      else human_mutation_roles)"

text \<open>Membership in the list of cases, and the role of a case, read from verified claims.\<close>

definition claim_cases :: "dict \<Rightarrow> string list" where
  "claim_cases claims =
     (case dget claims ''allowed_case_ids'' of Some (PList xs) \<Rightarrow> List.map py_str xs | _ \<Rightarrow> [])"

definition claim_role :: "dict \<Rightarrow> string \<Rightarrow> string" where
  "claim_role claims c =
     (case dget claims ''case_roles'' of
        Some (PDict d) \<Rightarrow> (case dget d c of Some (PStr r) \<Rightarrow> upper (strip r) | _ \<Rightarrow> '''')
      | _ \<Rightarrow> '''')"

definition issue_confirmation :: "auth_db \<Rightarrow> access_token option \<Rightarrow> confirmation_body \<Rightarrow> string \<Rightarrow> int \<Rightarrow>
    int \<Rightarrow> auth_db \<times> string res" where
  "issue_confirmation db token body grant_id now now_expiry =
     (let refuse = (\<lambda>n m. (db, Inl (HttpExn n m))) in
      case token of
        None \<Rightarrow> refuse 401 ''Invalid or expired access token.''
      | Some t \<Rightarrow>
          let claims = claims_of t;
              actor_id = strip (py_str (or_else (or_else (dget_or claims ''sub'' PNone)
                (opt_str (at_subject t))) (PStr '''')));
              sid = strip (py_str (dget_or claims ''session_id'' (PStr '''')));
              tenant_id = strip (py_str (dget_or claims ''tenant_id'' (PStr '''')))
          in if actor_id = [] \<or> sid = [] then refuse 401 ''Token missing required claims.''
             else (case db_sessions db sid of
                 None \<Rightarrow> refuse 401 ''Session not found.''
               | Some s \<Rightarrow>
                   if \<not> session_active s then refuse 401 ''Session revoked.''
                   else if instant (us_expires_at s) \<le> now then refuse 401 ''Session expired.''
                   else if us_actor_id s \<noteq> actor_id then refuse 401 ''Session actor mismatch.''
                   else if tenant_id \<noteq> [] \<and> us_tenant_id s \<noteq> tenant_id then
                     refuse 401 ''Session tenant mismatch.''
                   else if cb_case_id body \<notin> set (claim_cases claims) then
                     refuse 403 ''case_id not in token's allowed_case_ids.''
                   else if claim_role claims (cb_case_id body) \<notin> set (confirmation_roles (cb_tool_name body))
                   then refuse 403 ''Insufficient role for this tool in the requested case.''
                   else if db_confirmations db grant_id \<noteq> None then (db, Inl (PyExn ''IntegrityError''))
                   else (db\<lparr>db_confirmations := (db_confirmations db)(grant_id \<mapsto>
                       (\<lparr>cg_grant_id = grant_id, cg_actor_id = actor_id, cg_session_id = sid,
                         cg_case_id = cb_case_id body, cg_tool_name = cb_tool_name body,
                         cg_fingerprint = cb_fingerprint body, cg_target_ids = cb_target_ids body,
                         cg_expires_at = Aware (now_expiry + 300 * 1000000), cg_max_uses = 1\<rparr>, 0))\<rparr>,
                     Inr grant_id)))"

end
