(* ===== verification/Auth_Properties.thy ===== *)
theory Auth_Properties
  imports Auth Mcp_Frontend_Properties
begin

section \<open>What authentication guarantees\<close>

text \<open>
  Refresh tokens are single use whatever runs in between, a deactivated user gets nothing any more,
  and the tokens of a login open only the cases of the user's tenancies.  What runs in between is a
  list of \<open>auth_step\<close>s: the atomic updates of the service, so a refresh contributes its rotation and
  its refusal as separate steps.
\<close>

datatype auth_step =
    Rotation string string string
  | Refusal string int
  | Logged_Out string int
  | Deactivated string int
  | Logged_In auth_service auth_env string string string
  | Confirmation "access_token option" confirmation_body string int int

fun auth_step_of :: "auth_step \<Rightarrow> auth_db \<Rightarrow> auth_db" where
  "auth_step_of (Rotation sid old new) db = snd (rotate sid old new db)"
| "auth_step_of (Refusal sid now) db = fst (refuse_rotation sid now db)"
| "auth_step_of (Logged_Out sid now) db = logout sid now db"
| "auth_step_of (Deactivated actor now) db = deactivate_user actor now db"
| "auth_step_of (Logged_In sv en email password tenant) db = fst (login sv en db email password tenant)"
| "auth_step_of (Confirmation t body g now until) db = fst (issue_confirmation db t body g now until)"

fun fresh_jti :: "auth_step \<Rightarrow> string \<Rightarrow> bool" where
  "fresh_jti (Rotation sid old new) j = (new \<noteq> j)"
| "fresh_jti (Logged_In sv en email password tenant) j = (ev_refresh_jti en \<noteq> j)"
| "fresh_jti s j = True"

subsection \<open>What each step keeps\<close>

lemma put_session_simps [simp]:
  "db_sessions (put_session sid s db) = (db_sessions db)(sid \<mapsto> s)"
  "db_users (put_session sid s db) = db_users db"
  "db_tenancies (put_session sid s db) = db_tenancies db"
  "db_confirmations (put_session sid s db) = db_confirmations db"
  by (simp_all add: put_session_def)

lemma login_cases:
  "fst (login sv en db email password tenant) = db \<or>
   (\<exists>u. fetch_user db email tenant = Inr (Some u) \<and> ur_is_active u \<and> db_sessions db (ev_session_id en) = None \<and>
     fst (login sv en db email password tenant) = put_session (ev_session_id en)
       \<lparr>us_actor_id = ur_id u, us_tenant_id = tenant, us_created_at = Aware (ev_now_created en),
        us_expires_at = Aware (ev_now_expiry en + jc_refresh_ttl (as_config sv) * 1000000),
        us_revoked_at = None, us_refresh_jti = Some (ev_refresh_jti en)\<rparr> db)"
  by (auto simp: login_def split: sum.splits option.splits)

lemma confirmation_sessions [simp]:
  "db_sessions (fst (issue_confirmation db t body g now until)) = db_sessions db"
  "db_users (fst (issue_confirmation db t body g now until)) = db_users db"
  by (auto simp: issue_confirmation_def Let_def split: option.splits)

definition spent :: "string \<Rightarrow> string \<Rightarrow> auth_db \<Rightarrow> bool" where
  "spent sid j db \<longleftrightarrow> (\<exists>s. db_sessions db sid = Some s \<and> us_refresh_jti s \<noteq> None \<and> us_refresh_jti s \<noteq> Some j)"

definition revoked :: "string \<Rightarrow> auth_db \<Rightarrow> bool" where
  "revoked sid db \<longleftrightarrow> (\<exists>s. db_sessions db sid = Some s \<and> us_revoked_at s \<noteq> None)"

text \<open>What a step makes of an existing session.\<close>

lemma session_after:
  assumes "db_sessions db sid = Some s"
  shows "\<exists>s'. db_sessions (auth_step_of st db) sid = Some s' \<and> us_actor_id s' = us_actor_id s \<and>
    (us_revoked_at s \<noteq> None \<longrightarrow> us_revoked_at s' \<noteq> None) \<and>
    (us_refresh_jti s' = us_refresh_jti s \<or> (\<exists>old new. st = Rotation sid old new \<and> us_refresh_jti s' = Some new))"
proof (cases st)
  case (Rotation sid' old new)
  with assms show ?thesis by (auto simp: rotate_def split: option.splits)
next
  case (Refusal sid' now)
  with assms show ?thesis by (auto simp: refuse_rotation_def session_active_def split: option.splits)
next
  case (Logged_Out sid' now)
  with assms show ?thesis by (auto simp: logout_def revoke_def session_active_def split: option.splits)
next
  case (Deactivated actor now)
  let ?s = "if us_actor_id s = actor then revoke now s else s"
  have "db_sessions (auth_step_of st db) sid = Some ?s"
    using assms Deactivated by (simp add: deactivate_user_def)
  moreover have "us_actor_id ?s = us_actor_id s" "us_revoked_at s \<noteq> None \<longrightarrow> us_revoked_at ?s \<noteq> None"
    "us_refresh_jti ?s = us_refresh_jti s" by (simp_all add: revoke_def)
  ultimately show ?thesis by blast
next
  case (Logged_In sv en email password tenant)
  with assms show ?thesis
    using login_cases [of sv en db email password tenant] by auto
qed (use assms in simp)

text \<open>Where a session after a step comes from.\<close>

lemma session_before:
  assumes "db_sessions (auth_step_of st db) sid = Some s'"
  shows "(\<exists>s. db_sessions db sid = Some s \<and> us_actor_id s' = us_actor_id s \<and>
      (us_revoked_at s \<noteq> None \<longrightarrow> us_revoked_at s' \<noteq> None)) \<or>
    (\<exists>u \<in> set (db_users db). ur_is_active u \<and> us_actor_id s' = ur_id u)"
proof (cases "db_sessions db sid")
  case (Some s)
  then show ?thesis using session_after [OF Some, of st] assms by auto
next
  case None
  have n: "db_sessions (auth_step_of st db) sid = None" if "\<nexists>sv en e p t. st = Logged_In sv en e p t"
    using None that
    by (cases st) (auto simp: rotate_def refuse_rotation_def logout_def deactivate_user_def split: option.splits)
  then obtain sv en email password tenant where st: "st = Logged_In sv en email password tenant"
    using assms by (cases "\<nexists>sv en e p t. st = Logged_In sv en e p t") auto
  from login_cases [of sv en db email password tenant] assms None st
  obtain u where u: "fetch_user db email tenant = Inr (Some u)" "ur_is_active u" "us_actor_id s' = ur_id u"
    by (auto split: if_splits)
  have "u \<in> set (db_users db)"
    using u(1) by (auto simp: fetch_user_def one_or_none_def split: list.splits dest!: arg_cong [where f = set])
  with u show ?thesis by blast
qed

lemma step_users: "u' \<in> set (db_users (auth_step_of st db)) \<Longrightarrow>
    \<exists>u \<in> set (db_users db). ur_id u' = ur_id u \<and> (ur_is_active u' \<longrightarrow> ur_is_active u)"
proof (cases st)
  case (Logged_In sv en email password tenant)
  assume "u' \<in> set (db_users (auth_step_of st db))"
  with Logged_In show ?thesis using login_cases [of sv en db email password tenant] by auto
qed (auto simp: rotate_def refuse_rotation_def logout_def deactivate_user_def split: option.splits if_splits)

lemma step_spent: "spent sid j db \<Longrightarrow> fresh_jti st j \<Longrightarrow> spent sid j (auth_step_of st db)"
proof -
  assume "spent sid j db" and f: "fresh_jti st j"
  then obtain s where s: "db_sessions db sid = Some s" "us_refresh_jti s \<noteq> None" "us_refresh_jti s \<noteq> Some j"
    by (auto simp: spent_def)
  from session_after [OF s(1), of st] s(2,3) f show ?thesis unfolding spent_def by auto
qed

lemma step_revoked: "revoked sid db \<Longrightarrow> revoked sid (auth_step_of st db)"
proof -
  assume "revoked sid db"
  then obtain s where s: "db_sessions db sid = Some s" "us_revoked_at s \<noteq> None" by (auto simp: revoked_def)
  from session_after [OF s(1), of st] s(2) show ?thesis unfolding revoked_def by blast
qed

lemma run_spent: "spent sid j db \<Longrightarrow> \<forall>st \<in> set steps. fresh_jti st j \<Longrightarrow> spent sid j (fold auth_step_of steps db)"
  by (induction steps arbitrary: db) (auto simp: step_spent)

lemma run_revoked: "revoked sid db \<Longrightarrow> revoked sid (fold auth_step_of steps db)"
  by (induction steps arbitrary: db) (auto simp: step_revoked)

text \<open>Deactivation: no active account and no active session of the actor.\<close>

definition locked_out :: "string \<Rightarrow> auth_db \<Rightarrow> bool" where
  "locked_out actor db \<longleftrightarrow> (\<forall>u \<in> set (db_users db). ur_id u = actor \<longrightarrow> \<not> ur_is_active u) \<and>
     (\<forall>sid s. db_sessions db sid = Some s \<and> us_actor_id s = actor \<longrightarrow> us_revoked_at s \<noteq> None)"

lemma one_or_none_in: "one_or_none xs = Inr (Some x) \<Longrightarrow> x \<in> set xs"
  by (auto simp: one_or_none_def split: list.splits)

lemma fetch_user_in: "fetch_user db email tenant = Inr (Some u) \<Longrightarrow>
    u \<in> set (db_users db) \<and> ur_email u = email \<and> ur_tenant_id u = tenant"
  unfolding fetch_user_def by (drule one_or_none_in) auto

lemma deactivate_locks: "locked_out actor (deactivate_user actor now db)"
proof -
  have "us_revoked_at s' \<noteq> None"
    if s': "db_sessions (deactivate_user actor now db) sid = Some s'" "us_actor_id s' = actor" for sid s'
  proof -
    have m: "map_option (\<lambda>s. if us_actor_id s = actor then revoke now s else s) (db_sessions db sid) = Some s'"
      using s'(1) by (simp add: deactivate_user_def)
    then obtain s where s: "db_sessions db sid = Some s" by (cases "db_sessions db sid") simp_all
    with m have e: "(if us_actor_id s = actor then revoke now s else s) = s'" by simp
    have "us_actor_id s = actor"
    proof (rule ccontr)
      assume "us_actor_id s \<noteq> actor"
      with e have "s = s'" by (simp only: if_False)
      with s'(2) \<open>us_actor_id s \<noteq> actor\<close> show False by blast
    qed
    with e have "s' = revoke now s" by (simp only: if_True simp_thms)
    moreover have "us_revoked_at (revoke now s) \<noteq> None" by (simp add: revoke_def session_active_def)
    ultimately show ?thesis by (simp only: not_False_eq_True)
  qed
  moreover have "\<not> ur_is_active u"
    if u: "u \<in> set (db_users (deactivate_user actor now db))" "ur_id u = actor" for u
  proof -
    have "u \<in> (\<lambda>x. if ur_id x = actor then x\<lparr>ur_is_active := False\<rparr> else x) ` set (db_users db)"
      using u(1) by (simp add: deactivate_user_def)
    then obtain x where x: "u = (if ur_id x = actor then x\<lparr>ur_is_active := False\<rparr> else x)"
      by (rule imageE)
    show ?thesis
    proof (cases "ur_id x = actor")
      case True
      with x have "u = x\<lparr>ur_is_active := False\<rparr>" by (simp only: if_True simp_thms)
      then show ?thesis by simp
    next
      case False
      with x have "u = x" by (simp only: if_False)
      with u(2) False show ?thesis by blast
    qed
  qed
  ultimately show ?thesis unfolding locked_out_def by blast
qed

lemma step_locked: "locked_out actor db \<Longrightarrow> locked_out actor (auth_step_of st db)"
proof -
  assume l: "locked_out actor db"
  have "\<not> ur_is_active u" if "u \<in> set (db_users (auth_step_of st db))" "ur_id u = actor" for u
    using l step_users [OF that(1)] that(2) unfolding locked_out_def by metis
  moreover have "us_revoked_at s \<noteq> None"
    if "db_sessions (auth_step_of st db) sid = Some s" "us_actor_id s = actor" for sid s
    using l session_before [OF that(1)] that(2) unfolding locked_out_def by metis
  ultimately show ?thesis unfolding locked_out_def by blast
qed

lemma run_locked: "locked_out actor db \<Longrightarrow> locked_out actor (fold auth_step_of steps db)"
  by (induction steps arbitrary: db) (auto simp: step_locked)

subsection \<open>Refresh tokens\<close>

lemma refresh_revoked:
  assumes "revoked sid db"
    and "decode_refresh_token (as_jose sv) (as_config sv) (as_public_key sv) token (ev_now_decode en) = Inr claims"
    and "text_claim claims ''session_id'' = sid"
  shows "\<exists>m. snd (refresh sv en db token) = Inl (AuthExn m) \<and> fst (refresh sv en db token) = db"
  using assms
  by (auto simp: refresh_def Let_def revoked_def rotate_def refuse_rotation_def session_active_def)

text \<open>C25: A refresh token is exchanged once.  After a successful exchange, and whatever other logins,
  rotations, refusals, logouts, deactivations and confirmations run in between (each new identifier
  differing from the token's), presenting the token again fails and leaves the session revoked; from
  then on no token of that session is exchanged, the one handed out by the first exchange included.\<close>

theorem refresh_token_used_once:
  assumes "refresh sv en db token = (db1, Inr pair)"
    and "decode_refresh_token (as_jose sv) (as_config sv) (as_public_key sv) token (ev_now_decode en) = Inr claims"
    and "decode_refresh_token (as_jose sv) (as_config sv) (as_public_key sv) token (ev_now_decode en2) = Inr claims"
    and "ev_refresh_jti en \<noteq> text_claim claims ''jti''"
    and "\<forall>st \<in> set steps. fresh_jti st (text_claim claims ''jti'')"
    and "refresh sv en2 (fold auth_step_of steps db1) token = (db3, r)"
  shows "(\<exists>m. r = Inl (AuthExn m)) \<and> revoked (text_claim claims ''session_id'') db3 \<and>
    (\<forall>steps3 en3 token3 claims3.
      decode_refresh_token (as_jose sv) (as_config sv) (as_public_key sv) token3 (ev_now_decode en3) = Inr claims3 \<and>
      text_claim claims3 ''session_id'' = text_claim claims ''session_id'' \<longrightarrow>
      (\<exists>m. snd (refresh sv en3 (fold auth_step_of steps3 db3) token3) = Inl (AuthExn m)))"
proof -
  let ?sid = "text_claim claims ''session_id''" and ?j = "text_claim claims ''jti''"
  obtain s where "db_sessions db ?sid = Some s" "db1 = put_session ?sid (s\<lparr>us_refresh_jti := Some (ev_refresh_jti en)\<rparr>) db"
    using assms(1,2)
    by (auto simp: refresh_def Let_def rotate_def split: prod.splits option.splits if_splits)
  then have "spent ?sid ?j db1" using assms(4) by (simp add: spent_def)
  from run_spent [OF this assms(5)] obtain s2 where s2:
    "db_sessions (fold auth_step_of steps db1) ?sid = Some s2" "us_refresh_jti s2 \<noteq> None"
    "us_refresh_jti s2 \<noteq> Some ?j" by (auto simp: spent_def)
  have r: "\<exists>m. r = Inl (AuthExn m)" and dead: "revoked ?sid db3"
    using assms(3,6) s2
    by (auto simp: refresh_def Let_def rotate_def refuse_rotation_def session_active_def revoked_def
        split: if_splits)
  have "\<exists>m. snd (refresh sv en3 (fold auth_step_of steps3 db3) token3) = Inl (AuthExn m)"
    if "decode_refresh_token (as_jose sv) (as_config sv) (as_public_key sv) token3 (ev_now_decode en3) = Inr claims3"
      "text_claim claims3 ''session_id'' = ?sid" for steps3 en3 token3 claims3
    using refresh_revoked [OF run_revoked [OF dead] that] by blast
  with r dead show ?thesis by blast
qed

subsection \<open>Deactivation\<close>

text \<open>C26: After a user is deactivated, whatever the service does afterwards, none of the user's
  sessions is active, no login of the account succeeds, no refresh token issued to it is exchanged,
  and no confirmation is issued to it, even on an access token that has not expired.\<close>

theorem deactivated_user_locked_out:
  assumes "db2 = fold auth_step_of steps (deactivate_user actor now db)"
  shows "(\<forall>sid s. db_sessions db2 sid = Some s \<longrightarrow> us_actor_id s = actor \<longrightarrow> us_revoked_at s \<noteq> None) \<and>
    (\<forall>sv en email password tenant u. fetch_user db2 email tenant = Inr (Some u) \<longrightarrow> ur_id u = actor \<longrightarrow>
       (\<exists>e. snd (login sv en db2 email password tenant) = Inl e)) \<and>
    (\<forall>sv en token claims. decode_refresh_token (as_jose sv) (as_config sv) (as_public_key sv) token
         (ev_now_decode en) = Inr claims \<longrightarrow> text_claim claims ''sub'' = actor \<longrightarrow>
       (\<exists>e. snd (refresh sv en db2 token) = Inl e)) \<and>
    (\<forall>t a body g now until. dget (claims_of t) ''sub'' = Some (PStr a) \<longrightarrow> a \<noteq> [] \<longrightarrow> strip a = actor \<longrightarrow>
       (\<exists>e. snd (issue_confirmation db2 (Some t) body g now until) = Inl e))"
proof -
  have lock: "locked_out actor db2" unfolding assms by (rule run_locked [OF deactivate_locks])
  have sess: "\<And>sid s. db_sessions db2 sid = Some s \<Longrightarrow> us_actor_id s = actor \<Longrightarrow> us_revoked_at s \<noteq> None"
    using lock by (auto simp: locked_out_def)
  have users: "\<And>u. u \<in> set (db_users db2) \<Longrightarrow> ur_id u = actor \<Longrightarrow> \<not> ur_is_active u"
    using lock by (auto simp: locked_out_def)
  have log: "\<exists>e. snd (login sv en db2 email password tenant) = Inl e"
    if "fetch_user db2 email tenant = Inr (Some u)" "ur_id u = actor" for sv en email password tenant u
    using that users fetch_user_in [OF that(1)] by (auto simp: login_def)
  have ref: "\<exists>e. snd (refresh sv en db2 token) = Inl e"
    if d: "decode_refresh_token (as_jose sv) (as_config sv) (as_public_key sv) token (ev_now_decode en) = Inr claims"
      "text_claim claims ''sub'' = actor" for sv en token claims
  proof -
    let ?sid = "text_claim claims ''session_id''"
    obtain ok db' where rot: "rotate ?sid (text_claim claims ''jti'') (ev_refresh_jti en) db2 = (ok, db')"
      by (cases "rotate ?sid (text_claim claims ''jti'') (ev_refresh_jti en) db2")
    show ?thesis
    proof (cases ok)
      case False
      with rot d(1) show ?thesis by (auto simp: refresh_def Let_def split: prod.splits)
    next
      case True
      then obtain s where s: "db_sessions db2 ?sid = Some s" "us_revoked_at s = None"
        "db' = put_session ?sid (s\<lparr>us_refresh_jti := Some (ev_refresh_jti en)\<rparr>) db2"
        using rot by (auto simp: rotate_def split: option.splits if_splits)
      then have "us_actor_id s \<noteq> actor" using sess by blast
      then have "\<exists>e. check_session db' ?sid actor (ev_now_expiry en) = Inl e"
        using s by (auto simp: check_session_def)
      with rot True d show ?thesis by (auto simp: refresh_def Let_def)
    qed
  qed
  have conf: "\<exists>e. snd (issue_confirmation db2 (Some t) body g now until) = Inl e"
    if sub: "dget (claims_of t) ''sub'' = Some (PStr a)" "a \<noteq> []" "strip a = actor" for t a body g now until
  proof -
    have actor: "strip (py_str (or_else (or_else (dget_or (claims_of t) ''sub'' PNone) (opt_str (at_subject t)))
        (PStr ''''))) = actor"
      using sub by (simp add: or_else_def dget_or_def)
    let ?sid = "strip (py_str (dget_or (claims_of t) ''session_id'' (PStr '''')))"
    show ?thesis
    proof (cases "db_sessions db2 ?sid")
      case None
      then show ?thesis unfolding issue_confirmation_def option.case Let_def actor by simp
    next
      case (Some s)
      then have "us_actor_id s \<noteq> actor \<or> \<not> session_active s"
        using sess by (auto simp: session_active_def)
      then show ?thesis unfolding issue_confirmation_def option.case Let_def actor by (auto simp: Some)
    qed
  qed
  show ?thesis using sess log ref conf by blast
qed


subsection \<open>Access\<close>

lemma role_map_in: "dget (role_map ts) c = Some v \<Longrightarrow> \<exists>t \<in> set ts. cy_case_id t = c \<and> v = PStr (cy_role t)"
proof -
  have gen: "dget (fold (\<lambda>t d. dset (cy_case_id t) (PStr (cy_role t)) d) ts d0) c = Some v \<Longrightarrow>
      dget d0 c = Some v \<or> (\<exists>t \<in> set ts. cy_case_id t = c \<and> v = PStr (cy_role t))" for d0
  proof (induction ts arbitrary: d0)
    case (Cons t ts)
    from Cons.IH [of "dset (cy_case_id t) (PStr (cy_role t)) d0"] Cons.prems
    show ?case by (auto simp: dget_dset split: if_splits)
  qed simp
  show "dget (role_map ts) c = Some v \<Longrightarrow> ?thesis" using gen [of "[]"] by (simp add: role_map_def)
qed

lemma role_map_empty: "ts \<noteq> [] \<Longrightarrow> role_map ts \<noteq> []"
proof -
  have keep: "d0 \<noteq> [] \<Longrightarrow> fold (\<lambda>t d. dset (cy_case_id t) (PStr (cy_role t)) d) us d0 \<noteq> []"
    for d0 and us :: "case_tenancy list"
  proof (induction us arbitrary: d0)
    case (Cons t ts)
    have "dset (cy_case_id t) (PStr (cy_role t)) d0 \<noteq> []" by (cases d0) (auto split: prod.splits)
    with Cons.IH show ?case by simp
  qed simp
  then show "ts \<noteq> [] \<Longrightarrow> ?thesis"
    by (cases ts) (simp_all add: role_map_def keep)
qed

text \<open>The claims of an access token that the service signs, as the gate reads them.\<close>

lemma access_claims_get:
  assumes "claims = access_claims cfg actor sid tenant cases roles scopes (Some d) jti now"
  shows "dget claims ''case_roles'' = Some (PDict d)" "dget claims ''allowed_case_ids'' = Some (texts cases)"
    "dget claims ''sub'' = Some (PStr actor)" "dget claims ''session_id'' = Some (PStr sid)"
    "dget claims ''tenant_id'' = Some (PStr tenant)" "dget claims ''scopes'' = Some (texts scopes)"
  using assms by (simp_all add: access_claims_def)

lemma claims_session_actor:
  assumes "resolve_claims_session t = Inr s" "dget (claims_of t) ''sub'' = Some (PStr a)" "a \<noteq> []"
  shows "fs_actor_id s = strip a"
  using assms
  by (auto simp: resolve_claims_session_def make_frontend_session_def Let_def or_else_def dget_or_def
      split: if_splits option.splits pyval.splits)


lemma tokens_of:
  assumes "snd (login sv en db email password tenant) = Inr pair \<or> snd (refresh sv en db rt) = Inr pair"
  shows "\<exists>u sid tenant' jti. pair = issue_tokens sv en u sid tenant' (tenancies_of db u) jti \<and>
    (\<exists>x \<in> set (db_users db). ur_id x = u \<and> ur_is_active x \<and> ur_tenant_id x = tenant')"
  using assms
proof
  assume "snd (login sv en db email password tenant) = Inr pair"
  then obtain u where u: "fetch_user db email tenant = Inr (Some u)" "ur_is_active u"
    "pair = issue_tokens sv en (ur_id u) (ev_session_id en) tenant (tenancies_of db (ur_id u)) (ev_refresh_jti en)"
    by (auto simp: login_def split: sum.splits option.splits if_splits)
  then show ?thesis using fetch_user_in [OF u(1)] by blast
next
  assume r: "snd (refresh sv en db rt) = Inr pair"
  then obtain claims where c: "decode_refresh_token (as_jose sv) (as_config sv) (as_public_key sv) rt
      (ev_now_decode en) = Inr claims"
    by (auto simp: refresh_def split: sum.splits)
  let ?sid = "text_claim claims ''session_id''" and ?actor = "text_claim claims ''sub''"
  obtain moved db' where rot: "rotate ?sid (text_claim claims ''jti'') (ev_refresh_jti en) db = (moved, db')"
    by (cases "rotate ?sid (text_claim claims ''jti'') (ev_refresh_jti en) db")
  have moved using r c rot by (cases moved) (auto simp: refresh_def Let_def split: prod.splits)
  then have "map_res (\<lambda>s. issue_tokens sv en ?actor ?sid (us_tenant_id s) (tenancies_of db' ?actor)
      (ev_refresh_jti en)) (check_session db' ?sid ?actor (ev_now_expiry en)) = Inr pair"
    using r c rot by (simp add: refresh_def Let_def)
  then obtain s where s: "check_session db' ?sid ?actor (ev_now_expiry en) = Inr s"
    "pair = issue_tokens sv en ?actor ?sid (us_tenant_id s) (tenancies_of db' ?actor) (ev_refresh_jti en)"
    by auto
  have same: "db_users db' = db_users db" "db_tenancies db' = db_tenancies db"
    using rot by (auto simp: rotate_def split: option.splits if_splits)
  obtain u where u: "user_by_id db' ?actor = Inr (Some u)" "ur_is_active u" "ur_tenant_id u = us_tenant_id s"
    using s(1) by (auto simp: check_session_def split: option.splits if_splits)
  have "u \<in> set (db_users db)" "ur_id u = ?actor"
    using one_or_none_in [OF u(1) [unfolded user_by_id_def]] same by auto
  then show ?thesis using s(2) u same unfolding tenancies_of_def by auto
qed

text \<open>C27: An access token from a login or a refresh opens only what its user's tenancies give: if the
  verifier accepts it, a session is made of it and the gate admits a call, then for every target case
  there is a tenancy of that user, in the tables at the time of issue, whose role holds every scope the
  tool requires, and the user was active.  This rests on the JWT library decoding an encoded token to
  the claims it was given, or not at all.\<close>

theorem access_needs_tenancy:
  assumes "snd (login sv en db email password tenant) = Inr (access, rt) \<or>
      snd (refresh sv en db old) = Inr (access, rt)"
    and "\<forall>key kid c pem aud iss now c'.
      jo_decode (as_jose sv) (jo_encode (as_jose sv) key kid c) pem aud iss now = Inr c' \<longrightarrow> c' = c"
    and "verify_token (as_jose sv) issuer audience src v access clock now = (v', Some t)"
    and "resolve_claims_session t = Inr s"
    and "require_access s t d tool targets = Inr ()" and "c \<in> set targets"
  shows "\<exists>u \<in> set (db_users db). ur_is_active u \<and>
    (ur_id u \<noteq> [] \<longrightarrow> fs_actor_id s = strip (ur_id u)) \<and>
    (\<exists>ty \<in> set (db_tenancies db). cy_actor_id ty = ur_id u \<and> cy_case_id ty = c \<and>
       set (required_scopes d tool) \<subseteq> set (role_scopes (upper (strip (cy_role ty)))))"
proof -
  obtain u sid tenant' jti where pair: "(access, rt) = issue_tokens sv en u sid tenant' (tenancies_of db u) jti"
    and user: "\<exists>x \<in> set (db_users db). ur_id x = u \<and> ur_is_active x"
    using tokens_of [OF assms(1)] by blast
  let ?ts = "tenancies_of db u"
  let ?roles = "remdups (List.map cy_role ?ts)"
  define claims where "claims = access_claims (as_config sv) u sid tenant' (List.map cy_case_id ?ts) ?roles
      (sort (scopes_for_roles ?roles)) (Some (role_map ?ts)) (ev_access_jti en) (ev_now_access en)"
  have access: "access = jo_encode (as_jose sv) (as_private_key sv) (as_kid sv) claims"
    using pair by (simp add: issue_tokens_def Let_def claims_def)
  have "at_claims t = Some claims"
    using assms(2,3) unfolding access
    by (auto simp: verify_token_def token_of_claims_def split: option.splits prod.splits sum.splits)
  then have co: "claims_of t = claims" by (simp add: claims_of_def)
  note get = access_claims_get [OF claims_def]
  have ne: "?ts \<noteq> []"
  proof
    assume "?ts = []"
    then have "dget claims ''allowed_case_ids'' = Some (PList [])" using get(2) by (simp add: texts_def)
    then show False
      using assms(4) co get(1)
      by (auto simp: resolve_claims_session_def Let_def or_else_def dget_or_def iterate_value_def
          make_frontend_session_def nonblank_texts_def List.map_filter_simps split: if_splits)
  qed
  have claim: "case_roles_claim t = PDict (role_map ?ts)" "role_map ?ts \<noteq> []"
    using role_map_empty [OF ne] get(1) co by (simp_all add: case_roles_claim_def dget_or_def)
  have sub: "set (required_scopes d tool) \<subseteq> set (case_scopes (role_map ?ts) c)"
    using require_access_dict [OF claim] assms(5,6) by (auto simp: case_grants_def)
  obtain w where w: "dget (role_map ?ts) c = Some w"
    using admitted_roles_some [OF assms(5) claim assms(6)] by blast
  obtain ty where ty: "ty \<in> set ?ts" "cy_case_id ty = c" "w = PStr (cy_role ty)"
    using role_map_in [OF w] by blast
  have "case_scopes (role_map ?ts) c = (let role = upper (strip (cy_role ty)) in
      if role = [] then [] else scopes_for_roles [role])"
    using w ty(3) by (simp add: case_scopes_def dget_or_def)
  then have scopes: "set (required_scopes d tool) \<subseteq> set (role_scopes (upper (strip (cy_role ty))))"
    using sub by (auto simp: Let_def scopes_single split: if_splits)
  obtain x where x: "x \<in> set (db_users db)" "ur_id x = u" "ur_is_active x" using user by blast
  have "ur_id x \<noteq> [] \<longrightarrow> fs_actor_id s = strip (ur_id x)"
    using claims_session_actor [OF assms(4)] get(3) co x(2) by simp
  moreover have "ty \<in> set (db_tenancies db)" "cy_actor_id ty = u"
    using ty(1) by (simp_all add: tenancies_of_def)
  then have "\<exists>ty \<in> set (db_tenancies db). cy_actor_id ty = ur_id x \<and> cy_case_id ty = c \<and>
      set (required_scopes d tool) \<subseteq> set (role_scopes (upper (strip (cy_role ty))))"
    using x(2) ty(2) scopes by (intro bexI [of _ ty]) simp_all
  ultimately show ?thesis using x by blast
qed


subsection \<open>A concrete service\<close>

definition sample_config :: jwt_config where
  "sample_config = \<lparr>jc_issuer = ''i'', jc_audience = ''a'', jc_access_ttl = 3600, jc_refresh_ttl = 86400\<rparr>"

definition sample_access :: dict where
  "sample_access = access_claims sample_config ''ana'' ''s1'' ''t1'' [''c1''] [''ANALYST'']
     [''apex:confirm'', ''apex:mcp'', ''apex:read'', ''apex:write''] (Some [(''c1'', PStr ''ANALYST'')]) ''k1'' 0"

definition sample_refresh :: dict where
  "sample_refresh = refresh_claims sample_config ''ana'' ''s1'' ''j1'' 0"

definition sample_jose :: jose where
  "sample_jose = \<lparr>jo_encode = (\<lambda>key kid c. if c = sample_access then ''A'' else if c = sample_refresh then ''R''
       else ''X''),
     jo_decode = (\<lambda>token pem aud iss now. if token = ''A'' then Inr sample_access
       else if token = ''R'' then Inr sample_refresh else Inl Conversion_Error),
     jo_header = (\<lambda>token. Some (PDict [(''alg'', PStr ''RS256''), (''kid'', PStr ''k'')]))\<rparr>"

definition sample_service :: auth_service where
  "sample_service = \<lparr>as_private_key = ''p'', as_public_key = ''q'', as_kid = ''k'', as_jose = sample_jose,
     as_config = sample_config, as_verify = (\<lambda>p h. p = h)\<rparr>"

definition sample_auth_env :: "string \<Rightarrow> auth_env" where
  "sample_auth_env jti = \<lparr>ev_session_id = ''s1'', ev_refresh_jti = jti, ev_access_jti = ''k1'',
     ev_now_decode = 0, ev_now_created = 0, ev_now_expiry = 0, ev_now_access = 0, ev_now_refresh = 0\<rparr>"

definition sample_auth_db :: auth_db where
  "sample_auth_db = \<lparr>db_users = [\<lparr>ur_id = ''ana'', ur_email = ''e'', ur_hashed_password = ''pw'',
       ur_tenant_id = ''t1'', ur_is_active = True\<rparr>],
     db_tenancies = [\<lparr>cy_actor_id = ''ana'', cy_case_id = ''c1'', cy_role = ''ANALYST''\<rparr>],
     db_sessions = Map.empty, db_confirmations = Map.empty\<rparr>"

definition sample_logged_in :: auth_db where
  "sample_logged_in = fst (login sample_service (sample_auth_env ''j1'') sample_auth_db ''e'' ''pw'' ''t1'')"

lemma sample_scopes_of: "sort (scopes_for_roles [''ANALYST'']) =
    [''apex:confirm'', ''apex:mcp'', ''apex:read'', ''apex:write'']"
  by code_simp

lemma sample_login:
  "login sample_service (sample_auth_env ''j1'') sample_auth_db ''e'' ''pw'' ''t1'' =
     (sample_logged_in, Inr (''A'', ''R''))"
  by (simp add: sample_logged_in_def login_def fetch_user_def one_or_none_def sample_auth_db_def
      sample_service_def sample_auth_env_def issue_tokens_def Let_def tenancies_of_def role_map_def
      sample_jose_def sample_scopes_of sample_access_def [symmetric] sample_refresh_def [symmetric])
    (simp add: sample_access_def sample_refresh_def access_claims_def refresh_claims_def)


lemma sample_valid: "validate_token_claims sample_refresh ''refresh'' = Inr ()"
  "validate_token_claims sample_access ''access'' = Inr ()"
  by code_simp+

lemma sample_decode: "decode_refresh_token (as_jose sample_service) (as_config sample_service)
    (as_public_key sample_service) ''R'' now = Inr sample_refresh"
  by (simp add: decode_refresh_token_def sample_service_def sample_jose_def sample_valid)

lemma sample_claims: "text_claim sample_refresh ''session_id'' = ''s1''" "text_claim sample_refresh ''sub'' = ''ana''"
  "text_claim sample_refresh ''jti'' = ''j1''"
  by code_simp+

lemma sample_session_row: "db_sessions sample_logged_in ''s1'' = Some \<lparr>us_actor_id = ''ana'', us_tenant_id = ''t1'',
    us_created_at = Aware 0, us_expires_at = Aware 86400000000, us_revoked_at = None,
    us_refresh_jti = Some ''j1''\<rparr>"
  "db_users sample_logged_in = db_users sample_auth_db"
  by (simp_all add: sample_logged_in_def login_def fetch_user_def one_or_none_def sample_auth_db_def
      sample_service_def sample_auth_env_def sample_config_def)

lemma sample_exchange: "\<exists>db1 pair. refresh sample_service (sample_auth_env ''j2'') sample_logged_in ''R'' = (db1, Inr pair)"
proof -
  have "is_ok (snd (refresh sample_service (sample_auth_env ''j2'') sample_logged_in ''R''))"
    using sample_decode [of 0]
    by (simp add: refresh_def sample_claims rotate_def sample_session_row sample_auth_env_def check_session_def
        user_by_id_def one_or_none_def sample_auth_db_def Let_def)
  then obtain pair where "snd (refresh sample_service (sample_auth_env ''j2'') sample_logged_in ''R'') = Inr pair"
    by (rule is_okE)
  then show ?thesis by (metis prod.collapse)
qed

lemma refresh_token_used_once_witness:
  "\<exists>db1 pair. refresh sample_service (sample_auth_env ''j2'') sample_logged_in ''R'' = (db1, Inr pair) \<and>
     (\<exists>m. snd (refresh sample_service (sample_auth_env ''j3'') db1 ''R'') = Inl (AuthExn m)) \<and>
     revoked ''s1'' (fst (refresh sample_service (sample_auth_env ''j3'') db1 ''R''))"
proof -
  obtain db1 pair where first: "refresh sample_service (sample_auth_env ''j2'') sample_logged_in ''R'' = (db1, Inr pair)"
    using sample_exchange by blast
  obtain db3 r where second: "refresh sample_service (sample_auth_env ''j3'') (fold auth_step_of [] db1) ''R'' = (db3, r)"
    by (cases "refresh sample_service (sample_auth_env ''j3'') (fold auth_step_of [] db1) ''R''")
  have "ev_refresh_jti (sample_auth_env ''j2'') \<noteq> text_claim sample_refresh ''jti''"
    by (simp add: sample_auth_env_def sample_claims)
  from refresh_token_used_once [OF first sample_decode sample_decode this _ second]
  have "(\<exists>m. r = Inl (AuthExn m)) \<and> revoked ''s1'' db3" by (simp add: sample_claims)
  with first second show ?thesis by simp
qed

lemma deactivated_user_locked_out_witness:
  "\<exists>e. snd (refresh sample_service (sample_auth_env ''j2'') (deactivate_user ''ana'' 1 sample_logged_in) ''R'') = Inl e"
proof -
  have "\<exists>e. snd (refresh sample_service (sample_auth_env ''j2'')
      (fold auth_step_of [] (deactivate_user ''ana'' 1 sample_logged_in)) ''R'') = Inl e"
    using deactivated_user_locked_out [OF refl, of "[]" "''ana''" 1 sample_logged_in] sample_decode sample_claims(2)
    by blast
  then show ?thesis by simp
qed

definition sample_verifier :: jwt_verifier where
  "sample_verifier = \<lparr>jv_cache_ttl = 300, jv_keys = [(''k'', ''q'')], jv_fetched_at = 0,
     jv_unknown_kid_fetched_at = 0\<rparr>"

lemma sample_verify: "verify_token (as_jose sample_service) ''i'' ''a''
    \<lparr>jk_body = None, jk_pem = \<lambda>d. None, jk_clock = 0\<rparr> sample_verifier ''A'' 1 0 =
    (sample_verifier, Some (token_of_claims ''A'' sample_access))"
proof -
  have "header_kid (Some (PDict [(''alg'', PStr ''RS256''), (''kid'', PStr ''k'')])) = Some (Some ''k'')"
    by code_simp
  then show ?thesis
    by (simp add: verify_token_def sample_service_def sample_jose_def resolve_key_def sample_verifier_def
        sample_valid Let_def)
qed

lemma sample_resolved: "\<exists>s. resolve_claims_session (token_of_claims ''A'' sample_access) = Inr s \<and>
    require_access s (token_of_claims ''A'' sample_access) [(''mutates_state'', PBool True)] ''t'' [''c1''] = Inr ()"
  by (rule exI [of _ "\<lparr>fs_actor_id = ''ana'', fs_session_id = ''s1'', fs_tenant_id = ''t1'',
      fs_allowed_case_ids = [''c1''], fs_roles = [''ANALYST'']\<rparr>"]) code_simp

lemma sample_sound: "jo_decode (as_jose sample_service) (jo_encode (as_jose sample_service) key kid c) pem aud iss now =
    Inr c' \<Longrightarrow> c' = c"
  by (auto simp: sample_service_def sample_jose_def split: if_splits)

lemma access_needs_tenancy_witness:
  "\<exists>u \<in> set (db_users sample_auth_db). \<exists>ty \<in> set (db_tenancies sample_auth_db).
     cy_actor_id ty = ur_id u \<and> cy_case_id ty = ''c1''"
proof -
  obtain s where s: "resolve_claims_session (token_of_claims ''A'' sample_access) = Inr s"
    "require_access s (token_of_claims ''A'' sample_access) [(''mutates_state'', PBool True)] ''t'' [''c1''] = Inr ()"
    using sample_resolved by blast
  have "snd (login sample_service (sample_auth_env ''j1'') sample_auth_db ''e'' ''pw'' ''t1'') = Inr (''A'', ''R'')"
    using sample_login by simp
  from access_needs_tenancy [OF disjI1 [OF this] _ sample_verify s, of "''c1''"] sample_sound
  show ?thesis by auto
qed

end
