(* ===== verification/Report_Enums.thy ===== *)
theory Report_Enums
  imports Canonical_Facts Timestamp_Facts Enums Mcp_Context
begin

section \<open>Enums and document fields of the report workflow\<close>

text \<open>
  The string enums of report review, approval and export (\<open>domain/enums/__init__.py\<close>), and the
  conversions of one field of a stored document that \<open>from_schema_dict\<close> uses
  (\<open>domain/models/report.py\<close>).  A document may hold any JSON value; where the code keeps a
  value of another type than the field is declared with, the reader raises \<open>TypeError\<close>.
\<close>

subsection \<open>Enums\<close>

datatype report_type =
    INVESTIGATION | TRIAGE | INCIDENT_RESPONSE | EVIDENCE_SUMMARY | CHAIN_OF_CUSTODY |
    TECHNICAL_APPENDIX | OTHER

fun report_type_value :: "report_type \<Rightarrow> string" where
  "report_type_value report_type.INVESTIGATION = ''INVESTIGATION''"
| "report_type_value report_type.TRIAGE = ''TRIAGE''"
| "report_type_value report_type.INCIDENT_RESPONSE = ''INCIDENT_RESPONSE''"
| "report_type_value report_type.EVIDENCE_SUMMARY = ''EVIDENCE_SUMMARY''"
| "report_type_value report_type.CHAIN_OF_CUSTODY = ''CHAIN_OF_CUSTODY''"
| "report_type_value report_type.TECHNICAL_APPENDIX = ''TECHNICAL_APPENDIX''"
| "report_type_value report_type.OTHER = ''OTHER''"

definition report_type_members :: "report_type list" where
  "report_type_members = [
     report_type.INVESTIGATION, report_type.TRIAGE, report_type.INCIDENT_RESPONSE,
     report_type.EVIDENCE_SUMMARY, report_type.CHAIN_OF_CUSTODY, report_type.TECHNICAL_APPENDIX,
     report_type.OTHER]"

interpretation report_type_enum: str_enum report_type_members report_type_value
proof
  show "x \<in> set report_type_members" for x by (cases x) (simp_all add: report_type_members_def)
qed (simp add: report_type_members_def)

datatype report_status =
    DRAFT | REVIEW_REQUIRED | APPROVED | REJECTED | EXPORT_PREPARING | EXPORT_READY | EXPORTED |
    EXPORT_FAILED | ARCHIVED

fun report_status_value :: "report_status \<Rightarrow> string" where
  "report_status_value report_status.DRAFT = ''DRAFT''"
| "report_status_value report_status.REVIEW_REQUIRED = ''REVIEW_REQUIRED''"
| "report_status_value report_status.APPROVED = ''APPROVED''"
| "report_status_value report_status.REJECTED = ''REJECTED''"
| "report_status_value report_status.EXPORT_PREPARING = ''EXPORT_PREPARING''"
| "report_status_value report_status.EXPORT_READY = ''EXPORT_READY''"
| "report_status_value report_status.EXPORTED = ''EXPORTED''"
| "report_status_value report_status.EXPORT_FAILED = ''EXPORT_FAILED''"
| "report_status_value report_status.ARCHIVED = ''ARCHIVED''"

definition report_status_members :: "report_status list" where
  "report_status_members = [
     report_status.DRAFT, report_status.REVIEW_REQUIRED, report_status.APPROVED,
     report_status.REJECTED, report_status.EXPORT_PREPARING, report_status.EXPORT_READY,
     report_status.EXPORTED, report_status.EXPORT_FAILED, report_status.ARCHIVED]"

interpretation report_status_enum: str_enum report_status_members report_status_value
proof
  show "x \<in> set report_status_members" for x by (cases x) (simp_all add: report_status_members_def)
qed (simp add: report_status_members_def)

datatype report_source_kind =
    ANALYST_DRAFT | AI_DRAFT | IMPORTED_DRAFT | SYSTEM_ASSEMBLED_DATA | OTHER

fun report_source_kind_value :: "report_source_kind \<Rightarrow> string" where
  "report_source_kind_value report_source_kind.ANALYST_DRAFT = ''ANALYST_DRAFT''"
| "report_source_kind_value report_source_kind.AI_DRAFT = ''AI_DRAFT''"
| "report_source_kind_value report_source_kind.IMPORTED_DRAFT = ''IMPORTED_DRAFT''"
| "report_source_kind_value report_source_kind.SYSTEM_ASSEMBLED_DATA = ''SYSTEM_ASSEMBLED_DATA''"
| "report_source_kind_value report_source_kind.OTHER = ''OTHER''"

definition report_source_kind_members :: "report_source_kind list" where
  "report_source_kind_members = [
     report_source_kind.ANALYST_DRAFT, report_source_kind.AI_DRAFT,
     report_source_kind.IMPORTED_DRAFT, report_source_kind.SYSTEM_ASSEMBLED_DATA,
     report_source_kind.OTHER]"

interpretation report_source_kind_enum: str_enum report_source_kind_members report_source_kind_value
proof
  show "x \<in> set report_source_kind_members" for x by (cases x) (simp_all add: report_source_kind_members_def)
qed (simp add: report_source_kind_members_def)

datatype report_section_type =
    CASE_OVERVIEW | ANALYSIS_PURPOSE | EVIDENCE | HASH_INTEGRITY | CHAIN_OF_CUSTODY |
    ANALYSIS_ENVIRONMENT | ANALYSIS_SCOPE | PARTIAL_STALE_WARNING | TIMEZONE | KEY_FINDINGS |
    FILE_SYSTEM | WINDOWS_ARTIFACT | BROWSER | MEDIA | TIMELINE | KEYWORD_SEARCH | AI_ASSISTANCE |
    MACHINE_CANDIDATE | LIMITATIONS | CONCLUSION | RECOMMENDATION | TECHNICAL_APPENDIX | OTHER

fun report_section_type_value :: "report_section_type \<Rightarrow> string" where
  "report_section_type_value report_section_type.CASE_OVERVIEW = ''CASE_OVERVIEW''"
| "report_section_type_value report_section_type.ANALYSIS_PURPOSE = ''ANALYSIS_PURPOSE''"
| "report_section_type_value report_section_type.EVIDENCE = ''EVIDENCE''"
| "report_section_type_value report_section_type.HASH_INTEGRITY = ''HASH_INTEGRITY''"
| "report_section_type_value report_section_type.CHAIN_OF_CUSTODY = ''CHAIN_OF_CUSTODY''"
| "report_section_type_value report_section_type.ANALYSIS_ENVIRONMENT = ''ANALYSIS_ENVIRONMENT''"
| "report_section_type_value report_section_type.ANALYSIS_SCOPE = ''ANALYSIS_SCOPE''"
| "report_section_type_value report_section_type.PARTIAL_STALE_WARNING = ''PARTIAL_STALE_WARNING''"
| "report_section_type_value report_section_type.TIMEZONE = ''TIMEZONE''"
| "report_section_type_value report_section_type.KEY_FINDINGS = ''KEY_FINDINGS''"
| "report_section_type_value report_section_type.FILE_SYSTEM = ''FILE_SYSTEM''"
| "report_section_type_value report_section_type.WINDOWS_ARTIFACT = ''WINDOWS_ARTIFACT''"
| "report_section_type_value report_section_type.BROWSER = ''BROWSER''"
| "report_section_type_value report_section_type.MEDIA = ''MEDIA''"
| "report_section_type_value report_section_type.TIMELINE = ''TIMELINE''"
| "report_section_type_value report_section_type.KEYWORD_SEARCH = ''KEYWORD_SEARCH''"
| "report_section_type_value report_section_type.AI_ASSISTANCE = ''AI_ASSISTANCE''"
| "report_section_type_value report_section_type.MACHINE_CANDIDATE = ''MACHINE_CANDIDATE''"
| "report_section_type_value report_section_type.LIMITATIONS = ''LIMITATIONS''"
| "report_section_type_value report_section_type.CONCLUSION = ''CONCLUSION''"
| "report_section_type_value report_section_type.RECOMMENDATION = ''RECOMMENDATION''"
| "report_section_type_value report_section_type.TECHNICAL_APPENDIX = ''TECHNICAL_APPENDIX''"
| "report_section_type_value report_section_type.OTHER = ''OTHER''"

definition report_section_type_members :: "report_section_type list" where
  "report_section_type_members = [
     report_section_type.CASE_OVERVIEW, report_section_type.ANALYSIS_PURPOSE,
     report_section_type.EVIDENCE, report_section_type.HASH_INTEGRITY,
     report_section_type.CHAIN_OF_CUSTODY, report_section_type.ANALYSIS_ENVIRONMENT,
     report_section_type.ANALYSIS_SCOPE, report_section_type.PARTIAL_STALE_WARNING,
     report_section_type.TIMEZONE, report_section_type.KEY_FINDINGS,
     report_section_type.FILE_SYSTEM, report_section_type.WINDOWS_ARTIFACT,
     report_section_type.BROWSER, report_section_type.MEDIA, report_section_type.TIMELINE,
     report_section_type.KEYWORD_SEARCH, report_section_type.AI_ASSISTANCE,
     report_section_type.MACHINE_CANDIDATE, report_section_type.LIMITATIONS,
     report_section_type.CONCLUSION, report_section_type.RECOMMENDATION,
     report_section_type.TECHNICAL_APPENDIX, report_section_type.OTHER]"

interpretation report_section_type_enum: str_enum report_section_type_members report_section_type_value
proof
  show "x \<in> set report_section_type_members" for x by (cases x) (simp_all add: report_section_type_members_def)
qed (simp add: report_section_type_members_def)

datatype report_content_kind =
    PLAIN_TEXT | MARKDOWN_SUBSET | STRUCTURED_DATA | REFERENCE_LIST | TABLE_DATA | OTHER

fun report_content_kind_value :: "report_content_kind \<Rightarrow> string" where
  "report_content_kind_value report_content_kind.PLAIN_TEXT = ''PLAIN_TEXT''"
| "report_content_kind_value report_content_kind.MARKDOWN_SUBSET = ''MARKDOWN_SUBSET''"
| "report_content_kind_value report_content_kind.STRUCTURED_DATA = ''STRUCTURED_DATA''"
| "report_content_kind_value report_content_kind.REFERENCE_LIST = ''REFERENCE_LIST''"
| "report_content_kind_value report_content_kind.TABLE_DATA = ''TABLE_DATA''"
| "report_content_kind_value report_content_kind.OTHER = ''OTHER''"

definition report_content_kind_members :: "report_content_kind list" where
  "report_content_kind_members = [
     report_content_kind.PLAIN_TEXT, report_content_kind.MARKDOWN_SUBSET,
     report_content_kind.STRUCTURED_DATA, report_content_kind.REFERENCE_LIST,
     report_content_kind.TABLE_DATA, report_content_kind.OTHER]"

interpretation report_content_kind_enum: str_enum report_content_kind_members report_content_kind_value
proof
  show "x \<in> set report_content_kind_members" for x by (cases x) (simp_all add: report_content_kind_members_def)
qed (simp add: report_content_kind_members_def)

datatype report_review_action =
    SUBMIT_FOR_REVIEW | COMMENT | REQUEST_CHANGES | ACCEPT_SECTION | REJECT_SECTION |
    MARK_REVIEW_COMPLETE | REOPEN_REVIEW

fun report_review_action_value :: "report_review_action \<Rightarrow> string" where
  "report_review_action_value report_review_action.SUBMIT_FOR_REVIEW = ''SUBMIT_FOR_REVIEW''"
| "report_review_action_value report_review_action.COMMENT = ''COMMENT''"
| "report_review_action_value report_review_action.REQUEST_CHANGES = ''REQUEST_CHANGES''"
| "report_review_action_value report_review_action.ACCEPT_SECTION = ''ACCEPT_SECTION''"
| "report_review_action_value report_review_action.REJECT_SECTION = ''REJECT_SECTION''"
| "report_review_action_value report_review_action.MARK_REVIEW_COMPLETE = ''MARK_REVIEW_COMPLETE''"
| "report_review_action_value report_review_action.REOPEN_REVIEW = ''REOPEN_REVIEW''"

definition report_review_action_members :: "report_review_action list" where
  "report_review_action_members = [
     report_review_action.SUBMIT_FOR_REVIEW, report_review_action.COMMENT,
     report_review_action.REQUEST_CHANGES, report_review_action.ACCEPT_SECTION,
     report_review_action.REJECT_SECTION, report_review_action.MARK_REVIEW_COMPLETE,
     report_review_action.REOPEN_REVIEW]"

interpretation report_review_action_enum: str_enum report_review_action_members report_review_action_value
proof
  show "x \<in> set report_review_action_members" for x by (cases x) (simp_all add: report_review_action_members_def)
qed (simp add: report_review_action_members_def)

datatype report_approval_decision =
    APPROVED | REJECTED | REVOKED

fun report_approval_decision_value :: "report_approval_decision \<Rightarrow> string" where
  "report_approval_decision_value report_approval_decision.APPROVED = ''APPROVED''"
| "report_approval_decision_value report_approval_decision.REJECTED = ''REJECTED''"
| "report_approval_decision_value report_approval_decision.REVOKED = ''REVOKED''"

definition report_approval_decision_members :: "report_approval_decision list" where
  "report_approval_decision_members = [
     report_approval_decision.APPROVED, report_approval_decision.REJECTED,
     report_approval_decision.REVOKED]"

interpretation report_approval_decision_enum: str_enum report_approval_decision_members report_approval_decision_value
proof
  show "x \<in> set report_approval_decision_members" for x by (cases x) (simp_all add: report_approval_decision_members_def)
qed (simp add: report_approval_decision_members_def)

datatype custody_snapshot_verification_status =
    VERIFIED | INVALID | PARTIAL | UNKNOWN

fun custody_snapshot_verification_status_value :: "custody_snapshot_verification_status \<Rightarrow> string" where
  "custody_snapshot_verification_status_value custody_snapshot_verification_status.VERIFIED = ''VERIFIED''"
| "custody_snapshot_verification_status_value custody_snapshot_verification_status.INVALID = ''INVALID''"
| "custody_snapshot_verification_status_value custody_snapshot_verification_status.PARTIAL = ''PARTIAL''"
| "custody_snapshot_verification_status_value custody_snapshot_verification_status.UNKNOWN = ''UNKNOWN''"

definition custody_snapshot_verification_status_members :: "custody_snapshot_verification_status list" where
  "custody_snapshot_verification_status_members = [
     custody_snapshot_verification_status.VERIFIED, custody_snapshot_verification_status.INVALID,
     custody_snapshot_verification_status.PARTIAL, custody_snapshot_verification_status.UNKNOWN]"

interpretation custody_snapshot_verification_status_enum: str_enum custody_snapshot_verification_status_members custody_snapshot_verification_status_value
proof
  show "x \<in> set custody_snapshot_verification_status_members" for x by (cases x) (simp_all add: custody_snapshot_verification_status_members_def)
qed (simp add: custody_snapshot_verification_status_members_def)

datatype report_export_format =
    PDF | HTML

fun report_export_format_value :: "report_export_format \<Rightarrow> string" where
  "report_export_format_value report_export_format.PDF = ''PDF''"
| "report_export_format_value report_export_format.HTML = ''HTML''"

definition report_export_format_members :: "report_export_format list" where
  "report_export_format_members = [
     report_export_format.PDF, report_export_format.HTML]"

interpretation report_export_format_enum: str_enum report_export_format_members report_export_format_value
proof
  show "x \<in> set report_export_format_members" for x by (cases x) (simp_all add: report_export_format_members_def)
qed (simp add: report_export_format_members_def)

datatype report_export_status =
    PREPARED | RENDERING | COMPLETED | FAILED | CANCELLED | CAPABILITY_UNAVAILABLE

fun report_export_status_value :: "report_export_status \<Rightarrow> string" where
  "report_export_status_value report_export_status.PREPARED = ''PREPARED''"
| "report_export_status_value report_export_status.RENDERING = ''RENDERING''"
| "report_export_status_value report_export_status.COMPLETED = ''COMPLETED''"
| "report_export_status_value report_export_status.FAILED = ''FAILED''"
| "report_export_status_value report_export_status.CANCELLED = ''CANCELLED''"
| "report_export_status_value report_export_status.CAPABILITY_UNAVAILABLE = ''CAPABILITY_UNAVAILABLE''"

definition report_export_status_members :: "report_export_status list" where
  "report_export_status_members = [
     report_export_status.PREPARED, report_export_status.RENDERING, report_export_status.COMPLETED,
     report_export_status.FAILED, report_export_status.CANCELLED,
     report_export_status.CAPABILITY_UNAVAILABLE]"

interpretation report_export_status_enum: str_enum report_export_status_members report_export_status_value
proof
  show "x \<in> set report_export_status_members" for x by (cases x) (simp_all add: report_export_status_members_def)
qed (simp add: report_export_status_members_def)

subsection \<open>Fields of a document\<close>

text \<open>\<open>int\<close> of a value; a text is an optional sign and digits that single underscores may group.\<close>

fun digit_groups :: "string \<Rightarrow> bool" where
  "digit_groups [] = False"
| "digit_groups [c] = is_digit c"
| "digit_groups (c # d # r) =
     (is_digit c \<and> (if d = CHR ''_'' then digit_groups r else digit_groups (d # r)))"

definition int_of_text :: "string \<Rightarrow> int res" where
  "int_of_text s =
     (let t = strip s;
          u = (if t \<noteq> [] \<and> hd t \<in> {CHR ''+'', CHR ''-''} then tl t else t);
          n = digits_val (filter is_digit u)
      in if digit_groups u then Inr (if t \<noteq> [] \<and> hd t = CHR ''-'' then - n else n)
         else Inl (PyExn ''ValueError''))"

fun py_int :: "pyval \<Rightarrow> int res" where
  "py_int (PInt n) = Inr n"
| "py_int (PBool b) = Inr (if b then 1 else 0)"
| "py_int (PFloat f) = (case fl_value f of
     Some q \<Rightarrow> Inr (if 0 \<le> q then \<lfloor>q\<rfloor> else \<lceil>q\<rceil>)
   | None \<Rightarrow> Inl (PyExn (if fl_repr f = ''nan'' then ''ValueError'' else ''OverflowError'')))"
| "py_int (PStr s) = int_of_text s"
| "py_int _ = Inl (PyExn ''TypeError'')"

definition doc_val :: "dict \<Rightarrow> string \<Rightarrow> pyval res" where
  "doc_val d k = (case dget d k of None \<Rightarrow> Inl (PyExn ''KeyError'') | Some v \<Rightarrow> Inr v)"

definition doc_str :: "dict \<Rightarrow> string \<Rightarrow> string res" where
  "doc_str d k = map_res py_str (doc_val d k)"

definition doc_str_or :: "dict \<Rightarrow> string \<Rightarrow> string \<Rightarrow> string res" where
  "doc_str_or d k v = Inr (py_str (dget_or d k (PStr v)))"

definition doc_int :: "dict \<Rightarrow> string \<Rightarrow> int res" where
  "doc_int d k = bind_res (doc_val d k) py_int"

definition doc_bool :: "dict \<Rightarrow> string \<Rightarrow> bool res" where
  "doc_bool d k = map_res truthy (doc_val d k)"

definition doc_bool_or :: "dict \<Rightarrow> string \<Rightarrow> bool \<Rightarrow> bool res" where
  "doc_bool_or d k b = Inr (truthy (dget_or d k (PBool b)))"

fun as_opt_str :: "pyval \<Rightarrow> string option res" where
  "as_opt_str PNone = Inr None"
| "as_opt_str (PStr s) = Inr (Some s)"
| "as_opt_str _ = Inl (PyExn ''TypeError'')"

fun as_opt_int :: "pyval \<Rightarrow> int option res" where
  "as_opt_int PNone = Inr None"
| "as_opt_int (PInt n) = Inr (Some n)"
| "as_opt_int _ = Inl (PyExn ''TypeError'')"

fun as_list :: "pyval \<Rightarrow> pyval list res" where
  "as_list (PList xs) = Inr xs"
| "as_list _ = Inl (PyExn ''TypeError'')"

fun as_dict :: "pyval \<Rightarrow> dict res" where
  "as_dict (PDict d) = Inr d"
| "as_dict _ = Inl (PyExn ''TypeError'')"

definition doc_opt_str :: "dict \<Rightarrow> string \<Rightarrow> string option res" where
  "doc_opt_str d k = as_opt_str (dget_or d k PNone)"

definition doc_opt_int :: "dict \<Rightarrow> string \<Rightarrow> int option res" where
  "doc_opt_int d k = as_opt_int (dget_or d k PNone)"

definition doc_list :: "dict \<Rightarrow> string \<Rightarrow> pyval list res" where
  "doc_list d k = as_list (dget_or d k (PList []))"

definition doc_strs :: "dict \<Rightarrow> string \<Rightarrow> string list res" where
  "doc_strs d k = map_res (List.map py_str) (doc_list d k)"

definition doc_ints :: "dict \<Rightarrow> string \<Rightarrow> int list res" where
  "doc_ints d k = bind_res (doc_list d k) (traverse py_int)"

definition doc_dict :: "dict \<Rightarrow> string \<Rightarrow> dict res" where
  "doc_dict d k = as_dict (dget_or d k (PDict []))"

definition doc_dicts :: "dict \<Rightarrow> string \<Rightarrow> dict list res" where
  "doc_dicts d k = bind_res (doc_list d k) (traverse as_dict)"

definition doc_time :: "dict \<Rightarrow> string \<Rightarrow> datetime res" where
  "doc_time d k = bind_res (doc_str d k) parse_timestamp"

definition doc_opt_time :: "dict \<Rightarrow> string \<Rightarrow> datetime option res" where
  "doc_opt_time d k = (case dget_or d k PNone of
     PNone \<Rightarrow> Inr None
   | v \<Rightarrow> map_res Some (parse_timestamp (py_str v)))"

text \<open>\<open>_ts\<close>, and the values of list fields.\<close>

fun ts :: "datetime option \<Rightarrow> pyval res" where
  "ts None = Inr PNone"
| "ts (Some t) = map_res PStr (to_json_timestamp t)"

abbreviation strs :: "string list \<Rightarrow> pyval" where
  "strs xs \<equiv> PList (List.map PStr xs)"

abbreviation dicts :: "dict list \<Rightarrow> pyval" where
  "dicts ds \<equiv> PList (List.map PDict ds)"

definition schema_version :: string where
  "schema_version = ''1.0.0''"

end
