(* ===== verification/Report_Model.thy ===== *)
theory Report_Model
  imports Report_Enums
begin

section \<open>The data of the report workflow\<close>

text \<open>
  The dataclasses of \<open>domain/models/report.py\<close> as records, each with its two conversions:
  \<open>to_schema_dict\<close>, the document that is stored and returned, and \<open>from_schema_dict\<close>, which
  reads a stored document.
\<close>


record report_record =
  rr_report_id :: string
  rr_case_id :: string
  rr_title :: string
  rr_description :: "string option"
  rr_report_type :: string
  rr_locale :: string
  rr_timezone :: string
  rr_status :: string
  rr_active_version_id :: "string option"
  rr_latest_version_number :: int
  rr_created_by :: string
  rr_created_at :: datetime
  rr_updated_at :: datetime
  rr_archived_at :: "datetime option"
  rr_report_fingerprint :: string
  rr_report_schema_version :: string

definition report_record_schema_dict :: "report_record \<Rightarrow> dict res" where
  "report_record_schema_dict r =
     bind_res (ts (Some (rr_created_at r))) (\<lambda>t_created_at.
     bind_res (ts (Some (rr_updated_at r))) (\<lambda>t_updated_at.
     bind_res (ts (rr_archived_at r)) (\<lambda>t_archived_at.
     Inr [(''report_id'', PStr (rr_report_id r)),
      (''case_id'', PStr (rr_case_id r)),
      (''title'', PStr (rr_title r)),
      (''description'', opt_str (rr_description r)),
      (''report_type'', PStr (rr_report_type r)),
      (''locale'', PStr (rr_locale r)),
      (''timezone'', PStr (rr_timezone r)),
      (''status'', PStr (rr_status r)),
      (''active_version_id'', opt_str (rr_active_version_id r)),
      (''latest_version_number'', PInt (rr_latest_version_number r)),
      (''created_by'', PStr (rr_created_by r)),
      (''created_at'', t_created_at),
      (''updated_at'', t_updated_at),
      (''archived_at'', t_archived_at),
      (''report_fingerprint'', PStr (rr_report_fingerprint r)),
      (''report_schema_version'', PStr (rr_report_schema_version r))])))"

definition report_record_from_schema :: "dict \<Rightarrow> report_record res" where
  "report_record_from_schema d =
     bind_res (doc_str d ''report_id'') (\<lambda>f_report_id.
     bind_res (doc_str d ''case_id'') (\<lambda>f_case_id.
     bind_res (doc_str d ''title'') (\<lambda>f_title.
     bind_res (doc_opt_str d ''description'') (\<lambda>f_description.
     bind_res (doc_str d ''report_type'') (\<lambda>f_report_type.
     bind_res (doc_str d ''locale'') (\<lambda>f_locale.
     bind_res (doc_str d ''timezone'') (\<lambda>f_timezone.
     bind_res (doc_str d ''status'') (\<lambda>f_status.
     bind_res (doc_opt_str d ''active_version_id'') (\<lambda>f_active_version_id.
     bind_res (doc_int d ''latest_version_number'') (\<lambda>f_latest_version_number.
     bind_res (doc_str d ''created_by'') (\<lambda>f_created_by.
     bind_res (doc_time d ''created_at'') (\<lambda>f_created_at.
     bind_res (doc_time d ''updated_at'') (\<lambda>f_updated_at.
     bind_res (doc_opt_time d ''archived_at'') (\<lambda>f_archived_at.
     bind_res (doc_str d ''report_fingerprint'') (\<lambda>f_report_fingerprint.
     bind_res (doc_str_or d ''report_schema_version'' schema_version) (\<lambda>f_report_schema_version.
     Inr \<lparr>rr_report_id = f_report_id, rr_case_id = f_case_id, rr_title = f_title,
       rr_description = f_description, rr_report_type = f_report_type, rr_locale = f_locale,
       rr_timezone = f_timezone, rr_status = f_status, rr_active_version_id = f_active_version_id,
       rr_latest_version_number = f_latest_version_number, rr_created_by = f_created_by,
       rr_created_at = f_created_at, rr_updated_at = f_updated_at, rr_archived_at = f_archived_at,
       rr_report_fingerprint = f_report_fingerprint,
       rr_report_schema_version = f_report_schema_version\<rparr>))))))))))))))))"

record report_section =
  rs_section_id :: string
  rs_section_type :: string
  rs_title :: string
  rs_order :: int
  rs_content_kind :: string
  rs_content :: string
  rs_structured_data :: dict
  rs_source_kind :: string
  rs_source_resource_ids :: "string list"
  rs_context_snapshot_ids :: "string list"
  rs_citations :: "dict list"
  rs_is_partial :: bool
  rs_stale_reasons :: "string list"
  rs_coverage :: dict
  rs_warnings :: "dict list"
  rs_section_fingerprint :: string

definition report_section_schema_dict :: "report_section \<Rightarrow> dict" where
  "report_section_schema_dict r =
     [(''section_id'', PStr (rs_section_id r)),
      (''section_type'', PStr (rs_section_type r)),
      (''title'', PStr (rs_title r)),
      (''order'', PInt (rs_order r)),
      (''content_kind'', PStr (rs_content_kind r)),
      (''content'', PStr (rs_content r)),
      (''structured_data'', PDict (rs_structured_data r)),
      (''source_kind'', PStr (rs_source_kind r)),
      (''source_resource_ids'', strs (rs_source_resource_ids r)),
      (''context_snapshot_ids'', strs (rs_context_snapshot_ids r)),
      (''citations'', dicts (rs_citations r)),
      (''is_partial'', PBool (rs_is_partial r)),
      (''stale_reasons'', strs (rs_stale_reasons r)),
      (''coverage'', PDict (rs_coverage r)),
      (''warnings'', dicts (rs_warnings r)),
      (''section_fingerprint'', PStr (rs_section_fingerprint r))]"

definition report_section_from_schema :: "dict \<Rightarrow> report_section res" where
  "report_section_from_schema d =
     bind_res (doc_str d ''section_id'') (\<lambda>f_section_id.
     bind_res (doc_str d ''section_type'') (\<lambda>f_section_type.
     bind_res (doc_str d ''title'') (\<lambda>f_title.
     bind_res (doc_int d ''order'') (\<lambda>f_order.
     bind_res (doc_str d ''content_kind'') (\<lambda>f_content_kind.
     bind_res (doc_str d ''content'') (\<lambda>f_content.
     bind_res (doc_dict d ''structured_data'') (\<lambda>f_structured_data.
     bind_res (doc_str d ''source_kind'') (\<lambda>f_source_kind.
     bind_res (doc_strs d ''source_resource_ids'') (\<lambda>f_source_resource_ids.
     bind_res (doc_strs d ''context_snapshot_ids'') (\<lambda>f_context_snapshot_ids.
     bind_res (doc_dicts d ''citations'') (\<lambda>f_citations.
     bind_res (doc_bool_or d ''is_partial'' False) (\<lambda>f_is_partial.
     bind_res (doc_strs d ''stale_reasons'') (\<lambda>f_stale_reasons.
     bind_res (doc_dict d ''coverage'') (\<lambda>f_coverage.
     bind_res (doc_dicts d ''warnings'') (\<lambda>f_warnings.
     bind_res (doc_str d ''section_fingerprint'') (\<lambda>f_section_fingerprint.
     Inr \<lparr>rs_section_id = f_section_id, rs_section_type = f_section_type, rs_title = f_title,
       rs_order = f_order, rs_content_kind = f_content_kind, rs_content = f_content,
       rs_structured_data = f_structured_data, rs_source_kind = f_source_kind,
       rs_source_resource_ids = f_source_resource_ids,
       rs_context_snapshot_ids = f_context_snapshot_ids, rs_citations = f_citations,
       rs_is_partial = f_is_partial, rs_stale_reasons = f_stale_reasons, rs_coverage = f_coverage,
       rs_warnings = f_warnings, rs_section_fingerprint = f_section_fingerprint\<rparr>))))))))))))))))"

record report_version =
  rv_report_version_id :: string
  rv_report_id :: string
  rv_case_id :: string
  rv_version_number :: int
  rv_previous_version_id :: "string option"
  rv_source_kind :: string
  rv_source_reference_id :: "string option"
  rv_created_by :: string
  rv_title :: string
  rv_executive_summary :: string
  rv_sections :: "report_section list"
  rv_context_snapshot_ids :: "string list"
  rv_evidence_ids :: "string list"
  rv_search_execution_ids :: "string list"
  rv_timeline_revisions :: "int list"
  rv_ai_assistance_request_ids :: "string list"
  rv_ai_result_ids :: "string list"
  rv_citation_ids :: "string list"
  rv_partial_state :: dict
  rv_stale_state :: dict
  rv_coverage_summary :: dict
  rv_limitations :: "string list"
  rv_analyzer_versions :: dict
  rv_source_revisions :: "dict list"
  rv_content_fingerprint :: string
  rv_previous_content_fingerprint :: "string option"
  rv_review_state :: dict
  rv_approval_state :: dict
  rv_created_at :: datetime
  rv_report_schema_version :: string

definition report_version_schema_dict :: "report_version \<Rightarrow> dict res" where
  "report_version_schema_dict r =
     bind_res (ts (Some (rv_created_at r))) (\<lambda>t_created_at.
     Inr [(''report_version_id'', PStr (rv_report_version_id r)),
      (''report_id'', PStr (rv_report_id r)),
      (''case_id'', PStr (rv_case_id r)),
      (''version_number'', PInt (rv_version_number r)),
      (''previous_version_id'', opt_str (rv_previous_version_id r)),
      (''source_kind'', PStr (rv_source_kind r)),
      (''source_reference_id'', opt_str (rv_source_reference_id r)),
      (''created_by'', PStr (rv_created_by r)),
      (''title'', PStr (rv_title r)),
      (''executive_summary'', PStr (rv_executive_summary r)),
      (''sections'', dicts (List.map report_section_schema_dict (rv_sections r))),
      (''context_snapshot_ids'', strs (rv_context_snapshot_ids r)),
      (''evidence_ids'', strs (rv_evidence_ids r)),
      (''search_execution_ids'', strs (rv_search_execution_ids r)),
      (''timeline_revisions'', PList (List.map PInt (rv_timeline_revisions r))),
      (''ai_assistance_request_ids'', strs (rv_ai_assistance_request_ids r)),
      (''ai_result_ids'', strs (rv_ai_result_ids r)),
      (''citation_ids'', strs (rv_citation_ids r)),
      (''partial_state'', PDict (rv_partial_state r)),
      (''stale_state'', PDict (rv_stale_state r)),
      (''coverage_summary'', PDict (rv_coverage_summary r)),
      (''limitations'', strs (rv_limitations r)),
      (''analyzer_versions'', PDict (rv_analyzer_versions r)),
      (''source_revisions'', dicts (rv_source_revisions r)),
      (''content_fingerprint'', PStr (rv_content_fingerprint r)),
      (''previous_content_fingerprint'', opt_str (rv_previous_content_fingerprint r)),
      (''review_state'', PDict (rv_review_state r)),
      (''approval_state'', PDict (rv_approval_state r)),
      (''created_at'', t_created_at),
      (''report_schema_version'', PStr (rv_report_schema_version r))])"

definition report_version_from_schema :: "dict \<Rightarrow> report_version res" where
  "report_version_from_schema d =
     bind_res (doc_str d ''report_version_id'') (\<lambda>f_report_version_id.
     bind_res (doc_str d ''report_id'') (\<lambda>f_report_id.
     bind_res (doc_str d ''case_id'') (\<lambda>f_case_id.
     bind_res (doc_int d ''version_number'') (\<lambda>f_version_number.
     bind_res (doc_opt_str d ''previous_version_id'') (\<lambda>f_previous_version_id.
     bind_res (doc_str d ''source_kind'') (\<lambda>f_source_kind.
     bind_res (doc_opt_str d ''source_reference_id'') (\<lambda>f_source_reference_id.
     bind_res (doc_str d ''created_by'') (\<lambda>f_created_by.
     bind_res (doc_str d ''title'') (\<lambda>f_title.
     bind_res (doc_str d ''executive_summary'') (\<lambda>f_executive_summary.
     bind_res (bind_res (doc_dicts d ''sections'') (traverse report_section_from_schema)) (\<lambda>f_sections.
     bind_res (doc_strs d ''context_snapshot_ids'') (\<lambda>f_context_snapshot_ids.
     bind_res (doc_strs d ''evidence_ids'') (\<lambda>f_evidence_ids.
     bind_res (doc_strs d ''search_execution_ids'') (\<lambda>f_search_execution_ids.
     bind_res (doc_ints d ''timeline_revisions'') (\<lambda>f_timeline_revisions.
     bind_res (doc_strs d ''ai_assistance_request_ids'') (\<lambda>f_ai_assistance_request_ids.
     bind_res (doc_strs d ''ai_result_ids'') (\<lambda>f_ai_result_ids.
     bind_res (doc_strs d ''citation_ids'') (\<lambda>f_citation_ids.
     bind_res (doc_dict d ''partial_state'') (\<lambda>f_partial_state.
     bind_res (doc_dict d ''stale_state'') (\<lambda>f_stale_state.
     bind_res (doc_dict d ''coverage_summary'') (\<lambda>f_coverage_summary.
     bind_res (doc_strs d ''limitations'') (\<lambda>f_limitations.
     bind_res (doc_dict d ''analyzer_versions'') (\<lambda>f_analyzer_versions.
     bind_res (doc_dicts d ''source_revisions'') (\<lambda>f_source_revisions.
     bind_res (doc_str d ''content_fingerprint'') (\<lambda>f_content_fingerprint.
     bind_res (doc_opt_str d ''previous_content_fingerprint'') (\<lambda>f_previous_content_fingerprint.
     bind_res (doc_dict d ''review_state'') (\<lambda>f_review_state.
     bind_res (doc_dict d ''approval_state'') (\<lambda>f_approval_state.
     bind_res (doc_time d ''created_at'') (\<lambda>f_created_at.
     bind_res (doc_str_or d ''report_schema_version'' schema_version) (\<lambda>f_report_schema_version.
     Inr \<lparr>rv_report_version_id = f_report_version_id, rv_report_id = f_report_id,
       rv_case_id = f_case_id, rv_version_number = f_version_number,
       rv_previous_version_id = f_previous_version_id, rv_source_kind = f_source_kind,
       rv_source_reference_id = f_source_reference_id, rv_created_by = f_created_by,
       rv_title = f_title, rv_executive_summary = f_executive_summary, rv_sections = f_sections,
       rv_context_snapshot_ids = f_context_snapshot_ids, rv_evidence_ids = f_evidence_ids,
       rv_search_execution_ids = f_search_execution_ids,
       rv_timeline_revisions = f_timeline_revisions,
       rv_ai_assistance_request_ids = f_ai_assistance_request_ids,
       rv_ai_result_ids = f_ai_result_ids, rv_citation_ids = f_citation_ids,
       rv_partial_state = f_partial_state, rv_stale_state = f_stale_state,
       rv_coverage_summary = f_coverage_summary, rv_limitations = f_limitations,
       rv_analyzer_versions = f_analyzer_versions, rv_source_revisions = f_source_revisions,
       rv_content_fingerprint = f_content_fingerprint,
       rv_previous_content_fingerprint = f_previous_content_fingerprint,
       rv_review_state = f_review_state, rv_approval_state = f_approval_state,
       rv_created_at = f_created_at, rv_report_schema_version = f_report_schema_version\<rparr>))))))))))))))))))))))))))))))"

record review_event =
  rw_review_event_id :: string
  rw_report_id :: string
  rw_report_version_id :: string
  rw_case_id :: string
  rw_action :: string
  rw_actor_id :: string
  rw_reason :: string
  rw_section_id :: "string option"
  rw_comment :: "string option"
  rw_requested_changes :: "string list"
  rw_expected_review_revision :: "int option"
  rw_review_revision :: int
  rw_previous_event_hash :: "string option"
  rw_event_hash :: string
  rw_created_at :: datetime

definition review_event_schema_dict :: "review_event \<Rightarrow> dict res" where
  "review_event_schema_dict r =
     bind_res (ts (Some (rw_created_at r))) (\<lambda>t_created_at.
     Inr [(''review_event_id'', PStr (rw_review_event_id r)),
      (''report_id'', PStr (rw_report_id r)),
      (''report_version_id'', PStr (rw_report_version_id r)),
      (''case_id'', PStr (rw_case_id r)),
      (''action'', PStr (rw_action r)),
      (''actor_id'', PStr (rw_actor_id r)),
      (''reason'', PStr (rw_reason r)),
      (''section_id'', opt_str (rw_section_id r)),
      (''comment'', opt_str (rw_comment r)),
      (''requested_changes'', strs (rw_requested_changes r)),
      (''expected_review_revision'', opt_int (rw_expected_review_revision r)),
      (''review_revision'', PInt (rw_review_revision r)),
      (''previous_event_hash'', opt_str (rw_previous_event_hash r)),
      (''event_hash'', PStr (rw_event_hash r)),
      (''created_at'', t_created_at)])"

definition review_event_from_schema :: "dict \<Rightarrow> review_event res" where
  "review_event_from_schema d =
     bind_res (doc_str d ''review_event_id'') (\<lambda>f_review_event_id.
     bind_res (doc_str d ''report_id'') (\<lambda>f_report_id.
     bind_res (doc_str d ''report_version_id'') (\<lambda>f_report_version_id.
     bind_res (doc_str d ''case_id'') (\<lambda>f_case_id.
     bind_res (doc_str d ''action'') (\<lambda>f_action.
     bind_res (doc_str d ''actor_id'') (\<lambda>f_actor_id.
     bind_res (doc_str d ''reason'') (\<lambda>f_reason.
     bind_res (doc_opt_str d ''section_id'') (\<lambda>f_section_id.
     bind_res (doc_opt_str d ''comment'') (\<lambda>f_comment.
     bind_res (doc_strs d ''requested_changes'') (\<lambda>f_requested_changes.
     bind_res (doc_opt_int d ''expected_review_revision'') (\<lambda>f_expected_review_revision.
     bind_res (doc_int d ''review_revision'') (\<lambda>f_review_revision.
     bind_res (doc_opt_str d ''previous_event_hash'') (\<lambda>f_previous_event_hash.
     bind_res (doc_str d ''event_hash'') (\<lambda>f_event_hash.
     bind_res (doc_time d ''created_at'') (\<lambda>f_created_at.
     Inr \<lparr>rw_review_event_id = f_review_event_id, rw_report_id = f_report_id,
       rw_report_version_id = f_report_version_id, rw_case_id = f_case_id, rw_action = f_action,
       rw_actor_id = f_actor_id, rw_reason = f_reason, rw_section_id = f_section_id,
       rw_comment = f_comment, rw_requested_changes = f_requested_changes,
       rw_expected_review_revision = f_expected_review_revision,
       rw_review_revision = f_review_revision, rw_previous_event_hash = f_previous_event_hash,
       rw_event_hash = f_event_hash, rw_created_at = f_created_at\<rparr>)))))))))))))))"

record approval_record =
  ra_approval_id :: string
  ra_report_id :: string
  ra_report_version_id :: string
  ra_case_id :: string
  ra_approver_id :: string
  ra_decision :: string
  ra_reason :: string
  ra_content_fingerprint :: string
  ra_custody_snapshot_id :: "string option"
  ra_approval_revision :: int
  ra_previous_approval_hash :: "string option"
  ra_approval_hash :: string
  ra_decided_at :: datetime

definition approval_record_schema_dict :: "approval_record \<Rightarrow> dict res" where
  "approval_record_schema_dict r =
     bind_res (ts (Some (ra_decided_at r))) (\<lambda>t_decided_at.
     Inr [(''approval_id'', PStr (ra_approval_id r)),
      (''report_id'', PStr (ra_report_id r)),
      (''report_version_id'', PStr (ra_report_version_id r)),
      (''case_id'', PStr (ra_case_id r)),
      (''approver_id'', PStr (ra_approver_id r)),
      (''decision'', PStr (ra_decision r)),
      (''reason'', PStr (ra_reason r)),
      (''content_fingerprint'', PStr (ra_content_fingerprint r)),
      (''custody_snapshot_id'', opt_str (ra_custody_snapshot_id r)),
      (''approval_revision'', PInt (ra_approval_revision r)),
      (''previous_approval_hash'', opt_str (ra_previous_approval_hash r)),
      (''approval_hash'', PStr (ra_approval_hash r)),
      (''decided_at'', t_decided_at)])"

definition approval_record_from_schema :: "dict \<Rightarrow> approval_record res" where
  "approval_record_from_schema d =
     bind_res (doc_str d ''approval_id'') (\<lambda>f_approval_id.
     bind_res (doc_str d ''report_id'') (\<lambda>f_report_id.
     bind_res (doc_str d ''report_version_id'') (\<lambda>f_report_version_id.
     bind_res (doc_str d ''case_id'') (\<lambda>f_case_id.
     bind_res (doc_str d ''approver_id'') (\<lambda>f_approver_id.
     bind_res (doc_str d ''decision'') (\<lambda>f_decision.
     bind_res (doc_str d ''reason'') (\<lambda>f_reason.
     bind_res (doc_str d ''content_fingerprint'') (\<lambda>f_content_fingerprint.
     bind_res (doc_opt_str d ''custody_snapshot_id'') (\<lambda>f_custody_snapshot_id.
     bind_res (doc_int d ''approval_revision'') (\<lambda>f_approval_revision.
     bind_res (doc_opt_str d ''previous_approval_hash'') (\<lambda>f_previous_approval_hash.
     bind_res (doc_str d ''approval_hash'') (\<lambda>f_approval_hash.
     bind_res (doc_time d ''decided_at'') (\<lambda>f_decided_at.
     Inr \<lparr>ra_approval_id = f_approval_id, ra_report_id = f_report_id,
       ra_report_version_id = f_report_version_id, ra_case_id = f_case_id,
       ra_approver_id = f_approver_id, ra_decision = f_decision, ra_reason = f_reason,
       ra_content_fingerprint = f_content_fingerprint,
       ra_custody_snapshot_id = f_custody_snapshot_id, ra_approval_revision = f_approval_revision,
       ra_previous_approval_hash = f_previous_approval_hash, ra_approval_hash = f_approval_hash,
       ra_decided_at = f_decided_at\<rparr>)))))))))))))"

record custody_snapshot =
  cn_custody_snapshot_id :: string
  cn_case_id :: string
  cn_report_id :: string
  cn_report_version_id :: string
  cn_evidence_ids :: "string list"
  cn_custody_event_ids :: "string list"
  cn_ledger_head_hash :: "string option"
  cn_verification_status :: string
  cn_verification_errors :: "dict list"
  cn_event_count :: int
  cn_first_event_at :: "datetime option"
  cn_last_event_at :: "datetime option"
  cn_captured_by :: string
  cn_captured_at :: datetime
  cn_snapshot_fingerprint :: string
  cn_snapshot_version :: string

definition custody_snapshot_schema_dict :: "custody_snapshot \<Rightarrow> dict res" where
  "custody_snapshot_schema_dict r =
     bind_res (ts (cn_first_event_at r)) (\<lambda>t_first_event_at.
     bind_res (ts (cn_last_event_at r)) (\<lambda>t_last_event_at.
     bind_res (ts (Some (cn_captured_at r))) (\<lambda>t_captured_at.
     Inr [(''custody_snapshot_id'', PStr (cn_custody_snapshot_id r)),
      (''case_id'', PStr (cn_case_id r)),
      (''report_id'', PStr (cn_report_id r)),
      (''report_version_id'', PStr (cn_report_version_id r)),
      (''evidence_ids'', strs (cn_evidence_ids r)),
      (''custody_event_ids'', strs (cn_custody_event_ids r)),
      (''ledger_head_hash'', opt_str (cn_ledger_head_hash r)),
      (''verification_status'', PStr (cn_verification_status r)),
      (''verification_errors'', dicts (cn_verification_errors r)),
      (''event_count'', PInt (cn_event_count r)),
      (''first_event_at'', t_first_event_at),
      (''last_event_at'', t_last_event_at),
      (''captured_by'', PStr (cn_captured_by r)),
      (''captured_at'', t_captured_at),
      (''snapshot_fingerprint'', PStr (cn_snapshot_fingerprint r)),
      (''snapshot_version'', PStr (cn_snapshot_version r))])))"

definition custody_snapshot_from_schema :: "dict \<Rightarrow> custody_snapshot res" where
  "custody_snapshot_from_schema d =
     bind_res (doc_str d ''custody_snapshot_id'') (\<lambda>f_custody_snapshot_id.
     bind_res (doc_str d ''case_id'') (\<lambda>f_case_id.
     bind_res (doc_str d ''report_id'') (\<lambda>f_report_id.
     bind_res (doc_str d ''report_version_id'') (\<lambda>f_report_version_id.
     bind_res (doc_strs d ''evidence_ids'') (\<lambda>f_evidence_ids.
     bind_res (doc_strs d ''custody_event_ids'') (\<lambda>f_custody_event_ids.
     bind_res (doc_opt_str d ''ledger_head_hash'') (\<lambda>f_ledger_head_hash.
     bind_res (doc_str d ''verification_status'') (\<lambda>f_verification_status.
     bind_res (doc_dicts d ''verification_errors'') (\<lambda>f_verification_errors.
     bind_res (doc_int d ''event_count'') (\<lambda>f_event_count.
     bind_res (doc_opt_time d ''first_event_at'') (\<lambda>f_first_event_at.
     bind_res (doc_opt_time d ''last_event_at'') (\<lambda>f_last_event_at.
     bind_res (doc_str d ''captured_by'') (\<lambda>f_captured_by.
     bind_res (doc_time d ''captured_at'') (\<lambda>f_captured_at.
     bind_res (doc_str d ''snapshot_fingerprint'') (\<lambda>f_snapshot_fingerprint.
     bind_res (doc_str_or d ''snapshot_version'' schema_version) (\<lambda>f_snapshot_version.
     Inr \<lparr>cn_custody_snapshot_id = f_custody_snapshot_id, cn_case_id = f_case_id,
       cn_report_id = f_report_id, cn_report_version_id = f_report_version_id,
       cn_evidence_ids = f_evidence_ids, cn_custody_event_ids = f_custody_event_ids,
       cn_ledger_head_hash = f_ledger_head_hash, cn_verification_status = f_verification_status,
       cn_verification_errors = f_verification_errors, cn_event_count = f_event_count,
       cn_first_event_at = f_first_event_at, cn_last_event_at = f_last_event_at,
       cn_captured_by = f_captured_by, cn_captured_at = f_captured_at,
       cn_snapshot_fingerprint = f_snapshot_fingerprint, cn_snapshot_version = f_snapshot_version\<rparr>))))))))))))))))"

record render_package =
  rp_package_id :: string
  rp_report_id :: string
  rp_report_version_id :: string
  rp_case_id :: string
  rp_locale :: string
  rp_timezone :: string
  rp_report_metadata :: dict
  rp_sections :: "dict list"
  rp_evidence_manifest :: "dict list"
  rp_hash_integrity_summary :: dict
  rp_custody_snapshot_id :: "string option"
  rp_context_snapshot_ids :: "string list"
  rp_citations :: "dict list"
  rp_partial_state :: dict
  rp_stale_state :: dict
  rp_coverage_summary :: dict
  rp_limitations :: "string list"
  rp_renderer_requirements :: dict
  rp_package_fingerprint :: string
  rp_created_at :: datetime
  rp_package_version :: string

definition render_package_schema_dict :: "render_package \<Rightarrow> dict res" where
  "render_package_schema_dict r =
     bind_res (ts (Some (rp_created_at r))) (\<lambda>t_created_at.
     Inr [(''package_id'', PStr (rp_package_id r)),
      (''report_id'', PStr (rp_report_id r)),
      (''report_version_id'', PStr (rp_report_version_id r)),
      (''case_id'', PStr (rp_case_id r)),
      (''locale'', PStr (rp_locale r)),
      (''timezone'', PStr (rp_timezone r)),
      (''report_metadata'', PDict (rp_report_metadata r)),
      (''sections'', dicts (rp_sections r)),
      (''evidence_manifest'', dicts (rp_evidence_manifest r)),
      (''hash_integrity_summary'', PDict (rp_hash_integrity_summary r)),
      (''custody_snapshot_id'', opt_str (rp_custody_snapshot_id r)),
      (''context_snapshot_ids'', strs (rp_context_snapshot_ids r)),
      (''citations'', dicts (rp_citations r)),
      (''partial_state'', PDict (rp_partial_state r)),
      (''stale_state'', PDict (rp_stale_state r)),
      (''coverage_summary'', PDict (rp_coverage_summary r)),
      (''limitations'', strs (rp_limitations r)),
      (''renderer_requirements'', PDict (rp_renderer_requirements r)),
      (''package_fingerprint'', PStr (rp_package_fingerprint r)),
      (''created_at'', t_created_at),
      (''package_version'', PStr (rp_package_version r))])"

definition render_package_from_schema :: "dict \<Rightarrow> render_package res" where
  "render_package_from_schema d =
     bind_res (doc_str d ''package_id'') (\<lambda>f_package_id.
     bind_res (doc_str d ''report_id'') (\<lambda>f_report_id.
     bind_res (doc_str d ''report_version_id'') (\<lambda>f_report_version_id.
     bind_res (doc_str d ''case_id'') (\<lambda>f_case_id.
     bind_res (doc_str d ''locale'') (\<lambda>f_locale.
     bind_res (doc_str d ''timezone'') (\<lambda>f_timezone.
     bind_res (doc_dict d ''report_metadata'') (\<lambda>f_report_metadata.
     bind_res (doc_dicts d ''sections'') (\<lambda>f_sections.
     bind_res (doc_dicts d ''evidence_manifest'') (\<lambda>f_evidence_manifest.
     bind_res (doc_dict d ''hash_integrity_summary'') (\<lambda>f_hash_integrity_summary.
     bind_res (doc_opt_str d ''custody_snapshot_id'') (\<lambda>f_custody_snapshot_id.
     bind_res (doc_strs d ''context_snapshot_ids'') (\<lambda>f_context_snapshot_ids.
     bind_res (doc_dicts d ''citations'') (\<lambda>f_citations.
     bind_res (doc_dict d ''partial_state'') (\<lambda>f_partial_state.
     bind_res (doc_dict d ''stale_state'') (\<lambda>f_stale_state.
     bind_res (doc_dict d ''coverage_summary'') (\<lambda>f_coverage_summary.
     bind_res (doc_strs d ''limitations'') (\<lambda>f_limitations.
     bind_res (doc_dict d ''renderer_requirements'') (\<lambda>f_renderer_requirements.
     bind_res (doc_str d ''package_fingerprint'') (\<lambda>f_package_fingerprint.
     bind_res (doc_time d ''created_at'') (\<lambda>f_created_at.
     bind_res (doc_str_or d ''package_version'' schema_version) (\<lambda>f_package_version.
     Inr \<lparr>rp_package_id = f_package_id, rp_report_id = f_report_id,
       rp_report_version_id = f_report_version_id, rp_case_id = f_case_id, rp_locale = f_locale,
       rp_timezone = f_timezone, rp_report_metadata = f_report_metadata, rp_sections = f_sections,
       rp_evidence_manifest = f_evidence_manifest,
       rp_hash_integrity_summary = f_hash_integrity_summary,
       rp_custody_snapshot_id = f_custody_snapshot_id,
       rp_context_snapshot_ids = f_context_snapshot_ids, rp_citations = f_citations,
       rp_partial_state = f_partial_state, rp_stale_state = f_stale_state,
       rp_coverage_summary = f_coverage_summary, rp_limitations = f_limitations,
       rp_renderer_requirements = f_renderer_requirements,
       rp_package_fingerprint = f_package_fingerprint, rp_created_at = f_created_at,
       rp_package_version = f_package_version\<rparr>)))))))))))))))))))))"

record export_manifest =
  xm_export_manifest_id :: string
  xm_report_id :: string
  xm_report_version_id :: string
  xm_case_id :: string
  xm_format :: string
  xm_render_package_id :: string
  xm_renderer_id :: string
  xm_renderer_version :: string
  xm_requested_filename :: string
  xm_derived_output_root_id :: string
  xm_overwrite_policy :: string
  xm_redaction_policy :: string
  xm_include_citations :: bool
  xm_include_custody :: bool
  xm_include_technical_appendix :: bool
  xm_content_fingerprint :: string
  xm_manifest_fingerprint :: string
  xm_approval_id :: string
  xm_custody_snapshot_id :: "string option"
  xm_status :: string
  xm_warnings :: "dict list"
  xm_created_by :: string
  xm_created_at :: datetime
  xm_manifest_version :: string

definition export_manifest_schema_dict :: "export_manifest \<Rightarrow> dict res" where
  "export_manifest_schema_dict r =
     bind_res (ts (Some (xm_created_at r))) (\<lambda>t_created_at.
     Inr [(''export_manifest_id'', PStr (xm_export_manifest_id r)),
      (''report_id'', PStr (xm_report_id r)),
      (''report_version_id'', PStr (xm_report_version_id r)),
      (''case_id'', PStr (xm_case_id r)),
      (''format'', PStr (xm_format r)),
      (''render_package_id'', PStr (xm_render_package_id r)),
      (''renderer_id'', PStr (xm_renderer_id r)),
      (''renderer_version'', PStr (xm_renderer_version r)),
      (''requested_filename'', PStr (xm_requested_filename r)),
      (''derived_output_root_id'', PStr (xm_derived_output_root_id r)),
      (''overwrite_policy'', PStr (xm_overwrite_policy r)),
      (''redaction_policy'', PStr (xm_redaction_policy r)),
      (''include_citations'', PBool (xm_include_citations r)),
      (''include_custody'', PBool (xm_include_custody r)),
      (''include_technical_appendix'', PBool (xm_include_technical_appendix r)),
      (''content_fingerprint'', PStr (xm_content_fingerprint r)),
      (''manifest_fingerprint'', PStr (xm_manifest_fingerprint r)),
      (''approval_id'', PStr (xm_approval_id r)),
      (''custody_snapshot_id'', opt_str (xm_custody_snapshot_id r)),
      (''status'', PStr (xm_status r)),
      (''warnings'', dicts (xm_warnings r)),
      (''created_by'', PStr (xm_created_by r)),
      (''created_at'', t_created_at),
      (''manifest_version'', PStr (xm_manifest_version r))])"

definition export_manifest_from_schema :: "dict \<Rightarrow> export_manifest res" where
  "export_manifest_from_schema d =
     bind_res (doc_str d ''export_manifest_id'') (\<lambda>f_export_manifest_id.
     bind_res (doc_str d ''report_id'') (\<lambda>f_report_id.
     bind_res (doc_str d ''report_version_id'') (\<lambda>f_report_version_id.
     bind_res (doc_str d ''case_id'') (\<lambda>f_case_id.
     bind_res (doc_str d ''format'') (\<lambda>f_format.
     bind_res (doc_str d ''render_package_id'') (\<lambda>f_render_package_id.
     bind_res (doc_str d ''renderer_id'') (\<lambda>f_renderer_id.
     bind_res (doc_str d ''renderer_version'') (\<lambda>f_renderer_version.
     bind_res (doc_str d ''requested_filename'') (\<lambda>f_requested_filename.
     bind_res (doc_str d ''derived_output_root_id'') (\<lambda>f_derived_output_root_id.
     bind_res (doc_str d ''overwrite_policy'') (\<lambda>f_overwrite_policy.
     bind_res (doc_str d ''redaction_policy'') (\<lambda>f_redaction_policy.
     bind_res (doc_bool d ''include_citations'') (\<lambda>f_include_citations.
     bind_res (doc_bool d ''include_custody'') (\<lambda>f_include_custody.
     bind_res (doc_bool d ''include_technical_appendix'') (\<lambda>f_include_technical_appendix.
     bind_res (doc_str d ''content_fingerprint'') (\<lambda>f_content_fingerprint.
     bind_res (doc_str_or d ''manifest_fingerprint'' '''') (\<lambda>f_manifest_fingerprint.
     bind_res (doc_str d ''approval_id'') (\<lambda>f_approval_id.
     bind_res (doc_opt_str d ''custody_snapshot_id'') (\<lambda>f_custody_snapshot_id.
     bind_res (doc_str d ''status'') (\<lambda>f_status.
     bind_res (doc_dicts d ''warnings'') (\<lambda>f_warnings.
     bind_res (doc_str d ''created_by'') (\<lambda>f_created_by.
     bind_res (doc_time d ''created_at'') (\<lambda>f_created_at.
     bind_res (doc_str_or d ''manifest_version'' schema_version) (\<lambda>f_manifest_version.
     Inr \<lparr>xm_export_manifest_id = f_export_manifest_id, xm_report_id = f_report_id,
       xm_report_version_id = f_report_version_id, xm_case_id = f_case_id, xm_format = f_format,
       xm_render_package_id = f_render_package_id, xm_renderer_id = f_renderer_id,
       xm_renderer_version = f_renderer_version, xm_requested_filename = f_requested_filename,
       xm_derived_output_root_id = f_derived_output_root_id,
       xm_overwrite_policy = f_overwrite_policy, xm_redaction_policy = f_redaction_policy,
       xm_include_citations = f_include_citations, xm_include_custody = f_include_custody,
       xm_include_technical_appendix = f_include_technical_appendix,
       xm_content_fingerprint = f_content_fingerprint,
       xm_manifest_fingerprint = f_manifest_fingerprint, xm_approval_id = f_approval_id,
       xm_custody_snapshot_id = f_custody_snapshot_id, xm_status = f_status,
       xm_warnings = f_warnings, xm_created_by = f_created_by, xm_created_at = f_created_at,
       xm_manifest_version = f_manifest_version\<rparr>))))))))))))))))))))))))"

record rendered_artifact =
  rf_rendered_artifact_id :: string
  rf_export_manifest_id :: string
  rf_report_version_id :: string
  rf_format :: string
  rf_renderer_id :: string
  rf_renderer_version :: string
  rf_output_reference :: string
  rf_filename :: string
  rf_mime_type :: string
  rf_size_bytes :: int
  rf_sha256 :: string
  rf_rendered_at :: datetime
  rf_warnings :: "dict list"
  rf_artifact_fingerprint :: string

definition rendered_artifact_schema_dict :: "rendered_artifact \<Rightarrow> dict res" where
  "rendered_artifact_schema_dict r =
     bind_res (ts (Some (rf_rendered_at r))) (\<lambda>t_rendered_at.
     Inr [(''rendered_artifact_id'', PStr (rf_rendered_artifact_id r)),
      (''export_manifest_id'', PStr (rf_export_manifest_id r)),
      (''report_version_id'', PStr (rf_report_version_id r)),
      (''format'', PStr (rf_format r)),
      (''renderer_id'', PStr (rf_renderer_id r)),
      (''renderer_version'', PStr (rf_renderer_version r)),
      (''output_reference'', PStr (rf_output_reference r)),
      (''filename'', PStr (rf_filename r)),
      (''mime_type'', PStr (rf_mime_type r)),
      (''size_bytes'', PInt (rf_size_bytes r)),
      (''sha256'', PStr (rf_sha256 r)),
      (''rendered_at'', t_rendered_at),
      (''warnings'', dicts (rf_warnings r)),
      (''artifact_fingerprint'', PStr (rf_artifact_fingerprint r))])"

definition rendered_artifact_from_schema :: "dict \<Rightarrow> rendered_artifact res" where
  "rendered_artifact_from_schema d =
     bind_res (doc_str d ''rendered_artifact_id'') (\<lambda>f_rendered_artifact_id.
     bind_res (doc_str d ''export_manifest_id'') (\<lambda>f_export_manifest_id.
     bind_res (doc_str d ''report_version_id'') (\<lambda>f_report_version_id.
     bind_res (doc_str d ''format'') (\<lambda>f_format.
     bind_res (doc_str d ''renderer_id'') (\<lambda>f_renderer_id.
     bind_res (doc_str d ''renderer_version'') (\<lambda>f_renderer_version.
     bind_res (doc_str d ''output_reference'') (\<lambda>f_output_reference.
     bind_res (doc_str d ''filename'') (\<lambda>f_filename.
     bind_res (doc_str d ''mime_type'') (\<lambda>f_mime_type.
     bind_res (doc_int d ''size_bytes'') (\<lambda>f_size_bytes.
     bind_res (doc_str d ''sha256'') (\<lambda>f_sha256.
     bind_res (doc_time d ''rendered_at'') (\<lambda>f_rendered_at.
     bind_res (doc_dicts d ''warnings'') (\<lambda>f_warnings.
     bind_res (doc_str d ''artifact_fingerprint'') (\<lambda>f_artifact_fingerprint.
     Inr \<lparr>rf_rendered_artifact_id = f_rendered_artifact_id,
       rf_export_manifest_id = f_export_manifest_id, rf_report_version_id = f_report_version_id,
       rf_format = f_format, rf_renderer_id = f_renderer_id,
       rf_renderer_version = f_renderer_version, rf_output_reference = f_output_reference,
       rf_filename = f_filename, rf_mime_type = f_mime_type, rf_size_bytes = f_size_bytes,
       rf_sha256 = f_sha256, rf_rendered_at = f_rendered_at, rf_warnings = f_warnings,
       rf_artifact_fingerprint = f_artifact_fingerprint\<rparr>))))))))))))))"

record export_audit_event =
  xa_audit_event_id :: string
  xa_export_manifest_id :: string
  xa_report_id :: string
  xa_report_version_id :: string
  xa_case_id :: string
  xa_action :: string
  xa_actor_id :: "string option"
  xa_status :: string
  xa_details :: dict
  xa_previous_event_hash :: "string option"
  xa_event_hash :: string
  xa_created_at :: datetime

definition export_audit_event_schema_dict :: "export_audit_event \<Rightarrow> dict res" where
  "export_audit_event_schema_dict r =
     bind_res (ts (Some (xa_created_at r))) (\<lambda>t_created_at.
     Inr [(''audit_event_id'', PStr (xa_audit_event_id r)),
      (''export_manifest_id'', PStr (xa_export_manifest_id r)),
      (''report_id'', PStr (xa_report_id r)),
      (''report_version_id'', PStr (xa_report_version_id r)),
      (''case_id'', PStr (xa_case_id r)),
      (''action'', PStr (xa_action r)),
      (''actor_id'', opt_str (xa_actor_id r)),
      (''status'', PStr (xa_status r)),
      (''details'', PDict (xa_details r)),
      (''previous_event_hash'', opt_str (xa_previous_event_hash r)),
      (''event_hash'', PStr (xa_event_hash r)),
      (''created_at'', t_created_at)])"

definition export_audit_event_from_schema :: "dict \<Rightarrow> export_audit_event res" where
  "export_audit_event_from_schema d =
     bind_res (doc_str d ''audit_event_id'') (\<lambda>f_audit_event_id.
     bind_res (doc_str d ''export_manifest_id'') (\<lambda>f_export_manifest_id.
     bind_res (doc_str d ''report_id'') (\<lambda>f_report_id.
     bind_res (doc_str d ''report_version_id'') (\<lambda>f_report_version_id.
     bind_res (doc_str d ''case_id'') (\<lambda>f_case_id.
     bind_res (doc_str d ''action'') (\<lambda>f_action.
     bind_res (doc_opt_str d ''actor_id'') (\<lambda>f_actor_id.
     bind_res (doc_str d ''status'') (\<lambda>f_status.
     bind_res (doc_dict d ''details'') (\<lambda>f_details.
     bind_res (doc_opt_str d ''previous_event_hash'') (\<lambda>f_previous_event_hash.
     bind_res (doc_str d ''event_hash'') (\<lambda>f_event_hash.
     bind_res (doc_time d ''created_at'') (\<lambda>f_created_at.
     Inr \<lparr>xa_audit_event_id = f_audit_event_id, xa_export_manifest_id = f_export_manifest_id,
       xa_report_id = f_report_id, xa_report_version_id = f_report_version_id,
       xa_case_id = f_case_id, xa_action = f_action, xa_actor_id = f_actor_id,
       xa_status = f_status, xa_details = f_details,
       xa_previous_event_hash = f_previous_event_hash, xa_event_hash = f_event_hash,
       xa_created_at = f_created_at\<rparr>))))))))))))"

record renderer_capability =
  rc_renderer_id :: string
  rc_renderer_version :: string
  rc_supported_formats :: "string list"
  rc_is_available :: bool
  rc_unavailable_reason :: "string option"
  rc_warnings :: "dict list"
  rc_generated_at :: "datetime option"
  rc_capability_version :: string

definition renderer_capability_schema_dict :: "renderer_capability \<Rightarrow> dict res" where
  "renderer_capability_schema_dict r =
     bind_res (ts (rc_generated_at r)) (\<lambda>t_generated_at.
     Inr [(''schema_version'', PStr (rc_capability_version r)),
      (''renderer_id'', PStr (rc_renderer_id r)),
      (''renderer_version'', PStr (rc_renderer_version r)),
      (''supported_formats'', strs (rc_supported_formats r)),
      (''is_available'', PBool (rc_is_available r)),
      (''unavailable_reason'', opt_str (rc_unavailable_reason r)),
      (''warnings'', dicts (rc_warnings r)),
      (''generated_at'', t_generated_at)])"

definition renderer_capability_from_schema :: "dict \<Rightarrow> renderer_capability res" where
  "renderer_capability_from_schema d =
     bind_res (doc_str d ''renderer_id'') (\<lambda>f_renderer_id.
     bind_res (doc_str d ''renderer_version'') (\<lambda>f_renderer_version.
     bind_res (doc_strs d ''supported_formats'') (\<lambda>f_supported_formats.
     bind_res (doc_bool d ''is_available'') (\<lambda>f_is_available.
     bind_res (doc_opt_str d ''unavailable_reason'') (\<lambda>f_unavailable_reason.
     bind_res (doc_dicts d ''warnings'') (\<lambda>f_warnings.
     bind_res (doc_opt_time d ''generated_at'') (\<lambda>f_generated_at.
     bind_res (doc_str_or d ''schema_version'' schema_version) (\<lambda>f_capability_version.
     Inr \<lparr>rc_renderer_id = f_renderer_id, rc_renderer_version = f_renderer_version,
       rc_supported_formats = f_supported_formats, rc_is_available = f_is_available,
       rc_unavailable_reason = f_unavailable_reason, rc_warnings = f_warnings,
       rc_generated_at = f_generated_at, rc_capability_version = f_capability_version\<rparr>))))))))"

end
