(* ===== verification/Report_Text.thy ===== *)
theory Report_Text
  imports Report_Model
begin

section \<open>Validation of report input\<close>

text \<open>
  The validators of \<open>application/services/report.py\<close> (the module functions from \<open>_enum_value\<close> to
  \<open>_mime_type\<close>): what the report service accepts as text, lists, JSON payloads, warnings,
  citations, file names and output references.  The regular expressions are written out as
  matchers; letter case, white space and word characters are those of ASCII.  \<open>py_len\<close> counts
  code points of the UTF-8 text.
\<close>

subsection \<open>Errors and lengths\<close>

definition report_error_with ::
  "string \<Rightarrow> string \<Rightarrow> string option \<Rightarrow> bool \<Rightarrow> dict \<Rightarrow> exn" where
  "report_error_with code msg target retryable details =
     ApexExn \<lparr>ae_code = code, ae_message_key = ''error.'' @ lower code,
       ae_developer_message = Some msg, ae_target = target, ae_retryable = retryable,
       ae_details = details\<rparr>"

abbreviation report_error :: "string \<Rightarrow> string \<Rightarrow> string \<Rightarrow> exn" where
  "report_error code msg target \<equiv> report_error_with code msg (Some target) False []"

definition py_len :: "string \<Rightarrow> nat" where
  "py_len s = length (filter (\<lambda>c. \<not> (128 \<le> (of_char c :: nat) \<and> (of_char c :: nat) < 192)) s)"

definition dedupe :: "string list \<Rightarrow> string list" where
  "dedupe xs = sort (dedup_keep [] (filter (\<lambda>x. x \<noteq> []) xs))"

subsection \<open>Scalars and lists\<close>

definition enum_value :: "string list \<Rightarrow> pyval \<Rightarrow> string \<Rightarrow> string res" where
  "enum_value members v target = (case v of
     PStr s \<Rightarrow>
       (if s = [] then Inl (validation_error ''Field must be a non-empty string.'' (Some target))
        else if s \<in> set members then Inr s
        else Inl (validation_error_with ''Field has an unsupported enum value.'' (Some target)
               [(''value'', PStr s)]))
   | _ \<Rightarrow> Inl (validation_error ''Field must be a non-empty string.'' (Some target)))"

definition required_non_empty :: "pyval \<Rightarrow> string \<Rightarrow> string res" where
  "required_non_empty v target =
     (if v = PNone \<or> strip (py_str v) = []
      then Inl (validation_error ''Field must be a non-empty string.'' (Some target))
      else Inr (strip (py_str v)))"

definition bounded_non_empty :: "pyval \<Rightarrow> string \<Rightarrow> nat \<Rightarrow> string res" where
  "bounded_non_empty v target maximum = (case v of
     PStr s \<Rightarrow>
       (if strip s = [] then Inl (validation_error ''Field must be a non-empty string.'' (Some target))
        else if py_len s > maximum then Inl (report_error ''REPORT_CONTENT_LIMIT_EXCEEDED''
               ''Text field exceeds the maximum length.'' target)
        else Inr (strip s))
   | _ \<Rightarrow> Inl (validation_error ''Field must be a non-empty string.'' (Some target)))"

definition bounded_optional_text :: "pyval \<Rightarrow> string \<Rightarrow> nat \<Rightarrow> string option res" where
  "bounded_optional_text v target maximum = (case v of
     PNone \<Rightarrow> Inr None
   | PStr s \<Rightarrow>
       (if py_len s > maximum then Inl (report_error ''REPORT_CONTENT_LIMIT_EXCEEDED''
          ''Text field exceeds the maximum length.'' target)
        else Inr (Some s))
   | _ \<Rightarrow> Inl (validation_error ''Field must be a string.'' (Some target)))"

definition required_reason :: "string \<Rightarrow> string res" where
  "required_reason v =
     bind_res (required_non_empty (PStr v) ''reason'') (\<lambda>reason.
       if py_len reason > 4000
       then Inl (validation_error ''Reason exceeds maximum length.'' (Some ''reason''))
       else Inr reason)"

definition required_list :: "dict \<Rightarrow> string \<Rightarrow> pyval list res" where
  "required_list payload field = (case dget_or payload field PNone of
     PList xs \<Rightarrow> Inr xs
   | _ \<Rightarrow> Inl (validation_error ''Field must be a list.'' (Some field)))"

fun list_or_empty :: "pyval \<Rightarrow> pyval list res" where
  "list_or_empty PNone = Inr []"
| "list_or_empty (PList xs) = Inr xs"
| "list_or_empty _ = Inl (validation_error ''Field must be a list.'' None)"

definition required_optional_list :: "pyval \<Rightarrow> string \<Rightarrow> pyval list res" where
  "required_optional_list v target = (case v of
     PList xs \<Rightarrow> Inr xs
   | _ \<Rightarrow> Inl (validation_error ''Field must be a list.'' (Some target)))"

fun non_empty_str :: "pyval \<Rightarrow> bool" where
  "non_empty_str (PStr s) = (s \<noteq> [])"
| "non_empty_str _ = False"

definition string_list :: "pyval \<Rightarrow> string \<Rightarrow> nat \<Rightarrow> string list res" where
  "string_list v target max_items = (case v of
     PNone \<Rightarrow> Inr []
   | PList xs \<Rightarrow>
       (if \<not> list_all non_empty_str xs then
          Inl (validation_error ''Field must be a list of non-empty strings.'' (Some target))
        else if length xs > max_items then Inl (report_error ''REPORT_CONTENT_LIMIT_EXCEEDED''
          ''List field exceeds the maximum item count.'' target)
        else Inr (dedupe (List.map py_str xs)))
   | _ \<Rightarrow> Inl (validation_error ''Field must be a list of non-empty strings.'' (Some target)))"

definition integer_list :: "int list \<Rightarrow> string \<Rightarrow> nat \<Rightarrow> int list res" where
  "integer_list xs target max_items =
     (if length xs > max_items then Inl (report_error ''REPORT_CONTENT_LIMIT_EXCEEDED''
        ''List field exceeds the maximum item count.'' target)
      else Inr xs)"

definition validate_string_lengths :: "string list \<Rightarrow> string \<Rightarrow> nat \<Rightarrow> unit res" where
  "validate_string_lengths xs target maximum =
     (if \<exists>x \<in> set xs. py_len x > maximum then Inl (report_error ''REPORT_CONTENT_LIMIT_EXCEEDED''
        ''List item exceeds the maximum length.'' target)
      else Inr ())"

definition limit_value :: "pyval \<Rightarrow> int \<Rightarrow> int \<Rightarrow> string \<Rightarrow> int res" where
  "limit_value v minimum maximum target =
     (case v of
        PBool b \<Rightarrow> Inl (validation_error ''Field must be an integer.'' (Some target))
      | _ \<Rightarrow> (case py_int v of
          Inl e \<Rightarrow> (if e \<in> {PyExn ''TypeError'', PyExn ''ValueError''}
            then Inl (validation_error ''Field must be an integer.'' (Some target)) else Inl e)
        | Inr n \<Rightarrow>
            (if n < minimum \<or> maximum < n then
               Inl (validation_error_with ''Field is outside the allowed range.'' (Some target)
                 [(''minimum'', PInt minimum), (''maximum'', PInt maximum), (''value'', PInt n)])
             else Inr n)))"

subsection \<open>Text\<close>

definition word_char :: "char \<Rightarrow> bool" where
  "word_char c \<longleftrightarrow> is_digit c \<or> c = CHR ''_'' \<or>
     (let n = of_char (lower_char c) :: nat in 97 \<le> n \<and> n \<le> 122)"

fun search_re :: "(string \<Rightarrow> bool) \<Rightarrow> string \<Rightarrow> bool" where
  "search_re m [] = m []"
| "search_re m (c # r) = (m (c # r) \<or> search_re m r)"

definition dangerous_tags :: "string list" where
  "dangerous_tags = [''script'', ''iframe'', ''object'', ''embed'', ''img'', ''svg'', ''html'']"

text \<open>\<open>_DANGEROUS_TEXT\<close> and \<open>_BASE64_DATA\<close> at the start of a text.\<close>

definition tag_at :: "string \<Rightarrow> bool" where
  "tag_at s = (case s of
     [] \<Rightarrow> False
   | c # r \<Rightarrow> c = CHR ''<'' \<and>
       (let u = lower (dropWhile is_ws r) in
        list_ex (\<lambda>w. is_prefix w u \<and>
          (case drop (length w) u of [] \<Rightarrow> True | d # _ \<Rightarrow> \<not> word_char d)) dangerous_tags))"

definition base64_at :: "string \<Rightarrow> bool" where
  "base64_at s \<longleftrightarrow> is_prefix ''data'' (lower s) \<and>
     (case dropWhile is_ws (drop 4 s) of
        [] \<Rightarrow> False
      | c # r \<Rightarrow> c = CHR '':'' \<and> takeWhile (\<lambda>x. x \<noteq> CHR '';'') r \<noteq> [] \<and>
          (case dropWhile (\<lambda>x. x \<noteq> CHR '';'') r of
             [] \<Rightarrow> False
           | _ # r2 \<Rightarrow>
               (let u = dropWhile is_ws r2 in
                is_prefix ''base64'' (lower u) \<and>
                (case dropWhile is_ws (drop 6 u) of [] \<Rightarrow> False | e # _ \<Rightarrow> e = CHR '',''))))"

definition dangerous_text :: "string \<Rightarrow> bool" where
  "dangerous_text s \<longleftrightarrow> search_re tag_at s \<or> search_re base64_at s"

definition safe_text :: "string \<Rightarrow> string \<Rightarrow> string res" where
  "safe_text s target =
     (if char_of (0 :: nat) \<in> set s
      then Inl (validation_error ''Text cannot contain a null byte.'' (Some target))
      else if dangerous_text s then Inl (validation_error
        ''Text cannot contain executable HTML or embedded base64 data.'' (Some target))
      else Inr s)"

subsection \<open>JSON payloads\<close>

definition forbidden_key_parts :: "string list" where
  "forbidden_key_parts =
     [''api_key'', ''apikey'', ''secret'', ''credential'', ''password'', ''prompt'',
      ''system_prompt'', ''chain_of_thought'', ''chain-of-thought'', ''reasoning_trace'',
      ''raw_body'', ''raw_response'']"

definition raw_blob_keys :: "string list" where
  "raw_blob_keys = [''raw_blob'', ''blob'', ''binary'', ''bytes'', ''base64'', ''attachment_bytes'']"

definition normal_key :: "string \<Rightarrow> string" where
  "normal_key k = List.map (\<lambda>c. if c = CHR ''-'' then CHR ''_'' else c) (lower k)"

definition check_contract_key :: "string \<Rightarrow> string \<Rightarrow> unit res" where
  "check_contract_key target k =
     (if list_ex (\<lambda>p. is_infix p (normal_key k)) forbidden_key_parts then
        Inl (validation_error
          ''Report contracts cannot store prompts, secrets, or raw provider bodies.'' (Some target))
      else if normal_key k \<in> set raw_blob_keys then
        Inl (validation_error ''Report contracts cannot store raw blobs.'' (Some target))
      else Inr ())"

fun reject_forbidden_json :: "string \<Rightarrow> pyval \<Rightarrow> unit res" where
  "reject_forbidden_json target (PDict d) =
     map_res (\<lambda>_. ()) (traverse (\<lambda>(k, v).
       bind_res (check_contract_key target k) (\<lambda>_. reject_forbidden_json target v)) d)"
| "reject_forbidden_json target (PList xs) =
     map_res (\<lambda>_. ()) (traverse (reject_forbidden_json target) xs)"
| "reject_forbidden_json target _ = Inr ()"

fun json_depth :: "pyval \<Rightarrow> nat \<Rightarrow> nat" where
  "json_depth (PDict d) level =
     (if d = [] then level + 1
      else fold max (List.map (\<lambda>(k, v). json_depth v (level + 1)) d) 0)"
| "json_depth (PList xs) level =
     (if xs = [] then level + 1
      else fold max (List.map (\<lambda>v. json_depth v (level + 1)) xs) 0)"
| "json_depth _ level = level + 1"

definition validate_contract_payload :: "pyval \<Rightarrow> string \<Rightarrow> unit res" where
  "validate_contract_payload v target =
     bind_res (reject_forbidden_json target v) (\<lambda>_.
     if json_depth v 0 > 8 then Inl (report_error ''REPORT_CONTENT_LIMIT_EXCEEDED''
       ''Report payload exceeds the maximum JSON depth.'' target)
     else bind_res (canonical_json_bytes v []) (\<lambda>b.
       if length b > 524288 then Inl (report_error ''REPORT_CONTENT_LIMIT_EXCEEDED''
         ''Report payload exceeds the maximum serialized size.'' target)
       else Inr ()))"

definition metadata_string :: "pyval \<Rightarrow> string \<Rightarrow> string res" where
  "metadata_string v target = (case v of
     PNone \<Rightarrow> Inr ''UNKNOWN''
   | PStr s \<Rightarrow>
       (if s = [] then Inl (validation_error ''Provider metadata must be a non-empty string.'' (Some target))
        else if py_len s > 256 then Inl (report_error ''REPORT_CONTENT_LIMIT_EXCEEDED''
          ''Provider metadata exceeds the maximum length.'' target)
        else if list_ex (\<lambda>p. is_infix p (lower target)) forbidden_key_parts then
          Inl (validation_error ''Provider metadata target is forbidden.'' (Some target))
        else Inr s)
   | _ \<Rightarrow> Inl (validation_error ''Provider metadata must be a non-empty string.'' (Some target)))"

subsection \<open>Warnings and citations\<close>

text \<open>\<open>_stable_warnings\<close> and \<open>_stable_citations\<close>: one document per canonical hash, in the order of
  the hashes; of documents with one hash the last is kept.\<close>

definition stable_docs :: "(string \<Rightarrow> string) \<Rightarrow> dict list \<Rightarrow> dict list res" where
  "stable_docs sha ds =
     map_res (\<lambda>hs. List.map snd (sort_key fst (foldl (\<lambda>acc (h, d). AList.update h d acc) [] hs)))
       (traverse (\<lambda>d. map_res (\<lambda>h. (h, d)) (canonical_sha256 sha (PDict d) [])) ds)"

fun warning_code :: "string \<Rightarrow> bool" where
  "warning_code [] = False"
| "warning_code (c # r) =
     ((let n = of_char c :: nat in 65 \<le> n \<and> n \<le> 90) \<and>
      list_all (\<lambda>d. is_digit d \<or> d = CHR ''_'' \<or>
        (let n = of_char d :: nat in 65 \<le> n \<and> n \<le> 90)) r)"

definition check_warning :: "string \<Rightarrow> pyval \<Rightarrow> dict res" where
  "check_warning target v = (case v of
     PDict d \<Rightarrow>
       (case dget_or d ''code'' PNone of
          PStr c \<Rightarrow>
            (if warning_code c then
               bind_res (case dget_or d ''developer_message'' PNone of
                   PNone \<Rightarrow> Inr None
                 | msg \<Rightarrow> bounded_optional_text msg (target @ ''.developer_message'') 2000)
                 (\<lambda>_. Inr d)
             else Inl (validation_error ''Warning code is invalid.'' (Some target)))
        | _ \<Rightarrow> Inl (validation_error ''Warning code is invalid.'' (Some target)))
   | _ \<Rightarrow> Inl (validation_error ''Warning must be a JSON object.'' (Some target)))"

definition bounded_warnings ::
  "(string \<Rightarrow> string) \<Rightarrow> pyval \<Rightarrow> string \<Rightarrow> dict list res" where
  "bounded_warnings sha v target =
     bind_res (required_optional_list v target) (\<lambda>ws.
     if length ws > 1000 then Inl (report_error ''REPORT_CONTENT_LIMIT_EXCEEDED''
       ''Warning collection exceeds the maximum item count.'' target)
     else bind_res (traverse (check_warning target) ws) (stable_docs sha))"

fun has_warning :: "pyval list \<Rightarrow> string \<Rightarrow> bool" where
  "has_warning [] code = False"
| "has_warning (PDict d # ws) code =
     (dget d ''code'' = Some (PStr code) \<or> has_warning ws code)"
| "has_warning (_ # ws) code = has_warning ws code"

definition citation_id_fields :: "string list" where
  "citation_id_fields = [''id'', ''case_id'', ''evidence_id'', ''source_id'', ''file_id'',
     ''artifact_id'', ''timeline_event_id'', ''search_result_id'']"

definition citation_text_fields :: "(string \<times> nat) list" where
  "citation_text_fields = [(''label'', 100), (''source_path'', 4096), (''source_reference'', 4096),
     (''excerpt'', 4000), (''encoding'', 80)]"

definition validate_citation_fields :: "dict \<Rightarrow> string \<Rightarrow> unit res" where
  "validate_citation_fields c target =
     bind_res (traverse (\<lambda>f. case dget_or c f PNone of
         PNone \<Rightarrow> Inr ''''
       | v \<Rightarrow> bounded_non_empty v (target @ ''.'' @ f) 128) citation_id_fields) (\<lambda>_.
     bind_res (bounded_non_empty (dget_or c ''source_kind'' PNone) (target @ ''.source_kind'') 80) (\<lambda>_.
     map_res (\<lambda>_. ()) (traverse (\<lambda>(f, m). case dget_or c f PNone of
         PNone \<Rightarrow> Inr None
       | v \<Rightarrow> bounded_optional_text v (target @ ''.'' @ f) m) citation_text_fields)))"

definition validate_renderer_capability ::
  "(string \<Rightarrow> string) \<Rightarrow> renderer_capability \<Rightarrow> unit res" where
  "validate_renderer_capability sha c =
     bind_res (bounded_non_empty (PStr (rc_renderer_id c)) ''renderer_id'' 256) (\<lambda>_.
     bind_res (bounded_non_empty (PStr (rc_renderer_version c)) ''renderer_version'' 80) (\<lambda>_.
     bind_res (bounded_optional_text (opt_str (rc_unavailable_reason c)) ''unavailable_reason'' 256) (\<lambda>_.
     map_res (\<lambda>_. ()) (bounded_warnings sha (dicts (rc_warnings c)) ''warnings''))))"

definition resource_type_for_citation :: "string \<Rightarrow> string" where
  "resource_type_for_citation kd =
     (if kd \<in> {''FILE'', ''FILE_SYSTEM_NODE''} then ''FILE_SYSTEM_NODE''
      else if kd \<in> {''ARTIFACT'', ''WINDOWS_ARTIFACT'', ''BROWSER_ARTIFACT'', ''MEDIA_ARTIFACT''}
      then ''ARTIFACT'' else kd)"

subsection \<open>File names and output references\<close>

fun split_on :: "char \<Rightarrow> string \<Rightarrow> string list" where
  "split_on c [] = [[]]"
| "split_on c (x # xs) =
     (if x = c then [] # split_on c xs
      else (case split_on c xs of [] \<Rightarrow> [[x]] | p # ps \<Rightarrow> (x # p) # ps))"

text \<open>\<open>PurePosixPath\<close>: a relative path is its components but the empty ones and \<open>.\<close>.\<close>

definition posix_parts :: "string \<Rightarrow> string list" where
  "posix_parts s = filter (\<lambda>p. p \<noteq> [] \<and> p \<noteq> ''.'') (split_on (CHR ''/'') s)"

definition posix_absolute :: "string \<Rightarrow> bool" where
  "posix_absolute s \<longleftrightarrow> take 1 s = ''/''"

definition drive_prefix :: "string \<Rightarrow> bool" where
  "drive_prefix s = (case s of
     a # b # _ \<Rightarrow> b = CHR '':'' \<and> (let n = of_char (lower_char a) :: nat in 97 \<le> n \<and> n \<le> 122)
   | _ \<Rightarrow> False)"

definition forbidden_name_char :: "char \<Rightarrow> bool" where
  "forbidden_name_char c \<longleftrightarrow> of_char c < (32 :: nat) \<or>
     c \<in> {CHR ''<'', CHR ''>'', CHR '':'', CHR 34, CHR 92, CHR ''|'', CHR ''?'', CHR ''*''}"

definition reserved_basenames :: "string list" where
  "reserved_basenames = [''con'', ''prn'', ''aux'', ''nul''] @
     List.map (\<lambda>d. ''com'' @ [d]) ''123456789'' @ List.map (\<lambda>d. ''lpt'' @ [d]) ''123456789''"

definition trailing_dot_or_space :: "string \<Rightarrow> bool" where
  "trailing_dot_or_space s \<longleftrightarrow> s \<noteq> [] \<and> last s \<in> {CHR '' '', CHR ''.''}"

definition safe_segment :: "string \<Rightarrow> bool" where
  "safe_segment s \<longleftrightarrow> s \<noteq> [] \<and> s \<noteq> ''.'' \<and> s \<noteq> ''..'' \<and> \<not> trailing_dot_or_space s \<and>
     \<not> drive_prefix s \<and> \<not> list_ex forbidden_name_char s \<and>
     lower (takeWhile (\<lambda>c. c \<noteq> CHR ''.'') s) \<notin> set reserved_basenames"

definition validate_output_path_segment :: "string \<Rightarrow> string \<Rightarrow> unit res" where
  "validate_output_path_segment s target =
     (if safe_segment s then Inr ()
      else Inl (report_error ''REPORT_OUTPUT_INVALID''
        ''Report output path segment is not portable or safe.'' target))"

text \<open>\<open>re.sub(r"\s+", "_", ...)\<close>\<close>

function squash_ws :: "string \<Rightarrow> string" where
  "squash_ws [] = []"
| "squash_ws (c # r) =
     (if is_ws c then CHR ''_'' # squash_ws (dropWhile is_ws r) else c # squash_ws r)"
  by pat_completeness auto
termination by (relation "measure length") (auto simp: le_imp_less_Suc length_dropWhile_le)

definition has_suffix :: "string \<Rightarrow> string \<Rightarrow> bool" where
  "has_suffix e s \<longleftrightarrow> length e \<le> length s \<and> drop (length s - length e) s = e"

definition report_extension :: "string \<Rightarrow> string" where
  "report_extension format = (if format = ''PDF'' then ''.pdf'' else ''.html'')"

definition safe_filename :: "string \<Rightarrow> string \<Rightarrow> string res" where
  "safe_filename filename format =
     bind_res (required_non_empty (PStr filename) ''filename'') (\<lambda>f.
     if drive_prefix f then Inl (report_error ''REPORT_OUTPUT_INVALID''
       ''Export filename cannot use a Windows drive prefix.'' ''filename'')
     else
      let p = List.map (\<lambda>c. if c = CHR 92 then CHR ''/'' else c) f; parts = posix_parts p in
      if posix_absolute p \<or> length parts \<noteq> 1 \<or> ''..'' \<in> set parts then
        Inl (report_error ''REPORT_OUTPUT_INVALID''
          ''Export filename cannot be an absolute path or contain traversal.'' ''filename'')
      else
       let cleaned = squash_ws (strip (last parts)) in
       if cleaned = [] \<or> py_len cleaned > 180 then
         Inl (report_error ''REPORT_OUTPUT_INVALID'' ''Export filename is invalid.'' ''filename'')
       else
        let ext = report_extension format;
            named = (if has_suffix ext (lower cleaned) then cleaned else cleaned @ ext) in
        if py_len named > 180 then
          Inl (report_error ''REPORT_OUTPUT_INVALID'' ''Export filename is invalid.'' ''filename'')
        else map_res (\<lambda>_. named) (validate_output_path_segment named ''filename''))"

definition validate_output_reference :: "string \<Rightarrow> string \<Rightarrow> unit res" where
  "validate_output_reference output_reference root_id =
     (let prefix = ''derived://'' @ root_id @ ''/'' in
      if \<not> is_prefix prefix output_reference then
        Inl (report_error ''REPORT_OUTPUT_OUTSIDE_DERIVED_ROOT''
          ''Renderer output reference is outside the configured derived root.'' ''output_reference'')
      else
       let relative = drop (length prefix) output_reference; parts = posix_parts relative in
       if posix_absolute relative \<or> ''..'' \<in> set parts then
         Inl (report_error ''REPORT_OUTPUT_OUTSIDE_DERIVED_ROOT''
           ''Renderer output reference escapes the derived root.'' ''output_reference'')
       else map_res (\<lambda>_. ())
         (traverse (\<lambda>p. validate_output_path_segment p ''output_reference'') parts))"

definition mime_type :: "string \<Rightarrow> string" where
  "mime_type format = (if format = ''PDF'' then ''application/pdf'' else ''text/html'')"

end
