(* ===== verification/Report_Model_Facts.thy ===== *)
theory Report_Model_Facts
  imports Report_Model Custody_Facts
begin

section \<open>Reading the stored documents of the report workflow\<close>

text \<open>
  A record is stored as the JSON text of its document with sorted keys.  For every class,
  \<open>stored_*\<close> is the record with the dictionaries in its fields key-sorted, and reading the stored
  document gives exactly that.  So the tables of the report repository may hold records.
\<close>

subsection \<open>Fields\<close>

definition readable :: "datetime \<Rightarrow> bool" where
  "readable t \<longleftrightarrow> (\<exists>us. t = Aware us \<and> valid_instant us)"

definition opt_readable :: "datetime option \<Rightarrow> bool" where
  "opt_readable t \<longleftrightarrow> (\<forall>u. t = Some u \<longrightarrow> readable u)"

lemma parse_rendered: "readable t \<Longrightarrow> to_json_timestamp t = Inr s \<Longrightarrow> parse_timestamp s = Inr t"
proof -
  assume "readable t" and s: "to_json_timestamp t = Inr s"
  then obtain us where t: "t = Aware us" and v: "valid_instant us" by (auto simp: readable_def)
  have up: "upper (iso_microseconds us @ ''Z'') = iso_microseconds us @ ''Z''"
    unfolding iso_stamp by (simp add: upper_stamp case_prod_beta Let_def)
  have "parse_timestamp (iso_microseconds us @ ''Z'') = Inr (Aware us)"
    using parse_render [OF v] up
    by (auto simp: parse_contract_timestamp_def split: if_splits sum.splits exn.splits)
  with s t show "parse_timestamp s = Inr t" by (simp add: to_json_timestamp_def)
qed

lemma rendered: "readable t \<Longrightarrow> \<exists>s. to_json_timestamp t = Inr s"
  by (auto simp: readable_def to_json_timestamp_def)

lemma ts_Some: "readable t \<Longrightarrow> ts (Some t) = Inr v \<Longrightarrow> \<exists>s. v = PStr s \<and> parse_timestamp s = Inr t"
  by (auto dest: parse_rendered)

lemma ts_opt: "opt_readable t \<Longrightarrow> ts t = Inr v \<Longrightarrow>
    t = None \<and> v = PNone \<or> (\<exists>s u. t = Some u \<and> v = PStr s \<and> parse_timestamp s = Inr u)"
  by (cases t) (auto simp: opt_readable_def dest: parse_rendered)

lemma ts_readable: "readable t \<Longrightarrow> \<exists>v. ts (Some t) = Inr v"
  using rendered by auto

lemma ts_opt_readable: "opt_readable t \<Longrightarrow> \<exists>v. ts t = Inr v"
  by (cases t) (auto simp: opt_readable_def dest: rendered)

text \<open>What a reader gives for the value that the writer put there.\<close>

lemma read_value:
  "dget d k = Some v \<Longrightarrow> doc_val d k = Inr v"
  "dget d k = Some v \<Longrightarrow> dget_or d k w = v"
  by (simp_all add: doc_val_def dget_or_def)

lemma read_str [simp]: "dget d k = Some (PStr s) \<Longrightarrow> doc_str d k = Inr s"
  by (simp add: doc_str_def read_value)

lemma read_str_or [simp]: "dget d k = Some (PStr s) \<Longrightarrow> doc_str_or d k w = Inr s"
  by (simp add: doc_str_or_def read_value)

lemma read_opt_str [simp]: "dget d k = Some (opt_str s) \<Longrightarrow> doc_opt_str d k = Inr s"
  by (cases s) (simp_all add: doc_opt_str_def read_value)

lemma read_int [simp]: "dget d k = Some (PInt n) \<Longrightarrow> doc_int d k = Inr n"
  by (simp add: doc_int_def read_value)

lemma read_opt_int [simp]: "dget d k = Some (opt_int n) \<Longrightarrow> doc_opt_int d k = Inr n"
  by (cases n) (simp_all add: doc_opt_int_def read_value)

lemma read_bool [simp]: "dget d k = Some (PBool b) \<Longrightarrow> doc_bool d k = Inr b"
  by (simp add: doc_bool_def read_value)

lemma read_bool_or [simp]: "dget d k = Some (PBool b) \<Longrightarrow> doc_bool_or d k c = Inr b"
  by (simp add: doc_bool_or_def read_value)

lemma read_strs [simp]: "dget d k = Some (strs xs) \<Longrightarrow> doc_strs d k = Inr xs"
  by (simp add: doc_strs_def doc_list_def read_value comp_def)

lemma read_ints [simp]: "dget d k = Some (PList (List.map PInt xs)) \<Longrightarrow> doc_ints d k = Inr xs"
  by (simp add: doc_ints_def doc_list_def read_value traverse_map_Inr)

lemma read_dict [simp]: "dget d k = Some (PDict x) \<Longrightarrow> doc_dict d k = Inr x"
  by (simp add: doc_dict_def read_value)

lemma read_dicts [simp]: "dget d k = Some (dicts xs) \<Longrightarrow> doc_dicts d k = Inr xs"
  by (simp add: doc_dicts_def doc_list_def read_value traverse_map_Inr)

lemma read_time [simp]: "dget d k = Some (PStr s) \<Longrightarrow> doc_time d k = parse_timestamp s"
  by (simp add: doc_time_def)

lemma read_opt_time [simp]:
  "dget d k = Some (PStr s) \<Longrightarrow> doc_opt_time d k = map_res Some (parse_timestamp s)"
  "dget d k = Some PNone \<Longrightarrow> doc_opt_time d k = Inr None"
  by (simp_all add: doc_opt_time_def read_value)

lemma sorted_values [simp]:
  "sort_json (strs xs) = strs xs"
  "sort_json (PList (List.map PInt ns)) = PList (List.map PInt ns)"
  "sort_json (dicts ds) = dicts (List.map sort_dict ds)"
  "sort_json (PDict d) = PDict (sort_dict d)"
  "sort_json (opt_str s) = opt_str s" "sort_json (opt_int n) = opt_int n"
proof -
  show "sort_json (strs xs) = strs xs" by simp
  show "sort_json (PList (List.map PInt ns)) = PList (List.map PInt ns)" by simp
  show "sort_json (dicts ds) = dicts (List.map sort_dict ds)" by (simp add: sort_dict_def)
  show "sort_json (PDict d) = PDict (sort_dict d)" by (simp add: sort_dict_def)
  show "sort_json (opt_str s) = opt_str s" by (cases s) simp_all
  show "sort_json (opt_int n) = opt_int n" by (cases n) simp_all
qed

declare sort_json.simps(2) [simp del]

subsection \<open>Sections and reports\<close>

definition stored_section :: "report_section \<Rightarrow> report_section" where
  "stored_section r = r\<lparr>rs_structured_data := sort_dict (rs_structured_data r),
     rs_citations := List.map sort_dict (rs_citations r), rs_coverage := sort_dict (rs_coverage r),
     rs_warnings := List.map sort_dict (rs_warnings r)\<rparr>"

lemma section_read:
  "report_section_from_schema (sort_dict (report_section_schema_dict r)) = Inr (stored_section r)"
proof -
  have d: "distinct (List.map fst (report_section_schema_dict r))"
    by (simp add: report_section_schema_dict_def)
  note g = dget_sort_dict [OF d]
  define D where "D = sort_dict (report_section_schema_dict r)"
  have f: "dget D ''section_id'' = Some (PStr (rs_section_id r))"
    "dget D ''section_type'' = Some (PStr (rs_section_type r))"
    "dget D ''title'' = Some (PStr (rs_title r))"
    "dget D ''order'' = Some (PInt (rs_order r))"
    "dget D ''content_kind'' = Some (PStr (rs_content_kind r))"
    "dget D ''content'' = Some (PStr (rs_content r))"
    "dget D ''structured_data'' = Some (PDict (sort_dict (rs_structured_data r)))"
    "dget D ''source_kind'' = Some (PStr (rs_source_kind r))"
    "dget D ''source_resource_ids'' = Some (strs (rs_source_resource_ids r))"
    "dget D ''context_snapshot_ids'' = Some (strs (rs_context_snapshot_ids r))"
    "dget D ''citations'' = Some (dicts (List.map sort_dict (rs_citations r)))"
    "dget D ''is_partial'' = Some (PBool (rs_is_partial r))"
    "dget D ''stale_reasons'' = Some (strs (rs_stale_reasons r))"
    "dget D ''coverage'' = Some (PDict (sort_dict (rs_coverage r)))"
    "dget D ''warnings'' = Some (dicts (List.map sort_dict (rs_warnings r)))"
    "dget D ''section_fingerprint'' = Some (PStr (rs_section_fingerprint r))"
    unfolding D_def g by (simp_all add: report_section_schema_dict_def)
  show ?thesis unfolding D_def [symmetric] report_section_from_schema_def
    by (cases r) (simp add: f stored_section_def)
qed

lemma sections_read:
  "traverse report_section_from_schema (List.map (\<lambda>x. sort_dict (report_section_schema_dict x)) xs) =
     Inr (List.map stored_section xs)"
  by (induction xs) (simp_all add: section_read)

lemma sort_ts: "ts t = Inr v \<Longrightarrow> sort_json v = v"
  by (cases t) auto

lemma read_ts: "readable t \<Longrightarrow> ts (Some t) = Inr v \<Longrightarrow> dget d k = Some v \<Longrightarrow> doc_time d k = Inr t"
  by (auto dest: ts_Some)

lemma read_ts_opt: "opt_readable t \<Longrightarrow> ts t = Inr v \<Longrightarrow> dget d k = Some v \<Longrightarrow> doc_opt_time d k = Inr t"
  by (auto dest: ts_opt)

subsection \<open>Reports\<close>

lemma report_record_read:
  assumes enc: "report_record_schema_dict r = Inr d" and r: "readable (rr_created_at r)" "readable (rr_updated_at r)" "opt_readable (rr_archived_at r)"
  shows "report_record_from_schema (sort_dict d) = Inr (r)"
proof -
  obtain t where t: "ts (Some (rr_created_at r)) = Inr t"
    using ts_readable [OF r(1)] by blast
  obtain u where u: "ts (Some (rr_updated_at r)) = Inr u"
    using ts_readable [OF r(2)] by blast
  obtain v where v: "ts (rr_archived_at r) = Inr v"
    using ts_opt_readable [OF r(3)] by blast
  note dd = enc [unfolded report_record_schema_dict_def t u v bind_res.simps, simplified]
  have keys: "distinct (List.map fst d)" unfolding dd [symmetric] by simp
  define D where "D = sort_dict d"
  have f: "dget D ''report_id'' = Some (PStr (rr_report_id r))"
    "dget D ''case_id'' = Some (PStr (rr_case_id r))"
    "dget D ''title'' = Some (PStr (rr_title r))"
    "dget D ''description'' = Some (opt_str (rr_description r))"
    "dget D ''report_type'' = Some (PStr (rr_report_type r))"
    "dget D ''locale'' = Some (PStr (rr_locale r))"
    "dget D ''timezone'' = Some (PStr (rr_timezone r))"
    "dget D ''status'' = Some (PStr (rr_status r))"
    "dget D ''active_version_id'' = Some (opt_str (rr_active_version_id r))"
    "dget D ''latest_version_number'' = Some (PInt (rr_latest_version_number r))"
    "dget D ''created_by'' = Some (PStr (rr_created_by r))"
    "dget D ''created_at'' = Some (t)"
    "dget D ''updated_at'' = Some (u)"
    "dget D ''archived_at'' = Some (v)"
    "dget D ''report_fingerprint'' = Some (PStr (rr_report_fingerprint r))"
    "dget D ''report_schema_version'' = Some (PStr (rr_report_schema_version r))"
    unfolding D_def dget_sort_dict [OF keys] unfolding dd [symmetric]
    by (simp_all add: sort_ts [OF t] sort_ts [OF u] sort_ts [OF v])
  show ?thesis unfolding D_def [symmetric] report_record_from_schema_def
    by (cases r) (simp add: f read_ts [OF r(1) t] read_ts [OF r(2) u] read_ts_opt [OF r(3) v])
qed

subsection \<open>Versions\<close>

definition stored_report_version :: "report_version \<Rightarrow> report_version" where
  "stored_report_version r = r\<lparr>rv_sections := List.map stored_section (rv_sections r),
     rv_partial_state := sort_dict (rv_partial_state r),
     rv_stale_state := sort_dict (rv_stale_state r),
     rv_coverage_summary := sort_dict (rv_coverage_summary r),
     rv_analyzer_versions := sort_dict (rv_analyzer_versions r),
     rv_source_revisions := List.map sort_dict (rv_source_revisions r),
     rv_review_state := sort_dict (rv_review_state r),
     rv_approval_state := sort_dict (rv_approval_state r)\<rparr>"

lemma report_version_read:
  assumes enc: "report_version_schema_dict r = Inr d" and r: "readable (rv_created_at r)"
  shows "report_version_from_schema (sort_dict d) = Inr (stored_report_version r)"
proof -
  obtain t where t: "ts (Some (rv_created_at r)) = Inr t"
    using ts_readable [OF r] by blast
  note dd = enc [unfolded report_version_schema_dict_def t bind_res.simps, simplified]
  have keys: "distinct (List.map fst d)" unfolding dd [symmetric] by simp
  define D where "D = sort_dict d"
  have f: "dget D ''report_version_id'' = Some (PStr (rv_report_version_id r))"
    "dget D ''report_id'' = Some (PStr (rv_report_id r))"
    "dget D ''case_id'' = Some (PStr (rv_case_id r))"
    "dget D ''version_number'' = Some (PInt (rv_version_number r))"
    "dget D ''previous_version_id'' = Some (opt_str (rv_previous_version_id r))"
    "dget D ''source_kind'' = Some (PStr (rv_source_kind r))"
    "dget D ''source_reference_id'' = Some (opt_str (rv_source_reference_id r))"
    "dget D ''created_by'' = Some (PStr (rv_created_by r))"
    "dget D ''title'' = Some (PStr (rv_title r))"
    "dget D ''executive_summary'' = Some (PStr (rv_executive_summary r))"
    "dget D ''sections'' = Some (dicts (List.map (\<lambda>x. sort_dict (report_section_schema_dict x)) (rv_sections r)))"
    "dget D ''context_snapshot_ids'' = Some (strs (rv_context_snapshot_ids r))"
    "dget D ''evidence_ids'' = Some (strs (rv_evidence_ids r))"
    "dget D ''search_execution_ids'' = Some (strs (rv_search_execution_ids r))"
    "dget D ''timeline_revisions'' = Some (PList (List.map PInt (rv_timeline_revisions r)))"
    "dget D ''ai_assistance_request_ids'' = Some (strs (rv_ai_assistance_request_ids r))"
    "dget D ''ai_result_ids'' = Some (strs (rv_ai_result_ids r))"
    "dget D ''citation_ids'' = Some (strs (rv_citation_ids r))"
    "dget D ''partial_state'' = Some (PDict (sort_dict (rv_partial_state r)))"
    "dget D ''stale_state'' = Some (PDict (sort_dict (rv_stale_state r)))"
    "dget D ''coverage_summary'' = Some (PDict (sort_dict (rv_coverage_summary r)))"
    "dget D ''limitations'' = Some (strs (rv_limitations r))"
    "dget D ''analyzer_versions'' = Some (PDict (sort_dict (rv_analyzer_versions r)))"
    "dget D ''source_revisions'' = Some (dicts (List.map sort_dict (rv_source_revisions r)))"
    "dget D ''content_fingerprint'' = Some (PStr (rv_content_fingerprint r))"
    "dget D ''previous_content_fingerprint'' = Some (opt_str (rv_previous_content_fingerprint r))"
    "dget D ''review_state'' = Some (PDict (sort_dict (rv_review_state r)))"
    "dget D ''approval_state'' = Some (PDict (sort_dict (rv_approval_state r)))"
    "dget D ''created_at'' = Some (t)"
    "dget D ''report_schema_version'' = Some (PStr (rv_report_schema_version r))"
    unfolding D_def dget_sort_dict [OF keys] unfolding dd [symmetric]
    by (simp_all add: sort_ts [OF t] comp_def)
  have sec: "doc_dicts D ''sections'' =
      Inr (List.map (\<lambda>x. sort_dict (report_section_schema_dict x)) (rv_sections r))"
    by (rule read_dicts) (rule f(11))
  show ?thesis unfolding D_def [symmetric] report_version_from_schema_def
    by (cases r) (simp add: f read_ts [OF r t] stored_report_version_def sec sections_read)
qed

subsection \<open>Review events and approvals\<close>

lemma review_event_read:
  assumes enc: "review_event_schema_dict r = Inr d" and r: "readable (rw_created_at r)"
  shows "review_event_from_schema (sort_dict d) = Inr (r)"
proof -
  obtain t where t: "ts (Some (rw_created_at r)) = Inr t"
    using ts_readable [OF r] by blast
  note dd = enc [unfolded review_event_schema_dict_def t bind_res.simps, simplified]
  have keys: "distinct (List.map fst d)" unfolding dd [symmetric] by simp
  define D where "D = sort_dict d"
  have f: "dget D ''review_event_id'' = Some (PStr (rw_review_event_id r))"
    "dget D ''report_id'' = Some (PStr (rw_report_id r))"
    "dget D ''report_version_id'' = Some (PStr (rw_report_version_id r))"
    "dget D ''case_id'' = Some (PStr (rw_case_id r))"
    "dget D ''action'' = Some (PStr (rw_action r))"
    "dget D ''actor_id'' = Some (PStr (rw_actor_id r))"
    "dget D ''reason'' = Some (PStr (rw_reason r))"
    "dget D ''section_id'' = Some (opt_str (rw_section_id r))"
    "dget D ''comment'' = Some (opt_str (rw_comment r))"
    "dget D ''requested_changes'' = Some (strs (rw_requested_changes r))"
    "dget D ''expected_review_revision'' = Some (opt_int (rw_expected_review_revision r))"
    "dget D ''review_revision'' = Some (PInt (rw_review_revision r))"
    "dget D ''previous_event_hash'' = Some (opt_str (rw_previous_event_hash r))"
    "dget D ''event_hash'' = Some (PStr (rw_event_hash r))"
    "dget D ''created_at'' = Some (t)"
    unfolding D_def dget_sort_dict [OF keys] unfolding dd [symmetric]
    by (simp_all add: sort_ts [OF t])
  show ?thesis unfolding D_def [symmetric] review_event_from_schema_def
    by (cases r) (simp add: f read_ts [OF r t])
qed

lemma approval_record_read:
  assumes enc: "approval_record_schema_dict r = Inr d" and r: "readable (ra_decided_at r)"
  shows "approval_record_from_schema (sort_dict d) = Inr (r)"
proof -
  obtain t where t: "ts (Some (ra_decided_at r)) = Inr t"
    using ts_readable [OF r] by blast
  note dd = enc [unfolded approval_record_schema_dict_def t bind_res.simps, simplified]
  have keys: "distinct (List.map fst d)" unfolding dd [symmetric] by simp
  define D where "D = sort_dict d"
  have f: "dget D ''approval_id'' = Some (PStr (ra_approval_id r))"
    "dget D ''report_id'' = Some (PStr (ra_report_id r))"
    "dget D ''report_version_id'' = Some (PStr (ra_report_version_id r))"
    "dget D ''case_id'' = Some (PStr (ra_case_id r))"
    "dget D ''approver_id'' = Some (PStr (ra_approver_id r))"
    "dget D ''decision'' = Some (PStr (ra_decision r))"
    "dget D ''reason'' = Some (PStr (ra_reason r))"
    "dget D ''content_fingerprint'' = Some (PStr (ra_content_fingerprint r))"
    "dget D ''custody_snapshot_id'' = Some (opt_str (ra_custody_snapshot_id r))"
    "dget D ''approval_revision'' = Some (PInt (ra_approval_revision r))"
    "dget D ''previous_approval_hash'' = Some (opt_str (ra_previous_approval_hash r))"
    "dget D ''approval_hash'' = Some (PStr (ra_approval_hash r))"
    "dget D ''decided_at'' = Some (t)"
    unfolding D_def dget_sort_dict [OF keys] unfolding dd [symmetric]
    by (simp_all add: sort_ts [OF t])
  show ?thesis unfolding D_def [symmetric] approval_record_from_schema_def
    by (cases r) (simp add: f read_ts [OF r t])
qed

subsection \<open>Custody snapshots\<close>

definition stored_custody_snapshot :: "custody_snapshot \<Rightarrow> custody_snapshot" where
  "stored_custody_snapshot r = r\<lparr>cn_verification_errors := List.map sort_dict (cn_verification_errors r)\<rparr>"

lemma custody_snapshot_read:
  assumes enc: "custody_snapshot_schema_dict r = Inr d" and r: "opt_readable (cn_first_event_at r)" "opt_readable (cn_last_event_at r)" "readable (cn_captured_at r)"
  shows "custody_snapshot_from_schema (sort_dict d) = Inr (stored_custody_snapshot r)"
proof -
  obtain t where t: "ts (cn_first_event_at r) = Inr t"
    using ts_opt_readable [OF r(1)] by blast
  obtain u where u: "ts (cn_last_event_at r) = Inr u"
    using ts_opt_readable [OF r(2)] by blast
  obtain v where v: "ts (Some (cn_captured_at r)) = Inr v"
    using ts_readable [OF r(3)] by blast
  note dd = enc [unfolded custody_snapshot_schema_dict_def t u v bind_res.simps, simplified]
  have keys: "distinct (List.map fst d)" unfolding dd [symmetric] by simp
  define D where "D = sort_dict d"
  have f: "dget D ''custody_snapshot_id'' = Some (PStr (cn_custody_snapshot_id r))"
    "dget D ''case_id'' = Some (PStr (cn_case_id r))"
    "dget D ''report_id'' = Some (PStr (cn_report_id r))"
    "dget D ''report_version_id'' = Some (PStr (cn_report_version_id r))"
    "dget D ''evidence_ids'' = Some (strs (cn_evidence_ids r))"
    "dget D ''custody_event_ids'' = Some (strs (cn_custody_event_ids r))"
    "dget D ''ledger_head_hash'' = Some (opt_str (cn_ledger_head_hash r))"
    "dget D ''verification_status'' = Some (PStr (cn_verification_status r))"
    "dget D ''verification_errors'' = Some (dicts (List.map sort_dict (cn_verification_errors r)))"
    "dget D ''event_count'' = Some (PInt (cn_event_count r))"
    "dget D ''first_event_at'' = Some (t)"
    "dget D ''last_event_at'' = Some (u)"
    "dget D ''captured_by'' = Some (PStr (cn_captured_by r))"
    "dget D ''captured_at'' = Some (v)"
    "dget D ''snapshot_fingerprint'' = Some (PStr (cn_snapshot_fingerprint r))"
    "dget D ''snapshot_version'' = Some (PStr (cn_snapshot_version r))"
    unfolding D_def dget_sort_dict [OF keys] unfolding dd [symmetric]
    by (simp_all add: sort_ts [OF t] sort_ts [OF u] sort_ts [OF v])
  show ?thesis unfolding D_def [symmetric] custody_snapshot_from_schema_def
    by (cases r) (simp add: f read_ts_opt [OF r(1) t] read_ts_opt [OF r(2) u] read_ts [OF r(3) v] stored_custody_snapshot_def)
qed

subsection \<open>Packages, manifests and artifacts\<close>

definition stored_render_package :: "render_package \<Rightarrow> render_package" where
  "stored_render_package r = r\<lparr>rp_report_metadata := sort_dict (rp_report_metadata r),
     rp_sections := List.map sort_dict (rp_sections r),
     rp_evidence_manifest := List.map sort_dict (rp_evidence_manifest r),
     rp_hash_integrity_summary := sort_dict (rp_hash_integrity_summary r),
     rp_citations := List.map sort_dict (rp_citations r),
     rp_partial_state := sort_dict (rp_partial_state r),
     rp_stale_state := sort_dict (rp_stale_state r),
     rp_coverage_summary := sort_dict (rp_coverage_summary r),
     rp_renderer_requirements := sort_dict (rp_renderer_requirements r)\<rparr>"

lemma render_package_read:
  assumes enc: "render_package_schema_dict r = Inr d" and r: "readable (rp_created_at r)"
  shows "render_package_from_schema (sort_dict d) = Inr (stored_render_package r)"
proof -
  obtain t where t: "ts (Some (rp_created_at r)) = Inr t"
    using ts_readable [OF r] by blast
  note dd = enc [unfolded render_package_schema_dict_def t bind_res.simps, simplified]
  have keys: "distinct (List.map fst d)" unfolding dd [symmetric] by simp
  define D where "D = sort_dict d"
  have f: "dget D ''package_id'' = Some (PStr (rp_package_id r))"
    "dget D ''report_id'' = Some (PStr (rp_report_id r))"
    "dget D ''report_version_id'' = Some (PStr (rp_report_version_id r))"
    "dget D ''case_id'' = Some (PStr (rp_case_id r))"
    "dget D ''locale'' = Some (PStr (rp_locale r))"
    "dget D ''timezone'' = Some (PStr (rp_timezone r))"
    "dget D ''report_metadata'' = Some (PDict (sort_dict (rp_report_metadata r)))"
    "dget D ''sections'' = Some (dicts (List.map sort_dict (rp_sections r)))"
    "dget D ''evidence_manifest'' = Some (dicts (List.map sort_dict (rp_evidence_manifest r)))"
    "dget D ''hash_integrity_summary'' = Some (PDict (sort_dict (rp_hash_integrity_summary r)))"
    "dget D ''custody_snapshot_id'' = Some (opt_str (rp_custody_snapshot_id r))"
    "dget D ''context_snapshot_ids'' = Some (strs (rp_context_snapshot_ids r))"
    "dget D ''citations'' = Some (dicts (List.map sort_dict (rp_citations r)))"
    "dget D ''partial_state'' = Some (PDict (sort_dict (rp_partial_state r)))"
    "dget D ''stale_state'' = Some (PDict (sort_dict (rp_stale_state r)))"
    "dget D ''coverage_summary'' = Some (PDict (sort_dict (rp_coverage_summary r)))"
    "dget D ''limitations'' = Some (strs (rp_limitations r))"
    "dget D ''renderer_requirements'' = Some (PDict (sort_dict (rp_renderer_requirements r)))"
    "dget D ''package_fingerprint'' = Some (PStr (rp_package_fingerprint r))"
    "dget D ''created_at'' = Some (t)"
    "dget D ''package_version'' = Some (PStr (rp_package_version r))"
    unfolding D_def dget_sort_dict [OF keys] unfolding dd [symmetric]
    by (simp_all add: sort_ts [OF t])
  show ?thesis unfolding D_def [symmetric] render_package_from_schema_def
    by (cases r) (simp add: f read_ts [OF r t] stored_render_package_def)
qed

definition stored_export_manifest :: "export_manifest \<Rightarrow> export_manifest" where
  "stored_export_manifest r = r\<lparr>xm_warnings := List.map sort_dict (xm_warnings r)\<rparr>"

lemma export_manifest_read:
  assumes enc: "export_manifest_schema_dict r = Inr d" and r: "readable (xm_created_at r)"
  shows "export_manifest_from_schema (sort_dict d) = Inr (stored_export_manifest r)"
proof -
  obtain t where t: "ts (Some (xm_created_at r)) = Inr t"
    using ts_readable [OF r] by blast
  note dd = enc [unfolded export_manifest_schema_dict_def t bind_res.simps, simplified]
  have keys: "distinct (List.map fst d)" unfolding dd [symmetric] by simp
  define D where "D = sort_dict d"
  have f: "dget D ''export_manifest_id'' = Some (PStr (xm_export_manifest_id r))"
    "dget D ''report_id'' = Some (PStr (xm_report_id r))"
    "dget D ''report_version_id'' = Some (PStr (xm_report_version_id r))"
    "dget D ''case_id'' = Some (PStr (xm_case_id r))"
    "dget D ''format'' = Some (PStr (xm_format r))"
    "dget D ''render_package_id'' = Some (PStr (xm_render_package_id r))"
    "dget D ''renderer_id'' = Some (PStr (xm_renderer_id r))"
    "dget D ''renderer_version'' = Some (PStr (xm_renderer_version r))"
    "dget D ''requested_filename'' = Some (PStr (xm_requested_filename r))"
    "dget D ''derived_output_root_id'' = Some (PStr (xm_derived_output_root_id r))"
    "dget D ''overwrite_policy'' = Some (PStr (xm_overwrite_policy r))"
    "dget D ''redaction_policy'' = Some (PStr (xm_redaction_policy r))"
    "dget D ''include_citations'' = Some (PBool (xm_include_citations r))"
    "dget D ''include_custody'' = Some (PBool (xm_include_custody r))"
    "dget D ''include_technical_appendix'' = Some (PBool (xm_include_technical_appendix r))"
    "dget D ''content_fingerprint'' = Some (PStr (xm_content_fingerprint r))"
    "dget D ''manifest_fingerprint'' = Some (PStr (xm_manifest_fingerprint r))"
    "dget D ''approval_id'' = Some (PStr (xm_approval_id r))"
    "dget D ''custody_snapshot_id'' = Some (opt_str (xm_custody_snapshot_id r))"
    "dget D ''status'' = Some (PStr (xm_status r))"
    "dget D ''warnings'' = Some (dicts (List.map sort_dict (xm_warnings r)))"
    "dget D ''created_by'' = Some (PStr (xm_created_by r))"
    "dget D ''created_at'' = Some (t)"
    "dget D ''manifest_version'' = Some (PStr (xm_manifest_version r))"
    unfolding D_def dget_sort_dict [OF keys] unfolding dd [symmetric]
    by (simp_all add: sort_ts [OF t])
  show ?thesis unfolding D_def [symmetric] export_manifest_from_schema_def
    by (cases r) (simp add: f read_ts [OF r t] stored_export_manifest_def)
qed

definition stored_rendered_artifact :: "rendered_artifact \<Rightarrow> rendered_artifact" where
  "stored_rendered_artifact r = r\<lparr>rf_warnings := List.map sort_dict (rf_warnings r)\<rparr>"

lemma rendered_artifact_read:
  assumes enc: "rendered_artifact_schema_dict r = Inr d" and r: "readable (rf_rendered_at r)"
  shows "rendered_artifact_from_schema (sort_dict d) = Inr (stored_rendered_artifact r)"
proof -
  obtain t where t: "ts (Some (rf_rendered_at r)) = Inr t"
    using ts_readable [OF r] by blast
  note dd = enc [unfolded rendered_artifact_schema_dict_def t bind_res.simps, simplified]
  have keys: "distinct (List.map fst d)" unfolding dd [symmetric] by simp
  define D where "D = sort_dict d"
  have f: "dget D ''rendered_artifact_id'' = Some (PStr (rf_rendered_artifact_id r))"
    "dget D ''export_manifest_id'' = Some (PStr (rf_export_manifest_id r))"
    "dget D ''report_version_id'' = Some (PStr (rf_report_version_id r))"
    "dget D ''format'' = Some (PStr (rf_format r))"
    "dget D ''renderer_id'' = Some (PStr (rf_renderer_id r))"
    "dget D ''renderer_version'' = Some (PStr (rf_renderer_version r))"
    "dget D ''output_reference'' = Some (PStr (rf_output_reference r))"
    "dget D ''filename'' = Some (PStr (rf_filename r))"
    "dget D ''mime_type'' = Some (PStr (rf_mime_type r))"
    "dget D ''size_bytes'' = Some (PInt (rf_size_bytes r))"
    "dget D ''sha256'' = Some (PStr (rf_sha256 r))"
    "dget D ''rendered_at'' = Some (t)"
    "dget D ''warnings'' = Some (dicts (List.map sort_dict (rf_warnings r)))"
    "dget D ''artifact_fingerprint'' = Some (PStr (rf_artifact_fingerprint r))"
    unfolding D_def dget_sort_dict [OF keys] unfolding dd [symmetric]
    by (simp_all add: sort_ts [OF t])
  show ?thesis unfolding D_def [symmetric] rendered_artifact_from_schema_def
    by (cases r) (simp add: f read_ts [OF r t] stored_rendered_artifact_def)
qed

subsection \<open>Audit events and renderer capabilities\<close>

definition stored_export_audit_event :: "export_audit_event \<Rightarrow> export_audit_event" where
  "stored_export_audit_event r = r\<lparr>xa_details := sort_dict (xa_details r)\<rparr>"

lemma export_audit_event_read:
  assumes enc: "export_audit_event_schema_dict r = Inr d" and r: "readable (xa_created_at r)"
  shows "export_audit_event_from_schema (sort_dict d) = Inr (stored_export_audit_event r)"
proof -
  obtain t where t: "ts (Some (xa_created_at r)) = Inr t"
    using ts_readable [OF r] by blast
  note dd = enc [unfolded export_audit_event_schema_dict_def t bind_res.simps, simplified]
  have keys: "distinct (List.map fst d)" unfolding dd [symmetric] by simp
  define D where "D = sort_dict d"
  have f: "dget D ''audit_event_id'' = Some (PStr (xa_audit_event_id r))"
    "dget D ''export_manifest_id'' = Some (PStr (xa_export_manifest_id r))"
    "dget D ''report_id'' = Some (PStr (xa_report_id r))"
    "dget D ''report_version_id'' = Some (PStr (xa_report_version_id r))"
    "dget D ''case_id'' = Some (PStr (xa_case_id r))"
    "dget D ''action'' = Some (PStr (xa_action r))"
    "dget D ''actor_id'' = Some (opt_str (xa_actor_id r))"
    "dget D ''status'' = Some (PStr (xa_status r))"
    "dget D ''details'' = Some (PDict (sort_dict (xa_details r)))"
    "dget D ''previous_event_hash'' = Some (opt_str (xa_previous_event_hash r))"
    "dget D ''event_hash'' = Some (PStr (xa_event_hash r))"
    "dget D ''created_at'' = Some (t)"
    unfolding D_def dget_sort_dict [OF keys] unfolding dd [symmetric]
    by (simp_all add: sort_ts [OF t])
  show ?thesis unfolding D_def [symmetric] export_audit_event_from_schema_def
    by (cases r) (simp add: f read_ts [OF r t] stored_export_audit_event_def)
qed

definition stored_renderer_capability :: "renderer_capability \<Rightarrow> renderer_capability" where
  "stored_renderer_capability r = r\<lparr>rc_warnings := List.map sort_dict (rc_warnings r)\<rparr>"

lemma renderer_capability_read:
  assumes enc: "renderer_capability_schema_dict r = Inr d" and r: "opt_readable (rc_generated_at r)"
  shows "renderer_capability_from_schema (sort_dict d) = Inr (stored_renderer_capability r)"
proof -
  obtain t where t: "ts (rc_generated_at r) = Inr t"
    using ts_opt_readable [OF r] by blast
  note dd = enc [unfolded renderer_capability_schema_dict_def t bind_res.simps, simplified]
  have keys: "distinct (List.map fst d)" unfolding dd [symmetric] by simp
  define D where "D = sort_dict d"
  have f: "dget D ''schema_version'' = Some (PStr (rc_capability_version r))"
    "dget D ''renderer_id'' = Some (PStr (rc_renderer_id r))"
    "dget D ''renderer_version'' = Some (PStr (rc_renderer_version r))"
    "dget D ''supported_formats'' = Some (strs (rc_supported_formats r))"
    "dget D ''is_available'' = Some (PBool (rc_is_available r))"
    "dget D ''unavailable_reason'' = Some (opt_str (rc_unavailable_reason r))"
    "dget D ''warnings'' = Some (dicts (List.map sort_dict (rc_warnings r)))"
    "dget D ''generated_at'' = Some (t)"
    unfolding D_def dget_sort_dict [OF keys] unfolding dd [symmetric]
    by (simp_all add: sort_ts [OF t])
  show ?thesis unfolding D_def [symmetric] renderer_capability_from_schema_def
    by (cases r) (simp add: f read_ts_opt [OF r t] stored_renderer_capability_def)
qed

end
