(* ===== verification/Service_Monad.thy ===== *)
theory Service_Monad
  imports Errors
begin

section \<open>Services over a mutable store\<close>

text \<open>
  An operation of a service reads and writes a store and may raise: it is a function from the
  store to the store it leaves and its result.  What was written before an exception stays
  written; one write is a transaction, which happens completely or not at all (\<open>svc_write\<close>).
  \<open>wp I m Q s\<close> says that \<open>m\<close> started in \<open>s\<close> ends with its result and store in \<open>Q\<close>, or raises in a
  store of \<open>I\<close>; its equations turn a statement about an operation into one about its writes.
\<close>

type_synonym ('s, 'a) svc = "'s \<Rightarrow> 's \<times> 'a res"

definition svc_ret :: "'a \<Rightarrow> ('s, 'a) svc" where
  "svc_ret x s = (s, Inr x)"

definition svc_err :: "exn \<Rightarrow> ('s, 'a) svc" where
  "svc_err e s = (s, Inl e)"

definition svc_of :: "'a res \<Rightarrow> ('s, 'a) svc" where
  "svc_of r s = (s, r)"

definition svc_read :: "('s \<Rightarrow> 'a res) \<Rightarrow> ('s, 'a) svc" where
  "svc_read f s = (s, f s)"

definition svc_get :: "('s \<Rightarrow> 'a) \<Rightarrow> ('s, 'a) svc" where
  "svc_get f s = (s, Inr (f s))"

definition svc_write :: "('s \<Rightarrow> 's res) \<Rightarrow> ('s, unit) svc" where
  "svc_write f s = (case f s of Inl e \<Rightarrow> (s, Inl e) | Inr s' \<Rightarrow> (s', Inr ()))"

definition svc_bind :: "('s, 'a) svc \<Rightarrow> ('a \<Rightarrow> ('s, 'b) svc) \<Rightarrow> ('s, 'b) svc" where
  "svc_bind m f s = (case m s of (s', Inl e) \<Rightarrow> (s', Inl e) | (s', Inr x) \<Rightarrow> f x s')"

definition svc_catch :: "('s, 'a) svc \<Rightarrow> (exn \<Rightarrow> bool) \<Rightarrow> (exn \<Rightarrow> ('s, 'a) svc) \<Rightarrow> ('s, 'a) svc" where
  "svc_catch m caught h s = (case m s of
     (s', Inl e) \<Rightarrow> (if caught e then h e s' else (s', Inl e))
   | (s', Inr x) \<Rightarrow> (s', Inr x))"

definition svc_guard :: "bool \<Rightarrow> exn \<Rightarrow> ('s, unit) svc" where
  "svc_guard c e s = (s, if c then Inl e else Inr ())"

lemmas svc_defs = svc_ret_def svc_err_def svc_of_def svc_read_def svc_get_def svc_write_def
  svc_bind_def svc_catch_def svc_guard_def

subsection \<open>Results\<close>

lemma svc_bind_Inr:
  "svc_bind m f s = (s', Inr y) \<longleftrightarrow> (\<exists>x s1. m s = (s1, Inr x) \<and> f x s1 = (s', Inr y))"
  by (auto simp: svc_bind_def split: prod.splits sum.splits)

lemma svc_result [simp]:
  fixes r :: "'a res" and u :: "unit res"
  shows "svc_ret x s = (s', r) \<longleftrightarrow> s' = s \<and> r = Inr x"
  "svc_err e s = (s', r) \<longleftrightarrow> s' = s \<and> r = Inl e"
  "svc_of a s = (s', r) \<longleftrightarrow> s' = s \<and> r = a"
  "svc_read f s = (s', r) \<longleftrightarrow> s' = s \<and> r = f s"
  "svc_get g s = (s', r) \<longleftrightarrow> s' = s \<and> r = Inr (g s)"
  "svc_guard c e s = (s', u) \<longleftrightarrow> s' = s \<and> u = (if c then Inl e else Inr ())"
  by (auto simp: svc_defs)

lemma svc_write_Inr [simp]: "svc_write f s = (s', Inr u) \<longleftrightarrow> f s = Inr s'"
  by (auto simp: svc_write_def split: sum.splits)

lemma svc_bind_Inl: "svc_bind m f s = (s', Inl e) \<longleftrightarrow>
    m s = (s', Inl e) \<or> (\<exists>x s1. m s = (s1, Inr x) \<and> f x s1 = (s', Inl e))"
  by (auto simp: svc_bind_def split: prod.splits sum.splits)

subsection \<open>Weakest preconditions\<close>

definition wp :: "('s \<Rightarrow> bool) \<Rightarrow> ('s, 'a) svc \<Rightarrow> ('a \<Rightarrow> 's \<Rightarrow> bool) \<Rightarrow> 's \<Rightarrow> bool" where
  "wp I m Q s = (case m s of (s', Inl e) \<Rightarrow> I s' | (s', Inr x) \<Rightarrow> Q x s')"

lemma wp_simps [simp]:
  fixes Q1 :: "'a \<Rightarrow> 's \<Rightarrow> bool" and Q2 :: "unit \<Rightarrow> 's \<Rightarrow> bool" and Q3 :: "'b \<Rightarrow> 's \<Rightarrow> bool"
  shows "wp I (svc_ret x) Q1 s = Q1 x s"
    "wp I (svc_err e) Q1 s = I s"
    "wp I (svc_of r) Q1 s = (case r of Inl e \<Rightarrow> I s | Inr x \<Rightarrow> Q1 x s)"
    "wp I (svc_read f) Q1 s = (case f s of Inl e \<Rightarrow> I s | Inr x \<Rightarrow> Q1 x s)"
    "wp I (svc_get g) Q1 s = Q1 (g s) s"
    "wp I (svc_write w) Q2 s = (case w s of Inl e \<Rightarrow> I s | Inr s' \<Rightarrow> Q2 () s')"
    "wp I (svc_guard c e) Q2 s = (if c then I s else Q2 () s)"
    "wp I (svc_bind m k) Q3 s = wp I m (\<lambda>x. wp I (k x) Q3) s"
  by (auto simp: wp_def svc_defs split: prod.splits sum.splits)

lemma wp_if: "wp I (if c then m else n) Q s = (if c then wp I m Q s else wp I n Q s)"
  by simp

lemma wp_mono: "wp I m Q s \<Longrightarrow> (\<And>x s'. Q x s' \<Longrightarrow> R x s') \<Longrightarrow> wp I m R s"
  by (auto simp: wp_def split: prod.splits sum.splits)

lemma wp_catch: "wp I (svc_catch m c h) Q s \<longleftrightarrow>
    (case m s of (s', Inl e) \<Rightarrow> if c e then wp I (h e) Q s' else I s' | (s', Inr x) \<Rightarrow> Q x s')"
  by (auto simp: wp_def svc_catch_def split: prod.splits sum.splits)

lemma wp_catchI:
  assumes "wp J m Q s" "\<And>s' e. J s' \<Longrightarrow> c e \<Longrightarrow> wp I (h e) Q s'" "\<And>s'. J s' \<Longrightarrow> I s'"
  shows "wp I (svc_catch m c h) Q s"
proof -
  obtain s' r where m: "m s = (s', r)" by fastforce
  show ?thesis
  proof (cases r)
    case (Inl e)
    then have "J s'" using assms(1) m by (simp add: wp_def)
    with Inl m assms(2,3) show ?thesis by (simp add: wp_catch)
  next
    case (Inr x)
    then show ?thesis using assms(1) m by (simp add: wp_catch) (simp add: wp_def)
  qed
qed

lemma wp_Inr: "wp I m Q s \<Longrightarrow> m s = (s', Inr x) \<Longrightarrow> Q x s'"
  by (simp add: wp_def)

lemma wp_store: "wp I m (\<lambda>_. I) s \<Longrightarrow> I (fst (m s))"
  by (auto simp: wp_def split: prod.splits sum.splits)

end
