(* ===== verification/Report_Store.thy ===== *)
theory Report_Store
  imports Report_Text Report_Model_Facts Service_Monad "HOL-Library.Product_Lexorder"
begin

section \<open>The report tables\<close>

text \<open>
  The report part of \<open>adapters/persistence/sqlite/repository.py\<close> over the tables its schema
  declares: the inserts with their primary keys, unique constraints and foreign keys
  (\<open>PRAGMA foreign_keys = ON\<close>), a violation raising \<open>IntegrityError\<close>; the updates; and the
  queries in their \<open>ORDER BY\<close>.  A row holds the record that its JSON column decodes to
  (\<open>Report_Model_Facts\<close>); encoding a naive time raises.  The section and reference rows of a
  version are part of its record: their primary keys ask for distinct entries.  The state also
  counts the clock readings and the identifiers drawn so far.
\<close>

record report_state =
  st_custody :: custody_db
  st_reports :: "report_record list"
  st_versions :: "report_version list"
  st_reviews :: "review_event list"
  st_approvals :: "approval_record list"
  st_snapshots :: "custody_snapshot list"
  st_packages :: "render_package list"
  st_manifests :: "export_manifest list"
  st_artifacts :: "rendered_artifact list"
  st_audits :: "export_audit_event list"
  st_capabilities :: "renderer_capability list"
  st_ticks :: nat
  st_minted :: nat

definition integrity :: "bool \<Rightarrow> 'a res \<Rightarrow> 'a res" where
  "integrity violated r = (if violated then Inl (PyExn ''IntegrityError'') else r)"

lemma integrity_Inr [simp]: "integrity v r = Inr x \<longleftrightarrow> \<not> v \<and> r = Inr x"
  by (simp add: integrity_def)

definition has_case_row :: "report_state \<Rightarrow> string \<Rightarrow> bool" where
  "has_case_row s c \<longleftrightarrow> db_cases (st_custody s) c \<noteq> None"

definition has_report :: "report_state \<Rightarrow> string \<Rightarrow> bool" where
  "has_report s i \<longleftrightarrow> list_ex (\<lambda>r. rr_report_id r = i) (st_reports s)"

definition has_version :: "report_state \<Rightarrow> string \<Rightarrow> bool" where
  "has_version s i \<longleftrightarrow> list_ex (\<lambda>v. rv_report_version_id v = i) (st_versions s)"

subsection \<open>Reports\<close>

definition sqlite_save_report :: "report_record \<Rightarrow> report_state \<Rightarrow> report_state res" where
  "sqlite_save_report r s =
     bind_res (report_record_schema_dict r) (\<lambda>_.
     integrity (has_report s (rr_report_id r) \<or> \<not> has_case_row s (rr_case_id r))
       (Inr (s\<lparr>st_reports := st_reports s @ [r]\<rparr>)))"

definition sqlite_update_report :: "report_record \<Rightarrow> report_state \<Rightarrow> report_state res" where
  "sqlite_update_report r s =
     map_res (\<lambda>_. s\<lparr>st_reports :=
         List.map (\<lambda>q. if rr_report_id q = rr_report_id r then r else q) (st_reports s)\<rparr>)
       (report_record_schema_dict r)"

definition sqlite_get_report :: "report_state \<Rightarrow> string \<Rightarrow> report_record option" where
  "sqlite_get_report s i = find (\<lambda>r. rr_report_id r = i) (st_reports s)"

definition sqlite_list_reports ::
  "report_state \<Rightarrow> string \<Rightarrow> string option \<Rightarrow> nat \<Rightarrow> report_record list" where
  "sqlite_list_reports s case_id after_id limit =
     take limit (sort_key rr_report_id
       (filter (\<lambda>r. rr_case_id r = case_id \<and>
          (case after_id of None \<Rightarrow> True | Some a \<Rightarrow> a < rr_report_id r)) (st_reports s)))"

subsection \<open>Versions\<close>

definition distinct_references :: "report_version \<Rightarrow> bool" where
  "distinct_references v \<longleftrightarrow> distinct (List.map rs_section_id (rv_sections v)) \<and>
     distinct (rv_context_snapshot_ids v) \<and> distinct (rv_evidence_ids v) \<and>
     distinct (rv_search_execution_ids v) \<and> distinct (rv_ai_assistance_request_ids v) \<and>
     distinct (rv_ai_result_ids v) \<and> distinct (rv_citation_ids v) \<and>
     distinct (rv_timeline_revisions v)"

definition sqlite_save_report_version ::
  "report_version \<Rightarrow> report_record \<Rightarrow> report_state \<Rightarrow> report_state res" where
  "sqlite_save_report_version v r s =
     bind_res (report_version_schema_dict v) (\<lambda>_.
     integrity (has_version s (rv_report_version_id v) \<or> \<not> has_report s (rv_report_id v) \<or>
         \<not> has_case_row s (rv_case_id v) \<or>
         (\<exists>w \<in> set (st_versions s). rv_report_id w = rv_report_id v \<and>
            (rv_version_number w = rv_version_number v \<or>
             rv_content_fingerprint w = rv_content_fingerprint v)) \<or>
         \<not> distinct_references v)
       (sqlite_update_report r (s\<lparr>st_versions := st_versions s @ [stored_report_version v]\<rparr>)))"

definition sqlite_get_report_version :: "report_state \<Rightarrow> string \<Rightarrow> report_version option" where
  "sqlite_get_report_version s i = find (\<lambda>v. rv_report_version_id v = i) (st_versions s)"

definition sqlite_version_by_fingerprint ::
  "report_state \<Rightarrow> string \<Rightarrow> string \<Rightarrow> report_version option" where
  "sqlite_version_by_fingerprint s report_id fp =
     find (\<lambda>v. rv_report_id v = report_id \<and> rv_content_fingerprint v = fp) (st_versions s)"

definition sqlite_list_report_versions :: "report_state \<Rightarrow> string \<Rightarrow> report_version list" where
  "sqlite_list_report_versions s report_id =
     sort_key (\<lambda>v. (rv_version_number v, rv_report_version_id v))
       (filter (\<lambda>v. rv_report_id v = report_id) (st_versions s))"

subsection \<open>Review events and approvals\<close>

definition sqlite_append_review_event ::
  "review_event \<Rightarrow> report_record \<Rightarrow> report_state \<Rightarrow> report_state res" where
  "sqlite_append_review_event e r s =
     bind_res (review_event_schema_dict e) (\<lambda>_.
     integrity (\<not> has_report s (rw_report_id e) \<or> \<not> has_version s (rw_report_version_id e) \<or>
         \<not> has_case_row s (rw_case_id e) \<or>
         (\<exists>w \<in> set (st_reviews s). rw_review_event_id w = rw_review_event_id e \<or>
            rw_report_version_id w = rw_report_version_id e \<and>
              (rw_review_revision w = rw_review_revision e \<or> rw_event_hash w = rw_event_hash e)))
       (sqlite_update_report r (s\<lparr>st_reviews := st_reviews s @ [e]\<rparr>)))"

definition sqlite_list_review_events :: "report_state \<Rightarrow> string \<Rightarrow> review_event list" where
  "sqlite_list_review_events s version_id =
     sort_key (\<lambda>e. (rw_review_revision e, rw_review_event_id e))
       (filter (\<lambda>e. rw_report_version_id e = version_id) (st_reviews s))"

definition sqlite_append_approval ::
  "approval_record \<Rightarrow> report_record \<Rightarrow> report_state \<Rightarrow> report_state res" where
  "sqlite_append_approval a r s =
     bind_res (approval_record_schema_dict a) (\<lambda>_.
     integrity (\<not> has_report s (ra_report_id a) \<or> \<not> has_version s (ra_report_version_id a) \<or>
         \<not> has_case_row s (ra_case_id a) \<or>
         (\<exists>w \<in> set (st_approvals s). ra_approval_id w = ra_approval_id a \<or>
            ra_report_id w = ra_report_id a \<and>
              (ra_approval_revision w = ra_approval_revision a \<or>
               ra_approval_hash w = ra_approval_hash a)))
       (sqlite_update_report r (s\<lparr>st_approvals := st_approvals s @ [a]\<rparr>)))"

definition sqlite_list_approvals ::
  "report_state \<Rightarrow> string option \<Rightarrow> string option \<Rightarrow> approval_record list" where
  "sqlite_list_approvals s report_id version_id =
     sort_key (\<lambda>a. (ra_approval_revision a, ra_approval_id a))
       (filter (\<lambda>a. (case report_id of None \<Rightarrow> True | Some i \<Rightarrow> ra_report_id a = i) \<and>
            (case version_id of None \<Rightarrow> True | Some i \<Rightarrow> ra_report_version_id a = i))
         (st_approvals s))"

subsection \<open>Custody snapshots and packages\<close>

definition sqlite_save_custody_snapshot :: "custody_snapshot \<Rightarrow> report_state \<Rightarrow> report_state res" where
  "sqlite_save_custody_snapshot c s =
     bind_res (custody_snapshot_schema_dict c) (\<lambda>_.
     integrity (\<not> has_report s (cn_report_id c) \<or> \<not> has_version s (cn_report_version_id c) \<or>
         \<not> has_case_row s (cn_case_id c) \<or>
         (\<exists>w \<in> set (st_snapshots s). cn_custody_snapshot_id w = cn_custody_snapshot_id c \<or>
            cn_snapshot_fingerprint w = cn_snapshot_fingerprint c) \<or>
         \<not> distinct (cn_custody_event_ids c) \<or>
         (\<exists>i \<in> set (cn_custody_event_ids c). sqlite_get_custody_event (st_custody s) i = None))
       (Inr (s\<lparr>st_snapshots := st_snapshots s @ [stored_custody_snapshot c]\<rparr>)))"

definition sqlite_get_custody_snapshot :: "report_state \<Rightarrow> string \<Rightarrow> custody_snapshot option" where
  "sqlite_get_custody_snapshot s i = find (\<lambda>c. cn_custody_snapshot_id c = i) (st_snapshots s)"

definition sqlite_snapshot_by_fingerprint :: "report_state \<Rightarrow> string \<Rightarrow> custody_snapshot option" where
  "sqlite_snapshot_by_fingerprint s fp = find (\<lambda>c. cn_snapshot_fingerprint c = fp) (st_snapshots s)"

definition sqlite_save_render_package :: "render_package \<Rightarrow> report_state \<Rightarrow> report_state res" where
  "sqlite_save_render_package p s =
     bind_res (render_package_schema_dict p) (\<lambda>_.
     integrity (\<not> has_report s (rp_report_id p) \<or> \<not> has_version s (rp_report_version_id p) \<or>
         \<not> has_case_row s (rp_case_id p) \<or>
         (\<exists>w \<in> set (st_packages s). rp_package_id w = rp_package_id p \<or>
            rp_package_fingerprint w = rp_package_fingerprint p))
       (Inr (s\<lparr>st_packages := st_packages s @ [stored_render_package p]\<rparr>)))"

definition sqlite_get_render_package :: "report_state \<Rightarrow> string \<Rightarrow> render_package option" where
  "sqlite_get_render_package s i = find (\<lambda>p. rp_package_id p = i) (st_packages s)"

definition sqlite_package_by_fingerprint :: "report_state \<Rightarrow> string \<Rightarrow> render_package option" where
  "sqlite_package_by_fingerprint s fp = find (\<lambda>p. rp_package_fingerprint p = fp) (st_packages s)"

subsection \<open>Export manifests, artifacts and their audit\<close>

definition sqlite_save_export_manifest ::
  "export_manifest \<Rightarrow> report_record \<Rightarrow> report_state \<Rightarrow> report_state res" where
  "sqlite_save_export_manifest m r s =
     bind_res (export_manifest_schema_dict m) (\<lambda>_.
     integrity (\<not> has_report s (xm_report_id m) \<or> \<not> has_version s (xm_report_version_id m) \<or>
         \<not> has_case_row s (xm_case_id m) \<or>
         \<not> list_ex (\<lambda>p. rp_package_id p = xm_render_package_id m) (st_packages s) \<or>
         \<not> list_ex (\<lambda>a. ra_approval_id a = xm_approval_id m) (st_approvals s) \<or>
         (\<exists>w \<in> set (st_manifests s). xm_export_manifest_id w = xm_export_manifest_id m \<or>
            xm_manifest_fingerprint w = xm_manifest_fingerprint m))
       (sqlite_update_report r (s\<lparr>st_manifests := st_manifests s @ [stored_export_manifest m]\<rparr>)))"

definition sqlite_get_export_manifest :: "report_state \<Rightarrow> string \<Rightarrow> export_manifest option" where
  "sqlite_get_export_manifest s i = find (\<lambda>m. xm_export_manifest_id m = i) (st_manifests s)"

definition sqlite_manifest_by_fingerprint :: "report_state \<Rightarrow> string \<Rightarrow> export_manifest option" where
  "sqlite_manifest_by_fingerprint s fp = find (\<lambda>m. xm_manifest_fingerprint m = fp) (st_manifests s)"

definition sqlite_update_export_manifest :: "export_manifest \<Rightarrow> report_state \<Rightarrow> report_state res" where
  "sqlite_update_export_manifest m s =
     map_res (\<lambda>_. s\<lparr>st_manifests := List.map
         (\<lambda>w. if xm_export_manifest_id w = xm_export_manifest_id m then stored_export_manifest m else w)
         (st_manifests s)\<rparr>)
       (export_manifest_schema_dict m)"

definition sqlite_save_rendered_artifact ::
  "rendered_artifact \<Rightarrow> export_manifest \<Rightarrow> report_record \<Rightarrow> report_state \<Rightarrow> report_state res" where
  "sqlite_save_rendered_artifact a m r s =
     bind_res (rendered_artifact_schema_dict a) (\<lambda>_.
     integrity (\<not> has_version s (rf_report_version_id a) \<or>
         \<not> list_ex (\<lambda>w. xm_export_manifest_id w = rf_export_manifest_id a) (st_manifests s) \<or>
         (\<exists>w \<in> set (st_artifacts s). rf_rendered_artifact_id w = rf_rendered_artifact_id a \<or>
            rf_artifact_fingerprint w = rf_artifact_fingerprint a))
       (bind_res (sqlite_update_export_manifest m
          (s\<lparr>st_artifacts := st_artifacts s @ [stored_rendered_artifact a]\<rparr>))
          (sqlite_update_report r)))"

definition sqlite_list_artifacts :: "report_state \<Rightarrow> string \<Rightarrow> rendered_artifact list" where
  "sqlite_list_artifacts s manifest_id =
     sort_key (\<lambda>a. (instant (rf_rendered_at a), rf_rendered_artifact_id a))
       (filter (\<lambda>a. rf_export_manifest_id a = manifest_id) (st_artifacts s))"

definition sqlite_append_export_audit :: "export_audit_event \<Rightarrow> report_state \<Rightarrow> report_state res" where
  "sqlite_append_export_audit e s =
     bind_res (export_audit_event_schema_dict e) (\<lambda>_.
     integrity (\<not> has_report s (xa_report_id e) \<or> \<not> has_version s (xa_report_version_id e) \<or>
         \<not> has_case_row s (xa_case_id e) \<or>
         \<not> list_ex (\<lambda>w. xm_export_manifest_id w = xa_export_manifest_id e) (st_manifests s) \<or>
         (\<exists>w \<in> set (st_audits s). xa_audit_event_id w = xa_audit_event_id e \<or>
            xa_export_manifest_id w = xa_export_manifest_id e \<and> xa_event_hash w = xa_event_hash e))
       (Inr (s\<lparr>st_audits := st_audits s @ [stored_export_audit_event e]\<rparr>)))"

definition sqlite_list_export_audits :: "report_state \<Rightarrow> string \<Rightarrow> export_audit_event list" where
  "sqlite_list_export_audits s manifest_id =
     sort_key (\<lambda>e. (instant (xa_created_at e), xa_audit_event_id e))
       (filter (\<lambda>e. xa_export_manifest_id e = manifest_id) (st_audits s))"

definition sqlite_save_capability :: "renderer_capability \<Rightarrow> report_state \<Rightarrow> report_state res" where
  "sqlite_save_capability c s =
     map_res (\<lambda>_. s\<lparr>st_capabilities :=
         filter (\<lambda>w. (rc_renderer_id w, rc_renderer_version w) \<noteq> (rc_renderer_id c, rc_renderer_version c))
           (st_capabilities s) @ [stored_renderer_capability c]\<rparr>)
       (renderer_capability_schema_dict c)"

end
