(* ===== verification/Report_Input.thy ===== *)
theory Report_Input
  imports Report_Store
begin

section \<open>The content of a report version\<close>

text \<open>
  What \<open>create_version\<close> of \<open>application/services/report.py\<close> computes before it writes: references
  to evidence, snapshots, searches and AI results checked against the case, citations resolved,
  sections built, and the states summed up.  The services and rows of other components are the
  fields of \<open>report_env\<close>: context snapshots and the resolution of a resource
  (\<open>ContextService\<close>), AI requests and results, search executions, the evidence description and
  the renderer; so are SHA-256, the clock and the identifiers.  \<open>dict\<close> of a value that is neither
  a dictionary nor falsy raises here.
\<close>

subsection \<open>The environment\<close>

record context_snapshot =
  sn_id :: string
  sn_case_id :: string
  sn_included :: "(string \<times> string list) list"
  sn_partial_state :: dict
  sn_stale_state :: dict
  sn_fingerprint :: string
  sn_source_revisions :: "pyval list"
  sn_created_at :: datetime

record resource_info =
  ri_case_id :: string
  ri_evidence_id :: "string option"
  ri_resource_type :: string

record ai_request =
  aq_id :: string
  aq_case_id :: string
  aq_context_snapshot_id :: string

record evidence_doc =
  ed_display_name :: string
  ed_format :: pyval
  ed_size_bytes :: pyval
  ed_hashes :: "pyval list"
  ed_fingerprint :: pyval

record renderer_port =
  rn_capability :: renderer_capability
  rn_validate :: "render_package \<Rightarrow> unit res"
  rn_render :: "render_package \<Rightarrow> string \<Rightarrow> string \<Rightarrow> dict res"
  rn_verify :: "dict \<Rightarrow> unit res"

record report_env =
  rx_sha :: "string \<Rightarrow> string"
  rx_now :: "nat \<Rightarrow> datetime"
  rx_new_id :: "nat \<Rightarrow> string"
  rx_snapshot :: "string \<Rightarrow> context_snapshot res"
  rx_resource :: "string \<Rightarrow> string \<Rightarrow> resource_info res"
  rx_ai_request :: "string \<Rightarrow> ai_request res"
  rx_ai_result_case :: "string \<Rightarrow> string option"
  rx_search_case :: "string \<Rightarrow> string option"
  rx_case_locale :: "string \<Rightarrow> string"
  rx_evidence_doc :: "string \<Rightarrow> evidence_doc"
  rx_custody :: custody_env
  rx_root :: string
  rx_renderer :: renderer_port

fun is_apex :: "exn \<Rightarrow> bool" where
  "is_apex (ApexExn _) = True"
| "is_apex _ = False"

text \<open>\<open>except ApexError as exc: raise ReportError(...) from exc\<close>\<close>

definition reraise :: "exn \<Rightarrow> 'a res \<Rightarrow> 'a res" where
  "reraise e r = (case r of Inl x \<Rightarrow> Inl (if is_apex x then e else x) | Inr y \<Rightarrow> Inr y)"

definition or_dict :: "pyval \<Rightarrow> dict res" where
  "or_dict v = (if truthy v then as_dict v else Inr [])"

subsection \<open>References\<close>

definition validate_refs ::
  "(string \<Rightarrow> string option) \<Rightarrow> string \<Rightarrow> string \<Rightarrow> string \<Rightarrow> string \<Rightarrow> string list \<Rightarrow> string list res" where
  "validate_refs case_of missing foreign target case_id ids =
     traverse (\<lambda>i. case case_of i of
         None \<Rightarrow> Inl (report_error ''REPORT_REFERENCE_NOT_FOUND'' missing target)
       | Some c \<Rightarrow> (if c \<noteq> case_id
           then Inl (report_error ''REPORT_REFERENCE_CASE_MISMATCH'' foreign target) else Inr i))
       (dedupe ids)"

definition validate_evidence_ids :: "report_state \<Rightarrow> string \<Rightarrow> string list \<Rightarrow> string list res" where
  "validate_evidence_ids s case_id ids =
     validate_refs (db_evidence (st_custody s)) ''Evidence not found.''
       ''Evidence belongs to another case.'' ''evidence_ids'' case_id ids"

definition validate_search_execution_ids ::
  "report_env \<Rightarrow> string \<Rightarrow> string list \<Rightarrow> string list res" where
  "validate_search_execution_ids env case_id ids =
     validate_refs (rx_search_case env) ''Search execution not found.''
       ''Search execution belongs to another case.'' ''search_execution_ids'' case_id ids"

definition validate_ai_result_ids :: "report_env \<Rightarrow> string \<Rightarrow> string list \<Rightarrow> string list res" where
  "validate_ai_result_ids env case_id ids =
     validate_refs (rx_ai_result_case env) ''AI result not found.''
       ''AI result belongs to another case.'' ''ai_result_ids'' case_id ids"

definition validate_ai_request_ids :: "report_env \<Rightarrow> string \<Rightarrow> string list \<Rightarrow> string list res" where
  "validate_ai_request_ids env case_id ids =
     traverse (\<lambda>i. bind_res (rx_ai_request env i) (\<lambda>q.
       if aq_case_id q \<noteq> case_id then Inl (report_error ''REPORT_REFERENCE_CASE_MISMATCH''
         ''AI assistance request belongs to another case.'' ''ai_assistance_request_ids'')
       else Inr i)) (dedupe ids)"

definition require_snapshots ::
  "report_env \<Rightarrow> string \<Rightarrow> string list \<Rightarrow> context_snapshot list res" where
  "require_snapshots env case_id ids =
     traverse (\<lambda>i. bind_res
       (reraise (report_error ''REPORT_REFERENCE_NOT_FOUND'' ''Context snapshot not found.''
          ''context_snapshot_id'') (rx_snapshot env i)) (\<lambda>sn.
       if sn_case_id sn \<noteq> case_id then Inl (report_error ''REPORT_REFERENCE_CASE_MISMATCH''
         ''Context snapshot belongs to another case.'' ''context_snapshot_id'')
       else Inr sn)) (dedupe ids)"

definition validate_source_resource_ids :: "context_snapshot list \<Rightarrow> string list \<Rightarrow> unit res" where
  "validate_source_resource_ids snapshots ids =
     (if snapshots = [] \<or> ids = [] then Inr ()
      else if \<forall>i \<in> set ids. \<exists>sn \<in> set snapshots. \<exists>(t, xs) \<in> set (sn_included sn). i \<in> set xs then Inr ()
      else Inl (report_error ''REPORT_CITATION_SCOPE_MISMATCH''
        ''Section source resource is outside report context snapshots.'' ''source_resource_ids''))"

subsection \<open>Snapshots\<close>

definition snapshot_is_partial :: "context_snapshot \<Rightarrow> bool" where
  "snapshot_is_partial sn = truthy (dget_or (sn_partial_state sn) ''is_partial'' (PBool False))"

definition snapshot_stale_reasons :: "context_snapshot \<Rightarrow> string list" where
  "snapshot_stale_reasons sn = (case dget_or (sn_stale_state sn) ''stale_reasons'' (PList []) of
     PList xs \<Rightarrow> List.map py_str xs | _ \<Rightarrow> [])"

definition snapshot_coverage :: "context_snapshot \<Rightarrow> dict" where
  "snapshot_coverage sn =
     [(''status'', PStr ''SNAPSHOT_DERIVED''),
      (''resource_counts'', PDict (List.map (\<lambda>(t, xs). (t, PInt (int (length xs)))) (sn_included sn)))]"

definition snapshot_source_revision_fingerprint ::
  "(string \<Rightarrow> string) \<Rightarrow> context_snapshot \<Rightarrow> string res" where
  "snapshot_source_revision_fingerprint sha sn =
     (if sn_source_revisions sn \<noteq> [] then canonical_sha256 sha (PList (sn_source_revisions sn)) []
      else canonical_sha256 sha (PDict [(''context_snapshot_id'', PStr (sn_id sn))]) [])"

definition snapshot_contains :: "context_snapshot \<Rightarrow> string \<Rightarrow> string \<Rightarrow> bool" where
  "snapshot_contains sn t i =
     (case map_of (sn_included sn) t of None \<Rightarrow> False | Some xs \<Rightarrow> i \<in> set xs)"

subsection \<open>Citations\<close>

definition check_citation ::
  "report_env \<Rightarrow> report_state \<Rightarrow> string \<Rightarrow> context_snapshot list \<Rightarrow> string \<Rightarrow> dict \<Rightarrow> dict res" where
  "check_citation env s case_id snapshots target c =
     bind_res (validate_citation_fields c target) (\<lambda>_.
     if dget_or c ''case_id'' PNone \<noteq> PStr case_id then
       Inl (report_error ''REPORT_REFERENCE_CASE_MISMATCH''
         ''Citation case_id does not match report case.'' target)
     else
      let evidence = dget_or c ''evidence_id'' PNone in
      bind_res (if evidence = PNone then Inr [] else validate_evidence_ids s case_id [py_str evidence])
        (\<lambda>_.
      let source_kind = py_str (dget_or c ''source_kind'' (PStr ''''));
          source_id = py_str (dget_or c ''source_id'' (PStr ''''))
      in if source_kind = [] \<or> source_id = [] then Inr c
         else bind_res (reraise (report_error ''REPORT_CITATION_NOT_FOUND''
                ''Citation source could not be resolved.'' target)
              (rx_resource env (resource_type_for_citation source_kind) source_id)) (\<lambda>info.
           if ri_case_id info \<noteq> case_id then
             Inl (report_error ''REPORT_REFERENCE_CASE_MISMATCH''
               ''Citation source belongs to another case.'' target)
           else if evidence \<noteq> PNone \<and> ri_evidence_id info \<noteq> None \<and>
               ri_evidence_id info \<noteq> Some (py_str evidence) then
             Inl (report_error ''REPORT_REFERENCE_CASE_MISMATCH''
               ''Citation evidence_id does not match cited resource.'' target)
           else if snapshots \<noteq> [] \<and>
               \<not> list_ex (\<lambda>sn. snapshot_contains sn (ri_resource_type info) source_id) snapshots then
             Inl (report_error ''REPORT_CITATION_SCOPE_MISMATCH''
               ''Citation source is outside the report context snapshots.'' target)
           else Inr c)))"

definition validate_citations ::
  "report_env \<Rightarrow> report_state \<Rightarrow> string \<Rightarrow> context_snapshot list \<Rightarrow> dict list \<Rightarrow> bool \<Rightarrow> string \<Rightarrow>
     dict list res" where
  "validate_citations env s case_id snapshots citations require_direct target =
     (if citations = [] then
        (if require_direct then Inl (report_error ''REPORT_CITATION_REQUIRED''
           ''Report content requires at least one citation.'' target)
         else Inr [])
      else if length citations > 1000 then Inl (report_error ''REPORT_CONTENT_LIMIT_EXCEEDED''
        ''Citation collection exceeds the maximum item count.'' target)
      else bind_res (traverse (check_citation env s case_id snapshots target) citations)
        (stable_docs (rx_sha env)))"

subsection \<open>Sections\<close>

definition section_payload :: "report_section \<Rightarrow> dict" where
  "section_payload r =
     [(''section_type'', PStr (rs_section_type r)), (''title'', PStr (rs_title r)),
      (''order'', PInt (rs_order r)), (''content_kind'', PStr (rs_content_kind r)),
      (''content'', PStr (rs_content r)), (''structured_data'', PDict (rs_structured_data r)),
      (''source_kind'', PStr (rs_source_kind r)),
      (''source_resource_ids'', strs (rs_source_resource_ids r)),
      (''context_snapshot_ids'', strs (rs_context_snapshot_ids r)),
      (''citations'', dicts (rs_citations r)), (''is_partial'', PBool (rs_is_partial r)),
      (''stale_reasons'', strs (rs_stale_reasons r)), (''coverage'', PDict (rs_coverage r)),
      (''warnings'', dicts (rs_warnings r))]"

definition section_warnings :: "pyval list \<Rightarrow> bool \<Rightarrow> bool \<Rightarrow> pyval list" where
  "section_warnings raw is_partial stale =
     raw @
     (if is_partial \<and> \<not> has_warning raw ''REPORT_SECTION_PARTIAL''
      then [PDict [(''code'', PStr ''REPORT_SECTION_PARTIAL'')]] else []) @
     (if stale \<and> \<not> has_warning raw ''REPORT_SECTION_STALE''
      then [PDict [(''code'', PStr ''REPORT_SECTION_STALE'')]] else [])"

definition finish_section :: "(string \<Rightarrow> string) \<Rightarrow> dict \<Rightarrow> report_section \<Rightarrow> report_section res" where
  "finish_section sha raw r =
     bind_res (canonical_sha256 sha (PDict (section_payload r)) []) (\<lambda>fp.
     bind_res (bounded_non_empty
         (let v = dget_or raw ''section_id'' PNone in
          if truthy v then v else PStr (''section-'' @ take 32 fp))
         ''section.section_id'' 128) (\<lambda>sid.
     Inr (r\<lparr>rs_section_id := sid, rs_section_fingerprint := fp\<rparr>)))"

definition section_from_input ::
  "report_env \<Rightarrow> report_state \<Rightarrow> string \<Rightarrow> context_snapshot list \<Rightarrow> dict \<Rightarrow> nat \<Rightarrow>
     report_section res" where
  "section_from_input env s case_id snapshots raw index =
     bind_res (validate_contract_payload (PDict raw) ''section'') (\<lambda>_.
     bind_res (enum_value (List.map report_section_type_value report_section_type_members)
       (dget_or raw ''section_type'' (PStr ''OTHER'')) ''section_type'') (\<lambda>section_type.
     bind_res (enum_value (List.map report_content_kind_value report_content_kind_members)
       (dget_or raw ''content_kind'' (PStr ''PLAIN_TEXT'')) ''content_kind'') (\<lambda>content_kind.
     bind_res (bounded_non_empty (dget_or raw ''title'' PNone) ''section.title'' 500) (\<lambda>title0.
     bind_res (safe_text title0 ''section.title'') (\<lambda>title.
     bind_res (safe_text (py_str (dget_or raw ''content'' (PStr ''''))) ''section.content'') (\<lambda>content.
     bind_res (if py_len content > 20000 then Inl (report_error ''REPORT_CONTENT_LIMIT_EXCEEDED''
         ''Report section content exceeds the maximum length.'' ''section.content'') else Inr ()) (\<lambda>_.
     bind_res (or_dict (dget_or raw ''structured_data'' PNone)) (\<lambda>structured_data.
     bind_res (validate_contract_payload (PDict structured_data) ''section.structured_data'') (\<lambda>_.
     bind_res (limit_value (dget_or raw ''order'' (PInt (int index))) 1 10000 ''order'') (\<lambda>ord.
     bind_res (enum_value (List.map report_source_kind_value report_source_kind_members)
       (dget_or raw ''source_kind'' (PStr ''ANALYST_DRAFT'')) ''source_kind'') (\<lambda>source_kind.
     bind_res (string_list (dget_or raw ''context_snapshot_ids'' (strs (List.map sn_id snapshots)))
       ''context_snapshot_ids'' 1000) (\<lambda>snapshot_ids.
     if \<not> set snapshot_ids \<subseteq> sn_id ` set snapshots then
       Inl (report_error ''REPORT_CITATION_SCOPE_MISMATCH''
         ''Section snapshots must belong to the declared report context.''
         ''section.context_snapshot_ids'')
     else
      let section_snapshots = filter (\<lambda>sn. sn_id sn \<in> set snapshot_ids) snapshots;
          scope = (if section_snapshots = [] then snapshots else section_snapshots) in
      bind_res (list_or_empty (dget_or raw ''citations'' PNone)) (\<lambda>raw_citations.
      bind_res (traverse as_dict raw_citations) (\<lambda>citation_docs.
      bind_res (validate_citations env s case_id scope citation_docs
        (truthy (dget_or raw ''require_citation'' (PBool False))) ''section.citations'') (\<lambda>citations.
      bind_res (string_list (dget_or raw ''source_resource_ids'' (PList [])) ''source_resource_ids'' 10000)
        (\<lambda>resource_ids.
      bind_res (validate_source_resource_ids scope resource_ids) (\<lambda>_.
      let is_partial = (truthy (dget_or raw ''is_partial'' (PBool False)) \<or>
            list_ex snapshot_is_partial section_snapshots) in
      bind_res (string_list (dget_or raw ''stale_reasons'' (PList [])) ''section.stale_reasons'' 1000)
        (\<lambda>raw_stale.
      let stale = dedupe (raw_stale @ concat (List.map snapshot_stale_reasons section_snapshots)) in
      bind_res (if length stale > 1000 then Inl (report_error ''REPORT_CONTENT_LIMIT_EXCEEDED''
          ''Section stale reasons exceed the maximum item count.'' ''section.stale_reasons'')
        else validate_string_lengths stale ''section.stale_reasons'' 500) (\<lambda>_.
      bind_res (or_dict (dget_or raw ''coverage'' PNone)) (\<lambda>coverage0.
      let coverage = (if dget coverage0 ''status'' = None then
            dset ''status'' (PStr (if section_snapshots = [] then ''UNKNOWN'' else ''SNAPSHOT_DERIVED''))
              coverage0 else coverage0) in
      bind_res (required_optional_list (dget_or raw ''warnings'' (PList [])) ''section.warnings'')
        (\<lambda>raw_warnings.
      bind_res (bounded_warnings (rx_sha env)
        (PList (section_warnings raw_warnings is_partial (stale \<noteq> []))) ''section.warnings'')
        (\<lambda>warnings.
      finish_section (rx_sha env) raw
        \<lparr>rs_section_id = '''', rs_section_type = section_type, rs_title = title, rs_order = ord,
         rs_content_kind = content_kind, rs_content = content, rs_structured_data = structured_data,
         rs_source_kind = source_kind, rs_source_resource_ids = sort resource_ids,
         rs_context_snapshot_ids = sort snapshot_ids, rs_citations = citations,
         rs_is_partial = is_partial, rs_stale_reasons = stale, rs_coverage = coverage,
         rs_warnings = warnings, rs_section_fingerprint = ''''\<rparr>))))))))))))))))))))))"

definition sections_from_input ::
  "report_env \<Rightarrow> report_state \<Rightarrow> string \<Rightarrow> context_snapshot list \<Rightarrow> dict list \<Rightarrow>
     report_section list res" where
  "sections_from_input env s case_id snapshots raws =
     traverse (\<lambda>(raw, index). section_from_input env s case_id snapshots raw index)
       (zip raws [1..<Suc (length raws)])"

subsection \<open>States of a version\<close>

definition partial_state :: "context_snapshot list \<Rightarrow> report_section list \<Rightarrow> dict" where
  "partial_state snapshots sections =
     (let reasons = List.map (\<lambda>sn. ''snapshot:'' @ sn_id sn) (filter snapshot_is_partial snapshots) @
            List.map (\<lambda>r. ''section:'' @ rs_section_id r) (filter rs_is_partial sections)
      in [(''is_partial'', PBool (reasons \<noteq> [])), (''partial_reasons'', strs (dedupe reasons))])"

definition stale_state :: "context_snapshot list \<Rightarrow> report_section list \<Rightarrow> dict" where
  "stale_state snapshots sections =
     (let reasons = concat (List.map snapshot_stale_reasons snapshots) @
            concat (List.map rs_stale_reasons sections)
      in [(''is_stale'', PBool (reasons \<noteq> [])), (''stale_reasons'', strs (dedupe reasons))])"

definition dict_of :: "(string \<times> pyval) list \<Rightarrow> dict" where
  "dict_of kvs = foldl (\<lambda>d (k, v). dset k v d) [] kvs"

definition coverage_summary :: "context_snapshot list \<Rightarrow> report_section list \<Rightarrow> dict" where
  "coverage_summary snapshots sections =
     [(''snapshot_count'', PInt (int (length snapshots))),
      (''section_count'', PInt (int (length sections))),
      (''coverage'', PDict (dict_of (List.map (\<lambda>sn. (sn_id sn, PDict (snapshot_coverage sn))) snapshots))),
      (''section_coverage'', PDict (dict_of
         (List.map (\<lambda>r. (rs_section_id r, PDict (rs_coverage r))) sections)))]"

definition source_revisions ::
  "(string \<Rightarrow> string) \<Rightarrow> context_snapshot list \<Rightarrow> dict list res" where
  "source_revisions sha snapshots =
     traverse (\<lambda>sn.
       bind_res (snapshot_source_revision_fingerprint sha sn) (\<lambda>fp.
       bind_res (to_json_timestamp (sn_created_at sn)) (\<lambda>t.
       Inr [(''context_snapshot_id'', PStr (sn_id sn)),
            (''context_fingerprint'', PStr (sn_fingerprint sn)),
            (''source_revision_fingerprint'', PStr fp), (''generated_at'', PStr t),
            (''is_partial'', PBool (snapshot_is_partial sn)),
            (''is_stale'', PBool (snapshot_stale_reasons sn \<noteq> []))])))
       (sort_key sn_id snapshots)"

subsection \<open>Review state\<close>

definition review_status_from_events :: "review_event list \<Rightarrow> string" where
  "review_status_from_events events =
     (if events = [] then ''DRAFT''
      else let action = rw_action (last events) in
       if action = report_review_action_value MARK_REVIEW_COMPLETE then ''REVIEW_COMPLETE''
       else if action = report_review_action_value REQUEST_CHANGES then ''CHANGES_REQUESTED''
       else ''IN_REVIEW'')"

definition section_verdict :: "review_event \<Rightarrow> string option" where
  "section_verdict e =
     (if rw_action e = report_review_action_value ACCEPT_SECTION then Some ''ACCEPTED''
      else if rw_action e = report_review_action_value REJECT_SECTION then Some ''REJECTED''
      else if rw_action e = report_review_action_value REQUEST_CHANGES then Some ''CHANGES_REQUESTED''
      else None)"

definition section_review_state :: "review_event list \<Rightarrow> (string \<times> string) list" where
  "section_review_state events =
     foldl (\<lambda>st e. case (rw_section_id e, section_verdict e) of
         (Some i, Some v) \<Rightarrow> AList.update i v st
       | _ \<Rightarrow> st) [] events"

definition required_sections :: "report_version \<Rightarrow> string list" where
  "required_sections v = List.map rs_section_id
     (filter (\<lambda>r. dget_or (rs_coverage r) ''review_required'' (PBool True) \<noteq> PBool False) (rv_sections v))"

definition missing_required_section_reviews :: "report_version \<Rightarrow> review_event list \<Rightarrow> string list" where
  "missing_required_section_reviews v events =
     filter (\<lambda>i. map_of (section_review_state events) i \<noteq> Some ''ACCEPTED'') (required_sections v)"

end
