(* ===== verification/Report_Service.thy ===== *)
theory Report_Service
  imports Report_Input
begin

section \<open>Review, approval and versions of reports\<close>

text \<open>
  \<open>ReportService\<close> of \<open>application/services/report.py\<close> up to approval: the report header, immutable
  versions, the ingest of AI drafts, the review log and the approval log.  Every operation reads
  and writes the tables of \<open>Report_Store\<close> in the order the code does.
\<close>

subsection \<open>Clock, identifiers and lookups\<close>

definition read_clock :: "report_env \<Rightarrow> (report_state, datetime) svc" where
  "read_clock env s = (s\<lparr>st_ticks := Suc (st_ticks s)\<rparr>, Inr (rx_now env (st_ticks s)))"

definition mint_id :: "report_env \<Rightarrow> (report_state, string) svc" where
  "mint_id env s = (s\<lparr>st_minted := Suc (st_minted s)\<rparr>, Inr (rx_new_id env (st_minted s)))"

definition opt_res :: "exn \<Rightarrow> 'a option \<Rightarrow> 'a res" where
  "opt_res e x = (case x of None \<Rightarrow> Inl e | Some y \<Rightarrow> Inr y)"

lemma opt_res_Inr [simp]: "opt_res e x = Inr y \<longleftrightarrow> x = Some y"
  by (cases x) (simp_all add: opt_res_def)

definition or_else_str :: "string option \<Rightarrow> string \<Rightarrow> string" where
  "or_else_str x d = (case x of None \<Rightarrow> d | Some s \<Rightarrow> if s = [] then d else s)"

definition get_report :: "string \<Rightarrow> (report_state, report_record) svc" where
  "get_report i = svc_read (\<lambda>s. opt_res
     (not_found_error ''REPORT_NOT_FOUND'' ''Report not found.'' (Some ''report_id''))
     (sqlite_get_report s i))"

definition review_state :: "report_state \<Rightarrow> string \<Rightarrow> dict" where
  "review_state s version_id =
     (let events = sqlite_list_review_events s version_id in
      [(''status'', PStr (review_status_from_events events)),
       (''review_revision'', PInt (if events = [] then 0 else rw_review_revision (last events))),
       (''latest_event_hash'', if events = [] then PNone else PStr (rw_event_hash (last events))),
       (''section_status'', PDict (List.map (\<lambda>(k, v). (k, PStr v)) (section_review_state events)))])"

definition approval_state :: "report_state \<Rightarrow> string \<Rightarrow> dict" where
  "approval_state s version_id =
     (let approvals = sqlite_list_approvals s None (Some version_id) in
      if approvals = [] then
        [(''decision'', PNone), (''approval_revision'', PInt 0), (''approval_id'', PNone),
         (''approval_hash'', PNone)]
      else let latest = last approvals in
        [(''decision'', PStr (ra_decision latest)),
         (''approval_revision'', PInt (ra_approval_revision latest)),
         (''approval_id'', PStr (ra_approval_id latest)),
         (''approval_hash'', PStr (ra_approval_hash latest))])"

definition with_states :: "report_state \<Rightarrow> report_version \<Rightarrow> report_version" where
  "with_states s v = v\<lparr>rv_review_state := review_state s (rv_report_version_id v),
     rv_approval_state := approval_state s (rv_report_version_id v)\<rparr>"

definition get_version :: "string \<Rightarrow> (report_state, report_version) svc" where
  "get_version i = svc_read (\<lambda>s. map_res (with_states s) (opt_res
     (not_found_error ''REPORT_VERSION_NOT_FOUND'' ''Report version not found.''
       (Some ''report_version_id'')) (sqlite_get_report_version s i)))"

definition list_versions :: "string \<Rightarrow> (report_state, report_version list) svc" where
  "list_versions i =
     svc_bind (get_report i) (\<lambda>_.
     svc_get (\<lambda>s. List.map (with_states s) (sqlite_list_report_versions s i)))"

definition latest_approval :: "report_state \<Rightarrow> string \<Rightarrow> approval_record option" where
  "latest_approval s version_id =
     (let approvals = sqlite_list_approvals s None (Some version_id) in
      if approvals = [] then None else Some (last approvals))"

definition get_approval :: "string \<Rightarrow> (report_state, approval_record option) svc" where
  "get_approval i = svc_bind (get_version i) (\<lambda>_. svc_get (\<lambda>s. latest_approval s i))"

definition review_history :: "string \<Rightarrow> (report_state, review_event list) svc" where
  "review_history i =
     svc_bind (get_version i) (\<lambda>_. svc_get (\<lambda>s. sqlite_list_review_events s i))"

definition require_case_row :: "string \<Rightarrow> (report_state, string) svc" where
  "require_case_row case_id = svc_read (\<lambda>s. opt_res
     (not_found_error ''CASE_NOT_FOUND'' ''Case not found.'' (Some ''case_id''))
     (db_cases (st_custody s) case_id))"

subsection \<open>Reports\<close>

definition create_report ::
  "report_env \<Rightarrow> string \<Rightarrow> string \<Rightarrow> string \<Rightarrow> string option \<Rightarrow> string \<Rightarrow> string option \<Rightarrow> string option \<Rightarrow>
     (report_state, report_record) svc" where
  "create_report env case_id title created_by description report_type locale timezone =
     svc_bind (svc_of (bounded_non_empty (PStr title) ''title'' 500)) (\<lambda>title1.
     svc_bind (svc_of (bounded_non_empty (PStr created_by) ''created_by'' 256)) (\<lambda>creator.
     svc_bind (svc_of (bounded_optional_text (opt_str description) ''description'' 4000)) (\<lambda>desc1.
     svc_bind (require_case_row case_id) (\<lambda>case_timezone.
     svc_bind (svc_of (safe_text title1 ''title'')) (\<lambda>title2.
     svc_bind (svc_of (case desc1 of None \<Rightarrow> Inr None
       | Some d \<Rightarrow> map_res Some (safe_text d ''description''))) (\<lambda>desc2.
     svc_bind (svc_of (enum_value (List.map report_type_value report_type_members)
       (PStr report_type) ''report_type'')) (\<lambda>type_value.
     let loc = or_else_str locale (or_else_str (Some (rx_case_locale env case_id)) ''ko-KR'');
         tz = or_else_str timezone (or_else_str (Some case_timezone) ''Asia/Seoul'') in
     svc_bind (read_clock env) (\<lambda>now.
     svc_bind (svc_of (canonical_sha256 (rx_sha env) (PDict
       [(''case_id'', PStr case_id), (''title'', PStr title2), (''description'', opt_str desc2),
        (''report_type'', PStr type_value), (''locale'', PStr loc), (''timezone'', PStr tz),
        (''created_by'', PStr creator)]) [])) (\<lambda>fp.
     svc_bind (mint_id env) (\<lambda>report_id.
     let record = \<lparr>rr_report_id = report_id, rr_case_id = case_id, rr_title = title2,
           rr_description = desc2, rr_report_type = type_value, rr_locale = loc, rr_timezone = tz,
           rr_status = report_status_value report_status.DRAFT, rr_active_version_id = None,
           rr_latest_version_number = 0, rr_created_by = creator, rr_created_at = now,
           rr_updated_at = now, rr_archived_at = None, rr_report_fingerprint = fp,
           rr_report_schema_version = schema_version\<rparr> in
     svc_bind (svc_write (sqlite_save_report record)) (\<lambda>_. svc_ret record)))))))))))"

definition archive_report ::
  "report_env \<Rightarrow> string \<Rightarrow> string \<Rightarrow> string \<Rightarrow> (report_state, report_record) svc" where
  "archive_report env report_id actor_id reason =
     svc_bind (svc_of (bounded_non_empty (PStr actor_id) ''actor_id'' 256)) (\<lambda>_.
     svc_bind (svc_of (required_reason reason)) (\<lambda>_.
     svc_bind (get_report report_id) (\<lambda>report.
     svc_bind (read_clock env) (\<lambda>now.
     let r = report\<lparr>rr_status := report_status_value report_status.ARCHIVED,
           rr_archived_at := Some now, rr_updated_at := now\<rparr> in
     svc_bind (svc_write (sqlite_update_report r)) (\<lambda>_. svc_ret r)))))"

definition set_active_version ::
  "report_env \<Rightarrow> string \<Rightarrow> string \<Rightarrow> string \<Rightarrow> string \<Rightarrow> (report_state, report_record) svc" where
  "set_active_version env report_id version_id actor_id reason =
     svc_bind (svc_of (bounded_non_empty (PStr actor_id) ''actor_id'' 256)) (\<lambda>_.
     svc_bind (svc_of (required_reason reason)) (\<lambda>_.
     svc_bind (get_report report_id) (\<lambda>report.
     svc_bind (get_version version_id) (\<lambda>version.
     svc_bind (svc_guard (rv_report_id version \<noteq> rr_report_id report)
       (report_error ''REPORT_APPROVAL_VERSION_MISMATCH'' ''Report version belongs to another report.''
         ''report_version_id'')) (\<lambda>_.
     svc_bind (read_clock env) (\<lambda>now.
     let r = report\<lparr>rr_active_version_id := Some (rv_report_version_id version),
           rr_status := report_status_value report_status.REVIEW_REQUIRED, rr_updated_at := now\<rparr> in
     svc_bind (svc_write (sqlite_update_report r)) (\<lambda>_. svc_ret r)))))))"

subsection \<open>Versions\<close>

record version_request =
  vq_report_id :: string
  vq_source_kind :: string
  vq_created_by :: string
  vq_title :: string
  vq_executive_summary :: string
  vq_sections :: "dict list"
  vq_source_reference_id :: "string option"
  vq_context_snapshot_ids :: "string list"
  vq_evidence_ids :: "string list"
  vq_search_execution_ids :: "string list"
  vq_timeline_revisions :: "int list"
  vq_ai_assistance_request_ids :: "string list"
  vq_ai_result_ids :: "string list"
  vq_citations :: "dict list"
  vq_limitations :: "string list"
  vq_analyzer_versions :: dict

definition version_payload :: "report_version \<Rightarrow> dict list \<Rightarrow> dict" where
  "version_payload v citations =
     [(''report_id'', PStr (rv_report_id v)), (''case_id'', PStr (rv_case_id v)),
      (''source_kind'', PStr (rv_source_kind v)),
      (''source_reference_id'', opt_str (rv_source_reference_id v)), (''title'', PStr (rv_title v)),
      (''executive_summary'', PStr (rv_executive_summary v)),
      (''sections'', dicts (List.map report_section_schema_dict (rv_sections v))),
      (''context_snapshot_ids'', strs (rv_context_snapshot_ids v)),
      (''evidence_ids'', strs (rv_evidence_ids v)),
      (''search_execution_ids'', strs (rv_search_execution_ids v)),
      (''timeline_revisions'', PList (List.map PInt (rv_timeline_revisions v))),
      (''ai_assistance_request_ids'', strs (rv_ai_assistance_request_ids v)),
      (''ai_result_ids'', strs (rv_ai_result_ids v)), (''citations'', dicts citations),
      (''limitations'', strs (rv_limitations v)),
      (''analyzer_versions'', PDict (rv_analyzer_versions v)),
      (''partial_state'', PDict (rv_partial_state v)), (''stale_state'', PDict (rv_stale_state v)),
      (''coverage_summary'', PDict (rv_coverage_summary v)),
      (''source_revisions'', dicts (rv_source_revisions v))]"

text \<open>The content of a version and its normalised citations: everything \<open>create_version\<close> checks
  and derives before it looks for an existing version and writes.  The identity fields of the
  record are filled in when it is written.\<close>

definition version_content ::
  "report_env \<Rightarrow> report_state \<Rightarrow> report_record \<Rightarrow> version_request \<Rightarrow> (report_version \<times> dict list) res" where
  "version_content env s report q =
     bind_res (enum_value (List.map report_source_kind_value report_source_kind_members)
       (PStr (vq_source_kind q)) ''source_kind'') (\<lambda>source_kind.
     bind_res (bounded_non_empty (PStr (vq_created_by q)) ''created_by'' 256) (\<lambda>created_by.
     bind_res (bounded_non_empty (PStr (vq_title q)) ''title'' 500) (\<lambda>title0.
     bind_res (safe_text title0 ''title'') (\<lambda>title.
     bind_res (bounded_optional_text (opt_str (vq_source_reference_id q)) ''source_reference_id'' 128)
       (\<lambda>source_reference.
     bind_res (required_non_empty (PStr (vq_executive_summary q)) ''executive_summary'') (\<lambda>summary0.
     bind_res (safe_text summary0 ''executive_summary'') (\<lambda>summary.
     if py_len summary > 40000 then Inl (report_error ''REPORT_CONTENT_LIMIT_EXCEEDED''
       ''Executive summary exceeds the maximum length.'' ''executive_summary'')
     else if vq_sections q = [] \<or> length (vq_sections q) > 200 then
       Inl (report_error ''REPORT_CONTENT_LIMIT_EXCEEDED''
         ''Report version must contain a bounded non-empty section list.'' ''sections'')
     else
     bind_res (string_list (strs (vq_context_snapshot_ids q)) ''context_snapshot_ids'' 1000)
       (\<lambda>snapshot_ids.
     bind_res (require_snapshots env (rr_case_id report) snapshot_ids) (\<lambda>snapshots.
     bind_res (string_list (strs (vq_evidence_ids q)) ''evidence_ids'' 10000) (\<lambda>evidence0.
     bind_res (validate_evidence_ids s (rr_case_id report) evidence0) (\<lambda>evidence_ids.
     bind_res (string_list (strs (vq_search_execution_ids q)) ''search_execution_ids'' 10000) (\<lambda>search0.
     bind_res (validate_search_execution_ids env (rr_case_id report) search0) (\<lambda>search_ids.
     bind_res (string_list (strs (vq_ai_assistance_request_ids q)) ''ai_assistance_request_ids'' 10000)
       (\<lambda>requests0.
     bind_res (validate_ai_request_ids env (rr_case_id report) requests0) (\<lambda>request_ids.
     bind_res (string_list (strs (vq_ai_result_ids q)) ''ai_result_ids'' 10000) (\<lambda>results0.
     bind_res (validate_ai_result_ids env (rr_case_id report) results0) (\<lambda>result_ids.
     bind_res (integer_list (vq_timeline_revisions q) ''timeline_revisions'' 10000) (\<lambda>revisions.
     bind_res (validate_citations env s (rr_case_id report) snapshots (vq_citations q) False ''citations'')
       (\<lambda>citations.
     bind_res (string_list (strs (vq_limitations q)) ''limitations'' 100) (\<lambda>limitations.
     if limitations = [] then Inl (report_error ''REPORT_LIMITATIONS_REQUIRED''
       ''Report versions must record limitations.'' ''limitations'')
     else
     bind_res (validate_string_lengths limitations ''limitations'' 4000) (\<lambda>_.
     bind_res (validate_contract_payload (PDict (vq_analyzer_versions q)) ''analyzer_versions'') (\<lambda>_.
     bind_res (sections_from_input env s (rr_case_id report) snapshots (vq_sections q)) (\<lambda>sections0.
     let sections = sort_key (\<lambda>r. (rs_order r, rs_section_id r)) sections0 in
     bind_res (source_revisions (rx_sha env) snapshots) (\<lambda>revs.
     Inr (\<lparr>rv_report_version_id = '''', rv_report_id = rr_report_id report,
        rv_case_id = rr_case_id report, rv_version_number = 0, rv_previous_version_id = None,
        rv_source_kind = source_kind, rv_source_reference_id = source_reference,
        rv_created_by = created_by, rv_title = title, rv_executive_summary = summary,
        rv_sections = sections, rv_context_snapshot_ids = List.map sn_id snapshots,
        rv_evidence_ids = sort evidence_ids, rv_search_execution_ids = sort search_ids,
        rv_timeline_revisions = sort revisions, rv_ai_assistance_request_ids = sort request_ids,
        rv_ai_result_ids = sort result_ids,
        rv_citation_ids = sort (dedup_keep [] (List.map py_str
          (filter (\<lambda>v. v \<noteq> PNone) (List.map (\<lambda>c. dget_or c ''id'' PNone) citations)))),
        rv_partial_state = partial_state snapshots sections,
        rv_stale_state = stale_state snapshots sections,
        rv_coverage_summary = coverage_summary snapshots sections, rv_limitations = limitations,
        rv_analyzer_versions = vq_analyzer_versions q, rv_source_revisions = revs,
        rv_content_fingerprint = '''', rv_previous_content_fingerprint = None,
        rv_review_state = [(''status'', PStr ''DRAFT''), (''review_revision'', PInt 0)],
        rv_approval_state = [(''decision'', PNone), (''approval_revision'', PInt 0)],
        rv_created_at = Aware 0, rv_report_schema_version = schema_version\<rparr>, citations)))))))))))))))))))))))))"

definition previous_version ::
  "report_record \<Rightarrow> (report_state, (string \<times> string) option) svc" where
  "previous_version report = (case rr_active_version_id report of
     None \<Rightarrow> svc_ret None
   | Some i \<Rightarrow> svc_bind (get_version i) (\<lambda>p.
       svc_ret (Some (rv_report_version_id p, rv_content_fingerprint p))))"

definition write_version ::
  "report_env \<Rightarrow> report_record \<Rightarrow> (string \<times> string) option \<Rightarrow> report_version \<Rightarrow> string \<Rightarrow>
     (report_state, report_version) svc" where
  "write_version env report previous content fp =
     svc_bind (read_clock env) (\<lambda>now.
     svc_bind (mint_id env) (\<lambda>version_id.
     let v = content\<lparr>rv_report_version_id := version_id,
           rv_version_number := rr_latest_version_number report + 1,
           rv_previous_version_id := map_option fst previous,
           rv_content_fingerprint := fp,
           rv_previous_content_fingerprint := map_option snd previous, rv_created_at := now\<rparr>;
         r = report\<lparr>rr_active_version_id := Some version_id,
           rr_latest_version_number := rr_latest_version_number report + 1,
           rr_status := report_status_value report_status.REVIEW_REQUIRED, rr_updated_at := now\<rparr> in
     svc_bind (svc_write (sqlite_save_report_version v r)) (\<lambda>_.
     svc_get (\<lambda>s. with_states s v))))"

definition create_version ::
  "report_env \<Rightarrow> version_request \<Rightarrow> (report_state, report_version) svc" where
  "create_version env q =
     svc_bind (get_report (vq_report_id q)) (\<lambda>report.
     svc_bind (svc_guard (rr_status report = report_status_value report_status.ARCHIVED)
       (report_error ''REPORT_REVIEW_TRANSITION_INVALID''
         ''Archived reports cannot receive new versions.'' ''report_id'')) (\<lambda>_.
     svc_bind (svc_read (\<lambda>s. version_content env s report q)) (\<lambda>(content, citations).
     svc_bind (previous_version report) (\<lambda>previous.
     svc_bind (svc_of (canonical_sha256 (rx_sha env) (PDict (version_payload content citations)) []))
       (\<lambda>fp.
     svc_bind (svc_get (\<lambda>s. (sqlite_version_by_fingerprint s (rr_report_id report) fp, s))) (\<lambda>(existing, s0).
     case existing of
       Some v \<Rightarrow> svc_ret (with_states s0 v)
     | None \<Rightarrow> write_version env report previous content fp))))))"

definition clone_version ::
  "report_env \<Rightarrow> string \<Rightarrow> string \<Rightarrow> string \<Rightarrow> (report_state, report_version) svc" where
  "clone_version env version_id created_by reason =
     svc_bind (get_version version_id) (\<lambda>source.
     create_version env
       \<lparr>vq_report_id = rv_report_id source,
        vq_source_kind = report_source_kind_value report_source_kind.IMPORTED_DRAFT,
        vq_created_by = created_by, vq_title = rv_title source,
        vq_executive_summary = rv_executive_summary source,
        vq_sections = List.map report_section_schema_dict (rv_sections source),
        vq_source_reference_id = Some (rv_report_version_id source),
        vq_context_snapshot_ids = rv_context_snapshot_ids source,
        vq_evidence_ids = rv_evidence_ids source,
        vq_search_execution_ids = rv_search_execution_ids source,
        vq_timeline_revisions = rv_timeline_revisions source,
        vq_ai_assistance_request_ids = rv_ai_assistance_request_ids source,
        vq_ai_result_ids = rv_ai_result_ids source,
        vq_citations = concat (List.map rs_citations (rv_sections source)),
        vq_limitations = rv_limitations source @ [reason],
        vq_analyzer_versions = rv_analyzer_versions source\<rparr>)"

definition compare_versions :: "string \<Rightarrow> string \<Rightarrow> (report_state, dict) svc" where
  "compare_versions left_id right_id =
     svc_bind (get_version left_id) (\<lambda>left.
     svc_bind (get_version right_id) (\<lambda>right.
     svc_bind (svc_guard (rv_report_id left \<noteq> rv_report_id right)
       (report_error ''REPORT_VERSION_MISMATCH'' ''Report versions belong to different reports.''
         ''report_version_id'')) (\<lambda>_.
     let prints = \<lambda>v. List.map rs_section_fingerprint (rv_sections v);
         minus = \<lambda>xs ys. sort (dedup_keep [] (filter (\<lambda>x. x \<notin> set ys) xs)) in
     svc_ret
       [(''report_id'', PStr (rv_report_id left)),
        (''left_report_version_id'', PStr (rv_report_version_id left)),
        (''right_report_version_id'', PStr (rv_report_version_id right)),
        (''same_content'', PBool (rv_content_fingerprint left = rv_content_fingerprint right)),
        (''left_content_fingerprint'', PStr (rv_content_fingerprint left)),
        (''right_content_fingerprint'', PStr (rv_content_fingerprint right)),
        (''section_fingerprints_added'', strs (minus (prints right) (prints left))),
        (''section_fingerprints_removed'', strs (minus (prints left) (prints right)))])))"

subsection \<open>AI drafts\<close>

definition provider_metadata :: "dict \<Rightarrow> dict res" where
  "provider_metadata payload =
     bind_res (metadata_string (dget_or payload ''provider_id'' (PStr ''UNKNOWN'')) ''provider_id'') (\<lambda>pid.
     bind_res (metadata_string (dget_or payload ''provider_version'' (PStr ''UNKNOWN''))
       ''provider_version'') (\<lambda>pv.
     bind_res (metadata_string (dget_or payload ''model_id'' (PStr ''UNKNOWN'')) ''model_id'') (\<lambda>mid.
     bind_res (required_non_empty (dget_or payload ''response_hash'' PNone) ''response_hash'') (\<lambda>rh.
     Inr [(''provider_id'', PStr pid), (''provider_version'', PStr pv), (''model_id'', PStr mid),
          (''external_request_id'', dget_or payload ''external_request_id'' PNone),
          (''response_hash'', PStr rh), (''generated_at'', dget_or payload ''generated_at'' PNone),
          (''correlation_id'', dget_or payload ''correlation_id'' PNone)]))))"

definition draft_request ::
  "report_env \<Rightarrow> report_state \<Rightarrow> dict \<Rightarrow> string \<Rightarrow> (string \<times> version_request) res" where
  "draft_request env s payload created_by0 =
     bind_res (validate_contract_payload (PDict payload) ''ai_report_draft'') (\<lambda>_.
     bind_res (required_non_empty (dget_or payload ''case_id'' PNone) ''case_id'') (\<lambda>case_id.
     bind_res (required_non_empty (dget_or payload ''assistance_request_id'' PNone)
       ''assistance_request_id'') (\<lambda>rid.
     bind_res (rx_ai_request env rid) (\<lambda>request.
     if aq_case_id request \<noteq> case_id then Inl (report_error ''REPORT_REFERENCE_CASE_MISMATCH''
       ''AI assistance request belongs to another case.'' ''assistance_request_id'')
     else
     bind_res (string_list (dget_or payload ''context_snapshot_ids''
         (strs [aq_context_snapshot_id request])) ''context_snapshot_ids'' 1000) (\<lambda>ids0.
     let snapshot_ids = (if aq_context_snapshot_id request \<in> set ids0 then ids0
           else ids0 @ [aq_context_snapshot_id request]) in
     bind_res (string_list (dget_or payload ''ai_result_ids'' (PList [])) ''ai_result_ids'' 10000)
       (\<lambda>result_ids.
     bind_res (validate_ai_result_ids env case_id result_ids) (\<lambda>_.
     bind_res (provider_metadata payload) (\<lambda>meta.
     bind_res (bounded_non_empty (PStr created_by0) ''created_by'' 256) (\<lambda>created_by.
     bind_res (bounded_non_empty (dget_or payload ''title'' PNone) ''title'' 500) (\<lambda>title0.
     bind_res (safe_text title0 ''title'') (\<lambda>title.
     bind_res (bounded_non_empty (dget_or payload ''executive_summary'' PNone) ''executive_summary'' 40000)
       (\<lambda>summary0.
     bind_res (safe_text summary0 ''executive_summary'') (\<lambda>summary.
     bind_res (required_list payload ''sections'') (\<lambda>raw_sections.
     if raw_sections = [] \<or> length raw_sections > 200 then
       Inl (report_error ''REPORT_CONTENT_LIMIT_EXCEEDED''
         ''Report version must contain a bounded non-empty section list.'' ''sections'')
     else
     bind_res (traverse (\<lambda>v. case v of PDict d \<Rightarrow> Inr (if dget d ''source_kind'' = None
           then dset ''source_kind'' (PStr (report_source_kind_value report_source_kind.AI_DRAFT)) d else d)
         | _ \<Rightarrow> Inl (validation_error ''Sections must be JSON objects.'' (Some ''sections'')))
       raw_sections) (\<lambda>sections.
     bind_res (list_or_empty (dget_or payload ''citations'' PNone)) (\<lambda>cs.
     bind_res (traverse as_dict cs) (\<lambda>citations.
     bind_res (string_list (dget_or payload ''limitations'' (strs [''AI draft requires human review.'']))
       ''limitations'' 100) (\<lambda>limitations.
     bind_res (validate_string_lengths limitations ''limitations'' 4000) (\<lambda>_.
     bind_res (require_snapshots env case_id snapshot_ids) (\<lambda>snapshots.
     bind_res (sections_from_input env s case_id snapshots sections) (\<lambda>_.
     bind_res (validate_citations env s case_id snapshots citations False ''citations'') (\<lambda>_.
     bind_res (bounded_non_empty
         (let x = dget_or payload ''external_request_id'' PNone in
          if truthy x then x else PStr (aq_id request)) ''source_reference_id'' 128) (\<lambda>source_reference.
     Inr (case_id,
       \<lparr>vq_report_id = '''', vq_source_kind = report_source_kind_value report_source_kind.AI_DRAFT,
        vq_created_by = created_by, vq_title = title, vq_executive_summary = summary,
        vq_sections = sections, vq_source_reference_id = Some source_reference,
        vq_context_snapshot_ids = snapshot_ids, vq_evidence_ids = [], vq_search_execution_ids = [],
        vq_timeline_revisions = [], vq_ai_assistance_request_ids = [aq_id request],
        vq_ai_result_ids = result_ids, vq_citations = citations, vq_limitations = limitations,
        vq_analyzer_versions = meta\<rparr>))))))))))))))))))))))))"

definition ingest_ai_draft ::
  "report_env \<Rightarrow> dict \<Rightarrow> string option \<Rightarrow> string \<Rightarrow> (report_state, report_version) svc" where
  "ingest_ai_draft env payload report_id created_by =
     svc_bind (svc_read (\<lambda>s. draft_request env s payload created_by)) (\<lambda>(case_id, q).
     svc_bind (case report_id of
         Some i \<Rightarrow> svc_ret i
       | None \<Rightarrow> svc_bind (create_report env case_id (vq_title q) (vq_created_by q)
           (Some ''AI draft ingest placeholder; content remains in immutable versions.'')
           (report_type_value report_type.INVESTIGATION) None None) (\<lambda>r. svc_ret (rr_report_id r)))
       (\<lambda>i. create_version env (q\<lparr>vq_report_id := i\<rparr>)))"

subsection \<open>Review\<close>

record review_request =
  wq_version_id :: string
  wq_action :: report_review_action
  wq_actor_id :: string
  wq_reason :: string
  wq_section_id :: "string option"
  wq_comment :: "string option"
  wq_requested_changes :: "string list"
  wq_expected_revision :: "int option"

definition event_payload :: "review_event \<Rightarrow> string \<Rightarrow> dict" where
  "event_payload e created =
     [(''review_event_id'', PStr (rw_review_event_id e)), (''report_id'', PStr (rw_report_id e)),
      (''report_version_id'', PStr (rw_report_version_id e)), (''case_id'', PStr (rw_case_id e)),
      (''action'', PStr (rw_action e)), (''actor_id'', PStr (rw_actor_id e)),
      (''reason'', PStr (rw_reason e)), (''section_id'', opt_str (rw_section_id e)),
      (''comment'', opt_str (rw_comment e)), (''requested_changes'', strs (rw_requested_changes e)),
      (''expected_review_revision'', opt_int (rw_expected_review_revision e)),
      (''review_revision'', PInt (rw_review_revision e)),
      (''previous_event_hash'', opt_str (rw_previous_event_hash e)), (''created_at'', PStr created)]"

text \<open>The guards of \<open>_append_review_event\<close> after the target version and its events are read.\<close>

definition review_guard ::
  "report_version \<Rightarrow> review_event list \<Rightarrow> review_request \<Rightarrow> string list \<Rightarrow> unit res" where
  "review_guard v events q changes =
     (let action = wq_action q; latest = review_status_from_events events;
          revision = (if events = [] then 0 else rw_review_revision (last events)) in
      if wq_expected_revision q \<noteq> None \<and> wq_expected_revision q \<noteq> Some revision then
        Inl (report_error_with ''REPORT_REVIEW_REVISION_CONFLICT'' ''Report review revision changed.''
          (Some ''expected_review_revision'') True [])
      else if action = MARK_REVIEW_COMPLETE \<and> latest \<notin> {''IN_REVIEW'', ''CHANGES_REQUESTED''} then
        Inl (report_error ''REPORT_REVIEW_TRANSITION_INVALID''
          ''Review must be submitted before completion.'' ''action'')
      else if action \<in> {ACCEPT_SECTION, REJECT_SECTION} \<and> wq_section_id q = None then
        Inl (report_error ''REPORT_REVIEW_REQUIRED'' ''Section review actions require section_id.''
          ''section_id'')
      else if wq_section_id q \<noteq> None \<and> wq_section_id q \<notin> Some ` rs_section_id ` set (rv_sections v) then
        Inl (report_error ''REPORT_REVIEW_TARGET_NOT_FOUND''
          ''Review section not found on the target report version.'' ''section_id'')
      else if action = MARK_REVIEW_COMPLETE \<and> missing_required_section_reviews v events \<noteq> [] then
        Inl (report_error_with ''REPORT_REVIEW_REQUIRED''
          ''All required report sections must be accepted before review completion.''
          (Some ''section_id'') False
          [(''missing_section_ids'', strs (missing_required_section_reviews v events))])
      else if action = REQUEST_CHANGES \<and> changes = [] then
        Inl (report_error ''REPORT_REVIEW_REQUIRED'' ''Request changes requires requested_changes.''
          ''requested_changes'')
      else Inr ())"

definition status_after_review :: "report_review_action \<Rightarrow> string \<Rightarrow> string" where
  "status_after_review action status =
     (if action = REQUEST_CHANGES then report_status_value report_status.REJECTED
      else if action \<in> {SUBMIT_FOR_REVIEW, REOPEN_REVIEW}
      then report_status_value report_status.REVIEW_REQUIRED else status)"

definition write_review_event ::
  "report_env \<Rightarrow> report_version \<Rightarrow> review_event list \<Rightarrow> review_request \<Rightarrow> review_event \<Rightarrow>
     (report_state, review_event) svc" where
  "write_review_event env v events q draft =
     svc_bind (read_clock env) (\<lambda>now.
     svc_bind (mint_id env) (\<lambda>event_id.
     let e = draft\<lparr>rw_review_event_id := event_id,
           rw_review_revision := (if events = [] then 0 else rw_review_revision (last events)) + 1,
           rw_previous_event_hash := (if events = [] then None else Some (rw_event_hash (last events))),
           rw_created_at := now\<rparr> in
     svc_bind (svc_of (to_json_timestamp now)) (\<lambda>created.
     svc_bind (svc_of (canonical_sha256 (rx_sha env) (PDict (event_payload e created)) [])) (\<lambda>h.
     let event = e\<lparr>rw_event_hash := h\<rparr> in
     svc_bind (get_report (rv_report_id v)) (\<lambda>report.
     let r = report\<lparr>rr_status := status_after_review (wq_action q) (rr_status report),
           rr_updated_at := now\<rparr> in
     svc_bind (svc_write (sqlite_append_review_event event r)) (\<lambda>_. svc_ret event))))))"

definition append_review_event ::
  "report_env \<Rightarrow> review_request \<Rightarrow> (report_state, review_event) svc" where
  "append_review_event env q =
     svc_bind (get_version (wq_version_id q)) (\<lambda>v.
     svc_bind (svc_of (bounded_non_empty (PStr (wq_actor_id q)) ''actor_id'' 256)) (\<lambda>actor_id.
     svc_bind (svc_of (required_reason (wq_reason q))) (\<lambda>reason.
     svc_bind (svc_of (case wq_comment q of None \<Rightarrow> Inr None
       | Some c \<Rightarrow> bind_res (bounded_optional_text (PStr c) ''comment'' 4000) (\<lambda>_.
           map_res Some (safe_text c ''comment'')))) (\<lambda>comment.
     svc_bind (svc_of (string_list (strs (wq_requested_changes q)) ''requested_changes'' 100)) (\<lambda>changes.
     svc_bind (svc_of (validate_string_lengths changes ''requested_changes'' 4000)) (\<lambda>_.
     svc_bind (svc_get (\<lambda>s. sqlite_list_review_events s (rv_report_version_id v))) (\<lambda>events.
     svc_bind (svc_of (review_guard v events q changes)) (\<lambda>_.
     write_review_event env v events q
       \<lparr>rw_review_event_id = '''', rw_report_id = rv_report_id v,
        rw_report_version_id = rv_report_version_id v, rw_case_id = rv_case_id v,
        rw_action = report_review_action_value (wq_action q), rw_actor_id = actor_id,
        rw_reason = reason, rw_section_id = wq_section_id q, rw_comment = comment,
        rw_requested_changes = changes, rw_expected_review_revision = wq_expected_revision q,
        rw_review_revision = 0, rw_previous_event_hash = None, rw_event_hash = '''',
        rw_created_at = Aware 0\<rparr>))))))))"

text \<open>The public operations.\<close>

definition submit_review :: "report_env \<Rightarrow> string \<Rightarrow> string \<Rightarrow> string \<Rightarrow> int option \<Rightarrow>
    (report_state, review_event) svc" where
  "submit_review env version_id actor_id reason expected = append_review_event env
     \<lparr>wq_version_id = version_id, wq_action = SUBMIT_FOR_REVIEW, wq_actor_id = actor_id,
      wq_reason = reason, wq_section_id = None, wq_comment = None, wq_requested_changes = [],
      wq_expected_revision = expected\<rparr>"

definition comment_review :: "report_env \<Rightarrow> string \<Rightarrow> string \<Rightarrow> string \<Rightarrow> string \<Rightarrow> string option \<Rightarrow> int option \<Rightarrow>
    (report_state, review_event) svc" where
  "comment_review env version_id actor_id reason comment section expected = append_review_event env
     \<lparr>wq_version_id = version_id, wq_action = COMMENT, wq_actor_id = actor_id,
      wq_reason = reason, wq_section_id = section, wq_comment = Some comment, wq_requested_changes = [],
      wq_expected_revision = expected\<rparr>"

definition request_changes :: "report_env \<Rightarrow> string \<Rightarrow> string \<Rightarrow> string \<Rightarrow> string list \<Rightarrow> string option \<Rightarrow> int option \<Rightarrow>
    (report_state, review_event) svc" where
  "request_changes env version_id actor_id reason changes section expected = append_review_event env
     \<lparr>wq_version_id = version_id, wq_action = REQUEST_CHANGES, wq_actor_id = actor_id,
      wq_reason = reason, wq_section_id = section, wq_comment = None, wq_requested_changes = changes,
      wq_expected_revision = expected\<rparr>"

definition complete_review :: "report_env \<Rightarrow> string \<Rightarrow> string \<Rightarrow> string \<Rightarrow> int option \<Rightarrow>
    (report_state, review_event) svc" where
  "complete_review env version_id actor_id reason expected = append_review_event env
     \<lparr>wq_version_id = version_id, wq_action = MARK_REVIEW_COMPLETE, wq_actor_id = actor_id,
      wq_reason = reason, wq_section_id = None, wq_comment = None, wq_requested_changes = [],
      wq_expected_revision = expected\<rparr>"

definition accept_section :: "report_env \<Rightarrow> string \<Rightarrow> string \<Rightarrow> string \<Rightarrow> string \<Rightarrow> string option \<Rightarrow> int option \<Rightarrow>
    (report_state, review_event) svc" where
  "accept_section env version_id section_id actor_id reason ocomment expected = append_review_event env
     \<lparr>wq_version_id = version_id, wq_action = ACCEPT_SECTION, wq_actor_id = actor_id,
      wq_reason = reason, wq_section_id = Some section_id, wq_comment = ocomment, wq_requested_changes = [],
      wq_expected_revision = expected\<rparr>"

definition reject_section :: "report_env \<Rightarrow> string \<Rightarrow> string \<Rightarrow> string \<Rightarrow> string \<Rightarrow> string list \<Rightarrow> string option \<Rightarrow> int option \<Rightarrow>
    (report_state, review_event) svc" where
  "reject_section env version_id section_id actor_id reason changes ocomment expected = append_review_event env
     \<lparr>wq_version_id = version_id, wq_action = REJECT_SECTION, wq_actor_id = actor_id,
      wq_reason = reason, wq_section_id = Some section_id, wq_comment = ocomment, wq_requested_changes = changes,
      wq_expected_revision = expected\<rparr>"

definition reopen_review :: "report_env \<Rightarrow> string \<Rightarrow> string \<Rightarrow> string \<Rightarrow> int option \<Rightarrow>
    (report_state, review_event) svc" where
  "reopen_review env version_id actor_id reason expected = append_review_event env
     \<lparr>wq_version_id = version_id, wq_action = REOPEN_REVIEW, wq_actor_id = actor_id,
      wq_reason = reason, wq_section_id = None, wq_comment = None, wq_requested_changes = [],
      wq_expected_revision = expected\<rparr>"

end
