(* ===== verification/Report_Export.thy ===== *)
theory Report_Export
  imports Report_Service
begin

section \<open>Approval, custody snapshots and export of reports\<close>

text \<open>
  The second half of \<open>ReportService\<close>: the approval log, the snapshot of the custody chains a
  decision refers to, render packages, export manifests and the results of a renderer.  The
  custody tables are those of \<open>Custody\<close>, and a snapshot is \<open>VERIFIED\<close> by its \<open>verify_chain\<close>.
\<close>

subsection \<open>Custody snapshots\<close>

text \<open>The loop of \<open>create_custody_snapshot\<close>: events, verification errors and ledger heads.\<close>

fun snapshot_loop ::
  "report_env \<Rightarrow> custody_db \<Rightarrow> string list \<Rightarrow> (dict list \<times> dict list \<times> string list) res" where
  "snapshot_loop env db [] = Inr ([], [], [])"
| "snapshot_loop env db (e # es) =
     (let evs = sqlite_list_custody_events db e in
      if evs = [] then
        map_res (\<lambda>(events, errors, heads). (events,
            [(''code'', PStr ''CUSTODY_EVENTS_MISSING''), (''evidence_id'', PStr e)] # errors, heads))
          (snapshot_loop env db es)
      else
        bind_res (verify_chain sqlite_custody (rx_custody env) db e) (\<lambda>valid.
        bind_res (req_str (last evs) ''event_hash'') (\<lambda>head.
        map_res (\<lambda>(events, errors, heads). (evs @ events,
            (if valid then [] else [[(''code'', PStr ''CUSTODY_CHAIN_INVALID''),
               (''evidence_id'', PStr e)]]) @ errors, head # heads))
          (snapshot_loop env db es))))"

definition snapshot_status :: "string list \<Rightarrow> dict list \<Rightarrow> string" where
  "snapshot_status evidence errors = custody_snapshot_verification_status_value
     (if evidence = [] then UNKNOWN else if errors \<noteq> [] then INVALID else VERIFIED)"

definition snapshot_errors :: "string list \<Rightarrow> dict list \<Rightarrow> dict list" where
  "snapshot_errors evidence errors =
     (if evidence = [] then errors @ [[(''code'', PStr ''CUSTODY_EVIDENCE_SCOPE_EMPTY'')]] else errors)"

definition event_time :: "dict \<Rightarrow> datetime res" where
  "event_time d = bind_res (req_val d ''occurred_at_utc'') (\<lambda>v. parse_timestamp (py_str v))"

definition extreme_time :: "(int set \<Rightarrow> int) \<Rightarrow> datetime list \<Rightarrow> datetime option" where
  "extreme_time m stamps =
     (if stamps = [] then None else Some (Aware (m (set (List.map instant stamps)))))"

definition custody_snapshot_content ::
  "report_env \<Rightarrow> report_version \<Rightarrow> string list \<Rightarrow> string \<Rightarrow> report_state \<Rightarrow> custody_snapshot res" where
  "custody_snapshot_content env version evidence captured_by s =
     bind_res (snapshot_loop env (st_custody s) (sort evidence)) (\<lambda>(events, errors0, heads).
     let status = snapshot_status evidence errors0; errors = snapshot_errors evidence errors0 in
     bind_res (traverse (\<lambda>e. req_str e ''event_id'') events) (\<lambda>event_ids.
     if length event_ids > 100000 \<or> length errors > 10000 then
       Inl (report_error ''REPORT_CONTENT_LIMIT_EXCEEDED''
         ''Custody snapshot collections exceed the schema limits.'' ''custody_snapshot'')
     else
     bind_res (traverse event_time events) (\<lambda>stamps.
     bind_res (if heads = [] then Inr None
       else map_res Some (canonical_sha256 (rx_sha env) (strs (sort heads)) [])) (\<lambda>head_hash.
     bind_res (canonical_sha256 (rx_sha env) (PDict
       [(''case_id'', PStr (rv_case_id version)), (''report_id'', PStr (rv_report_id version)),
        (''report_version_id'', PStr (rv_report_version_id version)),
        (''evidence_ids'', strs (sort evidence)), (''custody_event_ids'', strs event_ids),
        (''ledger_head_hash'', opt_str head_hash), (''verification_status'', PStr status),
        (''verification_errors'', dicts errors)]) []) (\<lambda>fp.
     Inr \<lparr>cn_custody_snapshot_id = '''', cn_case_id = rv_case_id version,
       cn_report_id = rv_report_id version, cn_report_version_id = rv_report_version_id version,
       cn_evidence_ids = sort evidence, cn_custody_event_ids = event_ids,
       cn_ledger_head_hash = head_hash, cn_verification_status = status,
       cn_verification_errors = errors, cn_event_count = int (length events),
       cn_first_event_at = extreme_time Min stamps, cn_last_event_at = extreme_time Max stamps,
       cn_captured_by = captured_by, cn_captured_at = Aware 0, cn_snapshot_fingerprint = fp,
       cn_snapshot_version = schema_version\<rparr>)))))"

definition create_custody_snapshot ::
  "report_env \<Rightarrow> string \<Rightarrow> string \<Rightarrow> string list option \<Rightarrow> (report_state, custody_snapshot) svc" where
  "create_custody_snapshot env version_id captured_by0 evidence_arg =
     svc_bind (svc_of (bounded_non_empty (PStr captured_by0) ''captured_by'' 256)) (\<lambda>captured_by.
     svc_bind (get_version version_id) (\<lambda>version.
     svc_bind (svc_of (string_list
       (strs (case evidence_arg of Some e \<Rightarrow> e | None \<Rightarrow> rv_evidence_ids version))
       ''evidence_ids'' 10000)) (\<lambda>ids.
     svc_bind (svc_read (\<lambda>s. validate_evidence_ids s (rv_case_id version) ids)) (\<lambda>evidence.
     svc_bind (svc_read (custody_snapshot_content env version evidence captured_by)) (\<lambda>content.
     svc_bind (svc_get (\<lambda>s. sqlite_snapshot_by_fingerprint s (cn_snapshot_fingerprint content)))
       (\<lambda>existing.
     case existing of
       Some c \<Rightarrow> svc_ret c
     | None \<Rightarrow>
         svc_bind (read_clock env) (\<lambda>now.
         svc_bind (mint_id env) (\<lambda>i.
         let c = content\<lparr>cn_custody_snapshot_id := i, cn_captured_at := now\<rparr> in
         svc_bind (svc_write (sqlite_save_custody_snapshot c)) (\<lambda>_. svc_ret c)))))))))"

definition get_custody_snapshot :: "string \<Rightarrow> (report_state, custody_snapshot) svc" where
  "get_custody_snapshot i = svc_read (\<lambda>s. opt_res
     (not_found_error ''CUSTODY_SNAPSHOT_NOT_FOUND'' ''Report custody snapshot not found.''
       (Some ''custody_snapshot_id'')) (sqlite_get_custody_snapshot s i))"

subsection \<open>Approval\<close>

definition approval_payload :: "approval_record \<Rightarrow> string \<Rightarrow> dict" where
  "approval_payload a decided =
     [(''approval_id'', PStr (ra_approval_id a)), (''report_id'', PStr (ra_report_id a)),
      (''report_version_id'', PStr (ra_report_version_id a)), (''case_id'', PStr (ra_case_id a)),
      (''approver_id'', PStr (ra_approver_id a)), (''decision'', PStr (ra_decision a)),
      (''reason'', PStr (ra_reason a)), (''content_fingerprint'', PStr (ra_content_fingerprint a)),
      (''custody_snapshot_id'', opt_str (ra_custody_snapshot_id a)),
      (''approval_revision'', PInt (ra_approval_revision a)),
      (''previous_approval_hash'', opt_str (ra_previous_approval_hash a)),
      (''decided_at'', PStr decided)]"

fun status_after_decision :: "report_approval_decision \<Rightarrow> string" where
  "status_after_decision report_approval_decision.APPROVED = report_status_value report_status.APPROVED"
| "status_after_decision report_approval_decision.REJECTED = report_status_value report_status.REJECTED"
| "status_after_decision report_approval_decision.REVOKED = report_status_value report_status.REVIEW_REQUIRED"

definition append_approval ::
  "report_env \<Rightarrow> report_version \<Rightarrow> report_approval_decision \<Rightarrow> string \<Rightarrow> string \<Rightarrow> string option \<Rightarrow>
     int option \<Rightarrow> (report_state, approval_record) svc" where
  "append_approval env version decision actor0 reason0 snapshot_id expected =
     svc_bind (svc_of (bounded_non_empty (PStr actor0) ''approver_id'' 256)) (\<lambda>actor_id.
     svc_bind (svc_of (required_reason reason0)) (\<lambda>reason.
     svc_bind (svc_get (\<lambda>s. sqlite_list_approvals s (Some (rv_report_id version)) None)) (\<lambda>approvals.
     let latest = (if approvals = [] then 0 else ra_approval_revision (last approvals)) in
     svc_bind (svc_guard (expected \<noteq> None \<and> expected \<noteq> Some latest)
       (report_error_with ''REPORT_APPROVAL_TRANSITION_INVALID'' ''Report approval revision changed.''
         (Some ''expected_approval_revision'') True [])) (\<lambda>_.
     svc_bind (read_clock env) (\<lambda>now.
     svc_bind (mint_id env) (\<lambda>i.
     let a = \<lparr>ra_approval_id = i, ra_report_id = rv_report_id version,
           ra_report_version_id = rv_report_version_id version, ra_case_id = rv_case_id version,
           ra_approver_id = actor_id, ra_decision = report_approval_decision_value decision,
           ra_reason = reason, ra_content_fingerprint = rv_content_fingerprint version,
           ra_custody_snapshot_id = snapshot_id, ra_approval_revision = latest + 1,
           ra_previous_approval_hash =
             (if approvals = [] then None else Some (ra_approval_hash (last approvals))),
           ra_approval_hash = '''', ra_decided_at = now\<rparr> in
     svc_bind (svc_of (to_json_timestamp now)) (\<lambda>decided.
     svc_bind (svc_of (canonical_sha256 (rx_sha env) (PDict (approval_payload a decided)) [])) (\<lambda>h.
     let approval = a\<lparr>ra_approval_hash := h\<rparr> in
     svc_bind (get_report (rv_report_id version)) (\<lambda>report.
     let r = report\<lparr>rr_status := status_after_decision decision, rr_updated_at := now\<rparr> in
     svc_bind (svc_write (sqlite_append_approval approval r)) (\<lambda>_. svc_ret approval))))))))))"

definition approve ::
  "report_env \<Rightarrow> string \<Rightarrow> string \<Rightarrow> string \<Rightarrow> string option \<Rightarrow> int option \<Rightarrow> int option \<Rightarrow>
     (report_state, approval_record) svc" where
  "approve env version_id approver0 reason0 snapshot_arg expected_review expected_approval =
     svc_bind (svc_of (bounded_non_empty (PStr approver0) ''approver_id'' 256)) (\<lambda>approver.
     svc_bind (svc_of (required_reason reason0)) (\<lambda>reason.
     svc_bind (get_version version_id) (\<lambda>version.
     svc_bind (svc_guard (expected_review \<noteq> None \<and>
         dget (rv_review_state version) ''review_revision'' \<noteq> map_option PInt expected_review)
       (report_error_with ''REPORT_REVIEW_REVISION_CONFLICT'' ''Report review revision changed.''
         (Some ''expected_review_revision'') True [])) (\<lambda>_.
     svc_bind (svc_guard (dget (rv_review_state version) ''status'' \<noteq> Some (PStr ''REVIEW_COMPLETE''))
       (report_error ''REPORT_APPROVAL_REVIEW_INCOMPLETE''
         ''Report approval requires completed review.'' ''report_version_id'')) (\<lambda>_.
     svc_bind (case snapshot_arg of
         Some i \<Rightarrow> get_custody_snapshot i
       | None \<Rightarrow> create_custody_snapshot env (rv_report_version_id version) approver None) (\<lambda>snapshot.
     svc_bind (svc_guard (cn_report_version_id snapshot \<noteq> rv_report_version_id version)
       (report_error ''REPORT_APPROVAL_VERSION_MISMATCH''
         ''Custody snapshot belongs to another report version.'' ''custody_snapshot_id'')) (\<lambda>_.
     svc_bind (svc_guard (cn_verification_status snapshot \<noteq>
         custody_snapshot_verification_status_value VERIFIED)
       (report_error_with ''REPORT_APPROVAL_REVIEW_INCOMPLETE''
         ''Invalid or incomplete custody verification blocks approval.'' (Some ''custody_snapshot_id'')
         False [(''verification_status'', PStr (cn_verification_status snapshot))])) (\<lambda>_.
     append_approval env version report_approval_decision.APPROVED approver reason
       (Some (cn_custody_snapshot_id snapshot)) expected_approval))))))))"

definition reject_version ::
  "report_env \<Rightarrow> string \<Rightarrow> string \<Rightarrow> string \<Rightarrow> int option \<Rightarrow> (report_state, approval_record) svc" where
  "reject_version env version_id approver reason0 expected =
     svc_bind (get_version version_id) (\<lambda>version.
     svc_bind (svc_of (required_reason reason0)) (\<lambda>reason.
     append_approval env version report_approval_decision.REJECTED approver reason None expected))"

definition revoke_approval ::
  "report_env \<Rightarrow> string \<Rightarrow> string \<Rightarrow> string \<Rightarrow> int option \<Rightarrow> (report_state, approval_record) svc" where
  "revoke_approval env version_id actor_id reason0 expected =
     svc_bind (get_version version_id) (\<lambda>version.
     svc_bind (svc_get (\<lambda>s. latest_approval s (rv_report_version_id version))) (\<lambda>latest.
     svc_bind (svc_of (case latest of
         Some a \<Rightarrow> (if ra_decision a = report_approval_decision_value report_approval_decision.APPROVED
           then Inr a else Inl (report_error ''REPORT_APPROVAL_TRANSITION_INVALID''
             ''Only the latest approved report version can be revoked.'' ''report_version_id''))
       | None \<Rightarrow> Inl (report_error ''REPORT_APPROVAL_TRANSITION_INVALID''
             ''Only the latest approved report version can be revoked.'' ''report_version_id''))) (\<lambda>a.
     svc_bind (svc_of (required_reason reason0)) (\<lambda>reason.
     append_approval env version report_approval_decision.REVOKED actor_id reason
       (ra_custody_snapshot_id a) expected))))"

definition require_approved_version ::
  "report_version \<Rightarrow> (report_state, approval_record) svc" where
  "require_approved_version v = svc_read (\<lambda>s.
     case latest_approval s (rv_report_version_id v) of
       Some a \<Rightarrow>
         (if ra_decision a \<noteq> report_approval_decision_value report_approval_decision.APPROVED then
            Inl (report_error ''REPORT_APPROVAL_TRANSITION_INVALID''
              ''Export requires an approved report version.'' ''report_version_id'')
          else if ra_content_fingerprint a \<noteq> rv_content_fingerprint v then
            Inl (report_error ''REPORT_APPROVAL_FINGERPRINT_MISMATCH''
              ''Approval fingerprint does not match the report version.'' ''report_version_id'')
          else Inr a)
     | None \<Rightarrow> Inl (report_error ''REPORT_APPROVAL_TRANSITION_INVALID''
              ''Export requires an approved report version.'' ''report_version_id''))"

subsection \<open>Render packages\<close>

definition evidence_manifest_item :: "report_env \<Rightarrow> report_state \<Rightarrow> string \<Rightarrow> dict res" where
  "evidence_manifest_item env s i =
     (case db_evidence (st_custody s) i of
        None \<Rightarrow> Inl (report_error ''REPORT_REFERENCE_NOT_FOUND'' ''Evidence not found.'' ''evidence_ids'')
      | Some _ \<Rightarrow> let d = rx_evidence_doc env i in
          Inr [(''evidence_id'', PStr i), (''display_name'', PStr (ed_display_name d)),
               (''format'', ed_format d), (''size_bytes'', ed_size_bytes d),
               (''hashes'', PList (ed_hashes d)), (''fingerprint'', ed_fingerprint d)])"

definition hash_count :: "dict \<Rightarrow> int" where
  "hash_count d = (case dget_or d ''hashes'' (PList []) of PList xs \<Rightarrow> int (length xs) | _ \<Rightarrow> 0)"

definition package_payload ::
  "report_version \<Rightarrow> dict list \<Rightarrow> dict list \<Rightarrow> string option \<Rightarrow> bool \<Rightarrow> dict" where
  "package_payload v manifest citations snapshot_id for_export =
     [(''report_id'', PStr (rv_report_id v)),
      (''report_version_id'', PStr (rv_report_version_id v)), (''case_id'', PStr (rv_case_id v)),
      (''sections'', dicts (List.map report_section_schema_dict (rv_sections v))),
      (''evidence_manifest'', dicts manifest), (''custody_snapshot_id'', opt_str snapshot_id),
      (''context_snapshot_ids'', strs (rv_context_snapshot_ids v)), (''citations'', dicts citations),
      (''partial_state'', PDict (rv_partial_state v)), (''stale_state'', PDict (rv_stale_state v)),
      (''coverage_summary'', PDict (rv_coverage_summary v)),
      (''limitations'', strs (rv_limitations v)), (''for_export'', PBool for_export)]"

definition is_stale_version :: "report_version \<Rightarrow> bool" where
  "is_stale_version v = truthy (dget_or (rv_stale_state v) ''is_stale'' PNone)"

definition create_render_package ::
  "report_env \<Rightarrow> string \<Rightarrow> string \<Rightarrow> bool \<Rightarrow> string option \<Rightarrow> bool \<Rightarrow>
     (report_state, render_package) svc" where
  "create_render_package env version_id created_by0 for_export snapshot_arg stale_confirmed =
     svc_bind (svc_of (bounded_non_empty (PStr created_by0) ''created_by'' 256)) (\<lambda>created_by.
     svc_bind (get_version version_id) (\<lambda>v.
     svc_bind (if for_export then svc_bind (require_approved_version v) (\<lambda>a.
         svc_ret (if snapshot_arg \<noteq> None \<and> snapshot_arg \<noteq> Some [] then snapshot_arg
           else ra_custody_snapshot_id a))
       else svc_ret snapshot_arg) (\<lambda>snapshot_id.
     svc_bind (svc_guard (is_stale_version v \<and> for_export \<and> \<not> stale_confirmed)
       (report_error ''REPORT_APPROVAL_TRANSITION_INVALID''
         ''Stale report export requires explicit confirmation.'' ''stale_confirmed'')) (\<lambda>_.
     svc_bind (svc_read (\<lambda>s. traverse (evidence_manifest_item env s) (rv_evidence_ids v))) (\<lambda>manifest.
     svc_bind (svc_of (stable_docs (rx_sha env) (concat (List.map rs_citations (rv_sections v)))))
       (\<lambda>citations.
     svc_bind (svc_guard (length citations > 1000) (report_error ''REPORT_CONTENT_LIMIT_EXCEEDED''
       ''Render package exceeds the maximum citation count.'' ''citations'')) (\<lambda>_.
     svc_bind (svc_of (canonical_sha256 (rx_sha env)
       (PDict (package_payload v manifest citations snapshot_id for_export)) [])) (\<lambda>fp.
     svc_bind (svc_get (\<lambda>s. sqlite_package_by_fingerprint s fp)) (\<lambda>existing.
     case existing of
       Some p \<Rightarrow> svc_ret p
     | None \<Rightarrow>
         svc_bind (get_report (rv_report_id v)) (\<lambda>report.
         svc_bind (mint_id env) (\<lambda>i.
         svc_bind (read_clock env) (\<lambda>now.
         let p = \<lparr>rp_package_id = i, rp_report_id = rv_report_id v,
               rp_report_version_id = rv_report_version_id v, rp_case_id = rv_case_id v,
               rp_locale = rr_locale report, rp_timezone = rr_timezone report,
               rp_report_metadata =
                 [(''title'', PStr (rv_title v)), (''executive_summary'', PStr (rv_executive_summary v)),
                  (''version_number'', PInt (rv_version_number v)),
                  (''source_kind'', PStr (rv_source_kind v)),
                  (''approval_state'', PDict (rv_approval_state v)), (''preview_allowed'', PBool True),
                  (''export_allowed'', PBool for_export), (''created_by'', PStr created_by)],
               rp_sections = List.map report_section_schema_dict (rv_sections v),
               rp_evidence_manifest = manifest,
               rp_hash_integrity_summary =
                 [(''evidence_count'', PInt (int (length manifest))),
                  (''hash_record_count'', PInt (sum_list (List.map hash_count manifest)))],
               rp_custody_snapshot_id = snapshot_id,
               rp_context_snapshot_ids = rv_context_snapshot_ids v, rp_citations = citations,
               rp_partial_state = rv_partial_state v, rp_stale_state = rv_stale_state v,
               rp_coverage_summary = rv_coverage_summary v, rp_limitations = rv_limitations v,
               rp_renderer_requirements =
                 [(''formats'', strs [''PDF'', ''HTML'']),
                  (''binary_attachments_embedded'', PBool False),
                  (''schema_version'', PStr schema_version)],
               rp_package_fingerprint = fp, rp_created_at = now,
               rp_package_version = schema_version\<rparr> in
         svc_bind (svc_write (sqlite_save_render_package p)) (\<lambda>_. svc_ret p)))))))))))))"

definition get_render_package :: "string \<Rightarrow> (report_state, render_package) svc" where
  "get_render_package i = svc_read (\<lambda>s. opt_res
     (not_found_error ''REPORT_PACKAGE_NOT_FOUND'' ''Report render package not found.''
       (Some ''package_id'')) (sqlite_get_render_package s i))"

subsection \<open>Export manifests\<close>

definition append_export_audit ::
  "report_env \<Rightarrow> export_manifest \<Rightarrow> string \<Rightarrow> string option \<Rightarrow> string \<Rightarrow> dict \<Rightarrow>
     (report_state, unit) svc" where
  "append_export_audit env m action actor_id status details =
     svc_bind (svc_get (\<lambda>s. sqlite_list_export_audits s (xm_export_manifest_id m))) (\<lambda>events.
     svc_bind (read_clock env) (\<lambda>now.
     svc_bind (mint_id env) (\<lambda>i.
     let previous = (if events = [] then None else Some (xa_event_hash (last events))) in
     svc_bind (svc_of (to_json_timestamp now)) (\<lambda>created.
     svc_bind (svc_of (canonical_sha256 (rx_sha env) (PDict
       [(''audit_event_id'', PStr i), (''export_manifest_id'', PStr (xm_export_manifest_id m)),
        (''report_id'', PStr (xm_report_id m)),
        (''report_version_id'', PStr (xm_report_version_id m)), (''case_id'', PStr (xm_case_id m)),
        (''action'', PStr action), (''actor_id'', opt_str actor_id), (''status'', PStr status),
        (''details'', PDict details), (''previous_event_hash'', opt_str previous),
        (''created_at'', PStr created)]) [])) (\<lambda>h.
     svc_write (sqlite_append_export_audit
       \<lparr>xa_audit_event_id = i, xa_export_manifest_id = xm_export_manifest_id m,
        xa_report_id = xm_report_id m, xa_report_version_id = xm_report_version_id m,
        xa_case_id = xm_case_id m, xa_action = action, xa_actor_id = actor_id, xa_status = status,
        xa_details = details, xa_previous_event_hash = previous, xa_event_hash = h,
        xa_created_at = now\<rparr>))))))"

record export_request =
  eq_version_id :: string
  eq_format :: string
  eq_filename :: string
  eq_created_by :: string
  eq_redaction_policy :: string
  eq_overwrite_policy :: string
  eq_include_citations :: bool
  eq_include_custody :: bool
  eq_include_technical_appendix :: bool
  eq_stale_confirmed :: bool
  eq_expected_content_fingerprint :: "string option"
  eq_expected_approval_id :: "string option"
  eq_expected_custody_snapshot_id :: "string option"

definition check_expected :: "export_request \<Rightarrow> report_version \<Rightarrow> approval_record \<Rightarrow> unit res" where
  "check_expected q v a =
     (if eq_expected_content_fingerprint q \<notin> {None, Some (rv_content_fingerprint v)} then
        Inl (report_error_with ''REPORT_APPROVAL_FINGERPRINT_MISMATCH''
          ''Expected content fingerprint does not match the approved version.''
          (Some ''expected_content_fingerprint'') True [])
      else if eq_expected_approval_id q \<notin> {None, Some (ra_approval_id a)} then
        Inl (report_error_with ''REPORT_APPROVAL_TRANSITION_INVALID''
          ''Expected approval does not match the latest approved decision.''
          (Some ''expected_approval_id'') True [])
      else if eq_expected_custody_snapshot_id q \<noteq> None \<and>
          eq_expected_custody_snapshot_id q \<noteq> ra_custody_snapshot_id a then
        Inl (report_error_with ''REPORT_APPROVAL_TRANSITION_INVALID''
          ''Expected custody snapshot does not match the approved decision.''
          (Some ''expected_custody_snapshot_id'') True [])
      else Inr ())"

definition manifest_payload ::
  "export_request \<Rightarrow> report_version \<Rightarrow> approval_record \<Rightarrow> string \<Rightarrow> string \<Rightarrow> string \<Rightarrow> dict" where
  "manifest_payload q v a format filename redaction =
     [(''report_version_id'', PStr (rv_report_version_id v)), (''format'', PStr format),
      (''filename'', PStr filename), (''content_fingerprint'', PStr (rv_content_fingerprint v)),
      (''approval_id'', PStr (ra_approval_id a)),
      (''custody_snapshot_id'', opt_str (ra_custody_snapshot_id a)),
      (''redaction_policy'', PStr redaction), (''include_citations'', PBool (eq_include_citations q)),
      (''include_custody'', PBool (eq_include_custody q)),
      (''include_technical_appendix'', PBool (eq_include_technical_appendix q))]"

definition current_capability ::
  "report_env \<Rightarrow> renderer_port \<Rightarrow> (report_state, renderer_capability) svc" where
  "current_capability env rn =
     (let c = rn_capability rn in
      case rc_generated_at c of
        Some _ \<Rightarrow> svc_ret c
      | None \<Rightarrow> svc_bind (read_clock env) (\<lambda>now. svc_ret (c\<lparr>rc_generated_at := Some now\<rparr>)))"

definition renderer_capabilities :: "report_env \<Rightarrow> (report_state, renderer_capability) svc" where
  "renderer_capabilities env =
     svc_bind (current_capability env (rx_renderer env)) (\<lambda>c.
     svc_bind (svc_of (validate_renderer_capability (rx_sha env) c)) (\<lambda>_.
     svc_bind (svc_write (sqlite_save_capability c)) (\<lambda>_. svc_ret c)))"

definition service_capabilities :: "report_env \<Rightarrow> (report_state, dict) svc" where
  "service_capabilities env =
     svc_bind (current_capability env (rx_renderer env)) (\<lambda>c.
     svc_bind (svc_write (sqlite_save_capability c)) (\<lambda>_.
     svc_bind (svc_of (renderer_capability_schema_dict c)) (\<lambda>d.
     svc_ret
       [(''schema_version'', PStr schema_version),
        (''engine_capabilities'', strs [''REPORT_ENGINE_CONTRACT'', ''REPORT_IMMUTABLE_VERSION'',
           ''REPORT_REVIEW_APPROVAL'', ''REPORT_CUSTODY_SNAPSHOT'', ''REPORT_EXPORT_MANIFEST'']),
        (''unavailable_capabilities'', strs [''RUNTIME_REPORT_RENDERER'', ''PDF_RENDERING'',
           ''HTML_RENDERING'', ''AI_REPORT_DRAFT_GENERATION'', ''MCP_REPORT_TOOL'',
           ''GUI_REPORT_PREVIEW'']),
        (''renderer'', PDict d)])))"

definition renders :: "renderer_capability \<Rightarrow> string \<Rightarrow> bool" where
  "renders c format \<longleftrightarrow> rc_is_available c \<and> format \<in> set (rc_supported_formats c)"

definition write_manifest ::
  "report_env \<Rightarrow> renderer_port \<Rightarrow> export_request \<Rightarrow> report_version \<Rightarrow> approval_record \<Rightarrow> string \<Rightarrow>
     string \<Rightarrow> string \<Rightarrow> string \<Rightarrow> string \<Rightarrow> render_package \<Rightarrow> (report_state, export_manifest) svc" where
  "write_manifest env rn q v a format filename redaction created_by fp package =
     svc_bind (current_capability env rn) (\<lambda>c.
     svc_bind (svc_of (validate_renderer_capability (rx_sha env) c)) (\<lambda>_.
     svc_bind (svc_write (sqlite_save_capability c)) (\<lambda>_.
     let status = report_export_status_value
           (if renders c format then PREPARED else CAPABILITY_UNAVAILABLE) in
     svc_bind (if renders c format then svc_ret []
       else svc_of (bounded_warnings (rx_sha env) (dicts (rc_warnings c)) ''warnings'')) (\<lambda>warnings.
     svc_bind (mint_id env) (\<lambda>i.
     svc_bind (read_clock env) (\<lambda>now.
     let m = \<lparr>xm_export_manifest_id = i, xm_report_id = rv_report_id v,
           xm_report_version_id = rv_report_version_id v, xm_case_id = rv_case_id v,
           xm_format = format, xm_render_package_id = rp_package_id package,
           xm_renderer_id = rc_renderer_id c, xm_renderer_version = rc_renderer_version c,
           xm_requested_filename = filename, xm_derived_output_root_id = rx_root env,
           xm_overwrite_policy = eq_overwrite_policy q, xm_redaction_policy = redaction,
           xm_include_citations = eq_include_citations q, xm_include_custody = eq_include_custody q,
           xm_include_technical_appendix = eq_include_technical_appendix q,
           xm_content_fingerprint = rv_content_fingerprint v, xm_manifest_fingerprint = fp,
           xm_approval_id = ra_approval_id a, xm_custody_snapshot_id = ra_custody_snapshot_id a,
           xm_status = status, xm_warnings = warnings, xm_created_by = created_by,
           xm_created_at = now, xm_manifest_version = schema_version\<rparr> in
     svc_bind (get_report (rv_report_id v)) (\<lambda>report.
     svc_bind (read_clock env) (\<lambda>now2.
     let r = report\<lparr>rr_status := report_status_value
           (if status = report_export_status_value PREPARED then EXPORT_READY else EXPORT_FAILED),
           rr_updated_at := now2\<rparr> in
     svc_bind (svc_write (sqlite_save_export_manifest m r)) (\<lambda>_.
     svc_bind (append_export_audit env m ''PREPARE'' (Some created_by) status []) (\<lambda>_.
     svc_ret m))))))))))"

definition prepare_export ::
  "report_env \<Rightarrow> renderer_port option \<Rightarrow> export_request \<Rightarrow> (report_state, export_manifest) svc" where
  "prepare_export env renderer q =
     svc_bind (svc_of (bounded_non_empty (PStr (eq_created_by q)) ''created_by'' 256)) (\<lambda>created_by.
     svc_bind (svc_of (bounded_non_empty (PStr (eq_redaction_policy q)) ''redaction_policy'' 80))
       (\<lambda>redaction.
     svc_bind (svc_of (bounded_non_empty (PStr (rx_root env)) ''derived_output_root_id'' 128)) (\<lambda>_.
     svc_bind (get_version (eq_version_id q)) (\<lambda>v.
     svc_bind (require_approved_version v) (\<lambda>a.
     svc_bind (svc_of (check_expected q v a)) (\<lambda>_.
     svc_bind (svc_of (enum_value (List.map report_export_format_value report_export_format_members)
       (PStr (eq_format q)) ''format'')) (\<lambda>format.
     svc_bind (svc_of (safe_filename (eq_filename q) format)) (\<lambda>filename.
     svc_bind (svc_guard (eq_overwrite_policy q \<noteq> ''DENY'') (report_error ''REPORT_OUTPUT_INVALID''
       ''Overwrite is denied by default and other overwrite policies are not implemented.''
       ''overwrite_policy'')) (\<lambda>_.
     svc_bind (svc_of (canonical_sha256 (rx_sha env)
       (PDict (manifest_payload q v a format filename redaction)) [])) (\<lambda>fp.
     svc_bind (svc_get (\<lambda>s. sqlite_manifest_by_fingerprint s fp)) (\<lambda>existing.
     case existing of
       Some m \<Rightarrow> svc_ret m
     | None \<Rightarrow>
         svc_bind (create_render_package env (rv_report_version_id v) created_by True
           (ra_custody_snapshot_id a) (eq_stale_confirmed q)) (\<lambda>package.
         write_manifest env (case renderer of None \<Rightarrow> rx_renderer env | Some rn \<Rightarrow> rn) q v a format
           filename redaction created_by fp package))))))))))))"

definition get_export_manifest :: "string \<Rightarrow> (report_state, export_manifest) svc" where
  "get_export_manifest i = svc_read (\<lambda>s. opt_res
     (not_found_error ''REPORT_EXPORT_MANIFEST_NOT_FOUND'' ''Report export manifest not found.''
       (Some ''export_manifest_id'')) (sqlite_get_export_manifest s i))"

subsection \<open>Results of a renderer\<close>

definition artifact_payload :: "rendered_artifact \<Rightarrow> dict" where
  "artifact_payload a =
     [(''export_manifest_id'', PStr (rf_export_manifest_id a)),
      (''report_version_id'', PStr (rf_report_version_id a)), (''format'', PStr (rf_format a)),
      (''renderer_id'', PStr (rf_renderer_id a)), (''renderer_version'', PStr (rf_renderer_version a)),
      (''output_reference'', PStr (rf_output_reference a)), (''filename'', PStr (rf_filename a)),
      (''mime_type'', PStr (rf_mime_type a)), (''size_bytes'', PInt (rf_size_bytes a)),
      (''sha256'', PStr (rf_sha256 a))]"

definition is_sha256 :: "string \<Rightarrow> bool" where
  "is_sha256 s \<longleftrightarrow> length s = 64 \<and> list_all (\<lambda>c. is_digit c \<or>
     (let n = of_char c :: nat in 97 \<le> n \<and> n \<le> 102)) s"

text \<open>The artifact a completed result describes, without its identifier, time and fingerprint.\<close>

definition artifact_of_result :: "export_manifest \<Rightarrow> dict \<Rightarrow> dict list \<Rightarrow> rendered_artifact res" where
  "artifact_of_result m payload warnings =
     bind_res (required_non_empty (dget_or payload ''output_reference'' PNone) ''output_reference'')
       (\<lambda>output.
     bind_res (validate_output_reference output (xm_derived_output_root_id m)) (\<lambda>_.
     bind_res (safe_filename (py_str (dget_or payload ''filename'' (PStr (xm_requested_filename m))))
       (xm_format m)) (\<lambda>filename.
     bind_res (limit_value (dget_or payload ''size_bytes'' PNone) 1 1000000000000 ''size_bytes'') (\<lambda>n.
     bind_res (required_non_empty (dget_or payload ''sha256'' PNone) ''sha256'') (\<lambda>sha0.
     if \<not> is_sha256 (lower sha0) then
       Inl (report_error ''REPORT_OUTPUT_INVALID'' ''Renderer output hash is invalid.'' ''sha256'')
     else
     bind_res (bounded_non_empty (dget_or payload ''renderer_id'' (PStr (xm_renderer_id m)))
       ''renderer_id'' 256) (\<lambda>rid.
     bind_res (bounded_non_empty (dget_or payload ''renderer_version'' (PStr (xm_renderer_version m)))
       ''renderer_version'' 80) (\<lambda>rver.
     Inr \<lparr>rf_rendered_artifact_id = '''', rf_export_manifest_id = xm_export_manifest_id m,
       rf_report_version_id = xm_report_version_id m, rf_format = xm_format m,
       rf_renderer_id = rid, rf_renderer_version = rver, rf_output_reference = output,
       rf_filename = filename,
       rf_mime_type = (let v = dget_or payload ''mime_type'' PNone in
         py_str (if truthy v then v else PStr (mime_type (xm_format m)))),
       rf_size_bytes = n, rf_sha256 = lower sha0, rf_rendered_at = Aware 0, rf_warnings = warnings,
       rf_artifact_fingerprint = ''''\<rparr>)))))))"

definition complete_export ::
  "report_env \<Rightarrow> export_manifest \<Rightarrow> rendered_artifact \<Rightarrow> (report_state, rendered_artifact) svc" where
  "complete_export env m draft =
     svc_bind (mint_id env) (\<lambda>i.
     svc_bind (read_clock env) (\<lambda>now.
     svc_bind (svc_of (canonical_sha256 (rx_sha env) (PDict (artifact_payload draft)) [])) (\<lambda>fp.
     let a = draft\<lparr>rf_rendered_artifact_id := i, rf_rendered_at := now, rf_artifact_fingerprint := fp\<rparr> in
     svc_bind (svc_of (bounded_warnings (rx_sha env) (dicts (xm_warnings m @ rf_warnings a)) ''warnings''))
       (\<lambda>warnings.
     let m2 = m\<lparr>xm_status := report_export_status_value COMPLETED, xm_warnings := warnings\<rparr> in
     svc_bind (get_report (xm_report_id m)) (\<lambda>report.
     svc_bind (read_clock env) (\<lambda>now2.
     let r = report\<lparr>rr_status := report_status_value report_status.EXPORTED, rr_updated_at := now2\<rparr> in
     svc_bind (svc_write (sqlite_save_rendered_artifact a m2 r)) (\<lambda>_.
     svc_bind (append_export_audit env m2 ''RENDER_COMPLETED'' None (xm_status m2) (artifact_payload a))
       (\<lambda>_. svc_ret a))))))))"

definition record_export_result ::
  "report_env \<Rightarrow> string \<Rightarrow> dict \<Rightarrow> (report_state, rendered_artifact + export_manifest) svc" where
  "record_export_result env manifest_id payload =
     svc_bind (get_export_manifest manifest_id) (\<lambda>m.
     svc_bind (svc_of (validate_contract_payload (PDict payload) ''render_result'')) (\<lambda>_.
     svc_bind (svc_of (bounded_warnings (rx_sha env) (dget_or payload ''warnings'' (PList []))
       ''warnings'')) (\<lambda>result_warnings.
     let status = py_str (dget_or payload ''status'' (PStr (report_export_status_value COMPLETED))) in
     if status \<in> {report_export_status_value FAILED, report_export_status_value CANCELLED} then
       svc_bind (svc_of (bounded_warnings (rx_sha env) (dicts (xm_warnings m @ result_warnings))
         ''warnings'')) (\<lambda>merged.
       let m2 = m\<lparr>xm_status := status, xm_warnings := merged\<rparr> in
       svc_bind (svc_write (sqlite_update_export_manifest m2)) (\<lambda>_.
       svc_bind (append_export_audit env m2 ''RENDER_RESULT'' None status payload) (\<lambda>_.
       svc_ret (Inr m2))))
     else if status \<noteq> report_export_status_value COMPLETED then
       svc_err (report_error ''REPORT_OUTPUT_INVALID'' ''Renderer result status is invalid.'' ''status'')
     else if xm_status m \<notin> {report_export_status_value PREPARED, report_export_status_value RENDERING} then
       svc_err (report_error_with ''REPORT_OUTPUT_INVALID''
         ''Renderer completion is invalid for the current export manifest state.''
         (Some ''export_manifest_id'') False [(''manifest_status'', PStr (xm_status m))])
     else
       svc_bind (svc_of (artifact_of_result m payload result_warnings)) (\<lambda>draft.
       svc_bind (complete_export env m draft) (\<lambda>a. svc_ret (Inl a))))))"

text \<open>\<open>except ReportError\<close>: a \<open>ReportError\<close> is known by its message key, which only
  \<open>NotFoundError\<close> shares, with the codes of this service.\<close>

definition is_report_error :: "exn \<Rightarrow> bool" where
  "is_report_error e = (case e of
     ApexExn a \<Rightarrow> ae_message_key a = ''error.'' @ lower (ae_code a) \<and>
       ae_code a \<notin> {''REPORT_NOT_FOUND'', ''REPORT_VERSION_NOT_FOUND'', ''CASE_NOT_FOUND'',
         ''CUSTODY_SNAPSHOT_NOT_FOUND'', ''REPORT_PACKAGE_NOT_FOUND'',
         ''REPORT_EXPORT_MANIFEST_NOT_FOUND''}
   | _ \<Rightarrow> False)"

fun error_warning :: "exn \<Rightarrow> dict" where
  "error_warning (ApexExn a) =
     [(''code'', PStr (ae_code a)), (''developer_message'', opt_str (ae_developer_message a))]"
| "error_warning _ = []"

fun error_details :: "exn \<Rightarrow> dict" where
  "error_details (ApexExn a) = to_api_error a"
| "error_details _ = []"

definition fail_export ::
  "report_env \<Rightarrow> export_manifest \<Rightarrow> exn \<Rightarrow> (report_state, unit) svc" where
  "fail_export env m e =
     svc_bind (svc_of (bounded_warnings (rx_sha env) (dicts (xm_warnings m @ [error_warning e]))
       ''warnings'')) (\<lambda>warnings.
     let m2 = m\<lparr>xm_status := report_export_status_value FAILED, xm_warnings := warnings\<rparr> in
     svc_bind (svc_write (sqlite_update_export_manifest m2)) (\<lambda>_.
     append_export_audit env m2 ''RENDER_FAILED'' None (xm_status m2) (error_details e)))"

definition render_export ::
  "report_env \<Rightarrow> renderer_port option \<Rightarrow> string \<Rightarrow> (report_state, export_manifest) svc" where
  "render_export env renderer manifest_id =
     svc_bind (get_export_manifest manifest_id) (\<lambda>m.
     svc_bind (svc_guard (xm_status m \<noteq> report_export_status_value PREPARED)
       (report_error_with ''REPORT_RENDER_FAILED'' ''Export manifest is not prepared for rendering.''
         (Some ''export_manifest_id'') False [(''manifest_status'', PStr (xm_status m))])) (\<lambda>_.
     let rn = (case renderer of None \<Rightarrow> rx_renderer env | Some x \<Rightarrow> x); c = rn_capability rn in
     svc_bind (svc_of (validate_renderer_capability (rx_sha env) c)) (\<lambda>_.
     if \<not> renders c (xm_format m) then
       svc_bind (svc_of (bounded_warnings (rx_sha env) (dicts (xm_warnings m @ rc_warnings c))
         ''warnings'')) (\<lambda>warnings.
       let m2 = m\<lparr>xm_status := report_export_status_value CAPABILITY_UNAVAILABLE,
             xm_warnings := warnings\<rparr> in
       svc_bind (svc_write (sqlite_update_export_manifest m2)) (\<lambda>_.
       svc_bind (append_export_audit env m2 ''RENDER_UNAVAILABLE'' None (xm_status m2) []) (\<lambda>_.
       svc_ret m2)))
     else
       svc_bind (get_render_package (xm_render_package_id m)) (\<lambda>package.
       let m2 = m\<lparr>xm_status := report_export_status_value RENDERING\<rparr> in
       svc_bind (svc_write (sqlite_update_export_manifest m2)) (\<lambda>_.
       svc_bind (append_export_audit env m2 ''RENDER_START'' None (xm_status m2) []) (\<lambda>_.
       svc_bind (svc_catch
         (svc_bind (svc_of (rn_validate rn package)) (\<lambda>_.
          svc_bind (svc_of (rn_render rn package (xm_export_manifest_id m) (xm_requested_filename m)))
            (\<lambda>result.
          svc_bind (svc_of (rn_verify rn result)) (\<lambda>_.
          svc_bind (record_export_result env (xm_export_manifest_id m) result) (\<lambda>_. svc_ret ())))))
         is_report_error (fail_export env m2)) (\<lambda>_.
       get_export_manifest (xm_export_manifest_id m))))))))"

definition export_status :: "string \<Rightarrow> (report_state, export_manifest \<times> rendered_artifact list) svc" where
  "export_status manifest_id =
     svc_bind (get_export_manifest manifest_id) (\<lambda>m.
     svc_get (\<lambda>s. (m, sqlite_list_artifacts s manifest_id)))"

end
