(* ===== verification/Report_Facts.thy ===== *)
theory Report_Facts
  imports Report_Export
begin

section \<open>The invariant of the report tables\<close>

text \<open>
  \<open>report_inv\<close> says what the tables hold after any run of the service: reports and versions are
  identified, the versions of a report are numbered from 1, the review log of a version and the
  approval log of a report are numbered, linked and carry the hash of their content, a review is
  completed only when every required section was accepted, an approval rests on a completed
  review and a verified custody snapshot, and an export manifest rests on an approval.  One lemma
  per write shows that it keeps the invariant; the operations follow by \<open>wp\<close>.
\<close>

subsection \<open>Linked logs\<close>

fun linked :: "('e \<Rightarrow> int) \<Rightarrow> ('e \<Rightarrow> string option) \<Rightarrow> ('e \<Rightarrow> string) \<Rightarrow> string option \<Rightarrow> int \<Rightarrow>
    'e list \<Rightarrow> bool" where
  "linked rv pv hs p n [] = True"
| "linked rv pv hs p n (e # es) = (rv e = n \<and> pv e = p \<and> linked rv pv hs (Some (hs e)) (n + 1) es)"

lemma linked_append:
  "linked rv pv hs p n (es @ [e]) \<longleftrightarrow> linked rv pv hs p n es \<and> rv e = n + int (length es) \<and>
     pv e = (if es = [] then p else Some (hs (last es)))"
  by (induction es arbitrary: p n) auto

lemma linked_revision: "linked rv pv hs p n es \<Longrightarrow> i < length es \<Longrightarrow> rv (es ! i) = n + int i"
proof (induction es arbitrary: p n i)
  case (Cons e es)
  then show ?case by (cases i) auto
qed simp

lemma linked_last: "linked rv pv hs p n es \<Longrightarrow> es \<noteq> [] \<Longrightarrow> rv (last es) = n + int (length es) - 1"
  by (simp add: last_conv_nth linked_revision of_nat_diff Suc_le_eq)

lemma linked_keys: "linked rv pv hs p n es \<Longrightarrow> sorted (List.map (\<lambda>e. (rv e, idt e :: string)) es)"
  by (auto simp: sorted_iff_nth_mono_less linked_revision less_eq_prod_simp)

lemma linked_sorted: "linked rv pv hs p n es \<Longrightarrow> sort_key (\<lambda>e. (rv e, idt e :: string)) es = es"
  by (rule sort_key_id_if_sorted) (rule linked_keys)

subsection \<open>Logs of a version and a report\<close>

definition version_events :: "report_state \<Rightarrow> string \<Rightarrow> review_event list" where
  "version_events s i = filter (\<lambda>e. rw_report_version_id e = i) (st_reviews s)"

definition report_approvals :: "report_state \<Rightarrow> string \<Rightarrow> approval_record list" where
  "report_approvals s i = filter (\<lambda>a. ra_report_id a = i) (st_approvals s)"

abbreviation linked_reviews :: "review_event list \<Rightarrow> bool" where
  "linked_reviews \<equiv> linked rw_review_revision rw_previous_event_hash rw_event_hash None 1"

abbreviation linked_approvals :: "approval_record list \<Rightarrow> bool" where
  "linked_approvals \<equiv> linked ra_approval_revision ra_previous_approval_hash ra_approval_hash None 1"

definition review_hash_ok :: "(string \<Rightarrow> string) \<Rightarrow> review_event \<Rightarrow> bool" where
  "review_hash_ok sha e \<longleftrightarrow> (\<exists>t. to_json_timestamp (rw_created_at e) = Inr t \<and>
     canonical_sha256 sha (PDict (event_payload e t)) [] = Inr (rw_event_hash e))"

definition approval_hash_ok :: "(string \<Rightarrow> string) \<Rightarrow> approval_record \<Rightarrow> bool" where
  "approval_hash_ok sha a \<longleftrightarrow> (\<exists>t. to_json_timestamp (ra_decided_at a) = Inr t \<and>
     canonical_sha256 sha (PDict (approval_payload a t)) [] = Inr (ra_approval_hash a))"

definition completed_at :: "report_version \<Rightarrow> review_event list \<Rightarrow> nat \<Rightarrow> bool" where
  "completed_at v es n \<longleftrightarrow> n < length es \<and>
     rw_action (es ! n) = report_review_action_value MARK_REVIEW_COMPLETE \<and>
     review_status_from_events (take n es) \<in> {''IN_REVIEW'', ''CHANGES_REQUESTED''} \<and>
     missing_required_section_reviews v (take n es) = []"

definition snapshot_supports :: "report_state \<Rightarrow> approval_record \<Rightarrow> bool" where
  "snapshot_supports s a \<longleftrightarrow> (\<exists>c \<in> set (st_snapshots s).
     ra_custody_snapshot_id a = Some (cn_custody_snapshot_id c) \<and>
     cn_report_version_id c = ra_report_version_id a \<and>
     cn_verification_status c = custody_snapshot_verification_status_value VERIFIED)"

definition approval_justified :: "report_state \<Rightarrow> approval_record \<Rightarrow> bool" where
  "approval_justified s a \<longleftrightarrow> (\<exists>v \<in> set (st_versions s).
     rv_report_version_id v = ra_report_version_id a \<and> rv_report_id v = ra_report_id a \<and>
     rv_content_fingerprint v = ra_content_fingerprint a \<and>
     (ra_decision a = report_approval_decision_value report_approval_decision.APPROVED \<longrightarrow>
        snapshot_supports s a \<and>
        (\<exists>n. completed_at v (version_events s (rv_report_version_id v)) n)))"

definition manifest_justified :: "approval_record list \<Rightarrow> export_manifest \<Rightarrow> bool" where
  "manifest_justified approvals m \<longleftrightarrow> (\<exists>a \<in> set approvals.
     ra_approval_id a = xm_approval_id m \<and>
     ra_decision a = report_approval_decision_value report_approval_decision.APPROVED \<and>
     ra_report_version_id a = xm_report_version_id m \<and>
     ra_content_fingerprint a = xm_content_fingerprint m \<and>
     ra_custody_snapshot_id a = xm_custody_snapshot_id m)"

subsection \<open>The invariant\<close>

definition reports_inv :: "report_state \<Rightarrow> bool" where
  "reports_inv s \<longleftrightarrow> distinct (List.map rr_report_id (st_reports s)) \<and>
     distinct (List.map rv_report_version_id (st_versions s)) \<and>
     (\<forall>v \<in> set (st_versions s). has_report s (rv_report_id v)) \<and>
     (\<forall>r \<in> set (st_reports s). 0 \<le> rr_latest_version_number r \<and> List.map rv_version_number
        (filter (\<lambda>v. rv_report_id v = rr_report_id r) (st_versions s)) = [1..rr_latest_version_number r])"

definition reviews_inv :: "(string \<Rightarrow> string) \<Rightarrow> report_state \<Rightarrow> bool" where
  "reviews_inv sha s \<longleftrightarrow> (\<forall>i. linked_reviews (version_events s i)) \<and>
     (\<forall>e \<in> set (st_reviews s). review_hash_ok sha e) \<and>
     (\<forall>e \<in> set (st_reviews s). has_version s (rw_report_version_id e)) \<and>
     (\<forall>v \<in> set (st_versions s). \<forall>n < length (version_events s (rv_report_version_id v)).
        rw_action (version_events s (rv_report_version_id v) ! n) =
          report_review_action_value MARK_REVIEW_COMPLETE \<longrightarrow>
        completed_at v (version_events s (rv_report_version_id v)) n)"

definition approvals_inv :: "(string \<Rightarrow> string) \<Rightarrow> report_state \<Rightarrow> bool" where
  "approvals_inv sha s \<longleftrightarrow> (\<forall>i. linked_approvals (report_approvals s i)) \<and>
     (\<forall>a \<in> set (st_approvals s). approval_hash_ok sha a \<and> approval_justified s a)"

definition manifests_inv :: "report_state \<Rightarrow> bool" where
  "manifests_inv s \<longleftrightarrow> (\<forall>m \<in> set (st_manifests s). manifest_justified (st_approvals s) m)"

definition report_inv :: "(string \<Rightarrow> string) \<Rightarrow> report_state \<Rightarrow> bool" where
  "report_inv sha s \<longleftrightarrow> reports_inv s \<and> reviews_inv sha s \<and> approvals_inv sha s \<and> manifests_inv s"

lemmas inv_defs = report_inv_def reports_inv_def reviews_inv_def approvals_inv_def manifests_inv_def
  version_events_def report_approvals_def approval_justified_def manifest_justified_def
  snapshot_supports_def has_report_def has_version_def

lemma report_inv_other [simp]:
  "report_inv sha (s\<lparr>st_ticks := n\<rparr>) = report_inv sha s"
  "report_inv sha (s\<lparr>st_minted := n\<rparr>) = report_inv sha s"
  "report_inv sha (s\<lparr>st_packages := ps\<rparr>) = report_inv sha s"
  "report_inv sha (s\<lparr>st_artifacts := fs\<rparr>) = report_inv sha s"
  "report_inv sha (s\<lparr>st_audits := xs\<rparr>) = report_inv sha s"
  "report_inv sha (s\<lparr>st_capabilities := cs\<rparr>) = report_inv sha s"
  "report_inv sha (s\<lparr>st_custody := db\<rparr>) = report_inv sha s"
  by (simp_all add: inv_defs)

subsection \<open>What a write does\<close>

definition put_report :: "report_record \<Rightarrow> report_record list \<Rightarrow> report_record list" where
  "put_report r rs = List.map (\<lambda>q. if rr_report_id q = rr_report_id r then r else q) rs"

lemma update_report_Inr: "sqlite_update_report r s = Inr s' \<Longrightarrow>
    s' = s\<lparr>st_reports := put_report r (st_reports s)\<rparr>"
  by (auto simp: sqlite_update_report_def put_report_def)

lemma find_by_id: "distinct (List.map f xs) \<Longrightarrow> find (\<lambda>x. f x = i) xs = Some x \<longleftrightarrow> x \<in> set xs \<and> f x = i"
proof
  assume d: "distinct (List.map f xs)" and "x \<in> set xs \<and> f x = i"
  then have x: "x \<in> set xs" "f x = i" by simp_all
  then obtain y where y: "find (\<lambda>x. f x = i) xs = Some y" by (metis (mono_tags) find_None_iff not_Some_eq)
  then have "y \<in> set xs" "f y = i" by (auto simp: find_Some_iff)
  with x d have "y = x" by (auto simp: distinct_map inj_on_def)
  with y show "find (\<lambda>x. f x = i) xs = Some x" by simp
qed (auto simp: find_Some_iff)

lemma get_report_in: "sqlite_get_report s i = Some r \<Longrightarrow> r \<in> set (st_reports s) \<and> rr_report_id r = i"
  by (auto simp: sqlite_get_report_def find_Some_iff)

lemma get_version_in:
  "sqlite_get_report_version s i = Some v \<Longrightarrow> v \<in> set (st_versions s) \<and> rv_report_version_id v = i"
  by (auto simp: sqlite_get_report_version_def find_Some_iff)

lemma put_report_ids [simp]: "List.map rr_report_id (put_report r rs) = List.map rr_report_id rs"
  by (simp add: put_report_def comp_def cong: if_cong)

lemma has_report_iff: "has_report s i \<longleftrightarrow> i \<in> set (List.map rr_report_id (st_reports s))"
  by (auto simp: has_report_def list_ex_iff)

lemma has_version_iff: "has_version s i \<longleftrightarrow> i \<in> set (List.map rv_report_version_id (st_versions s))"
  by (auto simp: has_version_def list_ex_iff)

lemma reports_inv_put:
  assumes inv: "reports_inv s" and r0: "r0 \<in> set (st_reports s)"
    and r: "rr_report_id r = rr_report_id r0" "rr_latest_version_number r = rr_latest_version_number r0"
  shows "reports_inv (s\<lparr>st_reports := put_report r (st_reports s)\<rparr>)"
proof -
  have has: "has_report (s\<lparr>st_reports := put_report r (st_reports s)\<rparr>) i = has_report s i" for i
    unfolding has_report_iff by (simp del: set_map)
  have "q \<in> set (put_report r (st_reports s)) \<Longrightarrow> 0 \<le> rr_latest_version_number q \<and> List.map rv_version_number
      (filter (\<lambda>v. rv_report_id v = rr_report_id q) (st_versions s)) = [1..rr_latest_version_number q]" for q
    using inv r0 r by (auto simp: reports_inv_def put_report_def)
  with inv show ?thesis by (simp add: reports_inv_def has)
qed

lemma inv_put_report:
  assumes inv: "report_inv sha s" and g: "sqlite_get_report s i = Some r0"
    and r: "rr_report_id r = rr_report_id r0" "rr_latest_version_number r = rr_latest_version_number r0"
    and u: "sqlite_update_report r s = Inr s'"
  shows "report_inv sha s'"
proof -
  have "reports_inv s'"
    using reports_inv_put [of s r0 r] inv get_report_in [OF g] r update_report_Inr [OF u]
    by (simp add: report_inv_def)
  with inv show ?thesis
    unfolding update_report_Inr [OF u]
    by (simp add: report_inv_def reviews_inv_def approvals_inv_def manifests_inv_def version_events_def
        report_approvals_def approval_justified_def manifest_justified_def snapshot_supports_def
        has_version_def)
qed

lemma inv_save_report:
  assumes inv: "report_inv sha s" and z: "rr_latest_version_number r = 0"
    and w: "sqlite_save_report r s = Inr s'"
  shows "report_inv sha s'"
proof -
  from w have s': "s' = s\<lparr>st_reports := st_reports s @ [r]\<rparr>" and new: "\<not> has_report s (rr_report_id r)"
    by (auto simp: sqlite_save_report_def)
  have none: "filter (\<lambda>v. rv_report_id v = rr_report_id r) (st_versions s) = []"
    using inv new by (auto simp: report_inv_def reports_inv_def filter_empty_conv)
  have "reports_inv s'"
    using inv new none z unfolding s' report_inv_def reports_inv_def
    by (auto simp: has_report_iff image_iff)
  with inv show ?thesis
    unfolding s'
    by (simp add: report_inv_def reviews_inv_def approvals_inv_def manifests_inv_def version_events_def
        report_approvals_def approval_justified_def manifest_justified_def snapshot_supports_def
        has_version_def)
qed

lemma reports_inv_version:
  assumes inv: "reports_inv s" and g: "r0 \<in> set (st_reports s)"
    and r: "rr_report_id r = rr_report_id r0" "rr_latest_version_number r = rr_latest_version_number r0 + 1"
    and v: "rv_report_id v = rr_report_id r0" "rv_version_number v = rr_latest_version_number r"
      "\<not> has_version s (rv_report_version_id v)"
  shows "reports_inv (s\<lparr>st_versions := st_versions s @ [v], st_reports := put_report r (st_reports s)\<rparr>)"
    (is "reports_inv ?t")
proof -
  have has: "has_report ?t i = has_report s i" for i
    unfolding has_report_iff by (simp del: set_map)
  have num: "List.map rv_version_number (filter (\<lambda>w. rv_report_id w = rr_report_id q) (st_versions s)) =
      [1..rr_latest_version_number q]" if "q \<in> set (st_reports s)" for q
    using inv that by (simp add: reports_inv_def)
  have pos: "0 \<le> rr_latest_version_number r0" using inv g by (simp add: reports_inv_def)
  have "0 \<le> rr_latest_version_number q \<and>
      List.map rv_version_number (filter (\<lambda>w. rv_report_id w = rr_report_id q) (st_versions ?t)) =
      [1..rr_latest_version_number q]" if q: "q \<in> set (st_reports ?t)" for q
  proof (cases "rr_report_id q = rr_report_id r")
    case True
    with q have "q = r" using g r(1) by (auto simp: put_report_def)
    then show ?thesis
      using num [OF g] r v pos upto_rec2 [of 1 "rr_latest_version_number r"] by simp
  next
    case False
    with q have "q \<in> set (st_reports s)" by (auto simp: put_report_def)
    with num False r v inv show ?thesis by (simp add: reports_inv_def)
  qed
  with inv has v show ?thesis
    using g by (auto simp: reports_inv_def has_version_iff has_report_iff image_iff)
qed

lemma stored_version_simps [simp]:
  "rv_report_version_id (stored_report_version v) = rv_report_version_id v"
  "rv_report_id (stored_report_version v) = rv_report_id v"
  "rv_version_number (stored_report_version v) = rv_version_number v"
  "rv_content_fingerprint (stored_report_version v) = rv_content_fingerprint v"
  by (simp_all add: stored_report_version_def)

text \<open>Facts about the tables that a longer table keeps.\<close>

lemma completed_append: "completed_at v es n \<Longrightarrow> completed_at v (es @ fs) n"
  by (simp add: completed_at_def nth_append)

lemma justified_mono:
  assumes "approval_justified s a"
    and "set (st_versions s) \<subseteq> set (st_versions t)" "set (st_snapshots s) \<subseteq> set (st_snapshots t)"
    and "\<And>i. \<exists>fs. version_events t i = version_events s i @ fs"
  shows "approval_justified t a"
proof -
  from assms(1) obtain v where v: "v \<in> set (st_versions s)" "rv_report_version_id v = ra_report_version_id a"
    "rv_report_id v = ra_report_id a" "rv_content_fingerprint v = ra_content_fingerprint a"
    and app: "ra_decision a = report_approval_decision_value report_approval_decision.APPROVED \<longrightarrow>
        snapshot_supports s a \<and> (\<exists>n. completed_at v (version_events s (rv_report_version_id v)) n)"
    unfolding approval_justified_def by blast
  obtain fs where fs: "version_events t (rv_report_version_id v) = version_events s (rv_report_version_id v) @ fs"
    using assms(4) by blast
  have "snapshot_supports s a \<Longrightarrow> snapshot_supports t a"
    using assms(3) by (auto simp: snapshot_supports_def)
  with v app assms(2) fs show ?thesis
    unfolding approval_justified_def by (metis completed_append subsetD)
qed

lemma manifest_justified_mono:
  "manifest_justified as m \<Longrightarrow> set as \<subseteq> set bs \<Longrightarrow> manifest_justified bs m"
  by (auto simp: manifest_justified_def)

lemma inv_save_version:
  assumes inv: "report_inv sha s" and g: "sqlite_get_report s i = Some r0"
    and r: "rr_report_id r = rr_report_id r0" "rr_latest_version_number r = rr_latest_version_number r0 + 1"
    and v: "rv_report_id v = rr_report_id r0" "rv_version_number v = rr_latest_version_number r"
    and w: "sqlite_save_report_version v r s = Inr s'"
  shows "report_inv sha s'"
proof -
  let ?v = "stored_report_version v"
  from w have u: "sqlite_update_report r (s\<lparr>st_versions := st_versions s @ [?v]\<rparr>) = Inr s'"
    and new: "\<not> has_version s (rv_report_version_id v)"
    by (auto simp: sqlite_save_report_version_def)
  have s': "s' = s\<lparr>st_versions := st_versions s @ [?v], st_reports := put_report r (st_reports s)\<rparr>"
    using update_report_Inr [OF u] by simp
  have reps: "reports_inv s'"
    using reports_inv_version [of s r0 r ?v] inv get_report_in [OF g] r v new
    by (simp add: s' report_inv_def)
  have ev: "version_events s' j = version_events s j" for j by (simp add: s' version_events_def)
  have none: "version_events s (rv_report_version_id v) = []"
    using inv new by (auto simp: report_inv_def reviews_inv_def version_events_def filter_empty_conv)
  have tabs: "st_reviews s' = st_reviews s" "set (st_versions s') = insert ?v (set (st_versions s))"
    by (simp_all add: s')
  have "has_version s j \<Longrightarrow> has_version s' j" for j by (auto simp: has_version_iff tabs)
  with inv none have revs: "reviews_inv sha s'"
    by (auto simp: report_inv_def reviews_inv_def ev tabs)
  have apps: "approvals_inv sha s'"
  proof -
    have "approval_justified s' a" if "a \<in> set (st_approvals s)" for a
      by (rule justified_mono [of s]) (use inv that ev in \<open>auto simp: report_inv_def approvals_inv_def s'\<close>)
    with inv show ?thesis by (auto simp: report_inv_def approvals_inv_def report_approvals_def s')
  qed
  have "manifests_inv s'"
    using inv by (auto simp: report_inv_def manifests_inv_def s' intro: manifest_justified_mono)
  with reps revs apps show ?thesis by (simp add: report_inv_def)
qed

lemma version_unique: "reports_inv s \<Longrightarrow> v \<in> set (st_versions s) \<Longrightarrow> w \<in> set (st_versions s) \<Longrightarrow>
    rv_report_version_id v = rv_report_version_id w \<Longrightarrow> v = w"
  by (auto simp: reports_inv_def distinct_map inj_on_def)

lemma inv_append_review:
  assumes inv: "report_inv sha s" and v: "v \<in> set (st_versions s)"
    and g: "sqlite_get_report s i = Some r0"
    and r: "rr_report_id r = rr_report_id r0" "rr_latest_version_number r = rr_latest_version_number r0"
    and e: "rw_report_version_id e = rv_report_version_id v"
      "linked_reviews (version_events s (rv_report_version_id v) @ [e])" "review_hash_ok sha e"
      "rw_action e = report_review_action_value MARK_REVIEW_COMPLETE \<longrightarrow>
         completed_at v (version_events s (rv_report_version_id v) @ [e])
           (length (version_events s (rv_report_version_id v)))"
    and w: "sqlite_append_review_event e r s = Inr s'"
  shows "report_inv sha s'"
proof -
  let ?t = "s\<lparr>st_reviews := st_reviews s @ [e]\<rparr>"
  from w have u: "sqlite_update_report r ?t = Inr s'" by (auto simp: sqlite_append_review_event_def)
  have ev: "version_events ?t j = version_events s j @ (if j = rv_report_version_id v then [e] else [])" for j
    by (simp add: version_events_def e(1))
  have "reports_inv ?t" using inv by (simp add: report_inv_def reports_inv_def has_report_def)
  moreover have "reviews_inv sha ?t"
  proof -
    have "completed_at w (version_events ?t (rv_report_version_id w)) n"
      if w: "w \<in> set (st_versions s)" and n: "n < length (version_events ?t (rv_report_version_id w))"
        and a: "rw_action (version_events ?t (rv_report_version_id w) ! n) =
          report_review_action_value MARK_REVIEW_COMPLETE" for w n
    proof (cases "rv_report_version_id w = rv_report_version_id v")
      case True
      then have "w = v" using version_unique inv w v by (auto simp: report_inv_def)
      let ?es = "version_events s (rv_report_version_id v)"
      show ?thesis
      proof (cases "n = length ?es")
        case True
        with a e(4) \<open>w = v\<close> show ?thesis by (simp add: ev nth_append)
      next
        case False
        with n \<open>w = v\<close> have "n < length ?es" by (simp add: ev)
        with a inv v \<open>w = v\<close> have "completed_at v ?es n"
          by (simp add: ev nth_append report_inv_def reviews_inv_def)
        with \<open>w = v\<close> show ?thesis by (simp add: ev completed_append)
      qed
    next
      case False
      with n a inv w show ?thesis by (simp add: ev report_inv_def reviews_inv_def)
    qed
    with inv e v show ?thesis
      by (auto simp: report_inv_def reviews_inv_def ev has_version_iff)
  qed
  moreover have "approvals_inv sha ?t"
  proof -
    have "approval_justified ?t a" if "a \<in> set (st_approvals s)" for a
      by (rule justified_mono [of s]) (use inv that ev in \<open>auto simp: report_inv_def approvals_inv_def\<close>)
    with inv show ?thesis by (auto simp: report_inv_def approvals_inv_def report_approvals_def)
  qed
  moreover have "manifests_inv ?t"
    using inv by (auto simp: report_inv_def manifests_inv_def intro: manifest_justified_mono)
  ultimately have "report_inv sha ?t" by (simp add: report_inv_def)
  from inv_put_report [OF this _ r u, of i] g show ?thesis by (simp add: sqlite_get_report_def)
qed

lemma inv_append_approval:
  assumes inv: "report_inv sha s" and g: "sqlite_get_report s i = Some r0"
    and r: "rr_report_id r = rr_report_id r0" "rr_latest_version_number r = rr_latest_version_number r0"
    and a: "linked_approvals (report_approvals s (ra_report_id a) @ [a])" "approval_hash_ok sha a"
      "approval_justified s a"
    and w: "sqlite_append_approval a r s = Inr s'"
  shows "report_inv sha s'"
proof -
  let ?t = "s\<lparr>st_approvals := st_approvals s @ [a]\<rparr>"
  from w have u: "sqlite_update_report r ?t = Inr s'" by (auto simp: sqlite_append_approval_def)
  have ap: "report_approvals ?t j = report_approvals s j @ (if j = ra_report_id a then [a] else [])" for j
    by (simp add: report_approvals_def)
  have jm: "approval_justified s b \<Longrightarrow> approval_justified ?t b" for b
    by (rule justified_mono [of s]) (auto simp: version_events_def)
  have "reports_inv ?t" "reviews_inv sha ?t"
    using inv by (simp_all add: report_inv_def reports_inv_def reviews_inv_def has_report_def
        has_version_def version_events_def)
  moreover have "approvals_inv sha ?t"
    using inv a jm by (auto simp: report_inv_def approvals_inv_def ap)
  moreover have "manifests_inv ?t"
    using inv by (auto simp: report_inv_def manifests_inv_def intro: manifest_justified_mono)
  ultimately have "report_inv sha ?t" by (simp add: report_inv_def)
  from inv_put_report [OF this _ r u, of i] g show ?thesis by (simp add: sqlite_get_report_def)
qed

lemma inv_save_snapshot:
  assumes inv: "report_inv sha s" and w: "sqlite_save_custody_snapshot c s = Inr s'"
  shows "report_inv sha s'"
proof -
  from w have s': "s' = s\<lparr>st_snapshots := st_snapshots s @ [stored_custody_snapshot c]\<rparr>"
    by (auto simp: sqlite_save_custody_snapshot_def)
  have "approval_justified s' a" if "approval_justified s a" for a
    by (rule justified_mono [of s]) (use that in \<open>auto simp: s' version_events_def\<close>)
  with inv show ?thesis
    by (simp add: report_inv_def reports_inv_def reviews_inv_def approvals_inv_def manifests_inv_def
        manifest_justified_def has_report_def has_version_def version_events_def report_approvals_def s')
qed

lemma inv_save_manifest:
  assumes inv: "report_inv sha s" and g: "sqlite_get_report s i = Some r0"
    and r: "rr_report_id r = rr_report_id r0" "rr_latest_version_number r = rr_latest_version_number r0"
    and m: "manifest_justified (st_approvals s) m" and w: "sqlite_save_export_manifest m r s = Inr s'"
  shows "report_inv sha s'"
proof -
  let ?t = "s\<lparr>st_manifests := st_manifests s @ [stored_export_manifest m]\<rparr>"
  from w have u: "sqlite_update_report r ?t = Inr s'" by (auto simp: sqlite_save_export_manifest_def)
  have "report_inv sha ?t"
    using inv m by (auto simp: inv_defs stored_export_manifest_def)
  from inv_put_report [OF this _ r u, of i] g show ?thesis by (simp add: sqlite_get_report_def)
qed

lemma inv_update_manifest:
  assumes inv: "report_inv sha s" and m: "manifest_justified (st_approvals s) m"
    and w: "sqlite_update_export_manifest m s = Inr s'"
  shows "report_inv sha s'"
proof -
  from w have s': "s' = s\<lparr>st_manifests := List.map
      (\<lambda>w. if xm_export_manifest_id w = xm_export_manifest_id m then stored_export_manifest m else w)
      (st_manifests s)\<rparr>" by (auto simp: sqlite_update_export_manifest_def)
  have "manifest_justified (st_approvals s) (stored_export_manifest m)"
    using m by (simp add: manifest_justified_def stored_export_manifest_def)
  then have "manifests_inv s'"
    using inv by (auto simp: report_inv_def manifests_inv_def manifest_justified_def s')
  with inv show ?thesis
    by (simp add: report_inv_def reports_inv_def reviews_inv_def approvals_inv_def approval_justified_def
        snapshot_supports_def has_report_def has_version_def version_events_def report_approvals_def s')
qed

end
