(* ===== verification/Report_Runs.thy ===== *)
theory Report_Runs
  imports Report_Facts
begin

section \<open>Runs of the report service\<close>

text \<open>
  A run is any sequence of calls of the service, each with an environment of its own but the same
  hash, interleaved with appends to the custody ledger.  Every call keeps \<open>report_inv\<close>, also one
  that raises.
\<close>

subsection \<open>Reading the state\<close>

lemma query_frame [simp]:
  "sqlite_get_report (s\<lparr>st_ticks := n\<rparr>) = sqlite_get_report s"
  "sqlite_get_report (s\<lparr>st_minted := n\<rparr>) = sqlite_get_report s"
  "version_events (s\<lparr>st_ticks := n\<rparr>) = version_events s"
  "version_events (s\<lparr>st_minted := n\<rparr>) = version_events s"
  "report_approvals (s\<lparr>st_ticks := n\<rparr>) = report_approvals s"
  "report_approvals (s\<lparr>st_minted := n\<rparr>) = report_approvals s"
  "approval_justified (s\<lparr>st_ticks := n\<rparr>) = approval_justified s"
  "approval_justified (s\<lparr>st_minted := n\<rparr>) = approval_justified s"
  by (simp_all add: fun_eq_iff sqlite_get_report_def version_events_def report_approvals_def
      approval_justified_def snapshot_supports_def)

lemma wp_read [simp]:
  "wp I (read_clock env) Qt s = Qt (rx_now env (st_ticks s)) (s\<lparr>st_ticks := Suc (st_ticks s)\<rparr>)"
  "wp I (mint_id env) Qi s = Qi (rx_new_id env (st_minted s)) (s\<lparr>st_minted := Suc (st_minted s)\<rparr>)"
  "wp I (get_report i) Qr s = (case sqlite_get_report s i of None \<Rightarrow> I s | Some r \<Rightarrow> Qr r s)"
  "wp I (get_version i) Qv s =
     (case sqlite_get_report_version s i of None \<Rightarrow> I s | Some v \<Rightarrow> Qv (with_states s v) s)"
  by (simp_all add: wp_def read_clock_def mint_id_def get_report_def get_version_def svc_read_def
      opt_res_def split: option.splits)

lemma with_states_simps [simp]:
  "rv_report_version_id (with_states s v) = rv_report_version_id v"
  "rv_report_id (with_states s v) = rv_report_id v" "rv_case_id (with_states s v) = rv_case_id v"
  "rv_content_fingerprint (with_states s v) = rv_content_fingerprint v"
  "rv_sections (with_states s v) = rv_sections v" "rv_evidence_ids (with_states s v) = rv_evidence_ids v"
  "rv_review_state (with_states s v) = review_state s (rv_report_version_id v)"
  by (simp_all add: with_states_def)

lemma missing_with_states [simp]:
  "missing_required_section_reviews (with_states s v) es = missing_required_section_reviews v es"
  by (simp add: missing_required_section_reviews_def required_sections_def)

lemma list_reviews_inv: "report_inv sha s \<Longrightarrow> sqlite_list_review_events s i = version_events s i"
proof -
  assume "report_inv sha s"
  then have "linked_reviews (version_events s i)" by (simp add: report_inv_def reviews_inv_def)
  then show ?thesis
    unfolding sqlite_list_review_events_def version_events_def [symmetric] by (rule linked_sorted)
qed

lemma list_approvals_inv: "report_inv sha s \<Longrightarrow> sqlite_list_approvals s (Some i) None = report_approvals s i"
proof -
  assume "report_inv sha s"
  then have l: "linked_approvals (report_approvals s i)" by (simp add: report_inv_def approvals_inv_def)
  have "sqlite_list_approvals s (Some i) None =
      sort_key (\<lambda>a. (ra_approval_revision a, ra_approval_id a)) (report_approvals s i)"
    by (simp add: sqlite_list_approvals_def report_approvals_def)
  with linked_sorted [OF l] show ?thesis by simp
qed

subsection \<open>Reports and versions\<close>

text \<open>The facts about writes, with the write as their major premise.\<close>

lemma write_invE:
  "sqlite_save_report r s = Inr s' \<Longrightarrow> report_inv sha s \<Longrightarrow> rr_latest_version_number r = 0 \<Longrightarrow>
     report_inv sha s'"
  "sqlite_update_report r s = Inr s' \<Longrightarrow> report_inv sha s \<Longrightarrow> sqlite_get_report s i = Some r0 \<Longrightarrow>
     rr_report_id r = rr_report_id r0 \<Longrightarrow> rr_latest_version_number r = rr_latest_version_number r0 \<Longrightarrow>
     report_inv sha s'"
  "sqlite_save_report_version v r s = Inr s' \<Longrightarrow> report_inv sha s \<Longrightarrow> sqlite_get_report s i = Some r0 \<Longrightarrow>
     rr_report_id r = rr_report_id r0 \<Longrightarrow>
     rr_latest_version_number r = rr_latest_version_number r0 + 1 \<Longrightarrow>
     rv_report_id v = rr_report_id r0 \<Longrightarrow> rv_version_number v = rr_latest_version_number r \<Longrightarrow>
     report_inv sha s'"
  "sqlite_save_custody_snapshot c s = Inr s' \<Longrightarrow> report_inv sha s \<Longrightarrow> report_inv sha s'"
  by (blast intro: inv_save_report, blast intro: inv_put_report, blast intro: inv_save_version,
      blast intro: inv_save_snapshot)

lemma wp_create_report:
  "report_inv sha s \<Longrightarrow> wp (report_inv sha)
     (create_report env c t u d ty l z) (\<lambda>_. report_inv sha) s"
  by (auto simp: create_report_def require_case_row_def Let_def split: sum.splits option.splits
      elim: write_invE)

lemma wp_archive_report:
  "report_inv sha s \<Longrightarrow> wp (report_inv sha) (archive_report env i u x) (\<lambda>_. report_inv sha) s"
  by (auto simp: archive_report_def Let_def split: sum.splits option.splits elim: write_invE)

lemma wp_set_active_version:
  "report_inv sha s \<Longrightarrow> wp (report_inv sha) (set_active_version env i j u x) (\<lambda>_. report_inv sha) s"
  by (auto simp: set_active_version_def Let_def split: sum.splits option.splits elim: write_invE)

lemma version_content_report:
  "version_content env s report q = Inr (v, cs) \<Longrightarrow>
     rv_report_id v = rr_report_id report \<and> rv_case_id v = rr_case_id report"
  by (auto simp: version_content_def Let_def split: if_splits)

lemma wp_create_version:
  "report_inv sha s \<Longrightarrow> wp (report_inv sha) (create_version env q) (\<lambda>_. report_inv sha) s"
  by (auto simp: create_version_def previous_version_def write_version_def Let_def
      split: sum.splits option.splits prod.splits dest!: version_content_report elim: write_invE)

lemma wp_clone_version:
  "report_inv sha s \<Longrightarrow> wp (report_inv sha) (clone_version env i u x) (\<lambda>_. report_inv sha) s"
  by (simp add: clone_version_def wp_create_version split: option.splits)

lemma wp_ingest_ai_draft:
  "report_inv sha s \<Longrightarrow> wp (report_inv sha) (ingest_ai_draft env d i u) (\<lambda>_. report_inv sha) s"
proof (cases i)
  case None
  show "report_inv sha s \<Longrightarrow> wp (report_inv sha) (ingest_ai_draft env d i u) (\<lambda>_. report_inv sha) s"
    unfolding ingest_ai_draft_def None
    by (auto split: sum.splits prod.splits intro!: wp_mono [OF wp_create_report] wp_create_version)
qed (auto simp: ingest_ai_draft_def wp_create_version split: sum.splits)

subsection \<open>Review\<close>

lemma missing_sections:
  "rv_sections v = rv_sections w \<Longrightarrow>
     missing_required_section_reviews v es = missing_required_section_reviews w es"
  by (simp add: missing_required_section_reviews_def required_sections_def)

lemma event_payload_hash [simp]: "event_payload (e\<lparr>rw_event_hash := h\<rparr>) t = event_payload e t"
  by (simp add: event_payload_def)

lemma wp_write_review_event:
  assumes inv: "report_inv sha s" and sha: "rx_sha env = sha" and w: "w \<in> set (st_versions s)"
    and v: "rv_report_version_id v = rv_report_version_id w" "rv_sections v = rv_sections w"
    and ok: "review_guard v (version_events s (rv_report_version_id w)) q changes = Inr ()"
    and d: "rw_report_version_id draft = rv_report_version_id w"
      "rw_action draft = report_review_action_value (wq_action q)"
  shows "wp (report_inv sha) (write_review_event env v (version_events s (rv_report_version_id w)) q draft)
    (\<lambda>_. report_inv sha) s"
proof -
  let ?es = "version_events s (rv_report_version_id w)"
  have l: "linked_reviews ?es" using inv by (simp add: report_inv_def reviews_inv_def)
  have cmp: "completed_at w (?es @ [e]) (length ?es)"
    if "rw_action e = report_review_action_value MARK_REVIEW_COMPLETE" "rw_action e = rw_action draft" for e
  proof -
    have "wq_action q = MARK_REVIEW_COMPLETE"
      using that d(2) report_review_action_enum.val_inj [of "wq_action q" MARK_REVIEW_COMPLETE] by simp
    with ok that(1) show ?thesis
      by (auto simp: completed_at_def review_guard_def Let_def missing_sections [OF v(2)] split: if_splits)
  qed
  have ne: "report_review_action_value (wq_action q) = ''MARK_REVIEW_COMPLETE'' \<Longrightarrow> ?es \<noteq> []"
    using cmp [of "draft"] d(2) by (auto simp: completed_at_def review_status_from_events_def)
  show ?thesis
  proof (cases "report_review_action_value (wq_action q) = ''MARK_REVIEW_COMPLETE''")
    case True
    from ne [OF this] inv w d l sha show ?thesis
      unfolding write_review_event_def Let_def
      by (auto simp: linked_append linked_last review_hash_ok_def v(1) split: sum.splits option.splits
          elim!: inv_append_review [rotated -1] intro!: cmp)
  next
    case False
    from this inv w d l sha show ?thesis
      unfolding write_review_event_def Let_def
      by (auto simp: linked_append linked_last review_hash_ok_def v(1) split: sum.splits option.splits
          elim!: inv_append_review [rotated -1])
  qed
qed

lemma wp_append_review_event:
  assumes inv: "report_inv sha s" and sha: "rx_sha env = sha"
  shows "wp (report_inv sha) (append_review_event env q) (\<lambda>_. report_inv sha) s"
  unfolding append_review_event_def
  by (auto simp: inv list_reviews_inv [OF inv] sha split: sum.splits option.splits dest!: get_version_in
      intro!: wp_write_review_event [OF inv])

subsection \<open>Custody snapshots and approvals\<close>

lemma custody_snapshot_content_version:
  "custody_snapshot_content env v evs u s = Inr c \<Longrightarrow> cn_report_version_id c = rv_report_version_id v"
  by (auto simp: custody_snapshot_content_def Let_def split: if_splits)

lemma snapshot_by_id: "sqlite_get_custody_snapshot s i = Some c \<Longrightarrow>
    c \<in> set (st_snapshots s) \<and> cn_custody_snapshot_id c = i"
  by (auto simp: sqlite_get_custody_snapshot_def find_Some_iff)

lemma snapshot_by_print: "sqlite_snapshot_by_fingerprint s fp = Some c \<Longrightarrow> c \<in> set (st_snapshots s)"
  by (auto simp: sqlite_snapshot_by_fingerprint_def find_Some_iff)

lemma stored_snapshot_simps [simp]:
  "cn_custody_snapshot_id (stored_custody_snapshot c) = cn_custody_snapshot_id c"
  "cn_report_version_id (stored_custody_snapshot c) = cn_report_version_id c"
  "cn_verification_status (stored_custody_snapshot c) = cn_verification_status c"
  by (simp_all add: stored_custody_snapshot_def)

lemma save_snapshot_in: "sqlite_save_custody_snapshot c s = Inr s' \<Longrightarrow>
    s' = s\<lparr>st_snapshots := st_snapshots s @ [stored_custody_snapshot c]\<rparr>"
  by (auto simp: sqlite_save_custody_snapshot_def)

text \<open>What the state after a snapshot was taken shares with the state before.\<close>

definition snapshot_taken :: "report_state \<Rightarrow> custody_snapshot \<Rightarrow> report_state \<Rightarrow> bool" where
  "snapshot_taken s c s' \<longleftrightarrow> st_versions s' = st_versions s \<and> st_reviews s' = st_reviews s \<and>
     st_reports s' = st_reports s \<and> st_approvals s' = st_approvals s \<and>
     (\<exists>d \<in> set (st_snapshots s'). cn_custody_snapshot_id d = cn_custody_snapshot_id c \<and>
        cn_report_version_id d = cn_report_version_id c \<and>
        cn_verification_status d = cn_verification_status c)"

lemma wp_create_custody_snapshot:
  assumes inv: "report_inv sha s"
  shows "wp (report_inv sha) (create_custody_snapshot env i u evs)
    (\<lambda>c s'. report_inv sha s' \<and> snapshot_taken s c s') s"
  unfolding create_custody_snapshot_def Let_def
  by (auto simp: inv snapshot_taken_def split: sum.splits option.splits
      dest: snapshot_by_print save_snapshot_in elim: write_invE)

lemma wp_get_custody_snapshot:
  assumes inv: "report_inv sha s"
  shows "wp (report_inv sha) (get_custody_snapshot i)
    (\<lambda>c s'. report_inv sha s' \<and> snapshot_taken s c s') s"
  by (auto simp: inv get_custody_snapshot_def snapshot_taken_def opt_res_def split: option.splits
      dest: snapshot_by_id)

lemma approval_payload_hash [simp]: "approval_payload (a\<lparr>ra_approval_hash := h\<rparr>) t = approval_payload a t"
  by (simp add: approval_payload_def)

lemma wp_append_approval:
  assumes inv: "report_inv sha s" and sha: "rx_sha env = sha" and w: "w \<in> set (st_versions s)"
    and v: "rv_report_version_id v = rv_report_version_id w" "rv_report_id v = rv_report_id w"
      "rv_content_fingerprint v = rv_content_fingerprint w"
    and just: "d = report_approval_decision.APPROVED \<Longrightarrow>
      (\<exists>c \<in> set (st_snapshots s). sid = Some (cn_custody_snapshot_id c) \<and>
         cn_report_version_id c = rv_report_version_id w \<and>
         cn_verification_status c = custody_snapshot_verification_status_value VERIFIED) \<and>
      (\<exists>n. completed_at w (version_events s (rv_report_version_id w)) n)"
  shows "wp (report_inv sha) (append_approval env v d u x sid e) (\<lambda>_. report_inv sha) s"
proof -
  have l: "linked_approvals (report_approvals s i)" for i
    using inv by (simp add: report_inv_def approvals_inv_def)
  have j: "approval_justified s a" if a: "ra_report_version_id a = rv_report_version_id v"
      "ra_report_id a = rv_report_id v" "ra_content_fingerprint a = rv_content_fingerprint v"
      "ra_decision a = report_approval_decision_value d" "ra_custody_snapshot_id a = sid" for a
  proof -
    have "ra_decision a = report_approval_decision_value report_approval_decision.APPROVED \<Longrightarrow>
        d = report_approval_decision.APPROVED"
      using a(4) report_approval_decision_enum.val_inj [of d report_approval_decision.APPROVED] by simp
    with just w v a show ?thesis
      unfolding approval_justified_def snapshot_supports_def by (intro bexI [of _ w]) auto
  qed
  show ?thesis
    using inv l sha unfolding append_approval_def Let_def
    by (auto simp: list_approvals_inv [OF inv] linked_append linked_last [OF l] approval_hash_ok_def approval_payload_def
        split: sum.splits option.splits elim!: inv_append_approval [rotated -1] intro!: j)
qed

lemma review_complete:
  assumes inv: "report_inv sha s" and w: "w \<in> set (st_versions s)"
    and c: "review_status_from_events (version_events s (rv_report_version_id w)) = ''REVIEW_COMPLETE''"
  shows "\<exists>n. completed_at w (version_events s (rv_report_version_id w)) n"
proof -
  let ?es = "version_events s (rv_report_version_id w)"
  from c have "?es \<noteq> []" "rw_action (last ?es) = report_review_action_value MARK_REVIEW_COMPLETE"
    by (auto simp: review_status_from_events_def Let_def split: if_splits)
  then have "completed_at w ?es (length ?es - 1)"
    using inv w by (auto simp: report_inv_def reviews_inv_def last_conv_nth)
  then show ?thesis by blast
qed

lemma approved_state:
  assumes inv: "report_inv sha s" and w: "w \<in> set (st_versions s)"
    and c: "dget (review_state s (rv_report_version_id w)) ''status'' = Some (PStr ''REVIEW_COMPLETE'')"
    and k: "snapshot_taken s c s'" "cn_report_version_id c = rv_report_version_id w"
      "cn_verification_status c = custody_snapshot_verification_status_value VERIFIED"
  shows "w \<in> set (st_versions s')"
    "\<exists>d \<in> set (st_snapshots s'). Some (cn_custody_snapshot_id c) = Some (cn_custody_snapshot_id d) \<and>
       cn_report_version_id d = rv_report_version_id w \<and>
       cn_verification_status d = custody_snapshot_verification_status_value VERIFIED"
    "\<exists>n. completed_at w (version_events s' (rv_report_version_id w)) n"
proof -
  show "w \<in> set (st_versions s')" using w k(1) by (simp add: snapshot_taken_def)
  show "\<exists>d \<in> set (st_snapshots s'). Some (cn_custody_snapshot_id c) = Some (cn_custody_snapshot_id d) \<and>
       cn_report_version_id d = rv_report_version_id w \<and>
       cn_verification_status d = custody_snapshot_verification_status_value VERIFIED"
    using k unfolding snapshot_taken_def by metis
  have "version_events s' = version_events s"
    using k(1) by (simp add: snapshot_taken_def version_events_def fun_eq_iff)
  moreover have "review_status_from_events (version_events s (rv_report_version_id w)) = ''REVIEW_COMPLETE''"
    using c by (simp add: review_state_def Let_def list_reviews_inv [OF inv])
  ultimately show "\<exists>n. completed_at w (version_events s' (rv_report_version_id w)) n"
    using review_complete [OF inv w] by simp
qed

lemma wp_approve:
  assumes inv: "report_inv sha s" and sha: "rx_sha env = sha"
  shows "wp (report_inv sha) (approve env i u x sid e1 e2) (\<lambda>_. report_inv sha) s"
proof -
  have main: "wp (report_inv sha) (append_approval env (with_states s v) report_approval_decision.APPROVED a r
      (Some (cn_custody_snapshot_id c)) e2) (\<lambda>_. report_inv sha) s'"
    if "report_inv sha s'" "v \<in> set (st_versions s)"
      "dget (review_state s (rv_report_version_id v)) ''status'' = Some (PStr ''REVIEW_COMPLETE'')"
      "snapshot_taken s c s'" "cn_report_version_id c = rv_report_version_id v"
      "cn_verification_status c = custody_snapshot_verification_status_value VERIFIED" for s' v a r c
    using approved_state [OF inv that(2-6)]
    by (intro wp_append_approval [OF that(1) sha]) auto
  show ?thesis
    unfolding approve_def
    by (auto simp: inv split: sum.splits option.splits dest!: get_version_in
        intro!: wp_mono [OF wp_create_custody_snapshot [OF inv]] wp_mono [OF wp_get_custody_snapshot [OF inv]] main)
qed

lemma wp_reject_version:
  "report_inv sha s \<Longrightarrow> rx_sha env = sha \<Longrightarrow>
     wp (report_inv sha) (reject_version env i u x e) (\<lambda>_. report_inv sha) s"
  unfolding reject_version_def
  by (auto split: sum.splits option.splits dest!: get_version_in intro!: wp_append_approval)

lemma wp_revoke_approval:
  "report_inv sha s \<Longrightarrow> rx_sha env = sha \<Longrightarrow>
     wp (report_inv sha) (revoke_approval env i u x e) (\<lambda>_. report_inv sha) s"
  unfolding revoke_approval_def
  by (auto split: sum.splits option.splits if_splits dest!: get_version_in intro!: wp_append_approval)

end
