(* ===== verification/Report_Export_Runs.thy ===== *)
theory Report_Export_Runs
  imports Report_Runs
begin

section \<open>Runs of the export operations\<close>

text \<open>
  Packages, manifests, results and the rendering with its exception handler keep \<open>report_inv\<close>.
  They never decide, so the approvals they start with are the approvals they end with:
  \<open>export_inv\<close> carries both facts through the handler.
\<close>

definition export_inv :: "(string \<Rightarrow> string) \<Rightarrow> approval_record list \<Rightarrow> report_state \<Rightarrow> bool" where
  "export_inv sha A s \<longleftrightarrow> report_inv sha s \<and> st_approvals s = A"

lemma export_inv_other [simp]:
  "export_inv sha A (s\<lparr>st_ticks := n\<rparr>) = export_inv sha A s"
  "export_inv sha A (s\<lparr>st_minted := n\<rparr>) = export_inv sha A s"
  "export_inv sha A (s\<lparr>st_packages := ps\<rparr>) = export_inv sha A s"
  "export_inv sha A (s\<lparr>st_audits := xs\<rparr>) = export_inv sha A s"
  "export_inv sha A (s\<lparr>st_capabilities := cs\<rparr>) = export_inv sha A s"
  by (simp_all add: export_inv_def)

subsection \<open>Writes\<close>

lemma save_package_inv: "sqlite_save_render_package p s = Inr s' \<Longrightarrow>
    export_inv sha A s \<Longrightarrow> export_inv sha A s'"
  by (auto simp: sqlite_save_render_package_def)

lemma save_capability_inv: "sqlite_save_capability c s = Inr s' \<Longrightarrow>
    export_inv sha A s \<Longrightarrow> export_inv sha A s'"
  by (auto simp: sqlite_save_capability_def)

lemma save_capability_frame: "sqlite_save_capability c s = Inr s' \<Longrightarrow>
    \<exists>cs. s' = s\<lparr>st_capabilities := cs\<rparr>"
  by (auto simp: sqlite_save_capability_def)

lemma append_audit_inv: "sqlite_append_export_audit e s = Inr s' \<Longrightarrow>
    export_inv sha A s \<Longrightarrow> export_inv sha A s'"
  by (auto simp: sqlite_append_export_audit_def)

lemma save_manifest_inv:
  "sqlite_save_export_manifest m r s = Inr s' \<Longrightarrow> export_inv sha A s \<Longrightarrow>
     sqlite_get_report s i = Some r0 \<Longrightarrow> rr_report_id r = rr_report_id r0 \<Longrightarrow>
     rr_latest_version_number r = rr_latest_version_number r0 \<Longrightarrow> manifest_justified A m \<Longrightarrow>
     export_inv sha A s'"
  by (auto simp: export_inv_def sqlite_save_export_manifest_def sqlite_update_report_def
      intro!: inv_save_manifest [of sha s i r0 r m])

lemma update_manifest_inv:
  "sqlite_update_export_manifest m s = Inr s' \<Longrightarrow> export_inv sha A s \<Longrightarrow>
     manifest_justified A m \<Longrightarrow> export_inv sha A s'"
  by (auto simp: export_inv_def sqlite_update_export_manifest_def intro!: inv_update_manifest [of sha s m])

lemma save_artifact_inv:
  "sqlite_save_rendered_artifact a m r s = Inr s' \<Longrightarrow> export_inv sha A s \<Longrightarrow>
     sqlite_get_report s i = Some r0 \<Longrightarrow> rr_report_id r = rr_report_id r0 \<Longrightarrow>
     rr_latest_version_number r = rr_latest_version_number r0 \<Longrightarrow> manifest_justified A m \<Longrightarrow>
     export_inv sha A s'"
proof -
  assume w: "sqlite_save_rendered_artifact a m r s = Inr s'" and inv: "export_inv sha A s"
    and g: "sqlite_get_report s i = Some r0" and r: "rr_report_id r = rr_report_id r0"
      "rr_latest_version_number r = rr_latest_version_number r0" and m: "manifest_justified A m"
  let ?t = "s\<lparr>st_artifacts := st_artifacts s @ [stored_rendered_artifact a]\<rparr>"
  from w obtain t where t: "sqlite_update_export_manifest m ?t = Inr t" and u: "sqlite_update_report r t = Inr s'"
    by (auto simp: sqlite_save_rendered_artifact_def)
  have "export_inv sha A t" using inv m by (intro update_manifest_inv [OF t]) (simp_all add: export_inv_def)
  moreover have "sqlite_get_report t i = Some r0"
    using g t by (auto simp: sqlite_update_export_manifest_def sqlite_get_report_def)
  ultimately show ?thesis
    using r u inv_put_report [of sha t i r0 r s'] by (auto simp: export_inv_def dest: update_report_Inr)
qed

lemmas export_writes = save_package_inv save_capability_inv append_audit_inv save_manifest_inv
  update_manifest_inv save_artifact_inv

lemma manifest_justified_status [simp]:
  "manifest_justified A (m\<lparr>xm_status := t, xm_warnings := ws\<rparr>) = manifest_justified A m"
  "manifest_justified A (m\<lparr>xm_status := t\<rparr>) = manifest_justified A m"
  by (simp_all add: manifest_justified_def)

subsection \<open>Reads\<close>

lemma wp_require_approved:
  "wp I (require_approved_version v) Q s \<longleftrightarrow>
     (case latest_approval s (rv_report_version_id v) of
        Some a \<Rightarrow> if ra_decision a = report_approval_decision_value report_approval_decision.APPROVED \<and>
            ra_content_fingerprint a = rv_content_fingerprint v then Q a s else I s
      | None \<Rightarrow> I s)"
  by (auto simp: require_approved_version_def split: option.splits sum.splits)

lemma latest_approval_in: "latest_approval s i = Some a \<Longrightarrow>
    a \<in> set (st_approvals s) \<and> ra_report_version_id a = i"
  by (auto simp: latest_approval_def sqlite_list_approvals_def Let_def split: if_splits
      dest!: last_in_set)

lemma wp_get_manifest:
  "wp I (get_export_manifest i) Q s =
     (case sqlite_get_export_manifest s i of None \<Rightarrow> I s | Some m \<Rightarrow> Q m s)"
  by (simp add: get_export_manifest_def opt_res_def split: option.splits sum.splits)

lemma found_manifest:
  assumes "export_inv sha A s"
  shows "sqlite_get_export_manifest s i = Some m \<Longrightarrow> manifest_justified A m"
    and "sqlite_manifest_by_fingerprint s fp = Some m \<Longrightarrow> manifest_justified A m"
  using assms by (auto simp: export_inv_def report_inv_def manifests_inv_def find_Some_iff
      sqlite_get_export_manifest_def sqlite_manifest_by_fingerprint_def)

subsection \<open>Operations\<close>

lemma wp_append_export_audit:
  "export_inv sha A s \<Longrightarrow> wp (export_inv sha A) (append_export_audit env m a u t d)
     (\<lambda>_. export_inv sha A) s"
  by (auto simp: append_export_audit_def Let_def split: sum.splits elim: export_writes)

lemma wp_current_capability:
  "export_inv sha A s \<Longrightarrow> wp (export_inv sha A) (current_capability env rn) (\<lambda>_. export_inv sha A) s"
  by (auto simp: current_capability_def Let_def split: option.splits)

lemma wp_create_render_package:
  "export_inv sha A s \<Longrightarrow> wp (export_inv sha A) (create_render_package env i u x j b)
     (\<lambda>_. export_inv sha A) s"
  unfolding create_render_package_def Let_def wp_simps
  by (auto simp: wp_if wp_require_approved split: sum.splits option.splits elim: save_package_inv)

lemma wp_write_manifest:
  "export_inv sha A s \<Longrightarrow> a \<in> set A \<Longrightarrow>
     ra_decision a = report_approval_decision_value report_approval_decision.APPROVED \<Longrightarrow>
     ra_report_version_id a = rv_report_version_id v \<Longrightarrow>
     ra_content_fingerprint a = rv_content_fingerprint v \<Longrightarrow>
     wp (export_inv sha A) (write_manifest env rn q v a format filename redaction u fp p)
       (\<lambda>_. export_inv sha A) s"
proof -
  assume inv: "export_inv sha A s" and a: "a \<in> set A"
    "ra_decision a = report_approval_decision_value report_approval_decision.APPROVED"
    "ra_report_version_id a = rv_report_version_id v"
    "ra_content_fingerprint a = rv_content_fingerprint v"
  have j: "manifest_justified A m" if "xm_approval_id m = ra_approval_id a"
    "xm_report_version_id m = rv_report_version_id v" "xm_content_fingerprint m = rv_content_fingerprint v"
    "xm_custody_snapshot_id m = ra_custody_snapshot_id a" for m
    using a that unfolding manifest_justified_def by metis
  show ?thesis
    unfolding write_manifest_def Let_def wp_simps
    by (rule wp_mono [OF wp_current_capability [OF inv]])
      (auto simp: wp_if split: sum.splits option.splits intro!: wp_append_export_audit
        wp_mono [OF wp_append_export_audit] j dest!: save_capability_frame elim: save_manifest_inv)
qed

lemma wp_prepare_export:
  "export_inv sha A s \<Longrightarrow> wp (export_inv sha A) (prepare_export env rn q) (\<lambda>_. export_inv sha A) s"
  unfolding prepare_export_def
  by (auto simp: wp_require_approved split: sum.splits option.splits
      dest!: get_version_in latest_approval_in
      intro!: wp_mono [OF wp_create_render_package] wp_write_manifest simp: export_inv_def)

lemma wp_complete_export:
  "export_inv sha A s \<Longrightarrow> manifest_justified A m \<Longrightarrow>
     wp (export_inv sha A) (complete_export env m a) (\<lambda>_. export_inv sha A) s"
  unfolding complete_export_def Let_def wp_simps
  by (auto split: sum.splits option.splits intro!: wp_mono [OF wp_append_export_audit] elim: save_artifact_inv)

text \<open>The steps of results and rendering as rules; \<open>wp_bind\<close> leaves one of them to apply.\<close>

lemmas wp_bind = wp_simps(8)

lemma export_rules:
  fixes Qm :: "export_manifest \<Rightarrow> report_state \<Rightarrow> bool"
  assumes "export_inv sha A s"
  shows "(\<And>m. manifest_justified A m \<Longrightarrow> Qm m s) \<Longrightarrow>
      wp (export_inv sha A) (get_export_manifest i) Qm s"
    "(\<And>p. Qp p s) \<Longrightarrow> wp (export_inv sha A) (get_render_package j) Qp s"
    "(\<And>x. Qx x s) \<Longrightarrow> wp (export_inv sha A) (svc_of r) Qx s"
    "(\<not> c \<Longrightarrow> Qu () s) \<Longrightarrow> wp (export_inv sha A) (svc_guard c e) Qu s"
    "manifest_justified A n \<Longrightarrow> (\<And>s'. export_inv sha A s' \<Longrightarrow> Qu () s') \<Longrightarrow>
      wp (export_inv sha A) (svc_write (sqlite_update_export_manifest n)) Qu s"
    "(\<And>s'. export_inv sha A s' \<Longrightarrow> Qu () s') \<Longrightarrow>
      wp (export_inv sha A) (append_export_audit env n a u t d) Qu s"
    "wp (export_inv sha A) (svc_err e) Qz s"
    "manifest_justified A n \<Longrightarrow> (\<And>b s'. export_inv sha A s' \<Longrightarrow> Qy b s') \<Longrightarrow>
      wp (export_inv sha A) (complete_export env n y) Qy s"
  using assms
  by (auto simp: wp_get_manifest get_render_package_def opt_res_def split: option.splits sum.splits
      dest: found_manifest intro: wp_mono [OF wp_append_export_audit] wp_mono [OF wp_complete_export]
      update_manifest_inv)

lemma wp_fail_export:
  "export_inv sha A s \<Longrightarrow> manifest_justified A m \<Longrightarrow>
     wp (export_inv sha A) (fail_export env m e) (\<lambda>_. export_inv sha A) s"
  unfolding fail_export_def Let_def wp_bind by (intro export_rules) simp_all

lemma wp_record_export_result:
  "export_inv sha A s \<Longrightarrow> wp (export_inv sha A) (record_export_result env i d) (\<lambda>_. export_inv sha A) s"
  unfolding record_export_result_def Let_def wp_bind wp_if
  by (intro export_rules if_bool_eq_conj [THEN iffD2] conjI impI) simp_all

lemma wp_render_export:
  "export_inv sha A s \<Longrightarrow> wp (export_inv sha A) (render_export env rn i) (\<lambda>_. export_inv sha A) s"
  unfolding render_export_def Let_def wp_bind wp_if
  by (intro export_rules if_bool_eq_conj [THEN iffD2] conjI impI wp_simps(1,8) [THEN iffD2]
      wp_mono [OF wp_fail_export] wp_catchI [where J = "export_inv sha A"] wp_mono [OF wp_record_export_result]) simp_all

lemma wp_capabilities:
  "export_inv sha A s \<Longrightarrow> wp (export_inv sha A) (renderer_capabilities env) (\<lambda>_. export_inv sha A) s"
  "export_inv sha A s \<Longrightarrow> wp (export_inv sha A) (service_capabilities env) (\<lambda>_. export_inv sha A) s"
  unfolding renderer_capabilities_def service_capabilities_def wp_simps
  by (auto split: sum.splits intro!: wp_mono [OF wp_current_capability] dest!: save_capability_frame)

end
