(* ===== verification/Report_Calls.thy ===== *)
theory Report_Calls
  imports Report_Export_Runs
begin

section \<open>Sequences of calls\<close>

text \<open>
  \<open>report_call\<close> lists the operations of \<open>ReportService\<close> that write, and \<open>run_call\<close> is the store
  that a call leaves, whether it returns or raises.  A run interleaves calls, each with a clock,
  identifiers, neighbours and renderer of its own, with anything the custody ledger does.
\<close>

datatype report_call =
    CreateReport string string string "string option" string "string option" "string option"
  | ArchiveReport string string string
  | SetActiveVersion string string string string
  | CreateVersion version_request
  | CloneVersion string string string
  | IngestAiDraft dict "string option" string
  | Review review_request
  | CreateCustodySnapshot string string "string list option"
  | Approve string string string "string option" "int option" "int option"
  | RejectVersion string string string "int option"
  | RevokeApproval string string string "int option"
  | CreateRenderPackage string string bool "string option" bool
  | RendererCapabilities
  | ServiceCapabilities
  | PrepareExport "renderer_port option" export_request
  | RecordExportResult string dict
  | RenderExport "renderer_port option" string

fun run_call :: "report_env \<Rightarrow> report_call \<Rightarrow> report_state \<Rightarrow> report_state" where
  "run_call env (CreateReport c t u d ty l z) s = fst (create_report env c t u d ty l z s)"
| "run_call env (ArchiveReport i u x) s = fst (archive_report env i u x s)"
| "run_call env (SetActiveVersion i j u x) s = fst (set_active_version env i j u x s)"
| "run_call env (CreateVersion q) s = fst (create_version env q s)"
| "run_call env (CloneVersion i u x) s = fst (clone_version env i u x s)"
| "run_call env (IngestAiDraft d i u) s = fst (ingest_ai_draft env d i u s)"
| "run_call env (Review q) s = fst (append_review_event env q s)"
| "run_call env (CreateCustodySnapshot i u es) s = fst (create_custody_snapshot env i u es s)"
| "run_call env (Approve i u x j e1 e2) s = fst (approve env i u x j e1 e2 s)"
| "run_call env (RejectVersion i u x e) s = fst (reject_version env i u x e s)"
| "run_call env (RevokeApproval i u x e) s = fst (revoke_approval env i u x e s)"
| "run_call env (CreateRenderPackage i u b j c) s = fst (create_render_package env i u b j c s)"
| "run_call env RendererCapabilities s = fst (renderer_capabilities env s)"
| "run_call env ServiceCapabilities s = fst (service_capabilities env s)"
| "run_call env (PrepareExport rn q) s = fst (prepare_export env rn q s)"
| "run_call env (RecordExportResult i d) s = fst (record_export_result env i d s)"
| "run_call env (RenderExport rn i) s = fst (render_export env rn i s)"

inductive report_run :: "(string \<Rightarrow> string) \<Rightarrow> report_state \<Rightarrow> report_state \<Rightarrow> bool" for sha where
  run_start: "report_run sha s s"
| run_call: "report_run sha s t \<Longrightarrow> rx_sha env = sha \<Longrightarrow> report_run sha s (run_call env c t)"
| run_ledger: "report_run sha s t \<Longrightarrow> report_run sha s (t\<lparr>st_custody := db\<rparr>)"

definition no_reports :: "report_state \<Rightarrow> bool" where
  "no_reports s \<longleftrightarrow> st_reports s = [] \<and> st_versions s = [] \<and> st_reviews s = [] \<and>
     st_approvals s = [] \<and> st_snapshots s = [] \<and> st_packages s = [] \<and> st_manifests s = [] \<and>
     st_artifacts s = [] \<and> st_audits s = [] \<and> st_capabilities s = []"

subsection \<open>The invariant holds after every run\<close>

lemma wp_store_export:
  "report_inv sha s \<Longrightarrow> (\<And>A. export_inv sha A s \<Longrightarrow> wp (export_inv sha A) m (\<lambda>_. export_inv sha A) s) \<Longrightarrow>
     report_inv sha (fst (m s))"
  by (auto simp: export_inv_def dest: wp_store)

lemma run_call_inv:
  assumes inv: "report_inv sha s" and sha: "rx_sha env = sha"
  shows "report_inv sha (run_call env c s)"
proof (cases c)
  case (CreateReport a b c d e f g)
  with inv show ?thesis by (simp add: wp_store wp_create_report)
next
  case (PrepareExport rn q)
  with inv show ?thesis by (simp add: wp_store_export wp_prepare_export)
qed (use inv sha in \<open>simp_all add: wp_store wp_archive_report wp_set_active_version wp_create_version
    wp_clone_version wp_ingest_ai_draft wp_append_review_event wp_approve wp_reject_version
    wp_revoke_approval wp_store_export wp_create_render_package wp_capabilities
    wp_record_export_result wp_render_export
    wp_store [OF wp_mono [OF wp_create_custody_snapshot]]\<close>)

lemma report_run_inv: "report_run sha s t \<Longrightarrow> report_inv sha s \<Longrightarrow> report_inv sha t"
  by (induction rule: report_run.induct) (simp_all add: run_call_inv)

lemma no_reports_inv: "no_reports s \<Longrightarrow> report_inv sha s"
  by (simp add: no_reports_def inv_defs)

lemma report_run_sound: "report_run sha s t \<Longrightarrow> no_reports s \<Longrightarrow> report_inv sha t"
  by (simp add: report_run_inv no_reports_inv)

end
