(* ===== verification/Report_Typed.thy ===== *)
theory Report_Typed
  imports Report_Calls "HOL-Library.Sublist"
begin

section \<open>Types and histories of the report tables\<close>

text \<open>
  Two more facts that every run keeps, by one pass over the operations: every stored record is
  well typed, that is its enumeration columns hold member values, its text carries no active
  content, its counts and hashes are in range and its file names are portable; and the tables a
  report is proved from only grow at their end, so that no version, review event, approval,
  snapshot, package or audit event is ever changed.
\<close>

subsection \<open>Well-typed records\<close>

definition report_typed :: "report_record \<Rightarrow> bool" where
  "report_typed r \<longleftrightarrow> rr_report_type r \<in> report_type_value ` set report_type_members \<and>
     rr_status r \<in> report_status_value ` set report_status_members \<and>
     \<not> dangerous_text (rr_title r)"

definition section_typed :: "report_section \<Rightarrow> bool" where
  "section_typed r \<longleftrightarrow>
     rs_section_type r \<in> report_section_type_value ` set report_section_type_members \<and>
     rs_content_kind r \<in> report_content_kind_value ` set report_content_kind_members \<and>
     rs_source_kind r \<in> report_source_kind_value ` set report_source_kind_members \<and>
     1 \<le> rs_order r \<and> rs_order r \<le> 10000 \<and> py_len (rs_content r) \<le> 20000 \<and>
     \<not> dangerous_text (rs_title r) \<and> \<not> dangerous_text (rs_content r)"

definition version_typed :: "report_version \<Rightarrow> bool" where
  "version_typed v \<longleftrightarrow>
     rv_source_kind v \<in> report_source_kind_value ` set report_source_kind_members \<and>
     \<not> dangerous_text (rv_title v) \<and> \<not> dangerous_text (rv_executive_summary v) \<and>
     py_len (rv_executive_summary v) \<le> 40000 \<and>
     rv_sections v \<noteq> [] \<and> length (rv_sections v) \<le> 200 \<and> rv_limitations v \<noteq> [] \<and>
     list_all section_typed (rv_sections v)"

definition review_typed :: "review_event \<Rightarrow> bool" where
  "review_typed e \<longleftrightarrow> rw_action e \<in> report_review_action_value ` set report_review_action_members \<and>
     (case rw_comment e of None \<Rightarrow> True | Some c \<Rightarrow> \<not> dangerous_text c)"

definition approval_typed :: "approval_record \<Rightarrow> bool" where
  "approval_typed a \<longleftrightarrow>
     ra_decision a \<in> report_approval_decision_value ` set report_approval_decision_members"

definition snapshot_typed :: "custody_snapshot \<Rightarrow> bool" where
  "snapshot_typed c \<longleftrightarrow> cn_verification_status c \<in>
       custody_snapshot_verification_status_value ` set custody_snapshot_verification_status_members \<and>
     length (cn_custody_event_ids c) \<le> 100000 \<and> cn_event_count c = int (length (cn_custody_event_ids c))"

definition export_status_typed :: "string \<Rightarrow> bool" where
  "export_status_typed t \<longleftrightarrow> t \<in> report_export_status_value ` set report_export_status_members"

definition manifest_typed :: "export_manifest \<Rightarrow> bool" where
  "manifest_typed m \<longleftrightarrow> xm_format m \<in> report_export_format_value ` set report_export_format_members \<and>
     export_status_typed (xm_status m) \<and> xm_overwrite_policy m = ''DENY'' \<and>
     safe_segment (xm_requested_filename m)"

definition artifact_typed :: "rendered_artifact \<Rightarrow> bool" where
  "artifact_typed a \<longleftrightarrow> rf_format a \<in> report_export_format_value ` set report_export_format_members \<and>
     safe_segment (rf_filename a) \<and> 1 \<le> rf_size_bytes a \<and> rf_size_bytes a \<le> 1000000000000 \<and>
     is_sha256 (rf_sha256 a)"

definition tables_typed :: "report_state \<Rightarrow> bool" where
  "tables_typed s \<longleftrightarrow> list_all report_typed (st_reports s) \<and> list_all version_typed (st_versions s) \<and>
     list_all review_typed (st_reviews s) \<and> list_all approval_typed (st_approvals s) \<and>
     list_all snapshot_typed (st_snapshots s) \<and> list_all manifest_typed (st_manifests s) \<and>
     list_all artifact_typed (st_artifacts s) \<and>
     list_all (\<lambda>e. export_status_typed (xa_status e)) (st_audits s)"

definition history_kept :: "report_state \<Rightarrow> report_state \<Rightarrow> bool" where
  "history_kept s t \<longleftrightarrow> prefix (st_versions s) (st_versions t) \<and>
     prefix (st_reviews s) (st_reviews t) \<and> prefix (st_approvals s) (st_approvals t) \<and>
     prefix (st_snapshots s) (st_snapshots t) \<and> prefix (st_packages s) (st_packages t) \<and>
     prefix (st_artifacts s) (st_artifacts t) \<and> prefix (st_audits s) (st_audits t)"

definition typed_since :: "report_state \<Rightarrow> report_state \<Rightarrow> bool" where
  "typed_since s0 s \<longleftrightarrow> tables_typed s \<and> history_kept s0 s"

lemma typed_since_other [simp]:
  "typed_since s0 (s\<lparr>st_ticks := n\<rparr>) = typed_since s0 s"
  "typed_since s0 (s\<lparr>st_minted := n\<rparr>) = typed_since s0 s"
  "typed_since s0 (s\<lparr>st_capabilities := cs\<rparr>) = typed_since s0 s"
  "typed_since s0 (s\<lparr>st_custody := db\<rparr>) = typed_since s0 s"
  by (simp_all add: typed_since_def tables_typed_def history_kept_def)

subsection \<open>Enumerations and updates\<close>

lemma enum_value_in: "enum_value (List.map f ms) v target = Inr x \<Longrightarrow> x \<in> f ` set ms"
  by (auto simp: enum_value_def split: pyval.splits if_splits)

lemma member_values [simp]:
  "report_status_value a \<in> report_status_value ` set report_status_members"
  "report_review_action_value b \<in> report_review_action_value ` set report_review_action_members"
  "report_approval_decision_value c \<in>
     report_approval_decision_value ` set report_approval_decision_members"
  "custody_snapshot_verification_status_value d \<in>
     custody_snapshot_verification_status_value ` set custody_snapshot_verification_status_members"
  "export_status_typed (report_export_status_value e)"
  by (simp_all add: export_status_typed_def report_status_enum.listed
      report_review_action_enum.listed report_approval_decision_enum.listed
      custody_snapshot_verification_status_enum.listed report_export_status_enum.listed)

lemma safe_text_Inr: "safe_text s target = Inr t \<Longrightarrow> t = s \<and> \<not> dangerous_text t"
  by (auto simp: safe_text_def split: if_splits)

lemma safe_filename_Inr: "safe_filename f format = Inr n \<Longrightarrow> safe_segment n \<and> py_len n \<le> 180"
  by (auto simp: safe_filename_def validate_output_path_segment_def Let_def split: if_splits)

lemma limit_value_Inr: "limit_value v lo hi target = Inr n \<Longrightarrow> lo \<le> n \<and> n \<le> hi"
  by (auto simp: limit_value_def split: pyval.splits sum.splits if_splits)

subsection \<open>Content\<close>

lemma finish_section_typed:
  "finish_section sha raw r = Inr r' \<Longrightarrow> section_typed r' = section_typed r"
  by (auto simp: finish_section_def section_typed_def)

text \<open>The passing branch of a chain of checks.\<close>

lemma passing:
  "bind_res m f = Inr y \<Longrightarrow> (\<And>x. m = Inr x \<Longrightarrow> f x = Inr y \<Longrightarrow> P) \<Longrightarrow> P"
  "(if c then Inl e else r) = Inr y \<Longrightarrow> (\<not> c \<Longrightarrow> r = Inr y \<Longrightarrow> P) \<Longrightarrow> P"
  by (auto split: if_splits)

lemma section_input_typed: "section_from_input env s c sns raw i = Inr r \<Longrightarrow> section_typed r"
  unfolding section_from_input_def Let_def
  by (elim passing, drule finish_section_typed, erule iffD2,
      (drule enum_value_in safe_text_Inr limit_value_Inr)+,
      simp (no_asm) only: section_typed_def report_section.simps,
      intro conjI; (elim conjE)?; (assumption | simp only: not_less))

lemma traverse_all: "traverse f xs = Inr ys \<Longrightarrow> (\<And>x y. f x = Inr y \<Longrightarrow> P y) \<Longrightarrow>
    list_all P ys \<and> length ys = length xs"
  by (induction xs arbitrary: ys) auto

lemma sections_input_typed:
  "sections_from_input env s c sns raws = Inr rs \<Longrightarrow> list_all section_typed rs \<and> length rs = length raws"
  unfolding sections_from_input_def
  by (drule traverse_all [where P = section_typed]) (auto split: prod.splits intro: section_input_typed simp del: length_0_conv simp: Suc_le_eq)

lemma sort_key_Nil [simp]: "sort_key f xs = [] \<longleftrightarrow> xs = []"
  by (metis length_0_conv length_sort)

lemma version_content_typed: "version_content env s report q = Inr (v, cs) \<Longrightarrow> version_typed v"
  unfolding version_content_def Let_def
  by (elim passing)
    (auto simp: version_typed_def list_all_iff dest: sections_input_typed enum_value_in safe_text_Inr)

subsection \<open>Writes\<close>

lemma stored_typed [simp]:
  "version_typed (stored_report_version v) = version_typed v"
  "snapshot_typed (stored_custody_snapshot c) = snapshot_typed c"
  "manifest_typed (stored_export_manifest m) = manifest_typed m"
  "artifact_typed (stored_rendered_artifact a) = artifact_typed a"
  "xa_status (stored_export_audit_event e) = xa_status e"
proof -
  have "section_typed (stored_section r) = section_typed r" for r
    by (simp add: section_typed_def stored_section_def)
  then show "version_typed (stored_report_version v) = version_typed v"
    by (simp add: version_typed_def stored_report_version_def list.pred_map comp_def)
qed (simp_all add: snapshot_typed_def stored_custody_snapshot_def manifest_typed_def
    stored_export_manifest_def artifact_typed_def stored_rendered_artifact_def
    stored_export_audit_event_def)

lemmas typed_defs = typed_since_def tables_typed_def history_kept_def

lemma typed_save_report: "sqlite_save_report r s = Inr s' \<Longrightarrow> typed_since s0 s \<Longrightarrow>
    report_typed r \<Longrightarrow> typed_since s0 s'"
  by (auto simp: sqlite_save_report_def typed_defs)

lemma typed_update_report: "sqlite_update_report r s = Inr s' \<Longrightarrow> typed_since s0 s \<Longrightarrow>
    report_typed r \<Longrightarrow> typed_since s0 s'"
  by (auto simp: sqlite_update_report_def typed_defs list_all_iff)

lemma typed_save_version: "sqlite_save_report_version v r s = Inr s' \<Longrightarrow> typed_since s0 s \<Longrightarrow>
    version_typed v \<Longrightarrow> report_typed r \<Longrightarrow> typed_since s0 s'"
  unfolding sqlite_save_report_version_def bind_res_eq_Inr integrity_Inr
  by (elim exE conjE, erule typed_update_report) (auto simp: typed_defs)

lemma typed_append_review: "sqlite_append_review_event e r s = Inr s' \<Longrightarrow> typed_since s0 s \<Longrightarrow>
    review_typed e \<Longrightarrow> report_typed r \<Longrightarrow> typed_since s0 s'"
  unfolding sqlite_append_review_event_def bind_res_eq_Inr integrity_Inr
  by (elim exE conjE, erule typed_update_report) (auto simp: typed_defs)

lemma typed_append_approval: "sqlite_append_approval a r s = Inr s' \<Longrightarrow> typed_since s0 s \<Longrightarrow>
    approval_typed a \<Longrightarrow> report_typed r \<Longrightarrow> typed_since s0 s'"
  unfolding sqlite_append_approval_def bind_res_eq_Inr integrity_Inr
  by (elim exE conjE, erule typed_update_report) (auto simp: typed_defs)

lemma typed_save_snapshot: "sqlite_save_custody_snapshot c s = Inr s' \<Longrightarrow> typed_since s0 s \<Longrightarrow>
    snapshot_typed c \<Longrightarrow> typed_since s0 s'"
  by (auto simp: sqlite_save_custody_snapshot_def typed_defs)

lemma typed_save_package: "sqlite_save_render_package p s = Inr s' \<Longrightarrow> typed_since s0 s \<Longrightarrow>
    typed_since s0 s'"
  by (auto simp: sqlite_save_render_package_def typed_defs)

lemma typed_save_manifest: "sqlite_save_export_manifest m r s = Inr s' \<Longrightarrow> typed_since s0 s \<Longrightarrow>
    manifest_typed m \<Longrightarrow> report_typed r \<Longrightarrow> typed_since s0 s'"
  unfolding sqlite_save_export_manifest_def bind_res_eq_Inr integrity_Inr
  by (elim exE conjE, erule typed_update_report) (auto simp: typed_defs)

lemma typed_update_manifest: "sqlite_update_export_manifest m s = Inr s' \<Longrightarrow> typed_since s0 s \<Longrightarrow>
    manifest_typed m \<Longrightarrow> typed_since s0 s'"
  by (auto simp: sqlite_update_export_manifest_def typed_defs list_all_iff)

lemma typed_save_artifact: "sqlite_save_rendered_artifact a m r s = Inr s' \<Longrightarrow> typed_since s0 s \<Longrightarrow>
    artifact_typed a \<Longrightarrow> manifest_typed m \<Longrightarrow> report_typed r \<Longrightarrow> typed_since s0 s'"
  unfolding sqlite_save_rendered_artifact_def bind_res_eq_Inr integrity_Inr
  by (elim exE conjE, erule typed_update_report, erule typed_update_manifest) (auto simp: typed_defs)

lemma typed_append_audit: "sqlite_append_export_audit e s = Inr s' \<Longrightarrow> typed_since s0 s \<Longrightarrow>
    export_status_typed (xa_status e) \<Longrightarrow> typed_since s0 s'"
  by (auto simp: sqlite_append_export_audit_def typed_defs)

lemmas typed_writes = typed_save_report typed_update_report typed_save_version typed_append_review
  typed_append_approval typed_save_snapshot typed_save_package typed_save_manifest
  typed_update_manifest typed_save_artifact typed_append_audit

lemma found_typed:
  assumes "typed_since s0 s"
  shows "sqlite_get_report s i = Some r \<Longrightarrow> report_typed r"
    "sqlite_get_report_version s i = Some v \<Longrightarrow> version_typed v"
    "sqlite_get_export_manifest s i = Some m \<Longrightarrow> manifest_typed m"
  using assms by (auto simp: typed_defs list_all_iff find_Some_iff sqlite_get_report_def
      sqlite_get_report_version_def sqlite_get_export_manifest_def)

end
