(* ===== verification/Report_Typed_Runs.thy ===== *)
theory Report_Typed_Runs
  imports Report_Typed
begin

section \<open>Every run keeps the tables typed and their history\<close>

text \<open>
  One lemma per operation of the service: started in tables that are typed and extend earlier
  tables, it ends in such tables, also when it raises.  The operations are taken apart by the rules
  \<open>keep_rules\<close>, one per step of the monad.
\<close>

abbreviation keeps :: "report_state \<Rightarrow> (report_state, 'a) svc \<Rightarrow> report_state \<Rightarrow> bool" where
  "keeps s0 m \<equiv> wp (typed_since s0) m (\<lambda>_. typed_since s0)"

text \<open>The steps of an operation as rules; \<open>wp_bind\<close> leaves one of them to apply.\<close>

lemma keep_rules:
  assumes "typed_since s0 s"
  shows "(\<And>x. r = Inr x \<Longrightarrow> Qo x s) \<Longrightarrow> wp (typed_since s0) (svc_of r) Qo s"
    "(\<And>x. f s = Inr x \<Longrightarrow> Qr x s) \<Longrightarrow> wp (typed_since s0) (svc_read f) Qr s"
    "Qg (g s) s \<Longrightarrow> wp (typed_since s0) (svc_get g) Qg s"
    "Qt x s \<Longrightarrow> wp (typed_since s0) (svc_ret x) Qt s"
    "wp (typed_since s0) (svc_err e) Qe s"
    "(\<not> c \<Longrightarrow> Qu () s) \<Longrightarrow> wp (typed_since s0) (svc_guard c x') Qu s"
    "(\<And>t s'. typed_since s0 s' \<Longrightarrow> Qc t s') \<Longrightarrow> wp (typed_since s0) (read_clock env) Qc s"
    "(\<And>j s'. typed_since s0 s' \<Longrightarrow> Qi j s') \<Longrightarrow> wp (typed_since s0) (mint_id env) Qi s"
    "(\<And>p. report_typed p \<Longrightarrow> Qp p s) \<Longrightarrow> wp (typed_since s0) (get_report i) Qp s"
    "(\<And>v. version_typed v \<Longrightarrow> Qv v s) \<Longrightarrow> wp (typed_since s0) (get_version i) Qv s"
    "(\<And>m. manifest_typed m \<Longrightarrow> Qm m s) \<Longrightarrow> wp (typed_since s0) (get_export_manifest i) Qm s"
    "(\<And>k. Qk k s) \<Longrightarrow> wp (typed_since s0) (get_render_package i) Qk s"
    "(\<And>a. Qa a s) \<Longrightarrow> wp (typed_since s0) (require_approved_version w) Qa s"
    "(\<And>n. Qn n s) \<Longrightarrow> wp (typed_since s0) (get_custody_snapshot i) Qn s"
  using assms
  by (auto split: option.splits sum.splits dest: found_typed simp: wp_get_manifest get_render_package_def
      opt_res_def wp_require_approved get_custody_snapshot_def version_typed_def with_states_def)

lemma keep_write:
  assumes "\<And>s'. w s = Inr s' \<Longrightarrow> typed_since s0 s'" "typed_since s0 s"
    and "\<And>s'. typed_since s0 s' \<Longrightarrow> Qu () s'"
  shows "wp (typed_since s0) (svc_write w) Qu s"
  using assms by (auto split: sum.splits)

lemma keep_then: "keeps s0 m s \<Longrightarrow> (\<And>x s'. typed_since s0 s' \<Longrightarrow> Q x s') \<Longrightarrow> wp (typed_since s0) m Q s"
  by (rule wp_mono)

lemma keep_option:
  "(x = None \<Longrightarrow> wp I a Q s) \<Longrightarrow> (\<And>y. x = Some y \<Longrightarrow> wp I (b y) Q s) \<Longrightarrow>
     wp I (case x of None \<Rightarrow> a | Some y \<Rightarrow> b y) Q s"
  by (cases x) simp_all

lemmas keep_if = if_bool_eq_conj [THEN iffD2]

lemmas literal_simps = report_status_members_def report_export_status_members_def
  report_review_action_members_def report_approval_decision_members_def
  custody_snapshot_verification_status_members_def

lemma keep_create_report: "typed_since s0 s \<Longrightarrow> keeps s0 (create_report env c t u d ty l z) s"
  unfolding create_report_def require_case_row_def Let_def wp_bind
  by (intro keep_rules keep_write; (erule typed_save_report)?;
      (simp add: report_typed_def safe_text_Inr enum_value_in literal_simps)?)

lemma keep_archive_report: "typed_since s0 s \<Longrightarrow> keeps s0 (archive_report env i u x) s"
  unfolding archive_report_def Let_def wp_bind
  by (intro keep_rules keep_write; (erule typed_update_report)?;
      (simp add: report_typed_def literal_simps)?)

lemma keep_set_active: "typed_since s0 s \<Longrightarrow> keeps s0 (set_active_version env i j u x) s"
  unfolding set_active_version_def Let_def wp_bind
  by (intro keep_rules keep_write; (erule typed_update_report)?;
      (simp add: report_typed_def literal_simps)?)

lemma keep_write_version: "typed_since s0 s \<Longrightarrow> report_typed p \<Longrightarrow> version_typed c \<Longrightarrow>
    keeps s0 (write_version env p previous c fp) s"
  unfolding write_version_def Let_def wp_bind
  by (intro keep_rules keep_write; (erule typed_save_version)?;
      (simp add: report_typed_def version_typed_def literal_simps)?)

lemma keep_create_version: "typed_since s0 s \<Longrightarrow> keeps s0 (create_version env q) s"
  unfolding create_version_def previous_version_def Let_def wp_bind
  by (auto simp: wp_bind split: option.splits sum.splits prod.splits
      dest: version_content_typed found_typed intro!: keep_write_version)

lemma keep_clone_version: "typed_since s0 s \<Longrightarrow> keeps s0 (clone_version env i u x) s"
  unfolding clone_version_def wp_bind by (intro keep_rules keep_create_version)

lemma keep_ingest: "typed_since s0 s \<Longrightarrow> keeps s0 (ingest_ai_draft env d i u) s"
  unfolding ingest_ai_draft_def wp_bind
  by (auto split: option.splits sum.splits intro!: keep_create_version keep_then [OF keep_create_report])

lemma status_after_review_in: "t \<in> report_status_value ` set report_status_members \<Longrightarrow>
    status_after_review a t \<in> report_status_value ` set report_status_members"
  by (simp add: status_after_review_def literal_simps)

lemma keep_review: "typed_since s0 s \<Longrightarrow> keeps s0 (append_review_event env q) s"
  unfolding append_review_event_def write_review_event_def Let_def wp_bind
  by (intro keep_rules keep_write; (erule typed_append_review)?;
      (simp add: report_typed_def review_typed_def report_review_action_enum.listed
        status_after_review_in)?) (auto split: option.splits dest: safe_text_Inr)

lemma traverse_length: "traverse f xs = Inr ys \<Longrightarrow> length ys = length xs"
  by (induction xs arbitrary: ys) auto

lemma snapshot_content_typed: "custody_snapshot_content env v evs u s = Inr c \<Longrightarrow> snapshot_typed c"
  unfolding custody_snapshot_content_def Let_def
  by (auto simp: snapshot_typed_def snapshot_status_def literal_simps traverse_length split: if_splits)

lemma keep_snapshot: "typed_since s0 s \<Longrightarrow> keeps s0 (create_custody_snapshot env i u es) s"
  unfolding create_custody_snapshot_def Let_def wp_bind
  apply (intro keep_rules keep_option wp_bind [THEN iffD2] keep_write; (erule typed_save_snapshot)?;
     (drule snapshot_content_typed)?; (simp add: snapshot_typed_def)?)
  done

lemma status_after_decision_in:
  "status_after_decision d \<in> report_status_value ` set report_status_members"
  by (cases d) (simp_all add: literal_simps)

lemma keep_append_approval: "typed_since s0 s \<Longrightarrow> keeps s0 (append_approval env v d u x j e) s"
  unfolding append_approval_def Let_def wp_bind
  by (intro keep_rules keep_write; (erule typed_append_approval)?;
      (simp add: report_typed_def approval_typed_def report_approval_decision_enum.listed
        status_after_decision_in)?)

lemma keep_approve: "typed_since s0 s \<Longrightarrow> keeps s0 (approve env i u x j e1 e2) s"
  unfolding approve_def wp_bind
  by (intro keep_rules keep_option keep_then [OF keep_snapshot] keep_append_approval)

lemma keep_reject: "typed_since s0 s \<Longrightarrow> keeps s0 (reject_version env i u x e) s"
  unfolding reject_version_def wp_bind by (intro keep_rules keep_append_approval)

lemma keep_revoke: "typed_since s0 s \<Longrightarrow> keeps s0 (revoke_approval env i u x e) s"
  unfolding revoke_approval_def wp_bind by (intro keep_rules keep_append_approval)

subsection \<open>Export\<close>

lemma keep_package: "typed_since s0 s \<Longrightarrow> keeps s0 (create_render_package env i u b j c) s"
  unfolding create_render_package_def Let_def wp_bind wp_if
  by (intro keep_rules keep_option keep_if conjI impI wp_bind [THEN iffD2] keep_write;
      (erule typed_save_package)?; simp?)

lemma keep_current: "typed_since s0 s \<Longrightarrow> keeps s0 (current_capability env rn) s"
  unfolding current_capability_def Let_def
  by (intro keep_rules keep_option wp_bind [THEN iffD2])

lemma typed_capability: "sqlite_save_capability c s = Inr s' \<Longrightarrow> typed_since s0 s \<Longrightarrow> typed_since s0 s'"
  by (auto simp: sqlite_save_capability_def)

lemma keep_capabilities:
  "typed_since s0 s \<Longrightarrow> keeps s0 (renderer_capabilities env) s"
  "typed_since s0 s \<Longrightarrow> keeps s0 (service_capabilities env) s"
  unfolding renderer_capabilities_def service_capabilities_def wp_bind
  by (intro keep_rules keep_then [OF keep_current] keep_write; (erule typed_capability)?; assumption)+

lemma keep_audit: "typed_since s0 s \<Longrightarrow> export_status_typed t \<Longrightarrow>
    keeps s0 (append_export_audit env m a u t d) s"
  unfolding append_export_audit_def Let_def wp_bind
  by (intro keep_rules keep_write; (erule typed_append_audit)?; simp?)

lemma keep_write_manifest: "typed_since s0 s \<Longrightarrow>
    f \<in> report_export_format_value ` set report_export_format_members \<Longrightarrow> safe_segment n \<Longrightarrow>
    eq_overwrite_policy q = ''DENY'' \<Longrightarrow>
    keeps s0 (write_manifest env rn q v a f n red u fp p) s"
  unfolding write_manifest_def Let_def wp_bind wp_if
  by (intro keep_rules keep_if conjI impI keep_write keep_then [OF keep_current]
      keep_then [OF keep_audit]; (erule typed_save_manifest typed_capability)?;
      (simp add: manifest_typed_def report_typed_def export_status_typed_def literal_simps)?)

lemma keep_prepare: "typed_since s0 s \<Longrightarrow> keeps s0 (prepare_export env rn q) s"
  unfolding prepare_export_def wp_bind
  by (intro keep_rules keep_option wp_bind [THEN iffD2] keep_then [OF keep_package] keep_write_manifest)
    (auto dest: enum_value_in safe_filename_Inr)

lemma artifact_of_result_typed: "artifact_of_result m d ws = Inr a \<Longrightarrow> manifest_typed m \<Longrightarrow> artifact_typed a"
  unfolding artifact_of_result_def
  by (elim passing) (auto simp: artifact_typed_def manifest_typed_def dest: safe_filename_Inr limit_value_Inr)

lemma keep_complete: "typed_since s0 s \<Longrightarrow> manifest_typed m \<Longrightarrow> artifact_typed a \<Longrightarrow>
    keeps s0 (complete_export env m a) s"
  unfolding complete_export_def Let_def wp_bind
  by (intro keep_rules keep_write keep_then [OF keep_audit]; (erule typed_save_artifact)?;
      (simp add: artifact_typed_def manifest_typed_def report_typed_def export_status_typed_def literal_simps)?)

lemma keep_record: "typed_since s0 s \<Longrightarrow> keeps s0 (record_export_result env i d) s"
  unfolding record_export_result_def Let_def wp_bind wp_if
  by (intro keep_rules keep_if conjI impI keep_write keep_then [OF keep_audit] keep_then [OF keep_complete];
      (erule typed_update_manifest)?;
      (auto simp: manifest_typed_def export_status_typed_def literal_simps artifact_of_result_typed)?)

lemma keep_fail: "typed_since s0 s \<Longrightarrow> manifest_typed m \<Longrightarrow> keeps s0 (fail_export env m e) s"
  unfolding fail_export_def Let_def wp_bind
  by (intro keep_rules keep_write keep_audit; (erule typed_update_manifest)?;
      (simp add: manifest_typed_def export_status_typed_def literal_simps)?)

lemma keep_render: "typed_since s0 s \<Longrightarrow> keeps s0 (render_export env rn i) s"
  unfolding render_export_def Let_def wp_bind wp_if
  by (intro keep_rules keep_if conjI impI keep_write wp_bind [THEN iffD2] keep_then [OF keep_audit]
      wp_catchI [where J = "typed_since s0"] keep_then [OF keep_record] keep_then [OF keep_fail];
      (erule typed_update_manifest)?;
      (simp add: manifest_typed_def export_status_typed_def literal_simps)?)

subsection \<open>Runs\<close>

lemma run_call_typed: "typed_since s0 s \<Longrightarrow> typed_since s0 (run_call env c s)"
  by (cases c) (simp_all add: wp_store keep_create_report keep_archive_report keep_set_active
      keep_create_version keep_clone_version keep_ingest keep_review keep_snapshot keep_approve
      keep_reject keep_revoke keep_package keep_capabilities keep_prepare keep_record keep_render)

lemma report_run_typed_since: "report_run sha s t \<Longrightarrow> typed_since s0 s \<Longrightarrow> typed_since s0 t"
  by (induction rule: report_run.induct) (simp_all add: run_call_typed)

lemma report_run_history: "report_run sha s t \<Longrightarrow> tables_typed s \<Longrightarrow> tables_typed t \<and> history_kept s t"
  using report_run_typed_since [of sha s t s] by (simp add: typed_since_def history_kept_def)


end
