(* ===== verification/Report_Sample.thy ===== *)
theory Report_Sample
  imports Report_Typed_Runs "HOL-Library.Code_Target_Nat"
begin

section \<open>A sample run of the report workflow\<close>

text \<open>
  Six calls that take a report of one section from its creation to an export: the report, a
  version, the acceptance of its section, the completed review, the approval with the snapshot of
  a custody chain of one event, and the prepared export, which a seventh call renders.  The hash is a
  toy with values distinct where the tables ask for it.  The witnesses of the properties evaluate
  this run; natural numbers are represented by integers for that purpose.
\<close>

definition sample_hash :: "string \<Rightarrow> string" where
  "sample_hash s = filter word_char (take 24 s @ take 4 (rev s))"

definition sample_renderer :: renderer_port where
  "sample_renderer = \<lparr>rn_capability =
       \<lparr>rc_renderer_id = ''r'', rc_renderer_version = ''1'', rc_supported_formats = [''PDF''],
        rc_is_available = True, rc_unavailable_reason = None, rc_warnings = [],
        rc_generated_at = None, rc_capability_version = ''1''\<rparr>,
     rn_validate = (\<lambda>_. Inr ()),
     rn_render = (\<lambda>p m f. Inr [(''output_reference'', PStr (''derived://root/'' @ f)),
       (''size_bytes'', PInt 9), (''sha256'', PStr (replicate 64 CHR ''a''))]),
     rn_verify = (\<lambda>_. Inr ())\<rparr>"

definition report_sample_env :: report_env where
  "report_sample_env = \<lparr>rx_sha = sample_hash, rx_now = (\<lambda>n. Aware (int n)), rx_new_id = (\<lambda>n. ''i'' @ nat_str n),
     rx_snapshot = (\<lambda>_. Inl (PyExn ''KeyError'')), rx_resource = (\<lambda>_ _. Inl (PyExn ''KeyError'')),
     rx_ai_request = (\<lambda>_. Inl (PyExn ''KeyError'')), rx_ai_result_case = (\<lambda>_. None),
     rx_search_case = (\<lambda>_. None), rx_case_locale = (\<lambda>_. ''ko''),
     rx_evidence_doc = (\<lambda>_. \<lparr>ed_display_name = ''d'', ed_format = PNone, ed_size_bytes = PInt 1,
        ed_hashes = [], ed_fingerprint = PNone\<rparr>),
     rx_custody = \<lparr>ce_sha256 = sample_hash, ce_zone = (\<lambda>_. None)\<rparr>, rx_root = ''root'',
     rx_renderer = sample_renderer\<rparr>"

definition sample_event :: dict where
  "sample_event =
     (let d = [(''event_id'', PStr ''e1''), (''immutable_revision'', PInt 1),
        (''occurred_at_utc'', PStr ''2024-01-01T00:00:00Z''), (''previous_event_hash'', PNone)]
      in case canonical_sha256 sample_hash (PDict d) [''event_hash''] of
           Inr h \<Rightarrow> d @ [(''event_hash'', PStr h)] | Inl _ \<Rightarrow> [])"

definition report_sample_state :: report_state where
  "report_sample_state = \<lparr>st_custody = \<lparr>db_evidence = [''E1'' \<mapsto> ''C1''], db_cases = [''C1'' \<mapsto> ''UTC''],
       db_events = [\<lparr>cw_event_id = ''e1'', cw_evidence_id = ''E1'', cw_revision = 1, cw_json = sample_event\<rparr>]\<rparr>,
     st_reports = [], st_versions = [], st_reviews = [], st_approvals = [], st_snapshots = [],
     st_packages = [], st_manifests = [], st_artifacts = [], st_audits = [], st_capabilities = [],
     st_ticks = 0, st_minted = 0\<rparr>"

definition report_sample_request :: version_request where
  "report_sample_request = \<lparr>vq_report_id = ''i0'', vq_source_kind = ''ANALYST_DRAFT'', vq_created_by = ''u'',
     vq_title = ''T'', vq_executive_summary = ''S'',
     vq_sections = [[(''section_id'', PStr ''s''), (''title'', PStr ''A'')]],
     vq_source_reference_id = None, vq_context_snapshot_ids = [], vq_evidence_ids = [''E1''],
     vq_search_execution_ids = [], vq_timeline_revisions = [], vq_ai_assistance_request_ids = [],
     vq_ai_result_ids = [], vq_citations = [], vq_limitations = [''L''], vq_analyzer_versions = []\<rparr>"

definition sample_review :: "report_review_action \<Rightarrow> string option \<Rightarrow> review_request" where
  "sample_review a i = \<lparr>wq_version_id = ''i1'', wq_action = a, wq_actor_id = ''r'', wq_reason = ''ok'',
     wq_section_id = i, wq_comment = None, wq_requested_changes = [], wq_expected_revision = None\<rparr>"

definition sample_export :: export_request where
  "sample_export = \<lparr>eq_version_id = ''i1'', eq_format = ''PDF'', eq_filename = ''f'', eq_created_by = ''u'',
     eq_redaction_policy = ''p'', eq_overwrite_policy = ''DENY'', eq_include_citations = False,
     eq_include_custody = False, eq_include_technical_appendix = False, eq_stale_confirmed = False,
     eq_expected_content_fingerprint = None, eq_expected_approval_id = None,
     eq_expected_custody_snapshot_id = None\<rparr>"

definition sample_calls :: "report_call list" where
  "sample_calls = [CreateReport ''C1'' ''T'' ''u'' None ''INVESTIGATION'' None None,
     CreateVersion report_sample_request, Review (sample_review ACCEPT_SECTION (Some ''s'')),
     Review (sample_review MARK_REVIEW_COMPLETE None), Approve ''i1'' ''b'' ''ok'' None None None,
     PrepareExport None sample_export, RenderExport None ''i7'']"

definition sample_run :: "nat \<Rightarrow> report_state" where
  "sample_run n = fold (run_call report_sample_env) (take n sample_calls) report_sample_state"



lemma fold_run: "report_run sha s t \<Longrightarrow> rx_sha env = sha \<Longrightarrow> report_run sha s (fold (run_call env) cs t)"
  by (induction cs arbitrary: t) (auto intro: report_run.run_call)

lemma sample_reached: "report_run sample_hash report_sample_state (sample_run n)"
  unfolding sample_run_def by (rule fold_run [OF run_start]) (simp add: report_sample_env_def)

lemma sample_no_reports: "no_reports report_sample_state" "tables_typed report_sample_state"
  by (simp_all add: no_reports_def tables_typed_def report_sample_state_def)

lemma sample_inv: "report_inv sample_hash (sample_run n)"
  by (rule report_run_sound [OF sample_reached sample_no_reports(1)])

text \<open>What the witnesses ask of a state is one function of it, so that each state is evaluated once.\<close>

definition sizeless_renderer :: renderer_port where
  "sizeless_renderer = sample_renderer\<lparr>rn_render := (\<lambda>p m f.
     Inr [(''output_reference'', PStr (''derived://root/'' @ f))])\<rparr>"

definition sample_first :: "report_review_action \<Rightarrow> review_request" where
  "sample_first a = sample_review a (Some ''s'')\<lparr>wq_expected_revision := Some 0\<rparr>"

definition with_version :: "report_state \<Rightarrow> bool" where
  "with_version s \<longleftrightarrow> st_versions s \<noteq> [] \<and> sqlite_get_report s ''i0'' \<noteq> None \<and>
     is_ok (snd (append_review_event report_sample_env (sample_first ACCEPT_SECTION) s)) \<and>
     is_ok (custody_snapshot_content report_sample_env (hd (st_versions s)) [''E1''] ''b'' report_sample_state)"

definition with_review :: "report_state \<Rightarrow> bool" where
  "with_review s \<longleftrightarrow> (let es = sqlite_list_review_events s ''i1'' in length es = 2 \<and>
     review_status_from_events es = ''REVIEW_COMPLETE'' \<and>
     list_all (\<lambda>e. rw_action e \<noteq> report_review_action_value SUBMIT_FOR_REVIEW) es)"

definition with_approval :: "report_state \<Rightarrow> bool" where
  "with_approval s \<longleftrightarrow> is_ok (snd (revoke_approval report_sample_env ''i1'' ''b'' ''ok'' None s)) \<and>
     is_ok (snd (prepare_export report_sample_env None sample_export
       (run_call report_sample_env (Review (sample_review REOPEN_REVIEW None)) s)))"

definition with_rendering :: "report_state \<Rightarrow> bool" where
  "with_rendering s \<longleftrightarrow> (case render_export report_sample_env None ''i7'' s of (t, r) \<Rightarrow> is_ok r \<and>
       List.map xm_status (st_manifests t) = [''COMPLETED''] \<and> st_artifacts t \<noteq> []) \<and>
     List.map xm_status (st_manifests (fst (render_export report_sample_env (Some sizeless_renderer) ''i7'' s))) =
       [''RENDERING'']"

lemma sample_with_version: "with_version (sample_run 2)" by code_simp

lemma sample_with_review: "with_review (sample_run 4)" by code_simp

lemma sample_with_approval: "with_approval (sample_run 5)" by code_simp

lemma sample_with_rendering: "with_rendering (sample_run 6)" by code_simp

lemma sample_rendered: "sample_run 7 = fst (render_export report_sample_env None ''i7'' (sample_run 6))"
  by (simp add: sample_run_def sample_calls_def)

lemma sample_exported:
  "List.map xm_status (st_manifests (sample_run 7)) = [''COMPLETED'']" "st_artifacts (sample_run 7) \<noteq> []"
  using sample_with_rendering
  by (simp_all add: sample_rendered with_rendering_def split: prod.splits)

lemma is_ok_result: "is_ok (snd p) \<Longrightarrow> \<exists>s x. p = (s, Inr x)"
  by (cases p; cases "snd p") auto

end
