(* ===== verification/Report_Filename_Facts.thy ===== *)
theory Report_Filename_Facts
  imports Report_Text
begin

section \<open>Export file names\<close>

text \<open>
  What \<open>_safe_filename\<close> returns is one portable path segment with the extension of the format,
  and it is a fixed point: sanitising it again changes nothing.
\<close>

subsection \<open>White space and separators\<close>

lemma squash_ws_clean: "c \<in> set (squash_ws s) \<Longrightarrow> \<not> is_ws c"
  by (induction s rule: squash_ws.induct) (auto simp: is_ws_def split: if_splits)

lemma squash_ws_id: "(\<And>c. c \<in> set s \<Longrightarrow> \<not> is_ws c) \<Longrightarrow> squash_ws s = s"
  by (induction s) auto

lemma squash_ws_chars: "c \<in> set (squash_ws s) \<Longrightarrow> c \<in> set s \<or> c = CHR ''_''"
proof (induction s rule: squash_ws.induct)
  case (2 d r)
  then show ?case by (auto split: if_splits dest: set_dropWhileD)
qed simp

lemma strip_id: "(\<And>c. c \<in> set s \<Longrightarrow> \<not> is_ws c) \<Longrightarrow> strip s = s"
proof -
  assume c: "\<And>c. c \<in> set s \<Longrightarrow> \<not> is_ws c"
  have d: "dropWhile is_ws t = t" if "set t = set s" for t
    using c that by (cases t) auto
  show ?thesis by (simp add: strip_def d)
qed

lemma strip_chars: "c \<in> set (strip s) \<Longrightarrow> c \<in> set s"
  unfolding strip_def set_rev by (drule set_dropWhileD, unfold set_rev) (rule set_dropWhileD)

lemma split_on_parts: "p \<in> set (split_on c s) \<Longrightarrow> d \<in> set p \<Longrightarrow> d \<in> set s \<and> d \<noteq> c"
proof (induction s arbitrary: p)
  case (Cons x xs)
  then show ?case
    by (cases "x = c"; cases "split_on c xs"; force)
qed simp

lemma split_on_none: "c \<notin> set s \<Longrightarrow> split_on c s = [s]"
  by (induction s) auto

lemma posix_parts_chars: "p \<in> set (posix_parts s) \<Longrightarrow> d \<in> set p \<Longrightarrow> d \<in> set s \<and> d \<noteq> CHR ''/''"
  by (auto simp: posix_parts_def dest: split_on_parts)

lemma lower_append: "lower (s @ t) = lower s @ lower t"
  by (simp add: lower_def)

lemma lower_extension: "lower (report_extension format) = report_extension format"
  by (simp add: report_extension_def lower_def lower_char_def)

lemma has_suffix_append: "has_suffix e (s @ e)"
  by (simp add: has_suffix_def)

lemma extension_chars: "c \<in> set (report_extension format) \<Longrightarrow>
    \<not> is_ws c \<and> c \<noteq> CHR ''/'' \<and> c \<noteq> CHR 92"
  by (auto simp: report_extension_def is_ws_def split: if_splits)

subsection \<open>The result\<close>

definition clean_name :: "string \<Rightarrow> string \<Rightarrow> bool" where
  "clean_name format n \<longleftrightarrow> safe_segment n \<and> py_len n \<le> 180 \<and>
     has_suffix (report_extension format) (lower n) \<and>
     list_all (\<lambda>c. \<not> is_ws c \<and> c \<noteq> CHR ''/'' \<and> c \<noteq> CHR 92) n"

lemma safe_filename_clean: "safe_filename f format = Inr n \<Longrightarrow> clean_name format n"
proof -
  assume ok: "safe_filename f format = Inr n"
  obtain f0 where f0: "required_non_empty (PStr f) ''filename'' = Inr f0"
    using ok by (auto simp: safe_filename_def)
  define p where "p = List.map (\<lambda>c. if c = CHR 92 then CHR ''/'' else c) f0"
  define cleaned where "cleaned = squash_ws (strip (last (posix_parts p)))"
  have one: "length (posix_parts p) = 1"
    and n: "n = (if has_suffix (report_extension format) (lower cleaned) then cleaned
        else cleaned @ report_extension format)" "safe_segment n" "py_len n \<le> 180"
    using ok by (auto simp: safe_filename_def Let_def f0 p_def cleaned_def
        validate_output_path_segment_def split: if_splits)
  from one have lst: "last (posix_parts p) \<in> set (posix_parts p)" by (intro last_in_set) auto
  have "\<not> is_ws c \<and> c \<noteq> CHR ''/'' \<and> c \<noteq> CHR 92" if "c \<in> set cleaned" for c
  proof -
    have "c \<in> set (last (posix_parts p)) \<or> c = CHR ''_''"
      using that by (auto simp: cleaned_def dest: squash_ws_chars strip_chars)
    then have "c \<noteq> CHR ''/'' \<and> c \<noteq> CHR 92"
      using posix_parts_chars [OF lst] by (auto simp: p_def)
    with squash_ws_clean that show ?thesis by (auto simp: cleaned_def)
  qed
  with n show ?thesis
    by (auto simp: clean_name_def list_all_iff lower_append lower_extension has_suffix_append
        dest: extension_chars)
qed

lemma clean_name_fixed:
  assumes "clean_name format n"
  shows "safe_filename n format = Inr n"
proof -
  have n: "n \<noteq> []" "\<not> drive_prefix n" "n \<noteq> ''..''" "n \<noteq> ''.''" "safe_segment n"
    using assms by (auto simp: clean_name_def safe_segment_def)
  have chars: "\<not> is_ws c" "c \<noteq> CHR ''/''" "c \<noteq> CHR 92" if "c \<in> set n" for c
    using assms that by (auto simp: clean_name_def list_all_iff)
  have "List.map (\<lambda>c. if c = CHR 92 then CHR ''/'' else c) n = n"
    using chars(3) by (auto intro!: map_idI)
  moreover have "posix_parts n = [n]"
  proof -
    have "CHR ''/'' \<notin> set n" using chars(2) by blast
    then show ?thesis using n by (simp add: posix_parts_def split_on_none)
  qed
  moreover have "\<not> posix_absolute n"
    using n(1) chars(2) by (cases n) (auto simp: posix_absolute_def)
  ultimately show ?thesis
    using assms n chars
    by (simp add: safe_filename_def required_non_empty_def strip_id squash_ws_id clean_name_def
        validate_output_path_segment_def)
qed

end
