(* ===== verification/Report_Properties.thy ===== *)
theory Report_Properties
  imports Report_Sample Report_Filename_Facts
begin

section \<open>Properties of the report workflow\<close>

text \<open>
  The properties of the report workflow over its runs, each with the sample run of
  \<open>Report_Sample\<close> as its witness.
\<close>

subsection \<open>Approvals decide about export\<close>

lemma approvals_of_version:
  assumes inv: "report_inv sha s" and w: "w \<in> set (st_versions s)" and b: "b \<in> set (st_approvals s)"
    and e: "ra_report_version_id b = rv_report_version_id w"
  shows "ra_report_id b = rv_report_id w"
proof -
  from inv b obtain v where v: "v \<in> set (st_versions s)" "rv_report_version_id v = ra_report_version_id b"
    "rv_report_id v = ra_report_id b"
    by (auto simp: report_inv_def approvals_inv_def approval_justified_def)
  with w e inv have "v = w" by (intro version_unique [of s]) (simp_all add: report_inv_def)
  with v show ?thesis by simp
qed

lemma latest_after_append:
  assumes inv: "report_inv sha s" and w: "w \<in> set (st_versions s)"
    and a: "ra_report_id a = rv_report_id w" "ra_report_version_id a = rv_report_version_id w"
    and l: "linked_approvals (report_approvals s (rv_report_id w) @ [a])"
    and t: "st_approvals t = st_approvals s @ [a]"
  shows "latest_approval t (rv_report_version_id w) = Some a"
proof -
  let ?k = "\<lambda>a. (ra_approval_revision a, ra_approval_id a)"
  let ?p = "\<lambda>b. ra_report_version_id b = rv_report_version_id w"
  have r: "report_approvals t (rv_report_id w) = report_approvals s (rv_report_id w) @ [a]"
    using a t by (simp add: report_approvals_def)
  have f: "filter ?p (st_approvals t) = filter ?p (report_approvals t (rv_report_id w))"
    using approvals_of_version [OF inv w] a t by (auto simp: report_approvals_def intro!: filter_cong)
  have "sorted (List.map ?k (filter ?p (report_approvals s (rv_report_id w) @ [a])))"
    by (rule sorted_filter) (rule linked_keys [OF l])
  then have "sort_key ?k (filter ?p (st_approvals t)) =
      filter ?p (report_approvals s (rv_report_id w)) @ [a]"
    unfolding f r using a by (simp add: sort_key_id_if_sorted)
  then show ?thesis by (simp add: latest_approval_def sqlite_list_approvals_def)
qed

lemma append_approval_result:
  assumes inv: "report_inv sha s" and w: "w \<in> set (st_versions s)"
    and v: "rv_report_version_id v = rv_report_version_id w" "rv_report_id v = rv_report_id w"
    and r: "append_approval env v d u x sid e s = (s', Inr a)"
  shows "latest_approval s' (rv_report_version_id w) = Some a"
    "ra_decision a = report_approval_decision_value d"
    "st_versions s' = st_versions s"
proof -
  have l: "linked_approvals (report_approvals s i)" for i
    using inv by (simp add: report_inv_def approvals_inv_def)
  have "wp (\<lambda>_. True) (append_approval env v d u x sid e) (\<lambda>a s'.
      latest_approval s' (rv_report_version_id w) = Some a \<and>
      ra_decision a = report_approval_decision_value d \<and> st_versions s' = st_versions s) s"
    unfolding append_approval_def Let_def
    by (auto simp: list_approvals_inv [OF inv] sqlite_append_approval_def linked_append
        linked_last [OF l] l v dest!: update_report_Inr split: sum.splits option.splits
        intro!: latest_after_append [OF inv w])
  from wp_Inr [OF this r] show "latest_approval s' (rv_report_version_id w) = Some a"
    "ra_decision a = report_approval_decision_value d" "st_versions s' = st_versions s" by simp_all
qed

lemma revoke_result:
  assumes inv: "report_inv sha s" and r: "revoke_approval env i u x e s = (s', Inr a)"
  shows "latest_approval s' i = Some a \<and> ra_decision a = ''REVOKED''"
proof -
  from r have "\<exists>v (b :: approval_record) reason. sqlite_get_report_version s i = Some v \<and>
      append_approval env (with_states s v) report_approval_decision.REVOKED u reason
        (ra_custody_snapshot_id b) e s = (s', Inr a)"
    unfolding revoke_approval_def get_version_def opt_res_def svc_bind_Inr svc_result
    by (auto split: option.splits if_splits)
  then obtain v and b :: approval_record and reason where v: "sqlite_get_report_version s i = Some v"
    and a: "append_approval env (with_states s v) report_approval_decision.REVOKED u reason
        (ra_custody_snapshot_id b) e s = (s', Inr a)" by blast
  from append_approval_result [OF inv _ _ _ a, of v] get_version_in [OF v] show ?thesis by simp
qed

lemma unapproved_refused:
  assumes "latest_approval s i = Some a" "ra_decision a \<noteq> ''APPROVED''" "eq_version_id q = i"
  shows "\<exists>err. prepare_export env rn q s = (s, Inl err)"
proof -
  have "wp (\<lambda>t. t = s) (prepare_export env rn q) (\<lambda>_ _. False) s"
    unfolding prepare_export_def using assms
    by (auto simp: wp_require_approved split: sum.splits option.splits dest!: get_version_in)
  then show ?thesis by (auto simp: wp_def split: prod.splits sum.splits)
qed

subsection \<open>One revision, one event\<close>

lemma written_event:
  assumes "write_review_event env v events q draft s = (s', Inr e)"
  shows "st_reviews s' = st_reviews s @ [e]" "rw_report_version_id e = rw_report_version_id draft"
    "rw_review_revision e = (if events = [] then 0 else rw_review_revision (last events)) + 1"
    "rw_action e = rw_action draft"
proof -
  have "wp (\<lambda>_. True) (write_review_event env v events q draft) (\<lambda>e s'.
      st_reviews s' = st_reviews s @ [e] \<and> rw_report_version_id e = rw_report_version_id draft \<and>
      rw_review_revision e = (if events = [] then 0 else rw_review_revision (last events)) + 1 \<and>
      rw_action e = rw_action draft) s"
    unfolding write_review_event_def Let_def
    by (auto simp: sqlite_append_review_event_def dest!: update_report_Inr split: sum.splits option.splits)
  from wp_Inr [OF this assms] show "st_reviews s' = st_reviews s @ [e]"
    "rw_report_version_id e = rw_report_version_id draft"
    "rw_review_revision e = (if events = [] then 0 else rw_review_revision (last events)) + 1"
    "rw_action e = rw_action draft" by simp_all
qed

lemma review_accepted:
  assumes inv: "report_inv sha s" and r: "append_review_event env q s = (s', Inr e)"
  obtains v changes draft where "sqlite_get_report_version s (wq_version_id q) = Some v"
    "review_guard (with_states s v) (version_events s (wq_version_id q)) q changes = Inr ()"
    "write_review_event env (with_states s v) (version_events s (wq_version_id q)) q draft s = (s', Inr e)"
    "rw_report_version_id draft = wq_version_id q"
    "rw_action draft = report_review_action_value (wq_action q)"
  using r unfolding append_review_event_def get_version_def opt_res_def svc_bind_Inr svc_result
  by (auto simp: list_reviews_inv [OF inv] dest!: get_version_in split: option.splits)

lemma review_appended:
  assumes inv: "report_inv sha s" and r: "append_review_event env q s = (s', Inr e)"
  shows "version_events s' (wq_version_id q) = version_events s (wq_version_id q) @ [e]"
    "rw_review_revision e = int (length (version_events s (wq_version_id q))) + 1"
    "wq_expected_revision q \<noteq> None \<Longrightarrow>
       wq_expected_revision q = Some (int (length (version_events s (wq_version_id q))))"
proof -
  let ?es = "version_events s (wq_version_id q)"
  obtain v changes draft where g: "review_guard (with_states s v) ?es q changes = Inr ()"
    and w: "write_review_event env (with_states s v) ?es q draft s = (s', Inr e)"
    and d: "rw_report_version_id draft = wq_version_id q"
    using review_accepted [OF inv r] by metis
  have l: "linked_reviews ?es" using inv by (simp add: report_inv_def reviews_inv_def)
  have n: "(if ?es = [] then 0 else rw_review_revision (last ?es)) = int (length ?es)"
    using linked_last [OF l] by simp
  show "version_events s' (wq_version_id q) = ?es @ [e]"
    using written_event(1,2) [OF w] d by (simp add: version_events_def)
  show "rw_review_revision e = int (length ?es) + 1" using written_event(3) [OF w] n by simp
  show "wq_expected_revision q = Some (int (length ?es))" if "wq_expected_revision q \<noteq> None"
    using g that unfolding review_guard_def Let_def n by (simp split: if_splits)
qed

subsection \<open>Snapshots and chains\<close>

lemma snapshot_loop_errors:
  "snapshot_loop env db es = Inr (events, errors, heads) \<Longrightarrow>
     errors = [] \<longleftrightarrow> list_all (\<lambda>e. sqlite_list_custody_events db e \<noteq> [] \<and>
       verify_chain sqlite_custody (rx_custody env) db e = Inr True) es"
  by (induction es arbitrary: events errors heads) (auto simp: Let_def split: if_splits)

lemma snapshot_status_iff:
  assumes "custody_snapshot_content env v evs u s = Inr c"
  shows "cn_verification_status c = ''VERIFIED'' \<longleftrightarrow> evs \<noteq> [] \<and>
    list_all (\<lambda>e. sqlite_list_custody_events (st_custody s) e \<noteq> [] \<and>
      verify_chain sqlite_custody (rx_custody env) (st_custody s) e = Inr True) evs"
proof -
  from assms obtain events errors heads where
    l: "snapshot_loop env (st_custody s) (sort evs) = Inr (events, errors, heads)"
    and c: "cn_verification_status c = snapshot_status evs errors"
    unfolding custody_snapshot_content_def Let_def by (auto split: if_splits)
  have "cn_verification_status c = ''VERIFIED'' \<longleftrightarrow> evs \<noteq> [] \<and> errors = []"
    unfolding c by (simp add: snapshot_status_def)
  with snapshot_loop_errors [OF l] show ?thesis by (simp add: list_all_iff)
qed

subsection \<open>Outcomes of rendering\<close>

definition final_status :: "string \<Rightarrow> bool" where
  "final_status t \<longleftrightarrow> t \<in> {''COMPLETED'', ''FAILED'', ''CANCELLED'', ''CAPABILITY_UNAVAILABLE''}"

lemma final_literals [simp]: "final_status ''COMPLETED''" "final_status ''FAILED''"
  "final_status ''CANCELLED''" "final_status ''CAPABILITY_UNAVAILABLE''"
  by (simp_all add: final_status_def)

definition settled :: "string \<Rightarrow> report_state \<Rightarrow> bool" where
  "settled i s \<longleftrightarrow> (\<forall>m \<in> set (st_manifests s). xm_export_manifest_id m = i \<longrightarrow> final_status (xm_status m))"

lemma stored_manifest_status [simp]:
  "xm_status (stored_export_manifest m) = xm_status m"
  "xm_export_manifest_id (stored_export_manifest m) = xm_export_manifest_id m"
  by (simp_all add: stored_export_manifest_def)

lemma settled_updates [simp]:
  "settled i (s\<lparr>st_ticks := n\<rparr>) = settled i s" "settled i (s\<lparr>st_minted := n\<rparr>) = settled i s"
  by (simp_all add: settled_def)

lemma update_settles: "sqlite_update_export_manifest m s = Inr s' \<Longrightarrow> final_status (xm_status m) \<Longrightarrow>
    xm_export_manifest_id m = i \<Longrightarrow> settled i s'"
  by (auto simp: sqlite_update_export_manifest_def settled_def)

lemma artifact_settles: "sqlite_save_rendered_artifact a m r s = Inr s' \<Longrightarrow>
    final_status (xm_status m) \<Longrightarrow> xm_export_manifest_id m = i \<Longrightarrow> settled i s'"
  by (auto simp: sqlite_save_rendered_artifact_def settled_def dest!: update_report_Inr
      dest: update_settles [unfolded settled_def, of m _ _ i])

lemma audit_settled: "settled i s \<Longrightarrow>
    wp (\<lambda>_. True) (append_export_audit env m a u t d) (\<lambda>_. settled i) s"
  by (auto simp: append_export_audit_def Let_def sqlite_append_export_audit_def settled_def
      split: sum.splits)

lemma found_id: "sqlite_get_export_manifest s i = Some m \<Longrightarrow> xm_export_manifest_id m = i"
  by (auto simp: sqlite_get_export_manifest_def find_Some_iff)

lemma complete_settles: "xm_export_manifest_id m = i \<Longrightarrow>
    wp (\<lambda>_. True) (complete_export env m a) (\<lambda>_. settled i) s"
  unfolding complete_export_def Let_def wp_bind
  by (auto split: sum.splits option.splits intro!: wp_mono [OF audit_settled] elim!: artifact_settles)

lemma record_settles: "wp (\<lambda>_. True) (record_export_result env i d) (\<lambda>_. settled i) s"
  unfolding record_export_result_def Let_def wp_bind wp_get_manifest wp_if
  by (auto split: sum.splits option.splits dest: found_id
      intro!: wp_mono [OF audit_settled] wp_mono [OF complete_settles] elim!: update_settles)

lemma fail_settles: "xm_export_manifest_id m = i \<Longrightarrow>
    wp (\<lambda>_. True) (fail_export env m e) (\<lambda>_. settled i) s"
  unfolding fail_export_def Let_def wp_bind
  by (auto split: sum.splits intro!: audit_settled elim!: update_settles)

lemma settled_found: "settled i s \<Longrightarrow>
    wp (\<lambda>_. True) (get_export_manifest i) (\<lambda>m _. final_status (xm_status m)) s"
  by (auto simp: wp_get_manifest settled_def sqlite_get_export_manifest_def find_Some_iff
      split: option.splits)

lemma outcome_rules:
  "(\<And>x. Qo x s) \<Longrightarrow> wp (\<lambda>_. True) (svc_of r) Qo s"
  "Qo x s \<Longrightarrow> wp (\<lambda>_. True) (svc_ret x) Qo s"
  "(\<And>u. Qu u s) \<Longrightarrow> wp (\<lambda>_. True) (svc_guard c e) Qu s"
  "(\<And>u s'. Qu u s') \<Longrightarrow> wp (\<lambda>_. True) (svc_write w) Qu s"
  "(\<And>u s'. Qu u s') \<Longrightarrow> wp (\<lambda>_. True) (append_export_audit env m a b t d) Qu s"
  "(\<And>m. xm_export_manifest_id m = i \<Longrightarrow> Qm m s) \<Longrightarrow> wp (\<lambda>_. True) (get_export_manifest i) Qm s"
  "(\<And>p. Qp p s) \<Longrightarrow> wp (\<lambda>_. True) (get_render_package j) Qp s"
  by (auto simp: wp_def svc_defs get_export_manifest_def get_render_package_def opt_res_def
      dest: found_id split: prod.splits sum.splits option.splits)

lemma render_settles: "wp (\<lambda>_. True) (render_export env rn i) (\<lambda>m _. final_status (xm_status m)) s"
proof -
  have handled: "wp (\<lambda>_. True) (svc_catch (svc_bind (svc_of a) (\<lambda>_. svc_bind (svc_of b) (\<lambda>result.
      svc_bind (svc_of (c result)) (\<lambda>_. svc_bind (record_export_result env i result) (\<lambda>_. svc_ret ())))))
      is_report_error (fail_export env m)) (\<lambda>_. settled i) t"
    if "xm_export_manifest_id m = i" for a b c m t i
    by (rule wp_catchI [where J = "\<lambda>_. True"])
      (auto split: sum.splits intro!: wp_mono [OF record_settles] fail_settles that)
  show ?thesis
    unfolding render_export_def Let_def wp_bind wp_if
    by (intro outcome_rules if_bool_eq_conj [THEN iffD2] conjI impI wp_bind [THEN iffD2];
      simp?) (auto intro!: wp_mono [OF handled] settled_found)
qed

subsection \<open>Properties\<close>

text \<open>C28: an export manifest, in any state the service can reach, cites an approval that approved
  exactly this content; the approval refers to a custody snapshot of this version that was
  verified, and to a review of this version that was completed when every required section had
  been accepted.\<close>

theorem exports_are_justified:
  assumes "report_run sha s t" "no_reports s" "m \<in> set (st_manifests t)"
  shows "\<exists>a \<in> set (st_approvals t). \<exists>v \<in> set (st_versions t). \<exists>c \<in> set (st_snapshots t). \<exists>n.
    ra_approval_id a = xm_approval_id m \<and> ra_decision a = ''APPROVED'' \<and>
    rv_report_version_id v = xm_report_version_id m \<and> ra_report_version_id a = xm_report_version_id m \<and>
    rv_content_fingerprint v = xm_content_fingerprint m \<and>
    ra_content_fingerprint a = xm_content_fingerprint m \<and>
    xm_custody_snapshot_id m = Some (cn_custody_snapshot_id c) \<and>
    cn_report_version_id c = xm_report_version_id m \<and> cn_verification_status c = ''VERIFIED'' \<and>
    completed_at v (sqlite_list_review_events t (xm_report_version_id m)) n"
proof -
  have inv: "report_inv sha t" by (rule report_run_sound [OF assms(1,2)])
  then obtain a where a: "a \<in> set (st_approvals t)" "ra_approval_id a = xm_approval_id m"
    "ra_decision a = ''APPROVED''" "ra_report_version_id a = xm_report_version_id m"
    "ra_content_fingerprint a = xm_content_fingerprint m"
    "ra_custody_snapshot_id a = xm_custody_snapshot_id m"
    using assms(3) by (auto simp: report_inv_def manifests_inv_def manifest_justified_def)
  with inv have "approval_justified t a" by (auto simp: report_inv_def approvals_inv_def)
  with a(3) obtain v c n where v: "v \<in> set (st_versions t)" "rv_report_version_id v = ra_report_version_id a"
    "rv_content_fingerprint v = ra_content_fingerprint a"
    "completed_at v (version_events t (rv_report_version_id v)) n"
    and c: "c \<in> set (st_snapshots t)" "ra_custody_snapshot_id a = Some (cn_custody_snapshot_id c)"
    "cn_report_version_id c = ra_report_version_id a" "cn_verification_status c = ''VERIFIED''"
    unfolding approval_justified_def snapshot_supports_def by auto
  show ?thesis
    unfolding list_reviews_inv [OF inv]
    by (rule bexI [OF _ a(1)], rule bexI [OF _ v(1)], rule bexI [OF _ c(1)], rule exI [of _ n])
      (use a v c in simp)
qed

lemma exports_are_justified_witness:
  "\<exists>m \<in> set (st_manifests (sample_run 7)). \<exists>a \<in> set (st_approvals (sample_run 7)).
     ra_approval_id a = xm_approval_id m \<and> xm_status m = ''COMPLETED'' \<and> ra_decision a = ''APPROVED''"
proof -
  obtain m where m: "m \<in> set (st_manifests (sample_run 7))" "xm_status m = ''COMPLETED''"
    using sample_exported(1) by (cases "st_manifests (sample_run 7)") auto
  with exports_are_justified [OF sample_reached sample_no_reports(1) m(1)] show ?thesis by blast
qed

text \<open>C33: the review log of every version and the approval log of every report are numbered from 1
  without gap, each entry refers to the hash of the one before, and each stored hash is the hash of
  the stored entry.\<close>

theorem report_logs_sound:
  assumes "report_run sha s t" "no_reports s"
  shows "linked_reviews (sqlite_list_review_events t i) \<and>
    linked_approvals (sqlite_list_approvals t (Some j) None) \<and>
    list_all (review_hash_ok sha) (st_reviews t) \<and> list_all (approval_hash_ok sha) (st_approvals t)"
proof -
  have inv: "report_inv sha t" by (rule report_run_sound [OF assms])
  then have "reviews_inv sha t" "approvals_inv sha t" by (simp_all add: report_inv_def)
  then show ?thesis
    unfolding list_reviews_inv [OF inv] list_approvals_inv [OF inv]
    by (simp add: reviews_inv_def approvals_inv_def list_all_iff)
qed

lemma report_logs_sound_witness:
  "linked_reviews (sqlite_list_review_events (sample_run 4) ''i1'') \<and>
   list_all (review_hash_ok sample_hash) (st_reviews (sample_run 4)) \<and>
   length (sqlite_list_review_events (sample_run 4) ''i1'') = 2"
proof -
  have "length (sqlite_list_review_events (sample_run 4) ''i1'') = 2"
    using sample_with_review by (simp add: with_review_def Let_def)
  with report_logs_sound [OF sample_reached sample_no_reports(1), of 4 "''i1''" "''i0''"] show ?thesis by simp
qed

text \<open>The versions of a report are numbered 1, 2, 3, ... up to the number its record states,
  and every version belongs to a stored report.\<close>

lemma versions_numbered:
  assumes "report_run sha s t" "no_reports s" "sqlite_get_report t i = Some r"
  shows "List.map rv_version_number (sqlite_list_report_versions t i) = [1..rr_latest_version_number r]"
proof -
  have inv: "reports_inv t" using report_run_sound [OF assms(1,2)] by (simp add: report_inv_def)
  from get_report_in [OF assms(3)] inv have n: "List.map rv_version_number
      (filter (\<lambda>v. rv_report_id v = i) (st_versions t)) = [1..rr_latest_version_number r]"
    by (auto simp: reports_inv_def)
  let ?vs = "filter (\<lambda>v. rv_report_id v = i) (st_versions t)"
  have "sorted (List.map (\<lambda>v. (rv_version_number v, rv_report_version_id v)) ?vs)"
  proof -
    have "rv_version_number (?vs ! k) = 1 + int k" if k: "k < length ?vs" for k
    proof -
      have "k < length [1..rr_latest_version_number r]" using k unfolding n [symmetric] by simp
      then have "[1..rr_latest_version_number r] ! k = 1 + int k" by (intro nth_upto) simp
      then show ?thesis unfolding n [symmetric] nth_map [OF k] .
    qed
    then show ?thesis by (auto simp: sorted_iff_nth_mono_less less_eq_prod_simp)
  qed
  then show ?thesis by (simp add: sqlite_list_report_versions_def sort_key_id_if_sorted n)
qed

text \<open>C34: after a revocation has returned, no export of that version can be prepared: the call
  raises and writes nothing.\<close>

theorem revocation_blocks_export:
  assumes "report_run sha s0 s" "no_reports s0"
    and "revoke_approval env i u x e s = (s', Inr a)" "eq_version_id q = i"
  shows "\<exists>err. prepare_export env' rn q s' = (s', Inl err)"
  using revoke_result [OF report_run_sound [OF assms(1,2)] assms(3)] unapproved_refused [of s' i a q]
    assms(4) by simp

lemma revocation_blocks_export_witness:
  "\<exists>s' a err. revoke_approval report_sample_env ''i1'' ''b'' ''ok'' None (sample_run 5) = (s', Inr a) \<and>
     prepare_export report_sample_env None sample_export s' = (s', Inl err)"
proof -
  obtain s' a where r: "revoke_approval report_sample_env ''i1'' ''b'' ''ok'' None (sample_run 5) = (s', Inr a)"
    using sample_with_approval is_ok_result unfolding with_approval_def by blast
  from revocation_blocks_export [OF sample_reached sample_no_reports(1) r, of sample_export report_sample_env None]
  show ?thesis using r by (simp add: sample_export_def)
qed

text \<open>C35: two reviewers who act on the same review revision of a version cannot both succeed.\<close>

theorem review_revision_granted_once:
  assumes "report_run sha s0 s" "no_reports s0" "rx_sha env = sha"
    and "append_review_event env q s = (s', Inr e)"
    and "wq_expected_revision q = Some n" "wq_expected_revision q' = Some n"
    and "wq_version_id q' = wq_version_id q"
  shows "\<exists>err. snd (append_review_event env' q' s') = Inl err"
proof -
  have run: "report_run sha s0 s'"
    using report_run.run_call [OF assms(1,3), of "Review q"] assms(4) by simp
  note inv = report_run_sound [OF assms(1,2)] report_run_sound [OF run assms(2)]
  show ?thesis
  proof (cases "append_review_event env' q' s'")
    case (Pair s2 r)
    then show ?thesis
      using review_appended(1,3) [OF inv(1) assms(4)] review_appended(3) [OF inv(2)] assms(5-7)
      by (cases r) fastforce+
  qed
qed

lemma review_revision_granted_once_witness:
  "\<exists>s' e err. append_review_event report_sample_env (sample_first ACCEPT_SECTION) (sample_run 2) = (s', Inr e) \<and>
     snd (append_review_event report_sample_env (sample_first REJECT_SECTION) s') = Inl err"
proof -
  obtain s' e where r: "append_review_event report_sample_env (sample_first ACCEPT_SECTION) (sample_run 2) = (s', Inr e)"
    using sample_with_version is_ok_result unfolding with_version_def by blast
  have "rx_sha report_sample_env = sample_hash" by (simp add: report_sample_env_def)
  from review_revision_granted_once [OF sample_reached sample_no_reports(1) this r,
      of 0 "sample_first REJECT_SECTION" report_sample_env]
  show ?thesis using r by (auto simp: sample_first_def sample_review_def)
qed

text \<open>C36: a custody snapshot is VERIFIED exactly when it names some evidence and the custody chain
  of every piece of evidence it names is not empty and verifies.\<close>

theorem snapshot_verified_iff:
  assumes "custody_snapshot_content env v evs u s = Inr c"
  shows "cn_verification_status c = ''VERIFIED'' \<longleftrightarrow> evs \<noteq> [] \<and>
    list_all (\<lambda>e. sqlite_list_custody_events (st_custody s) e \<noteq> [] \<and>
      verify_chain sqlite_custody (rx_custody env) (st_custody s) e = Inr True) evs"
  by (rule snapshot_status_iff [OF assms])

lemma snapshot_verified_iff_witness:
  "\<exists>c. custody_snapshot_content report_sample_env (hd (st_versions (sample_run 2))) [''E1''] ''b'' report_sample_state = Inr c \<and>
     cn_verification_status c = ''VERIFIED''"
proof -
  obtain c where c: "custody_snapshot_content report_sample_env (hd (st_versions (sample_run 2))) [''E1''] ''b''
      report_sample_state = Inr c"
    using sample_with_version unfolding with_version_def
    by (cases "custody_snapshot_content report_sample_env (hd (st_versions (sample_run 2))) [''E1''] ''b'' report_sample_state") auto
  have "sqlite_list_custody_events (st_custody report_sample_state) ''E1'' \<noteq> []" by code_simp
  moreover have "verify_chain sqlite_custody (rx_custody report_sample_env) (st_custody report_sample_state) ''E1'' = Inr True"
    by code_simp
  ultimately show ?thesis using c snapshot_verified_iff [OF c] by simp
qed

text \<open>C37: an export file name is one portable path segment: at most 180 characters, the extension
  of the format, no white space, separator, drive prefix, reserved name or traversal; and
  sanitising it again gives the same name.\<close>

theorem filename_safe:
  assumes "safe_filename f format = Inr n"
  shows "safe_segment n \<and> py_len n \<le> 180 \<and> has_suffix (report_extension format) (lower n) \<and>
    list_all (\<lambda>c. \<not> is_ws c \<and> c \<noteq> CHR ''/'' \<and> c \<noteq> CHR 92) n \<and> safe_filename n format = Inr n"
  using safe_filename_clean [OF assms] clean_name_fixed by (auto simp: clean_name_def)

lemma filename_safe_witness:
  "safe_filename ''my report'' ''PDF'' = Inr ''my_report.pdf'' \<and>
   safe_filename ''my_report.pdf'' ''PDF'' = Inr ''my_report.pdf''"
proof -
  have "safe_filename ''my report'' ''PDF'' = Inr ''my_report.pdf''" by code_simp
  with filename_safe [OF this] show ?thesis by simp
qed




text \<open>C40: versions, review events, approvals, custody snapshots, packages, artifacts and export
  audit events are immutable: whatever is called later, the tables only grow at their end.\<close>

theorem report_history_immutable:
  assumes "report_run sha s t" "tables_typed s"
  shows "history_kept s t"
  using report_run_history [OF assms] by blast

lemma report_history_immutable_witness:
  "history_kept (sample_run 2) (fold (run_call report_sample_env) (drop 2 sample_calls) (sample_run 2)) \<and>
   st_versions (sample_run 2) \<noteq> []"
proof -
  have run: "report_run sample_hash (sample_run 2)
      (fold (run_call report_sample_env) (drop 2 sample_calls) (sample_run 2))"
    by (rule fold_run [OF run_start]) (simp add: report_sample_env_def)
  have typed: "tables_typed (sample_run 2)"
    by (rule conjunct1 [OF report_run_history [OF sample_reached sample_no_reports(2)]])
  have "st_versions (sample_run 2) \<noteq> []" using sample_with_version by (simp add: with_version_def)
  with report_history_immutable [OF run typed] show ?thesis by blast
qed


subsection \<open>What the workflow lets happen\<close>

text \<open>\<open>complete_review\<close> says that a review must be submitted first; any event, here the acceptance
  of a section, opens it: the sample review is complete and nothing was ever submitted.\<close>

lemma completed_without_submission:
  "review_status_from_events (sqlite_list_review_events (sample_run 4) ''i1'') = ''REVIEW_COMPLETE'' \<and>
   list_all (\<lambda>e. rw_action e \<noteq> report_review_action_value SUBMIT_FOR_REVIEW)
     (sqlite_list_review_events (sample_run 4) ''i1'')"
  using sample_with_review by (simp add: with_review_def Let_def)

text \<open>An approval outlives the review it rests on: the export is prepared although the review was
  reopened after the approval.\<close>

lemma reopened_review_exports:
  "is_ok (snd (prepare_export report_sample_env None sample_export
     (run_call report_sample_env (Review (sample_review REOPEN_REVIEW None)) (sample_run 5))))"
  using sample_with_approval unfolding with_approval_def by blast

text \<open>\<open>render_export\<close> handles \<open>ReportError\<close> only.  A result without a size raises a validation
  error: the manifest stays RENDERING, it cannot be rendered again, and a new export of the same
  content is answered with it.\<close>

lemma invalid_result_leaves_rendering:
  "List.map xm_status (st_manifests (run_call report_sample_env (RenderExport (Some sizeless_renderer) ''i7'')
     (sample_run 6))) = [''RENDERING'']"
  using sample_with_rendering by (simp add: with_rendering_def)

end
