(* ===== verification/Engine_Interface.thy ===== *)
theory Engine_Interface
  imports Report_Enums "HOL-Library.Product_Lexorder"
begin

section \<open>The public engine interface\<close>

text \<open>
  \<open>EngineInterfaceService\<close> of \<open>application/services/context.py\<close>: the operation names with their
  aliases, the tool descriptors it registers in the repository, which operations mutate, the
  readers of an invocation payload and the answer envelopes.  The values of a payload come from
  JSON, so a list is a \<open>PList\<close> and an object a \<open>PDict\<close>.
\<close>

subsection \<open>Operation names\<close>

definition operation_aliases :: "(string \<times> string) list" where
  "operation_aliases = [
     (''context.get'', ''context.get''), (''apex.context.get'', ''context.get''),
     (''context.snapshot'', ''context.snapshot''), (''apex.context.snapshot'', ''context.snapshot''),
     (''context.snapshot-show'', ''context.snapshot-show''),
     (''context.snapshot_show'', ''context.snapshot-show''),
     (''apex.context.snapshot_show'', ''context.snapshot-show''),
     (''apex.context.snapshot-show'', ''context.snapshot-show''),
     (''context.scope-page'', ''context.scope-page''), (''context.scope_page'', ''context.scope-page''),
     (''apex.context.scope_page'', ''context.scope-page''),
     (''apex.context.scope-page'', ''context.scope-page''), (''view.simple'', ''view.simple''),
     (''apex.view.simple'', ''view.simple''), (''view.detailed'', ''view.detailed''),
     (''apex.view.detailed'', ''view.detailed''), (''view.raw'', ''view.raw''),
     (''apex.view.raw'', ''view.raw''), (''view.raw-read'', ''view.raw-read''),
     (''view.raw_read'', ''view.raw-read''), (''apex.view.raw_read'', ''view.raw-read''),
     (''apex.view.raw-read'', ''view.raw-read''), (''ai.request.create'', ''ai.request.create''),
     (''ai.request.get'', ''ai.request.get''), (''ai.request.list'', ''ai.request.list''),
     (''ai.request.execute'', ''ai.request.execute''),
     (''ai.keyword-batch.get'', ''ai.keyword-batch.get''),
     (''ai.keyword_batch.get'', ''ai.keyword-batch.get''),
     (''ai.keyword-recommendation.get'', ''ai.keyword-recommendation.get''),
     (''ai.keyword_recommendation.get'', ''ai.keyword-recommendation.get''),
     (''ai.keyword-recommendation.list'', ''ai.keyword-recommendation.list''),
     (''ai.keyword_recommendation.list'', ''ai.keyword-recommendation.list''),
     (''ai.scope-summary.get'', ''ai.scope-summary.get''),
     (''ai.scope_summary.get'', ''ai.scope-summary.get''),
     (''ai.scope-summary.list'', ''ai.scope-summary.list''),
     (''ai.scope_summary.list'', ''ai.scope-summary.list''),
     (''ai.verification.history'', ''ai.verification.history''),
     (''ai.promotion.preview'', ''ai.promotion.preview''), (''ai.capabilities'', ''ai.capabilities''),
     (''ai.keyword-batch.ingest'', ''ai.keyword-batch.ingest''),
     (''ai.keyword_batch.ingest'', ''ai.keyword-batch.ingest''),
     (''ai.scope-summary.ingest'', ''ai.scope-summary.ingest''),
     (''ai.scope_summary.ingest'', ''ai.scope-summary.ingest''),
     (''ai.keyword-recommendation.review'', ''ai.keyword-recommendation.review''),
     (''ai.keyword_recommendation.review'', ''ai.keyword-recommendation.review''),
     (''ai.scope-summary.review'', ''ai.scope-summary.review''),
     (''ai.scope_summary.review'', ''ai.scope-summary.review''),
     (''ai.keyword-recommendation.promote'', ''ai.keyword-recommendation.promote''),
     (''ai.keyword_recommendation.promote'', ''ai.keyword-recommendation.promote''),
     (''report.get'', ''report.get''), (''apex.report.get'', ''report.get''),
     (''report.list'', ''report.list''), (''apex.report.list'', ''report.list''),
     (''report.version.get'', ''report.version.get''), (''report.version_get'', ''report.version.get''),
     (''apex.report.version.get'', ''report.version.get''),
     (''report.version.list'', ''report.version.list''),
     (''report.version_list'', ''report.version.list''),
     (''apex.report.version.list'', ''report.version.list''),
     (''report.version.compare'', ''report.version.compare''),
     (''report.version_compare'', ''report.version.compare''),
     (''apex.report.version.compare'', ''report.version.compare''),
     (''report.review.history'', ''report.review.history''),
     (''report.review_history'', ''report.review.history''),
     (''apex.report.review.history'', ''report.review.history''),
     (''report.approval.get'', ''report.approval.get''),
     (''report.approval_get'', ''report.approval.get''),
     (''apex.report.approval.get'', ''report.approval.get''),
     (''report.custody-snapshot.get'', ''report.custody-snapshot.get''),
     (''report.custody_snapshot.get'', ''report.custody-snapshot.get''),
     (''apex.report.custody-snapshot.get'', ''report.custody-snapshot.get''),
     (''report.render-package.get'', ''report.render-package.get''),
     (''report.render_package.get'', ''report.render-package.get''),
     (''apex.report.render-package.get'', ''report.render-package.get''),
     (''report.export-manifest.get'', ''report.export-manifest.get''),
     (''report.export_manifest.get'', ''report.export-manifest.get''),
     (''apex.report.export-manifest.get'', ''report.export-manifest.get''),
     (''report.export-status'', ''report.export-status''),
     (''report.export_status'', ''report.export-status''),
     (''apex.report.export-status'', ''report.export-status''),
     (''report.capabilities'', ''report.capabilities''),
     (''apex.report.capabilities'', ''report.capabilities''), (''report.create'', ''report.create''),
     (''apex.report.create'', ''report.create''),
     (''report.version.create'', ''report.version.create''),
     (''report.version_create'', ''report.version.create''),
     (''apex.report.version.create'', ''report.version.create''),
     (''report.ai-draft.ingest'', ''report.ai-draft.ingest''),
     (''report.ai_draft.ingest'', ''report.ai-draft.ingest''),
     (''apex.report.ai-draft.ingest'', ''report.ai-draft.ingest''),
     (''report.review.submit'', ''report.review.submit''),
     (''apex.report.review.submit'', ''report.review.submit''),
     (''report.review.comment'', ''report.review.comment''),
     (''apex.report.review.comment'', ''report.review.comment''),
     (''report.review.request-changes'', ''report.review.request-changes''),
     (''report.review.request_changes'', ''report.review.request-changes''),
     (''apex.report.review.request-changes'', ''report.review.request-changes''),
     (''report.review.accept-section'', ''report.review.accept-section''),
     (''report.review.accept_section'', ''report.review.accept-section''),
     (''apex.report.review.accept-section'', ''report.review.accept-section''),
     (''report.review.reject-section'', ''report.review.reject-section''),
     (''report.review.reject_section'', ''report.review.reject-section''),
     (''apex.report.review.reject-section'', ''report.review.reject-section''),
     (''report.review.complete'', ''report.review.complete''),
     (''apex.report.review.complete'', ''report.review.complete''),
     (''report.review.reopen'', ''report.review.reopen''),
     (''apex.report.review.reopen'', ''report.review.reopen''),
     (''report.approve'', ''report.approve''), (''apex.report.approve'', ''report.approve''),
     (''report.reject'', ''report.reject''), (''apex.report.reject'', ''report.reject''),
     (''report.approval.revoke'', ''report.approval.revoke''),
     (''apex.report.approval.revoke'', ''report.approval.revoke''),
     (''report.custody-snapshot.create'', ''report.custody-snapshot.create''),
     (''report.custody_snapshot.create'', ''report.custody-snapshot.create''),
     (''apex.report.custody-snapshot.create'', ''report.custody-snapshot.create''),
     (''report.render-package.create'', ''report.render-package.create''),
     (''report.render_package.create'', ''report.render-package.create''),
     (''apex.report.render-package.create'', ''report.render-package.create''),
     (''report.export.prepare'', ''report.export.prepare''),
     (''apex.report.export.prepare'', ''report.export.prepare''),
     (''report.export.record-result'', ''report.export.record-result''),
     (''report.export.record_result'', ''report.export.record-result''),
     (''apex.report.export.record-result'', ''report.export.record-result''),
     (''report.archive'', ''report.archive''), (''apex.report.archive'', ''report.archive'')]"

text \<open>\<open>_canonical_operation\<close>: the name as given, else with \<open>_\<close> replaced by \<open>-\<close>.\<close>

definition unknown_operation :: "string \<Rightarrow> exn" where
  "unknown_operation operation = unsupported_capability_error ''Unknown public read operation.''
     (Some ''operation'') (Some operation)"

definition canonical_operation :: "string \<Rightarrow> string res" where
  "canonical_operation operation =
     (case map_of operation_aliases operation of
        Some c \<Rightarrow> Inr c
      | None \<Rightarrow>
          (case map_of operation_aliases
              (List.map (\<lambda>c. if c = CHR ''_'' then CHR ''-'' else c) operation) of
             Some c \<Rightarrow> Inr c
           | None \<Rightarrow> Inl (unknown_operation operation)))"

subsection \<open>Tool descriptors\<close>

text \<open>Tool name, operation, description key, input and output schema, required capabilities; mutates,
  requires confirmation, paginates, may be partial, cites; and the maximal number of result items.\<close>

type_synonym tool_spec = "string \<times> string \<times> string \<times> string \<times> string \<times> string list \<times>
  bool \<times> bool \<times> bool \<times> bool \<times> bool \<times> int"

type_synonym report_schema = "string \<times> string \<times> string \<times> bool \<times> bool \<times> bool \<times> bool \<times> bool \<times> int"

definition tool_descriptor_specs :: "tool_spec list" where
  "tool_descriptor_specs = [
     (''apex.context.get'', ''context.get'', ''tool.apex.context.get'',
      ''gui-session-context.schema.json'', ''gui-session-context.schema.json'', [''CONTEXT_SNAPSHOT''],
      False, False, False, True, True, 1),
     (''apex.context.snapshot'', ''context.snapshot'', ''tool.apex.context.snapshot'',
      ''gui-session-context.schema.json'', ''analysis-context-snapshot.schema.json'',
      [''CONTEXT_SNAPSHOT''],
      True, False, False, True, True, 1),
     (''apex.context.snapshot_show'', ''context.snapshot-show'', ''tool.apex.context.snapshot_show'',
      ''analysis-context-snapshot.schema.json'', ''analysis-context-snapshot.schema.json'',
      [''CONTEXT_SNAPSHOT''],
      False, False, False, True, True, 1),
     (''apex.context.scope_page'', ''context.scope-page'', ''tool.apex.context.scope_page'',
      ''analysis-scope-context.schema.json'', ''view-projection.schema.json'', [''CONTEXT_SNAPSHOT''],
      False, False, True, True, True, 1000),
     (''apex.view.simple'', ''view.simple'', ''tool.apex.view.simple'',
      ''view-projection.schema.json'', ''view-projection.schema.json'', [''SIMPLE_DETAILED_RAW_VIEW''],
      False, False, False, True, True, 1),
     (''apex.view.detailed'', ''view.detailed'', ''tool.apex.view.detailed'',
      ''view-projection.schema.json'', ''view-projection.schema.json'', [''SIMPLE_DETAILED_RAW_VIEW''],
      False, False, False, True, True, 1),
     (''apex.view.raw'', ''view.raw'', ''tool.apex.view.raw'',
      ''view-projection.schema.json'', ''view-projection.schema.json'', [''SIMPLE_DETAILED_RAW_VIEW''],
      False, False, False, True, True, 1),
     (''apex.view.raw_read'', ''view.raw-read'', ''tool.apex.view.raw_read'',
      ''raw-read-request.schema.json'', ''raw-read-response.schema.json'', [''SAFE_RAW_READ''],
      False, True, True, True, True, 1),
     (''ai.request.create'', ''ai.request.create'', ''tool.ai.request.create'',
      ''ai-assistance-request.schema.json'', ''ai-assistance-request.schema.json'',
      [''AI_ASSISTANCE_ENGINE_CONTRACT''],
      True, False, False, True, True, 1),
     (''ai.request.get'', ''ai.request.get'', ''tool.ai.request.get'',
      ''ai-assistance-request.schema.json'', ''ai-assistance-request.schema.json'',
      [''AI_ASSISTANCE_ENGINE_CONTRACT''],
      False, False, False, True, True, 1),
     (''ai.request.execute'', ''ai.request.execute'', ''tool.ai.request.execute'',
      ''ai-provider-execute-request.schema.json'', ''ai-provider-execute-result.schema.json'',
      [''AI_ASSISTANCE_ENGINE_CONTRACT''],
      True, False, False, True, True, 1),
     (''ai.request.list'', ''ai.request.list'', ''tool.ai.request.list'',
      ''ai-assistance-request.schema.json'', ''ai-assistance-request.schema.json'',
      [''AI_ASSISTANCE_ENGINE_CONTRACT''],
      False, False, True, True, True, 1000),
     (''ai.keyword-batch.ingest'', ''ai.keyword-batch.ingest'', ''tool.ai.keyword_batch.ingest'',
      ''ai-keyword-recommendation-batch.schema.json'', ''ai-keyword-recommendation-batch.schema.json'',
      [''AI_ASSISTANCE_ENGINE_CONTRACT''],
      True, False, False, True, True, 1),
     (''ai.keyword-batch.get'', ''ai.keyword-batch.get'', ''tool.ai.keyword_batch.get'',
      ''ai-keyword-recommendation-batch.schema.json'', ''ai-keyword-recommendation-batch.schema.json'',
      [''AI_ASSISTANCE_ENGINE_CONTRACT''],
      False, False, False, True, True, 1),
     (''ai.keyword-recommendation.get'', ''ai.keyword-recommendation.get'',
      ''tool.ai.keyword_recommendation.get'',
      ''ai-keyword-recommendation.schema.json'', ''ai-keyword-recommendation.schema.json'',
      [''AI_ASSISTANCE_ENGINE_CONTRACT''],
      False, False, False, True, True, 1),
     (''ai.keyword-recommendation.list'', ''ai.keyword-recommendation.list'',
      ''tool.ai.keyword_recommendation.list'',
      ''ai-keyword-recommendation.schema.json'', ''ai-keyword-recommendation.schema.json'',
      [''AI_ASSISTANCE_ENGINE_CONTRACT''],
      False, False, True, True, True, 1000),
     (''ai.scope-summary.ingest'', ''ai.scope-summary.ingest'', ''tool.ai.scope_summary.ingest'',
      ''ai-scope-summary.schema.json'', ''ai-scope-summary.schema.json'',
      [''AI_ASSISTANCE_ENGINE_CONTRACT''],
      True, False, False, True, True, 1),
     (''ai.scope-summary.get'', ''ai.scope-summary.get'', ''tool.ai.scope_summary.get'',
      ''ai-scope-summary.schema.json'', ''ai-scope-summary.schema.json'',
      [''AI_ASSISTANCE_ENGINE_CONTRACT''],
      False, False, False, True, True, 1),
     (''ai.scope-summary.list'', ''ai.scope-summary.list'', ''tool.ai.scope_summary.list'',
      ''ai-scope-summary.schema.json'', ''ai-scope-summary.schema.json'',
      [''AI_ASSISTANCE_ENGINE_CONTRACT''],
      False, False, True, True, True, 1000),
     (''ai.keyword-recommendation.review'', ''ai.keyword-recommendation.review'',
      ''tool.ai.keyword_recommendation.review'',
      ''ai-verification-event.schema.json'', ''ai-verification-event.schema.json'',
      [''AI_ASSISTANCE_ENGINE_CONTRACT''],
      True, True, False, True, True, 1),
     (''ai.scope-summary.review'', ''ai.scope-summary.review'', ''tool.ai.scope_summary.review'',
      ''ai-verification-event.schema.json'', ''ai-verification-event.schema.json'',
      [''AI_ASSISTANCE_ENGINE_CONTRACT''],
      True, True, False, True, True, 1),
     (''ai.verification.history'', ''ai.verification.history'', ''tool.ai.verification.history'',
      ''ai-verification-event.schema.json'', ''ai-verification-event.schema.json'',
      [''AI_ASSISTANCE_ENGINE_CONTRACT''],
      False, False, True, True, True, 1000),
     (''ai.promotion.preview'', ''ai.promotion.preview'', ''tool.ai.promotion.preview'',
      ''ai-keyword-promotion.schema.json'', ''ai-keyword-promotion.schema.json'',
      [''AI_ASSISTANCE_ENGINE_CONTRACT''],
      False, True, False, True, True, 1),
     (''ai.keyword-recommendation.promote'', ''ai.keyword-recommendation.promote'',
      ''tool.ai.keyword_recommendation.promote'',
      ''ai-keyword-promotion.schema.json'', ''ai-keyword-promotion.schema.json'',
      [''AI_ASSISTANCE_ENGINE_CONTRACT''],
      True, True, False, True, True, 1),
     (''ai.capabilities'', ''ai.capabilities'', ''tool.ai.capabilities'',
      ''ai-provider-capability.schema.json'', ''ai-capabilities.schema.json'',
      [''AI_ASSISTANCE_ENGINE_CONTRACT''],
      False, False, False, True, False, 1)]"

definition report_descriptor_schemas :: "report_schema list" where
  "report_descriptor_schemas = [
     (''report.get'',
      ''report-record.schema.json'', ''report-record.schema.json'',
      False, False, False, True, True, 1),
     (''report.list'',
      ''report-record.schema.json'', ''api-response.schema.json'',
      False, False, True, True, True, 1000),
     (''report.version.get'',
      ''report-version.schema.json'', ''report-version.schema.json'',
      False, False, False, True, True, 1),
     (''report.version.list'',
      ''report-version.schema.json'', ''api-response.schema.json'',
      False, False, True, True, True, 1000),
     (''report.version.compare'',
      ''report-version.schema.json'', ''api-response.schema.json'',
      False, False, False, True, True, 1),
     (''report.review.history'',
      ''report-review-event.schema.json'', ''report-review-event.schema.json'',
      False, False, False, True, True, 1000),
     (''report.approval.get'',
      ''report-approval-record.schema.json'', ''report-approval-record.schema.json'',
      False, False, False, True, True, 1),
     (''report.custody-snapshot.get'',
      ''custody-snapshot.schema.json'', ''custody-snapshot.schema.json'',
      False, False, False, True, True, 1),
     (''report.render-package.get'',
      ''report-render-package.schema.json'', ''report-render-package.schema.json'',
      False, False, False, True, True, 1),
     (''report.export-manifest.get'',
      ''report-export-manifest.schema.json'', ''report-export-manifest.schema.json'',
      False, False, False, True, True, 1),
     (''report.export-status'',
      ''report-export-manifest.schema.json'', ''api-response.schema.json'',
      False, False, False, True, True, 100),
     (''report.capabilities'',
      ''report-renderer-capability.schema.json'', ''report-renderer-capability.schema.json'',
      False, False, False, True, False, 1),
     (''report.create'',
      ''report-record.schema.json'', ''report-record.schema.json'',
      True, False, False, True, True, 1),
     (''report.version.create'',
      ''report-version.schema.json'', ''report-version.schema.json'',
      True, False, False, True, True, 1),
     (''report.ai-draft.ingest'',
      ''ai-report-draft-input.schema.json'', ''report-version.schema.json'',
      True, False, False, True, True, 1),
     (''report.review.submit'',
      ''report-review-event.schema.json'', ''report-review-event.schema.json'',
      True, True, False, True, True, 1),
     (''report.review.comment'',
      ''report-review-event.schema.json'', ''report-review-event.schema.json'',
      True, True, False, True, True, 1),
     (''report.review.request-changes'',
      ''report-review-event.schema.json'', ''report-review-event.schema.json'',
      True, True, False, True, True, 1),
     (''report.review.accept-section'',
      ''report-review-event.schema.json'', ''report-review-event.schema.json'',
      True, True, False, True, True, 1),
     (''report.review.reject-section'',
      ''report-review-event.schema.json'', ''report-review-event.schema.json'',
      True, True, False, True, True, 1),
     (''report.review.complete'',
      ''report-review-event.schema.json'', ''report-review-event.schema.json'',
      True, True, False, True, True, 1),
     (''report.review.reopen'',
      ''report-review-event.schema.json'', ''report-review-event.schema.json'',
      True, True, False, True, True, 1),
     (''report.approve'',
      ''report-approval-record.schema.json'', ''report-approval-record.schema.json'',
      True, True, False, True, True, 1),
     (''report.reject'',
      ''report-approval-record.schema.json'', ''report-approval-record.schema.json'',
      True, True, False, True, True, 1),
     (''report.approval.revoke'',
      ''report-approval-record.schema.json'', ''report-approval-record.schema.json'',
      True, True, False, True, True, 1),
     (''report.custody-snapshot.create'',
      ''custody-snapshot.schema.json'', ''custody-snapshot.schema.json'',
      True, True, False, True, True, 1),
     (''report.render-package.create'',
      ''report-render-package.schema.json'', ''report-render-package.schema.json'',
      True, False, False, True, True, 1),
     (''report.export.prepare'',
      ''report-export-manifest.schema.json'', ''report-export-manifest.schema.json'',
      True, True, False, True, True, 1),
     (''report.export.record-result'',
      ''rendered-report-artifact.schema.json'', ''rendered-report-artifact.schema.json'',
      True, True, False, True, True, 1),
     (''report.archive'',
      ''report-record.schema.json'', ''report-record.schema.json'',
      True, True, False, True, True, 1)]"

definition mutating_operations :: "string list" where
  "mutating_operations =
     List.map_filter (\<lambda>(tool, op, key, i, out, caps, m, c, p, pa, ci, n). if m then Some op else None)
       tool_descriptor_specs @
     List.map_filter (\<lambda>(op, i, out, m, c, p, pa, ci, n). if m then Some op else None)
       report_descriptor_schemas"

record tool_descriptor =
  td_tool_name :: string
  td_tool_version :: string
  td_description_key :: string
  td_input_schema_ref :: string
  td_output_schema_ref :: string
  td_required_capabilities :: "string list"
  td_mutates_state :: bool
  td_requires_confirmation :: bool
  td_supports_pagination :: bool
  td_supports_partial :: bool
  td_supports_citation :: bool
  td_max_result_items :: int

definition tool_descriptor_schema_dict :: "tool_descriptor \<Rightarrow> dict" where
  "tool_descriptor_schema_dict d =
     [(''tool_name'', PStr (td_tool_name d)), (''tool_version'', PStr (td_tool_version d)),
      (''description_key'', PStr (td_description_key d)),
      (''input_schema_ref'', PStr (td_input_schema_ref d)),
      (''output_schema_ref'', PStr (td_output_schema_ref d)),
      (''required_capabilities'', PList (List.map PStr (td_required_capabilities d))),
      (''mutates_state'', PBool (td_mutates_state d)),
      (''requires_confirmation'', PBool (td_requires_confirmation d)),
      (''supports_pagination'', PBool (td_supports_pagination d)),
      (''supports_partial'', PBool (td_supports_partial d)),
      (''supports_citation'', PBool (td_supports_citation d)),
      (''max_result_items'', PInt (td_max_result_items d))]"

definition interface_version :: string where
  "interface_version = ''1.0.0''"

fun descriptor_of_spec :: "tool_spec \<Rightarrow> tool_descriptor" where
  "descriptor_of_spec (tool, op, key, i, out, caps, m, c, p, pa, ci, n) =
     \<lparr>td_tool_name = tool, td_tool_version = interface_version, td_description_key = key,
      td_input_schema_ref = i, td_output_schema_ref = out, td_required_capabilities = caps,
      td_mutates_state = m, td_requires_confirmation = c, td_supports_pagination = p,
      td_supports_partial = pa, td_supports_citation = ci, td_max_result_items = n\<rparr>"

fun descriptor_of_schema :: "report_schema \<Rightarrow> tool_descriptor" where
  "descriptor_of_schema (tool, i, out, m, c, p, pa, ci, n) =
     \<lparr>td_tool_name = tool, td_tool_version = interface_version,
      td_description_key = ''tool.'' @ List.map (\<lambda>c. if c = CHR ''-'' then CHR ''_'' else c) tool,
      td_input_schema_ref = i, td_output_schema_ref = out,
      td_required_capabilities = [''REPORT_ENGINE_CONTRACT''],
      td_mutates_state = m, td_requires_confirmation = c, td_supports_pagination = p,
      td_supports_partial = pa, td_supports_citation = ci, td_max_result_items = n\<rparr>"

text \<open>The table \<open>engine_tool_descriptors\<close>: an upsert on (name, version), and the listing.\<close>

definition save_engine_tool_descriptor :: "tool_descriptor \<Rightarrow> tool_descriptor list \<Rightarrow> tool_descriptor list" where
  "save_engine_tool_descriptor d rows =
     (let same = (\<lambda>r. td_tool_name r = td_tool_name d \<and> td_tool_version r = td_tool_version d) in
      if list_ex same rows then List.map (\<lambda>r. if same r then d else r) rows else rows @ [d])"

definition list_engine_tool_descriptors :: "tool_descriptor list \<Rightarrow> tool_descriptor list" where
  "list_engine_tool_descriptors rows = sort_key (\<lambda>r. (td_tool_name r, td_tool_version r)) rows"

definition register_default_tool_descriptors :: "tool_descriptor list \<Rightarrow> tool_descriptor list" where
  "register_default_tool_descriptors rows =
     fold save_engine_tool_descriptor
       (List.map descriptor_of_spec tool_descriptor_specs @
        List.map descriptor_of_schema report_descriptor_schemas) rows"

definition tools :: "tool_descriptor list \<Rightarrow> tool_descriptor list \<times> tool_descriptor list" where
  "tools rows = (let rows' = register_default_tool_descriptors rows in
     (rows', list_engine_tool_descriptors rows'))"

subsection \<open>The interface document\<close>

definition engine_version :: string where
  "engine_version = ''0.1.0''"

definition ai_runtime_capabilities :: "string list" where
  "ai_runtime_capabilities = [''LLM_PROVIDER'', ''RUNTIME_AI_PROVIDER'']"

definition interface_capabilities :: "bool \<Rightarrow> string list" where
  "interface_capabilities runtime_ai =
     [''CASE_EVIDENCE_READ'', ''FILESYSTEM_VIEW'', ''SAFE_RAW_READ'', ''ARTIFACT_VIEW'',
      ''BROWSER_MEDIA_VIEW'', ''SEARCH_TIMELINE_VIEW'', ''CONTEXT_SNAPSHOT'',
      ''SIMPLE_DETAILED_RAW_VIEW'', ''MCP_ADAPTER_DESCRIPTOR'', ''AI_ASSISTANCE_ENGINE_CONTRACT'',
      ''AI_RESULT_VALIDATION'', ''AI_HUMAN_VERIFICATION'', ''AI_KEYWORD_PROMOTION'',
      ''REPORT_ENGINE_CONTRACT'', ''REPORT_REVIEW_APPROVAL'', ''REPORT_CUSTODY_SNAPSHOT'',
      ''REPORT_EXPORT_MANIFEST''] @ (if runtime_ai then ai_runtime_capabilities else [])"

definition interface_unavailable :: "bool \<Rightarrow> string list" where
  "interface_unavailable runtime_ai =
     [''REST_SERVER'', ''MCP_SERVER'', ''PROMPT_TEMPLATE'', ''RUNTIME_REPORT_RENDERER'',
      ''PDF_RENDERING'', ''HTML_RENDERING'', ''AI_REPORT_DRAFT_GENERATION'', ''GUI_REPORT_PREVIEW'',
      ''DISK_IMAGE_RAW_OFFSET''] @ (if runtime_ai then [] else ai_runtime_capabilities)"

definition interface_schema_dict :: "bool \<Rightarrow> datetime \<Rightarrow> dict res" where
  "interface_schema_dict runtime_ai now =
     bind_res (to_json_timestamp now) (\<lambda>generated.
       Inr [(''interface_name'', PStr ''apex.engine.public''),
         (''interface_version'', PStr interface_version), (''engine_version'', PStr engine_version),
         (''schema_version'', PStr ''1.0.0''),
         (''capabilities'', PList (List.map PStr (interface_capabilities runtime_ai))),
         (''unavailable_capabilities'', PList (List.map PStr (interface_unavailable runtime_ai))),
         (''generated_at'', PStr generated)])"

text \<open>\<open>capability\<close>: all of them, or whether one is available.\<close>

definition capability :: "bool \<Rightarrow> string option \<Rightarrow> dict" where
  "capability runtime_ai name = (case name of
     None \<Rightarrow> [(''capabilities'', PList (List.map PStr (interface_capabilities runtime_ai))),
        (''unavailable_capabilities'', PList (List.map PStr (interface_unavailable runtime_ai)))]
   | Some n \<Rightarrow> (let here = n \<in> set (interface_capabilities runtime_ai) in
       [(''capability'', PStr n), (''is_available'', PBool here),
        (''unavailable_reason'', if here then PNone else PStr ''CAPABILITY_UNAVAILABLE'')]))"

subsection \<open>Payload readers\<close>

definition payload_error :: "string \<Rightarrow> string \<Rightarrow> pyval \<Rightarrow> exn" where
  "payload_error msg field v = validation_error_with msg (Some field) [(''value'', v)]"

definition required_value :: "dict \<Rightarrow> string \<Rightarrow> pyval res" where
  "required_value payload field = (case dget_or payload field PNone of
     PNone \<Rightarrow> Inl (validation_error ''Invocation payload is missing a required field.'' (Some field))
   | v \<Rightarrow> Inr v)"

definition payload_string :: "pyval \<Rightarrow> string \<Rightarrow> string res" where
  "payload_string v field = (case v of
     PStr (c # s) \<Rightarrow> Inr (c # s)
   | _ \<Rightarrow> Inl (payload_error ''Invocation payload field must be a non-empty string.'' field v))"

definition required_string :: "dict \<Rightarrow> string \<Rightarrow> string res" where
  "required_string payload field =
     bind_res (required_value payload field) (\<lambda>v. payload_string v field)"

definition optional_string :: "dict \<Rightarrow> string \<Rightarrow> string option res" where
  "optional_string payload field =
     (let v = dget_or payload field PNone in
      if v = PNone then Inr None else map_res Some (payload_string v field))"

text \<open>\<open>int(value)\<close> where a \<open>TypeError\<close> or \<open>ValueError\<close> becomes the error \<open>e\<close>.\<close>

definition int_or_error :: "exn \<Rightarrow> pyval \<Rightarrow> int res" where
  "int_or_error e v = (case py_int v of
     Inl x \<Rightarrow> Inl (if x \<in> {PyExn ''TypeError'', PyExn ''ValueError''} then e else x)
   | Inr n \<Rightarrow> Inr n)"

fun is_bool :: "pyval \<Rightarrow> bool" where
  "is_bool (PBool b) = True"
| "is_bool _ = False"

definition payload_integer :: "pyval \<Rightarrow> string \<Rightarrow> int \<Rightarrow> int option \<Rightarrow> int res" where
  "payload_integer v field minimum maximum =
     (let e = payload_error ''Invocation payload field must be an integer.'' field v in
      if is_bool v then Inl e
      else bind_res (int_or_error e v) (\<lambda>n.
        if n < minimum \<or> (case maximum of None \<Rightarrow> False | Some m \<Rightarrow> m < n) then
          Inl (validation_error_with ''Invocation payload integer is outside the allowed range.''
            (Some field) [(''value'', PInt n), (''minimum'', PInt minimum), (''maximum'', opt_int maximum)])
        else Inr n))"

definition optional_integer :: "dict \<Rightarrow> string \<Rightarrow> int \<Rightarrow> int \<Rightarrow> int option \<Rightarrow> int res" where
  "optional_integer payload field fallback minimum maximum =
     payload_integer (dget_or payload field (PInt fallback)) field minimum maximum"

definition optional_integer_or_none :: "dict \<Rightarrow> string \<Rightarrow> int \<Rightarrow> int option \<Rightarrow> int option res" where
  "optional_integer_or_none payload field minimum maximum =
     (let v = dget_or payload field PNone in
      if v = PNone then Inr None else map_res Some (payload_integer v field minimum maximum))"

definition payload_enum :: "string list \<Rightarrow> string \<Rightarrow> string \<Rightarrow> string res" where
  "payload_enum members v field =
     (if v \<in> set members then Inr v
      else Inl (payload_error ''Invocation payload field has an unsupported enum value.'' field (PStr v)))"

definition required_enum :: "dict \<Rightarrow> string \<Rightarrow> string list \<Rightarrow> string res" where
  "required_enum payload field members =
     bind_res (required_string payload field) (\<lambda>v. payload_enum members v field)"

definition optional_enum :: "dict \<Rightarrow> string \<Rightarrow> string list \<Rightarrow> string \<Rightarrow> string res" where
  "optional_enum payload field members fallback =
     bind_res (optional_string payload field) (\<lambda>v. case v of
       None \<Rightarrow> Inr fallback
     | Some s \<Rightarrow> payload_enum members s field)"

definition optional_string_list :: "dict \<Rightarrow> string \<Rightarrow> string list option res" where
  "optional_string_list payload field =
     (let v = dget_or payload field PNone;
          e = payload_error ''Invocation payload field must be a list of non-empty strings.'' field v in
      case v of
        PNone \<Rightarrow> Inr None
      | PList xs \<Rightarrow>
          (if list_ex (\<lambda>x. case x of PStr s \<Rightarrow> s = [] | _ \<Rightarrow> True) xs then Inl e
           else Inr (Some (dedup_keep [] (List.map py_str xs))))
      | _ \<Rightarrow> Inl e)"

definition optional_integer_list :: "dict \<Rightarrow> string \<Rightarrow> int list option res" where
  "optional_integer_list payload field =
     (let v = dget_or payload field PNone;
          e = payload_error ''Invocation payload field must be a list of integers.'' field v in
      case v of
        PNone \<Rightarrow> Inr None
      | PList xs \<Rightarrow>
          (if list_ex is_bool xs then Inl e
           else map_res (\<lambda>ns. Some (dedup_keep [] ns)) (traverse (int_or_error e) xs))
      | _ \<Rightarrow> Inl e)"

definition payload_objects :: "pyval \<Rightarrow> string \<Rightarrow> dict list res" where
  "payload_objects v field =
     (let e = payload_error ''Invocation payload field must be a list of objects.'' field v in
      case v of
        PList xs \<Rightarrow> traverse (\<lambda>x. case x of PDict d \<Rightarrow> Inr d | _ \<Rightarrow> Inl e) xs
      | _ \<Rightarrow> Inl e)"

definition required_object_list :: "dict \<Rightarrow> string \<Rightarrow> dict list res" where
  "required_object_list payload field = payload_objects (dget_or payload field PNone) field"

definition optional_object_list :: "dict \<Rightarrow> string \<Rightarrow> dict list option res" where
  "optional_object_list payload field =
     (let v = dget_or payload field PNone in
      if v = PNone then Inr None else map_res Some (payload_objects v field))"

definition object_payload :: "dict \<Rightarrow> dict res" where
  "object_payload payload = (case dget_or payload ''payload'' PNone of
     PNone \<Rightarrow> Inr payload
   | PDict d \<Rightarrow> Inr d
   | _ \<Rightarrow> Inl (validation_error ''Invocation payload field must be a JSON object.'' (Some ''payload'')))"

definition optional_object_payload :: "dict \<Rightarrow> string \<Rightarrow> dict res" where
  "optional_object_payload payload field = (case dget_or payload field PNone of
     PNone \<Rightarrow> Inr []
   | PDict d \<Rightarrow> Inr d
   | _ \<Rightarrow> Inl (validation_error (''Invocation '' @ field @ '' field must be a JSON object.'') (Some field)))"

subsection \<open>Answers\<close>

definition success :: "pyval \<Rightarrow> string \<Rightarrow> string option \<Rightarrow> dict" where
  "success data request_id correlation_id =
     [(''schema_version'', PStr ''1.0.0''), (''interface_version'', PStr interface_version),
      (''request_id'', PStr request_id), (''correlation_id'', opt_str correlation_id),
      (''status'', PStr ''OK''), (''data'', data), (''warnings'', PList []), (''errors'', PList [])]"

definition error_answer :: "apex_error \<Rightarrow> string \<Rightarrow> string option \<Rightarrow> dict" where
  "error_answer e request_id correlation_id =
     [(''schema_version'', PStr ''1.0.0''), (''interface_version'', PStr interface_version),
      (''request_id'', PStr request_id), (''correlation_id'', opt_str correlation_id),
      (''status'', PStr ''ERROR''), (''data'', PNone), (''warnings'', PList []),
      (''errors'', PList [PDict (to_api_error e)])]"

end
