(* ===== verification/Json_Text.thy ===== *)
theory Json_Text
  imports Codecs Canonical
begin

section \<open>Base64 and JSON texts\<close>

text \<open>
  What the cursors of the listings use of the standard library: \<open>base64.urlsafe_b64encode\<close> and
  \<open>urlsafe_b64decode\<close> (\<open>binascii.a2b_base64\<close>, not strict), the UTF-8 decoder and \<open>json.loads\<close>.
  Bytes are numbers below 256 here.  The conversion of a literal with a fraction or an exponent to
  a float is an argument; the parser carries fuel, which the length of the text bounds, and the
  recursion limit of the interpreter is not modelled.  An unpaired surrogate escape is kept as its
  three-byte form.
\<close>

subsection \<open>Base64\<close>

definition b64_alphabet :: string where
  "b64_alphabet = ''ABCDEFGHIJKLMNOPQRSTUVWXYZabcdefghijklmnopqrstuvwxyz0123456789-_''"

definition b64_char :: "nat \<Rightarrow> char" where
  "b64_char n = b64_alphabet ! n"

fun urlsafe_b64encode :: "nat list \<Rightarrow> string" where
  "urlsafe_b64encode [] = []"
| "urlsafe_b64encode [a] = [b64_char (a div 4), b64_char (a mod 4 * 16), CHR ''='', CHR ''='']"
| "urlsafe_b64encode [a, b] =
     [b64_char (a div 4), b64_char (a mod 4 * 16 + b div 16), b64_char (b mod 16 * 4), CHR ''='']"
| "urlsafe_b64encode (a # b # c # r) =
     [b64_char (a div 4), b64_char (a mod 4 * 16 + b div 16), b64_char (b mod 16 * 4 + c div 64),
      b64_char (c mod 64)] @ urlsafe_b64encode r"

definition b64_value :: "char \<Rightarrow> nat option" where
  "b64_value c =
     (let n = of_char c :: nat in
      if 65 \<le> n \<and> n \<le> 90 then Some (n - 65)
      else if 97 \<le> n \<and> n \<le> 122 then Some (n - 71)
      else if 48 \<le> n \<and> n \<le> 57 then Some (n + 4)
      else if n = 43 \<or> n = 45 then Some 62
      else if n = 47 \<or> n = 95 then Some 63
      else None)"

text \<open>The loop of \<open>a2b_base64\<close>: position in the group, bits kept, and pad characters seen.\<close>

fun b64_scan :: "nat \<Rightarrow> nat \<Rightarrow> nat \<Rightarrow> string \<Rightarrow> nat list option" where
  "b64_scan quad left pads [] = (if quad = 0 then Some [] else None)"
| "b64_scan quad left pads (c # r) =
     (if c = CHR ''='' then
        (if 2 \<le> quad then (if 4 \<le> quad + pads + 1 then Some [] else b64_scan quad left (pads + 1) r)
         else b64_scan quad left pads r)
      else (case b64_value c of
          None \<Rightarrow> b64_scan quad left pads r
        | Some v \<Rightarrow>
            (if quad = 0 then b64_scan 1 v 0 r
             else if quad = 1 then map_option (Cons (left * 4 + v div 16)) (b64_scan 2 (v mod 16) 0 r)
             else if quad = 2 then map_option (Cons (left * 16 + v div 4)) (b64_scan 3 (v mod 4) 0 r)
             else map_option (Cons (left * 64 + v)) (b64_scan 0 0 0 r))))"

definition urlsafe_b64decode :: "string \<Rightarrow> nat list option" where
  "urlsafe_b64decode s = b64_scan 0 0 0 s"

subsection \<open>Encodings\<close>

definition char_codes :: "string \<Rightarrow> nat list" where
  "char_codes s = List.map (\<lambda>c. of_char c) s"

definition is_ascii :: "string \<Rightarrow> bool" where
  "is_ascii s \<longleftrightarrow> (\<forall>c \<in> set s. (of_char c :: nat) < 128)"

definition between :: "nat \<Rightarrow> nat \<Rightarrow> nat \<Rightarrow> bool" where
  "between l u n \<longleftrightarrow> l \<le> n \<and> n \<le> u"

text \<open>What the strict UTF-8 decoder accepts.\<close>

fun utf8_valid :: "nat list \<Rightarrow> bool" where
  "utf8_valid [] = True"
| "utf8_valid (a # r) =
     (if a < 128 then utf8_valid r
      else (case r of
          b # r2 \<Rightarrow>
            if between 194 223 a then between 128 191 b \<and> utf8_valid r2
            else (case r2 of
                c # r3 \<Rightarrow>
                  if between 224 239 a then
                    between (if a = 224 then 160 else 128) (if a = 237 then 159 else 191) b \<and>
                    between 128 191 c \<and> utf8_valid r3
                  else (case r3 of
                      d # r4 \<Rightarrow>
                        between 240 244 a \<and>
                        between (if a = 240 then 144 else 128) (if a = 244 then 143 else 191) b \<and>
                        between 128 191 c \<and> between 128 191 d \<and> utf8_valid r4
                    | [] \<Rightarrow> False)
              | [] \<Rightarrow> False)
        | [] \<Rightarrow> False))"

definition decode_utf8 :: "nat list \<Rightarrow> string option" where
  "decode_utf8 bs = (if utf8_valid bs then Some (List.map char_of bs) else None)"

subsection \<open>JSON strings\<close>

definition hex_value :: "char \<Rightarrow> nat option" where
  "hex_value c =
     (let n = of_char c :: nat in
      if 48 \<le> n \<and> n \<le> 57 then Some (n - 48)
      else if 97 \<le> n \<and> n \<le> 102 then Some (n - 87)
      else if 65 \<le> n \<and> n \<le> 70 then Some (n - 55)
      else None)"

fun hex4 :: "string \<Rightarrow> (nat \<times> string) option" where
  "hex4 (a # b # c # d # r) =
     (case (hex_value a, hex_value b, hex_value c, hex_value d) of
        (Some w, Some x, Some y, Some z) \<Rightarrow> Some (((w * 16 + x) * 16 + y) * 16 + z, r)
      | _ \<Rightarrow> None)"
| "hex4 _ = None"

text \<open>\<open>\uXXXX\<close>, joined with the low surrogate that follows a high one.\<close>

definition unicode_escape :: "string \<Rightarrow> (string \<times> string) option" where
  "unicode_escape s =
     (case hex4 s of
        None \<Rightarrow> None
      | Some (p, r) \<Rightarrow>
          (if between 0xD800 0xDBFF p \<and> is_prefix [CHR 92, CHR ''u''] r \<and> 6 < length r then
             (case hex4 (drop 2 r) of
                None \<Rightarrow> None
              | Some (q, r2) \<Rightarrow>
                  if between 0xDC00 0xDFFF q
                  then Some (utf8_char (0x10000 + (p - 0xD800) * 0x400 + (q - 0xDC00)), r2)
                  else Some (utf8_char p, r))
           else Some (utf8_char p, r)))"

definition simple_escape :: "char \<Rightarrow> nat option" where
  "simple_escape c = map_of
     [(CHR 34, 34), (CHR 92, 92), (CHR ''/'', 47), (CHR ''b'', 8), (CHR ''f'', 12),
      (CHR ''n'', 10), (CHR ''r'', 13), (CHR ''t'', 9)] c"

text \<open>The text after an opening quote: the characters of the string and what follows it.\<close>

fun json_chars :: "nat \<Rightarrow> string \<Rightarrow> (string \<times> string) option" where
  "json_chars 0 s = None"
| "json_chars (Suc n) s =
     (case s of
        [] \<Rightarrow> None
      | c # r \<Rightarrow>
          if c = CHR 34 then Some ([], r)
          else if (of_char c :: nat) < 32 then None
          else if c = CHR 92 then
            (case r of
               [] \<Rightarrow> None
             | e # r1 \<Rightarrow>
                 (if e = CHR ''u'' then
                    (case unicode_escape r1 of
                       None \<Rightarrow> None
                     | Some (t, r2) \<Rightarrow> map_option (map_prod (append t) id) (json_chars n r2))
                  else (case simple_escape e of
                      None \<Rightarrow> None
                    | Some k \<Rightarrow> map_option (map_prod (Cons (char_of k)) id) (json_chars n r1))))
          else map_option (map_prod (Cons c) id) (json_chars n r))"

subsection \<open>JSON values\<close>

definition json_ws :: "char \<Rightarrow> bool" where
  "json_ws c \<longleftrightarrow> (of_char c :: nat) \<in> {32, 9, 10, 13}"

definition skip_ws :: "string \<Rightarrow> string" where
  "skip_ws s = dropWhile json_ws s"

text \<open>A number: its integer part, and the fraction and exponent when they are complete.\<close>

definition json_number :: "(string \<Rightarrow> pyfloat) \<Rightarrow> string \<Rightarrow> (pyval \<times> string) option" where
  "json_number float s =
     (let neg = (s \<noteq> [] \<and> hd s = CHR ''-'');
          r0 = (if neg then tl s else s);
          ds = (if r0 \<noteq> [] \<and> hd r0 = CHR ''0'' then [CHR ''0''] else takeWhile is_digit r0);
          r1 = drop (length ds) r0;
          fs = (if r1 \<noteq> [] \<and> hd r1 = CHR ''.'' \<and> takeWhile is_digit (tl r1) \<noteq> []
                then CHR ''.'' # takeWhile is_digit (tl r1) else []);
          r2 = drop (length fs) r1;
          sign = (if r2 \<noteq> [] \<and> tl r2 \<noteq> [] \<and> hd (tl r2) \<in> {CHR ''+'', CHR ''-''} then 2 else 1);
          es = (if r2 \<noteq> [] \<and> hd r2 \<in> {CHR ''e'', CHR ''E''} \<and> takeWhile is_digit (drop sign r2) \<noteq> []
                then take sign r2 @ takeWhile is_digit (drop sign r2) else []);
          r3 = drop (length es) r2;
          lit = (if neg then CHR ''-'' # ds else ds)
      in if ds = [] then None
         else if fs = [] \<and> es = [] then
           (if 4300 < length ds then None
            else Some (PInt (if neg then - digits_val ds else digits_val ds), r3))
         else Some (PFloat (float (lit @ fs @ es)), r3))"

definition json_literals :: "(string \<times> pyval) list" where
  "json_literals =
     [(''null'', PNone), (''true'', PBool True), (''false'', PBool False),
      (''NaN'', PFloat (PyFloat None ''nan'')), (''Infinity'', PFloat (PyFloat None ''inf'')),
      (''-Infinity'', PFloat (PyFloat None ''-inf''))]"

definition json_atom :: "(string \<Rightarrow> pyfloat) \<Rightarrow> string \<Rightarrow> (pyval \<times> string) option" where
  "json_atom float s =
     (case find (\<lambda>(w, v). is_prefix w s) json_literals of
        Some (w, v) \<Rightarrow> Some (v, drop (length w) s)
      | None \<Rightarrow> json_number float s)"

text \<open>A later pair of the same key replaces the value of the first.\<close>

definition dict_of_pairs :: "(string \<times> pyval) list \<Rightarrow> dict" where
  "dict_of_pairs ps = fold (\<lambda>(k, v). dset k v) ps []"

text \<open>Values at their first character; the members and the elements after the opening bracket.\<close>

fun json_value :: "(string \<Rightarrow> pyfloat) \<Rightarrow> nat \<Rightarrow> string \<Rightarrow> (pyval \<times> string) option"
  and json_members :: "(string \<Rightarrow> pyfloat) \<Rightarrow> nat \<Rightarrow> string \<Rightarrow> ((string \<times> pyval) list \<times> string) option"
  and json_elements :: "(string \<Rightarrow> pyfloat) \<Rightarrow> nat \<Rightarrow> string \<Rightarrow> (pyval list \<times> string) option" where
  "json_value float 0 s = None"
| "json_value float (Suc n) s =
     (case s of
        [] \<Rightarrow> None
      | c # r \<Rightarrow>
          if c = CHR 34 then map_option (map_prod PStr id) (json_chars (Suc (length r)) r)
          else if c = CHR ''{'' then
            (case skip_ws r of
               [] \<Rightarrow> None
             | d # r1 \<Rightarrow> if d = CHR ''}'' then Some (PDict [], r1)
                 else map_option (map_prod (\<lambda>ps. PDict (dict_of_pairs ps)) id) (json_members float n (d # r1)))
          else if c = CHR ''['' then
            (case skip_ws r of
               [] \<Rightarrow> None
             | d # r1 \<Rightarrow> if d = CHR '']'' then Some (PList [], r1)
                 else map_option (map_prod PList id) (json_elements float n (d # r1)))
          else json_atom float (c # r))"
| "json_members float 0 s = None"
| "json_members float (Suc n) s =
     (case s of
        [] \<Rightarrow> None
      | q # r0 \<Rightarrow>
          if q \<noteq> CHR 34 then None
          else (case json_chars (Suc (length r0)) r0 of
              None \<Rightarrow> None
            | Some (k, r1) \<Rightarrow> (case skip_ws r1 of
                [] \<Rightarrow> None
              | c # r2 \<Rightarrow>
                  if c \<noteq> CHR '':'' then None
                  else (case json_value float n (skip_ws r2) of
                      None \<Rightarrow> None
                    | Some (v, r3) \<Rightarrow> (case skip_ws r3 of
                        [] \<Rightarrow> None
                      | d # r4 \<Rightarrow>
                          if d = CHR ''}'' then Some ([(k, v)], r4)
                          else if d = CHR '','' then
                            map_option (map_prod (Cons (k, v)) id) (json_members float n (skip_ws r4))
                          else None)))))"
| "json_elements float 0 s = None"
| "json_elements float (Suc n) s =
     (case json_value float n s of
        None \<Rightarrow> None
      | Some (v, r) \<Rightarrow> (case skip_ws r of
          [] \<Rightarrow> None
        | d # r1 \<Rightarrow>
            if d = CHR '']'' then Some ([v], r1)
            else if d = CHR '','' then map_option (map_prod (Cons v) id) (json_elements float n (skip_ws r1))
            else None))"

definition json_loads :: "(string \<Rightarrow> pyfloat) \<Rightarrow> string \<Rightarrow> pyval option" where
  "json_loads float s =
     (if is_prefix [char_of (0xEF :: nat), char_of (0xBB :: nat), char_of (0xBF :: nat)] s then None
      else (case json_value float (2 * length s + 2) (skip_ws s) of
          None \<Rightarrow> None
        | Some (v, r) \<Rightarrow> if skip_ws r = [] then Some v else None))"

end
