(* ===== verification/Report_Listing.thy ===== *)
theory Report_Listing
  imports Report_Service Json_Text
begin

section \<open>The listing of reports\<close>

text \<open>
  \<open>list_reports\<close> of \<open>application/services/report.py\<close> and the codec of its cursors: a page holds
  the next reports of a case in the order of their identifiers, and the cursor of the next page is
  the URL-safe base64 of a JSON object with the last identifier.
\<close>

definition encode_cursor :: "string \<Rightarrow> string \<Rightarrow> string" where
  "encode_cursor field v =
     urlsafe_b64encode (char_codes (''{'' @ json_string field @ '':'' @ json_string v @ ''}''))"

definition cursor_error :: exn where
  "cursor_error = validation_error ''Cursor is not a valid report cursor.'' (Some ''cursor'')"

definition cursor_payload :: "(string \<Rightarrow> pyfloat) \<Rightarrow> string \<Rightarrow> pyval option" where
  "cursor_payload float s =
     (if \<not> is_ascii s then None
      else (case urlsafe_b64decode s of
          None \<Rightarrow> None
        | Some bs \<Rightarrow> (case decode_utf8 bs of None \<Rightarrow> None | Some t \<Rightarrow> json_loads float t)))"

definition decode_cursor :: "(string \<Rightarrow> pyfloat) \<Rightarrow> string option \<Rightarrow> string \<Rightarrow> string option res" where
  "decode_cursor float v field =
     (case v of
        None \<Rightarrow> Inr None
      | Some s \<Rightarrow> (case cursor_payload float s of
          None \<Rightarrow> Inl cursor_error
        | Some payload \<Rightarrow> (case payload of
            PDict d \<Rightarrow> (case dget_or d field PNone of
                PNone \<Rightarrow> Inl (validation_error ''Cursor is not valid for this report query.'' (Some ''cursor''))
              | x \<Rightarrow> Inr (Some (py_str x)))
          | _ \<Rightarrow> Inl (validation_error ''Cursor is not valid for this report query.'' (Some ''cursor'')))))"

definition report_page :: "report_record list \<Rightarrow> nat \<Rightarrow> dict list \<Rightarrow> dict" where
  "report_page rows limit items =
     (let more = (limit < length rows) in
      [(''items'', dicts items),
       (''page'', PDict
         [(''next_cursor'',
            if more \<and> items \<noteq> [] then
              PStr (encode_cursor ''report_id'' (rr_report_id (rows ! (length items - 1))))
            else PNone),
          (''has_more'', PBool more), (''returned'', PInt (int (length items)))])])"

definition list_reports ::
  "(string \<Rightarrow> pyfloat) \<Rightarrow> string \<Rightarrow> string option \<Rightarrow> int \<Rightarrow> (report_state, dict) svc" where
  "list_reports float case_id cursor limit0 =
     svc_bind (require_case_row case_id) (\<lambda>_.
     svc_bind (svc_of (limit_value (PInt limit0) 1 1000 ''limit'')) (\<lambda>limit.
     svc_bind (svc_of (decode_cursor float cursor ''report_id'')) (\<lambda>after.
     svc_bind (svc_get (\<lambda>s. sqlite_list_reports s case_id after (nat limit + 1))) (\<lambda>rows.
     svc_bind (svc_of (traverse report_record_schema_dict (take (nat limit) rows))) (\<lambda>items.
     svc_ret (report_page rows (nat limit) items))))))"

end
