(* ===== verification/Report_Interface.thy ===== *)
theory Report_Interface
  imports Engine_Interface Report_Listing Report_Export
begin

section \<open>The report operations of the engine interface\<close>

text \<open>
  \<open>invoke_read\<close>, \<open>invoke_mutation\<close> and \<open>_invoke_report\<close> of \<open>EngineInterfaceService\<close>
  (\<open>application/services/context.py\<close>): how the payload of an invocation becomes a call of the
  report service, how a target is bound to the case the caller names, and how results and errors
  become answers.  The chain of comparisons of the operation is a table from operations to
  handlers.  The context, view and AI operations, which do not touch the report tables, are
  the argument \<open>ix_other\<close>.
\<close>

record interface_env =
  ix_report :: report_env
  ix_float :: "string \<Rightarrow> pyfloat"
  ix_has_reports :: bool
  ix_other :: "string \<Rightarrow> dict \<Rightarrow> pyval res"

subsection \<open>Results as data\<close>

definition data_of :: "('a \<Rightarrow> dict res) \<Rightarrow> (report_state, 'a) svc \<Rightarrow> (report_state, pyval) svc" where
  "data_of f m = svc_bind m (\<lambda>x. svc_of (map_res PDict (f x)))"

definition list_data_of ::
  "('a \<Rightarrow> dict res) \<Rightarrow> (report_state, 'a list) svc \<Rightarrow> (report_state, pyval) svc" where
  "list_data_of f m = svc_bind m (\<lambda>xs. svc_of (map_res dicts (traverse f xs)))"

definition approval_data :: "approval_record option \<Rightarrow> pyval res" where
  "approval_data x = (case x of None \<Rightarrow> Inr PNone | Some a \<Rightarrow> map_res PDict (approval_record_schema_dict a))"

definition export_status_data :: "export_manifest \<times> rendered_artifact list \<Rightarrow> dict res" where
  "export_status_data x =
     bind_res (export_manifest_schema_dict (fst x)) (\<lambda>m.
     bind_res (traverse rendered_artifact_schema_dict (snd x)) (\<lambda>ds.
       Inr [(''manifest'', PDict m), (''artifacts'', dicts ds)]))"

definition export_result_data :: "rendered_artifact + export_manifest \<Rightarrow> dict res" where
  "export_result_data x =
     (case x of Inl a \<Rightarrow> rendered_artifact_schema_dict a | Inr m \<Rightarrow> export_manifest_schema_dict m)"

subsection \<open>Arguments\<close>

definition with_string :: "dict \<Rightarrow> string \<Rightarrow> (string \<Rightarrow> (report_state, 'a) svc) \<Rightarrow> (report_state, 'a) svc" where
  "with_string q field f = svc_bind (svc_of (required_string q field)) f"

definition with_optional ::
  "dict \<Rightarrow> string \<Rightarrow> (string option \<Rightarrow> (report_state, 'a) svc) \<Rightarrow> (report_state, 'a) svc" where
  "with_optional q field f = svc_bind (svc_of (optional_string q field)) f"

definition with_revision ::
  "dict \<Rightarrow> string \<Rightarrow> (int option \<Rightarrow> (report_state, 'a) svc) \<Rightarrow> (report_state, 'a) svc" where
  "with_revision q field f = svc_bind (svc_of (optional_integer_or_none q field 0 None)) f"

definition with_strings ::
  "dict \<Rightarrow> string \<Rightarrow> (string list option \<Rightarrow> (report_state, 'a) svc) \<Rightarrow> (report_state, 'a) svc" where
  "with_strings q field f = svc_bind (svc_of (optional_string_list q field)) f"

definition or_list :: "'a list option \<Rightarrow> 'a list" where
  "or_list x = (case x of None \<Rightarrow> [] | Some xs \<Rightarrow> xs)"

definition flag :: "dict \<Rightarrow> string \<Rightarrow> bool \<Rightarrow> bool" where
  "flag q field b = truthy (dget_or q field (PBool b))"

text \<open>The keyword arguments of \<open>create_version\<close> and \<open>prepare_export\<close>, in the order they are read.\<close>

definition version_arguments :: "dict \<Rightarrow> version_request res" where
  "version_arguments q =
     bind_res (required_string q ''report_id'') (\<lambda>report_id.
     bind_res (optional_string q ''source_kind'') (\<lambda>source_kind.
     bind_res (required_string q ''created_by'') (\<lambda>created_by.
     bind_res (required_string q ''title'') (\<lambda>title.
     bind_res (required_string q ''executive_summary'') (\<lambda>summary.
     bind_res (required_object_list q ''sections'') (\<lambda>sections.
     bind_res (optional_string q ''source_reference_id'') (\<lambda>source_reference.
     bind_res (optional_string_list q ''context_snapshot_ids'') (\<lambda>snapshots.
     bind_res (optional_string_list q ''evidence_ids'') (\<lambda>evidence.
     bind_res (optional_string_list q ''search_execution_ids'') (\<lambda>searches.
     bind_res (optional_integer_list q ''timeline_revisions'') (\<lambda>timeline.
     bind_res (optional_string_list q ''ai_assistance_request_ids'') (\<lambda>requests.
     bind_res (optional_string_list q ''ai_result_ids'') (\<lambda>results.
     bind_res (optional_object_list q ''citations'') (\<lambda>citations.
     bind_res (optional_string_list q ''limitations'') (\<lambda>limitations.
     bind_res (optional_object_payload q ''analyzer_versions'') (\<lambda>analyzers.
     Inr \<lparr>vq_report_id = report_id, vq_source_kind = or_else_str source_kind ''ANALYST_DRAFT'',
       vq_created_by = created_by, vq_title = title, vq_executive_summary = summary,
       vq_sections = sections, vq_source_reference_id = source_reference,
       vq_context_snapshot_ids = or_list snapshots, vq_evidence_ids = or_list evidence,
       vq_search_execution_ids = or_list searches, vq_timeline_revisions = or_list timeline,
       vq_ai_assistance_request_ids = or_list requests, vq_ai_result_ids = or_list results,
       vq_citations = or_list citations, vq_limitations = or_list limitations,
       vq_analyzer_versions = analyzers\<rparr>))))))))))))))))"

definition export_arguments :: "dict \<Rightarrow> export_request res" where
  "export_arguments q =
     bind_res (required_string q ''report_version_id'') (\<lambda>version_id.
     bind_res (required_string q ''format'') (\<lambda>format.
     bind_res (required_string q ''filename'') (\<lambda>filename.
     bind_res (required_string q ''created_by'') (\<lambda>created_by.
     bind_res (optional_string q ''redaction_policy'') (\<lambda>redaction.
     bind_res (optional_string q ''overwrite_policy'') (\<lambda>overwrite.
     bind_res (optional_string q ''expected_content_fingerprint'') (\<lambda>fingerprint.
     bind_res (optional_string q ''expected_approval_id'') (\<lambda>approval.
     bind_res (optional_string q ''expected_custody_snapshot_id'') (\<lambda>snapshot.
     Inr \<lparr>eq_version_id = version_id, eq_format = format, eq_filename = filename,
       eq_created_by = created_by, eq_redaction_policy = or_else_str redaction ''STANDARD'',
       eq_overwrite_policy = or_else_str overwrite ''DENY'',
       eq_include_citations = flag q ''include_citations'' True,
       eq_include_custody = flag q ''include_custody'' True,
       eq_include_technical_appendix = flag q ''include_technical_appendix'' True,
       eq_stale_confirmed = flag q ''stale_confirmed'' False,
       eq_expected_content_fingerprint = fingerprint, eq_expected_approval_id = approval,
       eq_expected_custody_snapshot_id = snapshot\<rparr>)))))))))"

subsection \<open>The operations\<close>

type_synonym report_operation = "interface_env \<Rightarrow> dict \<Rightarrow> (report_state, pyval) svc"

definition op_capabilities :: report_operation where
  "op_capabilities ix q = data_of Inr (service_capabilities (ix_report ix))"

definition op_create :: report_operation where
  "op_create ix q =
     with_string q ''case_id'' (\<lambda>case_id.
     with_string q ''title'' (\<lambda>title.
     with_string q ''created_by'' (\<lambda>created_by.
     with_optional q ''description'' (\<lambda>description.
     with_optional q ''report_type'' (\<lambda>report_type.
     with_optional q ''locale'' (\<lambda>locale.
     with_optional q ''timezone'' (\<lambda>timezone.
     data_of report_record_schema_dict (create_report (ix_report ix) case_id title created_by description
       (or_else_str report_type ''INVESTIGATION'') locale timezone))))))))"

definition op_get :: report_operation where
  "op_get ix q = with_string q ''report_id'' (\<lambda>i. data_of report_record_schema_dict (get_report i))"

definition op_list :: report_operation where
  "op_list ix q =
     with_string q ''case_id'' (\<lambda>case_id.
     with_optional q ''cursor'' (\<lambda>cursor.
     svc_bind (svc_of (optional_integer q ''limit'' 100 1 (Some 1000))) (\<lambda>limit.
     data_of Inr (list_reports (ix_float ix) case_id cursor limit))))"

definition op_archive :: report_operation where
  "op_archive ix q =
     with_string q ''report_id'' (\<lambda>i. with_string q ''actor_id'' (\<lambda>a. with_string q ''reason'' (\<lambda>r.
     data_of report_record_schema_dict (archive_report (ix_report ix) i a r))))"

definition op_version_create :: report_operation where
  "op_version_create ix q =
     svc_bind (svc_of (version_arguments q)) (\<lambda>vq.
     data_of report_version_schema_dict (create_version (ix_report ix) vq))"

definition op_ingest :: report_operation where
  "op_ingest ix q =
     svc_bind (svc_of (object_payload q)) (\<lambda>payload.
     with_optional q ''report_id'' (\<lambda>i.
     with_optional q ''created_by'' (\<lambda>created_by.
     data_of report_version_schema_dict
       (ingest_ai_draft (ix_report ix) payload i (or_else_str created_by ''external-ai-layer'')))))"

definition op_version_get :: report_operation where
  "op_version_get ix q =
     with_string q ''report_version_id'' (\<lambda>i. data_of report_version_schema_dict (get_version i))"

definition op_version_list :: report_operation where
  "op_version_list ix q =
     with_string q ''report_id'' (\<lambda>i. list_data_of report_version_schema_dict (list_versions i))"

definition op_version_compare :: report_operation where
  "op_version_compare ix q =
     with_string q ''left_report_version_id'' (\<lambda>l. with_string q ''right_report_version_id'' (\<lambda>r.
     data_of Inr (compare_versions l r)))"

definition op_submit :: report_operation where
  "op_submit ix q =
     with_string q ''report_version_id'' (\<lambda>i. with_string q ''actor_id'' (\<lambda>a. with_string q ''reason'' (\<lambda>r.
     with_revision q ''expected_review_revision'' (\<lambda>e.
     data_of review_event_schema_dict (submit_review (ix_report ix) i a r e)))))"

definition op_comment :: report_operation where
  "op_comment ix q =
     with_string q ''report_version_id'' (\<lambda>i. with_string q ''actor_id'' (\<lambda>a. with_string q ''reason'' (\<lambda>r.
     with_string q ''comment'' (\<lambda>c. with_optional q ''section_id'' (\<lambda>s.
     with_revision q ''expected_review_revision'' (\<lambda>e.
     data_of review_event_schema_dict (comment_review (ix_report ix) i a r c s e)))))))"

definition op_request_changes :: report_operation where
  "op_request_changes ix q =
     with_string q ''report_version_id'' (\<lambda>i. with_string q ''actor_id'' (\<lambda>a. with_string q ''reason'' (\<lambda>r.
     with_strings q ''requested_changes'' (\<lambda>cs. with_optional q ''section_id'' (\<lambda>s.
     with_revision q ''expected_review_revision'' (\<lambda>e.
     data_of review_event_schema_dict (request_changes (ix_report ix) i a r (or_list cs) s e)))))))"

definition op_accept_section :: report_operation where
  "op_accept_section ix q =
     with_string q ''report_version_id'' (\<lambda>i. with_string q ''section_id'' (\<lambda>s.
     with_string q ''actor_id'' (\<lambda>a. with_string q ''reason'' (\<lambda>r. with_optional q ''comment'' (\<lambda>c.
     with_revision q ''expected_review_revision'' (\<lambda>e.
     data_of review_event_schema_dict (accept_section (ix_report ix) i s a r c e)))))))"

definition op_reject_section :: report_operation where
  "op_reject_section ix q =
     with_string q ''report_version_id'' (\<lambda>i. with_string q ''section_id'' (\<lambda>s.
     with_string q ''actor_id'' (\<lambda>a. with_string q ''reason'' (\<lambda>r.
     with_strings q ''requested_changes'' (\<lambda>cs. with_optional q ''comment'' (\<lambda>c.
     with_revision q ''expected_review_revision'' (\<lambda>e.
     data_of review_event_schema_dict (reject_section (ix_report ix) i s a r (or_list cs) c e))))))))"

definition op_complete :: report_operation where
  "op_complete ix q =
     with_string q ''report_version_id'' (\<lambda>i. with_string q ''actor_id'' (\<lambda>a. with_string q ''reason'' (\<lambda>r.
     with_revision q ''expected_review_revision'' (\<lambda>e.
     data_of review_event_schema_dict (complete_review (ix_report ix) i a r e)))))"

definition op_reopen :: report_operation where
  "op_reopen ix q =
     with_string q ''report_version_id'' (\<lambda>i. with_string q ''actor_id'' (\<lambda>a. with_string q ''reason'' (\<lambda>r.
     with_revision q ''expected_review_revision'' (\<lambda>e.
     data_of review_event_schema_dict (reopen_review (ix_report ix) i a r e)))))"

definition op_history :: report_operation where
  "op_history ix q =
     with_string q ''report_version_id'' (\<lambda>i. list_data_of review_event_schema_dict (review_history i))"

definition op_approve :: report_operation where
  "op_approve ix q =
     with_string q ''report_version_id'' (\<lambda>i. with_string q ''approver_id'' (\<lambda>a. with_string q ''reason'' (\<lambda>r.
     with_optional q ''custody_snapshot_id'' (\<lambda>c.
     with_revision q ''expected_review_revision'' (\<lambda>e.
     with_revision q ''expected_approval_revision'' (\<lambda>f.
     data_of approval_record_schema_dict (approve (ix_report ix) i a r c e f)))))))"

definition op_reject :: report_operation where
  "op_reject ix q =
     with_string q ''report_version_id'' (\<lambda>i. with_string q ''approver_id'' (\<lambda>a. with_string q ''reason'' (\<lambda>r.
     with_revision q ''expected_approval_revision'' (\<lambda>e.
     data_of approval_record_schema_dict (reject_version (ix_report ix) i a r e)))))"

definition op_revoke :: report_operation where
  "op_revoke ix q =
     with_string q ''report_version_id'' (\<lambda>i. with_string q ''actor_id'' (\<lambda>a. with_string q ''reason'' (\<lambda>r.
     with_revision q ''expected_approval_revision'' (\<lambda>e.
     data_of approval_record_schema_dict (revoke_approval (ix_report ix) i a r e)))))"

definition op_approval_get :: report_operation where
  "op_approval_get ix q =
     with_string q ''report_version_id'' (\<lambda>i. svc_bind (get_approval i) (\<lambda>x. svc_of (approval_data x)))"

definition op_snapshot_create :: report_operation where
  "op_snapshot_create ix q =
     with_string q ''report_version_id'' (\<lambda>i. with_string q ''captured_by'' (\<lambda>a.
     with_strings q ''evidence_ids'' (\<lambda>es.
     data_of custody_snapshot_schema_dict (create_custody_snapshot (ix_report ix) i a es))))"

definition op_snapshot_get :: report_operation where
  "op_snapshot_get ix q =
     with_string q ''custody_snapshot_id'' (\<lambda>i. data_of custody_snapshot_schema_dict (get_custody_snapshot i))"

definition op_package_create :: report_operation where
  "op_package_create ix q =
     with_string q ''report_version_id'' (\<lambda>i. with_string q ''created_by'' (\<lambda>a.
     with_optional q ''custody_snapshot_id'' (\<lambda>c.
     data_of render_package_schema_dict (create_render_package (ix_report ix) i a
       (flag q ''for_export'' False) c (flag q ''stale_confirmed'' False)))))"

definition op_package_get :: report_operation where
  "op_package_get ix q =
     with_string q ''package_id'' (\<lambda>i. data_of render_package_schema_dict (get_render_package i))"

definition op_export_prepare :: report_operation where
  "op_export_prepare ix q =
     svc_bind (svc_of (export_arguments q)) (\<lambda>eq.
     data_of export_manifest_schema_dict (prepare_export (ix_report ix) None eq))"

definition op_manifest_get :: report_operation where
  "op_manifest_get ix q =
     with_string q ''export_manifest_id'' (\<lambda>i. data_of export_manifest_schema_dict (get_export_manifest i))"

definition op_export_status :: report_operation where
  "op_export_status ix q =
     with_string q ''export_manifest_id'' (\<lambda>i. data_of export_status_data (export_status i))"

definition op_record_result :: report_operation where
  "op_record_result ix q =
     with_string q ''export_manifest_id'' (\<lambda>i.
     svc_bind (svc_of (object_payload q)) (\<lambda>payload.
     data_of export_result_data (record_export_result (ix_report ix) i payload)))"

definition report_operations :: "(string \<times> report_operation) list" where
  "report_operations =
     [(''report.capabilities'', op_capabilities), (''report.create'', op_create),
      (''report.get'', op_get), (''report.list'', op_list), (''report.archive'', op_archive),
      (''report.version.create'', op_version_create), (''report.ai-draft.ingest'', op_ingest),
      (''report.version.get'', op_version_get), (''report.version.list'', op_version_list),
      (''report.version.compare'', op_version_compare), (''report.review.submit'', op_submit),
      (''report.review.comment'', op_comment),
      (''report.review.request-changes'', op_request_changes),
      (''report.review.accept-section'', op_accept_section),
      (''report.review.reject-section'', op_reject_section),
      (''report.review.complete'', op_complete), (''report.review.reopen'', op_reopen),
      (''report.review.history'', op_history), (''report.approve'', op_approve),
      (''report.reject'', op_reject), (''report.approval.revoke'', op_revoke),
      (''report.approval.get'', op_approval_get),
      (''report.custody-snapshot.create'', op_snapshot_create),
      (''report.custody-snapshot.get'', op_snapshot_get),
      (''report.render-package.create'', op_package_create),
      (''report.render-package.get'', op_package_get),
      (''report.export.prepare'', op_export_prepare),
      (''report.export-manifest.get'', op_manifest_get),
      (''report.export-status'', op_export_status),
      (''report.export.record-result'', op_record_result)]"

subsection \<open>The case of a target\<close>

definition report_id_operations :: "string list" where
  "report_id_operations =
     [''report.get'', ''report.version.list'', ''report.version.create'', ''report.archive'']"

definition version_id_operations :: "string list" where
  "version_id_operations =
     [''report.version.get'', ''report.review.submit'', ''report.review.comment'',
      ''report.review.request-changes'', ''report.review.accept-section'',
      ''report.review.reject-section'', ''report.review.complete'', ''report.review.reopen'',
      ''report.review.history'', ''report.approve'', ''report.reject'', ''report.approval.revoke'',
      ''report.approval.get'', ''report.custody-snapshot.create'', ''report.render-package.create'',
      ''report.export.prepare'']"

definition manifest_id_operations :: "string list" where
  "manifest_id_operations =
     [''report.export-manifest.get'', ''report.export-status'', ''report.export.record-result'']"

text \<open>The field that names each target, with the case the target belongs to.\<close>

definition case_targets :: "string \<Rightarrow> dict \<Rightarrow> (report_state, (string \<times> string) list) svc" where
  "case_targets operation q =
     (if operation \<in> set report_id_operations then
        with_string q ''report_id'' (\<lambda>i. svc_bind (get_report i) (\<lambda>r.
          svc_ret [(''report_id'', rr_case_id r)]))
      else if operation = ''report.ai-draft.ingest'' then
        with_optional q ''report_id'' (\<lambda>x. case x of
            None \<Rightarrow> svc_ret []
          | Some i \<Rightarrow> svc_bind (get_report i) (\<lambda>r. svc_ret [(''report_id'', rr_case_id r)]))
      else if operation \<in> set version_id_operations then
        with_string q ''report_version_id'' (\<lambda>i. svc_bind (get_version i) (\<lambda>v.
          svc_ret [(''report_version_id'', rv_case_id v)]))
      else if operation = ''report.version.compare'' then
        with_string q ''left_report_version_id'' (\<lambda>i. svc_bind (get_version i) (\<lambda>v.
        with_string q ''right_report_version_id'' (\<lambda>j. svc_bind (get_version j) (\<lambda>w.
          svc_ret [(''left_report_version_id'', rv_case_id v),
                   (''right_report_version_id'', rv_case_id w)]))))
      else if operation = ''report.custody-snapshot.get'' then
        with_string q ''custody_snapshot_id'' (\<lambda>i. svc_bind (get_custody_snapshot i) (\<lambda>n.
          svc_ret [(''custody_snapshot_id'', cn_case_id n)]))
      else if operation = ''report.render-package.get'' then
        with_string q ''package_id'' (\<lambda>i. svc_bind (get_render_package i) (\<lambda>p.
          svc_ret [(''package_id'', rp_case_id p)]))
      else if operation \<in> set manifest_id_operations then
        with_string q ''export_manifest_id'' (\<lambda>i. svc_bind (get_export_manifest i) (\<lambda>m.
          svc_ret [(''export_manifest_id'', xm_case_id m)]))
      else svc_ret [])"

definition case_mismatch :: "string \<Rightarrow> string \<Rightarrow> string \<Rightarrow> exn" where
  "case_mismatch target expected actual =
     report_error_with ''REPORT_REFERENCE_CASE_MISMATCH'' ''Report target belongs to another case.''
       (Some target) False [(''expected_case_id'', PStr expected), (''actual_case_id'', PStr actual)]"

definition require_report_case :: "string \<Rightarrow> dict \<Rightarrow> (report_state, unit) svc" where
  "require_report_case operation q =
     with_optional q ''case_id'' (\<lambda>x. case x of
         None \<Rightarrow> svc_ret ()
       | Some expected \<Rightarrow>
           svc_bind (case_targets operation q) (\<lambda>targets.
           (case find (\<lambda>(t, c). c \<noteq> expected) targets of
              None \<Rightarrow> svc_ret ()
            | Some (t, c) \<Rightarrow> svc_err (case_mismatch t expected c))))"

subsection \<open>Invocations\<close>

definition report_data :: "interface_env \<Rightarrow> string \<Rightarrow> dict \<Rightarrow> (report_state, pyval) svc" where
  "report_data ix operation q =
     svc_bind (svc_guard (\<not> ix_has_reports ix) (unsupported_capability_error
       ''Report service is not available.'' (Some ''operation'') (Some ''REPORT_ENGINE_CONTRACT''))) (\<lambda>_.
     svc_bind (require_report_case operation q) (\<lambda>_.
     (case map_of report_operations operation of
        Some f \<Rightarrow> f ix q
      | None \<Rightarrow> svc_err (unsupported_capability_error ''Unknown report operation.''
          (Some ''operation'') (Some operation)))))"

definition answer_id :: "interface_env \<Rightarrow> string option \<Rightarrow> (report_state, string) svc" where
  "answer_id ix request_id = (case request_id of
     Some (c # s) \<Rightarrow> svc_ret (c # s)
   | _ \<Rightarrow> mint_id (ix_report ix))"

definition invoke_data :: "interface_env \<Rightarrow> bool \<Rightarrow> string \<Rightarrow> dict \<Rightarrow> (report_state, pyval) svc" where
  "invoke_data ix allow_mutation operation q =
     svc_bind (svc_of (canonical_operation operation)) (\<lambda>op.
     let mutates = op \<in> set mutating_operations in
     svc_bind (svc_guard (mutates \<and> \<not> allow_mutation) (unsupported_capability_error
       ''Operation mutates state; use invoke_mutation.'' (Some ''operation'') (Some op))) (\<lambda>_.
     svc_bind (svc_guard (allow_mutation \<and> \<not> mutates) (unsupported_capability_error
       ''Operation does not mutate state; use invoke_read.'' (Some ''operation'') (Some op))) (\<lambda>_.
     if is_prefix ''report.'' op then report_data ix op q else svc_of (ix_other ix op q))))"

definition invoke_interface ::
  "interface_env \<Rightarrow> bool \<Rightarrow> string \<Rightarrow> dict \<Rightarrow> string option \<Rightarrow> string option \<Rightarrow> (report_state, dict) svc" where
  "invoke_interface ix allow_mutation operation q request_id correlation_id =
     svc_catch
       (svc_bind (invoke_data ix allow_mutation operation q) (\<lambda>data.
        svc_bind (answer_id ix request_id) (\<lambda>i. svc_ret (success data i correlation_id))))
       is_apex
       (\<lambda>e. case e of
          ApexExn a \<Rightarrow> svc_bind (answer_id ix request_id) (\<lambda>i. svc_ret (error_answer a i correlation_id))
        | _ \<Rightarrow> svc_err e)"

definition invoke_read ::
  "interface_env \<Rightarrow> string \<Rightarrow> dict \<Rightarrow> string option \<Rightarrow> string option \<Rightarrow> (report_state, dict) svc" where
  "invoke_read ix = invoke_interface ix False"

definition invoke_mutation ::
  "interface_env \<Rightarrow> string \<Rightarrow> dict \<Rightarrow> string option \<Rightarrow> string option \<Rightarrow> (report_state, dict) svc" where
  "invoke_mutation ix = invoke_interface ix True"

end
