(* ===== verification/Report_Case.thy ===== *)
theory Report_Case
  imports Report_Interface Report_Typed_Runs
begin

section \<open>Operations stay in the case of their target\<close>

text \<open>
  \<open>linked_cases\<close>: reports, versions and manifests are identified, and the last two belong to the case of their report.
  \<open>same_elsewhere c s0 s\<close>: the tables \<open>s\<close> differ from \<open>s0\<close> in rows of case \<open>c\<close> only.  \<open>in_case\<close> carries
  both through an operation whose targets are the reports, versions and manifests with
  identifiers in \<open>R\<close>, \<open>V\<close> and \<open>M\<close>.
\<close>

definition belongs :: "report_state \<Rightarrow> string \<Rightarrow> string \<Rightarrow> bool" where
  "belongs s i c \<longleftrightarrow> has_report s i \<and>
     (\<forall>r \<in> set (st_reports s). rr_report_id r = i \<longrightarrow> rr_case_id r = c)"

definition linked_cases :: "report_state \<Rightarrow> bool" where
  "linked_cases s \<longleftrightarrow> distinct (List.map rr_report_id (st_reports s)) \<and>
     distinct (List.map rv_report_version_id (st_versions s)) \<and>
     distinct (List.map xm_export_manifest_id (st_manifests s)) \<and>
     (\<forall>v \<in> set (st_versions s). belongs s (rv_report_id v) (rv_case_id v)) \<and>
     (\<forall>m \<in> set (st_manifests s). belongs s (xm_report_id m) (xm_case_id m))"

definition others :: "('a \<Rightarrow> string) \<Rightarrow> string \<Rightarrow> 'a list \<Rightarrow> 'a list" where
  "others f c xs = filter (\<lambda>x. f x \<noteq> c) xs"

definition same_elsewhere :: "string \<Rightarrow> report_state \<Rightarrow> report_state \<Rightarrow> bool" where
  "same_elsewhere c s0 s \<longleftrightarrow>
     others rr_case_id c (st_reports s) = others rr_case_id c (st_reports s0) \<and>
     others rv_case_id c (st_versions s) = others rv_case_id c (st_versions s0) \<and>
     others rw_case_id c (st_reviews s) = others rw_case_id c (st_reviews s0) \<and>
     others ra_case_id c (st_approvals s) = others ra_case_id c (st_approvals s0) \<and>
     others cn_case_id c (st_snapshots s) = others cn_case_id c (st_snapshots s0) \<and>
     others rp_case_id c (st_packages s) = others rp_case_id c (st_packages s0) \<and>
     others xm_case_id c (st_manifests s) = others xm_case_id c (st_manifests s0) \<and>
     others xa_case_id c (st_audits s) = others xa_case_id c (st_audits s0) \<and>
     (\<forall>x \<in> set (st_artifacts s). x \<in> set (st_artifacts s0) \<or>
        (\<exists>m \<in> set (st_manifests s). xm_export_manifest_id m = rf_export_manifest_id x \<and> xm_case_id m = c))"

definition in_case ::
  "string \<Rightarrow> string set \<Rightarrow> string set \<Rightarrow> string set \<Rightarrow> report_state \<Rightarrow> report_state \<Rightarrow> bool" where
  "in_case c R V M s0 s \<longleftrightarrow> linked_cases s \<and> same_elsewhere c s0 s \<and>
     (\<forall>i \<in> R. belongs s i c) \<and>
     (\<forall>v \<in> set (st_versions s). rv_report_version_id v \<in> V \<longrightarrow> rv_case_id v = c \<and> rv_report_id v \<in> R) \<and>
     (\<forall>m \<in> set (st_manifests s). xm_export_manifest_id m \<in> M \<longrightarrow> xm_case_id m = c \<and> xm_report_id m \<in> R)"

lemma others_append: "others f c (xs @ [x]) = (if f x = c then others f c xs else others f c xs @ [x])"
  by (simp add: others_def)

lemma others_map:
  "(\<And>x. x \<in> set xs \<Longrightarrow> f x = c \<and> f (g x) = c \<or> g x = x) \<Longrightarrow>
     others f c (List.map g xs) = others f c xs"
proof (induction xs)
  case (Cons x xs)
  then have "f x = c \<and> f (g x) = c \<or> g x = x" by simp
  moreover have "others f c (List.map g xs) = others f c xs" by (rule Cons.IH) (simp add: Cons.prems)
  ultimately show ?case by (auto simp: others_def)
qed (simp add: others_def)

lemma belongs_frame [simp]:
  "belongs (s\<lparr>st_ticks := n\<rparr>) = belongs s" "belongs (s\<lparr>st_minted := n\<rparr>) = belongs s"
  "belongs (s\<lparr>st_capabilities := cs\<rparr>) = belongs s" "belongs (s\<lparr>st_versions := vs\<rparr>) = belongs s"
  "belongs (s\<lparr>st_reviews := ws\<rparr>) = belongs s" "belongs (s\<lparr>st_approvals := as\<rparr>) = belongs s"
  "belongs (s\<lparr>st_snapshots := ns\<rparr>) = belongs s" "belongs (s\<lparr>st_packages := ps\<rparr>) = belongs s"
  "belongs (s\<lparr>st_manifests := ms\<rparr>) = belongs s" "belongs (s\<lparr>st_artifacts := xs\<rparr>) = belongs s"
  "belongs (s\<lparr>st_audits := es\<rparr>) = belongs s"
  by (simp_all add: belongs_def has_report_def fun_eq_iff)

lemma in_case_other [simp]:
  "in_case c R V M s0 (s\<lparr>st_ticks := n\<rparr>) = in_case c R V M s0 s"
  "in_case c R V M s0 (s\<lparr>st_minted := n\<rparr>) = in_case c R V M s0 s"
  "in_case c R V M s0 (s\<lparr>st_capabilities := cs\<rparr>) = in_case c R V M s0 s"
  unfolding in_case_def linked_cases_def same_elsewhere_def by simp_all

lemma in_caseD:
  assumes "in_case c R V M s0 s"
  shows "linked_cases s" "same_elsewhere c s0 s"
    "r \<in> set (st_reports s) \<Longrightarrow> rr_report_id r \<in> R \<Longrightarrow> rr_case_id r = c"
    "i \<in> R \<Longrightarrow> belongs s i c"
    "v \<in> set (st_versions s) \<Longrightarrow> rv_report_version_id v \<in> V \<Longrightarrow> rv_case_id v = c \<and> rv_report_id v \<in> R"
    "m \<in> set (st_manifests s) \<Longrightarrow> xm_export_manifest_id m \<in> M \<Longrightarrow> xm_case_id m = c \<and> xm_report_id m \<in> R"
  using assms unfolding in_case_def by (blast, blast, auto simp: belongs_def)

subsection \<open>Writes\<close>

lemma stored_keeps [simp]:
  "rv_case_id (stored_report_version v) = rv_case_id v"
  "rv_report_id (stored_report_version v) = rv_report_id v"
  "rv_report_version_id (stored_report_version v) = rv_report_version_id v"
  "cn_case_id (stored_custody_snapshot n) = cn_case_id n"
  "rp_case_id (stored_render_package p) = rp_case_id p"
  "xm_case_id (stored_export_manifest m) = xm_case_id m"
  "xm_report_id (stored_export_manifest m) = xm_report_id m"
  "xm_export_manifest_id (stored_export_manifest m) = xm_export_manifest_id m"
  "xa_case_id (stored_export_audit_event e) = xa_case_id e"
  "rf_export_manifest_id (stored_rendered_artifact x) = rf_export_manifest_id x"
  by (simp_all add: stored_report_version_def stored_custody_snapshot_def stored_render_package_def
      stored_export_manifest_def stored_export_audit_event_def stored_rendered_artifact_def)

lemma case_save_report:
  assumes w: "sqlite_save_report r s = Inr s'" and inv: "in_case c R V M s0 s" and c: "rr_case_id r = c"
  shows "in_case c (insert (rr_report_id r) R) V M s0 s'"
proof -
  have s': "s' = s\<lparr>st_reports := st_reports s @ [r]\<rparr>" and new: "\<not> has_report s (rr_report_id r)"
    using w by (auto simp: sqlite_save_report_def)
  have b: "belongs s' i d" if "belongs s i d" for i d
    using that new by (auto simp: s' belongs_def has_report_def)
  have fresh: "rr_report_id r \<notin> rr_report_id ` set (st_reports s)"
    using new by (auto simp: has_report_def list_ex_iff)
  then have "belongs s' (rr_report_id r) c" using c by (auto simp: s' belongs_def has_report_def image_iff)
  then show ?thesis
    using inv b c unfolding in_case_def linked_cases_def same_elsewhere_def
    by (simp add: s' others_append fresh)
qed

lemma case_update_report:
  assumes w: "sqlite_update_report r s = Inr s'" and inv: "in_case c R V M s0 s"
    and r: "rr_report_id r \<in> R" "rr_case_id r = c"
  shows "in_case c R V M s0 s'"
proof -
  let ?g = "\<lambda>q. if rr_report_id q = rr_report_id r then r else q"
  have s': "s' = s\<lparr>st_reports := List.map ?g (st_reports s)\<rparr>"
    using w by (auto simp: sqlite_update_report_def)
  have o: "others rr_case_id c (st_reports s') = others rr_case_id c (st_reports s)"
    unfolding s' by (simp, rule others_map) (use in_caseD(3) [OF inv] r in auto)
  have in_c: "rr_case_id q = c" if "q \<in> set (st_reports s')" "rr_report_id q \<in> R" for q
    using that in_caseD(3) [OF inv] r by (auto simp: s' split: if_splits)
  have b: "belongs s' i d" if b0: "belongs s i d" for i d
  proof -
    obtain q0 where q0: "q0 \<in> set (st_reports s)" "rr_report_id q0 = i" "rr_case_id q0 = d"
      using b0 by (auto simp: belongs_def has_report_def list_ex_iff)
    have "?g q0 \<in> set (st_reports s')" "rr_report_id (?g q0) = i" using q0 by (auto simp: s')
    then have "has_report s' i" unfolding has_report_def list_ex_iff by blast
    moreover have "rr_case_id q = d" if q: "q \<in> set (st_reports s')" "rr_report_id q = i" for q
    proof (cases "i = rr_report_id r")
      case True
      then have "d = c" using q0 in_caseD(3) [OF inv q0(1)] r by simp
      then show ?thesis using in_c q True r by simp
    next
      case False
      then have "q \<in> set (st_reports s)" using q by (auto simp: s' split: if_splits)
      with b0 q show ?thesis by (auto simp: belongs_def)
    qed
    ultimately show ?thesis by (simp add: belongs_def)
  qed
  have ids: "List.map rr_report_id (st_reports s') = List.map rr_report_id (st_reports s)"
    by (simp add: s' comp_def cong: if_cong)
  have rest: "st_versions s' = st_versions s" "st_reviews s' = st_reviews s"
    "st_approvals s' = st_approvals s" "st_snapshots s' = st_snapshots s"
    "st_packages s' = st_packages s" "st_manifests s' = st_manifests s"
    "st_artifacts s' = st_artifacts s" "st_audits s' = st_audits s"
    by (simp_all add: s')
  show ?thesis
    using inv b o ids unfolding in_case_def linked_cases_def same_elsewhere_def rest by (simp only:) blast
qed

text \<open>Rows that are appended to a table of the case.\<close>

lemma case_appends:
  assumes "in_case c R V M s0 s"
  shows "rv_case_id v = c \<Longrightarrow> rv_report_id v \<in> R \<Longrightarrow>
      \<forall>w \<in> set (st_versions s). rv_report_version_id w \<noteq> rv_report_version_id v \<Longrightarrow>
      in_case c R V M s0 (s\<lparr>st_versions := st_versions s @ [stored_report_version v]\<rparr>)"
    "rw_case_id w = c \<Longrightarrow> in_case c R V M s0 (s\<lparr>st_reviews := st_reviews s @ [w]\<rparr>)"
    "ra_case_id a = c \<Longrightarrow> in_case c R V M s0 (s\<lparr>st_approvals := st_approvals s @ [a]\<rparr>)"
    "cn_case_id n = c \<Longrightarrow> in_case c R V M s0 (s\<lparr>st_snapshots := st_snapshots s @ [stored_custody_snapshot n]\<rparr>)"
    "rp_case_id p = c \<Longrightarrow> in_case c R V M s0 (s\<lparr>st_packages := st_packages s @ [stored_render_package p]\<rparr>)"
    "xm_case_id m = c \<Longrightarrow> xm_report_id m \<in> R \<Longrightarrow>
      \<forall>w \<in> set (st_manifests s). xm_export_manifest_id w \<noteq> xm_export_manifest_id m \<Longrightarrow>
      in_case c R V M s0 (s\<lparr>st_manifests := st_manifests s @ [stored_export_manifest m]\<rparr>)"
    "xa_case_id e = c \<Longrightarrow> in_case c R V M s0 (s\<lparr>st_audits := st_audits s @ [stored_export_audit_event e]\<rparr>)"
    "rf_export_manifest_id x \<in> M \<Longrightarrow> list_ex (\<lambda>w. xm_export_manifest_id w = rf_export_manifest_id x) (st_manifests s) \<Longrightarrow>
      in_case c R V M s0 (s\<lparr>st_artifacts := st_artifacts s @ [stored_rendered_artifact x]\<rparr>)"
  using assms unfolding in_case_def linked_cases_def same_elsewhere_def
  by (simp_all add: others_append image_iff list_ex_iff) (metis | blast)+

lemma case_update_manifest:
  assumes w: "sqlite_update_export_manifest m s = Inr s'" and inv: "in_case c R V M s0 s"
    and m: "xm_export_manifest_id m \<in> M" "xm_case_id m = c" "xm_report_id m \<in> R"
  shows "in_case c R V M s0 s'"
proof -
  let ?g = "\<lambda>w. if xm_export_manifest_id w = xm_export_manifest_id m then stored_export_manifest m else w"
  have s': "s' = s\<lparr>st_manifests := List.map ?g (st_manifests s)\<rparr>"
    using w by (auto simp: sqlite_update_export_manifest_def)
  have o: "others xm_case_id c (st_manifests s') = others xm_case_id c (st_manifests s)"
    unfolding s' by (simp, rule others_map) (use in_caseD(6) [OF inv] m in auto)
  have linked: "belongs s' (xm_report_id w) (xm_case_id w)" if "w \<in> set (st_manifests s')" for w
    using that in_caseD(1,4) [OF inv] m by (auto simp: s' linked_cases_def)
  have target: "xm_case_id w = c \<and> xm_report_id w \<in> R"
    if "w \<in> set (st_manifests s')" "xm_export_manifest_id w \<in> M" for w
    using that in_caseD(6) [OF inv] m by (auto simp: s')
  have still: "\<exists>w' \<in> set (st_manifests s'). xm_export_manifest_id w' = xm_export_manifest_id w \<and> xm_case_id w' = c"
    if "w \<in> set (st_manifests s)" "xm_case_id w = c" for w
  proof -
    have "?g w \<in> set (st_manifests s')" using that by (auto simp: s')
    moreover have "xm_export_manifest_id (?g w) = xm_export_manifest_id w" "xm_case_id (?g w) = c"
      using that m by simp_all
    ultimately show ?thesis by blast
  qed
  have rest: "st_reports s' = st_reports s" "st_versions s' = st_versions s" "st_reviews s' = st_reviews s"
    "st_approvals s' = st_approvals s" "st_snapshots s' = st_snapshots s" "belongs s' = belongs s"
    "st_packages s' = st_packages s" "st_artifacts s' = st_artifacts s" "st_audits s' = st_audits s"
    by (simp_all add: s')
  have "same_elsewhere c s0 s'"
    using in_caseD(2) [OF inv] o still unfolding same_elsewhere_def rest by metis
  moreover have "List.map xm_export_manifest_id (st_manifests s') = List.map xm_export_manifest_id (st_manifests s)"
    by (simp add: s' comp_def cong: if_cong)
  then have "linked_cases s'"
    using in_caseD(1) [OF inv] linked unfolding linked_cases_def rest by simp
  ultimately show ?thesis
    using inv target unfolding in_case_def rest by blast
qed

text \<open>The writes of the operations.\<close>

lemma case_writes:
  assumes "in_case c R V M s0 s"
  shows "sqlite_save_report_version v r s = Inr s' \<Longrightarrow> rv_case_id v = c \<Longrightarrow> rv_report_id v \<in> R \<Longrightarrow>
      rr_report_id r \<in> R \<Longrightarrow> rr_case_id r = c \<Longrightarrow> in_case c R V M s0 s'"
    "sqlite_append_review_event w r s = Inr s' \<Longrightarrow> rw_case_id w = c \<Longrightarrow>
      rr_report_id r \<in> R \<Longrightarrow> rr_case_id r = c \<Longrightarrow> in_case c R V M s0 s'"
    "sqlite_append_approval a r s = Inr s' \<Longrightarrow> ra_case_id a = c \<Longrightarrow>
      rr_report_id r \<in> R \<Longrightarrow> rr_case_id r = c \<Longrightarrow> in_case c R V M s0 s'"
    "sqlite_save_custody_snapshot n s = Inr s' \<Longrightarrow> cn_case_id n = c \<Longrightarrow> in_case c R V M s0 s'"
    "sqlite_save_render_package p s = Inr s' \<Longrightarrow> rp_case_id p = c \<Longrightarrow> in_case c R V M s0 s'"
    "sqlite_save_export_manifest m r s = Inr s' \<Longrightarrow> xm_case_id m = c \<Longrightarrow> xm_report_id m \<in> R \<Longrightarrow>
      rr_report_id r \<in> R \<Longrightarrow> rr_case_id r = c \<Longrightarrow> in_case c R V M s0 s'"
    "sqlite_append_export_audit e s = Inr s' \<Longrightarrow> xa_case_id e = c \<Longrightarrow> in_case c R V M s0 s'"
    "sqlite_save_capability k s = Inr s' \<Longrightarrow> in_case c R V M s0 s'"
  using case_appends [OF assms] assms
  by (auto simp: sqlite_save_report_version_def has_version_def list_ex_iff sqlite_append_review_event_def
      sqlite_append_approval_def sqlite_save_custody_snapshot_def sqlite_save_render_package_def
      sqlite_save_export_manifest_def sqlite_append_export_audit_def sqlite_save_capability_def
      intro: case_update_report)

lemma case_save_artifact:
  assumes "sqlite_save_rendered_artifact x m r s = Inr s'" "in_case c R V M s0 s"
    and "rf_export_manifest_id x \<in> M" "xm_export_manifest_id m \<in> M" "xm_case_id m = c"
    and "xm_report_id m \<in> R" "rr_report_id r \<in> R" "rr_case_id r = c"
  shows "in_case c R V M s0 s'"
proof -
  let ?s1 = "s\<lparr>st_artifacts := st_artifacts s @ [stored_rendered_artifact x]\<rparr>"
  obtain s2 where w: "sqlite_update_export_manifest m ?s1 = Inr s2" "sqlite_update_report r s2 = Inr s'"
    and e: "list_ex (\<lambda>w. xm_export_manifest_id w = rf_export_manifest_id x) (st_manifests s)"
    using assms(1) by (auto simp: sqlite_save_rendered_artifact_def)
  have "in_case c R V M s0 ?s1" by (rule case_appends(8) [OF assms(2,3) e])
  from case_update_manifest [OF w(1) this assms(4-6)] have "in_case c R V M s0 s2" .
  from case_update_report [OF w(2) this assms(7,8)] show ?thesis .
qed

subsection \<open>Steps of an operation\<close>

abbreviation stays :: "string \<Rightarrow> string set \<Rightarrow> string set \<Rightarrow> string set \<Rightarrow> report_state \<Rightarrow>
    (report_state, 'a) svc \<Rightarrow> report_state \<Rightarrow> bool" where
  "stays c R V M s0 m \<equiv> wp (in_case c R V M s0) m (\<lambda>_. in_case c R V M s0)"

lemma case_found:
  assumes "in_case c R V M s0 s"
  shows "sqlite_get_report s i = Some r \<Longrightarrow> rr_report_id r = i \<and> (i \<in> R \<longrightarrow> rr_case_id r = c)"
    "sqlite_get_report_version s i = Some v \<Longrightarrow> rv_report_version_id v = i \<and>
       (i \<in> V \<longrightarrow> rv_case_id v = c \<and> rv_report_id v \<in> R)"
    "sqlite_get_export_manifest s i = Some m \<Longrightarrow> xm_export_manifest_id m = i \<and>
       (i \<in> M \<longrightarrow> xm_case_id m = c \<and> xm_report_id m \<in> R)"
  using in_caseD(3,5,6) [OF assms]
  by (auto simp: sqlite_get_report_def sqlite_get_report_version_def sqlite_get_export_manifest_def
      find_Some_iff)

lemma stay_rules:
  assumes "in_case c R V M s0 s"
  shows "(\<And>x. r = Inr x \<Longrightarrow> Qo x s) \<Longrightarrow> wp (in_case c R V M s0) (svc_of r) Qo s"
    "(\<And>x. f s = Inr x \<Longrightarrow> Qr x s) \<Longrightarrow> wp (in_case c R V M s0) (svc_read f) Qr s"
    "Qg (g s) s \<Longrightarrow> wp (in_case c R V M s0) (svc_get g) Qg s"
    "Qt x s \<Longrightarrow> wp (in_case c R V M s0) (svc_ret x) Qt s"
    "wp (in_case c R V M s0) (svc_err e) Qe s"
    "(\<not> b \<Longrightarrow> Qu () s) \<Longrightarrow> wp (in_case c R V M s0) (svc_guard b x') Qu s"
    "(\<And>t s'. in_case c R V M s0 s' \<Longrightarrow> Qc t s') \<Longrightarrow> wp (in_case c R V M s0) (read_clock env) Qc s"
    "(\<And>j s'. in_case c R V M s0 s' \<Longrightarrow> Qi j s') \<Longrightarrow> wp (in_case c R V M s0) (mint_id env) Qi s"
    "(\<And>p. rr_report_id p = i \<Longrightarrow> (i \<in> R \<Longrightarrow> rr_case_id p = c) \<Longrightarrow> Qp p s) \<Longrightarrow>
      wp (in_case c R V M s0) (get_report i) Qp s"
    "(\<And>v. rv_report_version_id v = i \<Longrightarrow> (i \<in> V \<Longrightarrow> rv_case_id v = c \<and> rv_report_id v \<in> R) \<Longrightarrow> Qv v s) \<Longrightarrow>
      wp (in_case c R V M s0) (get_version i) Qv s"
    "(\<And>m. xm_export_manifest_id m = i \<Longrightarrow> (i \<in> M \<Longrightarrow> xm_case_id m = c \<and> xm_report_id m \<in> R) \<Longrightarrow> Qm m s) \<Longrightarrow>
      wp (in_case c R V M s0) (get_export_manifest i) Qm s"
    "(\<And>k. Qk k s) \<Longrightarrow> wp (in_case c R V M s0) (get_render_package i) Qk s"
    "(\<And>a. Qa a s) \<Longrightarrow> wp (in_case c R V M s0) (require_approved_version w) Qa s"
    "(\<And>n. Qn n s) \<Longrightarrow> wp (in_case c R V M s0) (get_custody_snapshot i) Qn s"
  using assms
  by (auto split: option.splits sum.splits simp: wp_get_manifest get_render_package_def
      opt_res_def wp_require_approved get_custody_snapshot_def dest: case_found)

lemma stay_write:
  assumes "\<And>s'. w s = Inr s' \<Longrightarrow> in_case c R V M s0 s'" "in_case c R V M s0 s"
    and "\<And>s'. in_case c R V M s0 s' \<Longrightarrow> Qu () s'"
  shows "wp (in_case c R V M s0) (svc_write w) Qu s"
  using assms by (auto split: sum.splits)

lemma stay_then:
  "stays c R V M s0 m s \<Longrightarrow> (\<And>x s'. in_case c R V M s0 s' \<Longrightarrow> Q x s') \<Longrightarrow> wp (in_case c R V M s0) m Q s"
  by (rule wp_mono)

end
