(* ===== verification/Report_Case_Runs.thy ===== *)
theory Report_Case_Runs
  imports Report_Case
begin

section \<open>The operations of the interface stay in the case of their target\<close>

text \<open>
  One lemma per operation of the service that the interface reaches: started in tables that
  \<open>in_case\<close> admits, on a target in \<open>R\<close>, \<open>V\<close> or \<open>M\<close>, it ends in such tables, also when it raises.
\<close>

subsection \<open>Reports and versions\<close>

lemma in_case_weaken: "in_case c (insert i R) V M s0 s \<Longrightarrow> V = {} \<Longrightarrow> M = {} \<Longrightarrow> in_case c R V M s0 s"
  by (simp add: in_case_def)

lemma stay_create_report: "in_case c R V M s0 s \<Longrightarrow>
    wp (in_case c R V M s0) (create_report env c t u d ty l z)
      (\<lambda>p s'. in_case c (insert (rr_report_id p) R) V M s0 s') s"
  unfolding create_report_def require_case_row_def Let_def wp_bind
  by (intro stay_rules; (assumption)?) (auto split: sum.splits dest: case_save_report)

lemma stay_archive_report: "in_case c R V M s0 s \<Longrightarrow> i \<in> R \<Longrightarrow> stays c R V M s0 (archive_report env i u x) s"
  unfolding archive_report_def Let_def wp_bind
  by (intro stay_rules stay_write; (erule case_update_report)?; simp?)

lemma content_case: "version_content env s report q = Inr (v, cs) \<Longrightarrow>
    rv_case_id v = rr_case_id report \<and> rv_report_id v = rr_report_id report"
  unfolding version_content_def Let_def by (elim passing) auto

lemma stay_write_version: "in_case c R V M s0 s \<Longrightarrow> rr_report_id p \<in> R \<Longrightarrow> rr_case_id p = c \<Longrightarrow>
    rv_case_id k = c \<Longrightarrow> rv_report_id k \<in> R \<Longrightarrow> stays c R V M s0 (write_version env p previous k fp) s"
  unfolding write_version_def Let_def wp_bind
  by (intro stay_rules stay_write; (erule case_writes(1) [rotated])?; simp?)

lemma stay_previous: "in_case c R V M s0 s \<Longrightarrow> (\<And>x. Q x s) \<Longrightarrow>
    wp (in_case c R V M s0) (previous_version p) Q s"
  unfolding previous_version_def by (auto split: option.splits)

lemma stay_create_version: "in_case c R V M s0 s \<Longrightarrow> vq_report_id q \<in> R \<Longrightarrow>
    stays c R V M s0 (create_version env q) s"
  unfolding create_version_def wp_bind split_def
  by (intro stay_rules stay_previous keep_option stay_write_version;
      (assumption | (simp add: prod_eq_iff; fail))?) (auto dest: content_case)

lemma wp_weaken: "wp I m Q s \<Longrightarrow> (\<And>s'. I s' \<Longrightarrow> I' s') \<Longrightarrow> (\<And>x s'. Q x s' \<Longrightarrow> Q' x s') \<Longrightarrow> wp I' m Q' s"
  by (auto simp: wp_def split: prod.splits sum.splits)

lemma stay_ingest:
  assumes s: "in_case c R {} {} s0 s"
    and i: "\<And>j. i = Some j \<Longrightarrow> j \<in> R"
    and d: "\<And>s k q. i = None \<Longrightarrow> draft_request env s d u = Inr (k, q) \<Longrightarrow> k = c"
  shows "stays c R {} {} s0 (ingest_ai_draft env d i u) s"
proof (cases "draft_request env s d u")
  case (Inl e)
  then show ?thesis using s by (simp add: ingest_ai_draft_def)
next
  case (Inr kq)
  obtain k q where kq: "kq = (k, q)" by (cases kq)
  show ?thesis
  proof (cases i)
    case (Some j)
    then show ?thesis using s i Inr kq stay_create_version by (simp add: ingest_ai_draft_def)
  next
    case None
    then have "k = c" using d Inr kq by blast
    have v: "stays c R {} {} s0 (create_version env (q\<lparr>vq_report_id := rr_report_id p\<rparr>)) s'"
      if "in_case c (insert (rr_report_id p) R) {} {} s0 s'" for p s'
      by (rule wp_weaken [OF stay_create_version [OF that]]) (simp_all add: in_case_weaken)
    show ?thesis
      unfolding ingest_ai_draft_def using None Inr kq \<open>k = c\<close>
      by (auto intro!: wp_mono [OF stay_create_report [OF s]] v)
  qed
qed

subsection \<open>Review, snapshots and approval\<close>

lemma stay_review: "in_case c R V M s0 s \<Longrightarrow> wq_version_id q \<in> V \<Longrightarrow>
    stays c R V M s0 (append_review_event env q) s"
  unfolding append_review_event_def write_review_event_def Let_def wp_bind
  by (intro stay_rules stay_write; (erule case_writes(2) [rotated])?; simp?)

lemma stay_public_reviews:
  assumes "in_case c R V M s0 s" "i \<in> V"
  shows "stays c R V M s0 (submit_review env i a r e) s"
    "stays c R V M s0 (comment_review env i a r k x e) s"
    "stays c R V M s0 (request_changes env i a r cs x e) s"
    "stays c R V M s0 (accept_section env i n a r y e) s"
    "stays c R V M s0 (reject_section env i n a r cs y e) s"
    "stays c R V M s0 (complete_review env i a r e) s"
    "stays c R V M s0 (reopen_review env i a r e) s"
  using assms
  by (simp_all add: stay_review submit_review_def comment_review_def request_changes_def
      accept_section_def reject_section_def complete_review_def reopen_review_def)

lemma snapshot_content_case: "custody_snapshot_content env v evs u s = Inr k \<Longrightarrow> cn_case_id k = rv_case_id v"
  by (auto simp: custody_snapshot_content_def Let_def split: if_splits)

lemma stay_snapshot: "in_case c R V M s0 s \<Longrightarrow> i \<in> V \<Longrightarrow>
    stays c R V M s0 (create_custody_snapshot env i u es) s"
  unfolding create_custody_snapshot_def Let_def wp_bind
  by (intro stay_rules keep_option wp_bind [THEN iffD2] stay_write; (erule case_writes(4) [rotated])?;
      (drule snapshot_content_case)?; simp?)

lemma stay_append_approval: "in_case c R V M s0 s \<Longrightarrow> rv_case_id v = c \<Longrightarrow> rv_report_id v \<in> R \<Longrightarrow>
    stays c R V M s0 (append_approval env v d u x j e) s"
  unfolding append_approval_def Let_def wp_bind
  by (intro stay_rules stay_write; (erule case_writes(3) [rotated])?; simp?)

lemma stay_approve: "in_case c R V M s0 s \<Longrightarrow> i \<in> V \<Longrightarrow> stays c R V M s0 (approve env i u x j e1 e2) s"
  unfolding approve_def wp_bind
  by (intro stay_rules keep_option stay_then [OF stay_snapshot] stay_append_approval; simp?)

lemma stay_reject: "in_case c R V M s0 s \<Longrightarrow> i \<in> V \<Longrightarrow> stays c R V M s0 (reject_version env i u x e) s"
  unfolding reject_version_def wp_bind by (intro stay_rules stay_append_approval; simp?)

lemma stay_revoke: "in_case c R V M s0 s \<Longrightarrow> i \<in> V \<Longrightarrow> stays c R V M s0 (revoke_approval env i u x e) s"
  unfolding revoke_approval_def wp_bind by (intro stay_rules stay_append_approval; simp?)

subsection \<open>Export\<close>

lemma stay_package: "in_case c R V M s0 s \<Longrightarrow> i \<in> V \<Longrightarrow>
    stays c R V M s0 (create_render_package env i u b j k) s"
  unfolding create_render_package_def Let_def wp_bind wp_if
  by (intro stay_rules keep_option keep_if conjI impI wp_bind [THEN iffD2] stay_write;
      (erule case_writes(5) [rotated])?; simp?)

lemma stay_current: "in_case c R V M s0 s \<Longrightarrow> stays c R V M s0 (current_capability env rn) s"
  unfolding current_capability_def Let_def
  by (intro stay_rules keep_option wp_bind [THEN iffD2])

lemma stay_capabilities: "in_case c R V M s0 s \<Longrightarrow> stays c R V M s0 (service_capabilities env) s"
  unfolding service_capabilities_def wp_bind
  by (intro stay_rules stay_then [OF stay_current] stay_write; (erule case_writes(8) [rotated])?; assumption)

lemma stay_audit: "in_case c R V M s0 s \<Longrightarrow> xm_case_id m = c \<Longrightarrow>
    stays c R V M s0 (append_export_audit env m a u t d) s"
  unfolding append_export_audit_def Let_def wp_bind
  by (intro stay_rules stay_write; (erule case_writes(7) [rotated])?; simp?)

lemma stay_write_manifest: "in_case c R V {} s0 s \<Longrightarrow> rv_case_id v = c \<Longrightarrow> rv_report_id v \<in> R \<Longrightarrow>
    stays c R V {} s0 (write_manifest env rn q v a f n red u fp p) s"
  unfolding write_manifest_def Let_def wp_bind wp_if
  by (intro stay_rules keep_if conjI impI stay_write stay_then [OF stay_current] stay_then [OF stay_audit];
      (erule case_writes(6) [rotated] case_writes(8) [rotated])?; simp?)

lemma stay_prepare: "in_case c R V {} s0 s \<Longrightarrow> eq_version_id q \<in> V \<Longrightarrow>
    stays c R V {} s0 (prepare_export env rn q) s"
  unfolding prepare_export_def wp_bind
  by (intro stay_rules keep_option wp_bind [THEN iffD2] stay_then [OF stay_package] stay_write_manifest;
      simp?)

lemma artifact_manifest: "artifact_of_result m d ws = Inr x \<Longrightarrow>
    rf_export_manifest_id x = xm_export_manifest_id m"
  unfolding artifact_of_result_def by (elim passing) auto

lemma stay_complete: "in_case c R V M s0 s \<Longrightarrow> xm_export_manifest_id m \<in> M \<Longrightarrow> xm_case_id m = c \<Longrightarrow>
    xm_report_id m \<in> R \<Longrightarrow> rf_export_manifest_id x = xm_export_manifest_id m \<Longrightarrow>
    stays c R V M s0 (complete_export env m x) s"
  unfolding complete_export_def Let_def wp_bind
  by (intro stay_rules stay_write stay_then [OF stay_audit]; (erule case_save_artifact)?; simp?)

lemma stay_record: "in_case c R V M s0 s \<Longrightarrow> i \<in> M \<Longrightarrow>
    stays c R V M s0 (record_export_result env i d) s"
  unfolding record_export_result_def Let_def wp_bind wp_if
  by (intro stay_rules keep_if conjI impI stay_write stay_then [OF stay_audit] stay_then [OF stay_complete];
      (erule case_update_manifest)?; (drule artifact_manifest)?; simp?)

end
