(* ===== verification/Report_Interface_Facts.thy ===== *)
theory Report_Interface_Facts
  imports Report_Case_Runs
begin

section \<open>Invocations and cases\<close>

text \<open>
  What an invocation of a report operation may change.  \<open>read_only\<close> computations leave the state
  as it is; the check of the target's case is one of them, and when it passes, the operation runs
  in tables where \<open>in_case\<close> holds of its target.
\<close>

subsection \<open>Computations that only read\<close>

definition read_only :: "('s, 'a) svc \<Rightarrow> bool" where
  "read_only m \<longleftrightarrow> (\<forall>s. fst (m s) = s)"

lemma read_only_rules:
  "read_only (svc_ret x)" "read_only (svc_err e)" "read_only (svc_of r)" "read_only (svc_read f)"
  "read_only (svc_get g)" "read_only (svc_guard b e)"
  by (auto simp: read_only_def svc_defs split: sum.splits)

lemma read_only_bind: "read_only m \<Longrightarrow> (\<And>x. read_only (k x)) \<Longrightarrow> read_only (svc_bind m k)"
  unfolding read_only_def svc_bind_def by (auto split: prod.splits sum.splits) (metis fst_conv)+

lemma read_only_option:
  "read_only a \<Longrightarrow> (\<And>y. read_only (b y)) \<Longrightarrow> read_only (case x of None \<Rightarrow> a | Some y \<Rightarrow> b y)"
  by (cases x) simp_all

lemma read_only_if: "read_only a \<Longrightarrow> read_only b \<Longrightarrow> read_only (if c then a else b)"
  by simp

lemma read_only_state: "read_only m \<Longrightarrow> m s = (s', r) \<Longrightarrow> s' = s"
  by (metis fst_conv read_only_def)

lemma read_only_queries:
  "read_only (get_report i)" "read_only (get_version i)" "read_only (get_custody_snapshot i)"
  "read_only (get_render_package i)" "read_only (get_export_manifest i)" "read_only (require_case_row i)"
  by (simp_all add: get_report_def get_version_def get_custody_snapshot_def get_render_package_def
      get_export_manifest_def require_case_row_def read_only_rules)

lemmas reading = read_only_rules read_only_bind read_only_option read_only_if read_only_queries

lemma read_only_lists:
  "read_only (list_versions i)" "read_only (review_history i)" "read_only (get_approval i)"
  "read_only (export_status i)" "read_only (compare_versions i j)" "read_only (list_reports f i cu n)"
  unfolding list_versions_def review_history_def get_approval_def export_status_def
    compare_versions_def list_reports_def Let_def
  by (intro reading)+

lemma read_only_arguments:
  "(\<And>x. read_only (f x)) \<Longrightarrow> read_only (with_string q k f)"
  "(\<And>x. read_only (g x)) \<Longrightarrow> read_only (with_optional q k g)"
  "read_only m \<Longrightarrow> read_only (data_of h m)" "read_only n \<Longrightarrow> read_only (list_data_of h' n)"
  unfolding with_string_def with_optional_def data_of_def list_data_of_def by (intro reading; simp)+

lemma read_only_operations:
  "read_only (op_get ix q)" "read_only (op_list ix q)" "read_only (op_version_get ix q)"
  "read_only (op_version_list ix q)" "read_only (op_version_compare ix q)" "read_only (op_history ix q)"
  "read_only (op_approval_get ix q)" "read_only (op_snapshot_get ix q)" "read_only (op_package_get ix q)"
  "read_only (op_manifest_get ix q)" "read_only (op_export_status ix q)"
  unfolding op_get_def op_list_def op_version_get_def op_version_list_def op_version_compare_def
    op_history_def op_approval_get_def op_snapshot_get_def op_package_get_def op_manifest_get_def
    op_export_status_def
  by (intro reading read_only_arguments read_only_lists)+

lemma read_only_targets: "read_only (case_targets op q)"
  unfolding case_targets_def
  by (intro reading read_only_arguments)

lemma read_only_case: "read_only (require_report_case op q)"
  unfolding require_report_case_def
  by (intro reading read_only_arguments read_only_targets)
    (auto intro: reading split: option.splits prod.splits)

subsection \<open>Operations on a target\<close>

lemma stay_read: "read_only m \<Longrightarrow> in_case c R V M s0 s \<Longrightarrow> stays c R V M s0 m s"
  by (auto simp: read_only_def wp_def split: prod.splits sum.splits) (metis fst_conv)+

lemma stay_data: "stays c R V M s0 m s \<Longrightarrow> stays c R V M s0 (data_of f m) s"
  unfolding data_of_def by (auto elim: wp_mono split: sum.splits)

lemma stay_arguments:
  assumes "in_case c R V M s0 s"
  shows "(\<And>x. required_string q k = Inr x \<Longrightarrow> stays c R V M s0 (f x) s) \<Longrightarrow>
      stays c R V M s0 (with_string q k f) s"
    "(\<And>x. optional_string q k = Inr x \<Longrightarrow> stays c R V M s0 (g x) s) \<Longrightarrow>
      stays c R V M s0 (with_optional q k g) s"
    "(\<And>x. stays c R V M s0 (h x) s) \<Longrightarrow> stays c R V M s0 (with_revision q k h) s"
    "(\<And>x. stays c R V M s0 (u x) s) \<Longrightarrow> stays c R V M s0 (with_strings q k u) s"
    "(\<And>x. r = Inr x \<Longrightarrow> stays c R V M s0 (v x) s) \<Longrightarrow> stays c R V M s0 (svc_bind (svc_of r) v) s"
  using assms unfolding with_string_def with_optional_def with_revision_def with_strings_def
  by (auto split: sum.splits)

lemma version_arguments_report: "version_arguments q = Inr vq \<Longrightarrow> required_string q ''report_id'' = Inr (vq_report_id vq)"
  unfolding version_arguments_def by (elim passing) auto

lemma export_arguments_version:
  "export_arguments q = Inr eq \<Longrightarrow> required_string q ''report_version_id'' = Inr (eq_version_id eq)"
  unfolding export_arguments_def by (elim passing) auto

lemma report_ops:
  assumes s: "in_case c {i} {} {} s0 s" and i: "required_string q ''report_id'' = Inr i"
  shows "stays c {i} {} {} s0 (op_archive ix q) s" "stays c {i} {} {} s0 (op_version_create ix q) s"
  unfolding op_archive_def op_version_create_def
  by (intro stay_arguments [OF s] stay_data stay_archive_report [OF s] stay_create_version [OF s];
      use i in \<open>simp add: version_arguments_report\<close>; fail)
    (intro stay_arguments [OF s] stay_data stay_create_version [OF s];
      use i in \<open>auto dest: version_arguments_report\<close>)

lemma version_ops:
  assumes s: "in_case c R {i} {} s0 s" and i: "required_string q ''report_version_id'' = Inr i"
  shows "stays c R {i} {} s0 (op_submit ix q) s" "stays c R {i} {} s0 (op_comment ix q) s"
    "stays c R {i} {} s0 (op_request_changes ix q) s" "stays c R {i} {} s0 (op_accept_section ix q) s"
    "stays c R {i} {} s0 (op_reject_section ix q) s" "stays c R {i} {} s0 (op_complete ix q) s"
    "stays c R {i} {} s0 (op_reopen ix q) s" "stays c R {i} {} s0 (op_approve ix q) s"
    "stays c R {i} {} s0 (op_reject ix q) s" "stays c R {i} {} s0 (op_revoke ix q) s"
    "stays c R {i} {} s0 (op_snapshot_create ix q) s" "stays c R {i} {} s0 (op_package_create ix q) s"
    "stays c R {i} {} s0 (op_export_prepare ix q) s"
  unfolding op_submit_def op_comment_def op_request_changes_def op_accept_section_def
    op_reject_section_def op_complete_def op_reopen_def op_approve_def op_reject_def op_revoke_def
    op_snapshot_create_def op_package_create_def op_export_prepare_def
  by (intro stay_arguments [OF s] stay_data stay_public_reviews [OF s] stay_approve [OF s]
      stay_reject [OF s] stay_revoke [OF s] stay_snapshot [OF s] stay_package [OF s] stay_prepare [OF s];
      use i in \<open>auto dest: export_arguments_version\<close>)+

lemma manifest_ops:
  assumes s: "in_case c R {} {i} s0 s" and i: "required_string q ''export_manifest_id'' = Inr i"
  shows "stays c R {} {i} s0 (op_record_result ix q) s"
  unfolding op_record_result_def
  by (intro stay_arguments [OF s] stay_data stay_record [OF s]) (use i in simp)

lemma op_create_stays:
  assumes s: "in_case c {} {} {} s0 s" and q: "required_string q ''case_id'' = Inr c"
  shows "stays c {} {} {} s0 (op_create ix q) s"
proof -
  have "stays c {} {} {} s0 (create_report e c t u d ty l z) s" for e t u d ty l z
    by (rule wp_mono [OF stay_create_report [OF s]]) (simp add: in_case_weaken)
  then show ?thesis
    unfolding op_create_def using q by (intro stay_arguments [OF s] stay_data) simp
qed

lemma draft_case: "draft_request env s d u = Inr (k, vq) \<Longrightarrow> required_non_empty (dget_or d ''case_id'' PNone) ''case_id'' = Inr k"
  unfolding draft_request_def Let_def by (elim passing) auto

lemma op_ingest_stays:
  assumes s: "in_case c R {} {} s0 s"
    and q: "required_string q ''case_id'' = Inr c" "strip c = c" "dget_or q ''payload'' PNone = PNone"
    and i: "\<And>i. optional_string q ''report_id'' = Inr (Some i) \<Longrightarrow> i \<in> R"
  shows "stays c R {} {} s0 (op_ingest ix q) s"
proof -
  have c: "dget_or q ''case_id'' PNone = PStr c"
    using q(1) by (auto simp: required_string_def required_value_def payload_string_def
        split: pyval.splits list.splits)
  have "k = c" if "draft_request env s q u = Inr (k, vq)" for env s u k vq
    using draft_case [OF that] c q(2) by (auto simp: required_non_empty_def split: if_splits)
  moreover have "object_payload q = Inr q" using q(3) by (simp add: object_payload_def)
  ultimately show ?thesis
    unfolding op_ingest_def using i
    by (auto intro!: stay_arguments [OF s] stay_data stay_ingest [OF s])
qed

lemma op_capabilities_stays: "in_case c R V M s0 s \<Longrightarrow> stays c R V M s0 (op_capabilities ix q) s"
  unfolding op_capabilities_def by (intro stay_data stay_capabilities)

subsection \<open>The target of an invocation\<close>

lemma same_elsewhere_refl [simp]: "same_elsewhere c s s"
  by (simp add: same_elsewhere_def)

lemma target_start:
  assumes "linked_cases s"
  shows "in_case c {} {} {} s s"
    "sqlite_get_report s i = Some r \<Longrightarrow> in_case (rr_case_id r) {i} {} {} s s"
    "sqlite_get_report_version s i = Some v \<Longrightarrow> in_case (rv_case_id v) {rv_report_id v} {i} {} s s"
    "sqlite_get_export_manifest s i = Some m \<Longrightarrow> in_case (xm_case_id m) {xm_report_id m} {} {i} s s"
proof -
  have d: "distinct (List.map rr_report_id (st_reports s))"
    "distinct (List.map rv_report_version_id (st_versions s))"
    "distinct (List.map xm_export_manifest_id (st_manifests s))"
    and l: "\<And>v. v \<in> set (st_versions s) \<Longrightarrow> belongs s (rv_report_id v) (rv_case_id v)"
    "\<And>m. m \<in> set (st_manifests s) \<Longrightarrow> belongs s (xm_report_id m) (xm_case_id m)"
    using assms unfolding linked_cases_def by blast+
  show "in_case c {} {} {} s s" using assms by (simp add: in_case_def)
  show "in_case (rr_case_id r) {i} {} {} s s" if "sqlite_get_report s i = Some r"
  proof -
    have r: "r \<in> set (st_reports s)" "rr_report_id r = i"
      using that find_by_id [OF d(1)] by (simp_all add: sqlite_get_report_def)
    have "q = r" if "q \<in> set (st_reports s)" "rr_report_id q = i" for q
      using d(1) r that by (auto simp: distinct_map dest: inj_onD)
    with r have "belongs s i (rr_case_id r)"
      unfolding belongs_def has_report_def list_ex_iff by blast
    then show ?thesis using assms by (simp add: in_case_def)
  qed
  show "in_case (rv_case_id v) {rv_report_id v} {i} {} s s" if "sqlite_get_report_version s i = Some v"
  proof -
    have v: "v \<in> set (st_versions s)" "rv_report_version_id v = i"
      using that find_by_id [OF d(2)] by (simp_all add: sqlite_get_report_version_def)
    have "w = v" if "w \<in> set (st_versions s)" "rv_report_version_id w = i" for w
      using d(2) v that by (auto simp: distinct_map dest: inj_onD)
    then show ?thesis using assms l(1) [OF v(1)] unfolding in_case_def by (simp only: same_elsewhere_refl) blast
  qed
  show "in_case (xm_case_id m) {xm_report_id m} {} {i} s s" if "sqlite_get_export_manifest s i = Some m"
  proof -
    have m: "m \<in> set (st_manifests s)" "xm_export_manifest_id m = i"
      using that find_by_id [OF d(3)] by (simp_all add: sqlite_get_export_manifest_def)
    have "w = m" if "w \<in> set (st_manifests s)" "xm_export_manifest_id w = i" for w
      using d(3) m that by (auto simp: distinct_map dest: inj_onD)
    then show ?thesis using assms l(2) [OF m(1)] unfolding in_case_def by (simp only: same_elsewhere_refl) blast
  qed
qed

lemma query_results:
  "get_report i s = (s', Inr r) \<longleftrightarrow> s' = s \<and> sqlite_get_report s i = Some r"
  "get_version i s = (s', Inr v) \<longleftrightarrow> s' = s \<and> (\<exists>w. sqlite_get_report_version s i = Some w \<and> v = with_states s w)"
  "get_export_manifest i s = (s', Inr m) \<longleftrightarrow> s' = s \<and> sqlite_get_export_manifest s i = Some m"
  by (auto simp: get_report_def get_version_def get_export_manifest_def svc_read_def)

text \<open>When the check of the case passes, the targets belong to the case named.\<close>

lemma checked_targets:
  assumes "require_report_case op q s = (s', Inr ())" "optional_string q ''case_id'' = Inr (Some c)"
  shows "\<exists>tg. case_targets op q s = (s, Inr tg) \<and> snd ` set tg \<subseteq> {c}"
proof -
  obtain s1 r where t: "case_targets op q s = (s1, r)" by fastforce
  then have s1: "s1 = s" using read_only_state [OF read_only_targets] by blast
  obtain tg where tg: "r = Inr tg"
    using assms t by (cases r) (auto simp: require_report_case_def with_optional_def svc_bind_def svc_of_def)
  have "find (\<lambda>(t, k). k \<noteq> c) tg = None"
    using assms t tg
    by (auto simp: require_report_case_def with_optional_def svc_bind_def svc_of_def svc_err_def
        split: option.splits)
  then show ?thesis using t s1 tg by (auto simp: find_None_iff)
qed

lemma report_target:
  assumes "case_targets op q s = (s, Inr tg)" "snd ` set tg \<subseteq> {c}" "op \<in> set report_id_operations"
  shows "\<exists>i r. required_string q ''report_id'' = Inr i \<and> sqlite_get_report s i = Some r \<and> rr_case_id r = c"
  using assms by (auto simp: case_targets_def with_string_def svc_bind_Inr svc_result query_results
      dest!: sym [of "Inr x" for x])

lemma version_target:
  assumes "case_targets op q s = (s, Inr tg)" "snd ` set tg \<subseteq> {c}" "op \<in> set version_id_operations"
  shows "\<exists>i v. required_string q ''report_version_id'' = Inr i \<and> sqlite_get_report_version s i = Some v \<and>
    rv_case_id v = c"
proof -
  have "op \<notin> set report_id_operations" "op \<noteq> ''report.ai-draft.ingest''"
    using assms(3) by (auto simp: version_id_operations_def report_id_operations_def)
  then show ?thesis using assms by (auto simp: case_targets_def with_string_def svc_bind_Inr svc_result query_results
      dest!: sym [of "Inr x" for x])
qed

lemma manifest_target:
  assumes "case_targets op q s = (s, Inr tg)" "snd ` set tg \<subseteq> {c}" "op = ''report.export.record-result''"
  shows "\<exists>i m. required_string q ''export_manifest_id'' = Inr i \<and> sqlite_get_export_manifest s i = Some m \<and>
    xm_case_id m = c"
  using assms by (auto simp: case_targets_def with_string_def svc_bind_Inr svc_result query_results report_id_operations_def
      version_id_operations_def manifest_id_operations_def
      dest!: sym [of "Inr x" for x])

lemma draft_target:
  assumes "case_targets ''report.ai-draft.ingest'' q s = (s, Inr tg)" "snd ` set tg \<subseteq> {c}"
    "optional_string q ''report_id'' = Inr (Some i)"
  shows "\<exists>r. sqlite_get_report s i = Some r \<and> rr_case_id r = c"
  using assms by (auto simp: case_targets_def with_optional_def svc_bind_Inr svc_result query_results report_id_operations_def
      dest!: sym [of "Inr x" for x])

lemma operation_cases:
  assumes "map_of report_operations op = Some f"
  shows "op \<in> set report_id_operations \<and> f \<in> {op_archive, op_version_create} \<or>
    op \<in> set version_id_operations \<and> f \<in> {op_submit, op_comment, op_request_changes, op_accept_section,
      op_reject_section, op_complete, op_reopen, op_approve, op_reject, op_revoke, op_snapshot_create,
      op_package_create, op_export_prepare} \<or>
    op = ''report.export.record-result'' \<and> f = op_record_result \<or>
    op = ''report.create'' \<and> f = op_create \<or> op = ''report.ai-draft.ingest'' \<and> f = op_ingest \<or>
    op = ''report.capabilities'' \<and> f = op_capabilities \<or>
    f \<in> {op_get, op_list, op_version_get, op_version_list, op_version_compare, op_history,
      op_approval_get, op_snapshot_get, op_package_get, op_manifest_get, op_export_status}"
  using assms unfolding report_operations_def
  by (simp add: report_id_operations_def version_id_operations_def split: if_splits)

subsection \<open>Invocations\<close>

text \<open>The case that binds an invocation: its \<open>case_id\<close>, with no surrounding white space, and no
  nested payload that could name another one.\<close>

definition bound_to :: "string \<Rightarrow> dict \<Rightarrow> bool" where
  "bound_to c q \<longleftrightarrow> dget q ''case_id'' = Some (PStr c) \<and> c \<noteq> [] \<and> strip c = c \<and>
     dget_or q ''payload'' PNone = PNone"

lemma bound_to_arguments:
  assumes "bound_to c q"
  shows "optional_string q ''case_id'' = Inr (Some c)" "required_string q ''case_id'' = Inr c"
    "strip c = c" "dget_or q ''payload'' PNone = PNone"
  using assms by (cases c; auto simp: bound_to_def optional_string_def required_string_def
      required_value_def payload_string_def dget_or_def)+

lemma operation_in_case:
  assumes linked: "linked_cases s" and q: "bound_to c q"
    and check: "require_report_case op q s = (s', Inr ())"
    and f: "map_of report_operations op = Some f"
  shows "\<exists>R V M. stays c R V M s (f ix q) s"
proof -
  note arguments = bound_to_arguments [OF q]
  note start = target_start [OF linked]
  obtain tg where tg: "case_targets op q s = (s, Inr tg)" "snd ` set tg \<subseteq> {c}"
    using checked_targets [OF check arguments(1)] by blast
  consider (report) "op \<in> set report_id_operations" "f \<in> {op_archive, op_version_create}"
    | (version) "op \<in> set version_id_operations" "f \<in> {op_submit, op_comment, op_request_changes,
        op_accept_section, op_reject_section, op_complete, op_reopen, op_approve, op_reject, op_revoke,
        op_snapshot_create, op_package_create, op_export_prepare}"
    | (manifest) "op = ''report.export.record-result''" "f = op_record_result"
    | (create) "f = op_create" | (draft) "op = ''report.ai-draft.ingest''" "f = op_ingest"
    | (capabilities) "f = op_capabilities"
    | (query) "f \<in> {op_get, op_list, op_version_get, op_version_list, op_version_compare, op_history,
        op_approval_get, op_snapshot_get, op_package_get, op_manifest_get, op_export_status}"
    using operation_cases [OF f] by blast
  then show ?thesis
  proof cases
    case report
    obtain i r where i: "required_string q ''report_id'' = Inr i" "sqlite_get_report s i = Some r"
      "rr_case_id r = c"
      using report_target [OF tg report(1)] by blast
    from report_ops [OF start(2) [OF i(2), unfolded i(3)] i(1)] report(2) show ?thesis by blast
  next
    case version
    obtain i v where i: "required_string q ''report_version_id'' = Inr i"
      "sqlite_get_report_version s i = Some v" "rv_case_id v = c"
      using version_target [OF tg version(1)] by blast
    from version_ops [OF start(3) [OF i(2), unfolded i(3)] i(1)] version(2) show ?thesis by blast
  next
    case manifest
    obtain i m where i: "required_string q ''export_manifest_id'' = Inr i"
      "sqlite_get_export_manifest s i = Some m" "xm_case_id m = c"
      using manifest_target [OF tg manifest(1)] by blast
    from manifest_ops [OF start(4) [OF i(2), unfolded i(3)] i(1)] manifest(2) show ?thesis by blast
  next
    case create
    from op_create_stays [OF start(1) arguments(2)] create show ?thesis by blast
  next
    case draft
    show ?thesis
    proof (cases "\<exists>i. optional_string q ''report_id'' = Inr (Some i)")
      case True
      then obtain i where i: "optional_string q ''report_id'' = Inr (Some i)" by blast
      obtain r where r: "sqlite_get_report s i = Some r" "rr_case_id r = c"
        using draft_target [OF tg [unfolded draft(1)] i] by blast
      have "stays c {i} {} {} s (op_ingest ix q) s"
        by (rule op_ingest_stays [OF start(2) [OF r(1), unfolded r(2)] arguments(2-4)]) (use i in simp)
      with draft(2) show ?thesis by blast
    next
      case False
      then have "stays c {} {} {} s (op_ingest ix q) s"
        by (intro op_ingest_stays [OF start(1) arguments(2-4)]) blast
      with draft(2) show ?thesis by blast
    qed
  next
    case capabilities
    from op_capabilities_stays [OF start(1)] capabilities show ?thesis by blast
  next
    case query
    have "read_only (f ix q)"
      using query by (elim insertE emptyE) (simp_all only: read_only_operations)
    from stay_read [OF this start(1)] show ?thesis by blast
  qed
qed

lemma report_data_state: "fst (report_data ix op q s) = s \<or>
    (\<exists>f. require_report_case op q s = (s, Inr ()) \<and> map_of report_operations op = Some f \<and>
       fst (report_data ix op q s) = fst (f ix q s))"
proof -
  obtain s1 r where check: "require_report_case op q s = (s1, r)" by fastforce
  have s1: "s1 = s" using read_only_state [OF read_only_case check] .
  show ?thesis
    using check s1 by (cases r)
      (auto simp: report_data_def svc_bind_def svc_guard_def svc_err_def split: option.splits)
qed

lemma report_data_in_case:
  assumes "linked_cases s" "bound_to c q"
  shows "linked_cases (fst (report_data ix op q s)) \<and> same_elsewhere c s (fst (report_data ix op q s))"
proof -
  have "linked_cases (fst (f ix q s)) \<and> same_elsewhere c s (fst (f ix q s))"
    if check: "require_report_case op q s = (s, Inr ())" and f: "map_of report_operations op = Some f" for f
  proof -
    obtain R V M where "stays c R V M s (f ix q) s"
      using operation_in_case [OF assms check f] by blast
    then have "in_case c R V M s (fst (f ix q s))" by (rule wp_store)
    then show ?thesis using in_caseD(1,2) by blast
  qed
  with report_data_state [of ix op q s] assms(1) same_elsewhere_refl show ?thesis by metis
qed

lemma minted_frame [simp]:
  "linked_cases (s\<lparr>st_minted := n\<rparr>) = linked_cases s"
  "same_elsewhere c s0 (s\<lparr>st_minted := n\<rparr>) = same_elsewhere c s0 s"
  by (simp_all add: linked_cases_def same_elsewhere_def)

lemma invoke_data_state: "fst (invoke_data ix a op q s) = s \<or>
    (\<exists>c. canonical_operation op = Inr c \<and> (c \<in> set mutating_operations \<longleftrightarrow> a) \<and>
       is_prefix ''report.'' c \<and> fst (invoke_data ix a op q s) = fst (report_data ix c q s))"
  by (auto simp: invoke_data_def svc_bind_def svc_of_def svc_guard_def Let_def split: sum.splits)

lemma answer_id_state: "\<exists>j n. answer_id ix i s = (s\<lparr>st_minted := n\<rparr>, Inr j)"
  by (auto simp: answer_id_def svc_ret_def mint_id_def split: option.splits list.splits
      intro: exI [of _ "st_minted s"])

lemma invoke_state: "\<exists>n. fst (invoke_interface ix a op q i k s) = (fst (invoke_data ix a op q s))\<lparr>st_minted := n\<rparr>"
proof -
  obtain s1 r where d: "invoke_data ix a op q s = (s1, r)" by fastforce
  obtain j n where j: "answer_id ix i s1 = (s1\<lparr>st_minted := n\<rparr>, Inr j)"
    using answer_id_state by blast
  have same: "\<exists>n. s1 = s1\<lparr>st_minted := n\<rparr>" by (rule exI [of _ "st_minted s1"]) simp
  show ?thesis
    using d j same by (cases r) (auto simp: invoke_interface_def svc_catch_def svc_bind_def svc_ret_def
      svc_err_def split: exn.splits)
qed

end
