(* ===== verification/Report_Interface_Runs.thy ===== *)
theory Report_Interface_Runs
  imports Report_Interface_Facts Report_Calls
begin

section \<open>Sequences of invocations\<close>

text \<open>
  Every invocation, bound to a case or not, changes rows of one case at most and keeps
  \<open>linked_cases\<close>; an operation on a target that does not exist changes nothing.
\<close>

subsection \<open>Targets that do not exist\<close>

lemma missing_report:
  assumes "sqlite_get_report s i = None" "in_case c R V M s0 s"
  shows "stays c R V M s0 (archive_report env i u x) s"
    "vq_report_id vq = i \<Longrightarrow> stays c R V M s0 (create_version env vq) s"
    "stays c R V M s0 (ingest_ai_draft env d (Some i) u) s"
  using assms
  by (auto simp: archive_report_def create_version_def ingest_ai_draft_def split: sum.splits)

lemma missing_version:
  assumes "sqlite_get_report_version s i = None" "in_case c R V M s0 s"
  shows "wq_version_id rq = i \<Longrightarrow> stays c R V M s0 (append_review_event env rq) s"
    "stays c R V M s0 (approve env i u x j e1 e2) s"
    "stays c R V M s0 (reject_version env i u x e) s"
    "stays c R V M s0 (revoke_approval env i u x e) s"
    "stays c R V M s0 (create_custody_snapshot env i u es) s"
    "stays c R V M s0 (create_render_package env i u b j k) s"
    "eq_version_id eq = i \<Longrightarrow> stays c R V M s0 (prepare_export env rn eq) s"
  using assms
  by (auto simp: append_review_event_def approve_def reject_version_def revoke_approval_def
      create_custody_snapshot_def create_render_package_def prepare_export_def split: sum.splits)

lemma missing_reviews:
  assumes "sqlite_get_report_version s i = None" "in_case c R V M s0 s"
  shows "stays c R V M s0 (submit_review env i a r e) s"
    "stays c R V M s0 (comment_review env i a r k x e) s"
    "stays c R V M s0 (request_changes env i a r cs x e) s"
    "stays c R V M s0 (accept_section env i n a r y e) s"
    "stays c R V M s0 (reject_section env i n a r cs y e) s"
    "stays c R V M s0 (complete_review env i a r e) s"
    "stays c R V M s0 (reopen_review env i a r e) s"
  using missing_version(1) [OF assms]
  by (simp_all add: submit_review_def comment_review_def request_changes_def
      accept_section_def reject_section_def complete_review_def reopen_review_def)

lemma missing_manifest:
  assumes "sqlite_get_export_manifest s i = None" "in_case c R V M s0 s"
  shows "stays c R V M s0 (record_export_result env i d) s"
  using assms by (simp add: record_export_result_def wp_get_manifest)

subsection \<open>Every operation\<close>

definition one_case :: "report_state \<Rightarrow> (report_state, 'a) svc \<Rightarrow> bool" where
  "one_case s m \<longleftrightarrow> (\<exists>c R V M. stays c R V M s m s)"

lemma one_caseI: "stays c R V M s m s \<Longrightarrow> one_case s m"
  unfolding one_case_def by blast

lemma one_case_state:
  "one_case s m \<Longrightarrow> linked_cases (fst (m s)) \<and> (\<exists>c. same_elsewhere c s (fst (m s)))"
  unfolding one_case_def using wp_store in_caseD(1,2) by metis

lemma one_case_report:
  assumes "linked_cases s"
  shows "one_case s (op_archive ix q)" "one_case s (op_version_create ix q)"
proof -
  note s0 = target_start(1) [OF assms]
  consider (found) i r where "required_string q ''report_id'' = Inr i" "sqlite_get_report s i = Some r"
    | (missing) "\<And>i. required_string q ''report_id'' = Inr i \<Longrightarrow> sqlite_get_report s i = None"
    by (cases "required_string q ''report_id''") fastforce+
  then have "one_case s (op_archive ix q) \<and> one_case s (op_version_create ix q)"
  proof cases
    case found
    from report_ops [OF target_start(2) [OF assms found(2)] found(1)] show ?thesis by (blast intro: one_caseI)
  next
    case missing
    have "stays [] {} {} {} s (op_archive ix q) s" "stays [] {} {} {} s (op_version_create ix q) s"
      unfolding op_archive_def op_version_create_def
      by (intro stay_arguments [OF s0] stay_data missing_report [OF _ s0] missing; simp)
        (intro stay_arguments [OF s0] stay_data missing_report(2) [OF _ s0] missing;
          simp add: version_arguments_report)
    then show ?thesis by (blast intro: one_caseI)
  qed
  then show "one_case s (op_archive ix q)" "one_case s (op_version_create ix q)" by blast+
qed

lemma one_case_version:
  assumes "linked_cases s" "f \<in> {op_submit, op_comment, op_request_changes, op_accept_section,
      op_reject_section, op_complete, op_reopen, op_approve, op_reject, op_revoke, op_snapshot_create,
      op_package_create, op_export_prepare}"
  shows "one_case s (f ix q)"
proof -
  note s0 = target_start(1) [OF assms(1)]
  consider (found) i v where "required_string q ''report_version_id'' = Inr i"
      "sqlite_get_report_version s i = Some v"
    | (missing) "\<And>i. required_string q ''report_version_id'' = Inr i \<Longrightarrow> sqlite_get_report_version s i = None"
    by (cases "required_string q ''report_version_id''") fastforce+
  then show ?thesis
  proof cases
    case found
    note ops = version_ops [OF target_start(3) [OF assms(1) found(2)] found(1)]
    show ?thesis using assms(2) by (elim insertE emptyE) (simp_all only: ops [THEN one_caseI])
  next
    case missing
    have ops: "stays [] {} {} {} s (op_submit ix q) s" "stays [] {} {} {} s (op_comment ix q) s"
      "stays [] {} {} {} s (op_request_changes ix q) s" "stays [] {} {} {} s (op_accept_section ix q) s"
      "stays [] {} {} {} s (op_reject_section ix q) s" "stays [] {} {} {} s (op_complete ix q) s"
      "stays [] {} {} {} s (op_reopen ix q) s" "stays [] {} {} {} s (op_approve ix q) s"
      "stays [] {} {} {} s (op_reject ix q) s" "stays [] {} {} {} s (op_revoke ix q) s"
      "stays [] {} {} {} s (op_snapshot_create ix q) s" "stays [] {} {} {} s (op_package_create ix q) s"
      "stays [] {} {} {} s (op_export_prepare ix q) s"
      unfolding op_submit_def op_comment_def op_request_changes_def op_accept_section_def
        op_reject_section_def op_complete_def op_reopen_def op_approve_def op_reject_def op_revoke_def
        op_snapshot_create_def op_package_create_def op_export_prepare_def
      by (intro stay_arguments [OF s0] stay_data missing_version [OF _ s0] missing_reviews [OF _ s0] missing;
          simp add: export_arguments_version)+
    show ?thesis using assms(2) by (elim insertE emptyE) (simp_all only: ops [THEN one_caseI])
  qed
qed

lemma one_case_manifest:
  assumes "linked_cases s"
  shows "one_case s (op_record_result ix q)"
proof -
  note s0 = target_start(1) [OF assms]
  consider (found) i m where "required_string q ''export_manifest_id'' = Inr i"
      "sqlite_get_export_manifest s i = Some m"
    | (missing) "\<And>i. required_string q ''export_manifest_id'' = Inr i \<Longrightarrow> sqlite_get_export_manifest s i = None"
    by (cases "required_string q ''export_manifest_id''") fastforce+
  then show ?thesis
  proof cases
    case found
    from manifest_ops [OF target_start(4) [OF assms found(2)] found(1)] show ?thesis by (rule one_caseI)
  next
    case missing
    have "stays [] {} {} {} s (op_record_result ix q) s"
      unfolding op_record_result_def
      by (intro stay_arguments [OF s0] stay_data missing_manifest [OF _ s0] missing)
    then show ?thesis by (rule one_caseI)
  qed
qed

lemma one_case_create:
  assumes "linked_cases s"
  shows "one_case s (op_create ix q)"
proof (cases "required_string q ''case_id''")
  case (Inl e)
  have "stays [] {} {} {} s (op_create ix q) s"
    unfolding op_create_def by (rule stay_arguments(1) [OF target_start(1) [OF assms]]) (simp add: Inl)
  then show ?thesis by (rule one_caseI)
next
  case (Inr c)
  from op_create_stays [OF target_start(1) [OF assms] Inr] show ?thesis by (rule one_caseI)
qed

lemma one_case_ingest:
  assumes "linked_cases s"
  shows "one_case s (op_ingest ix q)"
proof -
  note s0 = target_start(1) [OF assms]
  define k where "k = (case object_payload q of
      Inr d \<Rightarrow> (case required_non_empty (dget_or d ''case_id'' PNone) ''case_id'' of Inr k \<Rightarrow> k | _ \<Rightarrow> [])
    | _ \<Rightarrow> [])"
  have draft: "k' = k" if "object_payload q = Inr d" "draft_request env t d u = Inr (k', vq)" for d env t u k' vq
    using that draft_case [OF that(2)] by (simp add: k_def)
  have "stays k {} {} {} s (op_ingest ix q) s"
    if none: "\<And>j. optional_string q ''report_id'' = Inr (Some j) \<Longrightarrow> sqlite_get_report s j = None"
  proof -
    have "stays k {} {} {} s (ingest_ai_draft env d i u) s"
      if "object_payload q = Inr d" "optional_string q ''report_id'' = Inr i" for env d i u
    proof (cases i)
      case None
      show ?thesis unfolding None using draft [OF that(1)] by (intro stay_ingest [OF s0]) simp_all
    next
      case (Some j)
      then show ?thesis using missing_report(3) [OF none s0] that(2) by simp
    qed
    then show ?thesis
      unfolding op_ingest_def by (intro stay_arguments [OF s0] stay_data)
  qed
  moreover have "stays (rr_case_id r) {j} {} {} s (op_ingest ix q) s"
    if j: "optional_string q ''report_id'' = Inr (Some j)" "sqlite_get_report s j = Some r" for j r
  proof -
    note sj = target_start(2) [OF assms j(2)]
    show ?thesis
      unfolding op_ingest_def
      by (intro stay_arguments [OF sj] stay_data stay_ingest [OF sj]) (use j(1) in simp_all)
  qed
  ultimately show ?thesis using one_caseI by (metis not_None_eq)
qed

lemma operation_one_case:
  assumes "linked_cases s" "map_of report_operations op = Some f"
  shows "one_case s (f ix q)"
proof -
  have queries: "one_case s (g ix q)" if "g \<in> {op_get, op_list, op_version_get, op_version_list,
      op_version_compare, op_history, op_approval_get, op_snapshot_get, op_package_get, op_manifest_get,
      op_export_status}" for g
  proof -
    have "read_only (g ix q)" using that by (elim insertE emptyE) (simp_all only: read_only_operations)
    from stay_read [OF this target_start(1) [OF assms(1)]] show ?thesis by (rule one_caseI)
  qed
  note ops = one_case_report [OF assms(1)] one_case_manifest [OF assms(1)] one_case_create [OF assms(1)]
    one_case_ingest [OF assms(1)] op_capabilities_stays [OF target_start(1) [OF assms(1)], THEN one_caseI]
  show ?thesis
    using operation_cases [OF assms(2)] ops one_case_version [OF assms(1)] queries by blast
qed

lemma report_data_one_case:
  assumes "linked_cases s"
  shows "linked_cases (fst (report_data ix op q s)) \<and> (\<exists>c. same_elsewhere c s (fst (report_data ix op q s)))"
proof -
  have self: "linked_cases s \<and> (\<exists>c. same_elsewhere c s s)" using assms same_elsewhere_refl by blast
  from report_data_state [of ix op q s] show ?thesis
    using self one_case_state [OF operation_one_case [OF assms]] by metis
qed

subsection \<open>Invocations are calls of the service\<close>

definition calls :: "report_env \<Rightarrow> report_state \<Rightarrow> (report_state, 'a) svc \<Rightarrow> bool" where
  "calls env s m \<longleftrightarrow> fst (m s) = s \<or> (\<exists>k. fst (m s) = run_call env k s)"

lemma calls_data: "calls env s m \<Longrightarrow> calls env s (data_of f m)"
  by (auto simp: calls_def data_of_def svc_bind_def svc_of_def split: prod.splits sum.splits)

lemma calls_arguments:
  "(\<And>x. calls env s (f x)) \<Longrightarrow> calls env s (with_string q k f)"
  "(\<And>x. calls env s (g x)) \<Longrightarrow> calls env s (with_optional q k g)"
  "(\<And>x. calls env s (h x)) \<Longrightarrow> calls env s (with_revision q k h)"
  "(\<And>x. calls env s (u x)) \<Longrightarrow> calls env s (with_strings q k u)"
  "(\<And>x. calls env s (v x)) \<Longrightarrow> calls env s (svc_bind (svc_of r) v)"
  unfolding with_string_def with_optional_def with_revision_def with_strings_def
  by (auto simp: calls_def svc_bind_def svc_of_def split: sum.splits)

lemma calls_service:
  "calls env s (create_report env a b c d e f g)" "calls env s (archive_report env a b c)"
  "calls env s (create_version env vq)" "calls env s (ingest_ai_draft env dd i u)"
  "calls env s (append_review_event env rq)" "calls env s (create_custody_snapshot env a b es)"
  "calls env s (approve env a b c i e1 e2)" "calls env s (reject_version env a b c e1)"
  "calls env s (revoke_approval env a b c e1)" "calls env s (create_render_package env a b x i y)"
  "calls env s (service_capabilities env)" "calls env s (prepare_export env rn eq)"
  "calls env s (record_export_result env a dd)"
  using run_call.simps unfolding calls_def by metis+

lemma calls_reviews:
  "calls env s (submit_review env i a r e)" "calls env s (comment_review env i a r k x e)"
  "calls env s (request_changes env i a r cs x e)" "calls env s (accept_section env i n a r y e)"
  "calls env s (reject_section env i n a r cs y e)" "calls env s (complete_review env i a r e)"
  "calls env s (reopen_review env i a r e)"
  by (simp_all add: calls_service submit_review_def comment_review_def request_changes_def
      accept_section_def reject_section_def complete_review_def reopen_review_def)

lemma operation_calls:
  assumes "map_of report_operations op = Some f"
  shows "calls (ix_report ix) s (f ix q)"
proof -
  have reads: "calls (ix_report ix) s (g ix q)" if "g \<in> {op_get, op_list, op_version_get,
      op_version_list, op_version_compare, op_history, op_approval_get, op_snapshot_get, op_package_get,
      op_manifest_get, op_export_status}" for g
  proof -
    have "read_only (g ix q)" using that by (elim insertE emptyE) (simp_all only: read_only_operations)
    then show ?thesis by (simp add: calls_def read_only_def)
  qed
  have writes: "calls (ix_report ix) s (g ix q)" if "g \<in> {op_archive, op_version_create, op_submit,
      op_comment, op_request_changes, op_accept_section, op_reject_section, op_complete, op_reopen,
      op_approve, op_reject, op_revoke, op_snapshot_create, op_package_create, op_export_prepare,
      op_record_result, op_create, op_ingest, op_capabilities}" for g
    using that
    by (elim insertE emptyE; simp only: op_archive_def op_version_create_def op_submit_def op_comment_def
        op_request_changes_def op_accept_section_def op_reject_section_def op_complete_def op_reopen_def
        op_approve_def op_reject_def op_revoke_def op_snapshot_create_def op_package_create_def
        op_export_prepare_def op_record_result_def op_create_def op_ingest_def op_capabilities_def)
      (intro calls_arguments calls_data calls_service calls_reviews)+
  show ?thesis using operation_cases [OF assms] reads writes by blast
qed

lemma report_data_calls: "fst (report_data ix op q s) = s \<or>
    (\<exists>k. fst (report_data ix op q s) = run_call (ix_report ix) k s)"
  using report_data_state [of ix op q s] operation_calls [of op _ ix s q] unfolding calls_def by metis

lemma invoke_calls: "\<exists>n t. fst (invoke_interface ix a op q i k s) = t\<lparr>st_minted := n\<rparr> \<and>
    (t = s \<or> (\<exists>e. t = run_call (ix_report ix) e s))"
  using invoke_state [of ix a op q i k s] invoke_data_state [of ix a op q s] report_data_calls by metis

subsection \<open>Runs\<close>

inductive interface_run :: "(string \<Rightarrow> string) \<Rightarrow> report_state \<Rightarrow> report_state \<Rightarrow> bool" for sha where
  interface_start: "interface_run sha s s"
| interface_call: "interface_run sha s t \<Longrightarrow> rx_sha (ix_report ix) = sha \<Longrightarrow>
    interface_run sha s (fst (invoke_interface ix a op q i k t))"
| interface_ledger: "interface_run sha s t \<Longrightarrow> interface_run sha s (t\<lparr>st_custody := db\<rparr>)"

lemma custody_frame [simp]: "linked_cases (s\<lparr>st_custody := db\<rparr>) = linked_cases s"
  by (simp add: linked_cases_def belongs_def has_report_def)

lemma invoke_linked: "linked_cases s \<Longrightarrow> linked_cases (fst (invoke_interface ix a op q i k s))"
  using invoke_state [of ix a op q i k s] invoke_data_state [of ix a op q s] report_data_one_case
    minted_frame(1) by metis

lemma invoke_in_case: "linked_cases s \<Longrightarrow> bound_to c q \<Longrightarrow>
    same_elsewhere c s (fst (invoke_interface ix a op q i k s))"
  using invoke_state [of ix a op q i k s] invoke_data_state [of ix a op q s] report_data_in_case
    minted_frame(2) same_elsewhere_refl by metis

lemma invoke_inv: "report_inv sha s \<Longrightarrow> rx_sha (ix_report ix) = sha \<Longrightarrow>
    report_inv sha (fst (invoke_interface ix a op q i k s))"
  using invoke_calls [of ix a op q i k s] run_call_inv by fastforce

lemma interface_run_sound:
  "interface_run sha s t \<Longrightarrow> no_reports s \<Longrightarrow> linked_cases t \<and> report_inv sha t"
proof (induction rule: interface_run.induct)
  case (interface_start s)
  then show ?case by (simp add: no_reports_inv linked_cases_def no_reports_def)
next
  case (interface_call s t ix a op q i k)
  then show ?case using invoke_linked invoke_inv by blast
qed simp

end
