(* ===== verification/Report_Gateway.thy ===== *)
theory Report_Gateway
  imports Report_Interface_Runs Mcp_Gateway_Properties
begin

section \<open>The report service behind the MCP gateway\<close>

text \<open>
  \<open>report_core\<close> is the Core of the gateway with the report service behind the engine interface.
  Its reads keep the report tables, which interprets \<open>quiet_core\<close>; its descriptors ask for a
  confirmation of every tool that writes reviews, approvals, custody snapshots or exports; and an
  approval names the actor the bridge put into the payload.
\<close>

definition report_core ::
  "interface_env \<Rightarrow> dict \<Rightarrow> (string \<Rightarrow> datetime option) \<Rightarrow> report_state core" where
  "report_core ix interface from_iso =
     \<lparr>co_interface = interface,
      co_tools = List.map tool_descriptor_schema_dict (snd (tools [])),
      co_read = (\<lambda>c tool payload rid cid. invoke_read ix tool payload rid cid c),
      co_mutate = (\<lambda>c tool payload rid cid. invoke_mutation ix tool payload rid cid c),
      co_iso = from_iso\<rparr>"

subsection \<open>What an operation leaves unchanged\<close>

definition preserves :: "('s \<Rightarrow> 'v) \<Rightarrow> ('s, 'a) svc \<Rightarrow> bool" where
  "preserves f m \<longleftrightarrow> (\<forall>s. f (fst (m s)) = f s)"

lemma preserves_read: "read_only m \<Longrightarrow> preserves f m"
  by (simp add: preserves_def read_only_def)

lemma preserves_bind: "preserves f m \<Longrightarrow> (\<And>x. preserves f (k x)) \<Longrightarrow> preserves f (svc_bind m k)"
  unfolding preserves_def svc_bind_def by (auto split: prod.splits sum.splits) (metis fst_conv)+

lemma preserves_if: "preserves f a \<Longrightarrow> preserves f b \<Longrightarrow> preserves f (if c then a else b)"
  by simp

lemma preserves_option:
  "preserves f a \<Longrightarrow> (\<And>y. preserves f (b y)) \<Longrightarrow> preserves f (case x of None \<Rightarrow> a | Some y \<Rightarrow> b y)"
  by (cases x) simp_all

lemma preserves_write: "(\<And>s s'. w s = Inr s' \<Longrightarrow> f s' = f s) \<Longrightarrow> preserves f (svc_write w)"
  by (auto simp: preserves_def svc_write_def split: sum.splits)

lemma preserves_arguments:
  "(\<And>x. preserves f (k1 x)) \<Longrightarrow> preserves f (with_string q k k1)"
  "(\<And>x. preserves f (k2 x)) \<Longrightarrow> preserves f (with_optional q k k2)"
  "(\<And>x. preserves f (k3 x)) \<Longrightarrow> preserves f (with_revision q k k3)"
  "(\<And>x. preserves f (k4 x)) \<Longrightarrow> preserves f (with_strings q k k4)"
  "preserves f m \<Longrightarrow> preserves f (data_of h m)"
  unfolding with_string_def with_optional_def with_revision_def with_strings_def data_of_def
  by (rule preserves_bind, rule preserves_read, rule read_only_rules, assumption)+
    (rule preserves_bind, assumption, rule preserves_read, rule read_only_rules)

lemma read_only_approved: "read_only (require_approved_version v)"
  by (simp add: require_approved_version_def read_only_rules)

lemmas preserving = preserves_read [OF read_only_rules(1)] preserves_read [OF read_only_rules(2)]
  preserves_read [OF read_only_rules(3)] preserves_read [OF read_only_rules(4)]
  preserves_read [OF read_only_rules(5)] preserves_read [OF read_only_rules(6)]
  preserves_read [OF read_only_queries(1)] preserves_read [OF read_only_queries(2)]
  preserves_read [OF read_only_queries(3)] preserves_read [OF read_only_queries(4)]
  preserves_read [OF read_only_queries(5)] preserves_read [OF read_only_queries(6)]
  preserves_read [OF read_only_approved]
  preserves_bind preserves_if preserves_option preserves_arguments

subsection \<open>Reviews, approvals, snapshots and exports\<close>

definition decisions :: "report_state \<Rightarrow> review_event list \<times> approval_record list \<times>
    custody_snapshot list \<times> export_manifest list \<times> rendered_artifact list \<times> export_audit_event list" where
  "decisions s = (st_reviews s, st_approvals s, st_snapshots s, st_manifests s, st_artifacts s, st_audits s)"

lemma preserves_draw:
  "preserves decisions (read_clock env)" "preserves decisions (mint_id env)"
  "preserves st_approvals (read_clock env)" "preserves st_approvals (mint_id env)"
  by (simp_all add: preserves_def read_clock_def mint_id_def decisions_def)

lemma decision_writes:
  "sqlite_save_report p s = Inr s' \<Longrightarrow> decisions s' = decisions s"
  "sqlite_save_report_version v p s = Inr s' \<Longrightarrow> decisions s' = decisions s"
  "sqlite_save_render_package k s = Inr s' \<Longrightarrow> decisions s' = decisions s"
  by (auto simp: decisions_def sqlite_save_report_def sqlite_save_report_version_def
      sqlite_save_render_package_def sqlite_update_report_def)

lemma decisions_service:
  "preserves decisions (create_report env a b c d e f g)"
  "preserves decisions (create_version env vq)"
  "preserves decisions (create_render_package env a b x i y)"
  unfolding create_report_def create_version_def previous_version_def write_version_def
    create_render_package_def Let_def split_def
  by (intro preserving preserves_draw preserves_write; (erule decision_writes)?)+

lemma decisions_ingest: "preserves decisions (ingest_ai_draft env d i u)"
  unfolding ingest_ai_draft_def split_def by (intro preserving decisions_service)

lemma decisions_operations:
  "preserves decisions (op_create ix q)" "preserves decisions (op_version_create ix q)"
  "preserves decisions (op_ingest ix q)" "preserves decisions (op_package_create ix q)"
  unfolding op_create_def op_version_create_def op_ingest_def op_package_create_def
  by (intro preserving decisions_service decisions_ingest)+

text \<open>The log of approvals, which only three operations extend.\<close>

lemma approval_writes:
  "sqlite_update_report p s = Inr s' \<Longrightarrow> st_approvals s' = st_approvals s"
  "sqlite_append_review_event w p s = Inr s' \<Longrightarrow> st_approvals s' = st_approvals s"
  "sqlite_save_custody_snapshot n s = Inr s' \<Longrightarrow> st_approvals s' = st_approvals s"
  "sqlite_save_render_package k s = Inr s' \<Longrightarrow> st_approvals s' = st_approvals s"
  "sqlite_save_export_manifest m p s = Inr s' \<Longrightarrow> st_approvals s' = st_approvals s"
  "sqlite_update_export_manifest m s = Inr s' \<Longrightarrow> st_approvals s' = st_approvals s"
  "sqlite_save_rendered_artifact x m p s = Inr s' \<Longrightarrow> st_approvals s' = st_approvals s"
  "sqlite_append_export_audit e s = Inr s' \<Longrightarrow> st_approvals s' = st_approvals s"
  "sqlite_save_capability y s = Inr s' \<Longrightarrow> st_approvals s' = st_approvals s"
  by (auto simp: sqlite_update_report_def sqlite_append_review_event_def
      sqlite_save_custody_snapshot_def sqlite_save_render_package_def sqlite_save_export_manifest_def
      sqlite_update_export_manifest_def sqlite_save_rendered_artifact_def
      sqlite_append_export_audit_def sqlite_save_capability_def)

lemma approvals_of_decisions: "preserves decisions m \<Longrightarrow> preserves st_approvals m"
  by (simp add: preserves_def decisions_def)

lemma approvals_service:
  "preserves st_approvals (archive_report env a b c)"
  "preserves st_approvals (append_review_event env rq)"
  "preserves st_approvals (create_custody_snapshot env a b es)"
  "preserves st_approvals (current_capability env rn)"
  "preserves st_approvals (append_export_audit env m a t u dd)"
  unfolding archive_report_def append_review_event_def write_review_event_def
    create_custody_snapshot_def current_capability_def append_export_audit_def Let_def
  by (intro preserving preserves_draw preserves_write; (erule approval_writes)?)+

lemma approvals_export:
  "preserves st_approvals (prepare_export env rn eq)"
  "preserves st_approvals (record_export_result env a dd)"
  unfolding prepare_export_def write_manifest_def record_export_result_def complete_export_def Let_def
  by (intro preserving preserves_draw preserves_write approvals_service
      approvals_of_decisions [OF decisions_service(3)]; (erule approval_writes)?)+

lemma approvals_reviews:
  "preserves st_approvals (submit_review env i a r e)" "preserves st_approvals (comment_review env i a r k x e)"
  "preserves st_approvals (request_changes env i a r cs x e)"
  "preserves st_approvals (accept_section env i n a r y e)"
  "preserves st_approvals (reject_section env i n a r cs y e)"
  "preserves st_approvals (complete_review env i a r e)" "preserves st_approvals (reopen_review env i a r e)"
  by (simp_all add: approvals_service submit_review_def comment_review_def request_changes_def
      accept_section_def reject_section_def complete_review_def reopen_review_def)

lemma approvals_operations:
  "preserves st_approvals (op_archive ix q)" "preserves st_approvals (op_submit ix q)"
  "preserves st_approvals (op_comment ix q)" "preserves st_approvals (op_request_changes ix q)"
  "preserves st_approvals (op_accept_section ix q)" "preserves st_approvals (op_reject_section ix q)"
  "preserves st_approvals (op_complete ix q)" "preserves st_approvals (op_reopen ix q)"
  "preserves st_approvals (op_snapshot_create ix q)" "preserves st_approvals (op_export_prepare ix q)"
  "preserves st_approvals (op_record_result ix q)"
  unfolding op_archive_def op_submit_def op_comment_def op_request_changes_def op_accept_section_def
    op_reject_section_def op_complete_def op_reopen_def op_snapshot_create_def op_export_prepare_def
    op_record_result_def
  by (intro preserving approvals_service approvals_export approvals_reviews)+

subsection \<open>Approvals name their actor\<close>

lemma bounded_strip: "bounded_non_empty (PStr s) k n = Inr x \<Longrightarrow> x = strip s"
  by (auto simp: bounded_non_empty_def split: if_splits)

lemma strip_tail: "dropWhile is_ws (strip s) = strip s"
proof (cases "dropWhile is_ws s")
  case Nil
  then show ?thesis unfolding strip_def Nil by simp
next
  case (Cons c r)
  have c: "\<not> is_ws c" using Cons hd_dropWhile [of is_ws s] by simp
  have "strip s = rev (dropWhile is_ws (rev r @ [c]))" by (simp add: strip_def Cons)
  also have "\<dots> = c # rev (dropWhile is_ws (rev r))" using c by (simp add: dropWhile_append)
  finally show ?thesis using c by simp
qed

lemma strip_strip [simp]: "strip (strip s) = strip s"
proof -
  have "strip (strip s) = rev (dropWhile is_ws (rev (strip s)))" by (simp add: strip_def [of "strip s"] strip_tail)
  then show ?thesis by (simp add: strip_def)
qed

text \<open>At most one approval is appended, by the actor given.\<close>

definition named :: "string \<Rightarrow> report_state \<Rightarrow> report_state \<Rightarrow> bool" where
  "named who s s' \<longleftrightarrow> st_approvals s' = st_approvals s \<or>
     (\<exists>a. st_approvals s' = st_approvals s @ [a] \<and> ra_approver_id a = strip who)"

definition names :: "string \<Rightarrow> (report_state, 'a) svc \<Rightarrow> bool" where
  "names who m \<longleftrightarrow> (\<forall>s. named who s (fst (m s)))"

lemma names_preserves: "preserves st_approvals m \<Longrightarrow> names who m"
  by (simp add: preserves_def names_def named_def)

lemma names_after: "preserves st_approvals m \<Longrightarrow> (\<And>x. names who (k x)) \<Longrightarrow> names who (svc_bind m k)"
  unfolding preserves_def names_def named_def svc_bind_def
  by (auto split: prod.splits sum.splits) (metis fst_conv)+

lemma names_given:
  assumes "\<And>x. r = Inr x \<Longrightarrow> names who (k x)"
  shows "names who (svc_bind (svc_of r) k)"
  using assms by (cases r) (auto simp: names_def named_def svc_bind_def svc_of_def)

lemma names_then: "names who m \<Longrightarrow> (\<And>x. preserves st_approvals (k x)) \<Longrightarrow> names who (svc_bind m k)"
  unfolding preserves_def names_def named_def svc_bind_def
  by (auto split: prod.splits sum.splits) (metis fst_conv)+

lemma names_write: "ra_approver_id a = strip who \<Longrightarrow> names who (svc_bind (svc_write (sqlite_append_approval a p)) (\<lambda>_. svc_ret x))"
  by (auto simp: names_def named_def svc_bind_def svc_write_def svc_ret_def sqlite_append_approval_def
      sqlite_update_report_def split: sum.splits)

lemma preserves_option_arg:
  "preserves st_approvals (case x of Some i \<Rightarrow> get_custody_snapshot i | None \<Rightarrow> create_custody_snapshot env v w None)"
  by (intro preserving approvals_service)

lemma names_append: "names who (append_approval env v d who u j e)"
  unfolding append_approval_def Let_def
  by (intro names_given names_after preserving preserves_draw names_write) (auto dest: bounded_strip)

lemma names_strip: "names (strip who) m \<Longrightarrow> names who m"
  by (simp add: names_def named_def)

lemma names_service:
  "names who (approve env i who x j e1 e2)" "names who (reject_version env i who x e)"
  "names who (revoke_approval env i who x e)"
proof -
  have a: "names who (append_approval env v d w u j e)" if "w = strip who" for v d w u j e
    unfolding that by (rule names_strip, rule names_append)
  show "names who (approve env i who x j e1 e2)"
    unfolding approve_def
    by (rule names_given) (intro names_after names_given preserving approvals_service a;
      simp add: bounded_strip)
  show "names who (reject_version env i who x e)" "names who (revoke_approval env i who x e)"
    unfolding reject_version_def revoke_approval_def
    by (intro names_given names_after names_append preserving)+
qed

lemma names_operations:
  "required_string q ''approver_id'' = Inr who \<Longrightarrow> names who (op_approve ix q)"
  "required_string q ''approver_id'' = Inr who \<Longrightarrow> names who (op_reject ix q)"
  "required_string q ''actor_id'' = Inr who \<Longrightarrow> names who (op_revoke ix q)"
  unfolding op_approve_def op_reject_def op_revoke_def with_string_def with_optional_def with_revision_def
    data_of_def
  by (intro names_given names_then; simp add: names_service preserving)+

subsection \<open>The descriptors of the Core\<close>

definition unconfirmed_operations :: "string list" where
  "unconfirmed_operations =
     [''report.create'', ''report.version.create'', ''report.ai-draft.ingest'', ''report.render-package.create'']"

definition approval_operations :: "string list" where
  "approval_operations = [''report.approve'', ''report.reject'', ''report.approval.revoke'']"

text \<open>The descriptors the Core registers.  Those that mutate without a confirmation are not of a
  report, or are of one of the four operations; and no descriptor names an operation on approvals by
  another name than its own.\<close>

abbreviation default_descriptors :: "tool_descriptor list" where
  "default_descriptors \<equiv> List.map descriptor_of_spec tool_descriptor_specs @
     List.map descriptor_of_schema report_descriptor_schemas"

abbreviation dashed :: "string \<Rightarrow> string" where
  "dashed n \<equiv> List.map (\<lambda>c. if c = CHR ''_'' then CHR ''-'' else c) n"

definition unconfirmed_ok :: "tool_descriptor \<Rightarrow> bool" where
  "unconfirmed_ok d \<longleftrightarrow> td_requires_confirmation d \<or> \<not> td_mutates_state d \<or>
     (case canonical_operation (td_tool_name d) of
        Inl e \<Rightarrow> True
      | Inr c \<Rightarrow> \<not> is_prefix ''report.'' c \<or> c \<in> set unconfirmed_operations)"

lemma default_unconfirmed: "list_all unconfirmed_ok default_descriptors"
  by code_simp

definition approval_aliases :: "string list" where
  "approval_aliases = filter (\<lambda>k. k \<notin> set approval_operations)
     (List.map fst (filter (\<lambda>(k, c). c \<in> set approval_operations) operation_aliases))"

lemma approval_aliases_list:
  "approval_aliases = [''apex.report.approve'', ''apex.report.reject'', ''apex.report.approval.revoke'']"
  by code_simp

definition named_once :: "string \<Rightarrow> bool" where
  "named_once n \<longleftrightarrow> n \<notin> set approval_aliases \<and> dashed n \<notin> set approval_aliases \<and>
     (dashed n \<in> set approval_operations \<longrightarrow> n \<in> set approval_operations)"

lemma default_named_once: "list_all (\<lambda>d. named_once (td_tool_name d)) default_descriptors"
  unfolding named_once_def approval_aliases_list by code_simp

lemma approval_canonical: "list_all (\<lambda>c. canonical_operation c = Inr c) approval_operations"
  by code_simp

lemma canonical_alias: "canonical_operation n = Inr c \<Longrightarrow> (n, c) \<in> set operation_aliases \<or>
    (dashed n, c) \<in> set operation_aliases"
  by (auto simp: canonical_operation_def dest: map_of_SomeD split: option.splits)

lemma named_once_canonical:
  assumes "named_once n" "canonical_operation n = Inr c" "c \<in> set approval_operations"
  shows "c = n"
proof -
  have "k \<in> set approval_aliases \<or> k \<in> set approval_operations" if "(k, c) \<in> set operation_aliases" for k
    using that assms(3) by (force simp: approval_aliases_def)
  then have "n \<in> set approval_operations"
    using canonical_alias [OF assms(2)] assms(1) unfolding named_once_def by blast
  then show ?thesis using approval_canonical assms(2) by (auto simp: list_all_iff)
qed

text \<open>The list evaluated once, for what else evaluates an invocation.\<close>

lemma mutating_list [code]: "mutating_operations =
    [''context.snapshot'', ''ai.request.create'', ''ai.request.execute'', ''ai.keyword-batch.ingest'',
     ''ai.scope-summary.ingest'', ''ai.keyword-recommendation.review'', ''ai.scope-summary.review'',
     ''ai.keyword-recommendation.promote'', ''report.create'', ''report.version.create'',
     ''report.ai-draft.ingest'', ''report.review.submit'', ''report.review.comment'',
     ''report.review.request-changes'', ''report.review.accept-section'',
     ''report.review.reject-section'', ''report.review.complete'', ''report.review.reopen'',
     ''report.approve'', ''report.reject'', ''report.approval.revoke'',
     ''report.custody-snapshot.create'', ''report.render-package.create'', ''report.export.prepare'',
     ''report.export.record-result'', ''report.archive'']"
  by code_simp

lemma read_operations:
  assumes "map_of report_operations op = Some f" "op \<notin> set mutating_operations"
  shows "f \<in> {op_get, op_list, op_version_get, op_version_list, op_version_compare, op_history,
    op_approval_get, op_snapshot_get, op_package_get, op_manifest_get, op_export_status, op_capabilities}"
  using assms(2) map_of_SomeD [OF assms(1)] unfolding mutating_list report_operations_def by auto

lemma set_saved: "set (save_engine_tool_descriptor d rows) \<subseteq> insert d (set rows)"
  by (auto simp: save_engine_tool_descriptor_def Let_def)

lemma set_fold_saved: "set (fold save_engine_tool_descriptor ds rows) \<subseteq> set ds \<union> set rows"
proof (induction ds arbitrary: rows)
  case (Cons d ds)
  then show ?case using set_saved [of d rows] by fastforce
qed simp

lemma tools_ok: "d \<in> set (snd (tools [])) \<Longrightarrow> unconfirmed_ok d \<and> named_once (td_tool_name d)"
  using set_fold_saved [of default_descriptors "[]"] default_unconfirmed default_named_once
  unfolding tools_def Let_def list_engine_tool_descriptors_def register_default_tool_descriptors_def
    list_all_iff
  by auto

lemma find_descriptor_Inr: "find_descriptor ds n = Inr d \<Longrightarrow> d \<in> set ds \<and> dget d ''tool_name'' = Some (PStr n)"
  by (induction ds n rule: find_descriptor.induct) (auto simp: dict_key_def split: if_splits option.splits)

lemma report_descriptor:
  assumes "descriptor_of (report_core ix interface from_iso) a n = Inr d"
  shows "\<exists>td. unconfirmed_ok td \<and> named_once n \<and> td_tool_name td = n \<and>
    dflag d ''requires_confirmation'' = td_requires_confirmation td \<and>
    dflag d ''mutates_state'' = td_mutates_state td"
proof -
  have "find_descriptor (List.map tool_descriptor_schema_dict (snd (tools []))) n = Inr d"
    using assms by (auto simp: descriptor_of_def list_tool_descriptors_def report_core_def)
  then obtain td where "td \<in> set (snd (tools []))" "d = tool_descriptor_schema_dict td"
    "dget d ''tool_name'' = Some (PStr n)"
    using find_descriptor_Inr by fastforce
  then show ?thesis
    using tools_ok by (auto simp: tool_descriptor_schema_dict_def dflag_def dget_or_def)
qed

subsection \<open>The reads of the Core\<close>

text \<open>What a read keeps: every table of the report service but the cache of the renderers'
  capabilities, and the ledger.\<close>

definition report_tables :: "report_state \<Rightarrow> report_state" where
  "report_tables s = s\<lparr>st_capabilities := [], st_ticks := 0, st_minted := 0\<rparr>"

lemma tables_draw: "preserves report_tables (read_clock env)" "preserves report_tables (mint_id env)"
  by (simp_all add: preserves_def read_clock_def mint_id_def report_tables_def)

lemma tables_capability: "sqlite_save_capability y s = Inr s' \<Longrightarrow> report_tables s' = report_tables s"
  by (auto simp: report_tables_def sqlite_save_capability_def)

lemma tables_minted [simp]: "report_tables (s\<lparr>st_minted := n\<rparr>) = report_tables s"
  by (simp add: report_tables_def)

lemma tables_operations: "preserves report_tables (op_capabilities ix q)"
  unfolding op_capabilities_def service_capabilities_def current_capability_def Let_def
  by (intro preserving tables_draw preserves_write; (erule tables_capability)?)+

lemma tables_read:
  assumes "map_of report_operations op = Some f" "op \<notin> set mutating_operations"
  shows "preserves report_tables (f ix q)"
  using read_operations [OF assms] tables_operations
    read_only_operations [THEN preserves_read, where f = report_tables]
  by (elim insertE emptyE) (simp_all only:)

lemma invoke_read_tables: "report_tables (fst (invoke_read ix op q i k s)) = report_tables s"
proof -
  have "report_tables (fst (report_data ix c q s)) = report_tables s" if "c \<notin> set mutating_operations" for c
    using report_data_state [of ix c q s] tables_read [OF _ that] unfolding preserves_def by metis
  then have "report_tables (fst (invoke_data ix False op q s)) = report_tables s"
    using invoke_data_state [of ix False op q s] by metis
  then show ?thesis
    using invoke_state [of ix False op q i k s] by (auto simp: invoke_read_def)
qed

interpretation report_reads: quiet_core "report_core ix interface from_iso" report_tables
  for ix interface from_iso
proof unfold_locales
  fix c tool payload rid cid c' r
  assume "co_read (report_core ix interface from_iso) c tool payload rid cid = (c', r)"
  then show "report_tables c' = report_tables c"
    using invoke_read_tables [of ix tool payload rid cid c] by (simp add: report_core_def)
qed

subsection \<open>The mutations of the Core\<close>

text \<open>A mutation of the tables is a run of the handler of the canonical operation.\<close>

lemma invoke_mutation_runs:
  assumes "f (fst (invoke_mutation ix op q i k s)) \<noteq> f s" "\<And>s n. f (s\<lparr>st_minted := n\<rparr>) = f s"
  shows "\<exists>c h. canonical_operation op = Inr c \<and> is_prefix ''report.'' c \<and>
    map_of report_operations c = Some h \<and> f (fst (invoke_mutation ix op q i k s)) = f (fst (h ix q s))"
proof -
  have run: "f (fst (invoke_mutation ix op q i k s)) = f (fst (invoke_data ix True op q s))"
    using invoke_state [of ix True op q i k s] assms(2) by (auto simp: invoke_mutation_def)
  then obtain c where c: "canonical_operation op = Inr c" "is_prefix ''report.'' c"
    "fst (invoke_data ix True op q s) = fst (report_data ix c q s)"
    using invoke_data_state [of ix True op q s] assms(1) by metis
  with run assms(1) report_data_state [of ix c q s] show ?thesis by metis
qed

lemma unconfirmed_handlers:
  assumes "map_of report_operations c = Some h" "c \<in> set unconfirmed_operations"
  shows "h \<in> {op_create, op_version_create, op_ingest, op_package_create}"
  using assms(2) map_of_SomeD [OF assms(1)] unfolding unconfirmed_operations_def report_operations_def by auto

lemma unconfirmed_mutation:
  assumes "canonical_operation op = Inr c" "\<not> is_prefix ''report.'' c \<or> c \<in> set unconfirmed_operations"
  shows "decisions (fst (invoke_mutation ix op q i k s)) = decisions s"
proof (rule ccontr)
  assume "decisions (fst (invoke_mutation ix op q i k s)) \<noteq> decisions s"
  from invoke_mutation_runs [OF this] obtain h where h: "map_of report_operations c = Some h"
    "is_prefix ''report.'' c" "decisions (fst (h ix q s)) \<noteq> decisions s"
    using assms(1) \<open>_ \<noteq> _\<close> by (auto simp: decisions_def)
  have "preserves decisions (h ix q)"
    using unconfirmed_handlers [OF h(1)] assms(2) h(2) decisions_operations by blast
  with h(3) show False by (simp add: preserves_def)
qed

lemma approval_handlers:
  assumes "map_of report_operations c = Some h" "st_approvals (fst (h ix q s)) \<noteq> st_approvals s"
  shows "c = ''report.approve'' \<and> h = op_approve \<or> c = ''report.reject'' \<and> h = op_reject \<or>
    c = ''report.approval.revoke'' \<and> h = op_revoke"
proof -
  have "\<not> preserves st_approvals (h ix q)" using assms(2) by (auto simp: preserves_def)
  moreover have "preserves st_approvals (op_capabilities ix q)"
    unfolding op_capabilities_def service_capabilities_def
    by (intro preserving approvals_service preserves_write; (erule approval_writes)?)+
  ultimately show ?thesis
    using map_of_SomeD [OF assms(1)] approvals_operations [of ix q]
      decisions_operations [of ix q, THEN approvals_of_decisions]
      read_only_operations [of ix q, THEN preserves_read, where f = st_approvals]
    unfolding report_operations_def
    by (simp only: list.set insert_iff empty_iff prod.inject simp_thms) (elim disjE conjE; simp)
qed

end
