(* ===== verification/Report_Gateway_Sample.thy ===== *)
theory Report_Gateway_Sample
  imports Report_Gateway Report_Sample
begin

section \<open>A sample call of the gateway over the report service\<close>

text \<open>
  A gateway with one tool, over the report service in a state with one version, on which the rejection
  of that version is called with a confirmation.  The state the call leaves is derived stage by
  stage, so that the redaction of the answer is not evaluated.
\<close>

definition sample_interface :: interface_env where
  "sample_interface = \<lparr>ix_report = report_sample_env, ix_float = (\<lambda>s. PyFloat None s),
     ix_has_reports = True, ix_other = (\<lambda>op q. Inr PNone)\<rparr>"

definition sample_create :: dict where
  "sample_create = [(''case_id'', PStr ''C1''), (''title'', PStr ''T''), (''created_by'', PStr ''u'')]"

subsection \<open>A call that rejects a version\<close>

lemma named_after_save: "n \<in> td_tool_name ` set rows \<Longrightarrow> n \<in> td_tool_name ` set (save_engine_tool_descriptor d rows)"
  unfolding save_engine_tool_descriptor_def Let_def by (auto simp: image_iff)

lemma named_saved: "td_tool_name d \<in> td_tool_name ` set (save_engine_tool_descriptor d rows)"
  by (auto simp: save_engine_tool_descriptor_def Let_def list_ex_iff image_iff)

lemma named_registered: "n \<in> td_tool_name ` (set ds \<union> set rows) \<Longrightarrow>
    n \<in> td_tool_name ` set (fold save_engine_tool_descriptor ds rows)"
proof (induction ds arbitrary: rows)
  case (Cons d ds)
  have "n \<in> td_tool_name ` (set ds \<union> set (save_engine_tool_descriptor d rows))"
    using Cons.prems named_saved [of d rows] named_after_save [of n rows d] by auto
  from Cons.IH [OF this] show ?case by simp
qed simp

lemma find_descriptor_some: "(\<And>d. d \<in> set ds \<Longrightarrow> \<exists>n. dget d ''tool_name'' = Some (PStr n)) \<Longrightarrow>
    d \<in> set ds \<Longrightarrow> dget d ''tool_name'' = Some (PStr n) \<Longrightarrow> \<exists>d'. find_descriptor ds n = Inr d'"
proof (induction ds)
  case (Cons e ds)
  obtain k where "dget e ''tool_name'' = Some (PStr k)" using Cons.prems(1) by force
  then show ?case using Cons by (auto simp: dict_key_def)
qed simp

lemma schema_name: "dget (tool_descriptor_schema_dict td) ''tool_name'' = Some (PStr (td_tool_name td))"
  by (simp add: tool_descriptor_schema_dict_def)

lemma core_descriptor:
  assumes "td \<in> set default_descriptors" "\<not> ad_closed a"
    and "\<And>e. e \<in> set default_descriptors \<Longrightarrow> td_tool_name e = td_tool_name td \<Longrightarrow> e = td"
  shows "descriptor_of (report_core ix interface from_iso) a (td_tool_name td) = Inr (tool_descriptor_schema_dict td)"
proof -
  let ?ds = "List.map tool_descriptor_schema_dict (snd (tools []))"
  have s: "set (snd (tools [])) = set (fold save_engine_tool_descriptor default_descriptors [])"
    by (simp add: tools_def Let_def list_engine_tool_descriptors_def register_default_tool_descriptors_def)
  have "td_tool_name td \<in> td_tool_name ` set (snd (tools []))"
    unfolding s by (rule named_registered) (use assms(1) in simp)
  then obtain e where e: "e \<in> set (snd (tools []))" "td_tool_name e = td_tool_name td" by auto
  have "\<exists>d. find_descriptor ?ds (td_tool_name td) = Inr d"
    by (rule find_descriptor_some [where d = "tool_descriptor_schema_dict e"]) (use e schema_name in auto)
  then obtain d where d: "find_descriptor ?ds (td_tool_name td) = Inr d" by blast
  then obtain x where x: "x \<in> set (snd (tools []))" "d = tool_descriptor_schema_dict x"
    "td_tool_name x = td_tool_name td"
    using find_descriptor_Inr [OF d] schema_name by auto
  have "x \<in> set default_descriptors"
    using x(1) set_fold_saved [of default_descriptors "[]"] unfolding s by (auto simp del: set_map set_append)
  then have "x = td" using assms(3) x(3) by blast
  then show ?thesis
    using d x(2) assms(2) by (simp add: descriptor_of_def list_tool_descriptors_def report_core_def ensure_open_def)
qed

definition reject_descriptor :: tool_descriptor where
  "reject_descriptor = descriptor_of_schema
     (''report.reject'', ''report-approval-record.schema.json'', ''report-approval-record.schema.json'',
      True, True, False, True, True, 1)"

lemma reject_registered: "reject_descriptor \<in> set default_descriptors"
  by (simp add: reject_descriptor_def report_descriptor_schemas_def)

lemma reject_once: "list_all (\<lambda>e. td_tool_name e = ''report.reject'' \<longrightarrow> e = reject_descriptor) default_descriptors"
  by code_simp

definition reject_binding :: tool_binding where
  "reject_binding = sample_binding\<lparr>bi_tool_name := ''report.reject'', bi_operation := ''report.reject''\<rparr>"

definition reject_tool :: registered_tool where
  "reject_tool = \<lparr>rt_descriptor = tool_descriptor_schema_dict reject_descriptor, rt_binding = reject_binding\<rparr>"

definition report_registry :: registry where
  "report_registry = \<lparr>rg_allowed_tools = [''report.reject''],
     rg_descriptors = [''report.reject'' \<mapsto> tool_descriptor_schema_dict reject_descriptor],
     rg_catalog = sample_catalog,
     rg_capabilities = \<lparr>cap_available = [''REPORT_ENGINE_CONTRACT''], cap_unavailable = []\<rparr>,
     rg_registered = Map.empty\<rparr>"

lemma reject_capable: "require_capabilities \<lparr>cap_available = [''REPORT_ENGINE_CONTRACT''], cap_unavailable = []\<rparr>
    (tool_descriptor_schema_dict reject_descriptor) = Inr ()"
  by code_simp

lemma reject_register: "register_all report_registry [reject_binding] =
    Inr (report_registry\<lparr>rg_registered := [''report.reject'' \<mapsto> reject_tool]\<rparr>)"
  using reject_capable
  by (simp add: register_tool_def Let_def report_registry_def reject_tool_def reject_binding_def
      sample_binding_def sample_catalog_def)

definition report_gateway :: "(report_state, unit) gateway" where
  "report_gateway = \<lparr>gy_registry = report_registry\<lparr>rg_registered := [''report.reject'' \<mapsto> reject_tool]\<rparr>,
     gy_core = report_core sample_interface [] (\<lambda>s. None), gy_authorize = (\<lambda>s q now. (True, s)),
     gy_frontend = None, gy_sha = sample_hash\<rparr>"

definition reject_arguments :: dict where
  "reject_arguments = [(''report_version_id'', PStr ''i1''), (''reason'', PStr ''no''), (''approver_id'', PStr ''eve'')]"

definition reject_payload :: dict where
  "reject_payload = [(''report_version_id'', PStr ''i1''), (''reason'', PStr ''no''), (''approver_id'', PStr ''ana'')]"

definition reject_print :: string where
  "reject_print = (case request_fingerprint sample_hash reject_arguments of Inr f \<Rightarrow> f | Inl e \<Rightarrow> [])"

definition reject_caller :: caller where
  "reject_caller = \<lparr>ca_actor_id = Some ''ana'', ca_session_id = Some ''s1'', ca_budget_scope = ''direct'',
     ca_confirmation = Some \<lparr>cr_grant_id = ''g'', cr_actor_id = ''ana'', cr_session_id = ''s1'', cr_case_id = [],
       cr_tool_name = ''report.reject'', cr_fingerprint = reject_print, cr_target_ids = [''i1'']\<rparr>\<rparr>"

definition report_gateway_state :: "(report_state, unit) gateway_state" where
  "report_gateway_state = \<lparr>gs_adapter = \<lparr>ad_core = sample_run 2, ad_owns = False, ad_closed = False\<rparr>,
     gs_budget = new_budget, gs_grants = ()\<rparr>"

definition with_rejection :: "report_state \<Rightarrow> bool" where
  "with_rejection s \<longleftrightarrow> st_approvals s = [] \<and>
     List.map ra_approver_id (st_approvals (fst (invoke_mutation sample_interface ''report.reject'' reject_payload
       (Some ''r1'') (Some ''k1'') s))) = [''ana'']"

lemma sample_with_rejection: "with_rejection (sample_run 2)"
  by code_simp

lemma reject_budget: "\<exists>b. begin_call new_budget ''direct'' ''report.reject'' reject_arguments 0 = (b, Inr ())"
  by (rule exI [of _ "fst (begin_call new_budget ''direct'' ''report.reject'' reject_arguments 0)"])
    (simp add: prod_eq_iff, code_simp)

lemma reject_fingerprint: "request_fingerprint sample_hash reject_arguments = Inr reject_print"
  by code_simp

lemma reject_prepared:
  "prepare ''report.reject'' reject_arguments (trusted_of reject_caller reject_print True) = Inr reject_payload"
  by (simp add: trusted_of_def reject_caller_def) code_simp

lemma reject_fields:
  "td_tool_name reject_descriptor = ''report.reject''"
  "dget (tool_descriptor_schema_dict reject_descriptor) ''tool_name'' = Some (PStr ''report.reject'')"
  "dget (tool_descriptor_schema_dict reject_descriptor) ''requires_confirmation'' = Some (PBool True)"
  "dget (tool_descriptor_schema_dict reject_descriptor) ''mutates_state'' = Some (PBool True)"
  by code_simp+

lemma reject_targets: "case_argument reject_arguments = []" "target_ids reject_arguments = [''i1'']"
  by code_simp+

lemma reject_actor: "is_authenticated_actor (Some ''ana'')"
  by code_simp

lemma core_mutate: "co_mutate (report_core ix interface from_iso) =
    (\<lambda>c tool payload rid cid. invoke_mutation ix tool payload rid cid c)"
  by (simp add: report_core_def)

lemma reject_call: "gs_adapter (fst (call_tool report_gateway sample_env report_gateway_state ''report.reject''
    reject_arguments None reject_caller)) = \<lparr>ad_core = fst (invoke_mutation sample_interface ''report.reject''
      reject_payload (Some ''r1'') (Some ''k1'') (sample_run 2)), ad_owns = False, ad_closed = False\<rparr>"
    (is "_ = ?a")
proof -
  have admit: "admit_stage report_gateway sample_env report_gateway_state ''report.reject'' reject_arguments
      reject_print None reject_caller = (report_gateway_state, Inr (reject_tool, reject_caller))"
    using reject_capable
    by (simp add: admit_stage_def report_gateway_def report_registry_def sample_catalog_def
        validate_inline_def validate_with_def reject_tool_def)
  obtain b where "begin_call new_budget ''direct'' ''report.reject'' reject_arguments 0 = (b, Inr ())"
    using reject_budget by blast
  then have budget: "budget_stage sample_env report_gateway_state ''report.reject'' reject_arguments reject_caller =
      (report_gateway_state\<lparr>gs_budget := b\<rparr>, Inr ())"
    by (simp add: budget_stage_def report_gateway_state_def sample_env_def reject_caller_def)
  have confirm: "\<exists>dec. confirm_stage report_gateway sample_env (report_gateway_state\<lparr>gs_budget := b\<rparr>) reject_tool
      ''report.reject'' reject_arguments reject_print reject_caller =
      (report_gateway_state\<lparr>gs_budget := b\<rparr>, dec, Inr True)"
    using reject_targets reject_fields
    by (simp add: confirm_stage_def gate_require_def request_expected_def reject_tool_def dict_key_def dflag_def dget_or_def
        reject_caller_def reject_actor report_gateway_def or_empty_def)
  have run: "\<exists>ri. invoke (gy_core report_gateway) (gs_adapter (report_gateway_state\<lparr>gs_budget := b\<rparr>))
      (bi_operation (rt_binding reject_tool)) reject_payload (Some (en_request_id sample_env))
      (Some (en_correlation_id sample_env)) True (en_now_context sample_env) = (?a, ri)"
  proof -
    have op: "bi_operation (rt_binding reject_tool) = ''report.reject''"
      by (simp add: reject_tool_def reject_binding_def)
    have "e = reject_descriptor" if "e \<in> set default_descriptors" "td_tool_name e = td_tool_name reject_descriptor" for e
      using reject_once that unfolding list_all_iff reject_fields(1) by blast
    from core_descriptor [OF reject_registered _ this] have d: "descriptor_of (report_core sample_interface [] (\<lambda>s. None)) a
        ''report.reject'' = Inr (tool_descriptor_schema_dict reject_descriptor)" if "\<not> ad_closed a" for a
      using that unfolding reject_fields(1) by blast
    show ?thesis
      unfolding op invoke_def
      by (simp add: report_gateway_def report_gateway_state_def d dict_key_def reject_fields check_context_def
          context_tools_def adapter_mutate_def core_mutate sample_env_def split: prod.splits)
  qed
  from confirm run show ?thesis
    using call_tool_adapter [OF _ admit budget _ reject_prepared] reject_fingerprint by (auto simp: report_gateway_def)
qed

lemma rejected: "st_approvals (ad_core (gs_adapter report_gateway_state)) = []"
  "List.map ra_approver_id (st_approvals (ad_core (gs_adapter (fst (call_tool report_gateway sample_env
     report_gateway_state ''report.reject'' reject_arguments None reject_caller))))) = [''ana'']"
  using sample_with_rejection unfolding reject_call by (simp_all add: with_rejection_def report_gateway_state_def)

end
