(* ===== verification/Json_Text_Facts.thy ===== *)
theory Json_Text_Facts
  imports Json_Text "HOL-Library.Code_Target_Nat"
begin

section \<open>Reading what was written\<close>

text \<open>
  Round trips of the codecs of the cursors: URL-safe base64 of any bytes, strict UTF-8, and JSON
  objects of one string, whatever characters the key and the value hold.
\<close>

subsection \<open>Base64\<close>

lemma b64_char_value: "list_all (\<lambda>n. b64_char n \<noteq> CHR ''='' \<and> b64_value (b64_char n) = Some n \<and>
    (of_char (b64_char n) :: nat) < 128) [0..<64]"
  by code_simp

lemma b64_chars:
  assumes "n < 64"
  shows "b64_char n \<noteq> CHR ''=''" "b64_value (b64_char n) = Some n" "(of_char (b64_char n) :: nat) < 128"
  using b64_char_value assms by (auto simp: list_all_iff)

lemma b64_scan_group:
  "v < 64 \<Longrightarrow> b64_scan 0 l p (b64_char v # r) = b64_scan 1 v 0 r"
  "v < 64 \<Longrightarrow> b64_scan 1 l p (b64_char v # r) = map_option (Cons (l * 4 + v div 16)) (b64_scan 2 (v mod 16) 0 r)"
  "v < 64 \<Longrightarrow> b64_scan 2 l p (b64_char v # r) = map_option (Cons (l * 16 + v div 4)) (b64_scan 3 (v mod 4) 0 r)"
  "v < 64 \<Longrightarrow> b64_scan 3 l p (b64_char v # r) = map_option (Cons (l * 64 + v)) (b64_scan 0 0 0 r)"
  "b64_scan 2 l 0 (CHR ''='' # CHR ''='' # r) = Some []"
  "b64_scan 3 l 0 (CHR ''='' # r) = Some []"
  by (simp_all add: b64_chars)

lemma b64_arith:
  fixes a b c :: nat
  assumes "a < 256" "b < 256" "c < 256"
  shows "a div 4 < 64" "a mod 4 * 16 < 64" "b mod 16 * 4 < 64" "c mod 64 < 64"
    "a mod 4 * 16 + b div 16 < 64" "b mod 16 * 4 + c div 64 < 64"
    "a div 4 * 4 + a mod 4 * 16 div 16 = a"
    "a div 4 * 4 + (a mod 4 * 16 + b div 16) div 16 = a"
    "(a mod 4 * 16 + b div 16) mod 16 * 16 + b mod 16 * 4 div 4 = b"
    "(a mod 4 * 16 + b div 16) mod 16 * 16 + (b mod 16 * 4 + c div 64) div 4 = b"
    "(b mod 16 * 4 + c div 64) mod 4 * 64 + c mod 64 = c"
proof -
  have d: "a div 4 < 64" "b div 16 < 16" "c div 64 < 4" using assms by (simp_all add: less_mult_imp_div_less)
  have m: "a mod 4 < 4" "b mod 16 < 16" by simp_all
  have e: "a div 4 * 4 + a mod 4 = a" "b div 16 * 16 + b mod 16 = b" "c div 64 * 64 + c mod 64 = c"
    by (rule div_mult_mod_eq)+
  show "a div 4 < 64" "a mod 4 * 16 < 64" "b mod 16 * 4 < 64" "c mod 64 < 64" using d m by simp_all
  show "a mod 4 * 16 + b div 16 < 64" "b mod 16 * 4 + c div 64 < 64" using d m by linarith+
  show "a div 4 * 4 + a mod 4 * 16 div 16 = a" using e(1) by simp
  show "a div 4 * 4 + (a mod 4 * 16 + b div 16) div 16 = a" using e(1) d(2) by simp
  have x: "(a mod 4 * 16 + b div 16) mod 16 = b div 16" using d(2) by simp
  show "(a mod 4 * 16 + b div 16) mod 16 * 16 + b mod 16 * 4 div 4 = b" unfolding x using e(2) by simp
  show "(a mod 4 * 16 + b div 16) mod 16 * 16 + (b mod 16 * 4 + c div 64) div 4 = b" unfolding x using e(2) d(3) by simp
  have "(b mod 16 * 4 + c div 64) mod 4 = c div 64" using d(3) by simp
  then show "(b mod 16 * 4 + c div 64) mod 4 * 64 + c mod 64 = c" using e(3) by simp
qed

lemma b64_scan_codes:
  assumes "a < 256" "b < 256" "c < 256"
  shows "b64_scan 0 l p (b64_char (a div 4) # b64_char (a mod 4 * 16 + b div 16) #
      b64_char (b mod 16 * 4 + c div 64) # b64_char (c mod 64) # r) =
      map_option (\<lambda>bs. a # b # c # bs) (b64_scan 0 0 0 r)"
    "b64_scan 0 l p [b64_char (a div 4), b64_char (a mod 4 * 16 + b div 16), b64_char (b mod 16 * 4), CHR ''=''] =
      Some [a, b]"
    "b64_scan 0 l p [b64_char (a div 4), b64_char (a mod 4 * 16), CHR ''='', CHR ''=''] = Some [a]"
  by (simp_all only: b64_scan_group b64_arith [OF assms] option.map_comp comp_def option.map)

lemma b64_roundtrip: "\<forall>b \<in> set bs. b < 256 \<Longrightarrow> urlsafe_b64decode (urlsafe_b64encode bs) = Some bs"
  unfolding urlsafe_b64decode_def
proof (induction bs rule: urlsafe_b64encode.induct)
  case (2 a)
  then show ?case using b64_scan_codes(3) [of a 0 0] by (simp del: b64_scan.simps)
next
  case (3 a b)
  then show ?case using b64_scan_codes(2) [of a b 0] by (simp del: b64_scan.simps)
next
  case (4 a b c r)
  then show ?case using b64_scan_codes(1) [of a b c] by (simp del: b64_scan.simps)
qed simp

lemma b64_ascii: "\<forall>b \<in> set bs. b < 256 \<Longrightarrow> is_ascii (urlsafe_b64encode bs)"
  unfolding is_ascii_def
proof (induction bs rule: urlsafe_b64encode.induct)
  case (2 a)
  then show ?case using b64_arith [of a 0 0] b64_chars(3) by auto
next
  case (3 a b)
  then show ?case using b64_arith [of a b 0] b64_chars(3) by auto
next
  case (4 a b c r)
  then show ?case using b64_arith [of a b c] b64_chars(3) by auto
qed simp

subsection \<open>UTF-8\<close>

lemma utf8_valid_append: "utf8_valid a \<Longrightarrow> utf8_valid b \<Longrightarrow> utf8_valid (a @ b)"
proof (induction a rule: utf8_valid.induct)
  case (2 a r)
  show ?case
  proof (cases "a < 128")
    case True
    then show ?thesis using 2 by simp
  next
    case a: False
    then obtain b r2 where r: "r = b # r2" using 2 by (cases r) simp_all
    show ?thesis
    proof (cases "between 194 223 a")
      case True
      then show ?thesis using 2 a r by simp
    next
      case b: False
      then obtain c r3 where r2: "r2 = c # r3" using 2 a r by (cases r2) simp_all
      show ?thesis
      proof (cases "between 224 239 a")
        case True
        then show ?thesis using 2 a b r r2 by simp
      next
        case False
        then obtain d r4 where "r3 = d # r4" using 2 a b r r2 by (cases r3) simp_all
        then show ?thesis using 2 a b False r r2 by simp
      qed
    qed
  qed
qed simp

lemma decode_codes: "utf8_valid (char_codes s) \<Longrightarrow> decode_utf8 (char_codes s) = Some s"
  by (simp add: decode_utf8_def char_codes_def comp_def)

lemma utf8_ascii: "\<forall>x \<in> set xs. x < 128 \<Longrightarrow> utf8_valid xs"
  by (induction xs) simp_all

lemma utf8_between: "between l u a \<Longrightarrow> 128 \<le> l \<Longrightarrow> \<not> a < 128"
  by (simp add: between_def)

lemma utf8_replace:
  assumes g: "\<And>a. a < 128 \<Longrightarrow> \<forall>x \<in> set (g a). x < 128" "\<And>a. \<not> a < 128 \<Longrightarrow> g a = [a]"
  shows "utf8_valid bs \<Longrightarrow> utf8_valid (concat (List.map g bs))"
proof (induction bs rule: utf8_valid.induct)
  case (2 a r)
  show ?case
  proof (cases "a < 128")
    case True
    then show ?thesis using 2 g(1) utf8_ascii utf8_valid_append by simp
  next
    case a: False
    then obtain b r2 where r: "r = b # r2" using 2 by (cases r) simp_all
    show ?thesis
    proof (cases "between 194 223 a")
      case True
      then have "\<not> b < 128" using 2 a r utf8_between by auto
      then show ?thesis using 2 a r True g(2) by simp
    next
      case b: False
      then obtain c r3 where r2: "r2 = c # r3" using 2 a r by (cases r2) simp_all
      show ?thesis
      proof (cases "between 224 239 a")
        case True
        then have "\<not> b < 128" "\<not> c < 128" using 2 a b r r2 by (auto simp: between_def split: if_splits)
        then show ?thesis using 2 a b r r2 True g(2) by simp
      next
        case False
        then obtain d r4 where r3: "r3 = d # r4" using 2 a b r r2 by (cases r3) simp_all
        then have "\<not> b < 128" "\<not> c < 128" "\<not> d < 128"
          using 2 a b False r r2 by (auto simp: between_def split: if_splits)
        then show ?thesis using 2 a b False r r2 r3 g(2) by simp
      qed
    qed
  qed
qed simp

subsection \<open>Strings in JSON\<close>

lemma digit_hex: "list_all (\<lambda>n. hex_value (digit_char n) = Some n) [0..<16]"
  by code_simp

lemma escaped_control:
  assumes "n < 32"
  shows "unicode_escape (CHR ''0'' # CHR ''0'' # hex2 n @ t) = Some ([char_of n], t)"
proof -
  have "hex_value (digit_char (n div 16)) = Some (n div 16)" "hex_value (digit_char (n mod 16)) = Some (n mod 16)"
    "hex_value (CHR ''0'') = Some 0"
    using digit_hex assms by (auto simp: list_all_iff hex_value_def)
  then show ?thesis
    using assms by (simp add: hex2_def unicode_escape_def between_def utf8_char_def)
qed

lemma escaped_chars:
  "char_of (34 :: nat) = CHR 34" "char_of (92 :: nat) = CHR 92" "char_of (10 :: nat) = CHR 10"
  "char_of (13 :: nat) = CHR 13" "char_of (9 :: nat) = CHR 9" "char_of (12 :: nat) = CHR 12"
  "char_of (8 :: nat) = CHR 8"
  by code_simp+

lemma of_char_cases:
  assumes "of_char c \<in> {34, 92, 10, 13, 9, 12, 8 :: nat}"
  shows "c \<in> {CHR 34, CHR 92, CHR 10, CHR 13, CHR 9, CHR 12, CHR 8}"
proof -
  have "of_char c \<in> (of_char :: char \<Rightarrow> nat) ` {CHR 34, CHR 92, CHR 10, CHR 13, CHR 9, CHR 12, CHR 8}"
    using assms by simp
  then show ?thesis by (simp only: image_insert image_empty insert_iff empty_iff of_char_eq_iff)
qed

lemma json_chars_escape:
  "json_chars (Suc n) (json_escape_char c @ t) = map_option (map_prod (Cons c) id) (json_chars n t)"
proof -
  have single: "map_prod (append [d]) id = map_prod (Cons d) id" for d :: char by (simp add: fun_eq_iff)
  consider "of_char c \<in> {34, 92, 10, 13, 9, 12, 8 :: nat}" | "of_char c \<notin> {34, 92, 10, 13, 9, 12, 8 :: nat}"
    "of_char c < (32 :: nat)" | "of_char c \<notin> {34, 92 :: nat}" "\<not> of_char c < (32 :: nat)" by blast
  then show ?thesis
  proof cases
    case 1
    then have "c \<in> {CHR 34, CHR 92, CHR 10, CHR 13, CHR 9, CHR 12, CHR 8}"
      by (rule of_char_cases)
    then show ?thesis
      by (elim insertE emptyE) (simp_all add: json_escape_char_def simple_escape_def escaped_chars)
  next
    case 2
    then have "json_escape_char c = [CHR 92, CHR ''u'', CHR ''0'', CHR ''0''] @ hex2 (of_char c)"
      by (simp add: json_escape_char_def Let_def)
    then show ?thesis using escaped_control [OF 2(2)] by (simp add: single)
  next
    case 3
    then have "json_escape_char c = [c]" "c \<noteq> CHR 34" "c \<noteq> CHR 92"
      by (auto simp: json_escape_char_def Let_def)
    then show ?thesis using 3 by simp
  qed
qed

lemma json_chars_body: "length s < n \<Longrightarrow> json_chars n (concat (List.map json_escape_char s) @ CHR 34 # r) = Some (s, r)"
proof (induction s arbitrary: n)
  case Nil
  then show ?case by (cases n) simp_all
next
  case (Cons c s)
  then obtain m where m: "n = Suc m" by (cases n) simp_all
  show ?case using Cons by (simp add: m json_chars_escape del: json_chars.simps)
qed

lemma escape_length: "length s \<le> length (concat (List.map json_escape_char s))"
proof (induction s)
  case (Cons c s)
  have "1 \<le> length (json_escape_char c)" by (simp add: json_escape_char_def Let_def)
  with Cons show ?case by simp
qed simp

text \<open>A text between quotes is read back.\<close>

lemma json_chars_string:
  "json_string s = CHR 34 # b \<Longrightarrow> length b \<le> n \<Longrightarrow> json_chars n (b @ r) = Some (s, r)"
  using escape_length [of s] json_chars_body [of s n r] by (auto simp: json_string_def)

lemma json_loads_object:
  "json_loads float (''{'' @ json_string k @ '':'' @ json_string v @ ''}'') = Some (PDict [(k, PStr v)])"
proof -
  obtain a b where k: "json_string k = CHR 34 # a" and v: "json_string v = CHR 34 # b" by (simp add: json_string_def)
  note strings = json_chars_string [OF k] json_chars_string [OF v]
  obtain n where n: "2 * length (''{'' @ json_string k @ '':'' @ json_string v @ ''}'') + 2 = Suc (Suc (Suc n))"
    by (simp add: k v)
  have "char_of (239 :: nat) \<noteq> CHR ''{''"
    by (auto dest: arg_cong [where f = "of_char :: char \<Rightarrow> nat"])
  then show ?thesis
    unfolding json_loads_def n
    by (simp add: k v skip_ws_def json_ws_def dict_of_pairs_def strings del: json_chars.simps)
qed

lemma digit_ascii: "list_all (\<lambda>n. (of_char (digit_char n) :: nat) < 128) [0..<16]"
  by code_simp

lemma escape_ascii: "of_char c < (128 :: nat) \<Longrightarrow> \<forall>x \<in> set (char_codes (json_escape_char c)). x < 128"
proof -
  assume c: "of_char c < (128 :: nat)"
  have "(of_char (digit_char (n div 16)) :: nat) < 128" "(of_char (digit_char (n mod 16)) :: nat) < 128"
    if "n < 32" for n using digit_ascii that by (auto simp: list_all_iff)
  with c show ?thesis by (auto simp: json_escape_char_def Let_def char_codes_def hex2_def)
qed

lemma escape_other: "\<not> of_char c < (128 :: nat) \<Longrightarrow> json_escape_char c = [c]"
  by (auto simp: json_escape_char_def Let_def)

lemma utf8_json_string:
  assumes "utf8_valid (char_codes s)"
  shows "utf8_valid (char_codes (json_string s))"
proof -
  let ?g = "\<lambda>a :: nat. if a < 128 then char_codes (json_escape_char (char_of a)) else [a]"
  have "utf8_valid (concat (List.map ?g (char_codes s)))"
  proof (rule utf8_replace [OF _ _ assms])
    show "\<forall>x \<in> set (?g a). x < 128" if "a < 128" for a
      using that escape_ascii [of "char_of a"] by simp
  qed simp
  moreover have "List.map ?g (char_codes s) = List.map (\<lambda>c. char_codes (json_escape_char c)) s"
    by (auto simp: char_codes_def escape_other)
  moreover have "char_codes (concat (List.map json_escape_char s)) =
      concat (List.map (\<lambda>c. char_codes (json_escape_char c)) s)"
    by (simp add: char_codes_def map_concat comp_def)
  ultimately have "utf8_valid (char_codes (concat (List.map json_escape_char s)))" by simp
  then have "utf8_valid (char_codes (concat (List.map json_escape_char s)) @ [34])"
    by (rule utf8_valid_append) simp
  then show ?thesis by (simp add: json_string_def char_codes_def)
qed

lemma codes_byte: "\<forall>b \<in> set (char_codes s). b < 256"
  by (simp add: char_codes_def)

end
