(* ===== verification/Report_Listing_Facts.thy ===== *)
theory Report_Listing_Facts
  imports Report_Interface_Runs Json_Text_Facts
begin

section \<open>Following the cursors of the listing\<close>

text \<open>
  A cursor is read back as the identifier it was made of, so the pages a client gets by following
  the cursors are consecutive stretches of one list: the reports of the case in the order of
  their identifiers.
\<close>

subsection \<open>Cursors\<close>

lemma cursor_roundtrip:
  assumes "utf8_valid (char_codes field)" "utf8_valid (char_codes v)"
  shows "decode_cursor float (Some (encode_cursor field v)) field = Inr (Some v)"
proof -
  let ?t = "''{'' @ json_string field @ '':'' @ json_string v @ ''}''"
  have codes: "char_codes (a @ b) = char_codes a @ char_codes b" for a b by (simp add: char_codes_def)
  have "utf8_valid (char_codes ''{'')" "utf8_valid (char_codes '':'')" "utf8_valid (char_codes ''}'')"
    by (simp_all add: char_codes_def)
  then have "utf8_valid (char_codes ?t)"
    unfolding codes by (intro utf8_valid_append utf8_json_string assms)
  then have "cursor_payload float (encode_cursor field v) = Some (PDict [(field, PStr v)])"
    using b64_ascii [OF codes_byte [of ?t]] b64_roundtrip [OF codes_byte [of ?t]] decode_codes
      json_loads_object [of float field v]
    by (simp add: cursor_payload_def encode_cursor_def)
  then show ?thesis by (simp add: decode_cursor_def dget_or_def)
qed

subsection \<open>Pages\<close>

definition listed :: "report_state \<Rightarrow> string \<Rightarrow> report_record list" where
  "listed s c = sort_key rr_report_id (filter (\<lambda>r. rr_case_id r = c) (st_reports s))"

lemma filter_beyond:
  assumes "sorted_wrt (<) (List.map f xs)" "k < length xs"
  shows "filter (\<lambda>x. f (xs ! k) < (f x :: 'b :: linorder)) xs = drop (Suc k) xs"
proof -
  have xs: "xs = take k xs @ xs ! k # drop (Suc k) xs" using assms(2) by (rule id_take_nth_drop)
  then have s: "sorted_wrt (<) (List.map f (take k xs @ xs ! k # drop (Suc k) xs))" using assms(1) by simp
  have "filter (\<lambda>x. f (xs ! k) < f x) (take k xs @ xs ! k # drop (Suc k) xs) = drop (Suc k) xs"
    using s by (auto simp: sorted_wrt_append filter_empty_conv intro!: filter_True)
  then show ?thesis using xs by simp
qed

lemma listed_strict: "distinct (List.map rr_report_id (st_reports s)) \<Longrightarrow>
    sorted_wrt (<) (List.map rr_report_id (listed s c))"
  by (auto simp: listed_def strict_sorted_iff distinct_map distinct_filter inj_on_def)

lemma rows_from_start: "sqlite_list_reports s c None n = take n (listed s c)"
  by (simp add: sqlite_list_reports_def listed_def)

lemma rows_after:
  assumes "distinct (List.map rr_report_id (st_reports s))" "k < length (listed s c)"
  shows "sqlite_list_reports s c (Some (rr_report_id (listed s c ! k))) n = take n (drop (Suc k) (listed s c))"
proof -
  let ?i = "rr_report_id (listed s c ! k)"
  have "filter (\<lambda>r. rr_case_id r = c \<and> ?i < rr_report_id r) (st_reports s) =
      filter (\<lambda>r. ?i < rr_report_id r) (filter (\<lambda>r. rr_case_id r = c) (st_reports s))"
    by (simp add: conj_commute)
  then have "sqlite_list_reports s c (Some ?i) n = take n (filter (\<lambda>r. ?i < rr_report_id r) (listed s c))"
    unfolding sqlite_list_reports_def option.case by (simp only: filter_sort [symmetric] listed_def)
  then show ?thesis by (simp only: filter_beyond [OF listed_strict [OF assms(1)] assms(2)])
qed

definition page_items :: "dict \<Rightarrow> pyval list" where
  "page_items d = (case dget d ''items'' of Some (PList xs) \<Rightarrow> xs | _ \<Rightarrow> [])"

definition page_cursor :: "dict \<Rightarrow> string option" where
  "page_cursor d = (case dget d ''page'' of
     Some (PDict p) \<Rightarrow> (case dget p ''next_cursor'' of Some (PStr c) \<Rightarrow> Some c | _ \<Rightarrow> None)
   | _ \<Rightarrow> None)"

text \<open>What a client does: ask for a page, and for the next one as long as there is a cursor, at most
  \<open>n\<close> times.\<close>

fun follow_cursors :: "(string \<Rightarrow> pyfloat) \<Rightarrow> string \<Rightarrow> int \<Rightarrow> nat \<Rightarrow> string option \<Rightarrow> report_state \<Rightarrow>
    pyval list res" where
  "follow_cursors float c m 0 cursor s = Inr []"
| "follow_cursors float c m (Suc n) cursor s =
     bind_res (snd (list_reports float c cursor m s)) (\<lambda>d.
       case page_cursor d of
         None \<Rightarrow> Inr (page_items d)
       | Some k \<Rightarrow> map_res (append (page_items d)) (follow_cursors float c m n (Some k) s))"

definition cursor_at :: "report_state \<Rightarrow> string \<Rightarrow> nat \<Rightarrow> string option" where
  "cursor_at s c k = (if k = 0 then None
     else Some (encode_cursor ''report_id'' (rr_report_id (listed s c ! (k - 1)))))"

lemma page_at:
  assumes "has_case_row s c" "1 \<le> m" "m \<le> 1000" "distinct (List.map rr_report_id (st_reports s))"
    and "\<forall>r \<in> set (st_reports s). utf8_valid (char_codes (rr_report_id r))" "k \<le> length (listed s c)"
  shows "snd (list_reports float c (cursor_at s c k) m s) =
    map_res (report_page (take (nat m + 1) (drop k (listed s c))) (nat m))
      (traverse report_record_schema_dict (take (nat m) (drop k (listed s c))))"
proof -
  have lim: "limit_value (PInt m) 1 1000 ''limit'' = Inr m" using assms(2,3) by (simp add: limit_value_def)
  have field: "utf8_valid (char_codes ''report_id'')" by (simp add: char_codes_def)
  have "\<exists>i. decode_cursor float (cursor_at s c k) ''report_id'' = Inr i \<and>
      sqlite_list_reports s c i (nat m + 1) = take (nat m + 1) (drop k (listed s c))"
  proof (cases k)
    case 0
    then show ?thesis by (simp add: cursor_at_def decode_cursor_def rows_from_start del: take_Suc)
  next
    case (Suc j)
    let ?i = "rr_report_id (listed s c ! j)"
    have j: "j < length (listed s c)" using assms(6) Suc by simp
    then have "listed s c ! j \<in> set (st_reports s)" using nth_mem [OF j] by (auto simp: listed_def)
    then have "decode_cursor float (cursor_at s c k) ''report_id'' = Inr (Some ?i)"
      using cursor_roundtrip [OF field] assms(5) by (simp add: cursor_at_def Suc)
    then show ?thesis using rows_after [OF assms(4) j] by (simp add: Suc)
  qed
  then obtain i where "decode_cursor float (cursor_at s c k) ''report_id'' = Inr i"
    "sqlite_list_reports s c i (nat m + 1) = take (nat m + 1) (drop k (listed s c))" by blast
  moreover obtain z where "db_cases (st_custody s) c = Some z" using assms(1) by (auto simp: has_case_row_def)
  ultimately show ?thesis
    using lim
    by (auto simp: list_reports_def require_case_row_def svc_defs opt_res_def min_def split: sum.splits)
qed

lemma traverse_append: "traverse f (xs @ ys) =
    bind_res (traverse f xs) (\<lambda>as. map_res (append as) (traverse f ys))"
proof (induction xs)
  case Nil
  then show ?case by (cases "traverse f ys") simp_all
next
  case (Cons x xs)
  then show ?case by (cases "f x"; cases "traverse f xs"; cases "traverse f ys") simp_all
qed

lemma page_of_rows:
  assumes "k \<le> length xs" "1 \<le> n" "length ds = length (take n (drop k xs))"
  shows "page_items (report_page (take (n + 1) (drop k xs)) n ds) = List.map PDict ds"
    "page_cursor (report_page (take (n + 1) (drop k xs)) n ds) =
      (if n < length (drop k xs) then Some (encode_cursor ''report_id'' (rr_report_id (xs ! (k + n - 1)))) else None)"
  using assms by (auto simp: report_page_def page_items_def page_cursor_def Let_def min_def)

lemma follow_page:
  assumes "has_case_row s c" "1 \<le> m" "m \<le> 1000" "distinct (List.map rr_report_id (st_reports s))"
    and "\<forall>r \<in> set (st_reports s). utf8_valid (char_codes (rr_report_id r))" "k \<le> length (listed s c)"
  shows "follow_cursors float c m (Suc n) (cursor_at s c k) s =
    bind_res (traverse report_record_schema_dict (take (nat m) (drop k (listed s c)))) (\<lambda>ds.
      if nat m < length (drop k (listed s c))
      then map_res (append (List.map PDict ds)) (follow_cursors float c m n (cursor_at s c (k + nat m)) s)
      else Inr (List.map PDict ds))"
proof (cases "traverse report_record_schema_dict (take (nat m) (drop k (listed s c)))")
  case (Inl e)
  then show ?thesis using page_at [OF assms] by simp
next
  case (Inr ds)
  have "length ds = length (take (nat m) (drop k (listed s c)))" using traverse_Inr_length [OF Inr] .
  moreover have m: "1 \<le> nat m" using assms(2) by simp
  ultimately have rows: "page_items (report_page (take (nat m + 1) (drop k (listed s c))) (nat m) ds) =
      List.map PDict ds" "page_cursor (report_page (take (nat m + 1) (drop k (listed s c))) (nat m) ds) =
      (if nat m < length (drop k (listed s c)) then cursor_at s c (k + nat m) else None)"
    using page_of_rows [OF assms(6) m, of ds] m assms(2) by (simp_all add: cursor_at_def)
  have "cursor_at s c (k + nat m) \<noteq> None" using assms(2) by (simp add: cursor_at_def)
  then show ?thesis
    unfolding follow_cursors.simps page_at [OF assms] Inr map_res.simps bind_res.simps rows
    by (auto simp del: follow_cursors.simps)
qed

end
