(* ===== verification/Report_Interface_Properties.thy ===== *)
theory Report_Interface_Properties
  imports Report_Gateway_Sample Report_Listing_Facts
begin

section \<open>What callers of the report operations are granted\<close>

text \<open>
  The guarantees of the report workflow as seen from outside the service: an invocation bound to a
  case stays in it, the pages of the listing are complete, a call of the gateway that decides about a report was confirmed, and an approval
  is in the name of the authenticated actor.
\<close>

subsection \<open>Invocations of the interface\<close>


lemma sample_create_answer:
  "List.map rr_case_id (st_reports (fst (invoke_mutation sample_interface ''report.create'' sample_create
     (Some ''r'') None report_sample_state))) = [''C1'']"
  by code_simp


text \<open>The check of the case reads \<open>report_id\<close> only: an AI draft in a nested \<open>payload\<close> that names
  no stored report passes, whatever case the draft itself names.\<close>

lemma draft_case_unchecked:
  assumes "optional_string q ''case_id'' = Inr c" "optional_string q ''report_id'' = Inr None"
  shows "require_report_case ''report.ai-draft.ingest'' q s = (s, Inr ())"
  using assms by (auto simp: require_report_case_def case_targets_def report_id_operations_def with_optional_def
      svc_bind_def svc_of_def svc_ret_def split: option.splits)

text \<open>C32: whoever follows the cursors of the listing of a case, with any page size, gets every report
  of the case exactly once, in the order of the identifiers, or the error of the first report that
  has no document; in any state the interface can reach, when identifiers are valid UTF-8.\<close>

theorem pages_cover_listing:
  assumes "interface_run sha s0 s" "no_reports s0" "has_case_row s c" "1 \<le> m" "m \<le> 1000"
    and "\<forall>r \<in> set (st_reports s). utf8_valid (char_codes (rr_report_id r))" "length (st_reports s) \<le> n"
  shows "follow_cursors float c m (Suc n) None s = map_res (List.map PDict)
    (traverse report_record_schema_dict (sort_key rr_report_id (filter (\<lambda>r. rr_case_id r = c) (st_reports s))))"
proof -
  have d: "distinct (List.map rr_report_id (st_reports s))"
    using interface_run_sound [OF assms(1,2)] by (simp add: report_inv_def reports_inv_def)
  have "follow_cursors float c m (Suc n) (cursor_at s c k) s =
      map_res (List.map PDict) (traverse report_record_schema_dict (drop k (listed s c)))"
    if "k \<le> length (listed s c)" "length (listed s c) \<le> k + n" for k n
    using that
  proof (induction n arbitrary: k)
    case 0
    then have "drop k (listed s c) = []" by simp
    then show ?case unfolding follow_page [OF assms(3-5) d assms(6) 0(1)] by simp
  next
    case (Suc n)
    let ?r = "drop k (listed s c)"
    note page = follow_page [OF assms(3-5) d assms(6) Suc.prems(1), of float "Suc n"]
    show ?case
    proof (cases "nat m < length ?r")
      case False
      then show ?thesis unfolding page by (cases "traverse report_record_schema_dict ?r") simp_all
    next
      case True
      then have k: "k + nat m \<le> length (listed s c)" "length (listed s c) \<le> k + nat m + n"
        using Suc.prems assms(4) by auto
      have r: "?r = take (nat m) ?r @ drop (k + nat m) (listed s c)"
        by (metis append_take_drop_id drop_drop add.commute)
      show ?thesis
        unfolding page using True Suc.IH [OF k] traverse_append [of report_record_schema_dict "take (nat m) ?r"
          "drop (k + nat m) (listed s c)", folded r]
        by (cases "traverse report_record_schema_dict (take (nat m) ?r)";
            cases "traverse report_record_schema_dict (drop (k + nat m) (listed s c))") simp_all
    qed
  qed
  moreover have "length (listed s c) \<le> n"
    using order.trans [OF length_filter_le assms(7)] by (simp add: listed_def)
  ultimately show ?thesis by (metis add_0 cursor_at_def drop_0 le0 listed_def)
qed

definition sample_reports :: report_state where
  "sample_reports = (let create = invoke_mutation sample_interface ''report.create'' sample_create (Some ''r'') None in
     fst (create (fst (create report_sample_state))))"

definition with_two_reports :: "report_state \<Rightarrow> bool" where
  "with_two_reports s \<longleftrightarrow> has_case_row s ''C1'' \<and> List.map rr_report_id (st_reports s) = [''i0'', ''i1''] \<and>
     list_all (\<lambda>r. utf8_valid (char_codes (rr_report_id r))) (st_reports s)"

lemma sample_with_two_reports: "with_two_reports sample_reports"
  by code_simp

lemma pages_cover_listing_witness:
  "follow_cursors (PyFloat None) ''C1'' 1 3 None sample_reports = map_res (List.map PDict)
     (traverse report_record_schema_dict (sort_key rr_report_id
       (filter (\<lambda>r. rr_case_id r = ''C1'') (st_reports sample_reports)))) \<and>
   List.map rr_report_id (st_reports sample_reports) = [''i0'', ''i1'']"
proof -
  have "interface_run sample_hash report_sample_state sample_reports"
    unfolding sample_reports_def Let_def invoke_mutation_def
    by (intro interface_call interface_start) (simp_all add: sample_interface_def report_sample_env_def)
  moreover have "has_case_row sample_reports ''C1''"
    and "\<forall>r \<in> set (st_reports sample_reports). utf8_valid (char_codes (rr_report_id r))"
    and ids: "List.map rr_report_id (st_reports sample_reports) = [''i0'', ''i1'']"
    using sample_with_two_reports by (simp_all add: with_two_reports_def list_all_iff)
  moreover have "length (st_reports sample_reports) \<le> 2"
    using arg_cong [OF ids, of length] by simp
  ultimately show ?thesis
    using pages_cover_listing [of sample_hash report_sample_state sample_reports "''C1''" 1 2 "PyFloat None"]
      sample_no_reports(1)
    by (simp add: numeral_3_eq_3 numeral_2_eq_2 del: follow_cursors.simps)
qed

subsection \<open>Calls of the gateway\<close>

lemma tables_view:
  "report_tables s = report_tables t \<Longrightarrow> decisions s = decisions t \<and> st_approvals s = st_approvals t"
  by (cases s; cases t) (simp add: report_tables_def decisions_def)

text \<open>A call that decides about a report is a confirmed run of one operation on the payload.\<close>

lemma decision_call:
  assumes core: "gy_core gy = report_core ix interface from_iso"
    and call: "call_tool gy en st tool args token ca = (st', event, r)"
    and change: "decisions (ad_core (gs_adapter st')) \<noteq> decisions (ad_core (gs_adapter st))"
  shows "\<exists>fp rt ca' granted payload s. request_fingerprint (gy_sha gy) args = Inr fp \<and>
    rg_registered (gy_registry gy) tool = Some rt \<and>
    (case token of None \<Rightarrow> ca' = ca | Some t \<Rightarrow> token_admits gy st rt tool args t ca') \<and>
    confirmed gy en st rt args fp ca' (gs_grants st') \<and>
    prepare tool args (trusted_of ca' fp granted) = Inr payload \<and>
    named_once (bi_operation (rt_binding rt)) \<and>
    report_tables s = report_tables (ad_core (gs_adapter st)) \<and>
    ad_core (gs_adapter st') = fst (invoke_mutation ix (bi_operation (rt_binding rt)) payload
      (Some (en_request_id en)) (Some (en_correlation_id en)) s)"
proof -
  have quiet: "quiet_core (gy_core gy) report_tables"
    unfolding core by (rule report_reads.quiet_core_axioms)
  have "report_tables (ad_core (gs_adapter st')) \<noteq> report_tables (ad_core (gs_adapter st))"
    using change tables_view by metis
  from call_tool_core [OF quiet call this] obtain fp rt ca' granted payload d s where
    fp: "request_fingerprint (gy_sha gy) args = Inr fp" and
    rt: "rg_registered (gy_registry gy) tool = Some rt" and
    tok: "case token of None \<Rightarrow> ca' = ca | Some t \<Rightarrow> token_admits gy st rt tool args t ca'" and
    prep: "prepare tool args (trusted_of ca' fp granted) = Inr payload" and
    d: "descriptor_of (gy_core gy) (gs_adapter st) (bi_operation (rt_binding rt)) = Inr d"
      "dflag d ''mutates_state''" "dflag d ''requires_confirmation'' \<longrightarrow> granted" and
    conf: "granted \<longrightarrow> confirmed gy en st rt args fp ca' (gs_grants st')" and
    s: "report_tables s = report_tables (ad_core (gs_adapter st))" and
    run: "ad_core (gs_adapter st') = fst (co_mutate (gy_core gy) s (bi_operation (rt_binding rt)) payload
      (Some (en_request_id en)) (Some (en_correlation_id en)))"
    unfolding core_call_justified_def by blast
  have run: "ad_core (gs_adapter st') = fst (invoke_mutation ix (bi_operation (rt_binding rt)) payload
      (Some (en_request_id en)) (Some (en_correlation_id en)) s)"
    using run by (simp add: core report_core_def)
  obtain td where td: "unconfirmed_ok td" "named_once (bi_operation (rt_binding rt))"
    "td_tool_name td = bi_operation (rt_binding rt)" "td_mutates_state td"
    "td_requires_confirmation td \<longrightarrow> granted"
    using report_descriptor [OF d(1) [unfolded core]] d(2,3) by auto
  have moved: "decisions (fst (invoke_mutation ix (bi_operation (rt_binding rt)) payload
      (Some (en_request_id en)) (Some (en_correlation_id en)) s)) \<noteq> decisions s"
    using change run tables_view [OF s] by simp
  then obtain c where c: "canonical_operation (bi_operation (rt_binding rt)) = Inr c"
    using invoke_mutation_runs [OF moved] by (auto simp: decisions_def)
  have "granted"
    using td c unconfirmed_mutation [OF c] moved by (auto simp: unconfirmed_ok_def)
  with fp rt tok prep conf td(2) s run show ?thesis by blast
qed

text \<open>C30: on a gateway over the report service, a call that adds a review event, an approval, a
  custody snapshot, an export manifest, a rendered artifact or an export audit event, or changes a
  manifest, is of a registered tool, admitted by its token, and consumed a confirmation of exactly
  this actor, session, case, tool, arguments and targets.\<close>

theorem report_decisions_confirmed:
  assumes "gy_core gy = report_core ix interface from_iso"
    and "call_tool gy en st tool args token ca = (st', event, r)"
    and "decisions (ad_core (gs_adapter st')) \<noteq> decisions (ad_core (gs_adapter st))"
  shows "\<exists>fp rt ca'. request_fingerprint (gy_sha gy) args = Inr fp \<and>
    rg_registered (gy_registry gy) tool = Some rt \<and>
    (case token of None \<Rightarrow> ca' = ca | Some t \<Rightarrow> token_admits gy st rt tool args t ca') \<and>
    confirmed gy en st rt args fp ca' (gs_grants st')"
  using decision_call [OF assms] by blast

lemma report_decisions_confirmed_witness:
  "\<exists>fp. confirmed report_gateway sample_env report_gateway_state reject_tool reject_arguments fp reject_caller
     (gs_grants (fst (call_tool report_gateway sample_env report_gateway_state ''report.reject'' reject_arguments
       None reject_caller)))"
proof -
  obtain st' event r where call: "call_tool report_gateway sample_env report_gateway_state ''report.reject''
      reject_arguments None reject_caller = (st', event, r)"
    by (cases "call_tool report_gateway sample_env report_gateway_state ''report.reject'' reject_arguments
      None reject_caller")
  have "st_approvals (ad_core (gs_adapter st')) \<noteq> st_approvals (ad_core (gs_adapter report_gateway_state))"
    using rejected unfolding call by auto
  then have changed: "decisions (ad_core (gs_adapter st')) \<noteq> decisions (ad_core (gs_adapter report_gateway_state))"
    by (auto simp: decisions_def)
  have core: "gy_core report_gateway = report_core sample_interface [] (\<lambda>s. None)"
    by (simp add: report_gateway_def)
  have tool: "rg_registered (gy_registry report_gateway) ''report.reject'' = Some reject_tool"
    by (simp add: report_gateway_def)
  from report_decisions_confirmed [OF core call changed] show ?thesis
    using tool unfolding call by auto
qed

lemma approval_fields:
  assumes "c = ''report.approve'' \<and> h = op_approve \<or> c = ''report.reject'' \<and> h = op_reject \<or>
    c = ''report.approval.revoke'' \<and> h = op_revoke"
  shows "\<exists>f. map_of trusted_actor_fields c = Some f \<and>
    (\<forall>who. required_string q f = Inr who \<longrightarrow> names who (h ix q))"
proof -
  have "map_of trusted_actor_fields ''report.approve'' = Some ''approver_id''"
    "map_of trusted_actor_fields ''report.reject'' = Some ''approver_id''"
    "map_of trusted_actor_fields ''report.approval.revoke'' = Some ''actor_id''"
    by (simp_all add: trusted_actor_fields_def)
  then show ?thesis using assms names_operations [of q _ ix] by (elim disjE conjE) simp_all
qed

text \<open>C29: on such a gateway, with a registry filled by registration, a call that changes the log of
  approvals is of one of the three tools for it, was confirmed, and appended one record, whose
  approver is the caller's authenticated actor, no machine, whatever the arguments say.\<close>

theorem approval_names_actor:
  assumes "gy_core gy = report_core ix interface from_iso"
    and "register_all rg bs = Inr (gy_registry gy)" "rg_registered rg = Map.empty"
    and "call_tool gy en st tool args token ca = (st', event, r)"
    and "st_approvals (ad_core (gs_adapter st')) \<noteq> st_approvals (ad_core (gs_adapter st))"
  shows "\<exists>fp rt ca' actor a. tool \<in> set approval_operations \<and>
    rg_registered (gy_registry gy) tool = Some rt \<and>
    (case token of None \<Rightarrow> ca' = ca | Some t \<Rightarrow> token_admits gy st rt tool args t ca') \<and>
    confirmed gy en st rt args fp ca' (gs_grants st') \<and>
    ca_actor_id ca' = Some actor \<and> is_authenticated_actor (Some actor) \<and>
    st_approvals (ad_core (gs_adapter st')) = st_approvals (ad_core (gs_adapter st)) @ [a] \<and>
    ra_approver_id a = strip actor"
proof -
  have "decisions (ad_core (gs_adapter st')) \<noteq> decisions (ad_core (gs_adapter st))"
    using assms(5) by (auto simp: decisions_def)
  from decision_call [OF assms(1,4) this] obtain fp rt ca' granted payload s where
    rt: "rg_registered (gy_registry gy) tool = Some rt" and
    tok: "case token of None \<Rightarrow> ca' = ca | Some t \<Rightarrow> token_admits gy st rt tool args t ca'" and
    conf: "confirmed gy en st rt args fp ca' (gs_grants st')" and
    prep: "prepare tool args (trusted_of ca' fp granted) = Inr payload" and
    once: "named_once (bi_operation (rt_binding rt))" and
    s: "report_tables s = report_tables (ad_core (gs_adapter st))" and
    run: "ad_core (gs_adapter st') = fst (invoke_mutation ix (bi_operation (rt_binding rt)) payload
      (Some (en_request_id en)) (Some (en_correlation_id en)) s)"
    by blast
  have op: "bi_operation (rt_binding rt) = tool"
    using registry_sound [OF assms(2,3)] rt unfolding registry_inv_def by blast
  have moved: "st_approvals (fst (invoke_mutation ix tool payload
      (Some (en_request_id en)) (Some (en_correlation_id en)) s)) \<noteq> st_approvals s"
    using assms(5) run tables_view [OF s] by (simp add: op)
  from invoke_mutation_runs [OF moved] obtain c h where c: "canonical_operation tool = Inr c"
    "map_of report_operations c = Some h"
    "st_approvals (fst (invoke_mutation ix tool payload
      (Some (en_request_id en)) (Some (en_correlation_id en)) s)) = st_approvals (fst (h ix payload s))"
    by auto
  have "st_approvals (fst (h ix payload s)) \<noteq> st_approvals s" using moved c(3) by simp
  note handler = approval_handlers [OF c(2) this]
  have "c \<in> set approval_operations" using handler by (auto simp: approval_operations_def)
  then have tool: "c = tool" using named_once_canonical once op c(1) by blast
  have "\<exists>f. map_of trusted_actor_fields tool = Some f \<and>
      (\<forall>who. required_string payload f = Inr who \<longrightarrow> names who (h ix payload))"
    using approval_fields handler unfolding tool by blast
  then obtain f where f: "map_of trusted_actor_fields tool = Some f"
    "\<And>who. required_string payload f = Inr who \<Longrightarrow> names who (h ix payload)"
    by blast
  obtain actor where actor: "tc_actor_id (trusted_of ca' fp granted) = Some actor"
    "dget payload f = Some (PStr actor)" "is_authenticated_actor (Some actor)"
    using prepared_actor [OF prep f(1)] by blast
  have "actor \<noteq> []" using actor(3) by (auto simp: is_authenticated_actor_def lower_def)
  then have "required_string payload f = Inr actor"
    using actor(2) by (cases actor) (simp_all add: required_string_def required_value_def dget_or_def payload_string_def)
  with f(2) have "named actor s (fst (h ix payload s))" unfolding names_def by blast
  with moved c(3) obtain a where "st_approvals (fst (h ix payload s)) = st_approvals s @ [a]"
    "ra_approver_id a = strip actor" unfolding named_def by auto
  then have "st_approvals (ad_core (gs_adapter st')) = st_approvals (ad_core (gs_adapter st)) @ [a]"
    using run c(3) tables_view [OF s] by (simp add: op)
  moreover have "ca_actor_id ca' = Some actor" using actor(1) by (simp add: trusted_of_def)
  moreover have "tool \<in> set approval_operations" using \<open>c \<in> _\<close> tool by simp
  ultimately show ?thesis using rt tok conf actor(3) \<open>ra_approver_id a = strip actor\<close> by blast
qed

lemma approval_names_actor_witness:
  "\<exists>a. st_approvals (ad_core (gs_adapter (fst (call_tool report_gateway sample_env report_gateway_state
     ''report.reject'' reject_arguments None reject_caller)))) = [a] \<and> ra_approver_id a = strip ''ana''"
proof -
  obtain st' event r where call: "call_tool report_gateway sample_env report_gateway_state ''report.reject''
      reject_arguments None reject_caller = (st', event, r)"
    by (cases "call_tool report_gateway sample_env report_gateway_state ''report.reject'' reject_arguments
      None reject_caller")
  have change: "st_approvals (ad_core (gs_adapter st')) \<noteq> st_approvals (ad_core (gs_adapter report_gateway_state))"
    using rejected unfolding call by auto
  have registry: "register_all report_registry [reject_binding] = Inr (gy_registry report_gateway)"
    using reject_register by (simp add: report_gateway_def)
  have "gy_core report_gateway = report_core sample_interface [] (\<lambda>s. None)"
    "rg_registered report_registry = Map.empty"
    by (simp_all add: report_gateway_def report_registry_def)
  from approval_names_actor [OF this(1) registry this(2) call change] show ?thesis
    unfolding call by (auto simp: rejected(1) reject_caller_def)
qed

end
