(* ===== verification/Spec2Isabelle.thy ===== *)
theory Spec2Isabelle
  imports Partition_Properties Custody_Properties Projection_Properties Governance_Service_Properties
    Timestamp_Facts Mcp_Gateway_Properties Auth_Properties Report_Properties
    Report_Interface_Properties
begin

text \<open>
  Verification development of the APEX digital forensic tool.

  \<^bold>\<open>The program.\<close>  APEX keeps cases, evidence and what analysts derive from them in one SQLite
  database.  The engine (\<open>src/src/apex_forensic\<close>) reads evidence images, records every handling of
  evidence in an append-only custody ledger, decides what may be given to an AI provider, and takes
  reports through review, approval and export.  A Model Context Protocol layer
  (\<open>src/src/apex_mcp\<close>) exposes engine operations as tools behind budgets, authorization,
  confirmation and redaction; a small backend (\<open>src/src/apex_backend\<close>) issues the tokens and
  confirmations it checks.  The development models these decision-making parts; what they call
  outside the repository is a parameter.

  \<^bold>\<open>Prelude.\<close>  \<open>Base\<close>: Python values, strings as UTF-8 character lists, dictionaries as association
  lists in insertion order, results as sums with the exception on the left, and the list, string and
  result lemmas the components share (\<open>guard_simps\<close>, \<open>exn_defs\<close>).  \<open>Codecs\<close>: CRC-32, UTF-16LE and
  Latin-1 decoding, hexadecimal.  \<open>Errors\<close>: the exception classes (\<open>domain/errors\<close>,
  \<open>apex_mcp/errors.py\<close>) as values.  \<open>Service_Monad\<close>: services over a store that may raise, with a
  weakest-precondition calculus (\<open>wp\<close>): a write is a transaction, and what was written before an
  exception stays.

  \<^bold>\<open>Evidence and partitions.\<close>  \<open>Evidence\<close> models the raw reader and the identity guard
  (\<open>adapters/evidence/raw.py\<close>, \<open>guarded.py\<close>) with the locale \<open>bounded_reader\<close>, interpreted on both;
  \<open>Partitions\<close> models \<open>PartitionParser\<close> (MBR, extended chain, GPT with CRCs, gaps, overlaps).
  \<open>Partition_Facts\<close> and \<open>Partition_Properties\<close>: ranges stay in the image, the list covers it, gaps
  touch nothing, overlaps are flagged in pairs, volumes are numbered, and parsing a raw image returns
  for every content.  The locales \<open>volume_invariant\<close> and \<open>parse_invariant\<close> carry an invariant of
  single volumes through the parser once.  The chain of extended boot records is a recursion with
  fuel 128, the code's own bound.

  \<^bold>\<open>Canonical form and time.\<close>  \<open>Canonical\<close>, \<open>Canonical_Facts\<close>: canonical JSON and its injectivity;
  \<open>Timestamps\<close>, \<open>Timestamp_Facts\<close>: \<open>_time.py\<close> over the proleptic Gregorian calendar, rendering and
  reading inverse for the years 1 to 9999.

  \<^bold>\<open>Custody ledger.\<close>  \<open>Custody\<close>: \<open>CustodyLedger\<close> over its ports and the SQLite tables.
  \<open>Custody_Facts\<close> states the repository contract (locale \<open>custody_store\<close>, interpreted on SQLite) and
  \<open>Custody_Properties\<close> proves over all runs that chains verify, history is kept, and that two
  verified chains with one head are equal unless SHA-256 collides.

  \<^bold>\<open>AI data governance.\<close>  \<open>Enums\<close>, \<open>Governance\<close>: policies, references and the egress decision;
  \<open>Projection\<close>: safe projections and the field redactor; \<open>Governance_Service\<close>,
  \<open>Governance_Store\<close>: the services over the tables, refining an abstract history of policies (locale
  \<open>gov_store\<close>).  The property theories show the decision equivalent to its conditions, total, and
  recorded; projections leak no secret field.

  \<^bold>\<open>MCP gateway.\<close>  \<open>Mcp_Budget\<close>, \<open>Mcp_Confirmation\<close> (locale \<open>confirmation_store\<close> on three
  providers, with interleavings of concurrent requests), \<open>Mcp_Context\<close> (argument bridge, redactor,
  error mapper), \<open>Mcp_Frontend\<close> (sessions and the authorization gate), \<open>Mcp_Gateway\<close> (registry, schema
  catalog, capability gate, engine adapter, the handler \<open>call_tool\<close>).  \<open>Mcp_Gateway_Facts\<close> states what
  the handler needs of the Core as the locale \<open>quiet_core\<close>: its reads leave as it is what \<open>view\<close> shows of its state.  The property theories show
  that what \<open>view\<close> shows changes only through a call within its budget, confirmed where the Core asks
  for it and authorized where it carries a token, and that every call is answered by a redacted envelope, unless the response schema rejects the error envelope.

  \<^bold>\<open>Backend authentication.\<close>  \<open>Auth\<close>, \<open>Auth_Properties\<close>: login, refresh rotation with reuse
  detection, logout, deactivation, tenancies, tokens and the confirmation router; refresh tokens work
  once whatever runs in between.

  \<^bold>\<open>Report workflow.\<close>  \<open>Report_Enums\<close>, \<open>Report_Model\<close>: the documents of \<open>domain/models/report.py\<close>
  with both conversions, \<open>Report_Model_Facts\<close> their round trips.  \<open>Report_Text\<close>: the validators.
  \<open>Report_Store\<close>: the SQLite tables with keys and foreign keys.  \<open>Report_Input\<close>, \<open>Report_Service\<close>,
  \<open>Report_Export\<close>: every operation of \<open>ReportService\<close> (\<open>application/services/report.py\<close>) that
  changes state.  \<open>Report_Facts\<close> states the invariant of the tables and shows it kept by each write,
  \<open>Report_Runs\<close>, \<open>Report_Export_Runs\<close> by each operation, \<open>Report_Calls\<close> by each sequence of calls
  interleaved with the ledger; \<open>Report_Typed\<close>, \<open>Report_Typed_Runs\<close> do the same for the types of the
  records and for the immutability of history; \<open>Report_Properties\<close> draws the conclusions: an export
  rests on an approval, a verified custody chain and a completed review.  \<open>Report_Sample\<close> is the run
  on which the witnesses are evaluated.

  \<^bold>\<open>Engine interface.\<close>  \<open>EngineInterfaceService\<close> (\<open>application/services/context.py\<close>) stands
  between the gateway and the services.  \<open>Engine_Interface\<close>: operation names, tool descriptors with
  their table, payload readers and answers; \<open>Json_Text\<close>, \<open>Report_Listing\<close>: the listing of reports and
  its cursors (the reader of JSON spends one unit of fuel per value and per member, and every one of
  them takes a character, so twice the length and two are enough);
  \<open>Json_Text_Facts\<close>, \<open>Report_Listing_Facts\<close>: what a cursor encodes is read back, and the pages of a
  listing are consecutive; \<open>Report_Interface\<close>: the thirty report
  operations as a table of handlers, the binding of targets to the case named, \<open>invoke_read\<close> and
  \<open>invoke_mutation\<close>.  \<open>Report_Case\<close>, \<open>Report_Case_Runs\<close>: the rows one operation may touch
  (\<open>in_case\<close>); \<open>Report_Interface_Facts\<close>, \<open>Report_Interface_Runs\<close>: that an invocation bound to a case
  touches no other, and that every invocation is a call of the service.  \<open>Report_Gateway\<close> puts the
  interface behind the gateway: it interprets \<open>quiet_core\<close> on it and shows which handlers decide about
  reports and in whose name; \<open>Report_Interface_Properties\<close> draws the conclusions from end to end, on
  the sample of \<open>Report_Gateway_Sample\<close>.

  \<^bold>\<open>Parameters.\<close>  SHA-256 and \<open>uuid5\<close> are functions; collision freedom is assumed only where a
  theorem says so.  JWT signing and verification, password hashing, JSON Schema validation, the
  Windows and Python zone database, the clocks, generated identifiers, the renderer, and the services
  of components not modelled (context snapshots, AI requests, searches, evidence descriptions) are
  arguments, unconstrained unless a hypothesis of the theorem constrains them.

  \<^bold>\<open>Approximations.\<close>  Letter case, white space and word characters are those of ASCII; text is UTF-8,
  and limits that Python states in code points count code points (\<open>py_len\<close>).  Floats keep their
  printed form.  Integers are unbounded as in Python; sectors, CRCs and bytes are words.  The requests of
  the backend are single steps: their awaits are not interleaved.  A \<open>ReportError\<close> is recognised by
  its message key, not by its class; \<open>verify_chain\<close> compares revisions as model values, so Python's
  \<open>True == 1\<close> is not reproduced; a parse takes one reading of the clock for all its volumes.

  \<^bold>\<open>Not modelled.\<close>  Parsers that are calls into libraries (browser, media, registry, event log,
  prefetch, communication, containers, pytsk3), decryption, speech and text recognition, search and
  timeline (SQLite full-text ranking), the context service and the context, view and AI operations of
  the engine interface (the argument \<open>ix_other\<close>), Python's recursion limit, the AI provider adapter, the renderer, job
  orchestration, command line, desktop, HTTP transport and routes, migrations and the tables of these
  components: their behaviour is that of libraries, of the host or of a user interface.
  \<open>PROJECT.json\<close> lists each with its reason.
\<close>

end
